(* ===== verification/Prelude.thy ===== *)
theory Prelude
  imports Main "HOL-Library.Word" "HOL-Library.Char_ord" "HOL-Library.List_Lexorder"
    "HOL-Library.Multiset"
begin

text \<open>
  What the components share: Go strings (byte sequences, here \<^typ>\<open>string\<close>) with the functions of
  package \<open>strings\<close> the program calls, Go maps with their unspecified iteration order, Go errors
  and run-time panics as values, and the generic lemmas about them.

  Strings are sequences of bytes. Case folding and white space are those of the ASCII range; the
  program folds label and annotation keys, environment names and the word \<open>true\<close>, all of which
  Kubernetes restricts to ASCII.
\<close>

named_theorems go_defs \<open>definitions of the Go run-time layer\<close>
named_theorems go_str \<open>rewrite rules for Go strings\<close>

section \<open>Strings\<close>

definition HasPrefix :: "string \<Rightarrow> string \<Rightarrow> bool" where
  "HasPrefix s p \<longleftrightarrow> take (length p) s = p"

definition TrimPrefix :: "string \<Rightarrow> string \<Rightarrow> string" where
  "TrimPrefix s p = (if HasPrefix s p then drop (length p) s else s)"

fun Join :: "string list \<Rightarrow> string \<Rightarrow> string" where
  "Join [] sep = []"
| "Join [x] sep = x"
| "Join (x # y # xs) sep = x @ sep @ Join (y # xs) sep"

definition lower :: "char \<Rightarrow> char" where
  "lower c = (let n = (of_char c :: nat) in if 65 \<le> n \<and> n \<le> 90 then char_of (n + 32) else c)"

definition ToLower :: "string \<Rightarrow> string" where
  "ToLower s = map lower s"

definition EqualFold :: "string \<Rightarrow> string \<Rightarrow> bool" where
  "EqualFold s t \<longleftrightarrow> ToLower s = ToLower t"

fun Contains :: "string \<Rightarrow> string \<Rightarrow> bool" where
  "Contains [] sub = (sub = [])"
| "Contains (c # s) sub = (HasPrefix (c # s) sub \<or> Contains s sub)"

text \<open>\<open>strings.Split\<close> by a one-byte separator, the only kind the program uses.\<close>

fun Split :: "string \<Rightarrow> char \<Rightarrow> string list" where
  "Split [] sep = [[]]"
| "Split (c # s) sep =
     (if c = sep then [] # Split s sep
      else (case Split s sep of [] \<Rightarrow> [[c]] | w # ws \<Rightarrow> (c # w) # ws))"

text \<open>\<open>strings.LastIndex\<close> of a one-byte separator: the index, or \<open>-1\<close>.\<close>

fun LastIndex :: "string \<Rightarrow> char \<Rightarrow> int" where
  "LastIndex [] sep = -1"
| "LastIndex (c # s) sep =
     (let i = LastIndex s sep in if 0 \<le> i then i + 1 else if c = sep then 0 else -1)"

definition isSpace :: "char \<Rightarrow> bool" where
  "isSpace c \<longleftrightarrow> (let n = (of_char c :: nat) in n = 32 \<or> (9 \<le> n \<and> n \<le> 13))"

definition TrimRight :: "string \<Rightarrow> string" where
  "TrimRight s = rev (dropWhile isSpace (rev s))"

definition TrimSpace :: "string \<Rightarrow> string" where
  "TrimSpace s = TrimRight (dropWhile isSpace s)"

declare HasPrefix_def [go_defs] TrimPrefix_def [go_defs] EqualFold_def [go_defs]
  ToLower_def [go_defs] TrimSpace_def [go_defs] TrimRight_def [go_defs]

subsection \<open>Decimal rendering of integers (strconv.Itoa)\<close>

definition digit :: "nat \<Rightarrow> char" where
  "digit n = char_of (n + 48)"

fun utoa :: "nat \<Rightarrow> string" where
  "utoa n = (if n < 10 then [digit n] else utoa (n div 10) @ [digit (n mod 10)])"

declare utoa.simps [simp del]

definition Itoa :: "int \<Rightarrow> string" where
  "Itoa i = (if i < 0 then ''-'' @ utoa (nat (- i)) else utoa (nat i))"

definition isDigit :: "char \<Rightarrow> bool" where
  "isDigit c \<longleftrightarrow> (let n = (of_char c :: nat) in 48 \<le> n \<and> n \<le> 57)"

definition digitVal :: "char \<Rightarrow> nat" where
  "digitVal c = of_char c - 48"

section \<open>Maps\<close>

text \<open>
  A Go map with string keys is a partial function; a nil map is \<open>None\<close> where the program can tell
  nil from empty. Reading an absent key gives the zero value. A \<open>range\<close> loop visits the entries
  in an order the language leaves open, so a function with such a loop takes the sequence of
  entries visited as an argument, and \<open>ranges m it\<close> says that \<open>it\<close> is one of the orders allowed.
\<close>

type_synonym gomap = "string \<rightharpoonup> string"
type_synonym entries = "(string \<times> string) list"

definition mapget :: "gomap \<Rightarrow> string \<Rightarrow> string" where
  "mapget m k = (case m k of None \<Rightarrow> [] | Some v \<Rightarrow> v)"

definition nilget :: "gomap option \<Rightarrow> string \<Rightarrow> string" where
  "nilget m k = (case m of None \<Rightarrow> [] | Some m' \<Rightarrow> mapget m' k)"

definition ranges :: "('k \<rightharpoonup> 'v) \<Rightarrow> ('k \<times> 'v) list \<Rightarrow> bool" where
  "ranges m it \<longleftrightarrow> distinct (map fst it) \<and> map_of it = m"

section \<open>Errors and panics\<close>

text \<open>
  The error values of the program: an API status error with its reason, a plain error
  (\<open>errors.New\<close>, or \<open>fmt.Errorf\<close> without \<open>%w\<close>), an error that wraps another
  (\<open>fmt.Errorf\<close> with \<open>%w\<close> between two texts), which keeps the inner error reachable for
  \<open>errors.As\<close>, and a package-level error variable, which is compared by identity.
\<close>

datatype reason = NotFound | AlreadyExists | Conflict | Invalid | BadRequest | InternalError
  | OtherReason

datatype goerror = StatusError reason string | ErrorString string | WrapError string goerror string
  | ErrVar string

primrec Error :: "goerror \<Rightarrow> string" where
  "Error (StatusError r msg) = msg"
| "Error (ErrorString msg) = msg"
| "Error (WrapError pre e post) = pre @ Error e @ post"
| "Error (ErrVar msg) = msg"

text \<open>\<open>apierrors.ReasonForError\<close> follows the chain of wrapped errors down to a status error.\<close>

primrec ReasonForError :: "goerror \<Rightarrow> reason" where
  "ReasonForError (StatusError r msg) = r"
| "ReasonForError (ErrorString msg) = OtherReason"
| "ReasonForError (WrapError pre e post) = ReasonForError e"
| "ReasonForError (ErrVar msg) = OtherReason"

definition IsNotFound :: "goerror \<Rightarrow> bool" where
  "IsNotFound e \<longleftrightarrow> ReasonForError e = NotFound"

definition IsConflict :: "goerror \<Rightarrow> bool" where
  "IsConflict e \<longleftrightarrow> ReasonForError e = Conflict"

text \<open>A run-time panic is a value of its own: a nil pointer dereference, a slice index out of
  range, a write to a nil map, a slice made with a negative length.\<close>

datatype gopanic = NilDeref | IndexOutOfRange | NilMapWrite | MakeSliceLen

section \<open>Lemmas on strings\<close>

lemma HasPrefix_append [simp]: "HasPrefix (p @ s) p"
  by (simp add: HasPrefix_def)

lemma HasPrefixE: "HasPrefix s p \<Longrightarrow> \<exists>t. s = p @ t"
  unfolding HasPrefix_def by (metis append_take_drop_id)

lemma HasPrefix_iff: "HasPrefix s p \<longleftrightarrow> (\<exists>t. s = p @ t)"
  using HasPrefixE HasPrefix_append by blast

lemma TrimPrefix_append [simp]: "TrimPrefix (p @ s) p = s"
  by (simp add: TrimPrefix_def)

lemma TrimPrefix_inverse: "HasPrefix s p \<Longrightarrow> p @ TrimPrefix s p = s"
  unfolding TrimPrefix_def HasPrefix_def by (metis append_take_drop_id)

lemma EqualFold_refl [simp]: "EqualFold s s"
  by (simp add: EqualFold_def)

lemma EqualFold_sym: "EqualFold s t \<Longrightarrow> EqualFold t s"
  by (simp add: EqualFold_def)

lemma Join_Cons: "xs \<noteq> [] \<Longrightarrow> Join (x # xs) sep = x @ sep @ Join xs sep"
  by (cases xs) auto

lemma Join_append:
  "xs \<noteq> [] \<Longrightarrow> ys \<noteq> [] \<Longrightarrow> Join (xs @ ys) sep = Join xs sep @ sep @ Join ys sep"
proof (induction xs)
  case (Cons x xs)
  then show ?case by (cases "xs = []") (auto simp: Join_Cons)
qed simp

lemma Split_nonempty [simp]: "Split s sep \<noteq> []"
  by (induction s) (auto split: list.splits)

lemma Split_no_sep: "w \<in> set (Split s sep) \<Longrightarrow> sep \<notin> set w"
proof (induction s arbitrary: w)
  case (Cons c s)
  then show ?case by (auto split: if_splits list.splits)
qed simp

lemma Join_Split: "Join (Split s sep) [sep] = s"
proof (induction s)
  case (Cons c s)
  obtain w ws where sp: "Split s sep = w # ws"
    using Split_nonempty by (metis neq_Nil_conv)
  show ?case
  proof (cases "c = sep")
    case True
    then show ?thesis using Cons sp by (simp add: Join_Cons)
  next
    case False
    then show ?thesis using Cons sp by (cases ws) auto
  qed
qed simp

lemma Split_single: "sep \<notin> set s \<Longrightarrow> Split s sep = [s]"
  by (induction s) auto

lemma Split_Cons_hd: "\<exists>w ws. Split s sep = w # ws"
  using Split_nonempty [of s sep] by (cases "Split s sep") auto

lemma Split_append_sep: "sep \<notin> set s \<Longrightarrow> Split (s @ sep # t) sep = s # Split t sep"
  by (induction s) auto

lemma Contains_char: "Contains s [c] \<longleftrightarrow> c \<in> set s"
  by (induction s) (auto simp: HasPrefix_def)

lemma LastIndex_bounds: "-1 \<le> LastIndex s sep \<and> LastIndex s sep < int (length s)"
  by (induction s) (auto simp: Let_def)

lemma LastIndex_none: "LastIndex s sep = -1 \<longleftrightarrow> sep \<notin> set s"
proof (induction s)
  case (Cons c s)
  then show ?case using LastIndex_bounds [of s sep] by (auto simp: Let_def)
qed simp

lemma LastIndex_nonneg: "0 \<le> LastIndex s sep \<longleftrightarrow> sep \<in> set s"
  using LastIndex_bounds [of s sep] LastIndex_none [of s sep] by auto

lemma LastIndex_append_sep: "sep \<notin> set t \<Longrightarrow> LastIndex (s @ sep # t) sep = int (length s)"
proof (induction s)
  case Nil
  then have "LastIndex t sep = -1" by (simp add: LastIndex_none)
  then show ?case by simp
next
  case (Cons c s)
  then show ?case by (simp add: Let_def)
qed

section \<open>Lemmas on maps\<close>

lemma ranges_map_of: "ranges m it \<Longrightarrow> map_of it = m"
  by (simp add: ranges_def)

lemma ranges_iff_set: "ranges m it \<Longrightarrow> (k, v) \<in> set it \<longleftrightarrow> m k = Some v"
  unfolding ranges_def by (metis map_of_eq_Some_iff)

lemma ranges_dom: "ranges m it \<Longrightarrow> fst ` set it = dom m"
  unfolding ranges_def by (metis dom_map_of_conv_image_fst)

lemma ranges_mset:
  assumes "ranges m it" and "ranges m it'"
  shows "mset it = mset it'"
proof -
  have d: "distinct it" "distinct it'"
    using assms by (auto simp: ranges_def distinct_map)
  have "set it = set it'"
    using ranges_iff_set [OF assms(1)] ranges_iff_set [OF assms(2)] by auto
  with d show ?thesis by (simp add: set_eq_iff_mset_eq_distinct)
qed

lemma ranges_filter_mset:
  "ranges m it \<Longrightarrow> ranges m it' \<Longrightarrow> mset (filter P it) = mset (filter P it')"
  by (metis mset_filter ranges_mset)

lemma nilget_Some [simp]: "nilget (Some m) k = mapget m k"
  by (simp add: nilget_def)

lemma nilget_None [simp]: "nilget None k = []"
  by (simp add: nilget_def)

lemma mapget_upd [simp]: "mapget (m(k \<mapsto> v)) k' = (if k' = k then v else mapget m k')"
  by (simp add: mapget_def)

lemma mapget_empty [simp]: "mapget Map.empty k = []"
  by (simp add: mapget_def)

section \<open>Lemmas on lists\<close>

lemma dropWhile_hd: "dropWhile P xs = y # ys \<Longrightarrow> \<not> P y"
  by (induction xs) (auto split: if_splits)

lemma TrimRight_last: "TrimRight s \<noteq> [] \<Longrightarrow> \<not> isSpace (last (TrimRight s))"
proof -
  assume ne: "TrimRight s \<noteq> []"
  then obtain y ys where yy: "dropWhile isSpace (rev s) = y # ys"
    by (cases "dropWhile isSpace (rev s)") (auto simp: TrimRight_def)
  then have "last (TrimRight s) = y" by (simp add: TrimRight_def)
  then show ?thesis using dropWhile_hd [OF yy] by simp
qed

lemma TrimRight_idem [simp]: "TrimRight (TrimRight s) = TrimRight s"
  by (simp add: TrimRight_def dropWhile_idem)

lemma TrimRight_prefix: "\<exists>t. s = TrimRight s @ t"
proof -
  have "rev s = takeWhile isSpace (rev s) @ dropWhile isSpace (rev s)" by simp
  then have "s = rev (dropWhile isSpace (rev s)) @ rev (takeWhile isSpace (rev s))"
    by (metis rev_append rev_rev_ident)
  then show ?thesis unfolding TrimRight_def by blast
qed

lemma dropWhile_TrimRight: "dropWhile isSpace s = s \<Longrightarrow> dropWhile isSpace (TrimRight s) = TrimRight s"
  using TrimRight_prefix [of s] by (cases "TrimRight s") (auto dest: dropWhile_hd)

lemma TrimSpace_idem [simp]: "TrimSpace (TrimSpace s) = TrimSpace s"
  unfolding TrimSpace_def by (simp add: dropWhile_TrimRight dropWhile_idem)

lemma set_TrimRight: "set (TrimRight s) \<subseteq> set s"
  using TrimRight_prefix [of s] by (metis Un_upper1 set_append)

lemma set_TrimSpace: "set (TrimSpace s) \<subseteq> set s"
  unfolding TrimSpace_def using set_TrimRight [of "dropWhile isSpace s"] set_dropWhileD by fastforce

lemma set_Join: "set (Join xs sep) \<subseteq> (\<Union>x \<in> set xs. set x) \<union> set sep"
proof (induction xs)
  case (Cons x xs)
  then show ?case by (cases xs) auto
qed simp

lemma Split_Join:
  assumes "xs \<noteq> []" and "\<forall>x \<in> set xs. sep \<notin> set x"
  shows "Split (Join xs [sep]) sep = xs"
  using assms
proof (induction xs)
  case (Cons x xs)
  then show ?case by (cases xs) (simp_all add: Split_single Split_append_sep)
qed simp

section \<open>Lemmas on decimal numerals\<close>

lemma of_char_digit [simp]: "n < 10 \<Longrightarrow> of_char (digit n) = (n + 48 :: nat)"
  by (simp add: digit_def)

lemma digit_facts [simp]:
  "n < 10 \<Longrightarrow> isDigit (digit n)" "n < 10 \<Longrightarrow> digitVal (digit n) = n"
  by (simp_all add: isDigit_def digitVal_def)

lemma digit_digitVal: "isDigit c \<Longrightarrow> digit (digitVal c) = c"
  by (simp add: isDigit_def digitVal_def digit_def Let_def)

lemma digitVal_less: "isDigit c \<Longrightarrow> digitVal c < 10"
  by (auto simp: isDigit_def digitVal_def Let_def)

lemma not_isDigit_dot: "\<not> isDigit CHR ''.''"
  by (simp add: isDigit_def)

lemma utoa_small: "n < 10 \<Longrightarrow> utoa n = [digit n]"
  by (simp add: utoa.simps)

lemma utoa_step: "0 < n \<Longrightarrow> d < 10 \<Longrightarrow> utoa (n * 10 + d) = utoa n @ [digit d]"
  by (subst utoa.simps) auto

lemma utoa_nonempty [simp]: "utoa n \<noteq> []"
  by (subst utoa.simps) simp

lemma utoa_digits: "c \<in> set (utoa n) \<Longrightarrow> isDigit c"
proof (induction n rule: utoa.induct)
  case (1 n)
  then show ?case by (cases "n < 10") (auto simp: utoa.simps [of n])
qed

end
