(* ===== verification/Kube_Types.thy ===== *)
theory Kube_Types
  imports Prelude
begin

text \<open>
  The Kubernetes API objects the operator reads and writes, as records with the fields the program
  touches. The remaining fields of an object are carried along as one opaque value
  (\<open>c_rest\<close>, \<open>pod_rest\<close>, \<open>om_rest\<close>), so that "every other field is unchanged" can be stated.
  Slices are lists: the program never distinguishes a nil slice from an empty one in its result.
\<close>

type_synonym opaque = string
type_synonym int32 = "32 word"
type_synonym Time = int

abbreviation (input) nilTime :: Time where
  "nilTime \<equiv> 0"

section \<open>Metadata\<close>

record TypeMeta =
  tm_Kind :: string
  tm_APIVersion :: string

record OwnerReference =
  or_APIVersion :: string
  or_Kind :: string
  or_Name :: string
  or_UID :: string
  or_Controller :: "bool option"
  or_BlockOwnerDeletion :: "bool option"

record ObjectMeta =
  om_Name :: string
  om_Namespace :: string
  om_UID :: string
  om_Labels :: "gomap option"
  om_Annotations :: "gomap option"
  om_OwnerReferences :: "OwnerReference list"
  om_DeletionTimestamp :: "Time option"
  om_rest :: opaque

definition zeroMeta :: ObjectMeta where
  "zeroMeta = \<lparr>om_Name = [], om_Namespace = [], om_UID = [], om_Labels = None,
     om_Annotations = None, om_OwnerReferences = [], om_DeletionTimestamp = None, om_rest = []\<rparr>"

text \<open>\<open>client.ObjectKey\<close>, the namespaced name of an object, and \<open>schema.GroupVersionKind\<close>.\<close>

record ObjectKey =
  ok_Namespace :: string
  ok_Name :: string

record GroupVersionKind =
  gvk_Group :: string
  gvk_Version :: string
  gvk_Kind :: string

text \<open>A custom resource: type and object metadata, a specification and a status.\<close>

record ('spec, 'status) CR =
  cr_Type :: TypeMeta
  cr_Meta :: ObjectMeta
  cr_Spec :: 'spec
  cr_Status :: 'status

abbreviation cr_Name :: "('spec, 'status) CR \<Rightarrow> string" where
  "cr_Name x \<equiv> om_Name (cr_Meta x)"

abbreviation cr_Namespace :: "('spec, 'status) CR \<Rightarrow> string" where
  "cr_Namespace x \<equiv> om_Namespace (cr_Meta x)"

definition cr_key :: "('spec, 'status) CR \<Rightarrow> ObjectKey" where
  "cr_key x = \<lparr>ok_Namespace = cr_Namespace x, ok_Name = cr_Name x\<rparr>"

section \<open>Core objects\<close>

text \<open>The \<open>ValueFrom\<close> pointer of an environment variable keeps its address beside the value it
  points to, because printing the variable with \<open>%v\<close> prints the address.\<close>

record EnvVar =
  ev_Name :: string
  ev_Value :: string
  ev_ValueFrom :: "(nat \<times> opaque) option"

definition EnvVarOf :: "string \<Rightarrow> string \<Rightarrow> EnvVar" where
  "EnvVarOf n v = \<lparr>ev_Name = n, ev_Value = v, ev_ValueFrom = None\<rparr>"

record VolumeMount =
  vm_Name :: string
  vm_MountPath :: string
  vm_SubPath :: string

text \<open>Of a volume's source the program sets \<open>EmptyDir\<close> and reads and sets \<open>ConfigMap\<close> (its name).\<close>

record Volume =
  vol_Name :: string
  vol_EmptyDir :: "unit option"
  vol_ConfigMap :: "string option"
  vol_rest :: opaque

text \<open>A resource list: resource name and quantity, the quantity as its JSON text.\<close>

type_synonym ResourceList = "(string \<times> string) list"

record Container =
  c_Name :: string
  c_Image :: string
  c_Command :: "string list"
  c_Args :: "string list"
  c_Env :: "EnvVar list"
  c_VolumeMounts :: "VolumeMount list"
  c_Limits :: "ResourceList option"
  c_Requests :: "ResourceList option"
  c_rest :: opaque

definition zeroEnvVar :: EnvVar where
  "zeroEnvVar = EnvVarOf [] []"

definition zeroVolumeMount :: VolumeMount where
  "zeroVolumeMount = \<lparr>vm_Name = [], vm_MountPath = [], vm_SubPath = []\<rparr>"

definition zeroVolume :: Volume where
  "zeroVolume = \<lparr>vol_Name = [], vol_EmptyDir = None, vol_ConfigMap = None, vol_rest = []\<rparr>"

definition zeroContainer :: Container where
  "zeroContainer = \<lparr>c_Name = [], c_Image = [], c_Command = [], c_Args = [], c_Env = [],
     c_VolumeMounts = [], c_Limits = None, c_Requests = None, c_rest = []\<rparr>"

record Pod =
  pod_Meta :: ObjectMeta
  pod_InitContainers :: "Container list"
  pod_Containers :: "Container list"
  pod_Volumes :: "Volume list"
  pod_rest :: opaque

abbreviation pod_Labels :: "Pod \<Rightarrow> gomap option" where
  "pod_Labels p \<equiv> om_Labels (pod_Meta p)"

abbreviation pod_Annotations :: "Pod \<Rightarrow> gomap option" where
  "pod_Annotations p \<equiv> om_Annotations (pod_Meta p)"

definition setAnnotations :: "gomap option \<Rightarrow> Pod \<Rightarrow> Pod" where
  "setAnnotations a p = p\<lparr>pod_Meta := (pod_Meta p)\<lparr>om_Annotations := a\<rparr>\<rparr>"

lemma setAnnotations_sel [simp]:
  "pod_Annotations (setAnnotations a p) = a"
  "pod_Labels (setAnnotations a p) = pod_Labels p"
  "pod_InitContainers (setAnnotations a p) = pod_InitContainers p"
  "pod_Containers (setAnnotations a p) = pod_Containers p"
  "pod_Volumes (setAnnotations a p) = pod_Volumes p"
  "pod_rest (setAnnotations a p) = pod_rest p"
  by (simp_all add: setAnnotations_def)

lemma setAnnotations_twice [simp]: "setAnnotations a (setAnnotations b p) = setAnnotations a p"
  by (simp add: setAnnotations_def)

lemma setAnnotations_same [simp]: "pod_Annotations p = a \<Longrightarrow> setAnnotations a p = p"
  by (cases p) (auto simp: setAnnotations_def)

text \<open>Deployments, stateful sets, services, config maps, secrets: what the controllers read of them
  and write to them.\<close>

type_synonym DeploymentCondition = opaque

record StatefulSetCondition =
  ssc_Type :: string
  ssc_Status :: string
  ssc_LastTransitionTime :: Time
  ssc_Reason :: string

record Deployment =
  dep_Meta :: ObjectMeta
  dep_TemplateLabels :: "gomap option"
  dep_Containers :: "Container list"
  dep_Volumes :: "Volume list"
  dep_Conditions :: "DeploymentCondition list"
  dep_AvailableReplicas :: int32
  dep_rest :: opaque

definition zeroDeployment :: Deployment where
  "zeroDeployment = \<lparr>dep_Meta = zeroMeta, dep_TemplateLabels = None, dep_Containers = [],
     dep_Volumes = [], dep_Conditions = [], dep_AvailableReplicas = 0, dep_rest = []\<rparr>"

record StatefulSet =
  sts_Meta :: ObjectMeta
  sts_Replicas :: int32
  sts_ReadyReplicas :: int32
  sts_rest :: opaque

definition zeroStatefulSet :: StatefulSet where
  "zeroStatefulSet = \<lparr>sts_Meta = zeroMeta, sts_Replicas = 0, sts_ReadyReplicas = 0, sts_rest = []\<rparr>"

record KService =
  svc_Meta :: ObjectMeta
  svc_IngressIPs :: "string list"
  svc_Ports :: "int32 list"
  svc_rest :: opaque

definition zeroService :: KService where
  "zeroService = \<lparr>svc_Meta = zeroMeta, svc_IngressIPs = [], svc_Ports = [], svc_rest = []\<rparr>"

record ConfigMap =
  cm_Meta :: ObjectMeta
  cm_Data :: gomap
  cm_Immutable :: "bool option"

definition zeroConfigMap :: ConfigMap where
  "zeroConfigMap = \<lparr>cm_Meta = zeroMeta, cm_Data = Map.empty, cm_Immutable = None\<rparr>"

text \<open>A secret's data is kept as its entries in the order a \<open>range\<close> loop visits them.\<close>

record Secret =
  sec_Meta :: ObjectMeta
  sec_Type :: string
  sec_Data :: entries

definition zeroSecret :: Secret where
  "zeroSecret = \<lparr>sec_Meta = zeroMeta, sec_Type = [], sec_Data = []\<rparr>"

end
