(* ===== verification/Api_Types.thy ===== *)
theory Api_Types
  imports Kube_Types
begin

text \<open>
  The custom resources of \<open>operator/apis/operator/v1alpha1\<close>: one record per struct of the
  \<open>*_types.go\<close> files and of \<open>common.go\<close>, with every field. Fields whose type belongs to
  Kubernetes and that no Go code reads (affinity, volume claims, resources, ingress TLS) are opaque.
\<close>

section \<open>common.go\<close>

text \<open>\<open>ServiceType\<close> is a string type with three named constants.\<close>

type_synonym ServiceType = string

definition ServiceTypeClusterIP :: ServiceType where
  "ServiceTypeClusterIP = ''ClusterIP''"

definition ServiceTypeNodePort :: ServiceType where
  "ServiceTypeNodePort = ''NodePort''"

definition ServiceTypeLoadBalancer :: ServiceType where
  "ServiceTypeLoadBalancer = ''LoadBalancer''"

record ServiceTemplate =
  stpl_ClusterIP :: string
  stpl_Type :: ServiceType
  stpl_ExternalIPs :: "string list"
  stpl_LoadBalancerIP :: string
  stpl_LoadBalancerSourceRanges :: "string list"

record Ingress =
  ing_Annotations :: "gomap option"
  ing_Host :: string
  ing_IngressClassName :: "string option"
  ing_TLS :: "opaque list"

record Service =
  svcs_Template :: ServiceTemplate
  svcs_Ingress :: Ingress

section \<open>Storage\<close>

record UserSpec =
  us_SecretName :: string

record SecuritySpec =
  sec_TLS :: bool
  sec_User :: UserSpec

record Resource =
  res_Limit :: string
  res_Requests :: string

record StorageSpec =
  sto_Type :: string
  sto_ConnectType :: string
  sto_ConnectAddress :: string
  sto_Version :: string
  sto_Image :: string
  sto_Instances :: int32
  sto_Security :: SecuritySpec
  sto_ServiceName :: string
  sto_Config :: "EnvVar list"
  sto_ResourceCnfig :: Resource

record StorageStatus =
  stos_Conditions :: "StatefulSetCondition list"

type_synonym Storage = "(StorageSpec, StorageStatus) CR"

section \<open>OAPServer\<close>

record RelevantStorage =
  rs_Name :: string
  rs_Storage :: "Storage option"

record OAPServerSpec =
  oap_Version :: string
  oap_Image :: string
  oap_Instances :: int32
  oap_Config :: "EnvVar list"
  oap_Service :: Service
  oap_StorageConfig :: "RelevantStorage option"

record OAPServerStatus =
  oaps_AvailableReplicas :: int32
  oaps_Address :: string
  oaps_Conditions :: "DeploymentCondition list"

type_synonym OAPServer = "(OAPServerSpec, OAPServerStatus) CR"

section \<open>UI\<close>

record UISpec =
  ui_Kind :: string
  ui_Version :: string
  ui_Image :: string
  ui_Instances :: int32
  ui_OAPServerAddress :: string
  ui_OAPServerAdminAddress :: string
  ui_OAPServerZipkinAddress :: string
  ui_Config :: string
  ui_Service :: Service

record UIStatus =
  uis_AvailableReplicas :: int32
  uis_ExternalIPs :: "string list"
  uis_Ports :: "int32 list"
  uis_InternalAddress :: string
  uis_Conditions :: "DeploymentCondition list"

type_synonym UI = "(UISpec, UIStatus) CR"

section \<open>Satellite\<close>

record SatelliteSpec =
  sat_Version :: string
  sat_Image :: string
  sat_Instances :: int32
  sat_Config :: "EnvVar list"
  sat_Service :: Service
  sat_OAPServerName :: string

record SatelliteStatus =
  sats_AvailableReplicas :: int32
  sats_Address :: string
  sats_Conditions :: "DeploymentCondition list"

type_synonym Satellite = "(SatelliteSpec, SatelliteStatus) CR"

section \<open>BanyanDB\<close>

record StorageConfig =
  scf_Name :: string
  scf_Path :: string
  scf_PersistentVolumeClaimSpec :: opaque

record BanyanDBSpec =
  bdb_Version :: string
  bdb_Counts :: int
  bdb_Image :: string
  bdb_Affinity :: opaque
  bdb_Config :: "string list"
  bdb_HTTPSvc :: Service
  bdb_GRPCSvc :: Service
  bdb_Storages :: "StorageConfig list"

record BanyanDBStatus =
  bdbs_AvailableReplicas :: int32
  bdbs_Conditions :: "DeploymentCondition list"

type_synonym BanyanDB = "(BanyanDBSpec, BanyanDBStatus) CR"

section \<open>EventExporter\<close>

record EventExporterSpec =
  ee_Version :: string
  ee_Image :: string
  ee_Replicas :: int32
  ee_Config :: string

record EventExporterStatus =
  ees_AvailableReplicas :: int32
  ees_Conditions :: "DeploymentCondition list"
  ees_ConfigMapName :: string

type_synonym EventExporter = "(EventExporterSpec, EventExporterStatus) CR"

section \<open>Fetcher\<close>

record FetcherSpec =
  fet_Type :: "string list"
  fet_OAPServerAddress :: string
  fet_ClusterName :: string

record FetcherCondition =
  fc_Type :: string
  fc_Status :: string
  fc_LastUpdateTime :: Time
  fc_LastTransitionTime :: Time
  fc_Message :: string

record FetcherStatus =
  fets_Replicas :: int32
  fets_Conditions :: "FetcherCondition list"

type_synonym Fetcher = "(FetcherSpec, FetcherStatus) CR"

definition FetcherConditionTypeRead :: string where
  "FetcherConditionTypeRead = ''Ready''"

definition FetcherTypePrometheus :: string where
  "FetcherTypePrometheus = ''prometheus''"

text \<open>\<open>GetType\<close>: the result slice is made with \<open>len(f.Type)\<close> empty strings and the types are
  appended after them.\<close>

definition GetType :: "FetcherSpec \<Rightarrow> string list" where
  "GetType f =
     (let result = replicate (length (fet_Type f)) []
      in foldl (\<lambda>r t. r @ [t]) result (fet_Type f))"

section \<open>JavaAgent\<close>

record JavaAgentSpec =
  ja_PodSelector :: string
  ja_ServiceName :: string
  ja_BackendService :: string
  ja_AgentConfiguration :: "gomap option"

record JavaAgentStatus =
  jas_ExpectedInjectedNum :: int
  jas_RealInjectedNum :: int
  jas_CreationTime :: Time
  jas_LastUpdateTime :: Time

type_synonym JavaAgent = "(JavaAgentSpec, JavaAgentStatus) CR"

section \<open>OAPServerConfig and OAPServerDynamicConfig\<close>

record FileConfig =
  fcf_Name :: string
  fcf_Path :: string
  fcf_Data :: string

record OAPServerConfigSpec =
  osc_Version :: string
  osc_Env :: "EnvVar list"
  osc_File :: "FileConfig list"

record OAPServerConfigStatus =
  oscs_Desired :: int
  oscs_Ready :: int
  oscs_CreationTime :: Time
  oscs_LastUpdateTime :: Time

type_synonym OAPServerConfig = "(OAPServerConfigSpec, OAPServerConfigStatus) CR"

record Config =
  cfg_Name :: string
  cfg_Value :: string

record OAPServerDynamicConfigSpec =
  odc_Version :: string
  odc_LabelSelector :: string
  odc_Data :: "Config list"

record OAPServerDynamicConfigStatus =
  odcs_State :: string
  odcs_CreationTime :: Time
  odcs_LastUpdateTime :: Time

type_synonym OAPServerDynamicConfig = "(OAPServerDynamicConfigSpec, OAPServerDynamicConfigStatus) CR"

section \<open>SwAgent\<close>

record JavaSidecar =
  js_Name :: string
  js_Image :: string
  js_Command :: "string list"
  js_Args :: "string list"
  js_Resources :: opaque
  js_Env :: "EnvVar list"

text \<open>The selector of a \<open>SwAgent\<close> is only ranged over, so it is kept as its entries in the order
  of the loop.\<close>

record SwAgentSpec =
  swa_Selector :: "entries option"
  swa_ContainerMatcher :: string
  swa_JavaSidecar :: JavaSidecar
  swa_SharedVolumeName :: string
  swa_OptionalPlugins :: "string list"
  swa_OptionalReporterPlugins :: "string list"
  swa_BootstrapPlugins :: "string list"

record SwAgentStatus =
  swas_CreationTime :: Time
  swas_LastUpdateTime :: Time

record SharedVolume =
  shv_Name :: string
  shv_MountPath :: string

type_synonym SwAgent = "(SwAgentSpec, SwAgentStatus) CR"

text \<open>The list types of the API: their items.\<close>

type_synonym SwAgentList = "SwAgent list"
type_synonym OAPServerList = "OAPServer list"
type_synonym OAPServerDynamicConfigList = "OAPServerDynamicConfig list"

section \<open>groupversion_info.go\<close>

definition GroupVersion :: "string \<times> string" where
  "GroupVersion = (''operator.skywalking.apache.org'', ''v1alpha1'')"

definition WithKind :: "string \<times> string \<Rightarrow> string \<Rightarrow> GroupVersionKind" where
  "WithKind gv k = \<lparr>gvk_Group = fst gv, gvk_Version = snd gv, gvk_Kind = k\<rparr>"

lemma append_each: "foldl (\<lambda>r t. r @ [t]) acc xs = acc @ xs"
  by (induction xs arbitrary: acc) auto

text \<open>The type list of a fetcher is returned behind as many empty strings as it has entries:
  the result has twice the length of the declared types and starts with empty strings.\<close>

theorem GetType_padded:
  "GetType f = replicate (length (fet_Type f)) [] @ fet_Type f"
  by (simp add: GetType_def append_each)

end
