(* ===== verification/Webhooks.thy ===== *)
theory Webhooks
  imports Api_Types
begin

text \<open>
  The admission webhooks of \<open>operator/apis/operator/v1alpha1/*_webhook.go\<close>: for each kind its
  \<open>Default\<close>, \<open>validate\<close> and the three validator entry points. \<open>Default\<close> returns the defaulted
  object or the panic it raises. A validator returns its error; the warnings are always nil.
  \<open>ValidateUpdate\<close> takes the objects in the order the admission framework passes them, the stored
  object first and the submitted one second.

  The contract a defaulter and a validator keep together is the locale \<open>admission_webhook\<close>,
  interpreted for every kind.
\<close>

named_theorems webhook_defs \<open>defaulters and validators\<close>

text \<open>The recurring statement of the defaulters: \<open>if x == "" { x = d }\<close> on strings, and the same
  on slices, where it reads \<open>if len(x) == 0\<close>.\<close>

definition orDefault :: "'a list \<Rightarrow> 'a list \<Rightarrow> 'a list" where
  "orDefault x d = (if x = [] then d else x)"

lemma orDefault_simps [simp]:
  "d \<noteq> [] \<Longrightarrow> orDefault x d \<noteq> []"
  "x \<noteq> [] \<Longrightarrow> orDefault x d = x"
  "orDefault [] d = d"
  "orDefault x d = [] \<longleftrightarrow> x = [] \<and> d = []"
  "orDefault (orDefault x d) d = orDefault x d"
  by (auto simp: orDefault_def)

section \<open>common.go\<close>

definition ServiceTemplate_Default :: "ServiceTemplate \<Rightarrow> ServiceTemplate" where
  "ServiceTemplate_Default s = s\<lparr>stpl_Type := orDefault (stpl_Type s) ServiceTypeClusterIP\<rparr>"

text \<open>The \<open>%v\<close> rendering of a slice of strings and of a service template.\<close>

definition fmtSlice :: "string list \<Rightarrow> string" where
  "fmtSlice xs = ''['' @ Join xs '' '' @ '']''"

definition fmtServiceTemplate :: "ServiceTemplate \<Rightarrow> string" where
  "fmtServiceTemplate s =
     ''{'' @ Join [stpl_ClusterIP s, stpl_Type s, fmtSlice (stpl_ExternalIPs s),
       stpl_LoadBalancerIP s, fmtSlice (stpl_LoadBalancerSourceRanges s)] '' '' @ ''}''"

definition ServiceTemplate_Validate :: "ServiceTemplate \<Rightarrow> goerror option" where
  "ServiceTemplate_Validate s =
     (if stpl_Type s = []
      then Some (ErrorString (''failed to get service type:'' @ fmtServiceTemplate s)) else None)"

declare ServiceTemplate_Default_def [webhook_defs] ServiceTemplate_Validate_def [webhook_defs]

section \<open>BanyanDB\<close>

definition BanyanDB_Default :: "BanyanDB \<Rightarrow> gopanic + BanyanDB" where
  "BanyanDB_Default b =
     (let sp = cr_Spec b;
          sp = sp\<lparr>bdb_Version := orDefault (bdb_Version sp) ''latest''\<rparr>;
          sp = sp\<lparr>bdb_Image := orDefault (bdb_Image sp)
                     (''apache/skywalking-banyandb:'' @ bdb_Version sp)\<rparr>;
          sp = sp\<lparr>bdb_Counts := (if bdb_Counts sp = 0 then 1 else bdb_Counts sp)\<rparr>
      in Inr (b\<lparr>cr_Spec := sp\<rparr>))"

definition BanyanDB_validate :: "BanyanDB \<Rightarrow> goerror option" where
  "BanyanDB_validate b =
     (if bdb_Image (cr_Spec b) = [] then Some (ErrorString ''image is absent'')
      else if bdb_Counts (cr_Spec b) \<noteq> 1
      then Some (ErrorString ''banyandb only support 1 copy for now'') else None)"

definition BanyanDB_ValidateCreate :: "BanyanDB \<Rightarrow> goerror option" where
  "BanyanDB_ValidateCreate b = BanyanDB_validate b"

definition BanyanDB_ValidateUpdate :: "BanyanDB \<Rightarrow> BanyanDB \<Rightarrow> goerror option" where
  "BanyanDB_ValidateUpdate old new = BanyanDB_validate old"

definition BanyanDB_ValidateDelete :: "BanyanDB \<Rightarrow> goerror option" where
  "BanyanDB_ValidateDelete b = BanyanDB_validate b"

declare BanyanDB_Default_def [webhook_defs] BanyanDB_validate_def [webhook_defs]

section \<open>EventExporter\<close>

definition EventExporter_Default :: "EventExporter \<Rightarrow> gopanic + EventExporter" where
  "EventExporter_Default e =
     (let sp = cr_Spec e;
          sp = sp\<lparr>ee_Version := orDefault (ee_Version sp) ''latest''\<rparr>;
          sp = sp\<lparr>ee_Image := orDefault (ee_Image sp)
                     (''apache/skywalking-kubernetes-event-exporter:'' @ ee_Version sp)\<rparr>;
          sp = sp\<lparr>ee_Replicas := (if ee_Replicas sp = 0 then 1 else ee_Replicas sp)\<rparr>
      in Inr (e\<lparr>cr_Spec := sp\<rparr>))"

definition EventExporter_validate :: "EventExporter \<Rightarrow> goerror option" where
  "EventExporter_validate e =
     (if ee_Image (cr_Spec e) = [] then Some (ErrorString ''image is absent'') else None)"

definition EventExporter_ValidateCreate :: "EventExporter \<Rightarrow> goerror option" where
  "EventExporter_ValidateCreate e = EventExporter_validate e"

definition EventExporter_ValidateUpdate :: "EventExporter \<Rightarrow> EventExporter \<Rightarrow> goerror option" where
  "EventExporter_ValidateUpdate old new = EventExporter_validate old"

definition EventExporter_ValidateDelete :: "EventExporter \<Rightarrow> goerror option" where
  "EventExporter_ValidateDelete e = None"

declare EventExporter_Default_def [webhook_defs] EventExporter_validate_def [webhook_defs]

section \<open>Fetcher\<close>

definition Fetcher_Default :: "Fetcher \<Rightarrow> gopanic + Fetcher" where
  "Fetcher_Default f =
     Inr (f\<lparr>cr_Spec := (cr_Spec f)\<lparr>fet_ClusterName :=
            orDefault (fet_ClusterName (cr_Spec f)) (cr_Name f)\<rparr>\<rparr>)"

definition Fetcher_validate :: "Fetcher \<Rightarrow> goerror option" where
  "Fetcher_validate f =
     (if fet_ClusterName (cr_Spec f) = [] then Some (ErrorString ''cluster name is absent'') else None)"

definition Fetcher_ValidateCreate :: "Fetcher \<Rightarrow> goerror option" where
  "Fetcher_ValidateCreate f = Fetcher_validate f"

definition Fetcher_ValidateUpdate :: "Fetcher \<Rightarrow> Fetcher \<Rightarrow> goerror option" where
  "Fetcher_ValidateUpdate old new = Fetcher_validate old"

definition Fetcher_ValidateDelete :: "Fetcher \<Rightarrow> goerror option" where
  "Fetcher_ValidateDelete f = None"

declare Fetcher_Default_def [webhook_defs] Fetcher_validate_def [webhook_defs]

section \<open>JavaAgent\<close>

definition ServiceName :: string where
  "ServiceName = ''agent.service_name''"

definition BackendService :: string where
  "BackendService = ''collector.backend_service''"

definition GetServiceName :: "gomap \<Rightarrow> string" where
  "GetServiceName configuration =
     (case configuration ServiceName of None \<Rightarrow> ''Your_ApplicationName'' | Some v \<Rightarrow> v)"

definition GetBackendService :: "gomap \<Rightarrow> string" where
  "GetBackendService configuration =
     (case configuration BackendService of None \<Rightarrow> ''127.0.0.1:11800'' | Some v \<Rightarrow> v)"

definition JavaAgent_Default :: "JavaAgent \<Rightarrow> gopanic + JavaAgent" where
  "JavaAgent_Default j =
     (case ja_AgentConfiguration (cr_Spec j) of
        None \<Rightarrow> Inr j
      | Some config \<Rightarrow>
          (let service = GetServiceName config;
               backend = GetBackendService config;
               sp = cr_Spec j;
               sp = sp\<lparr>ja_ServiceName := (if ja_ServiceName sp = [] \<and> service \<noteq> []
                                          then service else ja_ServiceName sp)\<rparr>;
               sp = sp\<lparr>ja_BackendService := (if ja_BackendService sp = [] \<and> backend \<noteq> []
                                             then backend else ja_BackendService sp)\<rparr>
           in Inr (j\<lparr>cr_Spec := sp\<rparr>)))"

definition JavaAgent_validate :: "JavaAgent \<Rightarrow> goerror option" where
  "JavaAgent_validate j =
     (if ja_ServiceName (cr_Spec j) = [] then Some (ErrorString ''service name is absent'')
      else if ja_BackendService (cr_Spec j) = []
      then Some (ErrorString ''backend service is absent'') else None)"

definition JavaAgent_ValidateCreate :: "JavaAgent \<Rightarrow> goerror option" where
  "JavaAgent_ValidateCreate j = JavaAgent_validate j"

definition JavaAgent_ValidateUpdate :: "JavaAgent \<Rightarrow> JavaAgent \<Rightarrow> goerror option" where
  "JavaAgent_ValidateUpdate old new = JavaAgent_validate old"

definition JavaAgent_ValidateDelete :: "JavaAgent \<Rightarrow> goerror option" where
  "JavaAgent_ValidateDelete j = None"

declare JavaAgent_Default_def [webhook_defs] JavaAgent_validate_def [webhook_defs]

section \<open>OAPServer and Satellite\<close>

definition annotationKeyIstioSetup :: string where
  "annotationKeyIstioSetup = ''istio-setup-command''"

definition istioSetup :: "string \<Rightarrow> string \<Rightarrow> string" where
  "istioSetup name namespace =
     ''istioctl install --set profile=demo --set meshConfig.defaultConfig.envoyAccessLogService.address=''
     @ name @ ''.'' @ namespace @ '':11800 --set meshConfig.enableEnvoyAccessLogService=true''"

text \<open>Writing the annotation panics when the object has no annotation map.\<close>

definition setIstio :: "('a, 'b) CR \<Rightarrow> gopanic + ('a, 'b) CR" where
  "setIstio x =
     (case om_Annotations (cr_Meta x) of
        None \<Rightarrow> Inl NilMapWrite
      | Some m \<Rightarrow> Inr (x\<lparr>cr_Meta := (cr_Meta x)\<lparr>om_Annotations :=
            Some (m(annotationKeyIstioSetup \<mapsto> istioSetup (cr_Name x) (cr_Namespace x)))\<rparr>\<rparr>))"

fun OAPServer_DefaultLoop :: "EnvVar list \<Rightarrow> OAPServer \<Rightarrow> gopanic + OAPServer" where
  "OAPServer_DefaultLoop [] o' = Inr o'"
| "OAPServer_DefaultLoop (e # es) o' =
     (if ev_Name e = ''SW_ENVOY_METRIC_ALS_HTTP_ANALYSIS''
         \<and> nilget (om_Annotations (cr_Meta o')) annotationKeyIstioSetup = []
      then (case setIstio o' of Inl p \<Rightarrow> Inl p | Inr o'' \<Rightarrow> OAPServer_DefaultLoop es o'')
      else OAPServer_DefaultLoop es o')"

definition OAPServer_Default :: "OAPServer \<Rightarrow> gopanic + OAPServer" where
  "OAPServer_Default x =
     (let sp = cr_Spec x;
          sp = sp\<lparr>oap_Image := orDefault (oap_Image sp)
                     (''apache/skywalking-oap-server:'' @ oap_Version sp)\<rparr>
      in OAPServer_DefaultLoop (oap_Config sp) (x\<lparr>cr_Spec := sp\<rparr>))"

definition OAPServer_validate :: "OAPServer \<Rightarrow> goerror option" where
  "OAPServer_validate x =
     (if oap_Image (cr_Spec x) = [] then Some (ErrorString ''image is absent'') else None)"

definition OAPServer_ValidateCreate :: "OAPServer \<Rightarrow> goerror option" where
  "OAPServer_ValidateCreate x = OAPServer_validate x"

definition OAPServer_ValidateUpdate :: "OAPServer \<Rightarrow> OAPServer \<Rightarrow> goerror option" where
  "OAPServer_ValidateUpdate old new = OAPServer_validate old"

definition OAPServer_ValidateDelete :: "OAPServer \<Rightarrow> goerror option" where
  "OAPServer_ValidateDelete x = None"

definition Satellite_Default :: "Satellite \<Rightarrow> gopanic + Satellite" where
  "Satellite_Default x =
     (let sp = cr_Spec x;
          sp = sp\<lparr>sat_Image := orDefault (sat_Image sp)
                     (''apache/skywalking-satellite:'' @ sat_Version sp)\<rparr>;
          sp = sp\<lparr>sat_OAPServerName := orDefault (sat_OAPServerName sp) (cr_Name x)\<rparr>;
          x = x\<lparr>cr_Spec := sp\<rparr>
      in if nilget (om_Annotations (cr_Meta x)) annotationKeyIstioSetup = [] then setIstio x
         else Inr x)"

definition Satellite_validate :: "Satellite \<Rightarrow> goerror option" where
  "Satellite_validate x =
     (if sat_Image (cr_Spec x) = [] then Some (ErrorString ''image is absent'') else None)"

definition Satellite_ValidateCreate :: "Satellite \<Rightarrow> goerror option" where
  "Satellite_ValidateCreate x = Satellite_validate x"

definition Satellite_ValidateUpdate :: "Satellite \<Rightarrow> Satellite \<Rightarrow> goerror option" where
  "Satellite_ValidateUpdate old new = Satellite_validate old"

definition Satellite_ValidateDelete :: "Satellite \<Rightarrow> goerror option" where
  "Satellite_ValidateDelete x = Satellite_validate x"

declare OAPServer_Default_def [webhook_defs] OAPServer_validate_def [webhook_defs]
  Satellite_Default_def [webhook_defs] Satellite_validate_def [webhook_defs]
  setIstio_def [webhook_defs]

section \<open>OAPServerConfig and OAPServerDynamicConfig\<close>

definition OAPServerConfig_Default :: "OAPServerConfig \<Rightarrow> gopanic + OAPServerConfig" where
  "OAPServerConfig_Default x =
     Inr (x\<lparr>cr_Spec := (cr_Spec x)\<lparr>osc_Version := orDefault (osc_Version (cr_Spec x)) ''9.5.0''\<rparr>\<rparr>)"

definition OAPServerConfig_validate :: "OAPServerConfig \<Rightarrow> goerror option" where
  "OAPServerConfig_validate x =
     (if osc_Version (cr_Spec x) = []
      then Some (ErrorString ''OAPServerconfig's version is absent'') else None)"

definition OAPServerConfig_ValidateCreate :: "OAPServerConfig \<Rightarrow> goerror option" where
  "OAPServerConfig_ValidateCreate x = OAPServerConfig_validate x"

definition OAPServerConfig_ValidateUpdate :: "OAPServerConfig \<Rightarrow> OAPServerConfig \<Rightarrow> goerror option" where
  "OAPServerConfig_ValidateUpdate old new = OAPServerConfig_validate old"

definition OAPServerConfig_ValidateDelete :: "OAPServerConfig \<Rightarrow> goerror option" where
  "OAPServerConfig_ValidateDelete x = None"

definition OAPServerDynamicConfig_Default ::
  "OAPServerDynamicConfig \<Rightarrow> gopanic + OAPServerDynamicConfig" where
  "OAPServerDynamicConfig_Default x =
     (let sp = cr_Spec x;
          sp = sp\<lparr>odc_Version := orDefault (odc_Version sp) ''9.5.0''\<rparr>;
          sp = sp\<lparr>odc_LabelSelector :=
                 orDefault (odc_LabelSelector sp) ''app=collector,release=skywalking''\<rparr>
      in Inr (x\<lparr>cr_Spec := sp\<rparr>))"

definition OAPServerDynamicConfig_validate :: "OAPServerDynamicConfig \<Rightarrow> goerror option" where
  "OAPServerDynamicConfig_validate x =
     (if odc_Version (cr_Spec x) = []
      then Some (ErrorString ''OAPServerDynamicConfig's version is absent'')
      else if odc_LabelSelector (cr_Spec x) = []
      then Some (ErrorString ''OAPServerDynamicConfig's labelselector is absent'') else None)"

definition OAPServerDynamicConfig_ValidateCreate :: "OAPServerDynamicConfig \<Rightarrow> goerror option" where
  "OAPServerDynamicConfig_ValidateCreate x = OAPServerDynamicConfig_validate x"

definition OAPServerDynamicConfig_ValidateUpdate ::
  "OAPServerDynamicConfig \<Rightarrow> OAPServerDynamicConfig \<Rightarrow> goerror option" where
  "OAPServerDynamicConfig_ValidateUpdate old new = OAPServerDynamicConfig_validate old"

definition OAPServerDynamicConfig_ValidateDelete :: "OAPServerDynamicConfig \<Rightarrow> goerror option" where
  "OAPServerDynamicConfig_ValidateDelete x = None"

declare OAPServerConfig_Default_def [webhook_defs] OAPServerConfig_validate_def [webhook_defs]
  OAPServerDynamicConfig_Default_def [webhook_defs]
  OAPServerDynamicConfig_validate_def [webhook_defs]

section \<open>Storage\<close>

definition Storage_Default :: "Storage \<Rightarrow> gopanic + Storage" where
  "Storage_Default x =
     (let sp = cr_Spec x in
      if sto_ConnectType sp = ''internal'' then
        (let sp = sp\<lparr>sto_Image := orDefault (sto_Image sp)
                       ''docker.elastic.co/elasticsearch/elasticsearch:7.5.1''\<rparr>;
             sp = sp\<lparr>sto_Instances := (if sto_Instances sp = 0 then 3 else sto_Instances sp)\<rparr>
         in Inr (x\<lparr>cr_Spec := sp\<rparr>))
      else Inr x)"

text \<open>A field error: the path below \<open>spec\<close>, the value and the detail. \<open>newInvalid\<close> stands for
  \<open>apierrors.NewInvalid\<close>, which builds the status error out of the kind, the name and the list.\<close>

record FieldError =
  fe_Path :: string
  fe_Value :: string
  fe_Detail :: string

definition Storage_fieldErrors :: "Storage \<Rightarrow> FieldError list" where
  "Storage_fieldErrors x =
     (let allErrs = [];
          allErrs = (if sto_Type (cr_Spec x) \<noteq> ''elasticsearch''
            then allErrs @ [\<lparr>fe_Path = ''spec.type'', fe_Value = sto_Type (cr_Spec x),
                   fe_Detail = ''d. must be elasticsearch''\<rparr>] else allErrs);
          allErrs = (if sto_ConnectType (cr_Spec x) \<noteq> ''internal''
              \<and> sto_ConnectType (cr_Spec x) \<noteq> ''external''
            then allErrs @ [\<lparr>fe_Path = ''spec.connecttype'', fe_Value = sto_ConnectType (cr_Spec x),
                   fe_Detail = ''d. must be internal or external ''\<rparr>] else allErrs)
      in allErrs)"

definition Storage_valid ::
  "(string \<Rightarrow> string \<Rightarrow> FieldError list \<Rightarrow> goerror) \<Rightarrow> Storage \<Rightarrow> goerror option" where
  "Storage_valid newInvalid x =
     (let allErrs = Storage_fieldErrors x
      in if length allErrs \<noteq> 0
         then Some (newInvalid (tm_Kind (cr_Type x)) (cr_Name x) allErrs) else None)"

definition Storage_ValidateCreate ::
  "(string \<Rightarrow> string \<Rightarrow> FieldError list \<Rightarrow> goerror) \<Rightarrow> Storage \<Rightarrow> goerror option" where
  "Storage_ValidateCreate newInvalid x = Storage_valid newInvalid x"

definition Storage_ValidateUpdate ::
  "(string \<Rightarrow> string \<Rightarrow> FieldError list \<Rightarrow> goerror) \<Rightarrow> Storage \<Rightarrow> Storage \<Rightarrow> goerror option" where
  "Storage_ValidateUpdate newInvalid old new = Storage_valid newInvalid old"

definition Storage_ValidateDelete :: "Storage \<Rightarrow> goerror option" where
  "Storage_ValidateDelete x = None"

declare Storage_Default_def [webhook_defs] Storage_valid_def [webhook_defs]
  Storage_fieldErrors_def [webhook_defs]

section \<open>SwAgent\<close>

definition LabelJavaAgent :: string where
  "LabelJavaAgent = ''swck-java-agent-injected''"

definition SwAgent_setDefault :: "SwAgent \<Rightarrow> SwAgent" where
  "SwAgent_setDefault r =
     (let sp = cr_Spec r;
          sp = sp\<lparr>swa_Selector := (case swa_Selector sp of
                     None \<Rightarrow> Some [(LabelJavaAgent, ''true'')]
                   | Some es \<Rightarrow> Some (orDefault es [(LabelJavaAgent, ''true'')]))\<rparr>;
          sp = sp\<lparr>swa_ContainerMatcher := orDefault (swa_ContainerMatcher sp) ''.*''\<rparr>;
          js = swa_JavaSidecar sp;
          js = js\<lparr>js_Name := orDefault (js_Name js) ''inject-skywalking-agent''\<rparr>;
          js = js\<lparr>js_Image := orDefault (js_Image js) ''apache/skywalking-java-agent:8.16.0-java8''\<rparr>;
          js = js\<lparr>js_Command := orDefault (js_Command js) [''sh'']\<rparr>;
          js = js\<lparr>js_Args := orDefault (js_Args js)
                 [''-c'', ''mkdir -p /sky/agent && cp -r /skywalking/agent/* /sky/agent'']\<rparr>;
          sp = sp\<lparr>swa_JavaSidecar := js\<rparr>;
          sp = sp\<lparr>swa_SharedVolumeName := orDefault (swa_SharedVolumeName sp) ''sky-agent''\<rparr>
      in r\<lparr>cr_Spec := sp\<rparr>)"

definition SwAgent_Default :: "SwAgent \<Rightarrow> gopanic + SwAgent" where
  "SwAgent_Default r = Inr (SwAgent_setDefault r)"

text \<open>The validators of \<open>SwAgent\<close> never reject; \<open>ValidateCreate\<close> defaults its receiver, the
  registered prototype, and not the submitted object, which it returns unchanged here.\<close>

definition SwAgent_ValidateCreate :: "SwAgent \<Rightarrow> SwAgent \<Rightarrow> SwAgent \<times> goerror option" where
  "SwAgent_ValidateCreate r swagent = (SwAgent_setDefault r, None)"

definition SwAgent_validate :: "SwAgent \<Rightarrow> goerror option" where
  "SwAgent_validate swagent = None"

definition SwAgent_ValidateUpdate :: "SwAgent \<Rightarrow> SwAgent \<Rightarrow> goerror option" where
  "SwAgent_ValidateUpdate old new = None"

definition SwAgent_ValidateDelete :: "SwAgent \<Rightarrow> goerror option" where
  "SwAgent_ValidateDelete swagent = None"

declare SwAgent_setDefault_def [webhook_defs] SwAgent_Default_def [webhook_defs]
  SwAgent_validate_def [webhook_defs]

section \<open>UI\<close>

text \<open>The \<open>%q\<close> rendering of a string, on ASCII.\<close>

definition quoteChar :: "char \<Rightarrow> string" where
  "quoteChar c =
     (let n = (of_char c :: nat); h = (\<lambda>d. if d < 10 then char_of (d + 48) else char_of (d + 87)) in
      if n = 34 then [char_of (92::nat), char_of (34::nat)]
      else if n = 92 then [char_of (92::nat), char_of (92::nat)]
      else if n = 7 then char_of (92::nat) # ''a''
      else if n = 8 then char_of (92::nat) # ''b''
      else if n = 12 then char_of (92::nat) # ''f''
      else if n = 10 then char_of (92::nat) # ''n''
      else if n = 13 then char_of (92::nat) # ''r''
      else if n = 9 then char_of (92::nat) # ''t''
      else if n = 11 then char_of (92::nat) # ''v''
      else if n < 32 \<or> n = 127 then char_of (92::nat) # ''x'' @ [h (n div 16), h (n mod 16)]
      else [c])"

definition Quote :: "string \<Rightarrow> string" where
  "Quote s = [char_of (34::nat)] @ concat (map quoteChar s) @ [char_of (34::nat)]"

definition UI_Default :: "UI \<Rightarrow> gopanic + UI" where
  "UI_Default u =
     (let sp = cr_Spec u;
          sp = sp\<lparr>ui_Kind := orDefault (ui_Kind sp) ''horizon''\<rparr>;
          sp = sp\<lparr>ui_Image := orDefault (ui_Image sp)
                 (if ui_Kind sp = ''booster'' then ''apache/skywalking-ui:'' @ ui_Version sp
                  else ''apache/skywalking-horizon-ui:'' @ ui_Version sp)\<rparr>;
          sp = sp\<lparr>ui_Service := (ui_Service sp)\<lparr>svcs_Template :=
                    ServiceTemplate_Default (svcs_Template (ui_Service sp))\<rparr>\<rparr>;
          sp = sp\<lparr>ui_OAPServerAddress := orDefault (ui_OAPServerAddress sp)
                 (''http://'' @ cr_Name u @ ''-oap.'' @ cr_Namespace u @ '':12800'')\<rparr>
      in if ui_Kind sp = ''horizon'' then
           (let sp = sp\<lparr>ui_OAPServerAdminAddress := orDefault (ui_OAPServerAdminAddress sp)
                    (''http://'' @ cr_Name u @ ''-oap.'' @ cr_Namespace u @ '':17128'')\<rparr>;
                sp = sp\<lparr>ui_OAPServerZipkinAddress := orDefault (ui_OAPServerZipkinAddress sp)
                    (ui_OAPServerAddress sp @ ''/zipkin'')\<rparr>
            in Inr (u\<lparr>cr_Spec := sp\<rparr>))
         else Inr (u\<lparr>cr_Spec := sp\<rparr>))"

definition UI_validate :: "UI \<Rightarrow> goerror option" where
  "UI_validate u =
     (let sp = cr_Spec u in
      if ui_Kind sp \<noteq> [] \<and> ui_Kind sp \<noteq> ''booster'' \<and> ui_Kind sp \<noteq> ''horizon''
      then Some (ErrorString (''unknown ui kind '' @ Quote (ui_Kind sp)
             @ '' (allowed: horizon, booster)''))
      else if ui_Image sp = [] then Some (ErrorString ''image is absent'')
      else (case ServiceTemplate_Validate (svcs_Template (ui_Service sp)) of
              Some err \<Rightarrow> Some (WrapError ''service template is invalid: '' err [])
            | None \<Rightarrow> if ui_OAPServerAddress sp = []
                      then Some (ErrorString ''oap server address is absent'') else None))"

definition UI_ValidateCreate :: "UI \<Rightarrow> goerror option" where
  "UI_ValidateCreate u = UI_validate u"

definition UI_ValidateUpdate :: "UI \<Rightarrow> UI \<Rightarrow> goerror option" where
  "UI_ValidateUpdate old new = UI_validate old"

definition UI_ValidateDelete :: "UI \<Rightarrow> goerror option" where
  "UI_ValidateDelete u = None"

declare UI_Default_def [webhook_defs] UI_validate_def [webhook_defs]

section \<open>The admission contract\<close>

text \<open>
  A request passes the mutating webhook and then the validating one
  (\<open>SetupWebhookWithManager\<close> registers both). \<open>accepts\<close>: the request is admitted, and submitting
  the admitted object again admits it unchanged.
\<close>

definition admit ::
  "('r \<Rightarrow> gopanic + 'r) \<Rightarrow> ('r \<Rightarrow> goerror option) \<Rightarrow> 'r \<Rightarrow> gopanic + ('r \<times> goerror option)" where
  "admit Default validate r =
     (case Default r of Inl p \<Rightarrow> Inl p | Inr r' \<Rightarrow> Inr (r', validate r'))"

definition accepts :: "('r \<Rightarrow> gopanic + 'r) \<Rightarrow> ('r \<Rightarrow> goerror option) \<Rightarrow> 'r \<Rightarrow> bool" where
  "accepts Default validate r \<longleftrightarrow>
     (\<exists>r'. admit Default validate r = Inr (r', None) \<and> admit Default validate r' = Inr (r', None))"

locale admission_webhook =
  fixes Default :: "'r \<Rightarrow> gopanic + 'r"
    and validate :: "'r \<Rightarrow> goerror option"
    and acceptable :: "'r \<Rightarrow> bool"
  assumes default_idem: "Default r = Inr r' \<Longrightarrow> Default r' = Inr r'"
    and default_exact: "(\<exists>r'. Default r = Inr r' \<and> validate r' = None) \<longleftrightarrow> acceptable r"
begin

lemma accepts_iff: "accepts Default validate r \<longleftrightarrow> acceptable r"
proof
  assume "accepts Default validate r"
  then show "acceptable r"
    unfolding accepts_def admit_def by (auto simp: default_exact [symmetric] split: sum.splits)
next
  assume "acceptable r"
  then obtain r' where r': "Default r = Inr r'" "validate r' = None"
    using default_exact by blast
  then show "accepts Default validate r"
    using default_idem [OF r'(1)] unfolding accepts_def admit_def by auto
qed

lemma admitted_acceptable: "Default r = Inr r' \<Longrightarrow> validate r' = None \<Longrightarrow> acceptable r'"
  using default_exact [of r'] default_idem by blast

end

text \<open>For each kind, the requests its webhooks admit.\<close>

definition BanyanDB_acceptable :: "BanyanDB \<Rightarrow> bool" where
  "BanyanDB_acceptable b \<longleftrightarrow> bdb_Counts (cr_Spec b) \<in> {0, 1}"

definition Fetcher_acceptable :: "Fetcher \<Rightarrow> bool" where
  "Fetcher_acceptable f \<longleftrightarrow> fet_ClusterName (cr_Spec f) \<noteq> [] \<or> cr_Name f \<noteq> []"

definition JavaAgent_acceptable :: "JavaAgent \<Rightarrow> bool" where
  "JavaAgent_acceptable j \<longleftrightarrow>
     (let sp = cr_Spec j in
      case ja_AgentConfiguration sp of
        None \<Rightarrow> ja_ServiceName sp \<noteq> [] \<and> ja_BackendService sp \<noteq> []
      | Some c \<Rightarrow> (ja_ServiceName sp \<noteq> [] \<or> GetServiceName c \<noteq> [])
              \<and> (ja_BackendService sp \<noteq> [] \<or> GetBackendService c \<noteq> []))"

definition hasALS :: "OAPServer \<Rightarrow> bool" where
  "hasALS x \<longleftrightarrow>
     (\<exists>e \<in> set (oap_Config (cr_Spec x)). ev_Name e = ''SW_ENVOY_METRIC_ALS_HTTP_ANALYSIS'')"

definition OAPServer_acceptable :: "OAPServer \<Rightarrow> bool" where
  "OAPServer_acceptable x \<longleftrightarrow> om_Annotations (cr_Meta x) \<noteq> None \<or> \<not> hasALS x"

definition Satellite_acceptable :: "Satellite \<Rightarrow> bool" where
  "Satellite_acceptable x \<longleftrightarrow> om_Annotations (cr_Meta x) \<noteq> None"

definition Storage_acceptable :: "Storage \<Rightarrow> bool" where
  "Storage_acceptable x \<longleftrightarrow> sto_Type (cr_Spec x) = ''elasticsearch''
     \<and> sto_ConnectType (cr_Spec x) \<in> {''internal'', ''external''}"

definition UI_acceptable :: "UI \<Rightarrow> bool" where
  "UI_acceptable u \<longleftrightarrow> ui_Kind (cr_Spec u) \<in> {[], ''booster'', ''horizon''}"

section \<open>Every kind keeps the contract\<close>

lemma istioSetup_nonempty [simp]: "istioSetup n ns \<noteq> []"
  by (simp add: istioSetup_def)

text \<open>The defaulting loop of an OAP server, summed up: nothing to do, a panic, or one write.\<close>

lemma OAPServer_DefaultLoop_set:
  assumes "nilget (om_Annotations (cr_Meta x)) annotationKeyIstioSetup \<noteq> []"
  shows "OAPServer_DefaultLoop es x = Inr x"
  using assms by (induction es) auto

lemma OAPServer_DefaultLoop_unset:
  assumes "nilget (om_Annotations (cr_Meta x)) annotationKeyIstioSetup = []"
  shows "OAPServer_DefaultLoop es x =
    (if \<exists>e \<in> set es. ev_Name e = ''SW_ENVOY_METRIC_ALS_HTTP_ANALYSIS'' then setIstio x else Inr x)"
proof (induction es)
  case (Cons e es)
  have "setIstio x = Inr y \<Longrightarrow> OAPServer_DefaultLoop es y = Inr y" for y
    by (rule OAPServer_DefaultLoop_set)
      (auto simp: setIstio_def split: option.splits)
  with Cons assms show ?case by (auto split: sum.splits)
qed simp

lemma setIstio_spec: "setIstio x = Inr y \<Longrightarrow> cr_Spec y = cr_Spec x"
  by (auto simp: setIstio_def split: option.splits)

lemma setIstio_annotated:
  "setIstio x = Inr y \<Longrightarrow> nilget (om_Annotations (cr_Meta y)) annotationKeyIstioSetup \<noteq> []"
  by (auto simp: setIstio_def split: option.splits)

lemma setIstio_panics: "(\<exists>y. setIstio x = Inr y) \<longleftrightarrow> om_Annotations (cr_Meta x) \<noteq> None"
  by (auto simp: setIstio_def split: option.splits)

lemma OAPServer_DefaultLoop_fix:
  assumes "OAPServer_DefaultLoop es x = Inr y"
  shows "OAPServer_DefaultLoop es y = Inr y \<and> cr_Spec y = cr_Spec x"
proof (cases "nilget (om_Annotations (cr_Meta x)) annotationKeyIstioSetup = []")
  case True
  show ?thesis
  proof (cases "\<exists>e \<in> set es. ev_Name e = ''SW_ENVOY_METRIC_ALS_HTTP_ANALYSIS''")
    case als: True
    then have y: "setIstio x = Inr y" using assms True by (simp add: OAPServer_DefaultLoop_unset)
    show ?thesis
      using OAPServer_DefaultLoop_set [OF setIstio_annotated [OF y]] setIstio_spec [OF y] by blast
  next
    case False
    then show ?thesis using assms True by (auto simp: OAPServer_DefaultLoop_unset)
  qed
next
  case False
  then show ?thesis using assms by (auto simp: OAPServer_DefaultLoop_set)
qed

lemma OAPServer_Default_eq:
  "OAPServer_Default x =
     OAPServer_DefaultLoop (oap_Config (cr_Spec x))
       (x\<lparr>cr_Spec := (cr_Spec x)\<lparr>oap_Image := orDefault (oap_Image (cr_Spec x))
               (''apache/skywalking-oap-server:'' @ oap_Version (cr_Spec x))\<rparr>\<rparr>)"
  by (simp add: OAPServer_Default_def Let_def)

lemma OAPServer_DefaultLoop_defined:
  "(\<exists>y. OAPServer_DefaultLoop es x = Inr y) \<longleftrightarrow>
     om_Annotations (cr_Meta x) \<noteq> None
     \<or> (\<forall>e \<in> set es. ev_Name e \<noteq> ''SW_ENVOY_METRIC_ALS_HTTP_ANALYSIS'')"
proof (cases "nilget (om_Annotations (cr_Meta x)) annotationKeyIstioSetup = []")
  case True
  then show ?thesis by (auto simp: OAPServer_DefaultLoop_unset setIstio_panics)
next
  case False
  then have "om_Annotations (cr_Meta x) \<noteq> None" by (cases "om_Annotations (cr_Meta x)") auto
  then show ?thesis using OAPServer_DefaultLoop_set [OF False] by auto
qed

lemma JavaAgent_Default_None:
  "ja_AgentConfiguration (cr_Spec j) = None \<Longrightarrow> JavaAgent_Default j = Inr j"
  by (simp add: JavaAgent_Default_def)

lemma JavaAgent_Default_Some:
  "ja_AgentConfiguration (cr_Spec j) = Some c \<Longrightarrow>
   JavaAgent_Default j = Inr (j\<lparr>cr_Spec := (cr_Spec j)\<lparr>
     ja_ServiceName := orDefault (ja_ServiceName (cr_Spec j)) (GetServiceName c),
     ja_BackendService := orDefault (ja_BackendService (cr_Spec j)) (GetBackendService c)\<rparr>\<rparr>)"
  by (simp add: JavaAgent_Default_def orDefault_def Let_def)

interpretation banyandb_hook: admission_webhook BanyanDB_Default BanyanDB_validate BanyanDB_acceptable
  by unfold_locales (auto simp: webhook_defs BanyanDB_acceptable_def Let_def)

interpretation eventexporter_hook: admission_webhook EventExporter_Default EventExporter_validate
    "\<lambda>_. True"
  by unfold_locales (auto simp: webhook_defs Let_def)

interpretation fetcher_hook: admission_webhook Fetcher_Default Fetcher_validate Fetcher_acceptable
  by unfold_locales (auto simp: webhook_defs Fetcher_acceptable_def split: if_splits)

interpretation javaagent_hook: admission_webhook JavaAgent_Default JavaAgent_validate
    JavaAgent_acceptable
proof
  fix r r' assume "JavaAgent_Default r = Inr r'"
  then show "JavaAgent_Default r' = Inr r'"
    by (cases "ja_AgentConfiguration (cr_Spec r)")
      (auto simp: JavaAgent_Default_None JavaAgent_Default_Some)
next
  fix r show "(\<exists>r'. JavaAgent_Default r = Inr r' \<and> JavaAgent_validate r' = None)
      \<longleftrightarrow> JavaAgent_acceptable r"
    by (cases "ja_AgentConfiguration (cr_Spec r)")
      (auto simp: JavaAgent_Default_None JavaAgent_Default_Some JavaAgent_acceptable_def
        JavaAgent_validate_def)
qed

interpretation oapserver_hook: admission_webhook OAPServer_Default OAPServer_validate
    OAPServer_acceptable
proof
  fix r r' assume d: "OAPServer_Default r = Inr r'"
  from OAPServer_DefaultLoop_fix [OF d [unfolded OAPServer_Default_eq]]
  have "OAPServer_DefaultLoop (oap_Config (cr_Spec r)) r' = Inr r'"
    and "oap_Config (cr_Spec r') = oap_Config (cr_Spec r) \<and> oap_Image (cr_Spec r') \<noteq> []"
    by (auto split: if_splits)
  then show "OAPServer_Default r' = Inr r'" by (simp add: OAPServer_Default_eq)
next
  fix r
  have "OAPServer_Default r = Inr r' \<Longrightarrow> OAPServer_validate r' = None" for r'
    unfolding OAPServer_Default_eq OAPServer_validate_def
    by (drule OAPServer_DefaultLoop_fix) (auto split: if_splits)
  then show "(\<exists>r'. OAPServer_Default r = Inr r' \<and> OAPServer_validate r' = None)
      \<longleftrightarrow> OAPServer_acceptable r"
    using OAPServer_DefaultLoop_defined [of "oap_Config (cr_Spec r)"
        "r\<lparr>cr_Spec := (cr_Spec r)\<lparr>oap_Image := orDefault (oap_Image (cr_Spec r))
               (''apache/skywalking-oap-server:'' @ oap_Version (cr_Spec r))\<rparr>\<rparr>"]
    unfolding OAPServer_acceptable_def hasALS_def OAPServer_Default_eq by auto
qed

lemma Satellite_Default_eq:
  "Satellite_Default x =
     (let y = x\<lparr>cr_Spec := (cr_Spec x)\<lparr>
         sat_Image := orDefault (sat_Image (cr_Spec x))
           (''apache/skywalking-satellite:'' @ sat_Version (cr_Spec x)),
         sat_OAPServerName := orDefault (sat_OAPServerName (cr_Spec x)) (cr_Name x)\<rparr>\<rparr>
      in if nilget (om_Annotations (cr_Meta x)) annotationKeyIstioSetup = [] then setIstio y
         else Inr y)"
  by (simp add: Satellite_Default_def Let_def)

lemma setIstio_update_spec:
  "setIstio (x\<lparr>cr_Spec := sp\<rparr>) = map_sum id (\<lambda>y. y\<lparr>cr_Spec := sp\<rparr>) (setIstio x)"
  by (simp add: setIstio_def split: option.splits)

lemma setIstio_name: "setIstio x = Inr y \<Longrightarrow> cr_Name y = cr_Name x"
  by (auto simp: setIstio_def split: option.splits)

interpretation satellite_hook: admission_webhook Satellite_Default Satellite_validate
    Satellite_acceptable
proof
  fix r r' assume d: "Satellite_Default r = Inr r'"
  show "Satellite_Default r' = Inr r'"
  proof (cases "nilget (om_Annotations (cr_Meta r)) annotationKeyIstioSetup = []")
    case True
    then obtain y where y: "setIstio y = Inr r'"
      and spec: "cr_Spec y = (cr_Spec r)\<lparr>sat_Image := orDefault (sat_Image (cr_Spec r))
           (''apache/skywalking-satellite:'' @ sat_Version (cr_Spec r)),
         sat_OAPServerName := orDefault (sat_OAPServerName (cr_Spec r)) (cr_Name r)\<rparr>"
      and "cr_Name y = cr_Name r"
      using d by (auto simp: Satellite_Default_eq Let_def)
    then show ?thesis
      using setIstio_spec [OF y] setIstio_name [OF y] setIstio_annotated [OF y]
      by (simp add: Satellite_Default_eq)
  next
    case False
    then show ?thesis using d by (auto simp: Satellite_Default_eq)
  qed
next
  fix r
  have "om_Annotations (cr_Meta r) = None \<Longrightarrow> Satellite_Default r = Inl NilMapWrite"
    by (simp add: Satellite_Default_eq setIstio_def)
  moreover have "om_Annotations (cr_Meta r) = Some m \<Longrightarrow>
      \<exists>r'. Satellite_Default r = Inr r' \<and> Satellite_validate r' = None" for m
    by (cases "mapget m annotationKeyIstioSetup = []")
      (auto simp: Satellite_Default_eq Let_def setIstio_def Satellite_validate_def)
  ultimately show "(\<exists>r'. Satellite_Default r = Inr r' \<and> Satellite_validate r' = None)
      \<longleftrightarrow> Satellite_acceptable r"
    unfolding Satellite_acceptable_def by fastforce
qed

interpretation oapserverconfig_hook: admission_webhook OAPServerConfig_Default
    OAPServerConfig_validate "\<lambda>_. True"
  by unfold_locales (auto simp: webhook_defs)

interpretation oapserverdynamicconfig_hook: admission_webhook OAPServerDynamicConfig_Default
    OAPServerDynamicConfig_validate "\<lambda>_. True"
  by unfold_locales (auto simp: webhook_defs Let_def)

interpretation storage_hook: admission_webhook Storage_Default "Storage_valid newInvalid"
    Storage_acceptable for newInvalid
proof
  fix r r' assume "Storage_Default r = Inr r'"
  then show "Storage_Default r' = Inr r'"
    by (cases "sto_ConnectType (cr_Spec r) = ''internal''"; cases "sto_Instances (cr_Spec r) = 0")
      (auto simp: Storage_Default_def Let_def)
next
  fix r show "(\<exists>r'. Storage_Default r = Inr r' \<and> Storage_valid newInvalid r' = None)
      \<longleftrightarrow> Storage_acceptable r"
    by (cases "sto_ConnectType (cr_Spec r) = ''internal''")
      (auto simp: Storage_Default_def Let_def Storage_valid_def Storage_fieldErrors_def
        Storage_acceptable_def)
qed

interpretation swagent_hook: admission_webhook SwAgent_Default SwAgent_validate "\<lambda>_. True"
  by unfold_locales (auto simp: webhook_defs Let_def split: option.splits)

text \<open>A user interface after defaulting: every defaulted field is set, and an object whose
  defaulted fields are all set is left alone.\<close>

lemma UI_Default_horizon:
  "orDefault (ui_Kind (cr_Spec u)) ''horizon'' = ''horizon'' \<Longrightarrow>
   \<exists>v. UI_Default u = Inr v \<and> ui_Kind (cr_Spec v) = ''horizon'' \<and> ui_Image (cr_Spec v) \<noteq> []
     \<and> stpl_Type (svcs_Template (ui_Service (cr_Spec v))) \<noteq> []
     \<and> ui_OAPServerAddress (cr_Spec v) \<noteq> [] \<and> ui_OAPServerAdminAddress (cr_Spec v) \<noteq> []
     \<and> ui_OAPServerZipkinAddress (cr_Spec v) \<noteq> []"
  by (simp add: UI_Default_def Let_def ServiceTemplate_Default_def ServiceTypeClusterIP_def)

lemma UI_Default_other:
  "orDefault (ui_Kind (cr_Spec u)) ''horizon'' \<noteq> ''horizon'' \<Longrightarrow>
   \<exists>v. UI_Default u = Inr v \<and> ui_Kind (cr_Spec v) = ui_Kind (cr_Spec u)
     \<and> ui_Kind (cr_Spec v) \<noteq> [] \<and> ui_Kind (cr_Spec v) \<noteq> ''horizon'' \<and> ui_Image (cr_Spec v) \<noteq> []
     \<and> stpl_Type (svcs_Template (ui_Service (cr_Spec v))) \<noteq> []
     \<and> ui_OAPServerAddress (cr_Spec v) \<noteq> []"
  by (cases "ui_Kind (cr_Spec u) = []")
    (simp_all add: UI_Default_def Let_def ServiceTemplate_Default_def ServiceTypeClusterIP_def)

lemma UI_Default_id:
  assumes "ui_Kind (cr_Spec u) \<noteq> []" "ui_Image (cr_Spec u) \<noteq> []"
    "stpl_Type (svcs_Template (ui_Service (cr_Spec u))) \<noteq> []"
    "ui_OAPServerAddress (cr_Spec u) \<noteq> []"
    "ui_Kind (cr_Spec u) = ''horizon'' \<longrightarrow>
       ui_OAPServerAdminAddress (cr_Spec u) \<noteq> [] \<and> ui_OAPServerZipkinAddress (cr_Spec u) \<noteq> []"
  shows "UI_Default u = Inr u"
proof (cases "ui_Kind (cr_Spec u) = ''horizon''")
  case True
  then show ?thesis using assms by (simp add: UI_Default_def Let_def ServiceTemplate_Default_def)
next
  case False
  then show ?thesis using assms by (simp add: UI_Default_def Let_def ServiceTemplate_Default_def)
qed

interpretation ui_hook: admission_webhook UI_Default UI_validate UI_acceptable
proof
  fix r r' assume d: "UI_Default r = Inr r'"
  show "UI_Default r' = Inr r'"
    using d UI_Default_horizon [of r] UI_Default_other [of r]
    by (cases "orDefault (ui_Kind (cr_Spec r)) ''horizon'' = ''horizon''")
      (auto intro!: UI_Default_id)
next
  fix r
  show "(\<exists>r'. UI_Default r = Inr r' \<and> UI_validate r' = None) \<longleftrightarrow> UI_acceptable r"
  proof (cases "orDefault (ui_Kind (cr_Spec r)) ''horizon'' = ''horizon''")
    case True
    then have "UI_acceptable r" by (auto simp: UI_acceptable_def orDefault_def split: if_splits)
    then show ?thesis using UI_Default_horizon [OF True]
      by (auto simp: UI_validate_def ServiceTemplate_Validate_def Let_def)
  next
    case False
    from UI_Default_other [OF False] obtain v where v: "UI_Default r = Inr v"
      "ui_Kind (cr_Spec v) = ui_Kind (cr_Spec r)" "ui_Kind (cr_Spec v) \<noteq> []"
      "ui_Kind (cr_Spec v) \<noteq> ''horizon''" "ui_Image (cr_Spec v) \<noteq> []"
      "stpl_Type (svcs_Template (ui_Service (cr_Spec v))) \<noteq> []" "ui_OAPServerAddress (cr_Spec v) \<noteq> []"
      by blast
    then have "UI_validate v = None \<longleftrightarrow> ui_Kind (cr_Spec v) = ''booster''"
      by (simp add: UI_validate_def ServiceTemplate_Validate_def Let_def)
    then show ?thesis using v by (simp add: UI_acceptable_def)
  qed
qed

section \<open>Properties of the admission webhooks\<close>

lemma ValidateCreate_eq:
  "BanyanDB_ValidateCreate = BanyanDB_validate"
  "EventExporter_ValidateCreate = EventExporter_validate"
  "Fetcher_ValidateCreate = Fetcher_validate"
  "JavaAgent_ValidateCreate = JavaAgent_validate"
  "OAPServer_ValidateCreate = OAPServer_validate"
  "Satellite_ValidateCreate = Satellite_validate"
  "OAPServerConfig_ValidateCreate = OAPServerConfig_validate"
  "OAPServerDynamicConfig_ValidateCreate = OAPServerDynamicConfig_validate"
  "Storage_ValidateCreate = Storage_valid"
  "UI_ValidateCreate = UI_validate"
  by (simp_all add: fun_eq_iff BanyanDB_ValidateCreate_def EventExporter_ValidateCreate_def
      Fetcher_ValidateCreate_def JavaAgent_ValidateCreate_def OAPServer_ValidateCreate_def
      Satellite_ValidateCreate_def OAPServerConfig_ValidateCreate_def
      OAPServerDynamicConfig_ValidateCreate_def Storage_ValidateCreate_def UI_ValidateCreate_def)


lemma OAPServer_DefaultLoop_panic: "OAPServer_DefaultLoop es y = Inl p \<Longrightarrow> p = NilMapWrite"
  by (induction es y rule: OAPServer_DefaultLoop.induct)
    (auto simp: setIstio_def split: if_splits sum.splits option.splits)

lemma oapserver_default_total: "(\<exists>y. OAPServer_Default x = Inr y) \<longleftrightarrow> OAPServer_acceptable x"
  using OAPServer_DefaultLoop_defined [of "oap_Config (cr_Spec x)"
      "x\<lparr>cr_Spec := (cr_Spec x)\<lparr>oap_Image := orDefault (oap_Image (cr_Spec x))
             (''apache/skywalking-oap-server:'' @ oap_Version (cr_Spec x))\<rparr>\<rparr>"]
  unfolding OAPServer_acceptable_def hasALS_def OAPServer_Default_eq by auto

text \<open>The defaulter of an OAP server writes the Istio annotation into the annotation map of the
  request without making one: it panics exactly on a request that has no annotations at all and
  sets the access-log analysis variable. The satellite defaulter panics on every request without
  annotations.\<close>

theorem default_panics_without_annotations:
  "(OAPServer_Default x = Inl NilMapWrite \<longleftrightarrow> om_Annotations (cr_Meta x) = None \<and> hasALS x)
   \<and> (Satellite_Default s = Inl NilMapWrite \<longleftrightarrow> om_Annotations (cr_Meta s) = None)"
  using oapserver_default_total [of x] OAPServer_DefaultLoop_panic
  unfolding OAPServer_acceptable_def
  by (cases "OAPServer_Default x")
    (auto simp: OAPServer_Default_eq Satellite_Default_eq setIstio_def Let_def split: option.splits)

definition storageOfType :: "string \<Rightarrow> Storage" where
  "storageOfType t = \<lparr>cr_Type = \<lparr>tm_Kind = ''Storage'', tm_APIVersion = []\<rparr>,
     cr_Meta = zeroMeta\<lparr>om_Name := ''es''\<rparr>,
     cr_Spec = \<lparr>sto_Type = t, sto_ConnectType = ''internal'', sto_ConnectAddress = [],
       sto_Version = [], sto_Image = [], sto_Instances = 3,
       sto_Security = \<lparr>sec_TLS = False, sec_User = \<lparr>us_SecretName = []\<rparr>\<rparr>, sto_ServiceName = [],
       sto_Config = [], sto_ResourceCnfig = \<lparr>res_Limit = [], res_Requests = []\<rparr>\<rparr>,
     cr_Status = \<lparr>stos_Conditions = []\<rparr>\<rparr>"

text \<open>An update is judged by the stored object: the validators of every kind ignore the
  submitted one, so an update is admitted whatever it changes the object into as long as the
  stored object is valid. A storage of type \<open>elasticsearch\<close> can be updated to another type.\<close>

theorem update_validates_stored_object:
  "Storage_ValidateUpdate newInvalid old new = Storage_valid newInvalid old
   \<and> Storage_ValidateUpdate newInvalid (storageOfType ''elasticsearch'') (storageOfType ''mysql'') = None
   \<and> Storage_valid newInvalid (storageOfType ''mysql'') \<noteq> None"
  by (simp add: Storage_ValidateUpdate_def Storage_valid_def Storage_fieldErrors_def
      storageOfType_def)

end
