(* ===== verification/Validate.thy ===== *)
theory Validate
  imports Kube_Types
begin

text \<open>
  The annotation validators of \<open>operator/pkg/operator/injector/validate.go\<close> and what they use of
  the Go library: \<open>net.ParseIP\<close> with \<open>To4\<close> (the parser of package \<open>net/netip\<close>) and the host name
  regular expression. The JSON decoding of a resource list and the milli-value of a quantity belong
  to Kubernetes and are parameters.
\<close>

section \<open>net.ParseIP\<close>

text \<open>The four decimal fields: the current value, the digits seen of it, the fields finished.\<close>

fun parseIPv4Fields :: "string \<Rightarrow> nat \<Rightarrow> nat \<Rightarrow> nat list \<Rightarrow> nat list option" where
  "parseIPv4Fields [] val digLen octets =
     (if length octets < 3 then None else Some (octets @ [val]))"
| "parseIPv4Fields (c # s) val digLen octets =
     (if isDigit c then
        (if digLen = 1 \<and> val = 0 then None
         else (let val = val * 10 + digitVal c
               in if 255 < val then None else parseIPv4Fields s val (digLen + 1) octets))
      else if c = CHR ''.'' then
        (if digLen = 0 \<or> s = [] then None
         else if length octets = 3 then None
         else parseIPv4Fields s 0 0 (octets @ [val]))
      else None)"

definition hexVal :: "char \<Rightarrow> nat option" where
  "hexVal c =
     (let n = (of_char c :: nat) in
      if 48 \<le> n \<and> n \<le> 57 then Some (n - 48)
      else if 97 \<le> n \<and> n \<le> 102 then Some (n - 87)
      else if 65 \<le> n \<and> n \<le> 70 then Some (n - 55)
      else None)"

text \<open>The hexadecimal number at the front of the text: its digits, its value, what follows.\<close>

fun hexRun :: "string \<Rightarrow> nat \<Rightarrow> nat \<Rightarrow> (nat \<times> nat \<times> string) option" where
  "hexRun [] off acc = Some (off, acc, [])"
| "hexRun (c # s) off acc =
     (case hexVal c of
        None \<Rightarrow> Some (off, acc, c # s)
      | Some d \<Rightarrow> (let acc = acc * 16 + d
                  in if 3 < off \<or> 65535 < acc then None else hexRun s (off + 1) acc))"

text \<open>The main loop of the IPv6 parser over the bytes read so far and the place of the ellipsis.\<close>

function parseIPv6Loop ::
  "string \<Rightarrow> nat list \<Rightarrow> nat option \<Rightarrow> (nat list \<times> nat option \<times> string) option" where
  "parseIPv6Loop s ip ellipsis =
     (if 16 \<le> length ip then Some (ip, ellipsis, s)
      else (case hexRun s 0 0 of
        None \<Rightarrow> None
      | Some (off, acc, r) \<Rightarrow>
          if off = 0 then None
          else if r \<noteq> [] \<and> hd r = CHR ''.'' then
            (if ellipsis = None \<and> length ip \<noteq> 12 then None
             else if 16 < length ip + 4 then None
             else (case parseIPv4Fields s 0 0 [] of
                     None \<Rightarrow> None | Some q \<Rightarrow> Some (ip @ q, ellipsis, [])))
          else (let ip' = ip @ [acc div 256, acc mod 256] in
            (case r of
               [] \<Rightarrow> Some (ip', ellipsis, [])
             | c # r' \<Rightarrow>
                 if c \<noteq> CHR '':'' then None
                 else if r' = [] then None
                 else if hd r' = CHR '':'' then
                   (if ellipsis \<noteq> None then None
                    else if tl r' = [] then Some (ip', Some (length ip'), [])
                    else parseIPv6Loop (tl r') ip' (Some (length ip')))
                 else parseIPv6Loop r' ip' ellipsis))))"
  by pat_completeness auto
termination
  by (relation "measure (\<lambda>(s, ip, e). 16 - length ip)") auto

declare parseIPv6Loop.simps [simp del]

definition parseIPv6 :: "string \<Rightarrow> nat list option" where
  "parseIPv6 s =
     (if CHR ''%'' \<in> set s then None
      else (let lead = HasPrefix s ''::'';
                s' = (if lead then drop 2 s else s);
                e0 = (if lead then Some 0 else None)
            in if lead \<and> s' = [] then Some (replicate 16 0)
               else (case parseIPv6Loop s' [] e0 of
                 None \<Rightarrow> None
               | Some (ip, ellipsis, rest) \<Rightarrow>
                   if rest \<noteq> [] then None
                   else if length ip < 16 then
                     (case ellipsis of
                        None \<Rightarrow> None
                      | Some e \<Rightarrow> Some (take e ip @ replicate (16 - length ip) 0 @ drop e ip))
                   else if ellipsis \<noteq> None then None else Some ip)))"

text \<open>\<open>netip.ParseAddr\<close> dispatches on the first of \<open>.\<close>, \<open>:\<close> and \<open>%\<close>; a 4-byte address is kept in
  its 16-byte form.\<close>

definition v4prefix :: "nat list" where
  "v4prefix = replicate 10 0 @ [255, 255]"

fun ParseAddrAt :: "string \<Rightarrow> string \<Rightarrow> nat list option" where
  "ParseAddrAt s [] = None"
| "ParseAddrAt s (c # cs) =
     (if c = CHR ''.'' then map_option (\<lambda>q. v4prefix @ q) (parseIPv4Fields s 0 0 [])
      else if c = CHR '':'' then parseIPv6 s
      else if c = CHR ''%'' then None
      else ParseAddrAt s cs)"

definition ParseIP :: "string \<Rightarrow> nat list option" where
  "ParseIP s = ParseAddrAt s s"

definition To4 :: "nat list \<Rightarrow> nat list option" where
  "To4 ip = (if take 12 ip = v4prefix then Some (drop 12 ip) else None)"

section \<open>The host name pattern\<close>

text \<open>The regular expression of the validator: a label that starts with a letter or digit, then any
  number of labels behind a dot that may also start with an underscore; 63 characters per label.\<close>

definition isAlnum :: "char \<Rightarrow> bool" where
  "isAlnum c \<longleftrightarrow> (let n = (of_char c :: nat) in
     (97 \<le> n \<and> n \<le> 122) \<or> (65 \<le> n \<and> n \<le> 90) \<or> (48 \<le> n \<and> n \<le> 57))"

definition isWordDash :: "char \<Rightarrow> bool" where
  "isWordDash c \<longleftrightarrow> isAlnum c \<or> c = CHR ''_'' \<or> c = CHR ''-''"

definition headLabel :: "string \<Rightarrow> bool" where
  "headLabel w \<longleftrightarrow> (case w of [] \<Rightarrow> False
     | c # cs \<Rightarrow> isAlnum c \<and> list_all isWordDash cs \<and> length cs \<le> 62)"

definition tailLabel :: "string \<Rightarrow> bool" where
  "tailLabel w \<longleftrightarrow> (case w of [] \<Rightarrow> False
     | c # cs \<Rightarrow> (isAlnum c \<or> c = CHR ''_'') \<and> list_all isWordDash cs \<and> length cs \<le> 62)"

definition hostnameMatch :: "string \<Rightarrow> bool" where
  "hostnameMatch host =
     (case Split host CHR ''.'' of
        [] \<Rightarrow> False
      | w # ws \<Rightarrow> headLabel w \<and> list_all tailLabel ws)"

section \<open>The validators\<close>

definition ValidateServiceName :: "string \<Rightarrow> string \<Rightarrow> goerror option" where
  "ValidateServiceName annotation value =
     (if value = [] then Some (ErrorString (annotation @ '' error:the service name is nil'')) else None)"

definition ValidateIPv4OrHostname :: "string \<Rightarrow> string \<Rightarrow> goerror option" where
  "ValidateIPv4OrHostname annotation service =
     (let service = TrimSpace service;
          colonIndex = LastIndex service CHR '':'';
          host = (if colonIndex \<noteq> -1 then take (nat colonIndex) service else service)
      in if host = [] then Some (ErrorString (annotation @ '' error:the service name is nil''))
         else (case ParseIP host of
             Some ip \<Rightarrow> if To4 ip \<noteq> None then None
                else if hostnameMatch host then None
                else Some (ErrorString (annotation @ ''='' @ host @ '' error:not a valid ipv4 or hostname''))
           | None \<Rightarrow> if hostnameMatch host then None
                else Some (ErrorString (annotation @ ''='' @ host @ '' error:not a valid ipv4 or hostname''))))"

text \<open>The loop over the services: the first error ends it, blank entries are skipped.\<close>

fun backendLoop :: "string \<Rightarrow> string list \<Rightarrow> bool \<Rightarrow> goerror option" where
  "backendLoop annotation [] allEmpty =
     (if allEmpty then Some (ErrorString (annotation @ '' error:every service is nil'')) else None)"
| "backendLoop annotation (service # services) allEmpty =
     (let service = TrimSpace service in
      if service = [] then backendLoop annotation services allEmpty
      else (case ValidateIPv4OrHostname annotation service of
              Some err \<Rightarrow> Some err
            | None \<Rightarrow> backendLoop annotation services False))"

definition ValidateBackendServices :: "string \<Rightarrow> string \<Rightarrow> goerror option" where
  "ValidateBackendServices annotation value =
     (let services = (if Contains value '','' then Split value CHR '','' else [value])
      in backendLoop annotation services True)"

definition HugePagesPrefix :: string where
  "HugePagesPrefix = ''hugepages-''"

definition standardContainerResources :: "string list" where
  "standardContainerResources = [''cpu'', ''memory'', ''ephemeral-storage'']"

text \<open>What the resource validator needs of Kubernetes: decoding a resource list, and the milli-value
  of a quantity.\<close>

record quantities =
  q_unmarshal :: "string \<Rightarrow> goerror + ResourceList"
  q_milli :: "string \<Rightarrow> int"

fun resourceLoop :: "quantities \<Rightarrow> string \<Rightarrow> ResourceList \<Rightarrow> goerror option" where
  "resourceLoop Q annotation [] = None"
| "resourceLoop Q annotation ((resourceName, quantity) # rest) =
     (if resourceName \<notin> set standardContainerResources \<and> \<not> HasPrefix resourceName HugePagesPrefix
      then Some (ErrorString (annotation @ '' error:'' @ resourceName @ '' isn't a standard resource type''))
      else if q_milli Q quantity \<le> 0
      then Some (ErrorString (annotation @ '' error:'' @ Itoa (q_milli Q quantity) @ '' must be greater than 0''))
      else resourceLoop Q annotation rest)"

definition ValidateResourceRequirements :: "quantities \<Rightarrow> string \<Rightarrow> string \<Rightarrow> goerror option" where
  "ValidateResourceRequirements Q annotation value =
     (if value = ''nil'' then None
      else (case q_unmarshal Q value of
              Inl err \<Rightarrow> Some (ErrorString (annotation @ '' unmarshal error:'' @ Error err))
            | Inr resource \<Rightarrow> resourceLoop Q annotation resource))"

section \<open>Finding a validator by name\<close>

type_synonym AnnotationValidateFunc = "string \<Rightarrow> string \<Rightarrow> goerror option"

text \<open>The table of validators with the full names the run-time system reports for them.\<close>

definition pkgName :: string where
  "pkgName = ''github.com/apache/skywalking-swck/operator/pkg/operator/injector.''"

definition AnnotationValidateFuncs :: "quantities \<Rightarrow> (string \<times> AnnotationValidateFunc) list" where
  "AnnotationValidateFuncs Q =
     [(pkgName @ ''ValidateServiceName'', ValidateServiceName),
      (pkgName @ ''ValidateBackendServices'', ValidateBackendServices),
      (pkgName @ ''ValidateIPv4OrHostname'', ValidateIPv4OrHostname),
      (pkgName @ ''ValidateResourceRequirements'', ValidateResourceRequirements Q)]"

fun findFunc :: "(string \<times> AnnotationValidateFunc) list \<Rightarrow> string \<Rightarrow> AnnotationValidateFunc option" where
  "findFunc [] funcName = None"
| "findFunc ((fname, f) # fs) funcName =
     (let index = LastIndex fname CHR ''.'';
          funcname = drop (nat (index + 1)) fname
      in if funcname = funcName then Some f else findFunc fs funcName)"

definition FindValidateFunc :: "quantities \<Rightarrow> string \<Rightarrow> AnnotationValidateFunc option" where
  "FindValidateFunc Q funcName = findFunc (AnnotationValidateFuncs Q) funcName"

section \<open>The host name pattern as a grammar\<close>

inductive hostname :: "string \<Rightarrow> bool" where
  first_label: "headLabel w \<Longrightarrow> hostname w"
| next_label: "hostname h \<Longrightarrow> tailLabel w \<Longrightarrow> hostname (h @ CHR ''.'' # w)"

lemma isAlnum_dot: "\<not> isAlnum CHR ''.''"
  by (simp add: isAlnum_def)

lemma headLabel_no_dot: "headLabel w \<Longrightarrow> CHR ''.'' \<notin> set w"
  by (auto simp: headLabel_def list_all_iff isWordDash_def isAlnum_dot split: list.splits)

lemma tailLabel_no_dot: "tailLabel w \<Longrightarrow> CHR ''.'' \<notin> set w"
  by (auto simp: tailLabel_def list_all_iff isWordDash_def isAlnum_dot split: list.splits)

lemma Split_snoc: "sep \<notin> set w \<Longrightarrow> Split (h @ sep # w) sep = Split h sep @ [w]"
proof (induction h)
  case Nil
  then show ?case by (simp add: Split_single)
next
  case (Cons c h)
  then show ?case using Split_Cons_hd [of h sep] by auto
qed

lemma hostname_labels:
  "headLabel w \<Longrightarrow> list_all tailLabel ws \<Longrightarrow> hostname (Join (w # ws) ''.'')"
proof (induction ws rule: rev_induct)
  case Nil
  then show ?case by (simp add: hostname.first_label)
next
  case (snoc x xs)
  then have "hostname (Join (w # xs) ''.'' @ CHR ''.'' # x)"
    by (intro hostname.next_label) auto
  moreover have "Join ((w # xs) @ [x]) ''.'' = Join (w # xs) ''.'' @ ''.'' @ Join [x] ''.''"
    by (rule Join_append) auto
  ultimately show ?case by simp
qed

lemma hostnameMatch_iff: "hostnameMatch s \<longleftrightarrow> hostname s"
proof
  assume "hostnameMatch s"
  then obtain w ws where "Split s CHR ''.'' = w # ws" "headLabel w" "list_all tailLabel ws"
    by (auto simp: hostnameMatch_def split: list.splits)
  then show "hostname s" using hostname_labels Join_Split [of s "CHR ''.''"] by metis
next
  assume "hostname s"
  then show "hostnameMatch s"
  proof (induction rule: hostname.induct)
    case (first_label w)
    then show ?case by (simp add: hostnameMatch_def Split_single headLabel_no_dot)
  next
    case (next_label h w)
    then show ?case
      by (auto simp: hostnameMatch_def Split_snoc tailLabel_no_dot split: list.splits)
  qed
qed

section \<open>Dotted quads\<close>

definition quad :: "nat list \<Rightarrow> string" where
  "quad q = Join (map utoa q) ''.''"

lemma utoa_length_1: "length (utoa n) = 1 \<longleftrightarrow> n < 10"
proof (cases "n < 10")
  case False
  then have "utoa n = utoa (n div 10) @ [digit (n mod 10)]" by (subst utoa.simps) simp
  then show ?thesis using False by simp
qed (simp add: utoa_small)

text \<open>Reading the digits of a number below 256, from the left.\<close>

lemma parse_utoa:
  assumes "n < 256"
  shows "parseIPv4Fields (utoa n @ s) 0 0 fs = parseIPv4Fields s n (length (utoa n)) fs"
proof -
  have step: "isDigit c \<Longrightarrow> \<not> (l = 1 \<and> v = 0) \<Longrightarrow> v * 10 + digitVal c \<le> 255 \<Longrightarrow>
    parseIPv4Fields (c # t) v l fs = parseIPv4Fields t (v * 10 + digitVal c) (l + 1) fs" for c t v l
    by auto
  consider "n < 10" | "10 \<le> n" "n < 100" | "100 \<le> n" by linarith
  then show ?thesis
  proof cases
    case 1
    then show ?thesis by (simp add: utoa_small step)
  next
    case 2
    define a b where "a = n div 10" and "b = n mod 10"
    with 2 have "a < 10" "0 < a" "b < 10" "n = a * 10 + b" by auto
    moreover from this have "utoa n = [digit a, digit b]" by (simp add: utoa_step utoa_small)
    ultimately show ?thesis using assms by (simp add: step del: parseIPv4Fields.simps)
  next
    case 3
    define a b c where "a = n div 10 div 10" and "b = n div 10 mod 10" and "c = n mod 10"
    have ab: "n div 10 = a * 10 + b" unfolding a_def b_def by (simp only: div_mult_mod_eq)
    have "n = (n div 10) * 10 + c" unfolding c_def by (simp only: div_mult_mod_eq)
    with ab have n: "n = (a * 10 + b) * 10 + c" by simp
    have "a < 10" unfolding a_def using assms by linarith
    moreover have "0 < a" unfolding a_def using 3 by linarith
    moreover have "b < 10" "c < 10" unfolding b_def c_def by simp_all
    ultimately have lt: "a < 10" "0 < a" "b < 10" "c < 10" .
    have u: "utoa n = [digit a, digit b, digit c]"
      unfolding n using lt utoa_step [of "a * 10 + b" c] utoa_step [of a b] utoa_small [of a]
      by (simp only: add_pos_nonneg append.simps)
    have le: "a * 10 + b \<le> 255" "(a * 10 + b) * 10 + c \<le> 255" using n assms by simp_all
    show ?thesis unfolding u using lt le n by (simp add: step del: parseIPv4Fields.simps)
  qed
qed

lemma parse_dot:
  "l \<noteq> 0 \<Longrightarrow> s \<noteq> [] \<Longrightarrow> length fs < 3 \<Longrightarrow>
   parseIPv4Fields (CHR ''.'' # s) v l fs = parseIPv4Fields s 0 0 (fs @ [v])"
  by (simp add: not_isDigit_dot)

lemma parse_quad:
  assumes "a < 256" "b < 256" "c < 256" "d < 256"
  shows "parseIPv4Fields (quad [a, b, c, d]) 0 0 [] = Some [a, b, c, d]"
  using assms parse_utoa [OF assms(4), of "[]"]
  by (simp add: quad_def parse_utoa parse_dot del: parseIPv4Fields.simps(2))

text \<open>And back: a text the parser accepts is the dotted quad of its result.\<close>

definition numeral_text :: "nat \<Rightarrow> nat \<Rightarrow> string" where
  "numeral_text val digLen = (if digLen = 0 then [] else utoa val)"

lemma parse_inv:
  assumes "parseIPv4Fields s val digLen fs = Some q"
    and "digLen = 0 \<and> val = 0 \<and> s \<noteq> [] \<or> digLen = length (utoa val)"
    and "length fs \<le> 3" and "val < 256"
  shows "\<exists>r. q = fs @ r \<and> length q = 4 \<and> (\<forall>x \<in> set r. x < 256)
    \<and> numeral_text val digLen @ s = quad r"
  using assms
proof (induction s val digLen fs rule: parseIPv4Fields.induct)
  case (1 val digLen fs)
  then show ?case
    by (auto simp: numeral_text_def quad_def split: if_splits)
next
  case (2 c s val digLen fs)
  show ?case
  proof (cases "isDigit c")
    case True
    let ?v = "val * 10 + digitVal c"
    have nz: "\<not> (digLen = 1 \<and> val = 0)" and v: "?v \<le> 255"
      and p: "parseIPv4Fields s ?v (digLen + 1) fs = Some q"
      using 2 True by (auto simp: Let_def split: if_splits)
    have pos: "0 < digLen \<Longrightarrow> 0 < val" using nz "2.prems"(2) utoa_length_1 [of val] by auto
    have u: "utoa ?v = numeral_text val digLen @ [c]"
      using True pos "2.prems"(2) digitVal_less [OF True] digit_digitVal [OF True]
      by (cases "digLen = 0") (auto simp: numeral_text_def utoa_small utoa_step)
    have len: "digLen + 1 = length (utoa ?v)"
      using u "2.prems"(2) by (auto simp: numeral_text_def)
    from "2.IH"(1) [OF True nz refl _ p] v len "2.prems"(3)
    obtain r where r: "q = fs @ r" "length q = 4" "\<forall>x \<in> set r. x < 256"
      "numeral_text ?v (digLen + 1) @ s = quad r"
      by auto
    moreover have "numeral_text val digLen @ c # s = quad r"
      using r(4) u by (simp add: numeral_text_def)
    ultimately show ?thesis by blast
  next
    case False
    have c: "c = CHR ''.''" and dl: "digLen \<noteq> 0" and s: "s \<noteq> []" and l: "length fs \<noteq> 3"
      and p: "parseIPv4Fields s 0 0 (fs @ [val]) = Some q"
      using 2 False by (auto split: if_splits)
    from "2.IH"(2) [OF False c _ l p] dl s l "2.prems"(3)
    obtain r where r: "q = (fs @ [val]) @ r" "length q = 4" "\<forall>x \<in> set r. x < 256"
      "s = quad r" by (auto simp: numeral_text_def)
    have "r \<noteq> []" using r(4) s by (auto simp: quad_def)
    then have "numeral_text val digLen @ c # s = quad (val # r)"
      using r(4) c dl by (simp add: numeral_text_def quad_def Join_Cons)
    then show ?thesis using r "2.prems"(4) by (intro exI [of _ "val # r"]) auto
  qed
qed

lemma parse_quad_iff:
  "parseIPv4Fields s 0 0 [] = Some q \<longleftrightarrow>
     length q = 4 \<and> (\<forall>x \<in> set q. x < 256) \<and> s = quad q"
proof
  assume p: "parseIPv4Fields s 0 0 [] = Some q"
  then have "s \<noteq> []" by auto
  then show "length q = 4 \<and> (\<forall>x \<in> set q. x < 256) \<and> s = quad q"
    using parse_inv [OF p] by (auto simp: numeral_text_def)
next
  assume a: "length q = 4 \<and> (\<forall>x \<in> set q. x < 256) \<and> s = quad q"
  then obtain w x y z where "q = [w, x, y, z]"
    by (auto simp: numeral_eq_Suc length_Suc_conv)
  then show "parseIPv4Fields s 0 0 [] = Some q" using a parse_quad [of w x y z] by auto
qed

section \<open>What the validators accept\<close>

definition okHost :: "string \<Rightarrow> bool" where
  "okHost h \<longleftrightarrow> h \<noteq> [] \<and> ((\<exists>ip. ParseIP h = Some ip \<and> To4 ip \<noteq> None) \<or> hostname h)"

lemma TrimRight_append_nonspace: "\<not> isSpace c \<Longrightarrow> TrimRight (s @ c # t) = s @ c # TrimRight t"
  by (simp add: TrimRight_def dropWhile_append)

lemma TrimSpace_front: "\<not> isSpace c \<Longrightarrow> TrimSpace (c # s) = TrimRight (c # s)"
  by (simp add: TrimSpace_def)

lemma isSpace_colon: "\<not> isSpace CHR '':''"
  by (simp add: isSpace_def)

lemma ValidateIPv4OrHostname_iff:
  "ValidateIPv4OrHostname a s = None \<longleftrightarrow>
     okHost (let t = TrimSpace s; i = LastIndex t CHR '':''
             in if i \<noteq> -1 then take (nat i) t else t)"
  unfolding ValidateIPv4OrHostname_def okHost_def Let_def hostnameMatch_iff
  by (auto split: option.splits)

lemma ValidateIPv4OrHostname_port:
  assumes "CHR '':'' \<notin> set p" "TrimSpace s = h @ CHR '':'' # p"
  shows "ValidateIPv4OrHostname a s = None \<longleftrightarrow> okHost h"
  unfolding ValidateIPv4OrHostname_iff assms(2)
  using assms(1) by (simp add: LastIndex_append_sep)

lemma ValidateIPv4OrHostname_plain:
  assumes "CHR '':'' \<notin> set (TrimSpace s)"
  shows "ValidateIPv4OrHostname a s = None \<longleftrightarrow> okHost (TrimSpace s)"
  unfolding ValidateIPv4OrHostname_iff using assms by (simp add: LastIndex_none)

lemma ParseAddrAt_dot:
  "CHR '':'' \<notin> set s \<Longrightarrow> CHR ''%'' \<notin> set s \<Longrightarrow> ParseAddrAt t s =
     (if CHR ''.'' \<in> set s then map_option (\<lambda>q. v4prefix @ q) (parseIPv4Fields t 0 0 []) else None)"
  by (induction s) auto

lemma quad_chars: "c \<in> set (quad q) \<Longrightarrow> isDigit c \<or> c = CHR ''.''"
  unfolding quad_def
proof (induction q)
  case (Cons n q)
  then show ?case by (cases "q = []") (auto simp: Join_Cons dest: utoa_digits)
qed simp

lemma quad_no_sep: "CHR '':'' \<notin> set (quad q)" "CHR ''%'' \<notin> set (quad q)"
  using quad_chars [of "CHR '':''" q] quad_chars [of "CHR ''%''" q] by (auto simp: isDigit_def)

lemma ParseIP_quad:
  assumes "length q = 4" "\<forall>x \<in> set q. x < 256"
  shows "ParseIP (quad q) = Some (v4prefix @ q)"
proof -
  obtain w x y z where "q = [w, x, y, z]"
    using assms(1) by (auto simp: numeral_eq_Suc length_Suc_conv)
  then have "CHR ''.'' \<in> set (quad q)" by (simp add: quad_def)
  then show ?thesis
    unfolding ParseIP_def ParseAddrAt_dot [OF quad_no_sep] using assms parse_quad_iff by simp
qed

lemma To4_v4prefix [simp]: "To4 (v4prefix @ q) = Some q"
  by (simp add: To4_def v4prefix_def)

lemma okHost_quad: "length q = 4 \<Longrightarrow> \<forall>x \<in> set q. x < 256 \<Longrightarrow> okHost (quad q)"
  unfolding okHost_def using ParseIP_quad [of q] by (auto simp: quad_def length_Suc_conv numeral_eq_Suc)



text \<open>Parsing and printing of dotted quads are inverse: the parser accepts exactly the texts
  that are four numbers below 256 without leading zeros, and returns those numbers.\<close>

theorem ipv4_roundtrip:
  "parseIPv4Fields s 0 0 [] = Some q \<longleftrightarrow> length q = 4 \<and> list_all (\<lambda>x. x < 256) q \<and> s = quad q"
  unfolding parse_quad_iff list_all_iff ..

lemma backendLoop_None:
  "backendLoop a ss e = None \<longleftrightarrow>
     (\<not> e \<or> (\<exists>s \<in> set ss. TrimSpace s \<noteq> []))
     \<and> (\<forall>s \<in> set ss. TrimSpace s \<noteq> [] \<longrightarrow> ValidateIPv4OrHostname a (TrimSpace s) = None)"
  by (induction a ss e rule: backendLoop.induct) (auto simp: Let_def split: option.splits)

text \<open>A list of backend services is accepted exactly when some entry is not blank and every
  entry that is not blank is an acceptable address; blank entries between commas do not matter.\<close>

theorem backend_services_accepted:
  "ValidateBackendServices annotation value = None \<longleftrightarrow>
     list_ex (\<lambda>s. TrimSpace s \<noteq> []) (Split value CHR '','')
     \<and> list_all (\<lambda>s. TrimSpace s = [] \<or> ValidateIPv4OrHostname annotation (TrimSpace s) = None)
         (Split value CHR '','')"
  unfolding ValidateBackendServices_def Let_def
  by (cases "CHR '','' \<in> set value")
    (auto simp: Contains_char backendLoop_None Split_single list_ex_iff list_all_iff
      simp del: backendLoop.simps)

lemma resourceLoop_None:
  "resourceLoop Q a rs = None \<longleftrightarrow>
     (\<forall>(n, v) \<in> set rs. (n \<in> set standardContainerResources \<or> HasPrefix n HugePagesPrefix)
        \<and> 0 < q_milli Q v)"
  by (induction Q a rs rule: resourceLoop.induct) (auto simp: not_less)

lemma FindValidateFunc_nil: "FindValidateFunc Q ''nil'' = None"
  by (simp add: FindValidateFunc_def AnnotationValidateFuncs_def pkgName_def)

lemma FindValidateFunc_known:
  "FindValidateFunc Q ''ValidateServiceName'' = Some ValidateServiceName"
  "FindValidateFunc Q ''ValidateBackendServices'' = Some ValidateBackendServices"
  "FindValidateFunc Q ''ValidateResourceRequirements'' = Some (ValidateResourceRequirements Q)"
  by (simp_all add: FindValidateFunc_def AnnotationValidateFuncs_def pkgName_def)

end
