(* ===== verification/Injector.thy ===== *)
theory Injector
  imports Validate Api_Types
begin

text \<open>
  The sidecar injector: \<open>annotation.go\<close> (the annotations a user may overlay and the overlay itself)
  and \<open>injector.go\<close> (the fields collected for one pod and the methods that fill them and inject
  them). A method of \<open>SidecarInjectField\<close> takes the receiver and returns it updated, together with
  the overlay and the pod's annotations where it writes them. The regular expression compiler is a
  parameter; so are the decoding of resource lists and quantities.
\<close>

section \<open>annotation.go\<close>

record Annotation =
  an_Name :: string
  an_DefaultValue :: string
  an_ValidateFunc :: string
  an_EnvName :: string

type_synonym Annotations = "Annotation list"
type_synonym AnnotationOverlay = "Annotation \<rightharpoonup> string"

text \<open>\<open>NewAnnotations\<close> reads the embedded file and decodes it; the YAML decoder is a parameter.\<close>

definition NewAnnotations ::
  "(string \<Rightarrow> goerror + string) \<Rightarrow> (string \<Rightarrow> goerror + Annotations) \<Rightarrow> goerror + Annotations" where
  "NewAnnotations readFile yamlUnmarshal =
     (case readFile ''injector/templates/annotations.yaml'' of
        Inl err \<Rightarrow> Inl err
      | Inr data \<Rightarrow>
          (case yamlUnmarshal data of
             Inl err \<Rightarrow> Inl (ErrorString (''unmarshal annotations.yaml to struct Annotations :'' @ Error err))
           | Inr a \<Rightarrow> Inr a))"

definition GetAnnotationsByPrefix :: "Annotations \<Rightarrow> string \<Rightarrow> Annotations" where
  "GetAnnotationsByPrefix a prefixName = filter (\<lambda>v. HasPrefix (an_Name v) prefixName) a"

definition NewAnnotationOverlay :: AnnotationOverlay where
  "NewAnnotationOverlay = Map.empty"

definition GetFinalValue :: "AnnotationOverlay \<Rightarrow> Annotation \<Rightarrow> string" where
  "GetFinalValue as a = (case as a of Some v \<Rightarrow> v | None \<Rightarrow> an_DefaultValue a)"

definition SetOverlay ::
  "quantities \<Rightarrow> AnnotationOverlay \<Rightarrow> gomap \<Rightarrow> Annotation \<Rightarrow> goerror option \<times> AnnotationOverlay" where
  "SetOverlay Q as annotation a =
     (case annotation (an_Name a) of
        None \<Rightarrow> (None, as)
      | Some v \<Rightarrow>
          (case FindValidateFunc Q (an_ValidateFunc a) of
             None \<Rightarrow> (None, as(a \<mapsto> v))
           | Some f \<Rightarrow> (case f (an_Name a) v of
                 Some err \<Rightarrow> (Some err, as)
               | None \<Rightarrow> (None, as(a \<mapsto> v)))))"

definition GetOverlayValue :: "AnnotationOverlay \<Rightarrow> Annotation \<Rightarrow> string" where
  "GetOverlayValue as a = (case as a of Some v \<Rightarrow> v | None \<Rightarrow> [])"

section \<open>Constants\<close>

definition ActiveInjectorLabel :: string where
  "ActiveInjectorLabel = ''swck-java-agent-injected''"

definition SidecarInjectSucceedAnno :: string where
  "SidecarInjectSucceedAnno = ''sidecar.skywalking.apache.org/succeed''"

definition sidecarInjectContainerAnno :: string where
  "sidecarInjectContainerAnno = ''strategy.skywalking.apache.org/inject.Container''"

definition sidecarInjectErrorAnno :: string where
  "sidecarInjectErrorAnno = ''sidecar.skywalking.apache.org/error''"

definition sidecarAnnotationPrefix :: string where
  "sidecarAnnotationPrefix = ''sidecar.skywalking.apache.org/''"

definition agentAnnotationPrefix :: string where
  "agentAnnotationPrefix = ''agent.skywalking.apache.org/''"

definition pluginsAnnotationPrefix :: string where
  "pluginsAnnotationPrefix = ''plugins.skywalking.apache.org/''"

definition optionsAnnotation :: string where
  "optionsAnnotation = ''optional.skywalking.apache.org''"

definition optionsReporterAnnotation :: string where
  "optionsReporterAnnotation = ''optional-reporter.skywalking.apache.org''"

definition bootstrapAnnotation :: string where
  "bootstrapAnnotation = ''bootstrap.skywalking.apache.org''"

definition mountPath :: string where
  "mountPath = ''/sky/agent''"

lemmas injector_keys = ActiveInjectorLabel_def SidecarInjectSucceedAnno_def
  sidecarInjectContainerAnno_def sidecarInjectErrorAnno_def sidecarAnnotationPrefix_def
  agentAnnotationPrefix_def pluginsAnnotationPrefix_def optionsAnnotation_def
  optionsReporterAnnotation_def bootstrapAnnotation_def mountPath_def

section \<open>SidecarInjectField\<close>

record SidecarInjectField =
  NeedInject :: bool
  Initcontainer :: Container
  SidecarVolume :: Volume
  SidecarVolumeMount :: VolumeMount
  Env :: EnvVar
  Envs :: "EnvVar list"
  JvmAgentConfigStr :: string
  InjectContainer :: string

definition NewSidecarInjectField :: SidecarInjectField where
  "NewSidecarInjectField = \<lparr>NeedInject = False, Initcontainer = zeroContainer,
     SidecarVolume = zeroVolume, SidecarVolumeMount = zeroVolumeMount, Env = zeroEnvVar,
     Envs = [], JvmAgentConfigStr = [], InjectContainer = []\<rparr>"

text \<open>\<open>regexp.Compile\<close>: an error, or the match predicate of the pattern.\<close>

type_synonym regexps = "string \<Rightarrow> goerror + (string \<Rightarrow> bool)"

text \<open>\<open>findInjectContainer\<close> returns pointers into the slice of containers: here their indices.\<close>

definition findInjectContainer :: "regexps \<Rightarrow> SidecarInjectField \<Rightarrow> Container list \<Rightarrow> nat list" where
  "findInjectContainer R s containers =
     (if length containers = 0 then []
      else if length (InjectContainer s) = 0 then [0..<length containers]
      else (case R (InjectContainer s) of
              Inl err \<Rightarrow> [0]
            | Inr match \<Rightarrow> filter (\<lambda>i. match (c_Name (containers ! i))) [0..<length containers]))"

text \<open>The part of \<open>Inject\<close> that changes one target container: mount, agent variable, then those of
  the extra variables whose name, up to case, the container does not have yet.\<close>

definition envsTBA :: "SidecarInjectField \<Rightarrow> EnvVar list \<Rightarrow> EnvVar list" where
  "envsTBA s env =
     filter (\<lambda>inj. \<not> list_ex (\<lambda>ex. EqualFold (ev_Name ex) (ev_Name inj)) env) (Envs s)"

definition injectOne :: "SidecarInjectField \<Rightarrow> Container \<Rightarrow> Container" where
  "injectOne s c =
     (let c = c\<lparr>c_VolumeMounts := c_VolumeMounts c @ [SidecarVolumeMount s]\<rparr>;
          c = c\<lparr>c_Env := c_Env c @ [Env s]\<rparr>;
          tba = envsTBA s (c_Env c)
      in if 0 < length (Envs s) then c\<lparr>c_Env := c_Env c @ tba\<rparr> else c)"

fun injectAt :: "SidecarInjectField \<Rightarrow> nat list \<Rightarrow> Container list \<Rightarrow> Container list" where
  "injectAt s [] cs = cs"
| "injectAt s (i # is) cs = injectAt s is (cs[i := injectOne s (cs ! i)])"

definition Inject :: "regexps \<Rightarrow> SidecarInjectField \<Rightarrow> Pod \<Rightarrow> Pod" where
  "Inject R s pod =
     (let pod = pod\<lparr>pod_InitContainers := pod_InitContainers pod @ [Initcontainer s]\<rparr>;
          pod = pod\<lparr>pod_Volumes := pod_Volumes pod @ [SidecarVolume s]\<rparr>;
          targetContainers = findInjectContainer R s (pod_Containers pod)
      in pod\<lparr>pod_Containers := injectAt s targetContainers (pod_Containers pod)\<rparr>)"

definition GetInjectStrategy ::
  "gomap option \<Rightarrow> gomap option \<Rightarrow> SidecarInjectField \<Rightarrow> SidecarInjectField" where
  "GetInjectStrategy labels annotation s =
     (let s = s\<lparr>NeedInject := False\<rparr> in
      if labels = None then s
      else if EqualFold (nilget annotation SidecarInjectSucceedAnno) ''true'' then s
      else (let s = (if EqualFold (nilget labels ActiveInjectorLabel) ''true''
                     then s\<lparr>NeedInject := True\<rparr> else s)
            in case annotation of
                 None \<Rightarrow> s
               | Some m \<Rightarrow> (case m sidecarInjectContainerAnno of
                     Some v \<Rightarrow> s\<lparr>InjectContainer := v\<rparr> | None \<Rightarrow> s)))"

text \<open>The two annotation writers. The error writer runs only after an annotation was found in the
  map, so the map is not nil there; the success writer is reached with the map \<open>Handle\<close> made.\<close>

definition injectErrorAnnotation :: "gomap \<Rightarrow> string \<Rightarrow> gomap" where
  "injectErrorAnnotation annotation errorInfo = annotation(sidecarInjectErrorAnno \<mapsto> errorInfo)"

definition injectSucceedAnnotation :: "gomap option \<Rightarrow> gopanic + gomap option" where
  "injectSucceedAnnotation annotation =
     (case annotation of
        None \<Rightarrow> Inl NilMapWrite
      | Some m \<Rightarrow> Inr (Some (m(SidecarInjectSucceedAnno \<mapsto> ''true'', ActiveInjectorLabel \<mapsto> ''true''))))"

definition SidecarOverlayandGetValue ::
  "quantities \<Rightarrow> AnnotationOverlay \<Rightarrow> gomap \<Rightarrow> Annotation
   \<Rightarrow> (string \<times> bool) \<times> AnnotationOverlay \<times> gomap" where
  "SidecarOverlayandGetValue Q ao annotation a =
     (if annotation (an_Name a) \<noteq> None then
        (case SetOverlay Q ao annotation a of
           (Some err, ao') \<Rightarrow> (([], False), ao', injectErrorAnnotation annotation (Error err))
         | (None, ao') \<Rightarrow> ((GetOverlayValue ao' a, True), ao', annotation))
      else ((GetOverlayValue ao a, True), ao, annotation))"

text \<open>\<open>setValue\<close> writes through a string pointer: it takes the pointee and returns it.\<close>

definition setValue ::
  "quantities \<Rightarrow> string \<Rightarrow> AnnotationOverlay \<Rightarrow> gomap \<Rightarrow> Annotation
   \<Rightarrow> bool \<times> string \<times> AnnotationOverlay \<times> gomap" where
  "setValue Q config ao annotation a =
     (case SidecarOverlayandGetValue Q ao annotation a of
        ((v, ok), ao', annotation') \<Rightarrow>
          if ok then
            (if 0 < length v then (True, v, ao', annotation')
             else if 0 < length config then (True, config, ao', annotation')
             else (True, an_DefaultValue a, ao', annotation'))
          else (False, config, ao', annotation'))"

definition OverlaySwAgentCR :: "SwAgentList \<Rightarrow> SidecarInjectField \<Rightarrow> bool \<times> SidecarInjectField" where
  "OverlaySwAgentCR swAgentL s =
     (if 0 < length swAgentL then
        (let swAgent = cr_Spec (swAgentL ! (length swAgentL - 1));
             js = swa_JavaSidecar swAgent;
             s = s\<lparr>SidecarVolume := (SidecarVolume s)\<lparr>vol_Name := swa_SharedVolumeName swAgent,
                                                     vol_EmptyDir := Some ()\<rparr>\<rparr>;
             s = s\<lparr>SidecarVolumeMount := (SidecarVolumeMount s)\<lparr>
                     vm_Name := swa_SharedVolumeName swAgent, vm_MountPath := mountPath\<rparr>\<rparr>;
             s = s\<lparr>Initcontainer := (Initcontainer s)\<lparr>c_Name := js_Name js, c_Image := js_Image js,
                     c_Args := js_Args js, c_Command := js_Command js,
                     c_VolumeMounts := c_VolumeMounts (Initcontainer s)
                       @ [zeroVolumeMount\<lparr>vm_Name := swa_SharedVolumeName swAgent,
                                           vm_MountPath := mountPath\<rparr>]\<rparr>\<rparr>;
             s = s\<lparr>Envs := js_Env js\<rparr>;
             s = s\<lparr>InjectContainer := swa_ContainerMatcher swAgent\<rparr>
         in (True, s))
      else (True, s))"

subsection \<open>OverlaySidecar\<close>

text \<open>The local map \<open>annoField\<close> sends a field name to a pointer: to a field of the receiver, to an
  element of its command or argument slice, or to one of the local strings.\<close>

datatype fieldPtr = PName | PImage | PCommand0 | PArgs0 | PArgs1 | PLimits | PRequests
  | PVolumeName | PMountPath | PEnvName | PEnvValue

definition annoField :: "(string \<times> fieldPtr) list" where
  "annoField =
     [(''initcontainer.Name'', PName),
      (''initcontainer.Image'', PImage),
      (''initcontainer.Command'', PCommand0),
      (''initcontainer.args.Option'', PArgs0),
      (''initcontainer.args.Command'', PArgs1),
      (''initcontainer.resources.limits'', PLimits),
      (''initcontainer.resources.requests'', PRequests),
      (''sidecarVolume.Name'', PVolumeName),
      (''sidecarVolumeMount.MountPath'', PMountPath),
      (''env.Name'', PEnvName),
      (''env.Value'', PEnvValue)]"

record sidecarVars =
  sv_s :: SidecarInjectField
  sv_limitsStr :: string
  sv_requestStr :: string

fun loadField :: "fieldPtr \<Rightarrow> sidecarVars \<Rightarrow> string" where
  "loadField PName v = c_Name (Initcontainer (sv_s v))"
| "loadField PImage v = c_Image (Initcontainer (sv_s v))"
| "loadField PCommand0 v = c_Command (Initcontainer (sv_s v)) ! 0"
| "loadField PArgs0 v = c_Args (Initcontainer (sv_s v)) ! 0"
| "loadField PArgs1 v = c_Args (Initcontainer (sv_s v)) ! 1"
| "loadField PLimits v = sv_limitsStr v"
| "loadField PRequests v = sv_requestStr v"
| "loadField PVolumeName v = vol_Name (SidecarVolume (sv_s v))"
| "loadField PMountPath v = vm_MountPath (SidecarVolumeMount (sv_s v))"
| "loadField PEnvName v = ev_Name (Env (sv_s v))"
| "loadField PEnvValue v = ev_Value (Env (sv_s v))"

definition onInit :: "(Container \<Rightarrow> Container) \<Rightarrow> sidecarVars \<Rightarrow> sidecarVars" where
  "onInit f v = v\<lparr>sv_s := (sv_s v)\<lparr>Initcontainer := f (Initcontainer (sv_s v))\<rparr>\<rparr>"

fun storeField :: "fieldPtr \<Rightarrow> string \<Rightarrow> sidecarVars \<Rightarrow> sidecarVars" where
  "storeField PName x v = onInit (\<lambda>c. c\<lparr>c_Name := x\<rparr>) v"
| "storeField PImage x v = onInit (\<lambda>c. c\<lparr>c_Image := x\<rparr>) v"
| "storeField PCommand0 x v = onInit (\<lambda>c. c\<lparr>c_Command := (c_Command c)[0 := x]\<rparr>) v"
| "storeField PArgs0 x v = onInit (\<lambda>c. c\<lparr>c_Args := (c_Args c)[0 := x]\<rparr>) v"
| "storeField PArgs1 x v = onInit (\<lambda>c. c\<lparr>c_Args := (c_Args c)[1 := x]\<rparr>) v"
| "storeField PLimits x v = v\<lparr>sv_limitsStr := x\<rparr>"
| "storeField PRequests x v = v\<lparr>sv_requestStr := x\<rparr>"
| "storeField PVolumeName x v =
     v\<lparr>sv_s := (sv_s v)\<lparr>SidecarVolume := (SidecarVolume (sv_s v))\<lparr>vol_Name := x\<rparr>\<rparr>\<rparr>"
| "storeField PMountPath x v =
     v\<lparr>sv_s := (sv_s v)\<lparr>SidecarVolumeMount := (SidecarVolumeMount (sv_s v))\<lparr>vm_MountPath := x\<rparr>\<rparr>\<rparr>"
| "storeField PEnvName x v = v\<lparr>sv_s := (sv_s v)\<lparr>Env := (Env (sv_s v))\<lparr>ev_Name := x\<rparr>\<rparr>\<rparr>"
| "storeField PEnvValue x v = v\<lparr>sv_s := (sv_s v)\<lparr>Env := (Env (sv_s v))\<lparr>ev_Value := x\<rparr>\<rparr>\<rparr>"

fun sidecarLoop ::
  "quantities \<Rightarrow> Annotations \<Rightarrow> sidecarVars \<Rightarrow> AnnotationOverlay \<Rightarrow> gomap
   \<Rightarrow> bool \<times> sidecarVars \<times> AnnotationOverlay \<times> gomap" where
  "sidecarLoop Q [] v ao annotation = (True, v, ao, annotation)"
| "sidecarLoop Q (a # as) v ao annotation =
     (case map_of annoField (TrimPrefix (an_Name a) sidecarAnnotationPrefix) of
        None \<Rightarrow> sidecarLoop Q as v ao annotation
      | Some ptr \<Rightarrow>
          (case setValue Q (loadField ptr v) ao annotation a of
             (ok, x, ao', annotation') \<Rightarrow>
               if ok then sidecarLoop Q as (storeField ptr x v) ao' annotation'
               else (False, v, ao', annotation')))"

text \<open>Setting the limits or requests of the init container from the collected text.\<close>

definition setResources ::
  "quantities \<Rightarrow> string \<Rightarrow> (ResourceList option \<Rightarrow> Container \<Rightarrow> Container)
   \<Rightarrow> SidecarInjectField \<Rightarrow> bool \<times> SidecarInjectField" where
  "setResources Q str upd s =
     (if str \<noteq> ''nil'' then
        (case q_unmarshal Q str of
           Inl err \<Rightarrow> (False, s)
         | Inr rl \<Rightarrow> (True, s\<lparr>Initcontainer := upd (Some rl) (Initcontainer s)\<rparr>))
      else (True, s))"

definition OverlaySidecar ::
  "quantities \<Rightarrow> Annotations \<Rightarrow> AnnotationOverlay \<Rightarrow> gomap \<Rightarrow> SidecarInjectField
   \<Rightarrow> bool \<times> SidecarInjectField \<times> AnnotationOverlay \<times> gomap" where
  "OverlaySidecar Q a ao annotation s =
     (let s = s\<lparr>Initcontainer := (Initcontainer s)\<lparr>c_Command := [[]], c_Args := [[], []]\<rparr>\<rparr>;
          anno = GetAnnotationsByPrefix a sidecarAnnotationPrefix
      in case sidecarLoop Q anno \<lparr>sv_s = s, sv_limitsStr = [], sv_requestStr = []\<rparr> ao annotation of
           (False, v, ao', annotation') \<Rightarrow> (False, sv_s v, ao', annotation')
         | (True, v, ao', annotation') \<Rightarrow>
             (let s = sv_s v;
                  s = s\<lparr>SidecarVolumeMount := (SidecarVolumeMount s)\<lparr>vm_Name := vol_Name (SidecarVolume s)\<rparr>\<rparr>;
                  s = s\<lparr>Initcontainer := (Initcontainer s)\<lparr>c_VolumeMounts := [SidecarVolumeMount s]\<rparr>\<rparr>
              in case setResources Q (sv_limitsStr v) (\<lambda>r c. c\<lparr>c_Limits := r\<rparr>) s of
                   (False, s) \<Rightarrow> (False, s, ao', annotation')
                 | (True, s) \<Rightarrow>
                     (case setResources Q (sv_requestStr v) (\<lambda>r c. c\<lparr>c_Requests := r\<rparr>) s of
                        (False, s) \<Rightarrow> (False, s, ao', annotation')
                      | (True, s) \<Rightarrow>
                          (True, s\<lparr>SidecarVolume := (SidecarVolume s)\<lparr>vol_EmptyDir := None\<rparr>\<rparr>,
                           ao', annotation'))))"

subsection \<open>OverlayAgent\<close>

definition AgentOverlayandGetValue ::
  "quantities \<Rightarrow> AnnotationOverlay \<Rightarrow> gomap \<Rightarrow> Annotation \<Rightarrow> bool \<times> AnnotationOverlay \<times> gomap" where
  "AgentOverlayandGetValue Q ao annotation a =
     (if annotation (an_Name a) \<noteq> None then
        (case SetOverlay Q ao annotation a of
           (Some err, ao') \<Rightarrow> (False, ao', injectErrorAnnotation annotation (Error err))
         | (None, ao') \<Rightarrow> (True, ao', annotation))
      else (True, ao, annotation))"

fun agentMatches ::
  "quantities \<Rightarrow> Annotations \<Rightarrow> string \<Rightarrow> AnnotationOverlay \<Rightarrow> gomap
   \<Rightarrow> bool \<times> AnnotationOverlay \<times> gomap" where
  "agentMatches Q [] k ao annotation = (True, ao, annotation)"
| "agentMatches Q (an # ans) k ao annotation =
     (if EqualFold k (an_Name an) then
        (case AgentOverlayandGetValue Q ao annotation an of
           (False, ao', annotation') \<Rightarrow> (False, ao', annotation')
         | (True, ao', annotation') \<Rightarrow> agentMatches Q ans k ao' annotation')
      else agentMatches Q ans k ao annotation)"

text \<open>Appending one option to the agent's argument string.\<close>

definition addConfig :: "string \<Rightarrow> string \<Rightarrow> string \<Rightarrow> string" where
  "addConfig jvm configName v =
     (let config = Join [configName, v] ''=''
      in if jvm \<noteq> [] then Join [jvm, config] '','' else config)"

fun agentLoop ::
  "quantities \<Rightarrow> Annotations \<Rightarrow> entries \<Rightarrow> string \<Rightarrow> AnnotationOverlay \<Rightarrow> gomap
   \<Rightarrow> bool \<times> string \<times> AnnotationOverlay \<times> gomap" where
  "agentLoop Q anno [] jvm ao annotation = (True, jvm, ao, annotation)"
| "agentLoop Q anno ((k, v) # it) jvm ao annotation =
     (if HasPrefix k agentAnnotationPrefix then
        (case agentMatches Q anno k ao annotation of
           (False, ao', annotation') \<Rightarrow> (False, jvm, ao', annotation')
         | (True, ao', annotation') \<Rightarrow>
             agentLoop Q anno it (addConfig jvm (TrimPrefix k agentAnnotationPrefix) v) ao' annotation')
      else agentLoop Q anno it jvm ao annotation)"

definition OverlayAgent ::
  "quantities \<Rightarrow> Annotations \<Rightarrow> entries \<Rightarrow> AnnotationOverlay \<Rightarrow> gomap \<Rightarrow> SidecarInjectField
   \<Rightarrow> bool \<times> SidecarInjectField \<times> AnnotationOverlay \<times> gomap" where
  "OverlayAgent Q a it ao annotation s =
     (let anno = GetAnnotationsByPrefix a agentAnnotationPrefix
      in case agentLoop Q anno it [] ao annotation of
           (ok, jvm, ao', annotation') \<Rightarrow> (ok, s\<lparr>JvmAgentConfigStr := jvm\<rparr>, ao', annotation'))"

subsection \<open>OverlayOptional\<close>

text \<open>Appending a command to the second argument of the init container; the index is out of range
  when the container has fewer than two arguments.\<close>

definition appendCommand :: "string \<Rightarrow> SidecarInjectField \<Rightarrow> gopanic + SidecarInjectField" where
  "appendCommand command s =
     (let args = c_Args (Initcontainer s) in
      if length args \<le> 1 then Inl IndexOutOfRange
      else Inr (s\<lparr>Initcontainer := (Initcontainer s)\<lparr>c_Args :=
                  args[1 := Join [args ! 1, command] '' && '']\<rparr>\<rparr>))"

record pluginVars =
  pv_optional :: string
  pv_reporter :: string
  pv_bootstrap :: string

definition swAgentPlugins :: "SwAgentList \<Rightarrow> pluginVars" where
  "swAgentPlugins swAgentL =
     (if 0 < length swAgentL then
        (let swAgent = cr_Spec (swAgentL ! (length swAgentL - 1)) in
         \<lparr>pv_optional = (if 0 < length (swa_OptionalPlugins swAgent)
                         then Join (swa_OptionalPlugins swAgent) ''|'' else []),
          pv_reporter = (if 0 < length (swa_OptionalReporterPlugins swAgent)
                         then Join (swa_OptionalReporterPlugins swAgent) ''|'' else []),
          pv_bootstrap = (if 0 < length (swa_BootstrapPlugins swAgent)
                          then Join (swa_BootstrapPlugins swAgent) ''|'' else [])\<rparr>)
      else \<lparr>pv_optional = [], pv_reporter = [], pv_bootstrap = []\<rparr>)"

text \<open>The loop over the annotations. Its last statement appends \<open>command\<close> when it is not empty; it
  is empty throughout, being assigned only after the loop.\<close>

fun optionalLoop ::
  "string \<Rightarrow> entries \<Rightarrow> pluginVars \<Rightarrow> SidecarInjectField \<Rightarrow> gopanic + (pluginVars \<times> SidecarInjectField)" where
  "optionalLoop command [] p s = Inr (p, s)"
| "optionalLoop command ((k, v) # it) p s =
     (let p = (if EqualFold k optionsAnnotation then p\<lparr>pv_optional := v\<rparr>
               else if EqualFold k optionsReporterAnnotation then p\<lparr>pv_reporter := v\<rparr>
               else if EqualFold k bootstrapAnnotation then p\<lparr>pv_bootstrap := v\<rparr>
               else p)
      in if command \<noteq> [] then
           (case appendCommand command s of Inl e \<Rightarrow> Inl e | Inr s' \<Rightarrow> optionalLoop command it p s')
         else optionalLoop command it p s)"

definition pluginCommand :: "string \<Rightarrow> string \<Rightarrow> string \<Rightarrow> string" where
  "pluginCommand sourcePath plugins targetPath =
     ''cd '' @ sourcePath @ '' && ls | grep -E '' @ [CHR 0x22] @ plugins @ [CHR 0x22]
     @ ''  | xargs -i cp {} '' @ targetPath"

definition appendPlugins ::
  "string \<Rightarrow> string \<Rightarrow> string \<Rightarrow> gopanic + SidecarInjectField \<Rightarrow> gopanic + SidecarInjectField" where
  "appendPlugins sourcePath plugins targetPath r =
     (case r of
        Inl e \<Rightarrow> Inl e
      | Inr s \<Rightarrow> if 0 < length plugins
                 then appendCommand (pluginCommand sourcePath plugins targetPath) s else Inr s)"

definition OverlayOptional ::
  "SwAgentList \<Rightarrow> entries \<Rightarrow> SidecarInjectField \<Rightarrow> gopanic + SidecarInjectField" where
  "OverlayOptional swAgentL it s =
     (let mp = vm_MountPath (SidecarVolumeMount s);
          sourceOptionalPath = Join [mp, ''optional-plugins/''] ''/'';
          sourceOptionalReporterPath = Join [mp, ''optional-reporter-plugins/''] ''/'';
          sourceBootstrapPath = Join [mp, ''bootstrap-plugins/''] ''/'';
          targetPath = Join [mp, ''plugins/''] ''/''
      in case optionalLoop [] it (swAgentPlugins swAgentL) s of
           Inl e \<Rightarrow> Inl e
         | Inr (p, s) \<Rightarrow>
             appendPlugins sourceBootstrapPath (pv_bootstrap p) targetPath
              (appendPlugins sourceOptionalReporterPath (pv_reporter p) targetPath
                (appendPlugins sourceOptionalPath (pv_optional p) targetPath (Inr s))))"

subsection \<open>OverlayPlugins and the agent configuration\<close>

fun pluginsLoop :: "entries \<Rightarrow> string \<Rightarrow> string" where
  "pluginsLoop [] jvm = jvm"
| "pluginsLoop ((k, v) # it) jvm =
     (if HasPrefix k pluginsAnnotationPrefix
      then pluginsLoop it (addConfig jvm (TrimPrefix k pluginsAnnotationPrefix) v)
      else pluginsLoop it jvm)"

definition OverlayPlugins :: "entries \<Rightarrow> SidecarInjectField \<Rightarrow> SidecarInjectField" where
  "OverlayPlugins it s = s\<lparr>JvmAgentConfigStr := pluginsLoop it (JvmAgentConfigStr s)\<rparr>"

definition quoted :: "string \<Rightarrow> string" where
  "quoted v = Join [[CHR 0x22], [CHR 0x22]] v"

definition configEntry :: "string \<Rightarrow> string option" where
  "configEntry k =
     (if HasPrefix k agentAnnotationPrefix then Some (TrimPrefix k agentAnnotationPrefix)
      else if HasPrefix k pluginsAnnotationPrefix then Some (TrimPrefix k pluginsAnnotationPrefix)
      else if EqualFold k optionsAnnotation then Some ''optional-plugin''
      else if EqualFold k optionsReporterAnnotation then Some ''optional-reporter-plugin''
      else None)"

fun GetInjectedAgentConfig :: "entries \<Rightarrow> gomap \<Rightarrow> gomap" where
  "GetInjectedAgentConfig [] configuration = configuration"
| "GetInjectedAgentConfig ((k, v) # it) configuration =
     (case configEntry k of
        Some option' \<Rightarrow> GetInjectedAgentConfig it (configuration(option' \<mapsto> quoted v))
      | None \<Rightarrow> GetInjectedAgentConfig it configuration)"

section \<open>The shipped table\<close>

text \<open>The content of \<open>annotations.yaml\<close>. YAML reads the scalar \<open>nil\<close> as a string.\<close>

definition sidecarAnnotation :: "string \<Rightarrow> string \<Rightarrow> string \<Rightarrow> Annotation" where
  "sidecarAnnotation n d v = \<lparr>an_Name = sidecarAnnotationPrefix @ n, an_DefaultValue = d,
     an_ValidateFunc = v, an_EnvName = ''nil''\<rparr>"

definition annotations_yaml :: Annotations where
  "annotations_yaml =
     [sidecarAnnotation ''initcontainer.Name'' ''inject-skywalking-agent'' ''nil'',
      sidecarAnnotation ''initcontainer.Image'' ''apache/skywalking-java-agent:8.16.0-java8'' ''nil'',
      sidecarAnnotation ''initcontainer.Command'' ''sh'' ''nil'',
      sidecarAnnotation ''initcontainer.args.Option'' ''-c'' ''nil'',
      sidecarAnnotation ''initcontainer.args.Command''
        ''mkdir -p /sky/agent && cp -r /skywalking/agent/* /sky/agent'' ''nil'',
      sidecarAnnotation ''initcontainer.resources.limits'' ''nil'' ''ValidateResourceRequirements'',
      sidecarAnnotation ''initcontainer.resources.requests'' ''nil'' ''ValidateResourceRequirements'',
      sidecarAnnotation ''sidecarVolume.Name'' ''sky-agent'' ''nil'',
      sidecarAnnotation ''sidecarVolumeMount.MountPath'' ''/sky/agent'' ''nil'',
      sidecarAnnotation ''env.Name'' ''JAVA_TOOL_OPTIONS'' ''nil'',
      sidecarAnnotation ''env.Value'' ''-javaagent:/sky/agent/skywalking-agent.jar'' ''nil'',
      \<lparr>an_Name = agentAnnotationPrefix @ ''agent.service_name'', an_DefaultValue = ''Your_ApplicationName'',
       an_ValidateFunc = ''ValidateServiceName'', an_EnvName = ''SW_AGENT_NAME''\<rparr>,
      \<lparr>an_Name = agentAnnotationPrefix @ ''collector.backend_service'', an_DefaultValue = ''127.0.0.1:11800'',
       an_ValidateFunc = ''ValidateBackendServices'', an_EnvName = ''SW_AGENT_COLLECTOR_BACKEND_SERVICES''\<rparr>]"

section \<open>Injection into the containers\<close>

text \<open>Which containers an injection touches, stated without the search: all of them when no
  pattern is given, the first when the pattern does not compile, else those the pattern matches.\<close>

definition targeted :: "regexps \<Rightarrow> SidecarInjectField \<Rightarrow> Container list \<Rightarrow> nat \<Rightarrow> bool" where
  "targeted R s cs i \<longleftrightarrow> i < length cs \<and>
     (InjectContainer s = [] \<or>
      (case R (InjectContainer s) of Inl err \<Rightarrow> i = 0 | Inr match \<Rightarrow> match (c_Name (cs ! i))))"

lemma set_findInjectContainer: "set (findInjectContainer R s cs) = {i. targeted R s cs i}"
  by (auto simp: findInjectContainer_def targeted_def split: sum.splits)

lemma distinct_findInjectContainer: "distinct (findInjectContainer R s cs)"
  by (auto simp: findInjectContainer_def split: sum.splits)

lemma length_injectAt [simp]: "length (injectAt s is cs) = length cs"
  by (induction s "is" cs rule: injectAt.induct) auto

lemma injectAt_nth:
  "distinct is \<Longrightarrow> i < length cs \<Longrightarrow>
   injectAt s is cs ! i = (if i \<in> set is then injectOne s (cs ! i) else cs ! i)"
  by (induction s "is" cs rule: injectAt.induct) (auto simp: nth_list_update, metis nth_list_update_neq)

lemma injectOne_sel:
  "c_VolumeMounts (injectOne s c) = c_VolumeMounts c @ [SidecarVolumeMount s]"
  "c_Env (injectOne s c) = c_Env c @ [Env s] @ envsTBA s (c_Env c @ [Env s])"
  "c_Name (injectOne s c) = c_Name c"
  by (auto simp: injectOne_def Let_def envsTBA_def)

lemma injectOne_rest:
  "\<exists>env vms. injectOne s c = c\<lparr>c_Env := env, c_VolumeMounts := vms\<rparr>"
  by (cases c) (auto simp: injectOne_def Let_def)

lemma Inject_containers:
  "pod_Containers (Inject R s p) =
     map (\<lambda>i. if targeted R s (pod_Containers p) i then injectOne s (pod_Containers p ! i)
              else pod_Containers p ! i) [0..<length (pod_Containers p)]"
  by (rule nth_equalityI)
    (simp_all add: Inject_def Let_def injectAt_nth distinct_findInjectContainer set_findInjectContainer)

lemma envsTBA_new:
  "envsTBA s xs = filter (\<lambda>e. ToLower (ev_Name e) \<notin> (\<lambda>x. ToLower (ev_Name x)) ` set xs) (Envs s)"
  unfolding envsTBA_def EqualFold_def list_ex_iff
  by (rule filter_cong [OF refl]) (unfold image_iff, metis)

text \<open>C9. An injection appends exactly one init container and one volume, leaves metadata, the
  number of containers and all other fields of the pod alone, adds to every targeted container one
  volume mount and, after its own variables, the agent variable and the extra variables whose name
  the container does not have, and leaves every other container as it was.\<close>

theorem Inject_effect:
  "pod_InitContainers (Inject R s p) = pod_InitContainers p @ [Initcontainer s]
   \<and> pod_Volumes (Inject R s p) = pod_Volumes p @ [SidecarVolume s]
   \<and> pod_Meta (Inject R s p) = pod_Meta p \<and> pod_rest (Inject R s p) = pod_rest p
   \<and> pod_Containers (Inject R s p) =
       map (\<lambda>i. let c = pod_Containers p ! i in
              if targeted R s (pod_Containers p) i
              then c\<lparr>c_VolumeMounts := c_VolumeMounts c @ [SidecarVolumeMount s],
                     c_Env := c_Env c @ [Env s] @
                       filter (\<lambda>e. ToLower (ev_Name e) \<notin> (\<lambda>x. ToLower (ev_Name x)) ` set (c_Env c @ [Env s]))
                         (Envs s)\<rparr>
              else c) [0..<length (pod_Containers p)]"
proof -
  have one: "injectOne s c = c\<lparr>c_VolumeMounts := c_VolumeMounts c @ [SidecarVolumeMount s],
      c_Env := c_Env c @ [Env s] @
        filter (\<lambda>e. ToLower (ev_Name e) \<notin> (\<lambda>x. ToLower (ev_Name x)) ` set (c_Env c @ [Env s])) (Envs s)\<rparr>" for c
    by (cases "Envs s = []") (simp_all only: injectOne_def Let_def envsTBA_new, simp_all)
  show ?thesis
    by (auto simp: Inject_containers one Let_def) (auto simp: Inject_def Let_def)
qed

lemma distinct_append_new:
  "distinct (map f xs) \<Longrightarrow> distinct (map f ys) \<Longrightarrow>
   distinct (map f (xs @ filter (\<lambda>e. f e \<notin> f ` set xs) ys))"
  by (auto simp: distinct_map_filter) (metis imageI)

lemma image_append_new: "f ` set (xs @ filter (\<lambda>e. f e \<notin> f ` set xs) ys) = f ` (set xs \<union> set ys)"
  by auto

text \<open>Variables are never shadowed by an injection: when the names of a container's variables,
  of the agent variable and of the extra variables are pairwise different up to case among
  themselves, the names of the injected container are pairwise different up to case, its own
  variables keep their place, and every extra variable's name is defined afterwards.\<close>

theorem injectOne_env_distinct:
  assumes "distinct (map (\<lambda>e. ToLower (ev_Name e)) (c_Env c @ [Env s]))"
    and "distinct (map (\<lambda>e. ToLower (ev_Name e)) (Envs s))"
  shows "distinct (map (\<lambda>e. ToLower (ev_Name e)) (c_Env (injectOne s c)))
    \<and> take (length (c_Env c)) (c_Env (injectOne s c)) = c_Env c
    \<and> (\<lambda>e. ToLower (ev_Name e)) ` set (c_Env (injectOne s c)) =
        (\<lambda>e. ToLower (ev_Name e)) ` (set (c_Env c) \<union> {Env s} \<union> set (Envs s))"
proof -
  let ?f = "\<lambda>e. ToLower (ev_Name e)" and ?xs = "c_Env c @ [Env s]"
  have env: "c_Env (injectOne s c) = ?xs @ envsTBA s ?xs"
    by (simp add: injectOne_sel)
  note tba = envsTBA_new [of s ?xs]
  have "distinct (map ?f (?xs @ envsTBA s ?xs))"
    unfolding tba by (rule distinct_append_new [OF assms])
  moreover have "?f ` set (?xs @ envsTBA s ?xs) = ?f ` (set ?xs \<union> set (Envs s))"
    unfolding tba by (rule image_append_new)
  ultimately show ?thesis by (simp only: env) simp
qed

theorem injectOne_env_distinct_witness:
  "distinct (map (\<lambda>e. ToLower (ev_Name e)) (c_Env (injectOne
     (NewSidecarInjectField\<lparr>Env := EnvVarOf ''JAVA_TOOL_OPTIONS'' ''-javaagent:/sky/agent/a.jar'',
        Envs := [EnvVarOf ''path'' ''x'', EnvVarOf ''B'' ''y'']\<rparr>)
     (zeroContainer\<lparr>c_Env := [EnvVarOf ''PATH'' ''/bin'']\<rparr>))))"
  using injectOne_env_distinct
    [of "zeroContainer\<lparr>c_Env := [EnvVarOf ''PATH'' ''/bin'']\<rparr>"
        "NewSidecarInjectField\<lparr>Env := EnvVarOf ''JAVA_TOOL_OPTIONS'' ''-javaagent:/sky/agent/a.jar'',
           Envs := [EnvVarOf ''path'' ''x'', EnvVarOf ''B'' ''y'']\<rparr>"]
  by (simp add: EnvVarOf_def NewSidecarInjectField_def zeroContainer_def ToLower_def lower_def)

section \<open>Strategy\<close>

text \<open>When an injection is wanted: the label says so and the pod is not marked as injected.\<close>

definition wantsInjection :: "gomap option \<Rightarrow> gomap option \<Rightarrow> bool" where
  "wantsInjection labels annotation \<longleftrightarrow>
     EqualFold (nilget labels ActiveInjectorLabel) ''true'' \<and>
     \<not> EqualFold (nilget annotation SidecarInjectSucceedAnno) ''true''"

lemma not_EqualFold_nil_true [simp]: "\<not> EqualFold [] ''true''"
  by (simp add: EqualFold_def ToLower_def)

lemma GetInjectStrategy_NeedInject:
  "NeedInject (GetInjectStrategy labels annotation s) = wantsInjection labels annotation"
  by (auto simp: GetInjectStrategy_def wantsInjection_def Let_def split: option.splits)

section \<open>Overlaying one annotation\<close>

text \<open>A table entry is acceptable for a pod when the pod does not set it, or sets it to a value its
  validator accepts.\<close>

definition acceptable :: "quantities \<Rightarrow> gomap \<Rightarrow> Annotation \<Rightarrow> bool" where
  "acceptable Q m a \<longleftrightarrow>
     (case m (an_Name a) of None \<Rightarrow> True
      | Some v \<Rightarrow> (case FindValidateFunc Q (an_ValidateFunc a) of None \<Rightarrow> True
                   | Some f \<Rightarrow> f (an_Name a) v = None))"

lemma SetOverlay_acceptable:
  "acceptable Q m a \<Longrightarrow> SetOverlay Q ao m a = (None, case m (an_Name a) of None \<Rightarrow> ao | Some v \<Rightarrow> ao(a \<mapsto> v))"
  by (auto simp: acceptable_def SetOverlay_def split: option.splits)

lemma SetOverlay_unacceptable:
  "\<not> acceptable Q m a \<Longrightarrow> \<exists>err. SetOverlay Q ao m a = (Some err, ao)"
  by (auto simp: acceptable_def SetOverlay_def split: option.splits)

definition pick :: "string \<Rightarrow> string \<Rightarrow> string \<Rightarrow> string" where
  "pick v cur dflt = (if v \<noteq> [] then v else if cur \<noteq> [] then cur else dflt)"

lemma setValue_ok:
  assumes "acceptable Q m a" and "m (an_Name a) = None \<Longrightarrow> ao a = None"
  shows "setValue Q cur ao m a =
    (True, pick (mapget m (an_Name a)) cur (an_DefaultValue a),
     (case m (an_Name a) of None \<Rightarrow> ao | Some v \<Rightarrow> ao(a \<mapsto> v)), m)"
  using assms
  by (auto simp: setValue_def SidecarOverlayandGetValue_def SetOverlay_acceptable GetOverlayValue_def
      pick_def mapget_def split: option.splits)

lemma setValue_bad:
  "\<not> acceptable Q m a \<Longrightarrow>
   \<exists>err. setValue Q cur ao m a = (False, cur, ao, m(sidecarInjectErrorAnno \<mapsto> Error err))"
  using SetOverlay_unacceptable [of Q m a ao]
  by (auto simp: setValue_def SidecarOverlayandGetValue_def injectErrorAnnotation_def acceptable_def
      split: option.splits)

section \<open>Overlaying the sidecar\<close>

text \<open>The overlay only ever holds values of annotations the pod has.\<close>

definition overlayOf :: "gomap \<Rightarrow> AnnotationOverlay \<Rightarrow> bool" where
  "overlayOf m ao \<longleftrightarrow> (\<forall>a. m (an_Name a) = None \<longrightarrow> ao a = None)"

lemma overlayOf_New [simp]: "overlayOf m NewAnnotationOverlay"
  by (simp add: overlayOf_def NewAnnotationOverlay_def)

lemma overlayOf_upd: "overlayOf m ao \<Longrightarrow> m (an_Name a) = Some v \<Longrightarrow> overlayOf m (ao(a \<mapsto> v))"
  by (auto simp: overlayOf_def)

text \<open>The effect of the loop when nothing is rejected: each known entry stores the picked value.\<close>

definition ptrOf :: "Annotation \<Rightarrow> fieldPtr option" where
  "ptrOf a = map_of annoField (TrimPrefix (an_Name a) sidecarAnnotationPrefix)"

fun resolve :: "gomap \<Rightarrow> Annotations \<Rightarrow> sidecarVars \<Rightarrow> sidecarVars" where
  "resolve m [] v = v"
| "resolve m (a # as) v =
     (case ptrOf a of
        None \<Rightarrow> resolve m as v
      | Some ptr \<Rightarrow> resolve m as
          (storeField ptr (pick (mapget m (an_Name a)) (loadField ptr v) (an_DefaultValue a)) v))"

lemma sidecarLoop_ok:
  assumes "\<forall>a \<in> set as. ptrOf a \<noteq> None \<longrightarrow> acceptable Q m a" and "overlayOf m ao"
  shows "\<exists>ao'. sidecarLoop Q as v ao m = (True, resolve m as v, ao', m) \<and> overlayOf m ao'"
  using assms
proof (induction "as" arbitrary: v ao)
  case (Cons a as)
  show ?case
  proof (cases "ptrOf a")
    case None
    then show ?thesis using Cons by (simp add: ptrOf_def)
  next
    case (Some ptr)
    let ?ao = "case m (an_Name a) of None \<Rightarrow> ao | Some v \<Rightarrow> ao(a \<mapsto> v)"
    have "overlayOf m ?ao"
      using Cons.prems(2) by (auto simp: overlayOf_upd split: option.splits)
    moreover have "setValue Q (loadField ptr v) ao m a =
        (True, pick (mapget m (an_Name a)) (loadField ptr v) (an_DefaultValue a), ?ao, m)"
      using Cons.prems Some by (intro setValue_ok) (auto simp: overlayOf_def)
    ultimately show ?thesis using Cons.IH [of ?ao] Cons.prems(1) Some by (simp add: ptrOf_def)
  qed
qed simp

lemma sidecarLoop_bad:
  assumes "\<exists>a \<in> set as. ptrOf a \<noteq> None \<and> \<not> acceptable Q m a" and "overlayOf m ao"
  shows "\<exists>v' ao' err. sidecarLoop Q as v ao m = (False, v', ao', m(sidecarInjectErrorAnno \<mapsto> Error err))"
  using assms
proof (induction "as" arbitrary: v ao)
  case (Cons a as)
  show ?case
  proof (cases "ptrOf a")
    case None
    then show ?thesis using Cons by (simp add: ptrOf_def)
  next
    case (Some ptr)
    note ptr = this
    show ?thesis
    proof (cases "acceptable Q m a")
      case True
      let ?ao = "case m (an_Name a) of None \<Rightarrow> ao | Some v \<Rightarrow> ao(a \<mapsto> v)"
      have "overlayOf m ?ao"
        using Cons.prems(2) by (auto simp: overlayOf_upd split: option.splits)
      moreover have "setValue Q (loadField ptr v) ao m a =
          (True, pick (mapget m (an_Name a)) (loadField ptr v) (an_DefaultValue a), ?ao, m)"
        using Cons.prems True by (intro setValue_ok) (auto simp: overlayOf_def)
      ultimately show ?thesis using Cons.IH [of ?ao] Cons.prems(1) ptr True by (simp add: ptrOf_def)
    next
      case False
      then obtain err where
        "setValue Q (loadField ptr v) ao m a = (False, loadField ptr v, ao, m(sidecarInjectErrorAnno \<mapsto> Error err))"
        using setValue_bad by blast
      with ptr have "sidecarLoop Q (a # as) v ao m = (False, v, ao, m(sidecarInjectErrorAnno \<mapsto> Error err))"
        by (simp add: ptrOf_def)
      then show ?thesis by blast
    qed
  qed
qed simp

text \<open>The value a pod's annotation gives a sidecar field.\<close>

abbreviation sidecarSetting :: "gomap \<Rightarrow> string \<Rightarrow> string" where
  "sidecarSetting m n \<equiv> mapget m (sidecarAnnotationPrefix @ n)"

lemma sidecar_table:
  "GetAnnotationsByPrefix annotations_yaml sidecarAnnotationPrefix = take 11 annotations_yaml"
  by (simp add: GetAnnotationsByPrefix_def annotations_yaml_def sidecarAnnotation_def HasPrefix_def
      agentAnnotationPrefix_def sidecarAnnotationPrefix_def)

lemma sidecar_ptr [simp]:
  "ptrOf (sidecarAnnotation ''initcontainer.Name'' d f) = Some PName"
  "ptrOf (sidecarAnnotation ''initcontainer.Image'' d f) = Some PImage"
  "ptrOf (sidecarAnnotation ''initcontainer.Command'' d f) = Some PCommand0"
  "ptrOf (sidecarAnnotation ''initcontainer.args.Option'' d f) = Some PArgs0"
  "ptrOf (sidecarAnnotation ''initcontainer.args.Command'' d f) = Some PArgs1"
  "ptrOf (sidecarAnnotation ''initcontainer.resources.limits'' d f) = Some PLimits"
  "ptrOf (sidecarAnnotation ''initcontainer.resources.requests'' d f) = Some PRequests"
  "ptrOf (sidecarAnnotation ''sidecarVolume.Name'' d f) = Some PVolumeName"
  "ptrOf (sidecarAnnotation ''sidecarVolumeMount.MountPath'' d f) = Some PMountPath"
  "ptrOf (sidecarAnnotation ''env.Name'' d f) = Some PEnvName"
  "ptrOf (sidecarAnnotation ''env.Value'' d f) = Some PEnvValue"
  by (simp_all add: ptrOf_def sidecarAnnotation_def annoField_def)

lemma sidecarAnnotation_sel [simp]:
  "an_Name (sidecarAnnotation n d f) = sidecarAnnotationPrefix @ n"
  "an_DefaultValue (sidecarAnnotation n d f) = d"
  "an_ValidateFunc (sidecarAnnotation n d f) = f"
  by (simp_all add: sidecarAnnotation_def)

text \<open>The resource settings a pod may give: none, or a text the resource validator accepts.\<close>

definition resourcesOK :: "quantities \<Rightarrow> gomap \<Rightarrow> string \<Rightarrow> bool" where
  "resourcesOK Q m n \<longleftrightarrow>
     (case m (sidecarAnnotationPrefix @ n) of None \<Rightarrow> True
      | Some v \<Rightarrow> ValidateResourceRequirements Q (sidecarAnnotationPrefix @ n) v = None)"

definition resourcesSet :: "quantities \<Rightarrow> string \<Rightarrow> ResourceList option \<Rightarrow> ResourceList option" where
  "resourcesSet Q v cur = (if v = [] \<or> v = ''nil'' then cur else case q_unmarshal Q v of Inl e \<Rightarrow> cur | Inr rl \<Rightarrow> Some rl)"

lemma acceptable_table:
  "(\<forall>a \<in> set (take 11 annotations_yaml). ptrOf a \<noteq> None \<longrightarrow> acceptable Q m a) \<longleftrightarrow>
     resourcesOK Q m ''initcontainer.resources.limits'' \<and> resourcesOK Q m ''initcontainer.resources.requests''"
proof -
  have nil: "acceptable Q m (sidecarAnnotation n d ''nil'')" for n d
    by (simp add: acceptable_def FindValidateFunc_nil split: option.splits)
  have res: "acceptable Q m (sidecarAnnotation n d ''ValidateResourceRequirements'') = resourcesOK Q m n" for n d
    by (simp add: acceptable_def FindValidateFunc_known resourcesOK_def split: option.splits)
  show ?thesis by (simp add: annotations_yaml_def nil res)
qed

lemma setResources_ok:
  assumes "v = ''nil'' \<or> (\<exists>rl. q_unmarshal Q v = Inr rl)" and "v \<noteq> []"
  shows "setResources Q v upd s =
    (True, s\<lparr>Initcontainer := (if v = ''nil'' then Initcontainer s
       else upd (Some (projr (q_unmarshal Q v))) (Initcontainer s))\<rparr>)"
  using assms by (auto simp: setResources_def)

lemma resourcesOK_pick:
  assumes "resourcesOK Q m n"
  shows "pick (sidecarSetting m n) [] ''nil'' \<noteq> [] \<and>
    (pick (sidecarSetting m n) [] ''nil'' = ''nil'' \<or>
     (\<exists>rl. q_unmarshal Q (pick (sidecarSetting m n) [] ''nil'') = Inr rl))"
  using assms
  by (auto simp: resourcesOK_def pick_def mapget_def ValidateResourceRequirements_def
      split: option.splits if_splits sum.splits)

lemma resolve_table:
  "resolve m (take 11 annotations_yaml)
     \<lparr>sv_s = s\<lparr>Initcontainer := (Initcontainer s)\<lparr>c_Command := [[]], c_Args := [[], []]\<rparr>\<rparr>,
      sv_limitsStr = [], sv_requestStr = []\<rparr> =
   \<lparr>sv_s = s\<lparr>Initcontainer := (Initcontainer s)\<lparr>
        c_Name := pick (sidecarSetting m ''initcontainer.Name'') (c_Name (Initcontainer s))
                    ''inject-skywalking-agent'',
        c_Image := pick (sidecarSetting m ''initcontainer.Image'') (c_Image (Initcontainer s))
                    ''apache/skywalking-java-agent:8.16.0-java8'',
        c_Command := [pick (sidecarSetting m ''initcontainer.Command'') [] ''sh''],
        c_Args := [pick (sidecarSetting m ''initcontainer.args.Option'') [] ''-c'',
                   pick (sidecarSetting m ''initcontainer.args.Command'') []
                     ''mkdir -p /sky/agent && cp -r /skywalking/agent/* /sky/agent'']\<rparr>,
      SidecarVolume := (SidecarVolume s)\<lparr>vol_Name :=
        pick (sidecarSetting m ''sidecarVolume.Name'') (vol_Name (SidecarVolume s)) ''sky-agent''\<rparr>,
      SidecarVolumeMount := (SidecarVolumeMount s)\<lparr>vm_MountPath :=
        pick (sidecarSetting m ''sidecarVolumeMount.MountPath'') (vm_MountPath (SidecarVolumeMount s))
          ''/sky/agent''\<rparr>,
      Env := (Env s)\<lparr>
        ev_Name := pick (sidecarSetting m ''env.Name'') (ev_Name (Env s)) ''JAVA_TOOL_OPTIONS'',
        ev_Value := pick (sidecarSetting m ''env.Value'') (ev_Value (Env s))
          ''-javaagent:/sky/agent/skywalking-agent.jar''\<rparr>\<rparr>,
    sv_limitsStr = pick (sidecarSetting m ''initcontainer.resources.limits'') [] ''nil'',
    sv_requestStr = pick (sidecarSetting m ''initcontainer.resources.requests'') [] ''nil''\<rparr>"
  by (simp add: annotations_yaml_def onInit_def)

lemma sidecar_overlay:
  "(if resourcesOK Q m ''initcontainer.resources.limits'' \<and> resourcesOK Q m ''initcontainer.resources.requests''
    then \<exists>ao'. OverlaySidecar Q annotations_yaml NewAnnotationOverlay m s =
      (let vname = pick (sidecarSetting m ''sidecarVolume.Name'') (vol_Name (SidecarVolume s)) ''sky-agent'';
           mount = (SidecarVolumeMount s)\<lparr>vm_Name := vname,
             vm_MountPath := pick (sidecarSetting m ''sidecarVolumeMount.MountPath'')
               (vm_MountPath (SidecarVolumeMount s)) ''/sky/agent''\<rparr>
       in (True, s\<lparr>
        Initcontainer := (Initcontainer s)\<lparr>
          c_Name := pick (sidecarSetting m ''initcontainer.Name'') (c_Name (Initcontainer s))
                      ''inject-skywalking-agent'',
          c_Image := pick (sidecarSetting m ''initcontainer.Image'') (c_Image (Initcontainer s))
                      ''apache/skywalking-java-agent:8.16.0-java8'',
          c_Command := [pick (sidecarSetting m ''initcontainer.Command'') [] ''sh''],
          c_Args := [pick (sidecarSetting m ''initcontainer.args.Option'') [] ''-c'',
                     pick (sidecarSetting m ''initcontainer.args.Command'') []
                       ''mkdir -p /sky/agent && cp -r /skywalking/agent/* /sky/agent''],
          c_VolumeMounts := [mount],
          c_Limits := resourcesSet Q (sidecarSetting m ''initcontainer.resources.limits'')
                        (c_Limits (Initcontainer s)),
          c_Requests := resourcesSet Q (sidecarSetting m ''initcontainer.resources.requests'')
                          (c_Requests (Initcontainer s))\<rparr>,
        SidecarVolume := (SidecarVolume s)\<lparr>vol_Name := vname, vol_EmptyDir := None\<rparr>,
        SidecarVolumeMount := mount,
        Env := (Env s)\<lparr>
          ev_Name := pick (sidecarSetting m ''env.Name'') (ev_Name (Env s)) ''JAVA_TOOL_OPTIONS'',
          ev_Value := pick (sidecarSetting m ''env.Value'') (ev_Value (Env s))
            ''-javaagent:/sky/agent/skywalking-agent.jar''\<rparr>\<rparr>, ao', m))
    else \<exists>s' ao' err. OverlaySidecar Q annotations_yaml NewAnnotationOverlay m s =
           (False, s', ao', m(sidecarInjectErrorAnno \<mapsto> Error err)))"
proof (cases "resourcesOK Q m ''initcontainer.resources.limits'' \<and>
    resourcesOK Q m ''initcontainer.resources.requests''")
  case True
  let ?l = "pick (sidecarSetting m ''initcontainer.resources.limits'') [] ''nil''"
    and ?r = "pick (sidecarSetting m ''initcontainer.resources.requests'') [] ''nil''"
  have l: "?l \<noteq> [] \<and> (?l = ''nil'' \<or> (\<exists>rl. q_unmarshal Q ?l = Inr rl))"
    and r: "?r \<noteq> [] \<and> (?r = ''nil'' \<or> (\<exists>rl. q_unmarshal Q ?r = Inr rl))"
    using True resourcesOK_pick by blast+
  have set: "resourcesSet Q (sidecarSetting m n) cur =
      (if pick (sidecarSetting m n) [] ''nil'' = ''nil'' then cur
       else Some (projr (q_unmarshal Q (pick (sidecarSetting m n) [] ''nil''))))" 
    if "resourcesOK Q m n" for n cur
    using resourcesOK_pick [OF that] by (auto simp: resourcesSet_def pick_def split: if_splits)
  obtain ao' where loop: "sidecarLoop Q (take 11 annotations_yaml)
      \<lparr>sv_s = s\<lparr>Initcontainer := (Initcontainer s)\<lparr>c_Command := [[]], c_Args := [[], []]\<rparr>\<rparr>,
      sv_limitsStr = [], sv_requestStr = []\<rparr> NewAnnotationOverlay m =
      (True, resolve m (take 11 annotations_yaml)
        \<lparr>sv_s = s\<lparr>Initcontainer := (Initcontainer s)\<lparr>c_Command := [[]], c_Args := [[], []]\<rparr>\<rparr>,
         sv_limitsStr = [], sv_requestStr = []\<rparr>, ao', m)"
    using sidecarLoop_ok [of "take 11 annotations_yaml"] True acceptable_table overlayOf_New by blast
  have "setResources Q ?l upd s' = (True, s'\<lparr>Initcontainer := (if ?l = ''nil'' then Initcontainer s'
       else upd (Some (projr (q_unmarshal Q ?l))) (Initcontainer s'))\<rparr>)"
   and "setResources Q ?r upd s' = (True, s'\<lparr>Initcontainer := (if ?r = ''nil'' then Initcontainer s'
       else upd (Some (projr (q_unmarshal Q ?r))) (Initcontainer s'))\<rparr>)" for upd s'
    using setResources_ok l r by blast+
  then show ?thesis using True
    by (cases "?l = ''nil''"; cases "?r = ''nil''")
      (simp_all add: OverlaySidecar_def sidecar_table loop resolve_table set Let_def)
next
  case False
  then obtain v' ao' err where "sidecarLoop Q (take 11 annotations_yaml)
      \<lparr>sv_s = s\<lparr>Initcontainer := (Initcontainer s)\<lparr>c_Command := [[]], c_Args := [[], []]\<rparr>\<rparr>,
      sv_limitsStr = [], sv_requestStr = []\<rparr> NewAnnotationOverlay m =
      (False, v', ao', m(sidecarInjectErrorAnno \<mapsto> Error err))"
    using sidecarLoop_bad [of "take 11 annotations_yaml"] acceptable_table [of Q m] overlayOf_New by blast
  then have "OverlaySidecar Q annotations_yaml NewAnnotationOverlay m s =
      (False, sv_s v', ao', m(sidecarInjectErrorAnno \<mapsto> Error err))"
    by (simp add: OverlaySidecar_def sidecar_table Let_def)
  then show ?thesis using False by auto
qed


section \<open>The agent's options\<close>

text \<open>The options a sequence of annotations contributes, in its order.\<close>

definition options :: "string \<Rightarrow> entries \<Rightarrow> string list" where
  "options pre it = map (\<lambda>(k, v). TrimPrefix k pre @ ''='' @ v) (filter (\<lambda>(k, v). HasPrefix k pre) it)"

lemma options_simps [simp]:
  "options pre [] = []"
  "options pre ((k, v) # it) =
     (if HasPrefix k pre then (TrimPrefix k pre @ ''='' @ v) # options pre it else options pre it)"
  by (simp_all add: options_def)

lemma options_nonempty: "x \<in> set (options pre it) \<Longrightarrow> x \<noteq> []"
  by (auto simp: options_def)

lemma Join_eq_Nil: "\<forall>x \<in> set xs. x \<noteq> [] \<Longrightarrow> Join xs sep = [] \<longleftrightarrow> xs = []"
  by (cases xs; cases "tl xs") auto

lemma addConfig_Join:
  "\<forall>x \<in> set xs. x \<noteq> [] \<Longrightarrow> addConfig (Join xs '','') k v = Join (xs @ [k @ ''='' @ v]) '',''"
  by (cases "xs = []") (simp_all add: addConfig_def Let_def Join_append Join_eq_Nil)

lemma agentMatches_ok:
  "\<forall>a \<in> set ans. EqualFold k (an_Name a) \<longrightarrow> acceptable Q m a \<Longrightarrow>
   \<exists>ao'. agentMatches Q ans k ao m = (True, ao', m)"
proof (induction ans arbitrary: ao)
  case (Cons a ans)
  then show ?case
    by (auto simp: AgentOverlayandGetValue_def SetOverlay_acceptable split: option.splits)
qed simp

lemma agentMatches_bad:
  "\<exists>a \<in> set ans. EqualFold k (an_Name a) \<and> \<not> acceptable Q m a \<Longrightarrow>
   \<exists>ao' err. agentMatches Q ans k ao m = (False, ao', m(sidecarInjectErrorAnno \<mapsto> Error err))"
proof (induction ans arbitrary: ao)
  case (Cons a ans)
  show ?case
  proof (cases "EqualFold k (an_Name a) \<and> \<not> acceptable Q m a")
    case True
    then obtain err where "SetOverlay Q ao m a = (Some err, ao)"
      using SetOverlay_unacceptable by blast
    moreover have "m (an_Name a) \<noteq> None" using True by (auto simp: acceptable_def split: option.splits)
    ultimately have "agentMatches Q (a # ans) k ao m = (False, ao, m(sidecarInjectErrorAnno \<mapsto> Error err))"
      using True by (simp add: AgentOverlayandGetValue_def injectErrorAnnotation_def)
    then show ?thesis by blast
  next
    case False
    then have "\<exists>a \<in> set ans. EqualFold k (an_Name a) \<and> \<not> acceptable Q m a" using Cons.prems by auto
    note IH = Cons.IH [OF this]
    show ?thesis
    proof (cases "EqualFold k (an_Name a)")
      case True
      then have "acceptable Q m a" using False by simp
      then have "\<exists>ao'. AgentOverlayandGetValue Q ao m a = (True, ao', m)"
        by (auto simp: AgentOverlayandGetValue_def SetOverlay_acceptable split: option.splits)
      then show ?thesis using True IH by auto
    qed (use IH in auto)
  qed
qed simp

text \<open>What the agent overlay asks of the annotations it visits.\<close>

definition agentAcceptable :: "quantities \<Rightarrow> Annotations \<Rightarrow> gomap \<Rightarrow> entries \<Rightarrow> bool" where
  "agentAcceptable Q anno m it \<longleftrightarrow>
     (\<forall>(k, v) \<in> set it. HasPrefix k agentAnnotationPrefix \<longrightarrow>
        (\<forall>a \<in> set anno. EqualFold k (an_Name a) \<longrightarrow> acceptable Q m a))"

lemma agentAcceptable_simps [simp]:
  "agentAcceptable Q anno m []"
  "agentAcceptable Q anno m ((k, v) # it) \<longleftrightarrow>
     (HasPrefix k agentAnnotationPrefix \<longrightarrow> (\<forall>a \<in> set anno. EqualFold k (an_Name a) \<longrightarrow> acceptable Q m a))
     \<and> agentAcceptable Q anno m it"
  by (auto simp: agentAcceptable_def)

lemma agentLoop_ok:
  assumes "agentAcceptable Q anno m it" and "\<forall>x \<in> set xs. x \<noteq> []"
  shows "\<exists>ao'. agentLoop Q anno it (Join xs '','') ao m =
    (True, Join (xs @ options agentAnnotationPrefix it) '','', ao', m)"
  using assms
proof (induction it arbitrary: xs ao)
  case (Cons kv it)
  obtain k v where kv: "kv = (k, v)" by (cases kv)
  show ?case
  proof (cases "HasPrefix k agentAnnotationPrefix")
    case True
    then obtain ao1 where "agentMatches Q anno k ao m = (True, ao1, m)"
      using agentMatches_ok Cons.prems(1) kv by auto blast
    then show ?thesis
      using True kv Cons.prems Cons.IH [of "xs @ [TrimPrefix k agentAnnotationPrefix @ ''='' @ v]"]
      by (auto simp: addConfig_Join)
  qed (use Cons kv in auto)
qed simp

lemma agentLoop_bad:
  assumes "\<not> agentAcceptable Q anno m it"
  shows "\<exists>jvm' ao' err. agentLoop Q anno it jvm ao m =
    (False, jvm', ao', m(sidecarInjectErrorAnno \<mapsto> Error err))"
  using assms
proof (induction it arbitrary: jvm ao)
  case (Cons kv it)
  obtain k v where kv: "kv = (k, v)" by (cases kv)
  show ?case
  proof (cases "HasPrefix k agentAnnotationPrefix")
    case True
    note pre = this
    show ?thesis
    proof (cases "\<forall>a \<in> set anno. EqualFold k (an_Name a) \<longrightarrow> acceptable Q m a")
      case True
      then obtain ao1 where "agentMatches Q anno k ao m = (True, ao1, m)"
        using agentMatches_ok by blast
      then show ?thesis using True pre kv Cons by simp
    next
      case False
      then obtain ao1 err where
        "agentMatches Q anno k ao m = (False, ao1, m(sidecarInjectErrorAnno \<mapsto> Error err))"
        using agentMatches_bad by blast
      then have "agentLoop Q anno (kv # it) jvm ao m =
          (False, jvm, ao1, m(sidecarInjectErrorAnno \<mapsto> Error err))"
        using pre kv by simp
      then show ?thesis by blast
    qed
  qed (use Cons kv in auto)
qed simp

lemma pluginsLoop_Join:
  "\<forall>x \<in> set xs. x \<noteq> [] \<Longrightarrow>
   pluginsLoop it (Join xs '','') = Join (xs @ options pluginsAnnotationPrefix it) '',''"
proof (induction it arbitrary: xs)
  case (Cons kv it)
  then show ?case
    by (cases kv) (simp add: addConfig_Join)
qed simp

lemma agentAcceptable_ranges:
  "ranges m it \<Longrightarrow> agentAcceptable Q anno m it \<longleftrightarrow>
     (\<forall>k \<in> dom m. HasPrefix k agentAnnotationPrefix \<longrightarrow>
        (\<forall>a \<in> set anno. EqualFold k (an_Name a) \<longrightarrow> acceptable Q m a))"
  unfolding agentAcceptable_def by (fastforce simp: ranges_iff_set)

lemma agent_overlay:
  assumes "ranges m it" and "ranges m it2"
  shows "if \<forall>k \<in> dom m. HasPrefix k agentAnnotationPrefix \<longrightarrow>
            (\<forall>a \<in> set tbl. HasPrefix (an_Name a) agentAnnotationPrefix \<and> EqualFold k (an_Name a)
               \<longrightarrow> acceptable Q m a)
         then \<exists>s1 ao'. OverlayAgent Q tbl it ao m s = (True, s1, ao', m)
            \<and> OverlayPlugins it2 s1 = s\<lparr>JvmAgentConfigStr :=
                Join (options agentAnnotationPrefix it @ options pluginsAnnotationPrefix it2) '',''\<rparr>
         else \<exists>s1 ao' err. OverlayAgent Q tbl it ao m s = (False, s1, ao', m(sidecarInjectErrorAnno \<mapsto> Error err))"
proof -
  let ?anno = "GetAnnotationsByPrefix tbl agentAnnotationPrefix"
  have eq: "(\<forall>k \<in> dom m. HasPrefix k agentAnnotationPrefix \<longrightarrow>
            (\<forall>a \<in> set tbl. HasPrefix (an_Name a) agentAnnotationPrefix \<and> EqualFold k (an_Name a)
               \<longrightarrow> acceptable Q m a)) \<longleftrightarrow> agentAcceptable Q ?anno m it"
    unfolding agentAcceptable_ranges [OF assms(1)] by (auto simp: GetAnnotationsByPrefix_def)
  show ?thesis
  proof (cases "agentAcceptable Q ?anno m it")
    case True
    obtain ao' where "agentLoop Q ?anno it [] ao m = (True, Join (options agentAnnotationPrefix it) '','', ao', m)"
      using agentLoop_ok [OF True, of "[]"] by auto
    then have "OverlayAgent Q tbl it ao m s =
        (True, s\<lparr>JvmAgentConfigStr := Join (options agentAnnotationPrefix it) '',''\<rparr>, ao', m)"
      by (simp add: OverlayAgent_def)
    with True show ?thesis
      unfolding eq using options_nonempty by (simp add: OverlayPlugins_def pluginsLoop_Join)
  next
    case False
    then obtain jvm' ao' err where
      "agentLoop Q ?anno it [] ao m = (False, jvm', ao', m(sidecarInjectErrorAnno \<mapsto> Error err))"
      using agentLoop_bad by blast
    then have "OverlayAgent Q tbl it ao m s =
        (False, s\<lparr>JvmAgentConfigStr := jvm'\<rparr>, ao', m(sidecarInjectErrorAnno \<mapsto> Error err))"
      by (simp add: OverlayAgent_def)
    with False show ?thesis unfolding eq by auto
  qed
qed

text \<open>C11. The agent's option string. Whatever orders the two loops visit the annotations in, the
  overlays succeed exactly when every agent annotation that names a table entry carries a value
  its validator accepts; then no annotation changes and the final string is the comma separated
  list of all agent options followed by all plugin options, each once, as \<open>name=value\<close>;
  otherwise the pod gets the error annotation.\<close>

theorem agent_options:
  assumes "ranges m it" and "ranges m it2"
  shows "if \<forall>k \<in> dom m. HasPrefix k agentAnnotationPrefix \<longrightarrow>
            (\<forall>a \<in> set tbl. HasPrefix (an_Name a) agentAnnotationPrefix \<and> EqualFold k (an_Name a)
               \<longrightarrow> acceptable Q m a)
         then \<exists>s1 ao'. OverlayAgent Q tbl it ao m s = (True, s1, ao', m)
            \<and> OverlayPlugins it2 s1 = s\<lparr>JvmAgentConfigStr :=
                Join (options agentAnnotationPrefix it @ options pluginsAnnotationPrefix it2) '',''\<rparr>
         else \<exists>s1 ao' err. OverlayAgent Q tbl it ao m s = (False, s1, ao', m(sidecarInjectErrorAnno \<mapsto> Error err))"
  using agent_overlay [OF assms] .

text \<open>A decoder for resource lists that knows no resource, enough to run the examples.\<close>

definition noQuantities :: quantities where
  "noQuantities = \<lparr>q_unmarshal = (\<lambda>_. Inl (ErrorString ''unexpected end of JSON input'')), q_milli = (\<lambda>_. 0)\<rparr>"

definition demoAnnotations :: entries where
  "demoAnnotations = [(''plugins.skywalking.apache.org/plugin.mount'', ''true''),
     (''agent.skywalking.apache.org/agent.service_name'', ''demo''), (''owner'', ''me'')]"

lemma demo_acceptable:
  "\<forall>k \<in> dom (map_of demoAnnotations). HasPrefix k agentAnnotationPrefix \<longrightarrow>
      (\<forall>a \<in> set annotations_yaml. HasPrefix (an_Name a) agentAnnotationPrefix \<and> EqualFold k (an_Name a)
         \<longrightarrow> acceptable noQuantities (map_of demoAnnotations) a)"
  unfolding dom_map_of_conv_image_fst
  by (simp add: demoAnnotations_def annotations_yaml_def acceptable_def injector_keys HasPrefix_def
        EqualFold_def ToLower_def lower_def FindValidateFunc_known ValidateServiceName_def)

theorem agent_options_witness:
  "\<exists>s1 ao'. OverlayAgent noQuantities annotations_yaml demoAnnotations NewAnnotationOverlay
       (map_of demoAnnotations) NewSidecarInjectField = (True, s1, ao', map_of demoAnnotations)
     \<and> JvmAgentConfigStr (OverlayPlugins (rev demoAnnotations) s1) =
        ''agent.service_name=demo,plugin.mount=true''"
proof -
  have r: "ranges (map_of demoAnnotations) demoAnnotations"
    and r2: "ranges (map_of demoAnnotations) (rev demoAnnotations)"
    by (auto simp: ranges_def demoAnnotations_def)
  have opts: "Join (options agentAnnotationPrefix demoAnnotations @
      options pluginsAnnotationPrefix (rev demoAnnotations)) '','' = ''agent.service_name=demo,plugin.mount=true''"
    by (simp add: demoAnnotations_def injector_keys HasPrefix_def TrimPrefix_def)
  obtain s1 ao' where
    ov: "OverlayAgent noQuantities annotations_yaml demoAnnotations NewAnnotationOverlay
       (map_of demoAnnotations) NewSidecarInjectField = (True, s1, ao', map_of demoAnnotations)"
    and pl: "OverlayPlugins (rev demoAnnotations) s1 =
       NewSidecarInjectField\<lparr>JvmAgentConfigStr := ''agent.service_name=demo,plugin.mount=true''\<rparr>"
    using agent_options [OF r r2, of annotations_yaml noQuantities NewAnnotationOverlay NewSidecarInjectField]
    unfolding if_P [OF demo_acceptable] opts by blast
  have "JvmAgentConfigStr (OverlayPlugins (rev demoAnnotations) s1) = ''agent.service_name=demo,plugin.mount=true''"
    unfolding pl by simp
  with ov show ?thesis by blast
qed

section \<open>Optional plugins\<close>

definition lastSwAgent :: "SwAgentList \<Rightarrow> SwAgentSpec option" where
  "lastSwAgent l = (if l = [] then None else Some (cr_Spec (last l)))"

lemma swAgentPlugins_eq:
  "swAgentPlugins l = (case lastSwAgent l of
     None \<Rightarrow> \<lparr>pv_optional = [], pv_reporter = [], pv_bootstrap = []\<rparr>
   | Some a \<Rightarrow> \<lparr>pv_optional = Join (swa_OptionalPlugins a) ''|'',
       pv_reporter = Join (swa_OptionalReporterPlugins a) ''|'',
       pv_bootstrap = Join (swa_BootstrapPlugins a) ''|''\<rparr>)"
  by (auto simp: swAgentPlugins_def lastSwAgent_def last_conv_nth Let_def)

text \<open>Keys that fold to an optional-plugin annotation are that annotation: no two annotations of the
  pod differ only in case from it.\<close>

definition exactKey :: "gomap \<Rightarrow> string \<Rightarrow> bool" where
  "exactKey m x \<longleftrightarrow> (\<forall>k \<in> dom m. EqualFold k x \<longrightarrow> k = x)"

abbreviation orElse :: "string option \<Rightarrow> string \<Rightarrow> string" where
  "orElse o' d \<equiv> (case o' of Some v \<Rightarrow> v | None \<Rightarrow> d)"

lemma optional_keys_fold:
  "\<not> EqualFold optionsAnnotation optionsReporterAnnotation"
  "\<not> EqualFold optionsAnnotation bootstrapAnnotation"
  "\<not> EqualFold optionsReporterAnnotation bootstrapAnnotation"
  "\<not> EqualFold optionsReporterAnnotation optionsAnnotation"
  "\<not> EqualFold bootstrapAnnotation optionsAnnotation"
  "\<not> EqualFold bootstrapAnnotation optionsReporterAnnotation"
  by (simp_all add: EqualFold_def ToLower_def lower_def injector_keys)

lemma optional_keys_distinct:
  "optionsAnnotation \<noteq> optionsReporterAnnotation" "optionsAnnotation \<noteq> bootstrapAnnotation"
  "optionsReporterAnnotation \<noteq> bootstrapAnnotation"
  by (simp_all add: injector_keys)

lemma optionalLoop_result:
  assumes "distinct (map fst it)"
    and "\<forall>k \<in> fst ` set it. EqualFold k optionsAnnotation \<longrightarrow> k = optionsAnnotation"
    and "\<forall>k \<in> fst ` set it. EqualFold k optionsReporterAnnotation \<longrightarrow> k = optionsReporterAnnotation"
    and "\<forall>k \<in> fst ` set it. EqualFold k bootstrapAnnotation \<longrightarrow> k = bootstrapAnnotation"
  shows "optionalLoop [] it p s = Inr
    (\<lparr>pv_optional = orElse (map_of it optionsAnnotation) (pv_optional p),
      pv_reporter = orElse (map_of it optionsReporterAnnotation) (pv_reporter p),
      pv_bootstrap = orElse (map_of it bootstrapAnnotation) (pv_bootstrap p)\<rparr>, s)"
  using assms
proof (induction it arbitrary: p)
  case (Cons kv it)
  obtain k v where kv: "kv = (k, v)" by (cases kv)
  have no: "map_of it k = None" using Cons.prems(1) kv by (simp add: map_of_eq_None_iff)
  have IH: "optionalLoop [] it q s = Inr
    (\<lparr>pv_optional = orElse (map_of it optionsAnnotation) (pv_optional q),
      pv_reporter = orElse (map_of it optionsReporterAnnotation) (pv_reporter q),
      pv_bootstrap = orElse (map_of it bootstrapAnnotation) (pv_bootstrap q)\<rparr>, s)" for q
    using Cons by simp
  consider "k = optionsAnnotation" | "k = optionsReporterAnnotation" | "k = bootstrapAnnotation"
    | "\<not> EqualFold k optionsAnnotation" "\<not> EqualFold k optionsReporterAnnotation" "\<not> EqualFold k bootstrapAnnotation"
      "k \<noteq> optionsAnnotation" "k \<noteq> optionsReporterAnnotation" "k \<noteq> bootstrapAnnotation"
    using Cons.prems kv by auto
  then show ?case
    using no kv by cases (simp_all add: IH Let_def optional_keys_fold optional_keys_distinct
        optional_keys_distinct [symmetric] split: option.splits)
qed simp

text \<open>The commands for the plugins of one pod, in the order they are appended.\<close>

definition pluginCommands :: "string \<Rightarrow> string \<Rightarrow> string \<Rightarrow> string \<Rightarrow> string list" where
  "pluginCommands mp optional reporter bootstrap =
     [pluginCommand (mp @ ''/'' @ dir) ps (mp @ ''/plugins/'').
       (dir, ps) \<leftarrow> [(''optional-plugins/'', optional), (''optional-reporter-plugins/'', reporter),
                    (''bootstrap-plugins/'', bootstrap)], ps \<noteq> []]"

lemma pluginCommands_eq:
  "pluginCommands mp o' r b =
     (if o' = [] then [] else [pluginCommand (Join [mp, ''optional-plugins/''] ''/'') o' (Join [mp, ''plugins/''] ''/'')]) @
     (if r = [] then [] else [pluginCommand (Join [mp, ''optional-reporter-plugins/''] ''/'') r (Join [mp, ''plugins/''] ''/'')]) @
     (if b = [] then [] else [pluginCommand (Join [mp, ''bootstrap-plugins/''] ''/'') b (Join [mp, ''plugins/''] ''/'')])"
  by (simp add: pluginCommands_def)

lemma swAgentPlugins_sel:
  "pv_optional (swAgentPlugins l) = (case lastSwAgent l of None \<Rightarrow> [] | Some a \<Rightarrow> Join (swa_OptionalPlugins a) ''|'')"
  "pv_reporter (swAgentPlugins l) = (case lastSwAgent l of None \<Rightarrow> [] | Some a \<Rightarrow> Join (swa_OptionalReporterPlugins a) ''|'')"
  "pv_bootstrap (swAgentPlugins l) = (case lastSwAgent l of None \<Rightarrow> [] | Some a \<Rightarrow> Join (swa_BootstrapPlugins a) ''|'')"
  by (simp_all add: swAgentPlugins_eq split: option.splits)

lemma appendPlugins_Inr:
  assumes "1 < length (c_Args (Initcontainer s))"
    and "c_Args (Initcontainer s) ! 1 = Join xs '' && ''" and "xs \<noteq> []"
  shows "appendPlugins src ps dst (Inr s) =
    Inr (s\<lparr>Initcontainer := (Initcontainer s)\<lparr>c_Args := (c_Args (Initcontainer s))
      [1 := Join (xs @ (if ps = [] then [] else [pluginCommand src ps dst])) '' && '']\<rparr>\<rparr>)"
proof (cases "ps = []")
  case True
  have "(c_Args (Initcontainer s))[1 := Join xs '' && ''] = c_Args (Initcontainer s)"
    using assms(2) by (metis list_update_id)
  then show ?thesis using True by (simp add: appendPlugins_def)
next
  case False
  then show ?thesis using assms by (simp add: appendPlugins_def appendCommand_def Let_def Join_append)
qed

lemma optional_overlay:
  assumes "ranges m it" and "length (c_Args (Initcontainer s)) = 2"
    and "exactKey m optionsAnnotation" and "exactKey m optionsReporterAnnotation"
    and "exactKey m bootstrapAnnotation"
  shows "OverlayOptional l it s = Inr (s\<lparr>Initcontainer := (Initcontainer s)\<lparr>c_Args :=
    [c_Args (Initcontainer s) ! 0,
     Join (c_Args (Initcontainer s) ! 1 #
       (let plugins = (\<lambda>key ps. case m key of Some v \<Rightarrow> v | None \<Rightarrow>
              (case lastSwAgent l of None \<Rightarrow> [] | Some a \<Rightarrow> Join (ps a) ''|''))
        in pluginCommands (vm_MountPath (SidecarVolumeMount s))
            (plugins optionsAnnotation swa_OptionalPlugins)
            (plugins optionsReporterAnnotation swa_OptionalReporterPlugins)
            (plugins bootstrapAnnotation swa_BootstrapPlugins))) '' && '']\<rparr>\<rparr>)"
proof -
  let ?p = "swAgentPlugins l" and ?mp = "vm_MountPath (SidecarVolumeMount s)"
  obtain a0 a1 where args: "c_Args (Initcontainer s) = [a0, a1]"
    using assms(2) by (auto simp: numeral_2_eq_2 length_Suc_conv)
  have fst: "fst ` set it = dom m" and m: "map_of it = m" and d: "distinct (map fst it)"
    using assms(1) ranges_dom by (auto simp: ranges_def)
  have loop: "optionalLoop [] it ?p s = Inr
    (\<lparr>pv_optional = orElse (m optionsAnnotation) (pv_optional ?p),
      pv_reporter = orElse (m optionsReporterAnnotation) (pv_reporter ?p),
      pv_bootstrap = orElse (m bootstrapAnnotation) (pv_bootstrap ?p)\<rparr>, s)"
    using optionalLoop_result [OF d] assms(3-5) unfolding fst m exactKey_def by blast
  have step: "appendPlugins src ps dst (Inr (s\<lparr>Initcontainer := (Initcontainer s)\<lparr>c_Args :=
        [a0, Join (a1 # xs) '' && '']\<rparr>\<rparr>)) =
      Inr (s\<lparr>Initcontainer := (Initcontainer s)\<lparr>c_Args :=
        [a0, Join (a1 # xs @ (if ps = [] then [] else [pluginCommand src ps dst])) '' && '']\<rparr>\<rparr>)" for src ps dst xs
    using appendPlugins_Inr [of "s\<lparr>Initcontainer := (Initcontainer s)\<lparr>c_Args :=
        [a0, Join (a1 # xs) '' && '']\<rparr>\<rparr>" "a1 # xs" src ps dst] by simp
  have start: "Inr s = Inr (s\<lparr>Initcontainer := (Initcontainer s)\<lparr>c_Args := [a0, Join [a1] '' && '']\<rparr>\<rparr>)"
    using args by simp
  show ?thesis
    unfolding OverlayOptional_def Let_def loop sum.case prod.case pluginVars.select_convs
    unfolding start step append_Nil pluginCommands_eq swAgentPlugins_sel append_assoc
    by (simp only: args nth_Cons_0 One_nat_def nth_Cons_Suc)
qed

text \<open>C22. Optional plugins. For a field whose init container has two arguments and a pod none of
  whose annotations differs only in case from one of the three plugin annotations, the overlay
  never panics and, for every order of the annotations, extends the second argument by one copy
  command per kind of plugin that is asked for, in the order optional, reporter, bootstrap; an
  annotation takes precedence over the \<open>SwAgent\<close>, whose lists are joined with a bar, and nothing
  else of the field changes.\<close>

theorem OverlayOptional_commands:
  assumes "ranges m it" and "length (c_Args (Initcontainer s)) = 2"
    and "exactKey m optionsAnnotation" and "exactKey m optionsReporterAnnotation"
    and "exactKey m bootstrapAnnotation"
  shows "OverlayOptional l it s = Inr (s\<lparr>Initcontainer := (Initcontainer s)\<lparr>c_Args :=
    [c_Args (Initcontainer s) ! 0,
     Join (c_Args (Initcontainer s) ! 1 #
       (let plugins = (\<lambda>key ps. case m key of Some v \<Rightarrow> v | None \<Rightarrow>
              (case lastSwAgent l of None \<Rightarrow> [] | Some a \<Rightarrow> Join (ps a) ''|''))
        in pluginCommands (vm_MountPath (SidecarVolumeMount s))
            (plugins optionsAnnotation swa_OptionalPlugins)
            (plugins optionsReporterAnnotation swa_OptionalReporterPlugins)
            (plugins bootstrapAnnotation swa_BootstrapPlugins))) '' && '']\<rparr>\<rparr>)"
  using optional_overlay [OF assms] .

theorem OverlayOptional_commands_witness:
  "\<exists>s'. OverlayOptional [] [(optionsAnnotation, ''trace''), (''x'', ''y'')]
      (NewSidecarInjectField\<lparr>Initcontainer := zeroContainer\<lparr>c_Args := [''-c'', ''true'']\<rparr>,
         SidecarVolumeMount := zeroVolumeMount\<lparr>vm_MountPath := ''/sky''\<rparr>\<rparr>) = Inr s'
    \<and> c_Args (Initcontainer s') ! 1 = ''true && '' @ pluginCommand ''/sky/optional-plugins/'' ''trace'' ''/sky/plugins/''"
  using OverlayOptional_commands [of "[optionsAnnotation \<mapsto> ''trace'', ''x'' \<mapsto> ''y'']"
      "[(optionsAnnotation, ''trace''), (''x'', ''y'')]"
      "NewSidecarInjectField\<lparr>Initcontainer := zeroContainer\<lparr>c_Args := [''-c'', ''true'']\<rparr>,
         SidecarVolumeMount := zeroVolumeMount\<lparr>vm_MountPath := ''/sky''\<rparr>\<rparr>" "[]"]
  by (simp add: ranges_def exactKey_def injector_keys EqualFold_def ToLower_def lower_def
      NewSidecarInjectField_def zeroContainer_def zeroVolumeMount_def pluginCommands_eq lastSwAgent_def
      fun_upd_twist)

section \<open>The configuration reported for a pod\<close>

text \<open>The entries the annotations contribute, in the order of the loop: the last one wins.\<close>

definition reported :: "entries \<Rightarrow> entries" where
  "reported it = List.map_filter (\<lambda>(k, v). map_option (\<lambda>o'. (o', quoted v)) (configEntry k)) it"

lemma GetInjectedAgentConfig_reported:
  "GetInjectedAgentConfig it cfg = cfg ++ map_of (rev (reported it))"
proof (induction it arbitrary: cfg)
  case Nil
  then show ?case by (simp add: reported_def List.map_filter_simps)
next
  case (Cons kv it)
  obtain k v where kv: "kv = (k, v)" by (cases kv)
  show ?case
    by (cases "configEntry k") (auto simp: kv Cons reported_def List.map_filter_simps map_add_def fun_eq_iff split: option.splits)
qed

lemma set_reported: "(o', q) \<in> set (reported it) \<longleftrightarrow> (\<exists>k v. (k, v) \<in> set it \<and> configEntry k = Some o' \<and> q = quoted v)"
  unfolding reported_def by (force simp: List.map_filter_def split: option.splits)

lemma map_of_unique: "(x, y) \<in> set xs \<Longrightarrow> \<forall>y'. (x, y') \<in> set xs \<longrightarrow> y' = y \<Longrightarrow> map_of xs x = Some y"
  by (metis map_of_SomeD option.exhaust map_of_eq_None_iff fst_conv image_eqI)

text \<open>The configuration a \<open>JavaAgent\<close> reports. When no two annotations of a pod name the same
  option, the reported configuration does not depend on the order of the annotations: every agent,
  plugin, optional and optional-reporter annotation appears once under its option name with its
  quoted value, and every other entry of the configuration is as before.\<close>

theorem GetInjectedAgentConfig_exact:
  assumes "ranges m it" and "inj_on configEntry {k \<in> dom m. configEntry k \<noteq> None}"
  shows "(\<forall>k v o'. m k = Some v \<and> configEntry k = Some o' \<longrightarrow>
      GetInjectedAgentConfig it cfg o' = Some (CHR 0x22 # v @ [CHR 0x22]))
    \<and> (\<forall>o'. (\<forall>k. m k \<noteq> None \<longrightarrow> configEntry k \<noteq> Some o') \<longrightarrow> GetInjectedAgentConfig it cfg o' = cfg o')"
proof (intro conjI allI impI)
  fix k v o' assume k: "m k = Some v \<and> configEntry k = Some o'"
  have uniq: "k' = k" if "m k' = Some v'" "configEntry k' = Some o'" for k' v'
    using inj_onD [OF assms(2), of k' k] that k by auto
  have "map_of (rev (reported it)) o' = Some (quoted v)"
  proof (rule map_of_unique)
    show "(o', quoted v) \<in> set (rev (reported it))"
      using k ranges_iff_set [OF assms(1)] by (auto simp: set_reported)
    show "\<forall>y'. (o', y') \<in> set (rev (reported it)) \<longrightarrow> y' = quoted v"
      using uniq k ranges_iff_set [OF assms(1)] by (auto simp: set_reported)
  qed
  then show "GetInjectedAgentConfig it cfg o' = Some (CHR 0x22 # v @ [CHR 0x22])"
    by (simp add: GetInjectedAgentConfig_reported quoted_def)
next
  fix o' assume "\<forall>k. m k \<noteq> None \<longrightarrow> configEntry k \<noteq> Some o'"
  then have "o' \<notin> fst ` set (reported it)"
    using ranges_iff_set [OF assms(1)] by (auto simp: set_reported)
  then have "map_of (rev (reported it)) o' = None" by (simp add: map_of_eq_None_iff)
  then show "GetInjectedAgentConfig it cfg o' = cfg o'"
    by (simp add: GetInjectedAgentConfig_reported map_add_def)
qed

theorem GetInjectedAgentConfig_exact_witness:
  "GetInjectedAgentConfig [(''plugins.skywalking.apache.org/p'', ''1''), (''x'', ''y'')] Map.empty ''p''
     = Some (CHR 0x22 # ''1'' @ [CHR 0x22])"
proof -
  let ?it = "[(''plugins.skywalking.apache.org/p'', ''1''), (''x'', ''y'')]"
  have r: "ranges (map_of ?it) ?it" by (simp add: ranges_def)
  have p: "configEntry ''plugins.skywalking.apache.org/p'' = Some ''p''" and x: "configEntry ''x'' = None"
    by (simp_all add: configEntry_def injector_keys HasPrefix_def TrimPrefix_def EqualFold_def ToLower_def lower_def)
  have inj: "inj_on configEntry {k \<in> dom (map_of ?it). configEntry k \<noteq> None}"
    using x by (auto simp: inj_on_def split: if_splits)
  show ?thesis
    using GetInjectedAgentConfig_exact [OF r inj] p by (metis map_of_Cons_code(2))
qed

end
