(* ===== verification/Injection.thy ===== *)
theory Injection
  imports Injector
begin

text \<open>
  The injection process of \<open>injection.go\<close>, a chain of six steps each holding the next one, and the
  admission handler of \<open>webhook.go\<close> that runs it. A step is its \<open>execute\<close> method: a function from
  the process data to a response, with the next step as an argument, or a run-time panic.
  Outside the repository are the decoder of admission requests, the API client, the JSON encoder,
  the YAML decoder and the regular expression compiler: the record \<open>InjectEnv\<close> collects them,
  with the order in which each range loop visits the pod's annotations.
\<close>

section \<open>The process data\<close>

record Request =
  req_Namespace :: string
  req_Raw :: string

text \<open>The three constructors of admission responses the program uses.\<close>

datatype Response = Allowed string | Errored int goerror | PatchResponseFromRaw string string

record InjectEnv =
  ie_regexp :: regexps
  ie_quantities :: quantities
  ie_marshal :: "Pod \<Rightarrow> goerror + string"
  ie_decode :: "Request \<Rightarrow> goerror + Pod"
  ie_list :: "string \<Rightarrow> goerror option \<times> SwAgentList"
  ie_readFile :: "string \<Rightarrow> goerror + string"
  ie_yaml :: "string \<Rightarrow> goerror + Annotations"
  ie_range :: "nat \<Rightarrow> gomap \<Rightarrow> entries"

record InjectProcessData =
  injectFileds :: SidecarInjectField
  annotation :: "Annotations option"
  annotationOverlay :: AnnotationOverlay
  swAgentL :: SwAgentList
  pod :: Pod
  req :: Request

type_synonym step = "InjectProcessData \<Rightarrow> gopanic + Response"

definition StatusBadRequest :: int where
  "StatusBadRequest = 400"

definition StatusInternalServerError :: int where
  "StatusInternalServerError = 500"

definition PatchReq :: "InjectEnv \<Rightarrow> Pod \<Rightarrow> Request \<Rightarrow> Response" where
  "PatchReq E p r =
     (case ie_marshal E p of
        Inl err \<Rightarrow> Errored StatusInternalServerError err
      | Inr marshaledPod \<Rightarrow> PatchResponseFromRaw (req_Raw r) marshaledPod)"

text \<open>The pod's annotations as the overlay methods see them; a nil map reads as an empty one, and a
  method that writes has found a key before, so it does not write to a nil map.\<close>

definition podAnnotations :: "Pod \<Rightarrow> gomap" where
  "podAnnotations p = (case pod_Annotations p of None \<Rightarrow> Map.empty | Some m \<Rightarrow> m)"

definition putAnnotations :: "gomap \<Rightarrow> Pod \<Rightarrow> Pod" where
  "putAnnotations m p = (case pod_Annotations p of None \<Rightarrow> p | Some _ \<Rightarrow> setAnnotations (Some m) p)"

section \<open>The steps\<close>

definition GetStrategy_execute :: "step \<Rightarrow> step" where
  "GetStrategy_execute next' ipd =
     (let ipd = ipd\<lparr>injectFileds :=
            GetInjectStrategy (pod_Labels (pod ipd)) (pod_Annotations (pod ipd)) (injectFileds ipd)\<rparr>
      in if \<not> NeedInject (injectFileds ipd) then Inr (Allowed ''ok'') else next' ipd)"

definition OverlaySwAgentCR_execute :: "InjectEnv \<Rightarrow> step \<Rightarrow> step" where
  "OverlaySwAgentCR_execute E next' ipd =
     (case OverlaySwAgentCR (swAgentL ipd) (injectFileds ipd) of
        (ok, s) \<Rightarrow>
          let ipd = ipd\<lparr>injectFileds := s\<rparr>
          in if \<not> ok then Inr (PatchReq E (pod ipd) (req ipd)) else next' ipd)"

definition OverlaySidecar_execute :: "InjectEnv \<Rightarrow> step \<Rightarrow> step" where
  "OverlaySidecar_execute E next' ipd =
     (case annotation ipd of
        None \<Rightarrow> Inl NilDeref
      | Some a \<Rightarrow>
          (case OverlaySidecar (ie_quantities E) a (annotationOverlay ipd) (podAnnotations (pod ipd))
                  (injectFileds ipd) of
             (ok, s, ao, m) \<Rightarrow>
               let ipd = ipd\<lparr>injectFileds := s, annotationOverlay := ao, pod := putAnnotations m (pod ipd)\<rparr>
               in if \<not> ok then Inr (PatchReq E (pod ipd) (req ipd)) else next' ipd))"

definition OverlayAgent_execute :: "InjectEnv \<Rightarrow> step \<Rightarrow> step" where
  "OverlayAgent_execute E next' ipd =
     (case annotation ipd of
        None \<Rightarrow> Inl NilDeref
      | Some a \<Rightarrow>
          (case OverlayAgent (ie_quantities E) a (ie_range E 0 (podAnnotations (pod ipd)))
                  (annotationOverlay ipd) (podAnnotations (pod ipd)) (injectFileds ipd) of
             (ok, s, ao, m) \<Rightarrow>
               let ipd = ipd\<lparr>injectFileds := s, annotationOverlay := ao, pod := putAnnotations m (pod ipd)\<rparr>
               in if \<not> ok then Inr (PatchReq E (pod ipd) (req ipd)) else next' ipd))"

definition OverlayPlugins_execute :: "InjectEnv \<Rightarrow> step \<Rightarrow> step" where
  "OverlayPlugins_execute E next' ipd =
     (let m = podAnnotations (pod ipd);
          s = OverlayPlugins (ie_range E 1 m) (injectFileds ipd);
          s = (if JvmAgentConfigStr s \<noteq> []
               then s\<lparr>Env := (Env s)\<lparr>ev_Value := Join [ev_Value (Env s), JvmAgentConfigStr s] ''=''\<rparr>\<rparr>
               else s)
      in case OverlayOptional (swAgentL ipd) (ie_range E 2 m) s of
           Inl panic \<Rightarrow> Inl panic
         | Inr s \<Rightarrow> next' (ipd\<lparr>injectFileds := s\<rparr>))"

definition PodInject_execute :: "InjectEnv \<Rightarrow> step" where
  "PodInject_execute E ipd =
     (let p = Inject (ie_regexp E) (injectFileds ipd) (pod ipd)
      in case injectSucceedAnnotation (pod_Annotations p) of
           Inl panic \<Rightarrow> Inl panic
         | Inr m \<Rightarrow> Inr (PatchReq E (setAnnotations m p) (req ipd)))"

definition NewInjectProcess ::
  "SidecarInjectField \<Rightarrow> Annotations option \<Rightarrow> AnnotationOverlay \<Rightarrow> SwAgentList \<Rightarrow> Pod \<Rightarrow> Request
   \<Rightarrow> InjectProcessData" where
  "NewInjectProcess s a ao l p r =
     \<lparr>injectFileds = s, annotation = a, annotationOverlay = ao, swAgentL = l, pod = p, req = r\<rparr>"

definition Run :: "InjectEnv \<Rightarrow> step" where
  "Run E =
     (let podInject = PodInject_execute E;
          overlayPlugins = OverlayPlugins_execute E podInject;
          overlayAgent = OverlayAgent_execute E overlayPlugins;
          overlaysidecar = OverlaySidecar_execute E overlayAgent;
          overlaySwAgentCR = OverlaySwAgentCR_execute E overlaysidecar
      in GetStrategy_execute overlaySwAgentCR)"

section \<open>webhook.go\<close>

text \<open>The selector loop sets a flag and goes on; a nil or empty selector matches every pod.\<close>

fun selectorLoop :: "entries \<Rightarrow> gomap option \<Rightarrow> bool \<Rightarrow> bool" where
  "selectorLoop [] labels isMatch = isMatch"
| "selectorLoop ((k, v) # sel) labels isMatch =
     selectorLoop sel labels (if \<not> EqualFold v (nilget labels k) then False else isMatch)"

definition swAgentMatches :: "gomap option \<Rightarrow> SwAgent \<Rightarrow> bool" where
  "swAgentMatches labels a =
     (case swa_Selector (cr_Spec a) of
        None \<Rightarrow> True
      | Some sel \<Rightarrow> if length sel \<noteq> 0 then selectorLoop sel labels True else True)"

definition findMatchedSwAgentL :: "InjectEnv \<Rightarrow> Request \<Rightarrow> Pod \<Rightarrow> SwAgentList" where
  "findMatchedSwAgentL E r p =
     (case ie_list E (req_Namespace r) of
        (err, items) \<Rightarrow> filter (swAgentMatches (pod_Labels p)) items)"

definition Handle :: "InjectEnv \<Rightarrow> Request \<Rightarrow> gopanic + Response" where
  "Handle E r =
     (case ie_decode E r of
        Inl err \<Rightarrow> Inr (Errored StatusBadRequest err)
      | Inr p \<Rightarrow>
          (let p = (if pod_Annotations p = None then setAnnotations (Some Map.empty) p else p);
               l = findMatchedSwAgentL E r p;
               anno = (case NewAnnotations (ie_readFile E) (ie_yaml E) of Inl err \<Rightarrow> None | Inr a \<Rightarrow> Some a);
               ao = NewAnnotationOverlay;
               s = NewSidecarInjectField;
               ip = NewInjectProcess s anno ao l p r
           in Run E ip))"

section \<open>How each overlay can end\<close>

text \<open>The annotations a pod is left with when an overlay gives up: its own, possibly with an error
  message added.\<close>

definition marked :: "gomap \<Rightarrow> gomap \<Rightarrow> bool" where
  "marked m m' \<longleftrightarrow> m' = m \<or> (\<exists>e. m' = m(sidecarInjectErrorAnno \<mapsto> e))"

lemma storeField_args [simp]:
  "length (c_Args (Initcontainer (sv_s (storeField ptr x v)))) = length (c_Args (Initcontainer (sv_s v)))"
  by (cases ptr) (simp_all add: onInit_def)

lemma resolve_args [simp]:
  "length (c_Args (Initcontainer (sv_s (resolve m as v)))) = length (c_Args (Initcontainer (sv_s v)))"
  by (induction m "as" v rule: resolve.induct) (auto split: option.splits)

lemma setResources_args:
  assumes "\<And>r c. c_Args (upd r c) = c_Args c"
  shows "c_Args (Initcontainer (snd (setResources Q str upd s))) = c_Args (Initcontainer s)"
  using assms by (auto simp: setResources_def split: sum.splits)

lemma OverlaySidecar_ends:
  assumes "OverlaySidecar Q a NewAnnotationOverlay m s = (ok, s', ao', m')"
  shows "(ok \<longrightarrow> m' = m \<and> length (c_Args (Initcontainer s')) = 2) \<and> marked m m'"
proof -
  let ?v = "\<lparr>sv_s = s\<lparr>Initcontainer := (Initcontainer s)\<lparr>c_Command := [[]], c_Args := [[], []]\<rparr>\<rparr>,
    sv_limitsStr = [], sv_requestStr = []\<rparr>"
  let ?as = "GetAnnotationsByPrefix a sidecarAnnotationPrefix"
  show ?thesis
  proof (cases "\<forall>a \<in> set ?as. ptrOf a \<noteq> None \<longrightarrow> acceptable Q m a")
    case True
    then obtain ao1 where loop: "sidecarLoop Q ?as ?v NewAnnotationOverlay m = (True, resolve m ?as ?v, ao1, m)"
      using sidecarLoop_ok overlayOf_New by blast
    have len: "length (c_Args (Initcontainer (sv_s (resolve m ?as ?v)))) = 2" by simp
    show ?thesis using assms len
      by (auto simp: OverlaySidecar_def Let_def loop marked_def setResources_def
          split: if_splits sum.splits prod.splits bool.splits)
  next
    case False
    then obtain v' ao1 err where
      "sidecarLoop Q ?as ?v NewAnnotationOverlay m = (False, v', ao1, m(sidecarInjectErrorAnno \<mapsto> Error err))"
      using sidecarLoop_bad overlayOf_New by blast
    then show ?thesis using assms by (auto simp: OverlaySidecar_def Let_def marked_def)
  qed
qed

lemma OverlayAgent_ends:
  assumes "OverlayAgent Q a it ao m s = (ok, s', ao', m')"
  shows "(ok \<longrightarrow> m' = m) \<and> marked m m' \<and> Initcontainer s' = Initcontainer s"
proof -
  let ?as = "GetAnnotationsByPrefix a agentAnnotationPrefix"
  show ?thesis
  proof (cases "agentAcceptable Q ?as m it")
    case True
    then obtain ao1 where "agentLoop Q ?as it [] ao m = (True, Join (options agentAnnotationPrefix it) '','', ao1, m)"
      using agentLoop_ok [OF True, of "[]"] by auto
    then show ?thesis using assms by (auto simp: OverlayAgent_def marked_def)
  next
    case False
    then obtain jvm' ao1 err where
      "agentLoop Q ?as it [] ao m = (False, jvm', ao1, m(sidecarInjectErrorAnno \<mapsto> Error err))"
      using agentLoop_bad by blast
    then show ?thesis using assms by (auto simp: OverlayAgent_def marked_def)
  qed
qed

lemma optionalLoop_total: "\<exists>p'. optionalLoop [] it p s = Inr (p', s)"
  by (induction it arbitrary: p) (auto simp: Let_def)

lemma appendPlugins_total:
  "length (c_Args (Initcontainer s)) = 2 \<Longrightarrow>
   \<exists>s'. appendPlugins src ps dst (Inr s) = Inr s' \<and> length (c_Args (Initcontainer s')) = 2"
  by (simp add: appendPlugins_def appendCommand_def Let_def)

lemma OverlayOptional_total:
  assumes "length (c_Args (Initcontainer s)) = 2"
  shows "\<exists>s'. OverlayOptional l it s = Inr s'"
proof -
  obtain p' where "optionalLoop [] it (swAgentPlugins l) s = Inr (p', s)"
    using optionalLoop_total by blast
  then show ?thesis
    unfolding OverlayOptional_def Let_def
    by (simp, metis appendPlugins_total assms)
qed

section \<open>The process\<close>

text \<open>The pod the handler works on, and the annotations it starts from.\<close>

definition admitted :: "Pod \<Rightarrow> Pod" where
  "admitted p = setAnnotations (Some (podAnnotations p)) p"

lemma admitted_eq:
  "(if pod_Annotations p = None then setAnnotations (Some Map.empty) p else p) = admitted p"
  by (auto simp: admitted_def podAnnotations_def)

lemma podAnnotations_Some [simp]: "podAnnotations (setAnnotations (Some m) p) = m"
  by (simp add: podAnnotations_def)

lemma putAnnotations_Some [simp]: "putAnnotations m' (setAnnotations (Some m) p) = setAnnotations (Some m') p"
  by (simp add: putAnnotations_def)

lemma admitted_sel [simp]:
  "pod_Labels (admitted p) = pod_Labels p" "podAnnotations (admitted p) = podAnnotations p"
  "pod_Annotations (admitted p) = Some (podAnnotations p)"
  by (simp_all add: admitted_def)

lemma Inject_setAnnotations: "Inject R s (setAnnotations a p) = setAnnotations a (Inject R s p)"
  by (simp add: Inject_def Let_def setAnnotations_def)

text \<open>The fields a wanted injection starts from.\<close>

definition startFields :: "gomap option \<Rightarrow> gomap option \<Rightarrow> SwAgentList \<Rightarrow> SidecarInjectField" where
  "startFields labels m l = snd (OverlaySwAgentCR l (GetInjectStrategy labels m NewSidecarInjectField))"

lemma OverlaySwAgentCR_ok: "\<exists>s'. OverlaySwAgentCR l s = (True, s')"
  by (simp add: OverlaySwAgentCR_def Let_def)

lemma Handle_decoded:
  assumes "ie_decode E r = Inr p"
  shows "Handle E r =
    (if wantsInjection (pod_Labels p) (Some (podAnnotations p))
     then OverlaySidecar_execute E (OverlayAgent_execute E (OverlayPlugins_execute E (PodInject_execute E)))
        \<lparr>injectFileds = startFields (pod_Labels p) (Some (podAnnotations p)) (findMatchedSwAgentL E r (admitted p)),
         annotation = (case NewAnnotations (ie_readFile E) (ie_yaml E) of Inl err \<Rightarrow> None | Inr a \<Rightarrow> Some a),
         annotationOverlay = NewAnnotationOverlay, swAgentL = findMatchedSwAgentL E r (admitted p),
         pod = admitted p, req = r\<rparr>
     else Inr (Allowed ''ok''))"
proof -
  obtain s1 where "OverlaySwAgentCR (findMatchedSwAgentL E r (admitted p))
      (GetInjectStrategy (pod_Labels p) (Some (podAnnotations p)) NewSidecarInjectField) = (True, s1)"
    using OverlaySwAgentCR_ok by blast
  then show ?thesis
    by (simp add: Handle_def assms Let_def admitted_eq Run_def GetStrategy_execute_def NewInjectProcess_def
        GetInjectStrategy_NeedInject OverlaySwAgentCR_execute_def startFields_def)
qed

text \<open>Every run past the strategy, with a loaded table, ends in one of two ways.\<close>

lemma process_ends:
  assumes "pod_Annotations p = Some m"
  shows "(\<exists>m'. marked m m' \<and>
       OverlaySidecar_execute E (OverlayAgent_execute E (OverlayPlugins_execute E (PodInject_execute E)))
         \<lparr>injectFileds = s, annotation = Some a, annotationOverlay = NewAnnotationOverlay, swAgentL = l,
          pod = p, req = r\<rparr> = Inr (PatchReq E (setAnnotations (Some m') p) r))
    \<or> (\<exists>s'. OverlaySidecar_execute E (OverlayAgent_execute E (OverlayPlugins_execute E (PodInject_execute E)))
         \<lparr>injectFileds = s, annotation = Some a, annotationOverlay = NewAnnotationOverlay, swAgentL = l,
          pod = p, req = r\<rparr> =
         Inr (PatchReq E (setAnnotations (Some (m(SidecarInjectSucceedAnno \<mapsto> ''true'',
           ActiveInjectorLabel \<mapsto> ''true''))) (Inject (ie_regexp E) s' p)) r))"
proof -
  obtain q where p: "p = setAnnotations (Some m) q" using assms by (metis setAnnotations_same)
  obtain ok s1 ao1 m1 where sc: "OverlaySidecar (ie_quantities E) a NewAnnotationOverlay m s = (ok, s1, ao1, m1)"
    by (metis prod_cases4)
  note e1 = OverlaySidecar_ends [OF sc]
  show ?thesis
  proof (cases ok)
    case False
    then show ?thesis using e1 sc by (auto simp: p OverlaySidecar_execute_def)
  next
    case True
    then have m1: "m1 = m" and len: "length (c_Args (Initcontainer s1)) = 2" using e1 by auto
    obtain ok2 s2 ao2 m2 where ag:
      "OverlayAgent (ie_quantities E) a (ie_range E 0 m) ao1 m s1 = (ok2, s2, ao2, m2)"
      by (metis prod_cases4)
    note e2 = OverlayAgent_ends [OF ag]
    show ?thesis
    proof (cases ok2)
      case False
      then show ?thesis using e2 ag sc True m1
        by (auto simp: p OverlaySidecar_execute_def OverlayAgent_execute_def)
    next
      case ok2: True
      let ?s3 = "let s = OverlayPlugins (ie_range E 1 m) s2 in (if JvmAgentConfigStr s \<noteq> []
               then s\<lparr>Env := (Env s)\<lparr>ev_Value := Join [ev_Value (Env s), JvmAgentConfigStr s] ''=''\<rparr>\<rparr>
               else s)"
      have "length (c_Args (Initcontainer ?s3)) = 2"
        using e2 len by (simp add: OverlayPlugins_def Let_def)
      then obtain s4 where "OverlayOptional l (ie_range E 2 m) ?s3 = Inr s4"
        using OverlayOptional_total by blast
      then show ?thesis using e2 ag sc True ok2 m1
        by (intro disjI2 exI [of _ s4])
          (simp add: p OverlaySidecar_execute_def OverlayAgent_execute_def OverlayPlugins_execute_def Let_def
            PodInject_execute_def Inject_setAnnotations injectSucceedAnnotation_def)
    qed
  qed
qed

lemma Handle_ends:
  assumes "ie_decode E r = Inr p" and "NewAnnotations (ie_readFile E) (ie_yaml E) = Inr a"
  shows "if \<not> wantsInjection (pod_Labels p) (Some (podAnnotations p)) then Handle E r = Inr (Allowed ''ok'')
    else (\<exists>m'. marked (podAnnotations p) m' \<and>
            Handle E r = Inr (PatchReq E (setAnnotations (Some m') p) r))
       \<or> (\<exists>s. Handle E r = Inr (PatchReq E (setAnnotations
              (Some ((podAnnotations p)(SidecarInjectSucceedAnno \<mapsto> ''true'', ActiveInjectorLabel \<mapsto> ''true'')))
              (Inject (ie_regexp E) s p)) r))"
proof (cases "wantsInjection (pod_Labels p) (Some (podAnnotations p))")
  case True
  then show ?thesis
    using process_ends [of "admitted p" "podAnnotations p" E
        "startFields (pod_Labels p) (Some (podAnnotations p)) (findMatchedSwAgentL E r (admitted p))"
        a "findMatchedSwAgentL E r (admitted p)" r] assms(2)
    by (simp add: Handle_decoded [OF assms(1)]) (simp add: admitted_def Inject_setAnnotations)
next
  case False
  then show ?thesis by (simp add: Handle_decoded [OF assms(1)])
qed

text \<open>C2. The handler is all or nothing. For a request that decodes and a table that loads, a pod
  that is not labelled for injection, or is already marked as injected, is allowed without a
  patch; every other pod is answered with a patch that either injects one set of fields
  and marks the pod as injected, or changes nothing but, at most, the error annotation. The
  handler never panics.\<close>

theorem Handle_outcomes:
  assumes "ie_decode E r = Inr p" and "NewAnnotations (ie_readFile E) (ie_yaml E) = Inr a"
  shows "if \<not> wantsInjection (pod_Labels p) (Some (podAnnotations p)) then Handle E r = Inr (Allowed ''ok'')
    else (\<exists>m'. marked (podAnnotations p) m' \<and>
            Handle E r = Inr (PatchReq E (setAnnotations (Some m') p) r))
       \<or> (\<exists>s. Handle E r = Inr (PatchReq E (setAnnotations
              (Some ((podAnnotations p)(SidecarInjectSucceedAnno \<mapsto> ''true'', ActiveInjectorLabel \<mapsto> ''true'')))
              (Inject (ie_regexp E) s p)) r))"
  using Handle_ends [OF assms] .

text \<open>The handler panics exactly when it has to inject a pod and the table of annotations could
  not be loaded: the error is only logged, and the nil table is dereferenced two steps later.\<close>

theorem Handle_panics_iff:
  assumes "ie_decode E r = Inr p"
  shows "(\<exists>panic. Handle E r = Inl panic) \<longleftrightarrow>
    wantsInjection (pod_Labels p) (Some (podAnnotations p)) \<and>
    (\<exists>err. NewAnnotations (ie_readFile E) (ie_yaml E) = Inl err)"
proof (cases "NewAnnotations (ie_readFile E) (ie_yaml E)")
  case (Inl err)
  then show ?thesis
    by (simp add: Handle_decoded [OF assms] OverlaySidecar_execute_def)
next
  case (Inr a)
  show ?thesis
  proof (cases "wantsInjection (pod_Labels p) (Some (podAnnotations p))")
    case True
    then show ?thesis
      using process_ends [of "admitted p" "podAnnotations p" E
        "startFields (pod_Labels p) (Some (podAnnotations p)) (findMatchedSwAgentL E r (admitted p))"
        a "findMatchedSwAgentL E r (admitted p)" r] Inr
      by (auto simp: Handle_decoded [OF assms])
  next
    case False
    then show ?thesis by (simp add: Handle_decoded [OF assms] Inr)
  qed
qed

lemma not_wanted_again:
  "\<not> wantsInjection labels (Some (m(SidecarInjectSucceedAnno \<mapsto> ''true'', ActiveInjectorLabel \<mapsto> ''true'')))"
  by (simp add: wantsInjection_def injector_keys)

text \<open>C3. Re-invocation. When the encoder's output decodes to the pod it was given, submitting the
  pod an injection produced is answered without another patch, so agents are never injected twice;
  the only other possibility for the first answer is that an overlay rejected the pod.\<close>

theorem Handle_reinvocation:
  assumes "ie_decode E r = Inr p" and "NewAnnotations (ie_readFile E) (ie_yaml E) = Inr a"
    and roundtrip: "\<And>q b. ie_marshal E q = Inr b \<Longrightarrow> ie_decode E (r\<lparr>req_Raw := b\<rparr>) = Inr q"
    and "Handle E r = Inr (PatchResponseFromRaw raw b)"
  shows "Handle E (r\<lparr>req_Raw := b\<rparr>) = Inr (Allowed ''ok'')
    \<or> (\<exists>m'. marked (podAnnotations p) m' \<and> ie_marshal E (setAnnotations (Some m') p) = Inr b)"
proof -
  have patch: "PatchReq E q r = PatchResponseFromRaw raw b \<Longrightarrow> ie_marshal E q = Inr b" for q
    by (auto simp: PatchReq_def split: sum.splits)
  have "wantsInjection (pod_Labels p) (Some (podAnnotations p))"
    using assms(4) Handle_decoded [OF assms(1)] by (auto split: if_splits)
  then consider m' where "marked (podAnnotations p) m'" "Handle E r = Inr (PatchReq E (setAnnotations (Some m') p) r)"
    | s where "Handle E r = Inr (PatchReq E (setAnnotations
        (Some ((podAnnotations p)(SidecarInjectSucceedAnno \<mapsto> ''true'', ActiveInjectorLabel \<mapsto> ''true'')))
        (Inject (ie_regexp E) s p)) r)"
    using Handle_ends [OF assms(1,2)] by auto
  then show ?thesis
  proof cases
    case 1
    then show ?thesis using patch assms(4) by auto
  next
    case 2
    then have "ie_decode E (r\<lparr>req_Raw := b\<rparr>) = Inr (setAnnotations
        (Some ((podAnnotations p)(SidecarInjectSucceedAnno \<mapsto> ''true'', ActiveInjectorLabel \<mapsto> ''true'')))
        (Inject (ie_regexp E) s p))"
      using patch roundtrip assms(4) by auto
    then show ?thesis by (simp add: Handle_decoded not_wanted_again)
  qed
qed

section \<open>What gets injected\<close>

lemma startFields_eq:
  assumes "wantsInjection labels (Some m)"
  shows "startFields labels (Some m) l = (case lastSwAgent l of
     None \<Rightarrow> NewSidecarInjectField\<lparr>NeedInject := True, InjectContainer := mapget m sidecarInjectContainerAnno\<rparr>
   | Some a \<Rightarrow> NewSidecarInjectField\<lparr>NeedInject := True, InjectContainer := swa_ContainerMatcher a,
       Envs := js_Env (swa_JavaSidecar a),
       Initcontainer := zeroContainer\<lparr>c_Name := js_Name (swa_JavaSidecar a),
         c_Image := js_Image (swa_JavaSidecar a), c_Args := js_Args (swa_JavaSidecar a),
         c_Command := js_Command (swa_JavaSidecar a),
         c_VolumeMounts := [zeroVolumeMount\<lparr>vm_Name := swa_SharedVolumeName a, vm_MountPath := mountPath\<rparr>]\<rparr>,
       SidecarVolume := zeroVolume\<lparr>vol_Name := swa_SharedVolumeName a, vol_EmptyDir := Some ()\<rparr>,
       SidecarVolumeMount := zeroVolumeMount\<lparr>vm_Name := swa_SharedVolumeName a, vm_MountPath := mountPath\<rparr>\<rparr>)"
proof -
  have "GetInjectStrategy labels (Some m) NewSidecarInjectField =
      NewSidecarInjectField\<lparr>NeedInject := True, InjectContainer := mapget m sidecarInjectContainerAnno\<rparr>"
    using assms
    by (cases labels)
      (auto simp: wantsInjection_def GetInjectStrategy_def Let_def NewSidecarInjectField_def mapget_def
        split: option.splits)
  then show ?thesis
    by (cases "l = []")
      (simp_all add: startFields_def OverlaySwAgentCR_def lastSwAgent_def last_conv_nth Let_def
        NewSidecarInjectField_def zeroContainer_def)
qed

text \<open>A setting taken from the matching \<open>SwAgent\<close>, when there is one.\<close>

definition agentSetting :: "SwAgentSpec option \<Rightarrow> (SwAgentSpec \<Rightarrow> string) \<Rightarrow> string" where
  "agentSetting oa f = (case oa of None \<Rightarrow> [] | Some a \<Rightarrow> f a)"

lemma startFields_sel:
  assumes "wantsInjection labels (Some m)"
  obtains ic sv vm en es js ij where
    "startFields labels (Some m) l = \<lparr>NeedInject = True, Initcontainer = ic, SidecarVolume = sv,
      SidecarVolumeMount = vm, Env = en, Envs = es, JvmAgentConfigStr = js, InjectContainer = ij\<rparr>"
    "c_Name ic = agentSetting (lastSwAgent l) (\<lambda>a. js_Name (swa_JavaSidecar a))"
    "c_Image ic = agentSetting (lastSwAgent l) (\<lambda>a. js_Image (swa_JavaSidecar a))"
    "c_Limits ic = None" "c_Requests ic = None"
    "\<exists>e. sv = \<lparr>vol_Name = agentSetting (lastSwAgent l) swa_SharedVolumeName,
       vol_EmptyDir = e, vol_ConfigMap = None, vol_rest = []\<rparr>"
    "\<exists>n. vm = \<lparr>vm_Name = n, vm_MountPath = agentSetting (lastSwAgent l) (\<lambda>_. mountPath), vm_SubPath = []\<rparr>"
    "en = EnvVarOf [] []"
    "es = (case lastSwAgent l of None \<Rightarrow> [] | Some a \<Rightarrow> js_Env (swa_JavaSidecar a))"
    "ij = (case lastSwAgent l of None \<Rightarrow> mapget m sidecarInjectContainerAnno | Some a \<Rightarrow> swa_ContainerMatcher a)"
proof (cases "lastSwAgent l")
  case None
  then have "startFields labels (Some m) l = \<lparr>NeedInject = True, Initcontainer = zeroContainer,
      SidecarVolume = zeroVolume, SidecarVolumeMount = zeroVolumeMount, Env = zeroEnvVar, Envs = [],
      JvmAgentConfigStr = [], InjectContainer = mapget m sidecarInjectContainerAnno\<rparr>"
    by (simp add: startFields_eq [OF assms] NewSidecarInjectField_def)
  then show ?thesis
    by (rule that)
      (simp_all add: None agentSetting_def zeroContainer_def zeroVolume_def zeroVolumeMount_def zeroEnvVar_def)
next
  case (Some a)
  let ?mount = "\<lparr>vm_Name = swa_SharedVolumeName a, vm_MountPath = mountPath, vm_SubPath = []\<rparr>"
  from Some have "startFields labels (Some m) l = \<lparr>NeedInject = True,
      Initcontainer = zeroContainer\<lparr>c_Name := js_Name (swa_JavaSidecar a),
         c_Image := js_Image (swa_JavaSidecar a), c_Args := js_Args (swa_JavaSidecar a),
         c_Command := js_Command (swa_JavaSidecar a), c_VolumeMounts := [?mount]\<rparr>,
      SidecarVolume = \<lparr>vol_Name = swa_SharedVolumeName a, vol_EmptyDir = Some (), vol_ConfigMap = None,
        vol_rest = []\<rparr>,
      SidecarVolumeMount = ?mount, Env = zeroEnvVar, Envs = js_Env (swa_JavaSidecar a),
      JvmAgentConfigStr = [], InjectContainer = swa_ContainerMatcher a\<rparr>"
    by (simp add: startFields_eq [OF assms] NewSidecarInjectField_def zeroVolume_def zeroVolumeMount_def)
  then show ?thesis
    by (rule that) (simp_all add: Some agentSetting_def zeroContainer_def zeroEnvVar_def)
qed

text \<open>The fields a pod with annotations \<open>m\<close> ends up with, for the last matching \<open>SwAgent\<close> \<open>oa\<close> and
  the options \<open>opts\<close> of the agent.\<close>

definition finalFields ::
  "quantities \<Rightarrow> gomap \<Rightarrow> SwAgentSpec option \<Rightarrow> string list \<Rightarrow> SidecarInjectField \<Rightarrow> bool" where
  "finalFields Q m oa opts s \<longleftrightarrow>
     (let vname = pick (sidecarSetting m ''sidecarVolume.Name'') (agentSetting oa swa_SharedVolumeName) ''sky-agent'';
          mp = pick (sidecarSetting m ''sidecarVolumeMount.MountPath'') (agentSetting oa (\<lambda>_. mountPath)) ''/sky/agent'';
          plugins = (\<lambda>key ps. case m key of Some v \<Rightarrow> v | None \<Rightarrow> agentSetting oa (\<lambda>a. Join (ps a) ''|''))
      in c_Name (Initcontainer s) = pick (sidecarSetting m ''initcontainer.Name'')
             (agentSetting oa (\<lambda>a. js_Name (swa_JavaSidecar a))) ''inject-skywalking-agent''
       \<and> c_Image (Initcontainer s) = pick (sidecarSetting m ''initcontainer.Image'')
             (agentSetting oa (\<lambda>a. js_Image (swa_JavaSidecar a))) ''apache/skywalking-java-agent:8.16.0-java8''
       \<and> c_Command (Initcontainer s) = [pick (sidecarSetting m ''initcontainer.Command'') [] ''sh'']
       \<and> c_Args (Initcontainer s) =
           [pick (sidecarSetting m ''initcontainer.args.Option'') [] ''-c'',
            Join (pick (sidecarSetting m ''initcontainer.args.Command'') []
                    ''mkdir -p /sky/agent && cp -r /skywalking/agent/* /sky/agent'' #
                  pluginCommands mp (plugins optionsAnnotation swa_OptionalPlugins)
                    (plugins optionsReporterAnnotation swa_OptionalReporterPlugins)
                    (plugins bootstrapAnnotation swa_BootstrapPlugins)) '' && '']
       \<and> c_Limits (Initcontainer s) = resourcesSet Q (sidecarSetting m ''initcontainer.resources.limits'') None
       \<and> c_Requests (Initcontainer s) = resourcesSet Q (sidecarSetting m ''initcontainer.resources.requests'') None
       \<and> c_VolumeMounts (Initcontainer s) = [SidecarVolumeMount s]
       \<and> SidecarVolumeMount s = \<lparr>vm_Name = vname, vm_MountPath = mp, vm_SubPath = []\<rparr>
       \<and> SidecarVolume s = \<lparr>vol_Name = vname, vol_EmptyDir = None, vol_ConfigMap = None, vol_rest = []\<rparr>
       \<and> Env s = EnvVarOf (pick (sidecarSetting m ''env.Name'') [] ''JAVA_TOOL_OPTIONS'')
           (Join (pick (sidecarSetting m ''env.Value'') [] ''-javaagent:/sky/agent/skywalking-agent.jar'' #
              (if opts = [] then [] else [Join opts '','' ])) ''='')
       \<and> Envs s = (case oa of None \<Rightarrow> [] | Some a \<Rightarrow> js_Env (swa_JavaSidecar a))
       \<and> InjectContainer s = (case oa of None \<Rightarrow> mapget m sidecarInjectContainerAnno
                                      | Some a \<Rightarrow> swa_ContainerMatcher a))"

text \<open>The fields after the sidecar overlay, when it succeeds.\<close>

definition sidecarStage :: "quantities \<Rightarrow> gomap \<Rightarrow> SidecarInjectField \<Rightarrow> SidecarInjectField" where
  "sidecarStage Q m s =
      (let vname = pick (sidecarSetting m ''sidecarVolume.Name'') (vol_Name (SidecarVolume s)) ''sky-agent'';
           mount = (SidecarVolumeMount s)\<lparr>vm_Name := vname,
             vm_MountPath := pick (sidecarSetting m ''sidecarVolumeMount.MountPath'')
               (vm_MountPath (SidecarVolumeMount s)) ''/sky/agent''\<rparr>
       in s\<lparr>
        Initcontainer := (Initcontainer s)\<lparr>
          c_Name := pick (sidecarSetting m ''initcontainer.Name'') (c_Name (Initcontainer s))
                      ''inject-skywalking-agent'',
          c_Image := pick (sidecarSetting m ''initcontainer.Image'') (c_Image (Initcontainer s))
                      ''apache/skywalking-java-agent:8.16.0-java8'',
          c_Command := [pick (sidecarSetting m ''initcontainer.Command'') [] ''sh''],
          c_Args := [pick (sidecarSetting m ''initcontainer.args.Option'') [] ''-c'',
                     pick (sidecarSetting m ''initcontainer.args.Command'') []
                       ''mkdir -p /sky/agent && cp -r /skywalking/agent/* /sky/agent''],
          c_VolumeMounts := [mount],
          c_Limits := resourcesSet Q (sidecarSetting m ''initcontainer.resources.limits'')
                        (c_Limits (Initcontainer s)),
          c_Requests := resourcesSet Q (sidecarSetting m ''initcontainer.resources.requests'')
                          (c_Requests (Initcontainer s))\<rparr>,
        SidecarVolume := (SidecarVolume s)\<lparr>vol_Name := vname, vol_EmptyDir := None\<rparr>,
        SidecarVolumeMount := mount,
        Env := (Env s)\<lparr>
          ev_Name := pick (sidecarSetting m ''env.Name'') (ev_Name (Env s)) ''JAVA_TOOL_OPTIONS'',
          ev_Value := pick (sidecarSetting m ''env.Value'') (ev_Value (Env s))
            ''-javaagent:/sky/agent/skywalking-agent.jar''\<rparr>\<rparr>)"

lemma sidecarStage_ok:
  assumes "resourcesOK Q m ''initcontainer.resources.limits''"
    and "resourcesOK Q m ''initcontainer.resources.requests''"
  shows "\<exists>ao'. OverlaySidecar Q annotations_yaml NewAnnotationOverlay m s = (True, sidecarStage Q m s, ao', m)"
  using sidecar_overlay [of Q m s] assms by (simp add: sidecarStage_def Let_def)

lemma sidecarStage_sel:
  "c_Name (Initcontainer (sidecarStage Q m s)) =
     pick (sidecarSetting m ''initcontainer.Name'') (c_Name (Initcontainer s)) ''inject-skywalking-agent''"
  "c_Image (Initcontainer (sidecarStage Q m s)) =
     pick (sidecarSetting m ''initcontainer.Image'') (c_Image (Initcontainer s))
       ''apache/skywalking-java-agent:8.16.0-java8''"
  "c_Command (Initcontainer (sidecarStage Q m s)) = [pick (sidecarSetting m ''initcontainer.Command'') [] ''sh'']"
  "c_Args (Initcontainer (sidecarStage Q m s)) =
     [pick (sidecarSetting m ''initcontainer.args.Option'') [] ''-c'',
      pick (sidecarSetting m ''initcontainer.args.Command'') []
        ''mkdir -p /sky/agent && cp -r /skywalking/agent/* /sky/agent'']"
  "c_Limits (Initcontainer (sidecarStage Q m s)) =
     resourcesSet Q (sidecarSetting m ''initcontainer.resources.limits'') (c_Limits (Initcontainer s))"
  "c_Requests (Initcontainer (sidecarStage Q m s)) =
     resourcesSet Q (sidecarSetting m ''initcontainer.resources.requests'') (c_Requests (Initcontainer s))"
  "c_VolumeMounts (Initcontainer (sidecarStage Q m s)) = [SidecarVolumeMount (sidecarStage Q m s)]"
  "SidecarVolumeMount (sidecarStage Q m s) = (SidecarVolumeMount s)\<lparr>
     vm_Name := pick (sidecarSetting m ''sidecarVolume.Name'') (vol_Name (SidecarVolume s)) ''sky-agent'',
     vm_MountPath := pick (sidecarSetting m ''sidecarVolumeMount.MountPath'')
       (vm_MountPath (SidecarVolumeMount s)) ''/sky/agent''\<rparr>"
  "SidecarVolume (sidecarStage Q m s) = (SidecarVolume s)\<lparr>
     vol_Name := pick (sidecarSetting m ''sidecarVolume.Name'') (vol_Name (SidecarVolume s)) ''sky-agent'',
     vol_EmptyDir := None\<rparr>"
  "Env (sidecarStage Q m s) = (Env s)\<lparr>
     ev_Name := pick (sidecarSetting m ''env.Name'') (ev_Name (Env s)) ''JAVA_TOOL_OPTIONS'',
     ev_Value := pick (sidecarSetting m ''env.Value'') (ev_Value (Env s))
       ''-javaagent:/sky/agent/skywalking-agent.jar''\<rparr>"
  "Envs (sidecarStage Q m s) = Envs s" "InjectContainer (sidecarStage Q m s) = InjectContainer s"
  by (simp_all add: sidecarStage_def Let_def)

lemma sidecarStage_args: "length (c_Args (Initcontainer (sidecarStage Q m s))) = 2"
  by (simp add: sidecarStage_def Let_def)

text \<open>Adding the options and the plugin commands to the result completes the fields.\<close>

lemma stages_final:
  assumes "wantsInjection labels (Some m)"
    and s1: "s1 = sidecarStage Q m (startFields labels (Some m) l)"
    and s3: "s3 = s1\<lparr>JvmAgentConfigStr := jvm, Env := (Env s1)\<lparr>ev_Value :=
       Join (ev_Value (Env s1) # (if opts = [] then [] else [Join opts '','' ])) ''=''\<rparr>\<rparr>"
    and s4: "s4 = s3\<lparr>Initcontainer := (Initcontainer s3)\<lparr>c_Args :=
      [c_Args (Initcontainer s3) ! 0,
       Join (c_Args (Initcontainer s3) ! 1 #
       (let plugins = (\<lambda>key ps. case m key of Some v \<Rightarrow> v | None \<Rightarrow>
              (case lastSwAgent l of None \<Rightarrow> [] | Some a \<Rightarrow> Join (ps a) ''|''))
        in pluginCommands (vm_MountPath (SidecarVolumeMount s3))
            (plugins optionsAnnotation swa_OptionalPlugins)
            (plugins optionsReporterAnnotation swa_OptionalReporterPlugins)
            (plugins bootstrapAnnotation swa_BootstrapPlugins))) '' && '']\<rparr>\<rparr>"
  shows "finalFields Q m (lastSwAgent l) opts s4"
proof -
  let ?s0 = "startFields labels (Some m) l"
  obtain ic sv vm en es js ij where s0: "?s0 = \<lparr>NeedInject = True, Initcontainer = ic, SidecarVolume = sv,
      SidecarVolumeMount = vm, Env = en, Envs = es, JvmAgentConfigStr = js, InjectContainer = ij\<rparr>"
    and ic: "c_Name ic = agentSetting (lastSwAgent l) (\<lambda>a. js_Name (swa_JavaSidecar a))"
      "c_Image ic = agentSetting (lastSwAgent l) (\<lambda>a. js_Image (swa_JavaSidecar a))"
      "c_Limits ic = None" "c_Requests ic = None"
    and sv: "\<exists>e. sv = \<lparr>vol_Name = agentSetting (lastSwAgent l) swa_SharedVolumeName,
       vol_EmptyDir = e, vol_ConfigMap = None, vol_rest = []\<rparr>"
    and vm: "\<exists>n. vm = \<lparr>vm_Name = n, vm_MountPath = agentSetting (lastSwAgent l) (\<lambda>_. mountPath), vm_SubPath = []\<rparr>"
    and en: "en = EnvVarOf [] []"
    and es: "es = (case lastSwAgent l of None \<Rightarrow> [] | Some a \<Rightarrow> js_Env (swa_JavaSidecar a))"
    and ij: "ij = (case lastSwAgent l of None \<Rightarrow> mapget m sidecarInjectContainerAnno | Some a \<Rightarrow> swa_ContainerMatcher a)"
    using startFields_sel [OF assms(1)] by blast
  obtain e n where sv': "sv = \<lparr>vol_Name = agentSetting (lastSwAgent l) swa_SharedVolumeName,
       vol_EmptyDir = e, vol_ConfigMap = None, vol_rest = []\<rparr>"
    and vm': "vm = \<lparr>vm_Name = n, vm_MountPath = agentSetting (lastSwAgent l) (\<lambda>_. mountPath), vm_SubPath = []\<rparr>"
    using sv vm by blast
  show ?thesis
    unfolding finalFields_def Let_def s4 s3
    by (simp add: s1 sidecarStage_sel s0 ic en es ij sv' vm' EnvVarOf_def) (simp only: agentSetting_def)
qed


section \<open>Examples\<close>

definition demoPod :: Pod where
  "demoPod = \<lparr>pod_Meta = zeroMeta\<lparr>om_Labels := Some [ActiveInjectorLabel \<mapsto> ''true''],
      om_Annotations := Some (map_of demoAnnotations)\<rparr>,
    pod_InitContainers = [], pod_Containers = [zeroContainer\<lparr>c_Name := ''app''\<rparr>], pod_Volumes = [], pod_rest = []\<rparr>"

definition demoReq :: Request where
  "demoReq = \<lparr>req_Namespace = ''default'', req_Raw = ''{}''\<rparr>"

definition demoEnv :: InjectEnv where
  "demoEnv = \<lparr>ie_regexp = (\<lambda>pat. Inr (\<lambda>n. n = pat)), ie_quantities = noQuantities,
     ie_marshal = (\<lambda>_. Inr ''injected''), ie_decode = (\<lambda>_. Inr demoPod), ie_list = (\<lambda>_. (None, [])),
     ie_readFile = (\<lambda>_. Inr ''annotations:''), ie_yaml = (\<lambda>_. Inr annotations_yaml),
     ie_range = (\<lambda>_ _. demoAnnotations)\<rparr>"

lemma demo_facts:
  "ie_decode demoEnv demoReq = Inr demoPod" "podAnnotations demoPod = map_of demoAnnotations"
  "NewAnnotations (ie_readFile demoEnv) (ie_yaml demoEnv) = Inr annotations_yaml"
  "ie_quantities demoEnv = noQuantities" "ie_range demoEnv i m = demoAnnotations"
  "findMatchedSwAgentL demoEnv demoReq p = []"
  by (simp_all add: demoEnv_def demoReq_def demoPod_def podAnnotations_def NewAnnotations_def
      findMatchedSwAgentL_def)

lemma demo_wanted: "wantsInjection (pod_Labels demoPod) (Some (map_of demoAnnotations))"
  by (simp add: wantsInjection_def demoPod_def demoAnnotations_def injector_keys mapget_def EqualFold_def
      ToLower_def lower_def)

lemma demo_ranges: "ranges (map_of demoAnnotations) demoAnnotations"
  by (simp add: ranges_def demoAnnotations_def)

lemma demo_dom: "dom (map_of demoAnnotations) = {''plugins.skywalking.apache.org/plugin.mount'',
    ''agent.skywalking.apache.org/agent.service_name'', ''owner''}"
  unfolding dom_map_of_conv_image_fst by (simp add: demoAnnotations_def)

lemma demo_exact:
  "exactKey (map_of demoAnnotations) optionsAnnotation"
  "exactKey (map_of demoAnnotations) optionsReporterAnnotation"
  "exactKey (map_of demoAnnotations) bootstrapAnnotation"
  unfolding exactKey_def demo_dom by (simp_all add: EqualFold_def ToLower_def lower_def injector_keys)

lemma demo_resources:
  "resourcesOK noQuantities (map_of demoAnnotations) ''initcontainer.resources.limits''"
  "resourcesOK noQuantities (map_of demoAnnotations) ''initcontainer.resources.requests''"
  by (simp_all add: resourcesOK_def demoAnnotations_def injector_keys)

theorem Handle_outcomes_witness:
  "(\<exists>m'. marked (map_of demoAnnotations) m' \<and>
      Handle demoEnv demoReq = Inr (PatchReq demoEnv (setAnnotations (Some m') demoPod) demoReq))
   \<or> (\<exists>s. Handle demoEnv demoReq = Inr (PatchReq demoEnv (setAnnotations
        (Some ((map_of demoAnnotations)(SidecarInjectSucceedAnno \<mapsto> ''true'', ActiveInjectorLabel \<mapsto> ''true'')))
        (Inject (ie_regexp demoEnv) s demoPod)) demoReq))"
  using Handle_outcomes [OF demo_facts(1,3)] demo_wanted by (simp add: demo_facts(2))

theorem Handle_panics_iff_witness:
  "\<not> (\<exists>panic. Handle demoEnv demoReq = Inl panic)"
  using Handle_panics_iff [OF demo_facts(1)] demo_facts(3) by simp


text \<open>An encoder that accepts only the pod the injection of \<open>barePod\<close> produces, and a decoder that
  inverts it: with them the round trip holds.\<close>

definition barePod :: Pod where
  "barePod = \<lparr>pod_Meta = zeroMeta\<lparr>om_Labels := Some [ActiveInjectorLabel \<mapsto> ''true'']\<rparr>,
    pod_InitContainers = [], pod_Containers = [], pod_Volumes = [], pod_rest = []\<rparr>"

definition bareFields :: SidecarInjectField where
  "bareFields = NewSidecarInjectField\<lparr>NeedInject := True, Initcontainer := zeroContainer\<lparr>c_Command := [[]],
     c_Args := [[], []], c_VolumeMounts := [zeroVolumeMount], c_Limits := Some [], c_Requests := Some []\<rparr>\<rparr>"

definition bareInjected :: Pod where
  "bareInjected = setAnnotations (Some [SidecarInjectSucceedAnno \<mapsto> ''true'', ActiveInjectorLabel \<mapsto> ''true''])
     (Inject (\<lambda>pat. Inr (\<lambda>n. n = pat)) bareFields barePod)"

definition bareEnv :: InjectEnv where
  "bareEnv = \<lparr>ie_regexp = (\<lambda>pat. Inr (\<lambda>n. n = pat)),
     ie_quantities = \<lparr>q_unmarshal = (\<lambda>_. Inr []), q_milli = (\<lambda>_. 0)\<rparr>,
     ie_marshal = (\<lambda>p. if p = bareInjected then Inr ''injected'' else Inl (ErrorString ''unsupported'')),
     ie_decode = (\<lambda>r. Inr (if req_Raw r = ''injected'' then bareInjected else barePod)),
     ie_list = (\<lambda>_. (None, [])), ie_readFile = (\<lambda>_. Inr ''annotations:''), ie_yaml = (\<lambda>_. Inr []),
     ie_range = (\<lambda>_ _. [])\<rparr>"

lemma bare_facts:
  "ie_decode bareEnv demoReq = Inr barePod"
  "NewAnnotations (ie_readFile bareEnv) (ie_yaml bareEnv) = Inr []"
  "ie_marshal bareEnv q = Inr b \<Longrightarrow> ie_decode bareEnv (demoReq\<lparr>req_Raw := b\<rparr>) = Inr q"
  by (auto simp: bareEnv_def demoReq_def NewAnnotations_def split: if_splits)

lemma bare_podAnnotations: "podAnnotations barePod = Map.empty" "pod_Annotations barePod = None"
  by (simp_all add: podAnnotations_def barePod_def zeroMeta_def)

lemma bare_wanted: "wantsInjection (pod_Labels barePod) (Some Map.empty)"
  by (simp add: wantsInjection_def barePod_def mapget_def EqualFold_def ToLower_def lower_def)

lemma bare_Handle: "Handle bareEnv demoReq = Inr (PatchResponseFromRaw ''{}'' ''injected'')"
proof -
  have l: "findMatchedSwAgentL bareEnv demoReq p = []" for p
    by (simp add: findMatchedSwAgentL_def bareEnv_def)
  have s0: "startFields (pod_Labels barePod) (Some Map.empty) [] = NewSidecarInjectField\<lparr>NeedInject := True\<rparr>"
    by (simp add: startFields_eq [OF bare_wanted] lastSwAgent_def NewSidecarInjectField_def)
  have env: "ie_quantities bareEnv = \<lparr>q_unmarshal = (\<lambda>_. Inr []), q_milli = (\<lambda>_. 0)\<rparr>"
    "ie_range bareEnv i m = []" "ie_regexp bareEnv = (\<lambda>pat. Inr (\<lambda>n. n = pat))" for i m
    by (simp_all add: bareEnv_def)
  have sc: "OverlaySidecar \<lparr>q_unmarshal = (\<lambda>_. Inr []), q_milli = (\<lambda>_. 0)\<rparr> [] NewAnnotationOverlay Map.empty
      (NewSidecarInjectField\<lparr>NeedInject := True\<rparr>) = (True, bareFields, NewAnnotationOverlay, Map.empty)"
    by (simp add: OverlaySidecar_def GetAnnotationsByPrefix_def setResources_def bareFields_def Let_def
        NewSidecarInjectField_def zeroContainer_def zeroVolume_def zeroVolumeMount_def)
  have ag: "OverlayAgent Q [] [] ao m bareFields = (True, bareFields, ao, m)" for Q ao m
    by (simp add: OverlayAgent_def GetAnnotationsByPrefix_def bareFields_def NewSidecarInjectField_def)
  have pl: "OverlayPlugins [] bareFields = bareFields" "JvmAgentConfigStr bareFields = []"
    by (simp_all add: OverlayPlugins_def bareFields_def NewSidecarInjectField_def)
  have op: "OverlayOptional [] [] bareFields = Inr bareFields"
    by (simp add: OverlayOptional_def swAgentPlugins_def appendPlugins_def)
  have m: "ie_marshal bareEnv bareInjected = Inr ''injected''" "req_Raw demoReq = ''{}''"
    by (simp_all add: bareEnv_def demoReq_def)
  show ?thesis
    by (simp add: Handle_decoded [OF bare_facts(1)] bare_podAnnotations bare_wanted bare_facts(2) l s0
        OverlaySidecar_execute_def OverlayAgent_execute_def OverlayPlugins_execute_def PodInject_execute_def
        env sc ag pl op Let_def injectSucceedAnnotation_def admitted_def Inject_setAnnotations PatchReq_def m
        bareInjected_def [symmetric])
qed

theorem Handle_reinvocation_witness:
  "Handle bareEnv (demoReq\<lparr>req_Raw := ''injected''\<rparr>) = Inr (Allowed ''ok'')"
proof -
  have "\<not> (\<exists>m'. marked (podAnnotations barePod) m' \<and>
      ie_marshal bareEnv (setAnnotations (Some m') barePod) = Inr ''injected'')"
  proof -
    have "setAnnotations (Some m') barePod \<noteq> bareInjected" for m'
    proof
      assume "setAnnotations (Some m') barePod = bareInjected"
      then have "pod_Volumes barePod = pod_Volumes bareInjected" by (metis setAnnotations_sel(5))
      then show False by (simp add: bareInjected_def barePod_def Inject_def Let_def)
    qed
    then show ?thesis by (simp add: bareEnv_def)
  qed
  then show ?thesis
    using Handle_reinvocation [OF bare_facts(1,2) bare_facts(3) bare_Handle] by blast
qed

end
