(* ===== verification/Encoding.thy ===== *)
theory Encoding
  imports Prelude
begin

text \<open>
  The encodings of the Go standard library the program uses: hexadecimal text, the 64 bit FNV-1a
  hash, and JSON text with sorted object keys. Bytes are characters.
\<close>

section \<open>Hexadecimal (encoding/hex)\<close>

definition hexDigit :: "nat \<Rightarrow> char" where
  "hexDigit n = (if n < 10 then char_of (n + 48) else char_of (n + 87))"

definition EncodeToString :: "string \<Rightarrow> string" where
  "EncodeToString bs = concat (map (\<lambda>b. let n = (of_char b :: nat) in [hexDigit (n div 16), hexDigit (n mod 16)]) bs)"

definition fromHexChar :: "char \<Rightarrow> nat option" where
  "fromHexChar c =
     (let n = (of_char c :: nat) in
      if 48 \<le> n \<and> n \<le> 57 then Some (n - 48)
      else if 97 \<le> n \<and> n \<le> 102 then Some (n - 87)
      else if 65 \<le> n \<and> n \<le> 70 then Some (n - 55)
      else None)"

text \<open>\<open>hex.DecodeString\<close>: the bytes decoded before an error are returned with it.\<close>

fun DecodeString :: "string \<Rightarrow> string \<times> goerror option" where
  "DecodeString [] = ([], None)"
| "DecodeString [c] =
     (case fromHexChar c of
        None \<Rightarrow> ([], Some (ErrorString ''encoding/hex: invalid byte''))
      | Some _ \<Rightarrow> ([], Some (ErrVar ''encoding/hex: odd length hex string'')))"
| "DecodeString (c # d # s) =
     (case fromHexChar c of
        None \<Rightarrow> ([], Some (ErrorString ''encoding/hex: invalid byte''))
      | Some a \<Rightarrow>
          (case fromHexChar d of
             None \<Rightarrow> ([], Some (ErrorString ''encoding/hex: invalid byte''))
           | Some b \<Rightarrow> (case DecodeString s of (bs, err) \<Rightarrow> (char_of (a * 16 + b) # bs, err))))"

lemma fromHexChar_hexDigit [simp]: "n < 16 \<Longrightarrow> fromHexChar (hexDigit n) = Some n"
  by (auto simp: fromHexChar_def hexDigit_def Let_def)

lemma fromHexChar_less: "fromHexChar c = Some n \<Longrightarrow> n < 16"
  by (auto simp: fromHexChar_def Let_def split: if_splits)

lemma EncodeToString_simps [simp]:
  "EncodeToString [] = []"
  "EncodeToString (b # bs) =
     hexDigit ((of_char b :: nat) div 16) # hexDigit ((of_char b :: nat) mod 16) # EncodeToString bs"
  by (simp_all add: EncodeToString_def Let_def)

lemma of_char_less_256: "(of_char c :: nat) < 256"
  by simp

lemma DecodeString_EncodeToString: "DecodeString (EncodeToString bs) = (bs, None)"
proof (induction bs)
  case (Cons b bs)
  have "(of_char b :: nat) div 16 < 16" using of_char_less_256 [of b] by linarith
  with Cons show ?case by simp
qed simp

lemma length_EncodeToString [simp]: "length (EncodeToString bs) = 2 * length bs"
  by (induction bs) simp_all

lemma EncodeToString_inj: "EncodeToString a = EncodeToString b \<longleftrightarrow> a = b"
  using DecodeString_EncodeToString by (metis fst_conv)

section \<open>FNV-1a (hash/fnv)\<close>

unbundle bit_operations_syntax

definition fnvOffset64 :: "64 word" where
  "fnvOffset64 = 14695981039346656037"

definition fnvPrime64 :: "64 word" where
  "fnvPrime64 = 1099511628211"

fun fnv64a :: "64 word \<Rightarrow> string \<Rightarrow> 64 word" where
  "fnv64a h [] = h"
| "fnv64a h (b # bs) = fnv64a ((h XOR of_nat (of_char b)) * fnvPrime64) bs"

text \<open>\<open>Sum\<close> appends the hash in big-endian order.\<close>

definition bigEndian64 :: "64 word \<Rightarrow> string" where
  "bigEndian64 w = map (\<lambda>i. char_of (unat (drop_bit (8 * i) w AND 0xFF))) [7, 6, 5, 4, 3, 2, 1, 0]"

lemma length_bigEndian64 [simp]: "length (bigEndian64 w) = 8"
  by (simp add: bigEndian64_def)

section \<open>JSON (encoding/json)\<close>

text \<open>The values found in a decoded manifest. A number carries its text; \<open>JUnsupported\<close> stands for a
  value \<open>json.Marshal\<close> refuses. An object lists its entries in the order a loop visits them.\<close>

datatype JSON = JNull | JBool bool | JNum string | JStr string | JArr "JSON list"
  | JObj "(string \<times> JSON) list" | JUnsupported string

text \<open>Escaping with HTML escaping on, as \<open>Marshal\<close> does; bytes outside ASCII are copied.\<close>

definition jsonChar :: "char \<Rightarrow> string" where
  "jsonChar c =
     (let n = (of_char c :: nat) in
      if n = 34 \<or> n = 92 then [CHR 0x5C, c]
      else if n = 8 then [CHR 0x5C, CHR ''b'']
      else if n = 12 then [CHR 0x5C, CHR ''f'']
      else if n = 10 then [CHR 0x5C, CHR ''n'']
      else if n = 13 then [CHR 0x5C, CHR ''r'']
      else if n = 9 then [CHR 0x5C, CHR ''t'']
      else if n < 32 \<or> c = CHR ''<'' \<or> c = CHR ''>'' \<or> c = CHR ''&''
      then [CHR 0x5C] @ ''u00'' @ EncodeToString [c]
      else [c])"

definition jsonString :: "string \<Rightarrow> string" where
  "jsonString s = CHR 0x22 # concat (map jsonChar s) @ [CHR 0x22]"

definition jsonObject :: "(string \<times> string) list \<Rightarrow> string" where
  "jsonObject kvs =
     ''{'' @ Join (map (\<lambda>(k, v). jsonString k @ '':'' @ v) (sort_key fst kvs)) '','' @ ''}''"

primrec jsonText :: "JSON \<Rightarrow> string" where
  "jsonText JNull = ''null''"
| "jsonText (JBool b) = (if b then ''true'' else ''false'')"
| "jsonText (JNum t) = t"
| "jsonText (JStr s) = jsonString s"
| "jsonText (JArr xs) = ''['' @ Join (map jsonText xs) '','' @ '']''"
| "jsonText (JObj kvs) = jsonObject (map (map_prod id jsonText) kvs)"
| "jsonText (JUnsupported t) = t"

primrec jsonSupported :: "JSON \<Rightarrow> bool" where
  "jsonSupported JNull = True"
| "jsonSupported (JBool b) = True"
| "jsonSupported (JNum t) = True"
| "jsonSupported (JStr s) = True"
| "jsonSupported (JArr xs) = list_all id (map jsonSupported xs)"
| "jsonSupported (JObj kvs) = list_all snd (map (map_prod id jsonSupported) kvs)"
| "jsonSupported (JUnsupported t) = False"

definition json_Marshal :: "JSON \<Rightarrow> goerror + string" where
  "json_Marshal v =
     (if jsonSupported v then Inr (jsonText v) else Inl (ErrorString ''json: unsupported value''))"

text \<open>Sorting by distinct keys forgets the order of the entries.\<close>

lemma sort_key_perm:
  assumes "mset xs = mset ys" and "distinct (map fst xs)"
  shows "sort_key fst xs = sort_key fst (ys :: (string \<times> 'a) list)"
proof (rule sort_key_inj_key_eq)
  show "mset xs = mset (sort_key fst ys)" using assms(1) by simp
  show "inj_on fst (set xs)" using assms(2) by (simp add: distinct_map)
  show "sorted (map fst (sort_key fst ys))" by simp
qed

lemma jsonObject_perm:
  "mset xs = mset ys \<Longrightarrow> distinct (map fst xs) \<Longrightarrow> jsonObject xs = jsonObject ys"
  by (simp add: jsonObject_def sort_key_perm)

lemma json_Marshal_perm:
  assumes "mset xs = mset ys" and "distinct (map fst xs)"
  shows "json_Marshal (JObj xs) = json_Marshal (JObj ys)"
proof -
  have "jsonText (JObj xs) = jsonText (JObj ys)"
    unfolding jsonText.simps
  proof (rule jsonObject_perm)
    show "mset (map (map_prod id jsonText) xs) = mset (map (map_prod id jsonText) ys)"
      using assms(1) by simp
    have "map fst (map (map_prod id jsonText) xs) = map fst xs" by simp
    with assms(2) show "distinct (map fst (map (map_prod id jsonText) xs))" by simp
  qed
  moreover have "set xs = set ys" using assms(1) by (metis set_mset_mset)
  then have "jsonSupported (JObj xs) = jsonSupported (JObj ys)"
    by (simp add: list_all_iff)
  ultimately show ?thesis by (simp add: json_Marshal_def)
qed

end
