(* ===== verification/Kube_Object.thy ===== *)
theory Kube_Object
  imports Kube_Types Encoding
begin

text \<open>
  \<open>operator/pkg/kubernetes/object.go\<close>: reading and writing the version annotation of an
  unstructured object and computing the version, a hash of the object's content. The text of the
  \<open>metadata\<close> field is produced by the object library; its encoder is a parameter.
\<close>

record Unstructured =
  u_APIVersion :: string
  u_Kind :: string
  u_Meta :: ObjectMeta
  u_fields :: "(string \<times> JSON) list"

definition zeroUnstructured :: Unstructured where
  "zeroUnstructured = \<lparr>u_APIVersion = [], u_Kind = [], u_Meta = zeroMeta, u_fields = []\<rparr>"

definition GetAnnotations :: "Unstructured \<Rightarrow> gomap option" where
  "GetAnnotations u = om_Annotations (u_Meta u)"

definition SetAnnotations :: "gomap option \<Rightarrow> Unstructured \<Rightarrow> Unstructured" where
  "SetAnnotations a u = u\<lparr>u_Meta := (u_Meta u)\<lparr>om_Annotations := a\<rparr>\<rparr>"

definition SetOwnerReferences :: "OwnerReference list \<Rightarrow> Unstructured \<Rightarrow> Unstructured" where
  "SetOwnerReferences refs u = u\<lparr>u_Meta := (u_Meta u)\<lparr>om_OwnerReferences := refs\<rparr>\<rparr>"

text \<open>The content map \<open>Object\<close> of an unstructured object.\<close>

type_synonym metaEncoder = "ObjectMeta \<Rightarrow> JSON"

definition Object :: "metaEncoder \<Rightarrow> Unstructured \<Rightarrow> (string \<times> JSON) list" where
  "Object M u = [(''apiVersion'', JStr (u_APIVersion u)), (''kind'', JStr (u_Kind u)),
     (''metadata'', M (u_Meta u))] @ u_fields u"

section \<open>Versions\<close>

definition getVersion :: "Unstructured \<Rightarrow> string \<Rightarrow> string" where
  "getVersion u key =
     (let ann = GetAnnotations u in
      case ann of None \<Rightarrow> [] | Some m \<Rightarrow> mapget m key)"

definition setVersion :: "Unstructured \<Rightarrow> string \<Rightarrow> string \<Rightarrow> Unstructured" where
  "setVersion u key version =
     (let ann = (case GetAnnotations u of None \<Rightarrow> Map.empty | Some m \<Rightarrow> Map.empty ++ m);
          ann = ann(key \<mapsto> version)
      in SetAnnotations (Some ann) u)"

section \<open>Hashing\<close>

definition isMeta :: "string \<Rightarrow> bool" where
  "isMeta name = (if name = ''kind'' then True else if name = ''apiVersion'' then True
     else if name = ''metadata'' then True else False)"

definition metaHash :: "Unstructured option \<Rightarrow> string" where
  "metaHash o' =
     (case o' of
        None \<Rightarrow> ''-''
      | Some u \<Rightarrow>
          (let kind = u_Kind u;
               namespace = om_Namespace (u_Meta u);
               namespace = (if kind = ''ClusterRole'' \<or> kind = ''ClusterRoleBinding'' then [] else namespace)
           in Join [kind, namespace, om_Name (u_Meta u)] '':''))"

definition alphanumeric :: "string option \<Rightarrow> string" where
  "alphanumeric inp =
     (case inp of
        None \<Rightarrow> []
      | Some bs \<Rightarrow> EncodeToString (bigEndian64 (fnv64a fnvOffset64 bs)))"

definition hash :: "metaEncoder \<Rightarrow> Unstructured \<Rightarrow> goerror + string" where
  "hash M u =
     (let forHashing = filter (\<lambda>(field, contents). \<not> isMeta field) (Object M u);
          forHashing = (if length forHashing = 0
                        then [(''no-contents-use-meta'', JStr (metaHash (Some u)))] else forHashing)
      in case json_Marshal (JObj forHashing) of
           Inl err \<Rightarrow> Inl err
         | Inr bytes \<Rightarrow> Inr (alphanumeric (Some bytes)))"

section \<open>Lemmas\<close>

lemma GetAnnotations_Set [simp]: "GetAnnotations (SetAnnotations a u) = a"
  by (simp add: GetAnnotations_def SetAnnotations_def)

lemma GetAnnotations_Owner [simp]: "GetAnnotations (SetOwnerReferences r u) = GetAnnotations u"
  by (simp add: GetAnnotations_def SetOwnerReferences_def)

lemma getVersion_eq: "getVersion u key = nilget (GetAnnotations u) key"
  by (simp add: getVersion_def Let_def nilget_def split: option.splits)

lemma setVersion_eq:
  "setVersion u key v = SetAnnotations (Some ((case GetAnnotations u of None \<Rightarrow> Map.empty | Some m \<Rightarrow> m)(key \<mapsto> v))) u"
  by (simp add: setVersion_def Let_def split: option.splits)

lemma getVersion_setVersion: "getVersion (setVersion u key v) key' = (if key' = key then v else getVersion u key')"
  by (auto simp: getVersion_eq setVersion_eq split: option.splits)

lemma getVersion_Owner [simp]: "getVersion (SetOwnerReferences r u) key = getVersion u key"
  by (simp add: getVersion_eq)

lemma setVersion_setVersion: "setVersion (setVersion u key v) key w = setVersion u key w"
  by (simp add: setVersion_eq) (simp add: SetAnnotations_def)

text \<open>The content of an object without its metadata.\<close>

definition contents :: "Unstructured \<Rightarrow> (string \<times> JSON) list" where
  "contents u = filter (\<lambda>(field, c). \<not> isMeta field) (u_fields u)"

lemma isMeta_simps [simp]:
  "isMeta ''kind''" "isMeta ''apiVersion''" "isMeta ''metadata''"
  by (simp_all add: isMeta_def)

lemma hash_eq:
  "hash M u = (case json_Marshal (JObj (if contents u = []
       then [(''no-contents-use-meta'', JStr (metaHash (Some u)))] else contents u)) of
     Inl err \<Rightarrow> Inl err | Inr bytes \<Rightarrow> Inr (alphanumeric (Some bytes)))"
  by (simp add: hash_def Object_def contents_def Let_def)

lemma hash_meta_only:
  assumes "u_Kind u' = u_Kind u" "om_Name (u_Meta u') = om_Name (u_Meta u)"
    "om_Namespace (u_Meta u') = om_Namespace (u_Meta u)" "u_fields u' = u_fields u"
  shows "hash M' u' = hash M u"
proof -
  have "contents u' = contents u" "metaHash (Some u') = metaHash (Some u)"
    using assms by (simp_all add: contents_def metaHash_def)
  then show ?thesis unfolding hash_eq by simp
qed

lemma hash_setVersion [simp]: "hash M (setVersion u key v) = hash M u"
  by (rule hash_meta_only) (simp_all add: setVersion_eq SetAnnotations_def)

lemma hash_SetOwnerReferences [simp]: "hash M (SetOwnerReferences r u) = hash M u"
  by (rule hash_meta_only) (simp_all add: SetOwnerReferences_def)

text \<open>The version annotation behaves like a cell: writing a version and reading it back under
  the same key gives the version, every other annotation and everything else of the object is
  untouched, the last write wins, and a write does not change the content hash.\<close>

theorem version_roundtrip:
  "getVersion (setVersion u key v) key = v
   \<and> (\<forall>k. k \<noteq> key \<longrightarrow> getVersion (setVersion u key v) k = getVersion u k)
   \<and> setVersion (setVersion u key v) key w = setVersion u key w
   \<and> (\<exists>a. setVersion u key v = SetAnnotations a u)
   \<and> hash M (setVersion u key v) = hash M u"
  by (auto simp: getVersion_setVersion setVersion_setVersion) (auto simp: setVersion_eq)

theorem version_roundtrip_witness:
  "getVersion (setVersion zeroUnstructured ''a'' ''1'') ''b'' = getVersion zeroUnstructured ''b''"
  using version_roundtrip [of zeroUnstructured "''a''" "''1''"] by simp

text \<open>C25. The content hash is a function of the content. Two objects whose top-level fields other
  than \<open>kind\<close>, \<open>apiVersion\<close> and \<open>metadata\<close> are the same set of entries have the same hash, whatever
  their metadata, the encoding of it, and the order in which the map is visited; objects without
  such fields are told apart by kind, namespace and name only, and the namespace of cluster roles
  and their bindings does not count. A hash is always sixteen hexadecimal digits.\<close>

theorem hash_of_content:
  assumes "distinct (map fst (u_fields u))"
    and "mset (u_fields u) = mset (u_fields u')"
    and "contents u = [] \<Longrightarrow> u_Kind u = u_Kind u' \<and> om_Name (u_Meta u) = om_Name (u_Meta u') \<and>
      (u_Kind u \<in> {''ClusterRole'', ''ClusterRoleBinding''} \<or> om_Namespace (u_Meta u) = om_Namespace (u_Meta u'))"
  shows "hash M u = hash M' u' \<and> (\<forall>h. hash M u = Inr h \<longrightarrow> length h = 16)"
proof -
  have c: "mset (contents u) = mset (contents u')"
    unfolding contents_def using assms(2) by (metis mset_filter)
  have d: "distinct (map fst (contents u))"
    unfolding contents_def using assms(1) by (rule distinct_map_filter)
  have "hash M u = hash M' u'"
  proof (cases "contents u = []")
    case True
    then have "contents u' = []" using c by simp
    moreover have "metaHash (Some u) = metaHash (Some u')"
      using assms(3) [OF True] by (auto simp: metaHash_def Let_def)
    ultimately show ?thesis using True unfolding hash_eq by simp
  next
    case False
    then have "contents u' \<noteq> []" using c by auto
    then show ?thesis using False json_Marshal_perm [OF c d] unfolding hash_eq by simp
  qed
  moreover have "length h = 16" if "hash M u = Inr h" for h
    using that by (auto simp: hash_eq alphanumeric_def split: sum.splits)
  ultimately show ?thesis by simp
qed

theorem hash_of_content_witness:
  "hash (\<lambda>m. JStr (om_Name m)) (zeroUnstructured\<lparr>u_fields := [(''spec'', JNum ''1''), (''data'', JNull)]\<rparr>) =
   hash (\<lambda>m. JStr (om_Name m)) (zeroUnstructured\<lparr>u_Meta := zeroMeta\<lparr>om_Name := ''x''\<rparr>, u_fields := [(''data'', JNull), (''spec'', JNum ''1'')]\<rparr>)"
  using hash_of_content [of "zeroUnstructured\<lparr>u_fields := [(''spec'', JNum ''1''), (''data'', JNull)]\<rparr>"
      "zeroUnstructured\<lparr>u_Meta := zeroMeta\<lparr>om_Name := ''x''\<rparr>, u_fields := [(''data'', JNull), (''spec'', JNum ''1'')]\<rparr>"
      "\<lambda>m. JStr (om_Name m)" "\<lambda>m. JStr (om_Name m)"]
  by (simp add: zeroUnstructured_def contents_def isMeta_def)

end
