(* ===== verification/Kube_Template.thy ===== *)
theory Kube_Template
  imports Kube_Object
begin

text \<open>
  \<open>operator/pkg/kubernetes/kubernetes.go\<close>: rendering a manifest template, cleaning the result,
  overlaying one object with another, and collecting errors. The template engine, the YAML and
  JSON codecs of other packages and the JSON merge patch are parameters. The line scanner
  (\<open>bufio.Scanner\<close> with its default limit) is modelled, because what it drops matters.
\<close>

section \<open>ApplyOverlay\<close>

definition ApplyOverlay ::
  "('o \<Rightarrow> goerror + string) \<Rightarrow> (string \<Rightarrow> string \<Rightarrow> goerror + string) \<Rightarrow> (string \<Rightarrow> 'o \<Rightarrow> goerror option \<times> 'o)
   \<Rightarrow> 'o \<Rightarrow> 'o \<Rightarrow> goerror option \<times> 'o" where
  "ApplyOverlay encode mergePatch decodeInto current overlay =
     (case encode current of
        Inl err \<Rightarrow> (Some err, current)
      | Inr cj \<Rightarrow>
          (case encode overlay of
             Inl err \<Rightarrow> (Some err, current)
           | Inr uj \<Rightarrow>
               (case mergePatch cj uj of
                  Inl err \<Rightarrow> (Some err, current)
                | Inr merged \<Rightarrow> decodeInto merged current)))"

section \<open>stripComment and stripCharacters\<close>

text \<open>\<open>bufio.Scanner\<close> over lines: a final empty line is no token, a trailing carriage return is
  dropped, and the scan ends, without an error the caller looks at, at the first line that does
  not fit the buffer.\<close>

definition MaxScanTokenSize :: nat where
  "MaxScanTokenSize = 65536"

definition dropCR :: "string \<Rightarrow> string" where
  "dropCR l = (if l \<noteq> [] \<and> last l = CHR 0x0D then butlast l else l)"

definition rawLines :: "string \<Rightarrow> string list" where
  "rawLines s = (let ls = Split s CHR 0x0A in if last ls = [] then butlast ls else ls)"

definition scanLines :: "string \<Rightarrow> string list" where
  "scanLines s = map dropCR (takeWhile (\<lambda>l. length l < MaxScanTokenSize) (rawLines s))"

definition commentChars :: string where
  "commentChars = ''#''"

text \<open>Cutting a line at the first comment character; a line without one is kept as it is.\<close>

definition cutComment :: "string \<Rightarrow> string" where
  "cutComment l =
     (if list_ex (\<lambda>c. c \<in> set commentChars) l
      then TrimRight (takeWhile (\<lambda>c. c \<notin> set commentChars) l) else l)"

definition stripComment :: "string \<Rightarrow> string" where
  "stripComment source =
     Join (filter (\<lambda>l. TrimSpace l \<noteq> []) (map cutComment (scanLines source))) [CHR 0x0A]"

definition stripCharacters :: "string \<Rightarrow> string" where
  "stripCharacters bb = TrimSpace (stripComment (TrimSpace bb))"

section \<open>Templates\<close>

definition ErrNothingLoaded :: goerror where
  "ErrNothingLoaded = ErrVar ''LoadTemplate: failed load anything from manifests''"

text \<open>Parsing a template with the functions given, and executing it on values.\<close>

type_synonym ('f, 'v) engine = "'f option \<Rightarrow> string \<Rightarrow> goerror + ('v \<Rightarrow> goerror + string)"

definition GenerateManifests :: "('f, 'v) engine \<Rightarrow> string \<Rightarrow> 'v \<Rightarrow> 'f option \<Rightarrow> goerror + string" where
  "GenerateManifests T manifest values funcMap =
     (case T funcMap manifest of
        Inl err \<Rightarrow> Inl err
      | Inr tmpl \<Rightarrow>
          (case tmpl values of
             Inl err \<Rightarrow> Inl err
           | Inr buf \<Rightarrow>
               (let bb = stripCharacters buf in
                if length bb < 1 then Inl ErrNothingLoaded else Inr bb)))"

text \<open>\<open>LoadTemplate\<close> returns the bytes, the error and the object it decoded into.\<close>

definition LoadTemplate ::
  "('f, 'v) engine \<Rightarrow> (string \<Rightarrow> 'o \<Rightarrow> goerror option \<times> 'o) \<Rightarrow> string \<Rightarrow> 'v \<Rightarrow> 'f option \<Rightarrow> 'o
   \<Rightarrow> string \<times> goerror option \<times> 'o" where
  "LoadTemplate T unmarshal manifest values funcMap spec =
     (case GenerateManifests T manifest values funcMap of
        Inl err \<Rightarrow> ([], Some err, spec)
      | Inr bb \<Rightarrow> (case unmarshal bb spec of (err, spec') \<Rightarrow> (bb, err, spec')))"

definition toYAML :: "('a \<Rightarrow> string \<times> goerror option) \<Rightarrow> 'a \<Rightarrow> string" where
  "toYAML marshal v = (case marshal v of (b, err) \<Rightarrow> b)"

section \<open>ErrorCollector\<close>

type_synonym ErrorCollector = "goerror list"

definition Collect :: "ErrorCollector \<Rightarrow> goerror \<Rightarrow> ErrorCollector" where
  "Collect c e = c @ [e]"

fun collectText :: "nat \<Rightarrow> goerror list \<Rightarrow> string" where
  "collectText i [] = []"
| "collectText i (e # es) =
     [CHR 0x09] @ ''Error '' @ utoa i @ '': '' @ Error e @ [CHR 0x0A] @ collectText (Suc i) es"

definition ErrorCollector_Error :: "ErrorCollector \<Rightarrow> goerror option" where
  "ErrorCollector_Error c =
     (if length c < 1 then None
      else Some (ErrorString (''Collected errors:'' @ [CHR 0x0A] @ collectText 0 c)))"

section \<open>Lemmas\<close>

lemma cutComment_no_hash: "CHR ''#'' \<notin> set (cutComment l)"
proof (cases "CHR ''#'' \<in> set l")
  case True
  have "set (TrimRight (takeWhile (\<lambda>c. c \<noteq> CHR ''#'') l)) \<subseteq> set (takeWhile (\<lambda>c. c \<noteq> CHR ''#'') l)"
    unfolding TrimRight_def using set_dropWhileD by fastforce
  moreover have "CHR ''#'' \<notin> set (takeWhile (\<lambda>c. c \<noteq> CHR ''#'') l)" by (auto dest: set_takeWhileD)
  ultimately show ?thesis using True by (auto simp: cutComment_def commentChars_def list_ex_iff)
next
  case False
  then show ?thesis by (auto simp: cutComment_def commentChars_def list_ex_iff)
qed

lemma set_cutComment: "set (cutComment l) \<subseteq> set l"
proof -
  have "set (TrimRight (takeWhile P l)) \<subseteq> set l" for P
    by (meson set_TrimRight set_takeWhileD subset_trans subsetI)
  then show ?thesis by (simp add: cutComment_def)
qed

lemma scanLines_no_newline: "l \<in> set (scanLines s) \<Longrightarrow> CHR 0x0A \<notin> set l"
proof -
  assume "l \<in> set (scanLines s)"
  then obtain l' where l': "l' \<in> set (rawLines s)" "l = dropCR l'"
    by (auto simp: scanLines_def dest: set_takeWhileD)
  then have "l' \<in> set (Split s CHR 0x0A)"
    by (auto simp: rawLines_def Let_def split: if_splits dest: in_set_butlastD)
  then have "CHR 0x0A \<notin> set l'" by (rule Split_no_sep)
  then show ?thesis using l'(2) by (auto simp: dropCR_def dest: in_set_butlastD)
qed

text \<open>The lines of a cleaned manifest.\<close>

definition cleanLines :: "string \<Rightarrow> string list" where
  "cleanLines s = filter (\<lambda>l. TrimSpace l \<noteq> []) (map cutComment (scanLines s))"

lemma cleanLines_props:
  assumes "l \<in> set (cleanLines s)"
  shows "TrimSpace l \<noteq> []" "CHR ''#'' \<notin> set l" "CHR 0x0A \<notin> set l"
  using assms scanLines_no_newline set_cutComment cutComment_no_hash
  by (auto simp: cleanLines_def)

lemma stripComment_eq: "stripComment s = Join (cleanLines s) [CHR 0x0A]"
  by (simp add: stripComment_def cleanLines_def)

lemma Split_stripComment: "cleanLines s \<noteq> [] \<Longrightarrow> Split (stripComment s) CHR 0x0A = cleanLines s"
  unfolding stripComment_eq using cleanLines_props(3) by (intro Split_Join) auto

lemma stripComment_no_hash: "CHR ''#'' \<notin> set (stripComment s)"
  unfolding stripComment_eq using cleanLines_props(2) set_Join [of "cleanLines s" "[CHR 0x0A]"] by fastforce

text \<open>A rendered template is cleaned before it is used: what \<open>GenerateManifests\<close> returns is never
  empty, has no surrounding white space and contains no comment character, and a template that
  renders to nothing but white space and comments is reported as \<open>ErrNothingLoaded\<close>.\<close>

theorem GenerateManifests_clean:
  "(\<forall>bb. GenerateManifests T manifest values funcMap = Inr bb \<longrightarrow>
      bb \<noteq> [] \<and> CHR ''#'' \<notin> set bb \<and> TrimSpace bb = bb)
   \<and> (\<forall>tmpl buf. T funcMap manifest = Inr tmpl \<and> tmpl values = Inr buf \<and> cleanLines (TrimSpace buf) = [] \<longrightarrow>
        GenerateManifests T manifest values funcMap = Inl ErrNothingLoaded)"
proof -
  have "CHR ''#'' \<notin> set (stripCharacters buf)" for buf
    unfolding stripCharacters_def using stripComment_no_hash set_TrimSpace by blast
  moreover have "TrimSpace (stripCharacters buf) = stripCharacters buf" for buf
    by (simp add: stripCharacters_def)
  moreover have "stripCharacters buf = []" if "cleanLines (TrimSpace buf) = []" for buf
    using that by (simp add: stripCharacters_def stripComment_eq TrimSpace_def TrimRight_def)
  ultimately show ?thesis
    by (auto simp: GenerateManifests_def Let_def split: sum.splits if_splits)
qed

theorem GenerateManifests_clean_witness:
  "GenerateManifests (\<lambda>f m. Inr (\<lambda>v. Inr m)) ''  # nothing here'' () (None :: unit option) = Inl ErrNothingLoaded"
proof -
  have "TrimSpace ''  # nothing here'' = ''# nothing here''"
    by (simp add: TrimSpace_def TrimRight_def isSpace_def)
  moreover have "cleanLines ''# nothing here'' = []"
    by (simp add: cleanLines_def scanLines_def rawLines_def MaxScanTokenSize_def dropCR_def cutComment_def
        commentChars_def TrimRight_def TrimSpace_def)
  ultimately show ?thesis
    using GenerateManifests_clean [of "\<lambda>f m. Inr (\<lambda>v. Inr m)" "''  # nothing here''" "()" "None :: unit option"]
    by simp
qed



section \<open>Collected errors\<close>

lemma collect_all: "foldl Collect c es = c @ es"
  by (induction es arbitrary: c) (simp_all add: Collect_def)

text \<open>The error of a collector is nil exactly when nothing was collected; otherwise it is a
  plain error that starts with the header and contains the text of every collected error, and
  it carries no API reason, so that no caller can recognise a conflict in it.\<close>

theorem ErrorCollector_spec:
  "(ErrorCollector_Error (foldl Collect [] es) = None \<longleftrightarrow> es = [])
   \<and> (\<forall>err. ErrorCollector_Error (foldl Collect [] es) = Some err \<longrightarrow>
        ReasonForError err = OtherReason \<and> \<not> IsConflict err
        \<and> HasPrefix (Error err) ''Collected errors:''
        \<and> (\<forall>e \<in> set es. \<exists>pre post. Error err = pre @ Error e @ [CHR 0x0A] @ post))"
proof -
  have sub: "\<exists>pre post. collectText i es = pre @ Error e @ [CHR 0x0A] @ post" if "e \<in> set es" for e i
    using that
  proof (induction es arbitrary: i)
    case (Cons e1 es)
    show ?case
    proof (cases "e = e1")
      case True
      then have "collectText i (e1 # es) = ([CHR 0x09] @ ''Error '' @ utoa i @ '': '') @ Error e @ [CHR 0x0A] @ collectText (Suc i) es"
        by simp
      then show ?thesis by blast
    next
      case False
      then have "e \<in> set es" using Cons.prems by simp
      then obtain pre post where "collectText (Suc i) es = pre @ Error e @ [CHR 0x0A] @ post"
        using Cons.IH by blast
      then have "collectText i (e1 # es) = ([CHR 0x09] @ ''Error '' @ utoa i @ '': '' @ Error e1 @ [CHR 0x0A] @ pre)
          @ Error e @ [CHR 0x0A] @ post" by simp
      then show ?thesis by blast
    qed
  qed simp
  have "\<exists>pre post. (''Collected errors:'' @ [CHR 0x0A] @ collectText 0 es) = pre @ Error e @ [CHR 0x0A] @ post"
    if "e \<in> set es" for e
    using sub [OF that, of 0] by (metis append.assoc)
  then show ?thesis
    by (simp add: ErrorCollector_Error_def collect_all IsConflict_def HasPrefix_def)
qed

theorem ErrorCollector_spec_witness:
  "\<exists>err. ErrorCollector_Error (foldl Collect [] [StatusError Conflict ''busy'']) = Some err \<and> \<not> IsConflict err"
  using ErrorCollector_spec [of "[StatusError Conflict ''busy'']"] by auto

end
