(* ===== verification/Kube_Apply.thy ===== *)
theory Kube_Apply
  imports Kube_Template
begin

text \<open>
  \<open>operator/pkg/kubernetes/apply.go\<close>: bringing one manifest, one object or a list of manifests to
  the API server. The server is a client over a state of its own; every call that can change it
  returns the new state. An \<open>Application\<close> bundles the client, the owning custom resource, the
  template repository and engine and the event recorder.
\<close>

section \<open>The client and the application\<close>

record 'w Client =
  cl_Get :: "string \<Rightarrow> string \<Rightarrow> ObjectKey \<Rightarrow> 'w \<Rightarrow> goerror + Unstructured"
  cl_Create :: "Unstructured \<Rightarrow> 'w \<Rightarrow> goerror option \<times> 'w"
  cl_Update :: "Unstructured \<Rightarrow> 'w \<Rightarrow> goerror option \<times> 'w"

record ('w, 'f, 'v) Application =
  app_Client :: "'w Client"
  app_CR :: 'v
  app_CRMeta :: ObjectMeta
  app_FileRepo :: "string \<Rightarrow> goerror + string"
  app_GVK :: GroupVersionKind
  app_TmplFunc :: "'f option"
  app_Recorder :: "string \<Rightarrow> string \<Rightarrow> string \<Rightarrow> 'w \<Rightarrow> 'w"
  app_engine :: "('f, 'v) engine"
  app_yaml :: "string \<Rightarrow> Unstructured \<Rightarrow> goerror option \<times> Unstructured"
  app_metaEncoder :: metaEncoder

definition ObjectKeyFromObject :: "Unstructured \<Rightarrow> ObjectKey" where
  "ObjectKeyFromObject u = \<lparr>ok_Namespace = om_Namespace (u_Meta u), ok_Name = om_Name (u_Meta u)\<rparr>"

definition keyText :: "ObjectKey \<Rightarrow> string" where
  "keyText k = ok_Namespace k @ ''/'' @ ok_Name k"

text \<open>\<open>metav1.NewControllerRef\<close> for the owning custom resource.\<close>

definition NewControllerRef :: "ObjectMeta \<Rightarrow> GroupVersionKind \<Rightarrow> OwnerReference" where
  "NewControllerRef cr gvk =
     \<lparr>or_APIVersion = (if 0 < length (gvk_Group gvk) then gvk_Group gvk @ ''/'' @ gvk_Version gvk
                       else gvk_Version gvk),
      or_Kind = gvk_Kind gvk, or_Name = om_Name cr, or_UID = om_UID cr,
      or_Controller = Some True, or_BlockOwnerDeletion = Some True\<rparr>"

section \<open>Composing an object\<close>

definition versionKey :: "('w, 'f, 'v) Application \<Rightarrow> string" where
  "versionKey a = gvk_Group (app_GVK a) @ ''/version''"

definition setVersionAnnotation ::
  "('w, 'f, 'v) Application \<Rightarrow> Unstructured \<Rightarrow> goerror option \<times> Unstructured" where
  "setVersionAnnotation a u =
     (case hash (app_metaEncoder a) u of
        Inl err \<Rightarrow> (Some err, u)
      | Inr h \<Rightarrow> (None, setVersion u (versionKey a) h))"

definition compose :: "('w, 'f, 'v) Application \<Rightarrow> Unstructured \<Rightarrow> goerror + Unstructured" where
  "compose a u =
     (let u = SetOwnerReferences [NewControllerRef (app_CRMeta a) (app_GVK a)] u
      in case setVersionAnnotation a u of
           (Some err, _) \<Rightarrow> Inl err
         | (None, u) \<Rightarrow> Inr u)"

section \<open>Applying\<close>

type_synonym outcome = "bool \<times> goerror option"

definition apply_create ::
  "('w, 'f, 'v) Application \<Rightarrow> Unstructured \<Rightarrow> bool \<Rightarrow> 'w \<Rightarrow> outcome \<times> 'w" where
  "apply_create a obj needCompose w =
     (case (if needCompose then compose a obj else Inr obj) of
        Inl errComp \<Rightarrow> ((False, Some (WrapError ''failed to compose: '' errComp [])), w)
      | Inr obj \<Rightarrow>
          (case cl_Create (app_Client a) obj w of
             (Some err, w) \<Rightarrow> ((False, Some (WrapError ''failed to create: '' err [])), w)
           | (None, w) \<Rightarrow> ((True, None), w)))"

definition apply_update ::
  "('w, 'f, 'v) Application \<Rightarrow> Unstructured \<Rightarrow> Unstructured \<Rightarrow> bool \<Rightarrow> 'w \<Rightarrow> outcome \<times> 'w" where
  "apply_update a current obj needCompose w =
     (case (if needCompose then compose a obj else Inr obj) of
        Inl err \<Rightarrow> ((False, Some (WrapError ''failed to compose: '' err [])), w)
      | Inr obj \<Rightarrow>
          (if getVersion current (versionKey a) = getVersion obj (versionKey a) then ((False, None), w)
           else (case cl_Update (app_Client a) obj w of
                   (Some err, w) \<Rightarrow> ((False, Some (WrapError ''failed to update: '' err [])), w)
                 | (None, w) \<Rightarrow> ((True, None), w))))"

definition apply_obj ::
  "('w, 'f, 'v) Application \<Rightarrow> Unstructured \<Rightarrow> bool \<Rightarrow> 'w \<Rightarrow> outcome \<times> 'w" where
  "apply_obj a obj needCompose w =
     (let key = ObjectKeyFromObject obj
      in case cl_Get (app_Client a) (u_APIVersion obj) (u_Kind obj) key w of
           Inl err \<Rightarrow>
             if IsNotFound err then apply_create a obj needCompose w
             else ((False, Some (WrapError (''failed to get '' @ keyText key @ '' : '') err [])), w)
         | Inr current \<Rightarrow> apply_update a current obj needCompose w)"

definition Apply ::
  "('w, 'f, 'v) Application \<Rightarrow> string \<Rightarrow> bool \<Rightarrow> 'w \<Rightarrow> outcome \<times> 'w" where
  "Apply a manifest needCompose w =
     (case app_FileRepo a manifest of
        Inl err \<Rightarrow> ((False, Some err), w)
      | Inr manifests \<Rightarrow>
          (case LoadTemplate (app_engine a) (app_yaml a) manifests (app_CR a) (app_TmplFunc a) zeroUnstructured of
             (yaml, err, proto) \<Rightarrow>
               if err = Some ErrNothingLoaded then ((False, None), w)
               else (case err of
                   Some e \<Rightarrow> ((False, Some (WrapError (''failed to load '' @ manifest @ '' template: '') e
                                        ('' yaml: '' @ yaml))), w)
                 | None \<Rightarrow> apply_obj a proto needCompose w)))"

text \<open>The converter from typed to unstructured objects is a parameter.\<close>

definition ApplyFromObject ::
  "('w, 'f, 'v) Application \<Rightarrow> ('o \<Rightarrow> goerror + Unstructured) \<Rightarrow> 'o \<Rightarrow> bool \<Rightarrow> 'w \<Rightarrow> outcome \<times> 'w" where
  "ApplyFromObject a toUnstructured obj needCompose w =
     (case toUnstructured obj of
        Inl err \<Rightarrow> ((False, Some (ErrorString (''failed to convert object to unstructed: '' @ Error err))), w)
      | Inr proto \<Rightarrow> apply_obj a proto needCompose w)"

definition fmtStrings :: "string list \<Rightarrow> string" where
  "fmtStrings xs = ''['' @ Join xs '' '' @ '']''"

fun applyLoop ::
  "('w, 'f, 'v) Application \<Rightarrow> string list \<Rightarrow> string list \<Rightarrow> 'w \<Rightarrow> goerror option \<times> 'w" where
  "applyLoop a [] changedFf w =
     (if 0 < length changedFf
      then (None, app_Recorder a ''Normal'' ''Applied'' (''resources: '' @ fmtStrings changedFf) w)
      else (None, w))"
| "applyLoop a (f # fs) changedFf w =
     (case Apply a f True w of
        ((changed, Some err), w) \<Rightarrow>
          (Some err, app_Recorder a ''Warning'' ''FailedApply'' (''encountered err: '' @ Error err) w)
      | ((changed, None), w) \<Rightarrow> applyLoop a fs (if changed then changedFf @ [f] else changedFf) w)"

definition ApplyAll :: "('w, 'f, 'v) Application \<Rightarrow> string list \<Rightarrow> 'w \<Rightarrow> goerror option \<times> 'w" where
  "ApplyAll a manifestFiles w = applyLoop a manifestFiles [] w"

section \<open>Composition\<close>

lemma compose_eq:
  "compose a u = (case hash (app_metaEncoder a) u of Inl err \<Rightarrow> Inl err
     | Inr h \<Rightarrow> Inr (setVersion (SetOwnerReferences [NewControllerRef (app_CRMeta a) (app_GVK a)] u) (versionKey a) h))"
  by (simp add: compose_def setVersionAnnotation_def Let_def split: sum.splits)

lemma SetOwnerReferences_setVersion:
  "SetOwnerReferences r (setVersion (SetOwnerReferences r' u) key v) = setVersion (SetOwnerReferences r u) key v"
  by (simp add: setVersion_eq SetOwnerReferences_def SetAnnotations_def GetAnnotations_def)

lemma compose_version:
  "compose a u = Inr u' \<Longrightarrow> hash (app_metaEncoder a) u = Inr (getVersion u' (versionKey a))"
  by (auto simp: compose_eq getVersion_setVersion split: sum.splits)

lemma compose_identity:
  assumes "compose a u = Inr u'"
  shows "u_Kind u' = u_Kind u" "u_APIVersion u' = u_APIVersion u" "ObjectKeyFromObject u' = ObjectKeyFromObject u"
    "u_fields u' = u_fields u"
  using assms
  by (auto simp: compose_eq setVersion_eq SetAnnotations_def SetOwnerReferences_def ObjectKeyFromObject_def
      split: sum.splits)

text \<open>Composition sets exactly the controller as owner and the content hash as version and is
  idempotent: composing a composed object gives it back unchanged.\<close>

theorem compose_idempotent:
  assumes "compose a u = Inr u'"
  shows "compose a u' = Inr u'
    \<and> om_OwnerReferences (u_Meta u') = [NewControllerRef (app_CRMeta a) (app_GVK a)]
    \<and> hash (app_metaEncoder a) u = Inr (getVersion u' (versionKey a))
    \<and> hash (app_metaEncoder a) u' = Inr (getVersion u' (versionKey a))"
proof -
  from assms obtain h where h: "hash (app_metaEncoder a) u = Inr h"
    and u': "u' = setVersion (SetOwnerReferences [NewControllerRef (app_CRMeta a) (app_GVK a)] u) (versionKey a) h"
    by (auto simp: compose_eq split: sum.splits)
  have own: "om_OwnerReferences (u_Meta (setVersion (SetOwnerReferences r u) k v)) = r" for r k v
    by (simp add: setVersion_eq SetAnnotations_def SetOwnerReferences_def)
  show ?thesis
    by (simp add: compose_eq u' h SetOwnerReferences_setVersion setVersion_setVersion getVersion_setVersion own)
qed

section \<open>What one application does\<close>

text \<open>What identifies an object on the server, and reading it there.\<close>

type_synonym ident = "string \<times> string \<times> ObjectKey"

definition ident :: "Unstructured \<Rightarrow> ident" where
  "ident u = (u_APIVersion u, u_Kind u, ObjectKeyFromObject u)"

definition stored :: "('w, 'f, 'v) Application \<Rightarrow> ident \<Rightarrow> 'w \<Rightarrow> goerror + Unstructured" where
  "stored a i w = (case i of (v, k, key) \<Rightarrow> cl_Get (app_Client a) v k key w)"

definition prepared :: "('w, 'f, 'v) Application \<Rightarrow> bool \<Rightarrow> Unstructured \<Rightarrow> goerror + Unstructured" where
  "prepared a needCompose u = (if needCompose then compose a u else Inr u)"

lemma prepared_ident: "prepared a c u = Inr u' \<Longrightarrow> ident u' = ident u"
  by (auto simp: prepared_def ident_def compose_identity split: if_splits)

lemma apply_obj_stored:
  "apply_obj a u c w =
     (case stored a (ident u) w of
        Inl err \<Rightarrow> if IsNotFound err then apply_create a u c w
          else ((False, Some (WrapError (''failed to get '' @ keyText (ObjectKeyFromObject u) @ '' : '') err [])), w)
      | Inr cur \<Rightarrow> apply_update a cur u c w)"
  by (simp add: apply_obj_def stored_def ident_def Let_def)

lemma apply_obj_cases:
  assumes "apply_obj a u c w = ((changed, err), w')"
  shows "(err \<noteq> None \<longrightarrow> \<not> changed)
    \<and> (changed \<longrightarrow> (\<exists>u'. prepared a c u = Inr u' \<and>
         (cl_Create (app_Client a) u' w = (None, w') \<and> (\<exists>e. stored a (ident u) w = Inl e \<and> IsNotFound e)
          \<or> cl_Update (app_Client a) u' w = (None, w') \<and>
            (\<exists>cur. stored a (ident u) w = Inr cur \<and> getVersion cur (versionKey a) \<noteq> getVersion u' (versionKey a)))))
    \<and> (\<not> changed \<and> err = None \<longrightarrow> w' = w \<and> (\<exists>cur u'. stored a (ident u) w = Inr cur \<and> prepared a c u = Inr u'
         \<and> getVersion cur (versionKey a) = getVersion u' (versionKey a)))"
proof (cases "stored a (ident u) w")
  case (Inl e)
  then show ?thesis using assms
    by (auto simp: apply_obj_stored apply_create_def prepared_def [symmetric] split: if_splits sum.splits
        prod.splits option.splits)
next
  case (Inr cur)
  then show ?thesis using assms
    by (auto simp: apply_obj_stored apply_update_def prepared_def [symmetric] split: if_splits sum.splits
        prod.splits option.splits)
qed

text \<open>C8. One application of an object changes the server through at most one call: it reports a
  change exactly when it created the prepared object that the server did not have, or updated one
  whose version differs; it reports neither change nor error only when the stored version equals
  the wanted one, and then the server is untouched; an error never comes with a reported change.\<close>

theorem apply_outcomes:
  assumes "apply_obj a u needCompose w = ((changed, err), w')"
  shows "(err \<noteq> None \<longrightarrow> \<not> changed)
    \<and> (changed \<longrightarrow> (\<exists>u'. prepared a needCompose u = Inr u' \<and>
         (cl_Create (app_Client a) u' w = (None, w') \<and> (\<exists>e. stored a (ident u) w = Inl e \<and> IsNotFound e)
          \<or> cl_Update (app_Client a) u' w = (None, w') \<and>
            (\<exists>cur. stored a (ident u) w = Inr cur \<and> getVersion cur (versionKey a) \<noteq> getVersion u' (versionKey a)))))
    \<and> (\<not> changed \<and> err = None \<longrightarrow> w' = w \<and> (\<exists>cur u'. stored a (ident u) w = Inr cur
         \<and> prepared a needCompose u = Inr u' \<and> getVersion cur (versionKey a) = getVersion u' (versionKey a)))"
  using apply_obj_cases [OF assms] .

section \<open>Convergence\<close>

text \<open>What is relied on of the API server: an object that was created or updated is found
  afterwards with the version it was sent with, other objects are as before, and recording an
  event changes no object.\<close>

definition honestServer :: "('w, 'f, 'v) Application \<Rightarrow> bool" where
  "honestServer a \<longleftrightarrow>
     (\<forall>u w w'. (cl_Create (app_Client a) u w = (None, w') \<or> cl_Update (app_Client a) u w = (None, w')) \<longrightarrow>
        (\<exists>cur. stored a (ident u) w' = Inr cur \<and> getVersion cur (versionKey a) = getVersion u (versionKey a))
        \<and> (\<forall>i. i \<noteq> ident u \<longrightarrow> stored a i w' = stored a i w))
     \<and> (\<forall>t r n w i. stored a i (app_Recorder a t r n w) = stored a i w)"

text \<open>The object a manifest loads, when it loads one.\<close>

definition loaded :: "('w, 'f, 'v) Application \<Rightarrow> string \<Rightarrow> string \<times> goerror option \<times> Unstructured" where
  "loaded a f = (case app_FileRepo a f of
      Inl err \<Rightarrow> ([], Some err, zeroUnstructured)
    | Inr m \<Rightarrow> LoadTemplate (app_engine a) (app_yaml a) m (app_CR a) (app_TmplFunc a) zeroUnstructured)"

definition objectOf :: "('w, 'f, 'v) Application \<Rightarrow> string \<Rightarrow> Unstructured option" where
  "objectOf a f = (case loaded a f of (y, None, u) \<Rightarrow> Some u | (y, Some e, u) \<Rightarrow> None)"

lemma Apply_object: "objectOf a f = Some u \<Longrightarrow> Apply a f c w = apply_obj a u c w"
  by (auto simp: objectOf_def loaded_def Apply_def split: sum.splits prod.splits option.splits)

lemma Apply_no_object:
  assumes "objectOf a f = None"
  shows "\<exists>err. \<forall>w. Apply a f c w = ((False, err), w)"
proof (cases "app_FileRepo a f")
  case (Inr m)
  obtain y err u where l: "LoadTemplate (app_engine a) (app_yaml a) m (app_CR a) (app_TmplFunc a) zeroUnstructured = (y, err, u)"
    by (metis prod_cases3)
  then show ?thesis using assms Inr by (auto simp: objectOf_def loaded_def Apply_def split: option.splits)
qed (simp add: Apply_def)

definition settled :: "('w, 'f, 'v) Application \<Rightarrow> string \<Rightarrow> 'w \<Rightarrow> bool" where
  "settled a f w \<longleftrightarrow> Apply a f True w = ((False, None), w)"

lemma settled_iff:
  "objectOf a f = Some u \<Longrightarrow> settled a f w \<longleftrightarrow>
     (\<exists>cur u'. stored a (ident u) w = Inr cur \<and> compose a u = Inr u' \<and>
        getVersion cur (versionKey a) = getVersion u' (versionKey a))"
  using apply_obj_cases [of a u True w False None w]
  by (auto simp: settled_def Apply_object prepared_def apply_obj_stored apply_update_def)

lemma settled_stored:
  assumes "objectOf a f = Some u" and "stored a (ident u) w' = stored a (ident u) w" and "settled a f w"
  shows "settled a f w'"
  using assms settled_iff [OF assms(1)] by metis

lemma Apply_settles:
  assumes "honestServer a" and ok: "Apply a f True w = ((c, None), w')"
  shows "settled a f w'"
proof (cases "objectOf a f")
  case None
  then show ?thesis using Apply_no_object [OF None, of True] ok by (auto simp: settled_def)
next
  case (Some u)
  note cs = apply_obj_cases [OF ok [unfolded Apply_object [OF Some]]]
  show ?thesis
  proof (cases c)
    case True
    then obtain u' where u': "compose a u = Inr u'"
      and call: "cl_Create (app_Client a) u' w = (None, w') \<or> cl_Update (app_Client a) u' w = (None, w')"
      using cs by (auto simp: prepared_def)
    have "ident u' = ident u" using u' prepared_ident [of a True u u'] by (simp add: prepared_def)
    then obtain cur where "stored a (ident u) w' = Inr cur"
      "getVersion cur (versionKey a) = getVersion u' (versionKey a)"
      using assms(1) call unfolding honestServer_def by metis
    then show ?thesis using u' settled_iff [OF Some] by blast
  next
    case False
    then show ?thesis using cs settled_iff [OF Some] by (auto simp: prepared_def)
  qed
qed

lemma Apply_others:
  assumes "honestServer a" and ok: "Apply a f True w = ((c, None), w')"
    and "\<And>u. objectOf a f = Some u \<Longrightarrow> i \<noteq> ident u"
  shows "stored a i w' = stored a i w"
proof (cases "objectOf a f")
  case None
  then show ?thesis using Apply_no_object [OF None, of True] ok by auto
next
  case (Some u)
  note cs = apply_obj_cases [OF ok [unfolded Apply_object [OF Some]]]
  show ?thesis
  proof (cases c)
    case True
    then obtain u' where u': "compose a u = Inr u'"
      and call: "cl_Create (app_Client a) u' w = (None, w') \<or> cl_Update (app_Client a) u' w = (None, w')"
      using cs by (auto simp: prepared_def)
    have "ident u' = ident u" using u' prepared_ident [of a True u u'] by (simp add: prepared_def)
    then show ?thesis using assms(1,3) call Some unfolding honestServer_def by metis
  next
    case False
    then show ?thesis using cs by simp
  qed
qed

text \<open>Manifests that address different objects.\<close>

definition separate :: "('w, 'f, 'v) Application \<Rightarrow> string list \<Rightarrow> bool" where
  "separate a fs \<longleftrightarrow> distinct fs \<and> (\<forall>f \<in> set fs. \<forall>g \<in> set fs. \<forall>u v. f \<noteq> g \<longrightarrow>
     objectOf a f = Some u \<longrightarrow> objectOf a g = Some v \<longrightarrow> ident u \<noteq> ident v)"

lemma separateD:
  "separate a fs \<Longrightarrow> f \<in> set fs \<Longrightarrow> g \<in> set fs \<Longrightarrow> f \<noteq> g \<Longrightarrow> objectOf a f = Some u \<Longrightarrow> objectOf a g = Some v
   \<Longrightarrow> ident u \<noteq> ident v"
  unfolding separate_def by blast

lemma settled_other:
  assumes "honestServer a" and "Apply a g True w = ((c, None), w')" and "settled a f w"
    and "\<And>u v. objectOf a f = Some u \<Longrightarrow> objectOf a g = Some v \<Longrightarrow> ident u \<noteq> ident v"
  shows "settled a f w'"
proof (cases "objectOf a f")
  case None
  then show ?thesis using Apply_no_object [OF None, of True] assms(3) by (auto simp: settled_def)
next
  case (Some u)
  then show ?thesis
    using settled_stored [OF Some Apply_others [OF assms(1,2)] assms(3)] assms(4) by blast
qed

lemma settled_event: "honestServer a \<Longrightarrow> settled a f w \<Longrightarrow> settled a f (app_Recorder a t r n w)"
proof (cases "objectOf a f")
  case None
  assume "settled a f w"
  then show ?thesis using Apply_no_object [OF None, of True] by (auto simp: settled_def)
next
  case (Some u)
  assume "honestServer a" "settled a f w"
  then show ?thesis using settled_stored [OF Some] unfolding honestServer_def by blast
qed

lemma applyLoop_settles:
  assumes "honestServer a" and "separate a (done @ fs)" and "\<forall>f \<in> set done. settled a f w"
    and "applyLoop a fs ch w = (None, w')"
  shows "\<forall>f \<in> set (done @ fs). settled a f w'"
  using assms(2-4)
proof (induction fs arbitrary: "done" ch w)
  case Nil
  then show ?case using settled_event [OF assms(1)] by (auto split: if_splits)
next
  case (Cons f fs)
  obtain c w1 where f: "Apply a f True w = ((c, None), w1)"
    and rest: "applyLoop a fs (if c then ch @ [f] else ch) w1 = (None, w')"
    using Cons.prems(3) by (auto split: prod.splits option.splits)
  have "\<forall>g \<in> set done. settled a g w1"
  proof
    fix g assume g: "g \<in> set done"
    then have "g \<noteq> f" using Cons.prems(1) by (auto simp: separate_def)
    show "settled a g w1"
    proof (rule settled_other [OF assms(1) f])
      show "settled a g w" using g Cons.prems(2) by blast
      show "ident u \<noteq> ident v" if "objectOf a g = Some u" "objectOf a f = Some v" for u v
        using separateD [OF Cons.prems(1) _ _ \<open>g \<noteq> f\<close> that] g by simp
    qed
  qed
  moreover have "settled a f w1" by (rule Apply_settles [OF assms(1) f])
  ultimately show ?case
    using Cons.IH [of "done @ [f]" w1] Cons.prems(1) rest by auto
qed

lemma applyLoop_settled: "\<forall>f \<in> set fs. settled a f w \<Longrightarrow> applyLoop a fs [] w = (None, w)"
  by (induction fs) (auto simp: settled_def)

text \<open>C5. Convergence. On a server that keeps what it is sent, once all manifests of a component,
  addressing different objects, have been applied, applying them again changes nothing: no object
  is touched, no event is recorded, no error occurs.\<close>

theorem ApplyAll_converges:
  assumes "honestServer a" and "separate a fs" and "ApplyAll a fs w = (None, w')"
  shows "ApplyAll a fs w' = (None, w')"
  using applyLoop_settles [of a "[]" fs w "[]" w'] applyLoop_settled [of fs a w'] assms
  by (simp add: ApplyAll_def)

section \<open>Refinement of a map of versions\<close>

text \<open>What the application of manifests is about: which version of which object the server holds. One
  manifest sets the version of its object to the hash of its content, a list of manifests does so
  one after the other.\<close>

definition serverVersions :: "('w, 'f, 'v) Application \<Rightarrow> 'w \<Rightarrow> ident \<rightharpoonup> string" where
  "serverVersions a w i = (case stored a i w of Inl err \<Rightarrow> None | Inr cur \<Rightarrow> Some (getVersion cur (versionKey a)))"

definition wantedVersion :: "('w, 'f, 'v) Application \<Rightarrow> string \<Rightarrow> ident \<rightharpoonup> string" where
  "wantedVersion a f = (case objectOf a f of
      None \<Rightarrow> Map.empty
    | Some u \<Rightarrow> (case hash (app_metaEncoder a) u of Inl err \<Rightarrow> Map.empty | Inr h \<Rightarrow> [ident u \<mapsto> h]))"

fun desiredVersions :: "('w, 'f, 'v) Application \<Rightarrow> string list \<Rightarrow> (ident \<rightharpoonup> string) \<Rightarrow> (ident \<rightharpoonup> string)" where
  "desiredVersions a [] m = m"
| "desiredVersions a (f # fs) m = desiredVersions a fs (m ++ wantedVersion a f)"

lemma Apply_refines:
  assumes "honestServer a" and ok: "Apply a f True w = ((c, None), w')"
  shows "serverVersions a w' = serverVersions a w ++ wantedVersion a f"
proof (cases "objectOf a f")
  case None
  then have "w' = w" using Apply_no_object [OF None, of True] ok by auto
  then show ?thesis by (simp add: wantedVersion_def None)
next
  case (Some u)
  obtain cur u' where cur: "stored a (ident u) w' = Inr cur" and u': "compose a u = Inr u'"
    and v: "getVersion cur (versionKey a) = getVersion u' (versionKey a)"
    using Apply_settles [OF assms] settled_iff [OF Some] by blast
  have wantedVersion: "wantedVersion a f = [ident u \<mapsto> getVersion cur (versionKey a)]"
    by (simp add: wantedVersion_def Some compose_version [OF u'] v)
  have others: "stored a i w' = stored a i w" if "i \<noteq> ident u" for i
    by (rule Apply_others [OF assms]) (use that Some in simp)
  show ?thesis
  proof
    fix i show "serverVersions a w' i = (serverVersions a w ++ wantedVersion a f) i"
      using cur others [of i] by (cases "i = ident u") (simp_all add: serverVersions_def wantedVersion)
  qed
qed

lemma applyLoop_refines:
  assumes "honestServer a"
  shows "applyLoop a fs ch w = (None, w') \<Longrightarrow> serverVersions a w' = desiredVersions a fs (serverVersions a w)"
proof (induction fs arbitrary: ch w)
  case Nil
  then show ?case using assms by (auto simp: serverVersions_def honestServer_def split: if_splits)
next
  case (Cons f fs)
  obtain c w1 where f: "Apply a f True w = ((c, None), w1)"
    and rest: "applyLoop a fs (if c then ch @ [f] else ch) w1 = (None, w')"
    using Cons.prems by (auto split: prod.splits option.splits)
  show ?case using Cons.IH [OF rest] by (simp add: Apply_refines [OF assms f])
qed

text \<open>C6. Applying manifests implements its specification. Seen through the versions of the objects on
  the server, a successful run does exactly what the list of manifests asks for: each manifest's
  object ends with the hash of its content as version, later manifests for the same object win,
  and every other object keeps the version, or the absence, it had.\<close>

theorem ApplyAll_refines:
  assumes "honestServer a" and "ApplyAll a fs w = (None, w')"
  shows "serverVersions a w' = desiredVersions a fs (serverVersions a w)"
  using applyLoop_refines [OF assms(1)] assms(2) by (simp add: ApplyAll_def)

text \<open>A server that is a map from identities to objects, and manifests whose text is the kind of the
  object: enough to run the examples.\<close>

type_synonym demoServer = "ident \<rightharpoonup> Unstructured"

definition demoClient :: "demoServer Client" where
  "demoClient = \<lparr>cl_Get = (\<lambda>v k key w. case w (v, k, key) of
       None \<Rightarrow> Inl (StatusError NotFound ''not found'') | Some u \<Rightarrow> Inr u),
     cl_Create = (\<lambda>u w. (None, w(ident u \<mapsto> u))), cl_Update = (\<lambda>u w. (None, w(ident u \<mapsto> u)))\<rparr>"

definition demoApp :: "(demoServer, unit, unit) Application" where
  "demoApp = \<lparr>app_Client = demoClient, app_CR = (), app_CRMeta = zeroMeta\<lparr>om_Name := ''demo''\<rparr>,
     app_FileRepo = (\<lambda>f. if f = ''missing'' then Inl (ErrorString ''no file'') else Inr f),
     app_GVK = \<lparr>gvk_Group = ''g'', gvk_Version = ''v1'', gvk_Kind = ''K''\<rparr>, app_TmplFunc = None,
     app_Recorder = (\<lambda>t r n w. w), app_engine = (\<lambda>f m. Inr (\<lambda>v. Inr m)),
     app_yaml = (\<lambda>y u. (None, u\<lparr>u_Kind := y\<rparr>)), app_metaEncoder = (\<lambda>m. JNull)\<rparr>"

lemma demo_honest: "honestServer demoApp"
  by (auto simp: honestServer_def demoApp_def demoClient_def stored_def ident_def)

lemma demo_object:
  "objectOf demoApp ''A'' = Some (zeroUnstructured\<lparr>u_Kind := ''A''\<rparr>)"
  "objectOf demoApp ''B'' = Some (zeroUnstructured\<lparr>u_Kind := ''B''\<rparr>)"
proof -
  have "stripCharacters ''A'' = ''A''" "stripCharacters ''B'' = ''B''"
    by (simp_all add: stripCharacters_def stripComment_def scanLines_def rawLines_def MaxScanTokenSize_def
        dropCR_def cutComment_def commentChars_def TrimSpace_def TrimRight_def isSpace_def)
  then show "objectOf demoApp ''A'' = Some (zeroUnstructured\<lparr>u_Kind := ''A''\<rparr>)"
    "objectOf demoApp ''B'' = Some (zeroUnstructured\<lparr>u_Kind := ''B''\<rparr>)"
    by (simp_all add: objectOf_def loaded_def demoApp_def LoadTemplate_def GenerateManifests_def)
qed

lemma demo_separate: "separate demoApp [''A'', ''B'']"
  by (simp add: separate_def demo_object ident_def)

lemma zeroUnstructured_fields: "u_fields zeroUnstructured = [] \<longleftrightarrow> True"
  by (simp add: zeroUnstructured_def)

lemma demo_compose: "u_fields u = [] \<Longrightarrow> \<exists>u'. compose a u = Inr u'"
  by (simp add: compose_eq hash_eq contents_def json_Marshal_def)

lemma demo_apply: "u_fields u = [] \<Longrightarrow> \<exists>c w'. apply_obj demoApp u True w = ((c, None), w')"
  using demo_compose [of u demoApp]
  by (auto simp: apply_obj_stored apply_create_def apply_update_def stored_def demoApp_def demoClient_def
      IsNotFound_def split: option.splits sum.splits)

lemma demo_Apply:
  "\<exists>c w'. Apply demoApp ''A'' True w = ((c, None), w')" "\<exists>c w'. Apply demoApp ''B'' True w = ((c, None), w')"
  by (simp_all add: Apply_object [OF demo_object(1)] Apply_object [OF demo_object(2)] demo_apply zeroUnstructured_def)

theorem ApplyAll_converges_witness:
  "\<exists>w'. ApplyAll demoApp [''A'', ''B''] Map.empty = (None, w') \<and> ApplyAll demoApp [''A'', ''B''] w' = (None, w')"
proof -
  obtain c1 w1 where a: "Apply demoApp ''A'' True Map.empty = ((c1, None), w1)" using demo_Apply by blast
  obtain c2 w2 where b: "Apply demoApp ''B'' True w1 = ((c2, None), w2)" using demo_Apply by blast
  have "\<exists>w'. ApplyAll demoApp [''A'', ''B''] Map.empty = (None, w')"
    by (simp add: ApplyAll_def a b)
  then show ?thesis using ApplyAll_converges [OF demo_honest demo_separate] by blast
qed

theorem ApplyAll_refines_witness:
  "\<exists>w'. ApplyAll demoApp [''A'', ''B''] Map.empty = (None, w')
     \<and> serverVersions demoApp w' = desiredVersions demoApp [''A'', ''B''] (serverVersions demoApp Map.empty)"
proof -
  obtain c1 w1 where a: "Apply demoApp ''A'' True Map.empty = ((c1, None), w1)" using demo_Apply by blast
  obtain c2 w2 where b: "Apply demoApp ''B'' True w1 = ((c2, None), w2)" using demo_Apply by blast
  have "\<exists>w'. ApplyAll demoApp [''A'', ''B''] Map.empty = (None, w')"
    by (simp add: ApplyAll_def a b)
  then show ?thesis using ApplyAll_refines [OF demo_honest] by blast
qed

theorem apply_outcomes_witness:
  "\<exists>c w'. apply_obj demoApp zeroUnstructured True Map.empty = ((c, None), w') \<and> (\<not> c \<longrightarrow> w' = Map.empty)"
proof -
  obtain c w' where "apply_obj demoApp zeroUnstructured True Map.empty = ((c, None), w')"
    using demo_apply [of zeroUnstructured] unfolding zeroUnstructured_fields by blast
  then show ?thesis using apply_outcomes [of demoApp zeroUnstructured True Map.empty c None w'] by blast
qed

theorem compose_idempotent_witness:
  "\<exists>u'. compose demoApp zeroUnstructured = Inr u' \<and> compose demoApp u' = Inr u'"
proof -
  obtain u' where "compose demoApp zeroUnstructured = Inr u'"
    using demo_compose [of zeroUnstructured demoApp] unfolding zeroUnstructured_fields by blast
  then show ?thesis using compose_idempotent by blast
qed

section \<open>Errors and uncomposed objects\<close>

fun appliedTo :: "('w, 'f, 'v) Application \<Rightarrow> string list \<Rightarrow> 'w \<Rightarrow> 'w option" where
  "appliedTo a [] w = Some w"
| "appliedTo a (f # fs) w =
     (case Apply a f True w of ((c, None), w') \<Rightarrow> appliedTo a fs w' | ((c, Some e), w') \<Rightarrow> None)"

lemma applyLoop_error:
  assumes "appliedTo a pre w = Some w1" and "Apply a f True w1 = ((c, Some err), w2)"
  shows "applyLoop a (pre @ f # post) ch w =
    (Some err, app_Recorder a ''Warning'' ''FailedApply'' (''encountered err: '' @ Error err) w2)"
  using assms
proof (induction pre arbitrary: ch w)
  case (Cons g pre)
  then show ?case by (auto split: prod.splits option.splits)
qed simp

text \<open>The first manifest that fails ends the run: the manifests before it stay applied, one
  warning event is recorded, its error is returned unchanged, and no later manifest is looked at.\<close>

theorem ApplyAll_first_error:
  assumes "appliedTo a pre w = Some w1" and "Apply a f True w1 = ((c, Some err), w2)"
  shows "ApplyAll a (pre @ f # post) w =
    (Some err, app_Recorder a ''Warning'' ''FailedApply'' (''encountered err: '' @ Error err) w2)"
  using applyLoop_error [OF assms] by (simp add: ApplyAll_def)

theorem ApplyAll_first_error_witness:
  "ApplyAll demoApp ([] @ ''missing'' # [''A'']) Map.empty = (Some (ErrorString ''no file''), Map.empty)"
proof -
  have "Apply demoApp ''missing'' True Map.empty = ((False, Some (ErrorString ''no file'')), Map.empty)"
    by (simp add: Apply_def demoApp_def)
  from ApplyAll_first_error [OF _ this, of "[]" Map.empty "[''A'']"] show ?thesis
    by (simp add: demoApp_def)
qed

text \<open>An object applied without composition carries no version of its own: when neither it nor
  the stored object has the version annotation, an existing object is never updated, however much
  the two differ.\<close>

theorem apply_uncomposed_never_updates:
  assumes "stored a (ident u) w = Inr cur"
    and "getVersion cur (versionKey a) = []" and "getVersion u (versionKey a) = []"
  shows "apply_obj a u False w = ((False, None), w)"
  using assms by (simp add: apply_obj_stored apply_update_def)

theorem apply_uncomposed_never_updates_witness:
  "apply_obj demoApp (zeroUnstructured\<lparr>u_fields := [(''spec'', JNum ''2'')]\<rparr>) False
     [ident zeroUnstructured \<mapsto> zeroUnstructured] = ((False, None), [ident zeroUnstructured \<mapsto> zeroUnstructured])"
  by (rule apply_uncomposed_never_updates [where cur = zeroUnstructured])
    (simp_all add: stored_def ident_def ObjectKeyFromObject_def demoApp_def demoClient_def zeroUnstructured_def
      getVersion_eq GetAnnotations_def zeroMeta_def)

end
