(* ===== verification/Controller_Common.thy ===== *)
theory Controller_Common
  imports Api_Types Kube_Apply
begin

text \<open>
  What the reconcilers of \<open>operator/controllers/operator\<close> share: the result of a reconciliation, the
  objects they read, the application they build, and the method \<open>updateStatus\<close>, which seven of them
  have in the same shape. The API server, the retry helper of client-go, the overlay
  (\<open>ApplyOverlay\<close> on typed objects) and the semantic comparison of apimachinery are parameters.
\<close>

section \<open>Results\<close>

record Result =
  RequeueAfter :: int

text \<open>\<open>schedDuration\<close> is one minute, in nanoseconds.\<close>

definition schedDuration :: int where
  "schedDuration = 60 * 1000000000"

definition noResult :: Result where
  "noResult = \<lparr>RequeueAfter = 0\<rparr>"

definition IgnoreNotFound :: "goerror \<Rightarrow> goerror option" where
  "IgnoreNotFound err = (if IsNotFound err then None else Some err)"

type_synonym 'w reconciled = "(Result \<times> goerror option) \<times> 'w"

section \<open>Reads\<close>

record 'w Reads =
  rd_Deployment :: "ObjectKey \<Rightarrow> 'w \<Rightarrow> goerror + Deployment"
  rd_StatefulSet :: "ObjectKey \<Rightarrow> 'w \<Rightarrow> goerror + StatefulSet"
  rd_Service :: "ObjectKey \<Rightarrow> 'w \<Rightarrow> goerror + KService"
  rd_Secret :: "ObjectKey \<Rightarrow> 'w \<Rightarrow> goerror + Secret"

abbreviation objectKey :: "string \<Rightarrow> string \<Rightarrow> ObjectKey" where
  "objectKey ns n \<equiv> \<lparr>ok_Namespace = ns, ok_Name = n\<rparr>"

text \<open>Reading into a zero value: an object that is not found reads as the zero value and is no error.\<close>

definition readOrZero :: "goerror + 'a \<Rightarrow> 'a \<Rightarrow> goerror + 'a" where
  "readOrZero r zero = (case r of
      Inl err \<Rightarrow> if \<not> IsNotFound err then Inl err else Inr zero
    | Inr x \<Rightarrow> Inr x)"

section \<open>Applications\<close>

record ('w, 'f, 'v) ReconcilerEnv =
  re_Client :: "'w Client"
  re_Reads :: "'w Reads"
  re_ReadFile :: "string \<Rightarrow> goerror + string"
  re_GetFilesRecursive :: "string \<Rightarrow> goerror + string list"
  re_Recorder :: "string \<Rightarrow> string \<Rightarrow> string \<Rightarrow> 'w \<Rightarrow> 'w"
  re_engine :: "('f, 'v) engine"
  re_yaml :: "string \<Rightarrow> Unstructured \<Rightarrow> goerror option \<times> Unstructured"
  re_metaEncoder :: metaEncoder

definition applicationFor ::
  "('w, 'f, ('s, 't) CR) ReconcilerEnv \<Rightarrow> ('s, 't) CR \<Rightarrow> GroupVersionKind \<Rightarrow> 'f option
   \<Rightarrow> ('w, 'f, ('s, 't) CR) Application" where
  "applicationFor R cr gvk funcs =
     \<lparr>app_Client = re_Client R, app_CR = cr, app_CRMeta = cr_Meta cr, app_FileRepo = re_ReadFile R,
      app_GVK = gvk, app_TmplFunc = funcs, app_Recorder = re_Recorder R, app_engine = re_engine R,
      app_yaml = re_yaml R, app_metaEncoder = re_metaEncoder R\<rparr>"

section \<open>Status updates\<close>

text \<open>The state of one call of \<open>updateStatus\<close>: the object the caller's pointer refers to, the error
  collector, the server.\<close>

type_synonym ('w, 's, 't) statusState = "('s, 't) CR \<times> ErrorCollector \<times> 'w"

record ('w, 's, 't) StatusEnv =
  se_Get :: "ObjectKey \<Rightarrow> 'w \<Rightarrow> goerror + ('s, 't) CR"
  se_Overlay :: "('s, 't) CR \<Rightarrow> ('s, 't) CR \<Rightarrow> goerror option \<times> ('s, 't) CR"
  se_StatusUpdate :: "('s, 't) CR \<Rightarrow> 'w \<Rightarrow> goerror option \<times> 'w"
  se_Retry :: "(('w, 's, 't) statusState \<Rightarrow> goerror option \<times> ('w, 's, 't) statusState)
     \<Rightarrow> ('w, 's, 't) statusState \<Rightarrow> goerror option \<times> ('w, 's, 't) statusState"
  se_DeepDerivative :: "'t \<Rightarrow> 't \<Rightarrow> bool"
  se_zeroSpec :: 's

definition zeroTypeMeta :: TypeMeta where
  "zeroTypeMeta = \<lparr>tm_Kind = [], tm_APIVersion = []\<rparr>"

text \<open>\<open>&X{Status: overlay}\<close>.\<close>

definition onlyStatus :: "('w, 's, 't) StatusEnv \<Rightarrow> 't \<Rightarrow> ('s, 't) CR" where
  "onlyStatus E overlay =
     \<lparr>cr_Type = zeroTypeMeta, cr_Meta = zeroMeta, cr_Spec = se_zeroSpec E, cr_Status = overlay\<rparr>"

definition withStatus :: "string \<Rightarrow> 't \<Rightarrow> ('s, 't) CR \<Rightarrow> ('s, 't) CR" where
  "withStatus kind overlay cr = cr\<lparr>cr_Status := overlay, cr_Type := (cr_Type cr)\<lparr>tm_Kind := kind\<rparr>\<rparr>"

definition collectOpt :: "string \<Rightarrow> goerror option \<Rightarrow> ErrorCollector \<Rightarrow> ErrorCollector" where
  "collectOpt msg err c = (case err of None \<Rightarrow> c | Some e \<Rightarrow> Collect c (WrapError msg e []))"

text \<open>The closure given to \<open>RetryOnConflict\<close>: read the object again, set the status, overlay it, write
  it; every failure is collected and none ends the attempt.\<close>

definition statusAttempt ::
  "('w, 's, 't) StatusEnv \<Rightarrow> string \<Rightarrow> string \<Rightarrow> string \<Rightarrow> 't
   \<Rightarrow> ('w, 's, 't) statusState \<Rightarrow> goerror option \<times> ('w, 's, 't) statusState" where
  "statusAttempt E kind getMsg updateMsg overlay st =
     (case st of (cr, errCol, w) \<Rightarrow>
        let got = se_Get E (cr_key cr) w;
            errCol = collectOpt getMsg (case got of Inl err \<Rightarrow> Some err | Inr _ \<Rightarrow> None) errCol;
            cr = (case got of Inl err \<Rightarrow> cr | Inr c \<Rightarrow> c);
            cr = withStatus kind overlay cr
        in case se_Overlay E cr (onlyStatus E overlay) of
             (err, cr) \<Rightarrow>
               let errCol = collectOpt ''failed to apply overlay: '' err errCol
               in case se_StatusUpdate E cr w of
                    (err, w) \<Rightarrow>
                      let errCol = collectOpt updateMsg err errCol
                      in (ErrorCollector_Error errCol, (cr, errCol, w)))"

text \<open>The second half of \<open>checkState\<close>. Three controllers overlay the status before they update it
  (\<open>first\<close> is set for them); an error there ends the check.\<close>

definition finishState ::
  "('w, 's, 't) StatusEnv
   \<Rightarrow> ('t \<Rightarrow> ('w, 's, 't) statusState \<Rightarrow> goerror option \<times> ('w, 's, 't) statusState)
   \<Rightarrow> string \<Rightarrow> bool \<Rightarrow> string \<Rightarrow> 't \<Rightarrow> ('w, 's, 't) statusState
   \<Rightarrow> goerror option \<times> ('w, 's, 't) statusState" where
  "finishState E updateStatus kind first' msg overlay st =
     (case st of (cr, errCol, w) \<Rightarrow>
        if se_DeepDerivative E overlay (cr_Status cr) then (ErrorCollector_Error errCol, st)
        else
          (case (if first' then se_Overlay E (withStatus kind overlay cr) (onlyStatus E overlay)
                 else (None, cr)) of
             (Some err, cr) \<Rightarrow>
               let errCol = collectOpt ''failed to apply overlay: '' (Some err) errCol
               in (ErrorCollector_Error errCol, (cr, errCol, w))
           | (None, cr) \<Rightarrow>
               (case updateStatus overlay (cr, errCol, w) of
                  (err, (cr, errCol, w)) \<Rightarrow>
                    let errCol = collectOpt msg err errCol
                    in (ErrorCollector_Error errCol, (cr, errCol, w)))))"

text \<open>What is relied on of \<open>RetryOnConflict\<close>: a result that is no conflict is final.\<close>

definition retriesConflicts :: "('w, 's, 't) StatusEnv \<Rightarrow> bool" where
  "retriesConflicts E \<longleftrightarrow>
     (\<forall>f st. (case fst (f st) of None \<Rightarrow> True | Some e \<Rightarrow> \<not> IsConflict e) \<longrightarrow> se_Retry E f st = f st)"

lemma ErrorCollector_not_conflict:
  "ErrorCollector_Error c = Some e \<Longrightarrow> \<not> IsConflict e"
  by (auto simp: ErrorCollector_Error_def IsConflict_def split: if_splits)

lemma statusAttempt_result:
  "fst (statusAttempt E kind g u overlay st) =
     ErrorCollector_Error (fst (snd (snd (statusAttempt E kind g u overlay st))))"
proof -
  obtain cr errCol w where st: "st = (cr, errCol, w)" by (metis prod_cases3)
  define c0 where "c0 = withStatus kind overlay (case se_Get E (cr_key cr) w of Inl err \<Rightarrow> cr | Inr c \<Rightarrow> c)"
  obtain e1 cr1 where o': "se_Overlay E c0 (onlyStatus E overlay) = (e1, cr1)" by force
  obtain e2 w2 where u: "se_StatusUpdate E cr1 w = (e2, w2)" by force
  show ?thesis
    unfolding statusAttempt_def st Let_def prod.case c0_def [symmetric] o' u by simp
qed

lemma statusAttempt_returns:
  "statusAttempt E kind g u overlay st = (e, (cr, c, w)) \<Longrightarrow> e = ErrorCollector_Error c"
  using statusAttempt_result [of E kind g u overlay st] by simp

lemma statusAttempt_final:
  "case fst (statusAttempt E kind g u overlay st) of None \<Rightarrow> True | Some e \<Rightarrow> \<not> IsConflict e"
proof -
  obtain c where c: "fst (statusAttempt E kind g u overlay st) = ErrorCollector_Error c"
    using statusAttempt_result by (rule that)
  show ?thesis
  proof (cases "ErrorCollector_Error c")
    case None
    then show ?thesis unfolding c by simp
  next
    case (Some e)
    then have "\<not> IsConflict e" by (rule ErrorCollector_not_conflict)
    then show ?thesis unfolding c Some by simp
  qed
qed

lemma retriesConflictsD:
  "retriesConflicts E \<Longrightarrow> case fst (f st) of None \<Rightarrow> True | Some e \<Rightarrow> \<not> IsConflict e \<Longrightarrow> se_Retry E f st = f st"
  by (simp only: retriesConflicts_def)

lemma retry_statusAttempt:
  "retriesConflicts E \<Longrightarrow>
   se_Retry E (statusAttempt E kind g u overlay) st = statusAttempt E kind g u overlay st"
  by (rule retriesConflictsD [OF _ statusAttempt_final])

lemma collectOpt_Nil [simp]: "collectOpt m e c = [] \<longleftrightarrow> e = None \<and> c = []"
  by (auto simp: collectOpt_def Collect_def split: option.splits)

lemma ErrorCollector_None [simp]: "ErrorCollector_Error c = None \<longleftrightarrow> c = []"
  by (simp add: ErrorCollector_Error_def)

lemma readOrZero_simps [simp]:
  "readOrZero (Inr x) z = Inr x"
  "IsNotFound e \<Longrightarrow> readOrZero (Inl e) z = Inr z"
  "\<not> IsNotFound e \<Longrightarrow> readOrZero (Inl e) z = Inl e"
  by (simp_all add: readOrZero_def)

text \<open>An environment without objects in which every write succeeds, for examples.\<close>

definition plainStatusEnv :: "'s \<Rightarrow> ('w, 's, 't) StatusEnv" where
  "plainStatusEnv z = \<lparr>se_Get = (\<lambda>k w. Inl (StatusError NotFound ''not found'')), se_Overlay = (\<lambda>c o'. (None, c)),
     se_StatusUpdate = (\<lambda>c w. (None, w)), se_Retry = (\<lambda>f st. f st), se_DeepDerivative = (\<lambda>a b. False),
     se_zeroSpec = z\<rparr>"

lemma plainStatusEnv_retries: "retriesConflicts (plainStatusEnv z)"
  by (simp add: retriesConflicts_def plainStatusEnv_def)

section \<open>The contract of a reconciler\<close>

text \<open>What the controller manager relies on: a resource that cannot be read ends the run at once, and
  that it is gone is no error; every other run either fails, and is then not rescheduled by its
  result, or succeeds and asks to be run again after \<open>schedDuration\<close>.\<close>

locale reconciler =
  fixes get :: "ObjectKey \<Rightarrow> 'w \<Rightarrow> goerror + 'cr"
    and reconcile :: "ObjectKey \<Rightarrow> 'w \<Rightarrow> 'w reconciled"
  assumes unreadable: "get req w = Inl err \<Longrightarrow> reconcile req w = ((noResult, IgnoreNotFound err), w)"
    and readable: "get req w = Inr cr \<Longrightarrow>
      (snd (fst (reconcile req w)) = None \<and> fst (fst (reconcile req w)) = \<lparr>RequeueAfter = schedDuration\<rparr>)
      \<or> (snd (fst (reconcile req w)) \<noteq> None \<and> fst (fst (reconcile req w)) = noResult)"
begin

lemma gone: "get req w = Inl (StatusError NotFound m) \<Longrightarrow> reconcile req w = ((noResult, None), w)"
  using unreadable by (simp add: IgnoreNotFound_def IsNotFound_def)

lemma requeue_iff:
  "RequeueAfter (fst (fst (reconcile req w))) = schedDuration \<longleftrightarrow>
     (\<exists>cr. get req w = Inr cr) \<and> snd (fst (reconcile req w)) = None"
proof (cases "get req w")
  case (Inl err)
  then show ?thesis by (simp add: unreadable noResult_def schedDuration_def)
next
  case (Inr cr)
  from readable [OF this] show ?thesis using Inr by (auto simp: noResult_def schedDuration_def)
qed

lemma contract:
  "(case get req w of
      Inl err \<Rightarrow> reconcile req w = ((noResult, if IsNotFound err then None else Some err), w)
    | Inr cr \<Rightarrow> fst (fst (reconcile req w)) =
        (if snd (fst (reconcile req w)) = None then \<lparr>RequeueAfter = schedDuration\<rparr> else noResult))"
proof (cases "get req w")
  case (Inl err)
  then show ?thesis by (simp add: unreadable IgnoreNotFound_def)
next
  case (Inr cr)
  from readable [OF this] show ?thesis using Inr by auto
qed

end

end
