(* ===== verification/JavaAgent_Controller.thy ===== *)
theory JavaAgent_Controller
  imports Injection Webhooks Controller_Common
begin

text \<open>
  The reconciler of \<open>operator/controllers/operator/javaagent_controller.go\<close>, which watches injected
  pods and keeps one \<open>JavaAgent\<close> per workload: it collects the agent configuration from the last
  matching \<open>SwAgent\<close> and the pod's annotations, applies the \<open>JavaAgent\<close> manifest without composing
  it, and writes how many pods were to be injected and how many were. The template's function table
  is a record of its nine functions, all without arguments.
\<close>

section \<open>Environment\<close>

record 'w JavaAgentEnv =
  jae_GetPod :: "ObjectKey \<Rightarrow> 'w \<Rightarrow> goerror + Pod"
  jae_GetConfigMap :: "ObjectKey \<Rightarrow> 'w \<Rightarrow> goerror + ConfigMap"
  jae_ListSwAgents :: "string \<Rightarrow> 'w \<Rightarrow> goerror + SwAgentList"
  jae_ListPods :: "string \<Rightarrow> string \<times> string \<Rightarrow> 'w \<Rightarrow> goerror + Pod list"
  jae_Now :: "'w \<Rightarrow> Time"
  jae_rangeLabels :: "gomap \<Rightarrow> entries"
  jae_rangeAnnotations :: "gomap \<Rightarrow> entries"

record JavaAgentFuncs =
  jf_config :: gomap
  jf_labelKey :: string
  jf_labelValue :: string
  jf_ownerReference :: OwnerReference
  jf_SelectorName :: string
  jf_Namespace :: string
  jf_PodSelector :: string
  jf_ServiceName :: string
  jf_BackendService :: string

definition zeroPod :: Pod where
  "zeroPod = \<lparr>pod_Meta = zeroMeta, pod_InitContainers = [], pod_Containers = [], pod_Volumes = [], pod_rest = []\<rparr>"

definition zeroJavaAgent :: JavaAgent where
  "zeroJavaAgent = \<lparr>cr_Type = zeroTypeMeta, cr_Meta = zeroMeta,
     cr_Spec = \<lparr>ja_PodSelector = [], ja_ServiceName = [], ja_BackendService = [], ja_AgentConfiguration = None\<rparr>,
     cr_Status = \<lparr>jas_ExpectedInjectedNum = 0, jas_RealInjectedNum = 0, jas_CreationTime = 0, jas_LastUpdateTime = 0\<rparr>\<rparr>"

text \<open>The entries a \<open>range\<close> loop over a possibly nil map visits.\<close>

definition rangeOf :: "(gomap \<Rightarrow> entries) \<Rightarrow> gomap option \<Rightarrow> entries" where
  "rangeOf order m = (case m of None \<Rightarrow> [] | Some m' \<Rightarrow> order m')"

section \<open>Which agent and which configuration\<close>

text \<open>The loop of \<open>getSwAgent\<close>. Each iteration has its own loop variable, so the pointer kept is to
  the matching agent itself.\<close>

fun lastMatched :: "gomap option \<Rightarrow> SwAgentList \<Rightarrow> SwAgent option \<Rightarrow> SwAgent option" where
  "lastMatched labels [] lastMatchedSwAgent = lastMatchedSwAgent"
| "lastMatched labels (swAgent # items) lastMatchedSwAgent =
     lastMatched labels items (if swAgentMatches labels swAgent then Some swAgent else lastMatchedSwAgent)"

definition getSwAgent :: "'w JavaAgentEnv \<Rightarrow> ObjectKey \<Rightarrow> Pod \<Rightarrow> 'w \<Rightarrow> goerror + SwAgent option" where
  "getSwAgent E request pd w =
     (case jae_ListSwAgents E (ok_Namespace request) w of
        Inl err \<Rightarrow> Inl err
      | Inr items \<Rightarrow> Inr (lastMatched (pod_Labels pd) items None))"

fun envConfig :: "EnvVar list \<Rightarrow> gomap \<Rightarrow> gomap" where
  "envConfig [] config = config"
| "envConfig (env # envs) config =
     envConfig envs
       (if EqualFold (ev_Name env) ''SW_AGENT_COLLECTOR_BACKEND_SERVICES'' then config(BackendService \<mapsto> ev_Value env)
        else if EqualFold (ev_Name env) ''SW_AGENT_NAME'' then config(ServiceName \<mapsto> ev_Value env)
        else config)"

definition injectConfigBySwAgent :: "SwAgent option \<Rightarrow> gomap \<Rightarrow> gomap" where
  "injectConfigBySwAgent lastMatchedSwAgent config =
     (case lastMatchedSwAgent of
        None \<Rightarrow> config
      | Some a \<Rightarrow> if 0 < length (js_Env (swa_JavaSidecar (cr_Spec a)))
                  then envConfig (js_Env (swa_JavaSidecar (cr_Spec a))) config else config)"

text \<open>The label keys that can select the workload, sorted as \<open>sort.Strings\<close> does.\<close>

definition selectorKeys :: "entries \<Rightarrow> string list" where
  "selectorKeys it = sort (map fst (filter (\<lambda>(k, v). \<not> Contains k ActiveInjectorLabel) it))"

section \<open>Status\<close>

fun injectedLoop :: "Pod list \<Rightarrow> int \<times> int \<Rightarrow> int \<times> int" where
  "injectedLoop [] n = n"
| "injectedLoop (p # items) (expectedInjectedNum, realInjectedNum) =
     injectedLoop items
       (if pod_Labels p \<noteq> None \<and> EqualFold (ToLower (nilget (pod_Labels p) ActiveInjectorLabel)) ''true''
        then expectedInjectedNum + 1 else expectedInjectedNum,
        if pod_Annotations p \<noteq> None \<and> EqualFold (ToLower (nilget (pod_Annotations p) SidecarInjectSucceedAnno)) ''true''
        then realInjectedNum + 1 else realInjectedNum)"

definition JavaAgent_updateStatus ::
  "('w, JavaAgentSpec, JavaAgentStatus) StatusEnv \<Rightarrow> JavaAgentStatus \<Rightarrow> ('w, JavaAgentSpec, JavaAgentStatus) statusState
   \<Rightarrow> goerror option \<times> ('w, JavaAgentSpec, JavaAgentStatus) statusState" where
  "JavaAgent_updateStatus S overlay =
     se_Retry S (statusAttempt S ''JavaAgent'' ''failed to get javaagent: ''
       ''failed to update status of JavaAgent: '' overlay)"

text \<open>The status with the counts of the listed pods and the times; the zero time is \<open>0\<close>.\<close>

definition javaAgentStatus :: "Pod list \<Rightarrow> Time \<Rightarrow> JavaAgentStatus \<Rightarrow> JavaAgentStatus" where
  "javaAgentStatus items now st =
     (case injectedLoop items (0, 0) of
        (expectedInjectedNum, realInjectedNum) \<Rightarrow>
          let st = st\<lparr>jas_ExpectedInjectedNum := expectedInjectedNum, jas_RealInjectedNum := realInjectedNum\<rparr>
          in if jas_CreationTime st = 0 then st\<lparr>jas_CreationTime := now, jas_LastUpdateTime := now\<rparr>
             else st\<lparr>jas_LastUpdateTime := now\<rparr>)"

definition JavaAgent_UpdateStatus ::
  "'w JavaAgentEnv \<Rightarrow> ('w, JavaAgentSpec, JavaAgentStatus) StatusEnv \<Rightarrow> string \<Rightarrow> string \<Rightarrow> string \<Rightarrow> 'w
   \<Rightarrow> gopanic + (goerror option \<times> 'w)" where
  "JavaAgent_UpdateStatus E S namespace selectorname podselector w =
     (let got = se_Get S (objectKey namespace (selectorname @ ''-javaagent'')) w;
          errCol = collectOpt ''failed to get javaagent: ''
            (case got of Inl err \<Rightarrow> IgnoreNotFound err | Inr _ \<Rightarrow> None) [];
          javaagent = (case got of Inl err \<Rightarrow> zeroJavaAgent | Inr j \<Rightarrow> j)
      in if cr_Name javaagent = [] then Inr (ErrorCollector_Error errCol, w)
         else
           (case Split podselector CHR ''='' of
              k # v # rest \<Rightarrow>
                (let listed = jae_ListPods E namespace (k, v) w;
                     errCol = collectOpt ''failed to list pod: ''
                       (case listed of Inl err \<Rightarrow> IgnoreNotFound err | Inr _ \<Rightarrow> None) errCol;
                     items = (case listed of Inl err \<Rightarrow> [] | Inr l \<Rightarrow> l);
                     overlay = javaAgentStatus items (jae_Now E w) (cr_Status javaagent);
                     javaagent = javaagent\<lparr>cr_Status := overlay\<rparr>
                 in case JavaAgent_updateStatus S overlay (javaagent, errCol, w) of
                      (err, (javaagent, errCol, w)) \<Rightarrow>
                        Inr (ErrorCollector_Error (collectOpt ''failed to update java status: '' err errCol), w))
            | _ \<Rightarrow> Inl IndexOutOfRange))"

section \<open>Reconcile\<close>

definition mountedConfigMap :: "Volume list \<Rightarrow> string" where
  "mountedConfigMap vs = foldl (\<lambda>name v. case vol_ConfigMap v of None \<Rightarrow> name | Some n \<Rightarrow> n) [] vs"

text \<open>The event recorder of the application is nil; \<open>Apply\<close> does not use it.\<close>

definition podApplication ::
  "('w, JavaAgentFuncs, Pod) ReconcilerEnv \<Rightarrow> Pod \<Rightarrow> JavaAgentFuncs \<Rightarrow> ('w, JavaAgentFuncs, Pod) Application" where
  "podApplication R pd funcs =
     \<lparr>app_Client = re_Client R, app_CR = pd, app_CRMeta = pod_Meta pd, app_FileRepo = re_ReadFile R,
      app_GVK = \<lparr>gvk_Group = [], gvk_Version = ''v1'', gvk_Kind = ''Pod''\<rparr>, app_TmplFunc = Some funcs,
      app_Recorder = (\<lambda>_ _ _ w. w), app_engine = re_engine R, app_yaml = re_yaml R, app_metaEncoder = re_metaEncoder R\<rparr>"

definition agentFuncs :: "gomap \<Rightarrow> string \<Rightarrow> string \<Rightarrow> OwnerReference \<Rightarrow> string \<Rightarrow> JavaAgentFuncs" where
  "agentFuncs config key value ownerReference namespace =
     \<lparr>jf_config = config, jf_labelKey = key, jf_labelValue = value, jf_ownerReference = ownerReference,
      jf_SelectorName = Join [key, value] ''-'', jf_Namespace = namespace, jf_PodSelector = Join [key, value] ''='',
      jf_ServiceName = GetServiceName config, jf_BackendService = GetBackendService config\<rparr>"

text \<open>From the pod's owner on: configuration, selector, application, status.\<close>

definition reconcileOwned ::
  "'w JavaAgentEnv \<Rightarrow> ('w, JavaAgentFuncs, Pod) ReconcilerEnv \<Rightarrow> ('w, JavaAgentSpec, JavaAgentStatus) StatusEnv
   \<Rightarrow> ObjectKey \<Rightarrow> Pod \<Rightarrow> OwnerReference \<Rightarrow> 'w \<Rightarrow> gopanic + 'w reconciled" where
  "reconcileOwned E R S request pd ownerReference w =
     (case getSwAgent E request pd w of
        Inl err \<Rightarrow> Inr ((noResult, Some err), w)
      | Inr lastMatchedSwAgent \<Rightarrow>
          (let config = injectConfigBySwAgent lastMatchedSwAgent Map.empty;
               config = GetInjectedAgentConfig (rangeOf (jae_rangeAnnotations E) (pod_Annotations pd)) config;
               keys = selectorKeys (rangeOf (jae_rangeLabels E) (pod_Labels pd))
           in case keys of
                [] \<Rightarrow> Inr ((noResult, None), w)
              | key # _ \<Rightarrow>
                  (let value = nilget (pod_Labels pd) key;
                       funcs = agentFuncs config key value ownerReference (ok_Namespace request)
                   in case Apply (podApplication R pd funcs) ''injector/templates/javaagent.yaml'' False w of
                        ((_, Some err), w) \<Rightarrow> Inr ((noResult, Some err), w)
                      | ((_, None), w) \<Rightarrow>
                          (case JavaAgent_UpdateStatus E S (ok_Namespace request) (jf_SelectorName funcs) (jf_PodSelector funcs) w of
                             Inl panic \<Rightarrow> Inl panic
                           | Inr (err, w) \<Rightarrow> Inr ((noResult, err), w)))))"

definition JavaAgent_Reconcile ::
  "'w JavaAgentEnv \<Rightarrow> ('w, JavaAgentFuncs, Pod) ReconcilerEnv \<Rightarrow> ('w, JavaAgentSpec, JavaAgentStatus) StatusEnv
   \<Rightarrow> ObjectKey \<Rightarrow> 'w \<Rightarrow> gopanic + 'w reconciled" where
  "JavaAgent_Reconcile E R S request w =
     (let got = jae_GetPod E request w;
          err = (case got of Inl e \<Rightarrow> Some e | Inr _ \<Rightarrow> None);
          pd = (case got of Inl e \<Rightarrow> zeroPod | Inr p \<Rightarrow> p)
      in if (case err of None \<Rightarrow> False | Some e \<Rightarrow> \<not> IsNotFound e) then Inr ((noResult, err), w)
         else
           (let configmapName = mountedConfigMap (pod_Volumes pd) in
            case om_OwnerReferences (pod_Meta pd) of
              [] \<Rightarrow> Inr ((noResult, err), w)
            | ownerReference # _ \<Rightarrow>
                if 0 < length configmapName then
                  (case jae_GetConfigMap E (objectKey (ok_Namespace request) configmapName) w of
                     Inl e \<Rightarrow> if \<not> IsNotFound e then Inr ((noResult, Some e), w)
                               else reconcileOwned E R S request pd ownerReference w
                   | Inr _ \<Rightarrow> reconcileOwned E R S request pd ownerReference w)
                else reconcileOwned E R S request pd ownerReference w))"

section \<open>The event filter\<close>

definition wasInjected :: "gomap option \<Rightarrow> bool" where
  "wasInjected annotations \<longleftrightarrow>
     annotations \<noteq> None \<and> ToLower (nilget annotations SidecarInjectSucceedAnno) = ''true''"

definition CreateFunc :: "Pod \<Rightarrow> bool" where
  "CreateFunc p = (if wasInjected (pod_Annotations p) then True else False)"

definition UpdateFunc :: "Pod \<Rightarrow> Pod \<Rightarrow> bool" where
  "UpdateFunc old new = (if wasInjected (pod_Annotations new) then om_DeletionTimestamp (pod_Meta new) = None else False)"

definition DeleteFunc :: "Pod \<Rightarrow> bool" where
  "DeleteFunc p = False"

section \<open>The agent that is reported\<close>

lemma lastMatched_filter:
  "lastMatched labels items d =
     (case filter (swAgentMatches labels) items of [] \<Rightarrow> d | as \<Rightarrow> Some (last as))"
  by (induction items arbitrary: d) (auto split: list.split)

text \<open>A \<open>JavaAgent\<close> reports the agent that was injected. Given the same list of agents and the same
  labels, the reconciler picks the agent whose settings the webhook overlays: the last matching one,
  or none for both.\<close>

theorem javaagent_reports_injected_agent:
  assumes "jae_ListSwAgents E (ok_Namespace request) w = Inr items" and "ie_list I (req_Namespace r) = (err, items)"
    and "pod_Labels pd = pod_Labels p"
  shows "\<exists>a. getSwAgent E request pd w = Inr a \<and> lastSwAgent (findMatchedSwAgentL I r p) = map_option cr_Spec a"
  using assms
  by (simp add: getSwAgent_def findMatchedSwAgentL_def lastMatched_filter lastSwAgent_def split: list.split)

section \<open>Independence of map order\<close>

lemma reported_unique:
  assumes "ranges m it" and "inj_on configEntry {k \<in> dom m. configEntry k \<noteq> None}"
    and "(o', q) \<in> set (reported it)" and "(o', q') \<in> set (reported it)"
  shows "q' = q"
proof -
  obtain k v k' v' where "(k, v) \<in> set it" "configEntry k = Some o'" "q = quoted v"
    "(k', v') \<in> set it" "configEntry k' = Some o'" "q' = quoted v'"
    using assms(3,4) by (auto simp: set_reported)
  moreover from this have "k' = k"
    using inj_onD [OF assms(2), of k' k] ranges_iff_set [OF assms(1)] by auto
  ultimately show ?thesis using ranges_iff_set [OF assms(1)] by (metis option.inject)
qed

lemma GetInjectedAgentConfig_order:
  assumes "ranges m it" and "ranges m it'" and "inj_on configEntry {k \<in> dom m. configEntry k \<noteq> None}"
  shows "GetInjectedAgentConfig it cfg = GetInjectedAgentConfig it' cfg"
proof -
  have same: "set (reported it') = set (reported it)"
    using ranges_iff_set [OF assms(1)] ranges_iff_set [OF assms(2)] by (auto simp: set_reported)
  have "map_of (rev (reported it)) o' = map_of (rev (reported it')) o'" for o'
  proof (cases "\<exists>q. (o', q) \<in> set (reported it)")
    case True
    then obtain q where q: "(o', q) \<in> set (reported it)" by blast
    have "\<forall>q'. (o', q') \<in> set (reported it) \<longrightarrow> q' = q"
      using reported_unique [OF assms(1,3) q] by blast
    then have "map_of (rev xs) o' = Some q" if "set xs = set (reported it)" for xs
      using q by (intro map_of_unique, unfold set_rev that)
    then show ?thesis using same by simp
  next
    case False
    then have "o' \<notin> fst ` set (reported it)" by auto
    then have "map_of (rev xs) o' = None" if "set xs = set (reported it)" for xs
      using that by (simp add: map_of_eq_None_iff)
    then show ?thesis using same by simp
  qed
  then have "map_of (rev (reported it)) = map_of (rev (reported it'))" by (rule ext)
  then show ?thesis by (simp add: GetInjectedAgentConfig_reported)
qed

lemma sort_mset_eq: "mset xs = mset ys \<Longrightarrow> sort xs = sort ys"
  by (simp flip: sorted_list_of_multiset_mset)

lemma selectorKeys_order: "ranges m it \<Longrightarrow> ranges m it' \<Longrightarrow> selectorKeys it = selectorKeys it'"
  unfolding selectorKeys_def 
  by (rule sort_mset_eq, simp only: mset_map, rule arg_cong [where f = "image_mset fst"], rule ranges_filter_mset)

lemma Split_two: "sep \<in> set s \<Longrightarrow> \<exists>a b rest. Split s sep = a # b # rest"
proof (induction s)
  case (Cons c s)
  then show ?case using Split_Cons_hd [of s sep] by (cases "c = sep") auto
qed simp

lemma JavaAgent_UpdateStatus_total:
  assumes "CHR ''='' \<in> set podselector"
  shows "\<exists>err w'. JavaAgent_UpdateStatus E S ns name podselector w = Inr (err, w')"
proof -
  obtain k v rest where "Split podselector CHR ''='' = k # v # rest"
    using Split_two [OF assms] by blast
  then show ?thesis
    unfolding JavaAgent_UpdateStatus_def Let_def case_prod_unfold by (simp only: list.case split: if_split) blast
qed

lemma reorder_env [simp]:
  "jae_ListSwAgents (E\<lparr>jae_rangeLabels := lo, jae_rangeAnnotations := ao\<rparr>) = jae_ListSwAgents E"
  "jae_ListPods (E\<lparr>jae_rangeLabels := lo, jae_rangeAnnotations := ao\<rparr>) = jae_ListPods E"
  "jae_Now (E\<lparr>jae_rangeLabels := lo, jae_rangeAnnotations := ao\<rparr>) = jae_Now E"
  by simp_all

lemma reorder_simps [simp]:
  "getSwAgent (E\<lparr>jae_rangeLabels := lo, jae_rangeAnnotations := ao\<rparr>) = getSwAgent E"
  "JavaAgent_UpdateStatus (E\<lparr>jae_rangeLabels := lo, jae_rangeAnnotations := ao\<rparr>) = JavaAgent_UpdateStatus E"
  by ((rule ext)+, simp only: getSwAgent_def JavaAgent_UpdateStatus_def reorder_env)+

lemma podSelector_separator: "CHR ''='' \<in> set (jf_PodSelector (agentFuncs config key value o' ns))"
  by (simp add: agentFuncs_def)

lemma reconcileOwned_total: "\<exists>err w'. reconcileOwned E R S request pd o' w = Inr ((noResult, err), w')"
proof (cases "getSwAgent E request pd w")
  case (Inr a)
  show ?thesis
  proof (cases "selectorKeys (rangeOf (jae_rangeLabels E) (pod_Labels pd))")
    case (Cons key ks)
    define funcs where "funcs = agentFuncs (GetInjectedAgentConfig (rangeOf (jae_rangeAnnotations E) (pod_Annotations pd))
      (injectConfigBySwAgent a Map.empty)) key (nilget (pod_Labels pd) key) o' (ok_Namespace request)"
    have sep: "CHR ''='' \<in> set (jf_PodSelector funcs)"
      unfolding funcs_def by (rule podSelector_separator)
    obtain c err w1 where ap: "Apply (podApplication R pd funcs) ''injector/templates/javaagent.yaml'' False w = ((c, err), w1)"
      by (metis surj_pair)
    obtain e w2 where "JavaAgent_UpdateStatus E S (ok_Namespace request) (jf_SelectorName funcs) (jf_PodSelector funcs) w1 = Inr (e, w2)"
      using JavaAgent_UpdateStatus_total [OF sep, of E S "ok_Namespace request" "jf_SelectorName funcs" w1]
      by (elim exE)
    then show ?thesis
      unfolding reconcileOwned_def Inr Let_def sum.case Cons list.case funcs_def [symmetric] ap prod.case
      by (cases err) simp_all
  qed (simp add: reconcileOwned_def Inr)
qed (simp add: reconcileOwned_def)

lemma JavaAgent_Reconcile_total: "\<exists>err w'. JavaAgent_Reconcile E R S request w = Inr ((noResult, err), w')"
proof (cases "jae_GetPod E request w")
  case (Inl e)
  then show ?thesis by (simp add: JavaAgent_Reconcile_def Let_def zeroPod_def zeroMeta_def)
next
  case (Inr pd)
  show ?thesis
  proof (cases "om_OwnerReferences (pod_Meta pd)")
    case (Cons o' os)
    obtain err w' where "reconcileOwned E R S request pd o' w = Inr ((noResult, err), w')"
      using reconcileOwned_total [of E R S request pd o' w] by (elim exE)
    then show ?thesis by (simp add: JavaAgent_Reconcile_def Let_def Inr Cons split: sum.split)
  qed (simp add: JavaAgent_Reconcile_def Let_def Inr)
qed

lemma reconcileOwned_order:
  assumes "pod_Labels pd = Some l" and "ranges l (jae_rangeLabels E l)" and "ranges l (lo l)"
    and "pod_Annotations pd = Some m" and "ranges m (jae_rangeAnnotations E m)" and "ranges m (ao m)"
    and "inj_on configEntry {k \<in> dom m. configEntry k \<noteq> None}"
  shows "reconcileOwned (E\<lparr>jae_rangeLabels := lo, jae_rangeAnnotations := ao\<rparr>) R S request pd o' w =
    reconcileOwned E R S request pd o' w"
proof -
  let ?E = "E\<lparr>jae_rangeLabels := lo, jae_rangeAnnotations := ao\<rparr>"
  have "selectorKeys (rangeOf (jae_rangeLabels ?E) (pod_Labels pd)) = selectorKeys (rangeOf (jae_rangeLabels E) (pod_Labels pd))"
    using selectorKeys_order [OF assms(3,2)] by (simp add: rangeOf_def assms(1))
  moreover have "GetInjectedAgentConfig (rangeOf (jae_rangeAnnotations ?E) (pod_Annotations pd)) =
      GetInjectedAgentConfig (rangeOf (jae_rangeAnnotations E) (pod_Annotations pd))"
    using GetInjectedAgentConfig_order [OF assms(6,5,7)] by (simp add: rangeOf_def assms(4) fun_eq_iff)
  ultimately show ?thesis
    unfolding reconcileOwned_def by (simp only: reorder_simps)
qed


section \<open>What is reported\<close>

lemma ToLower_idem [simp]: "ToLower (ToLower s) = ToLower s"
proof -
  have "lower (lower c) = lower c" for c by (simp add: lower_def Let_def)
  then show ?thesis by (simp add: ToLower_def)
qed

lemma injectedLoop_counts:
  "injectedLoop items (a, b) =
     (a + int (length (filter (\<lambda>p. EqualFold (nilget (pod_Labels p) ActiveInjectorLabel) ''true'') items)),
      b + int (length (filter (\<lambda>p. EqualFold (nilget (pod_Annotations p) SidecarInjectSucceedAnno) ''true'') items)))"
proof (induction items arbitrary: a b)
  case (Cons p items)
  have "m \<noteq> None \<and> EqualFold (ToLower (nilget m k)) ''true'' \<longleftrightarrow> EqualFold (nilget m k) ''true''" for m k
    by (cases m) (simp_all add: EqualFold_def, simp add: ToLower_def)
  then show ?case by (simp add: Cons)
qed simp

text \<open>The status of a \<open>JavaAgent\<close>. For a workload whose label has no equals sign, the update writes,
  in a single attempt, the number of pods the selector matches that are labelled for injection and
  the number of those marked as injected, keeps the creation time once it is set, and fails exactly
  when that attempt does.\<close>

theorem javaagent_status_counts:
  assumes "retriesConflicts S" and "se_Get S (objectKey ns (name @ ''-javaagent'')) w = Inr j" and "cr_Name j \<noteq> []"
    and "CHR ''='' \<notin> set k" and "CHR ''='' \<notin> set v" and "jae_ListPods E ns (k, v) w = Inr pods"
  shows "\<exists>overlay err j' c w' res.
      statusAttempt S ''JavaAgent'' ''failed to get javaagent: '' ''failed to update status of JavaAgent: '' overlay
        (j\<lparr>cr_Status := overlay\<rparr>, [], w) = (err, (j', c, w'))
      \<and> JavaAgent_UpdateStatus E S ns name (k @ ''='' @ v) w = Inr (res, w') \<and> (res = None \<longleftrightarrow> err = None)
      \<and> jas_ExpectedInjectedNum overlay =
          int (length (filter (\<lambda>p. EqualFold (nilget (pod_Labels p) ActiveInjectorLabel) ''true'') pods))
      \<and> jas_RealInjectedNum overlay =
          int (length (filter (\<lambda>p. EqualFold (nilget (pod_Annotations p) SidecarInjectSucceedAnno) ''true'') pods))
      \<and> jas_CreationTime overlay = (if jas_CreationTime (cr_Status j) = 0 then jae_Now E w else jas_CreationTime (cr_Status j))
      \<and> jas_LastUpdateTime overlay = jae_Now E w"
proof -
  define overlay where "overlay = javaAgentStatus pods (jae_Now E w) (cr_Status j)"
  obtain err j' c w' where att: "statusAttempt S ''JavaAgent'' ''failed to get javaagent: ''
      ''failed to update status of JavaAgent: '' overlay (j\<lparr>cr_Status := overlay\<rparr>, [], w) = (err, (j', c, w'))"
    by (metis prod_cases4)
  have split: "Split (k @ ''='' @ v) CHR ''='' = [k, v]"
    using assms(4,5) by (simp add: Split_append_sep Split_single)
  have run: "JavaAgent_updateStatus S overlay (j\<lparr>cr_Status := overlay\<rparr>, [], w) = (err, (j', c, w'))"
    unfolding JavaAgent_updateStatus_def retry_statusAttempt [OF assms(1)] att ..
  have upd: "JavaAgent_UpdateStatus E S ns name (k @ ''='' @ v) w =
      Inr (ErrorCollector_Error (collectOpt ''failed to update java status: '' err c), w')"
    using assms(3) run unfolding JavaAgent_UpdateStatus_def Let_def assms(2,6) split
    by (simp add: overlay_def collectOpt_def assms(6))
  have same: "ErrorCollector_Error (collectOpt ''failed to update java status: '' err c) = None \<longleftrightarrow> err = None"
    using statusAttempt_returns [OF att] by simp
  have counts: "jas_ExpectedInjectedNum overlay =
          int (length (filter (\<lambda>p. EqualFold (nilget (pod_Labels p) ActiveInjectorLabel) ''true'') pods))"
    "jas_RealInjectedNum overlay =
          int (length (filter (\<lambda>p. EqualFold (nilget (pod_Annotations p) SidecarInjectSucceedAnno) ''true'') pods))"
    "jas_CreationTime overlay = (if jas_CreationTime (cr_Status j) = 0 then jae_Now E w else jas_CreationTime (cr_Status j))"
    "jas_LastUpdateTime overlay = jae_Now E w"
    by (simp_all add: overlay_def javaAgentStatus_def injectedLoop_counts Let_def)
  show ?thesis by (intro exI conjI) (rule att upd same counts)+
qed

section \<open>Examples\<close>

definition demoMeta :: "gomap option \<Rightarrow> gomap option \<Rightarrow> ObjectMeta" where
  "demoMeta labels annotations = zeroMeta\<lparr>om_Labels := labels, om_Annotations := annotations,
     om_OwnerReferences := [\<lparr>or_APIVersion = ''apps/v1'', or_Kind = ''ReplicaSet'', or_Name = ''demo'', or_UID = ''1'',
       or_Controller = None, or_BlockOwnerDeletion = None\<rparr>]\<rparr>"

definition demoLabels :: entries where
  "demoLabels = [(''app'', ''demo''), (''swck-java-agent-injected'', ''true'')]"

definition demoAnnos :: entries where
  "demoAnnos = [(''sidecar.skywalking.apache.org/succeed'', ''true''), (''plugins.skywalking.apache.org/p'', ''1'')]"

definition demoInjected :: Pod where
  "demoInjected = zeroPod\<lparr>pod_Meta := demoMeta (Some (map_of demoLabels)) (Some (map_of demoAnnos))\<rparr>"

definition demoJavaAgent :: JavaAgent where
  "demoJavaAgent = zeroJavaAgent\<lparr>cr_Meta := zeroMeta\<lparr>om_Name := ''app-demo-javaagent''\<rparr>\<rparr>"

definition demoAgentEnv :: "unit JavaAgentEnv" where
  "demoAgentEnv = \<lparr>jae_GetPod = (\<lambda>k w. Inr demoInjected), jae_GetConfigMap = (\<lambda>k w. Inr zeroConfigMap),
     jae_ListSwAgents = (\<lambda>ns w. Inr []), jae_ListPods = (\<lambda>ns l w. Inr [demoInjected]), jae_Now = (\<lambda>w. 7),
     jae_rangeLabels = (\<lambda>m. demoLabels), jae_rangeAnnotations = (\<lambda>m. demoAnnos)\<rparr>"

theorem javaagent_reports_injected_agent_witness:
  "\<exists>a. getSwAgent demoAgentEnv (objectKey ''default'' []) demoInjected () = Inr a
     \<and> lastSwAgent (findMatchedSwAgentL demoEnv demoReq demoInjected) = map_option cr_Spec a"
  using javaagent_reports_injected_agent [of demoAgentEnv "objectKey ''default'' []" "()" "[]" demoEnv demoReq None
      demoInjected demoInjected]
  by (simp add: demoAgentEnv_def demoEnv_def)

lemma demo_range_orders:
  "ranges (map_of demoLabels) demoLabels" "ranges (map_of demoLabels) (rev demoLabels)"
  "ranges (map_of demoAnnos) demoAnnos" "ranges (map_of demoAnnos) (rev demoAnnos)"
  by (auto simp: ranges_def demoLabels_def demoAnnos_def fun_eq_iff)

lemma demo_inj: "inj_on configEntry {k \<in> dom (map_of demoAnnos). configEntry k \<noteq> None}"
proof -
  have "configEntry ''sidecar.skywalking.apache.org/succeed'' = None"
    by (simp add: configEntry_def injector_keys HasPrefix_def EqualFold_def ToLower_def lower_def)
  then have "{k \<in> dom (map_of demoAnnos). configEntry k \<noteq> None} \<subseteq> {''plugins.skywalking.apache.org/p''}"
    by (auto simp: demoAnnos_def split: if_splits)
  then show ?thesis by (rule inj_on_subset [rotated]) simp
qed


theorem javaagent_status_counts_witness:
  "\<exists>overlay err j' c w' res.
     statusAttempt ((plainStatusEnv (cr_Spec demoJavaAgent))\<lparr>se_Get := (\<lambda>k w. Inr demoJavaAgent)\<rparr>) ''JavaAgent''
       ''failed to get javaagent: '' ''failed to update status of JavaAgent: '' overlay
       (demoJavaAgent\<lparr>cr_Status := overlay\<rparr>, [], ()) = (err, (j', c, w'))
     \<and> JavaAgent_UpdateStatus demoAgentEnv ((plainStatusEnv (cr_Spec demoJavaAgent))\<lparr>se_Get := (\<lambda>k w. Inr demoJavaAgent)\<rparr>)
         [] ''app-demo'' (''app'' @ ''='' @ ''demo'') () = Inr (res, w')
     \<and> jas_LastUpdateTime overlay = jae_Now demoAgentEnv ()"
proof -
  let ?S = "(plainStatusEnv (cr_Spec demoJavaAgent))\<lparr>se_Get := (\<lambda>k w. Inr demoJavaAgent)\<rparr>"
  have "retriesConflicts ?S" by (simp add: retriesConflicts_def plainStatusEnv_def)
  note pre = this
  have "se_Get ?S (objectKey [] (''app-demo'' @ ''-javaagent'')) () = Inr demoJavaAgent" by simp
  note pre = pre this
  have "cr_Name demoJavaAgent \<noteq> []" by (simp add: demoJavaAgent_def)
  note pre = pre this
  have "CHR ''='' \<notin> set ''app''" "CHR ''='' \<notin> set ''demo''" by simp_all
  note pre = pre this
  have "jae_ListPods demoAgentEnv [] (''app'', ''demo'') () = Inr [demoInjected]" by (simp add: demoAgentEnv_def)
  from javaagent_status_counts [OF pre this] show ?thesis
    by (elim exE conjE) (intro exI conjI, assumption+)
qed

end
