(* ===== verification/Pod_Lifecycle.thy ===== *)
theory Pod_Lifecycle
  imports JavaAgent_Controller
begin

text \<open>
  The life of a pod between the two components that deal with injected pods. The API server sends a
  pod to the injection webhook whenever it is submitted, possibly several times for one submission,
  and applies the patch it gets back; in between, users edit the pod. The Java agent controller sees
  the pods its event filter lets through. The life of a pod is a step relation, and what holds of
  every pod on the way is shown by rule induction.
\<close>

section \<open>Steps\<close>

text \<open>One admission: the pod is allowed as it is, or the patched pod is what the answer decodes to. A
  request that is answered with an error changes nothing.\<close>

inductive admission :: "InjectEnv \<Rightarrow> Pod \<Rightarrow> Pod \<Rightarrow> bool" for E where
  allowed: "ie_decode E r = Inr p \<Longrightarrow> Handle E r = Inr (Allowed msg) \<Longrightarrow> admission E p p"
| patched: "ie_decode E r = Inr p \<Longrightarrow> Handle E r = Inr (PatchResponseFromRaw raw b) \<Longrightarrow>
    ie_decode E (r\<lparr>req_Raw := b\<rparr>) = Inr q \<Longrightarrow> admission E p q"

inductive_cases admissionE [elim]: "admission E p q"

text \<open>What a user may change: anything but the init containers, which the API server does not let them
  change, and the mark of a successful injection, which they are expected to leave alone.\<close>

definition keepsInjection :: "Pod \<Rightarrow> Pod \<Rightarrow> bool" where
  "keepsInjection p q \<longleftrightarrow> pod_InitContainers q = pod_InitContainers p \<and>
     nilget (pod_Annotations q) SidecarInjectSucceedAnno = nilget (pod_Annotations p) SidecarInjectSucceedAnno"

inductive lifecycle :: "InjectEnv \<Rightarrow> Pod \<Rightarrow> Pod \<Rightarrow> bool" for E where
  submitted: "lifecycle E p p"
| admits: "lifecycle E p q \<Longrightarrow> admission E q q' \<Longrightarrow> lifecycle E p q'"
| edited: "lifecycle E p q \<Longrightarrow> keepsInjection q q' \<Longrightarrow> lifecycle E p q'"

text \<open>What is relied on of the codecs: an encoded pod decodes to itself.\<close>

definition codec :: "InjectEnv \<Rightarrow> bool" where
  "codec E \<longleftrightarrow> (\<forall>q b r. ie_marshal E q = Inr b \<longrightarrow> ie_decode E (r\<lparr>req_Raw := b\<rparr>) = Inr q)"

section \<open>The effect of one admission\<close>

lemma CreateFunc_iff: "CreateFunc p \<longleftrightarrow> EqualFold (nilget (pod_Annotations p) SidecarInjectSucceedAnno) ''true''"
proof -
  have "ToLower ''true'' = ''true''" by (simp add: ToLower_def lower_def)
  then show ?thesis
    by (cases "pod_Annotations p") (auto simp: CreateFunc_def wasInjected_def EqualFold_def ToLower_def)
qed

lemma CreateFunc_kept: "keepsInjection p q \<Longrightarrow> CreateFunc q = CreateFunc p"
  by (simp add: keepsInjection_def CreateFunc_iff)

lemma nilget_podAnnotations [simp]: "mapget (podAnnotations p) k = nilget (pod_Annotations p) k"
  by (cases "pod_Annotations p") (simp_all add: podAnnotations_def)

lemma wanted_not_created: "wantsInjection (pod_Labels p) (Some (podAnnotations p)) \<Longrightarrow> \<not> CreateFunc p"
  by (simp add: wantsInjection_def CreateFunc_iff)

lemma marked_keeps:
  assumes "marked (podAnnotations p) m'"
  shows "keepsInjection p (setAnnotations (Some m') p)"
proof -
  have "mapget m' SidecarInjectSucceedAnno = mapget (podAnnotations p) SidecarInjectSucceedAnno"
    using assms by (auto simp: marked_def injector_keys mapget_upd)
  then show ?thesis by (simp add: keepsInjection_def)
qed

lemma admission_effect:
  assumes "NewAnnotations (ie_readFile E) (ie_yaml E) = Inr a" and "codec E" and "admission E p q"
  shows "keepsInjection p q
    \<or> (\<not> CreateFunc p \<and> CreateFunc q \<and> (\<exists>s :: SidecarInjectField. pod_InitContainers q = pod_InitContainers p @ [Initcontainer s]))"
  using assms(3)
proof cases
  case (allowed r msg)
  then show ?thesis by (simp add: keepsInjection_def)
next
  case (patched r raw b)
  have answer: "q = q'" if "Handle E r = Inr (PatchReq E q' r)" for q'
    using that patched(2,3) assms(2) by (auto simp: PatchReq_def codec_def split: sum.splits)
  have wanted: "wantsInjection (pod_Labels p) (Some (podAnnotations p))"
    using Handle_ends [OF patched(1) assms(1)] patched(2) by (auto split: if_splits)
  then consider m' where "marked (podAnnotations p) m'" "q = setAnnotations (Some m') p"
    | s where "q = setAnnotations (Some ((podAnnotations p)(SidecarInjectSucceedAnno \<mapsto> ''true'',
        ActiveInjectorLabel \<mapsto> ''true''))) (Inject (ie_regexp E) s p)"
    using Handle_ends [OF patched(1) assms(1)] answer by auto
  then show ?thesis
  proof cases
    case 1
    then show ?thesis using marked_keeps by blast
  next
    case (2 s)
    have "pod_InitContainers q = pod_InitContainers p @ [Initcontainer s]"
      by (simp add: 2 Inject_def Let_def)
    moreover have "CreateFunc q" by (simp add: 2 CreateFunc_iff injector_keys)
    ultimately show ?thesis using wanted_not_created [OF wanted] by blast
  qed
qed


lemma bare_admission: "admission bareEnv barePod bareInjected"
  by (rule admission.patched [OF bare_facts(1) bare_Handle]) (simp add: bareEnv_def demoReq_def)

lemma bare_codec: "codec bareEnv"
  by (simp add: codec_def bareEnv_def)


end
