(* ===== verification/Storage_Controller.thy ===== *)
theory Storage_Controller
  imports Controller_Common
begin

text \<open>
  The reconciler for \<open>Storage\<close>: preparing the specification (\<open>checkSecurity\<close>), the certificate of the
  storage cluster (\<open>createCert\<close>), applying the manifests and reporting the state of the stateful set.
  The certificate API, the cryptography and the clock are collected in one record of parameters.
\<close>

section \<open>State\<close>

definition Storage_updateStatus ::
  "('w, StorageSpec, StorageStatus) StatusEnv \<Rightarrow> StorageStatus \<Rightarrow> ('w, StorageSpec, StorageStatus) statusState
   \<Rightarrow> goerror option \<times> ('w, StorageSpec, StorageStatus) statusState" where
  "Storage_updateStatus E overlay =
     se_Retry E (statusAttempt E ''Storage'' ''failed to get storage: ''
       ''failed to update status of storage: '' overlay)"

definition Storage_overlay ::
  "'w Reads \<Rightarrow> Storage \<Rightarrow> Time \<Rightarrow> 'w \<Rightarrow> StorageStatus \<times> ErrorCollector" where
  "Storage_overlay rd s now w =
     (let name = cr_Name s @ ''-'' @ sto_Type (cr_Spec s);
          overlay = \<lparr>stos_Conditions = []\<rparr>
      in case readOrZero (rd_StatefulSet rd (objectKey (cr_Namespace s) name) w) zeroStatefulSet of
           Inl err \<Rightarrow> (overlay, Collect [] (WrapError ''failed to get statefulset: '' err []))
         | Inr sts \<Rightarrow>
             if sts_ReadyReplicas sts = sts_Replicas sts then
               (overlay\<lparr>stos_Conditions := stos_Conditions overlay @
                  [\<lparr>ssc_Type = ''Ready'', ssc_Status = ''True'', ssc_LastTransitionTime = now,
                    ssc_Reason = ''statefulset '' @ name @ '' is ready''\<rparr>]\<rparr>, [])
             else (overlay, []))"

definition Storage_checkState ::
  "'w Reads \<Rightarrow> ('w, StorageSpec, StorageStatus) StatusEnv \<Rightarrow> Storage \<Rightarrow> Time \<Rightarrow> 'w
   \<Rightarrow> goerror option \<times> ('w, StorageSpec, StorageStatus) statusState" where
  "Storage_checkState rd E s now w =
     (case Storage_overlay rd s now w of
        (overlay, errCol) \<Rightarrow>
          finishState E (Storage_updateStatus E) ''Storage'' True ''failed to update status of es: ''
            overlay (s, errCol, w))"

section \<open>checkSecurity\<close>

fun userEnvLoop :: "entries \<Rightarrow> EnvVar list \<Rightarrow> EnvVar list" where
  "userEnvLoop [] config = config"
| "userEnvLoop ((k, v) # it) config =
     userEnvLoop it
       (if k = ''username'' then config @ [EnvVarOf ''SW_ES_USER'' v, EnvVarOf ''ELASTIC_USER'' v]
        else if k = ''password'' then config @ [EnvVarOf ''SW_ES_PASSWORD'' v, EnvVarOf ''ELASTIC_PASSWORD'' v]
        else config)"

definition userEnv :: "'w Reads \<Rightarrow> Storage \<Rightarrow> 'w \<Rightarrow> EnvVar list \<Rightarrow> EnvVar list" where
  "userEnv rd s w config =
     (let secretName = us_SecretName (sec_User (sto_Security (cr_Spec s))) in
      if secretName \<noteq> [] then
        (if secretName = ''default'' then
           config @ [EnvVarOf ''SW_ES_USER'' ''elastic'', EnvVarOf ''ELASTIC_USER'' ''elastic'',
                     EnvVarOf ''SW_ES_PASSWORD'' ''changeme'', EnvVarOf ''ELASTIC_PASSWORD'' ''changeme'']
         else (let usersecret = (case rd_Secret rd (objectKey (cr_Namespace s) secretName) w of
                                   Inl err \<Rightarrow> zeroSecret | Inr sec \<Rightarrow> sec)
               in userEnvLoop (sec_Data usersecret) config))
      else config)"

text \<open>\<open>make([]string, n)\<close> panics for a negative \<open>n\<close>; the loop fills every element.\<close>

definition masterNodes :: "string \<Rightarrow> int32 \<Rightarrow> gopanic + string list" where
  "masterNodes name instances =
     (if sint instances < 0 then Inl MakeSliceLen
      else Inr (map (\<lambda>i. name @ ''-elasticsearch-'' @ Itoa (int i)) [0..<nat (sint instances)]))"

definition setServiceName :: "string \<Rightarrow> bool \<Rightarrow> StorageSpec \<Rightarrow> StorageSpec" where
  "setServiceName name tls spec =
     (if tls then spec\<lparr>sto_ServiceName := ''skywalking-storage''\<rparr>
      else spec\<lparr>sto_ServiceName := name @ ''-'' @ sto_Type spec\<rparr>)"

definition setDefaultResources :: "StorageSpec \<Rightarrow> StorageSpec" where
  "setDefaultResources spec =
     (if res_Limit (sto_ResourceCnfig spec) = [] \<and> res_Requests (sto_ResourceCnfig spec) = []
      then spec\<lparr>sto_ResourceCnfig := \<lparr>res_Limit = ''1000m'', res_Requests = ''100m''\<rparr>\<rparr> else spec)"

definition setDefaultJavaOpts :: "StorageSpec \<Rightarrow> StorageSpec" where
  "setDefaultJavaOpts spec =
     (if \<not> list_ex (\<lambda>e. ev_Name e = ''ES_JAVA_OPTS'') (sto_Config spec)
      then spec\<lparr>sto_Config := sto_Config spec @ [EnvVarOf ''ES_JAVA_OPTS'' ''-Xms1g -Xmx1g'']\<rparr> else spec)"

definition checkSecurity :: "'w Reads \<Rightarrow> Storage \<Rightarrow> 'w \<Rightarrow> gopanic + Storage" where
  "checkSecurity rd s w =
     (let spec = cr_Spec s;
          tls = sec_TLS (sto_Security spec);
          spec = spec\<lparr>sto_Config := userEnv rd s w (sto_Config spec)\<rparr>;
          spec = setServiceName (cr_Name s) tls spec;
          spec = setDefaultResources spec;
          spec = setDefaultJavaOpts spec;
          spec = spec\<lparr>sto_Config := sto_Config spec @ [EnvVarOf ''discovery.seed_hosts'' (sto_ServiceName spec)]\<rparr>
      in case masterNodes (cr_Name s) (sto_Instances spec) of
           Inl panic \<Rightarrow> Inl panic
         | Inr nodes \<Rightarrow>
             Inr (s\<lparr>cr_Spec := spec\<lparr>sto_Config := sto_Config spec @
                [EnvVarOf ''cluster.initial_master_nodes'' (Join nodes '','')]\<rparr>\<rparr>))"

section \<open>createCert\<close>

record CSR =
  csr_Request :: string
  csr_Conditions :: "(string \<times> string \<times> string) list"
  csr_Certificate :: "string option"

record CSRequest =
  cq_Name :: string
  cq_Groups :: "string list"
  cq_Request :: string
  cq_SignerName :: string
  cq_Usages :: "string list"

record ('w, 'key, 'cert) CertEnv =
  ce_NewForConfig :: "goerror option"
  ce_GetSecret :: "string \<Rightarrow> string \<Rightarrow> 'w \<Rightarrow> goerror option \<times> Secret"
  ce_DeleteSecret :: "string \<Rightarrow> string \<Rightarrow> 'w \<Rightarrow> goerror option \<times> 'w"
  ce_CreateSecret :: "Secret \<Rightarrow> 'w \<Rightarrow> goerror option \<times> 'w"
  ce_DeleteCSR :: "string \<Rightarrow> 'w \<Rightarrow> goerror option \<times> 'w"
  ce_CreateCSR :: "CSRequest \<Rightarrow> 'w \<Rightarrow> (goerror + CSR) \<times> 'w"
  ce_UpdateApproval :: "CSR \<Rightarrow> 'w \<Rightarrow> goerror option \<times> 'w"
  ce_GetCSR :: "string \<Rightarrow> 'w \<Rightarrow> (goerror + CSR) \<times> 'w"
  ce_Now :: "'w \<Rightarrow> Time"
  ce_GenerateKey :: "goerror + 'key"
  ce_MarshalSubject :: "string \<Rightarrow> string list \<Rightarrow> goerror + string"
  ce_CreateCertificateRequest :: "string \<Rightarrow> 'key \<Rightarrow> goerror + string"
  ce_PemEncode :: "string \<Rightarrow> string \<Rightarrow> goerror + string"
  ce_PemDecode :: "string \<Rightarrow> string option"
  ce_ParseCertificate :: "string \<Rightarrow> goerror + 'cert"
  ce_Pkcs12Encode :: "'key \<Rightarrow> 'cert \<Rightarrow> string \<Rightarrow> goerror + string"
  ce_Pkcs12Decode :: "string \<Rightarrow> string \<Rightarrow> goerror + Time"

definition day :: Time where
  "day = 24 * 3600 * 1000000000"

text \<open>Whether a certificate has to be made: there is no secret, or the certificate in it expires
  within a day; any failure means no.\<close>

definition certNeeded :: "('w, 'key, 'cert) CertEnv \<Rightarrow> Storage \<Rightarrow> 'w \<Rightarrow> bool" where
  "certNeeded C s w =
     (case ce_GetSecret C (cr_Namespace s) ''skywalking-storage'' w of
        (err, existSecret) \<Rightarrow>
          if (case err of None \<Rightarrow> False | Some e \<Rightarrow> \<not> IsNotFound e) then False
          else if om_Name (sec_Meta existSecret) \<noteq> [] then
            (case ce_Pkcs12Decode C (mapget (map_of (sec_Data existSecret)) ''storage.p12'') [] of
               Inl decodeErr \<Rightarrow> False
             | Inr notAfter \<Rightarrow> notAfter - ce_Now C w < day)
          else True)"

text \<open>Key and PEM-encoded signing request.\<close>

definition newRequest :: "('w, 'key, 'cert) CertEnv \<Rightarrow> ('key \<times> string) option" where
  "newRequest C =
     (case ce_GenerateKey C of
        Inl err \<Rightarrow> None
      | Inr key \<Rightarrow>
          (case ce_MarshalSubject C ''skywalking-storage'' [''CN'', ''ZJ'', ''HZ'', ''Skywalking'', ''Skywalking''] of
             Inl err \<Rightarrow> None
           | Inr asn1Subj \<Rightarrow>
               (case ce_CreateCertificateRequest C asn1Subj key of
                  Inl err \<Rightarrow> None
                | Inr csrBytes \<Rightarrow>
                    (case ce_PemEncode C ''CERTIFICATE REQUEST'' csrBytes of
                       Inl err \<Rightarrow> None
                     | Inr buffer \<Rightarrow> Some (key, buffer)))))"

definition storageRequest :: "string \<Rightarrow> CSRequest" where
  "storageRequest buffer =
     \<lparr>cq_Name = ''storage-csr'', cq_Groups = [''system:authenticated''], cq_Request = buffer,
      cq_SignerName = ''kubernetes.io/legacy-unknown'', cq_Usages = [''client auth'']\<rparr>"

text \<open>The loop that polls until the certificate is there; it need not end.\<close>

partial_function (option) pollCSR :: "('w, 'key, 'cert) CertEnv \<Rightarrow> 'w \<Rightarrow> ((goerror + CSR) \<times> 'w) option" where
  "pollCSR C w =
     (case ce_GetCSR C ''storage-csr'' w of
        (Inl err, w') \<Rightarrow> Some (Inl err, w')
      | (Inr csr, w') \<Rightarrow> if csr_Certificate csr \<noteq> None then Some (Inr csr, w') else pollCSR C w')"

text \<open>Storing the signed certificate.\<close>

definition storeCert :: "('w, 'key, 'cert) CertEnv \<Rightarrow> Storage \<Rightarrow> 'key \<Rightarrow> string \<Rightarrow> 'w \<Rightarrow> gopanic + 'w" where
  "storeCert C s key certificate w =
     (case ce_PemDecode C certificate of
        None \<Rightarrow> Inl NilDeref
      | Some block \<Rightarrow>
          (case ce_ParseCertificate C block of
             Inl err \<Rightarrow> Inr w
           | Inr cert \<Rightarrow>
               (case ce_Pkcs12Encode C key cert ''skywalking'' of
                  Inl err \<Rightarrow> Inr w
                | Inr p12 \<Rightarrow>
                    (case ce_DeleteSecret C (cr_Namespace s) ''skywalking-storage'' w of
                       (err, w) \<Rightarrow>
                         if (case err of None \<Rightarrow> False | Some e \<Rightarrow> \<not> IsNotFound e) then Inr w
                         else Inr (snd (ce_CreateSecret C
                            \<lparr>sec_Meta = zeroMeta\<lparr>om_Name := ''skywalking-storage'', om_Namespace := cr_Namespace s\<rparr>,
                             sec_Type = ''Opaque'', sec_Data = [(''storage.p12'', p12)]\<rparr> w))))))"

definition createCert :: "('w, 'key, 'cert) CertEnv \<Rightarrow> Storage \<Rightarrow> 'w \<Rightarrow> (gopanic + 'w) option" where
  "createCert C s w =
     (if ce_NewForConfig C \<noteq> None then Some (Inr w)
      else if \<not> certNeeded C s w then Some (Inr w)
      else (case newRequest C of
          None \<Rightarrow> Some (Inr w)
        | Some (key, buffer) \<Rightarrow>
            (case ce_DeleteCSR C ''storage-csr'' w of
               (err, w) \<Rightarrow>
                 if (case err of None \<Rightarrow> False | Some e \<Rightarrow> \<not> IsNotFound e) then Some (Inr w)
                 else
                   (case ce_CreateCSR C (storageRequest buffer) w of
                      (Inl err, w) \<Rightarrow> Some (Inr w)
                    | (Inr csr, w) \<Rightarrow>
                        (let csr = csr\<lparr>csr_Conditions := csr_Conditions csr @
                               [(''Approved'', ''ApprovedBySkywalkingStorage'', ''Approved by skywalking storage controller'')]\<rparr>
                         in case ce_UpdateApproval C csr w of
                              (Some err, w) \<Rightarrow> Some (Inr w)
                            | (None, w) \<Rightarrow>
                                (case pollCSR C w of
                                   None \<Rightarrow> None
                                 | Some (Inl err, w) \<Rightarrow> Some (Inr w)
                                 | Some (Inr csr, w) \<Rightarrow>
                                     (case csr_Certificate csr of
                                        None \<Rightarrow> Some (Inl NilDeref)
                                      | Some certificate \<Rightarrow> Some (storeCert C s key certificate w))))))))"

section \<open>Reconcile\<close>

definition getProtocol :: "bool \<Rightarrow> string" where
  "getProtocol tls = (if tls then ''https'' else ''http'')"

definition tmplFunc :: "(string \<times> (bool \<Rightarrow> string)) list" where
  "tmplFunc = [(''getProtocol'', getProtocol)]"

definition Storage_Reconcile ::
  "('w, (string \<times> (bool \<Rightarrow> string)) list, Storage) ReconcilerEnv \<Rightarrow> ('w, StorageSpec, StorageStatus) StatusEnv
   \<Rightarrow> ('w, 'key, 'cert) CertEnv \<Rightarrow> Time \<Rightarrow> ObjectKey \<Rightarrow> 'w \<Rightarrow> (gopanic + 'w reconciled) option" where
  "Storage_Reconcile R E C now req w =
     (case se_Get E req w of
        Inl err \<Rightarrow> Some (Inr ((noResult, IgnoreNotFound err), w))
      | Inr storage \<Rightarrow>
          if sto_ConnectType (cr_Spec storage) = ''external''
          then Some (Inr ((\<lparr>RequeueAfter = schedDuration\<rparr>, None), w))
          else
            (case createCert C storage w of
               None \<Rightarrow> None
             | Some (Inl panic) \<Rightarrow> Some (Inl panic)
             | Some (Inr w) \<Rightarrow>
                 (case checkSecurity (re_Reads R) storage w of
                    Inl panic \<Rightarrow> Some (Inl panic)
                  | Inr storage \<Rightarrow>
                      (case re_GetFilesRecursive R (sto_Type (cr_Spec storage) @ ''/templates'') of
                         Inl err \<Rightarrow> Some (Inr ((noResult, Some err), w))
                       | Inr ff \<Rightarrow>
                           (case ApplyAll (applicationFor R storage (WithKind GroupVersion ''Storage'') (Some tmplFunc)) ff w of
                              (Some err, w) \<Rightarrow> Some (Inr ((noResult, Some err), w))
                            | (None, w) \<Rightarrow>
                                (case Storage_checkState (re_Reads R) E storage now w of
                                   (Some err, (cr, errCol, w)) \<Rightarrow> Some (Inr ((noResult, Some err), w))
                                 | (None, (cr, errCol, w)) \<Rightarrow>
                                     Some (Inr ((\<lparr>RequeueAfter = schedDuration\<rparr>, None), w))))))))"

section \<open>Readiness\<close>

text \<open>When a storage is reported ready. The check adds the condition \<open>Ready\<close> exactly when the
  stateful set is found with as many ready replicas as replicas, or is not found at all; a
  stateful set that does not exist therefore counts as ready, and only other read errors are
  collected.\<close>

theorem Storage_ready_iff:
  "(stos_Conditions (fst (Storage_overlay rd s now w)) \<noteq> [] \<longleftrightarrow>
     (case rd_StatefulSet rd (objectKey (cr_Namespace s) (cr_Name s @ ''-'' @ sto_Type (cr_Spec s))) w of
        Inl e \<Rightarrow> IsNotFound e | Inr sts \<Rightarrow> sts_ReadyReplicas sts = sts_Replicas sts))
   \<and> (snd (Storage_overlay rd s now w) = [] \<longleftrightarrow>
     (case rd_StatefulSet rd (objectKey (cr_Namespace s) (cr_Name s @ ''-'' @ sto_Type (cr_Spec s))) w of
        Inl e \<Rightarrow> IsNotFound e | Inr sts \<Rightarrow> True))"
  by (auto simp: Storage_overlay_def Let_def readOrZero_def zeroStatefulSet_def Collect_def split: sum.split)

section \<open>The prepared specification\<close>

lemma userEnvLoop_append: "\<exists>new. userEnvLoop it config = config @ new \<and> (\<forall>e \<in> set new. ev_Name e \<noteq> ''ES_JAVA_OPTS'')"
proof (induction it arbitrary: config)
  case (Cons kv it)
  obtain k v where kv: "kv = (k, v)" by (cases kv)
  let ?c = "if k = ''username'' then [EnvVarOf ''SW_ES_USER'' v, EnvVarOf ''ELASTIC_USER'' v]
        else if k = ''password'' then [EnvVarOf ''SW_ES_PASSWORD'' v, EnvVarOf ''ELASTIC_PASSWORD'' v] else []"
  obtain new where "userEnvLoop it (config @ ?c) = (config @ ?c) @ new" "\<forall>e \<in> set new. ev_Name e \<noteq> ''ES_JAVA_OPTS''"
    using Cons by blast
  moreover have "userEnvLoop (kv # it) config = userEnvLoop it (config @ ?c)" by (simp add: kv)
  ultimately show ?case by (intro exI [of _ "?c @ new"]) (auto simp: EnvVarOf_def)
qed simp

lemma userEnv_append: "\<exists>new. userEnv rd s w config = config @ new \<and> (\<forall>e \<in> set new. ev_Name e \<noteq> ''ES_JAVA_OPTS'')"
proof -
  consider "us_SecretName (sec_User (sto_Security (cr_Spec s))) = []"
    | "us_SecretName (sec_User (sto_Security (cr_Spec s))) = ''default''"
    | "us_SecretName (sec_User (sto_Security (cr_Spec s))) \<noteq> []" "us_SecretName (sec_User (sto_Security (cr_Spec s))) \<noteq> ''default''"
    by blast
  then show ?thesis
  proof cases
    case 3
    then show ?thesis using userEnvLoop_append by (simp add: userEnv_def Let_def)
  qed (simp_all add: userEnv_def EnvVarOf_def Let_def)
qed

lemma security_steps:
  "setServiceName name tls spec =
     spec\<lparr>sto_ServiceName := (if tls then ''skywalking-storage'' else name @ ''-'' @ sto_Type spec)\<rparr>"
  "setDefaultResources spec = spec\<lparr>sto_ResourceCnfig :=
     (if res_Limit (sto_ResourceCnfig spec) = [] \<and> res_Requests (sto_ResourceCnfig spec) = []
      then \<lparr>res_Limit = ''1000m'', res_Requests = ''100m''\<rparr> else sto_ResourceCnfig spec)\<rparr>"
  "setDefaultJavaOpts spec = spec\<lparr>sto_Config := sto_Config spec @
     (if \<exists>e \<in> set (sto_Config spec). ev_Name e = ''ES_JAVA_OPTS'' then [] else [EnvVarOf ''ES_JAVA_OPTS'' ''-Xms1g -Xmx1g''])\<rparr>"
  by (simp_all add: setServiceName_def setDefaultResources_def setDefaultJavaOpts_def list_ex_iff)

lemma checkSecurity_result:
  assumes "checkSecurity rd s w = Inr s'"
  shows "sto_ServiceName (cr_Spec s') =
      (if sec_TLS (sto_Security (cr_Spec s)) then ''skywalking-storage'' else cr_Name s @ ''-'' @ sto_Type (cr_Spec s))"
    and "sto_Security (cr_Spec s') = sto_Security (cr_Spec s)"
    and "set (userEnv rd s w (sto_Config (cr_Spec s))) \<subseteq> set (sto_Config (cr_Spec s'))"
  using assms by (auto simp: checkSecurity_def masterNodes_def Let_def security_steps cong: if_cong split: if_splits)

text \<open>The prepared storage, with \<open>java\<close> the default for the Java options.\<close>

definition defaultJavaOpts :: "StorageSpec \<Rightarrow> EnvVar list" where
  "defaultJavaOpts spec = (if \<exists>e \<in> set (sto_Config spec). ev_Name e = ''ES_JAVA_OPTS'' then []
     else [EnvVarOf ''ES_JAVA_OPTS'' ''-Xms1g -Xmx1g''])"

lemma checkSecurity_prepared:
  assumes "\<not> sint (sto_Instances (cr_Spec s)) < 0"
  shows "\<exists>res. checkSecurity rd s w = Inr (s\<lparr>cr_Spec := (cr_Spec s)\<lparr>
      sto_Config := userEnv rd s w (sto_Config (cr_Spec s)) @ defaultJavaOpts (cr_Spec s) @
        [EnvVarOf ''discovery.seed_hosts'' (if sec_TLS (sto_Security (cr_Spec s)) then ''skywalking-storage''
           else cr_Name s @ ''-'' @ sto_Type (cr_Spec s)),
         EnvVarOf ''cluster.initial_master_nodes''
           (Join (map (\<lambda>i. cr_Name s @ ''-elasticsearch-'' @ Itoa (int i)) [0..<nat (sint (sto_Instances (cr_Spec s)))]) '','')],
      sto_ServiceName := (if sec_TLS (sto_Security (cr_Spec s)) then ''skywalking-storage''
           else cr_Name s @ ''-'' @ sto_Type (cr_Spec s)),
      sto_ResourceCnfig := res\<rparr>\<rparr>)"
proof -
  obtain extra where ex: "userEnv rd s w (sto_Config (cr_Spec s)) = sto_Config (cr_Spec s) @ extra"
    and nj: "\<forall>e \<in> set extra. ev_Name e \<noteq> ''ES_JAVA_OPTS''"
    using userEnv_append [of rd s w "sto_Config (cr_Spec s)"] by (elim exE conjE)
  have java: "(if \<exists>e \<in> set (sto_Config (cr_Spec s) @ extra). ev_Name e = ''ES_JAVA_OPTS'' then []
      else [EnvVarOf ''ES_JAVA_OPTS'' ''-Xms1g -Xmx1g'']) = defaultJavaOpts (cr_Spec s)"
    using nj unfolding defaultJavaOpts_def by auto
  obtain svc where svc: "svc = (if sec_TLS (sto_Security (cr_Spec s)) then ''skywalking-storage''
      else cr_Name s @ ''-'' @ sto_Type (cr_Spec s))" by simp
  obtain nodes where nodes: "nodes = Join (map (\<lambda>i. cr_Name s @ ''-elasticsearch-'' @ Itoa (int i))
      [0..<nat (sint (sto_Instances (cr_Spec s)))]) '',''" by simp
  define res where "res = (if res_Limit (sto_ResourceCnfig (cr_Spec s)) = [] \<and> res_Requests (sto_ResourceCnfig (cr_Spec s)) = []
      then \<lparr>res_Limit = ''1000m'', res_Requests = ''100m''\<rparr> else sto_ResourceCnfig (cr_Spec s))"
  have "checkSecurity rd s w = Inr (s\<lparr>cr_Spec := (cr_Spec s)\<lparr>
      sto_Config := ((sto_Config (cr_Spec s) @ extra) @ defaultJavaOpts (cr_Spec s)) @
        [EnvVarOf ''discovery.seed_hosts'' svc] @ [EnvVarOf ''cluster.initial_master_nodes'' nodes],
      sto_ServiceName := svc, sto_ResourceCnfig := res\<rparr>\<rparr>)"
    using assms by (simp add: checkSecurity_def masterNodes_def Let_def security_steps ex java svc nodes res_def
        cong: if_cong del: bex_simps set_append append.simps)
  then have "checkSecurity rd s w = Inr (s\<lparr>cr_Spec := (cr_Spec s)\<lparr>
      sto_Config := (sto_Config (cr_Spec s) @ extra) @ defaultJavaOpts (cr_Spec s) @
        [EnvVarOf ''discovery.seed_hosts'' svc, EnvVarOf ''cluster.initial_master_nodes'' nodes],
      sto_ServiceName := svc, sto_ResourceCnfig := res\<rparr>\<rparr>)" by simp
  then show ?thesis unfolding ex svc [symmetric] nodes [symmetric] by (intro exI [of _ res])
qed

text \<open>C30. Preparing a storage. A negative number of instances is a run-time panic; otherwise the
  user's configuration is kept in front, exactly one default for \<open>ES_JAVA_OPTS\<close> is added when the
  user gave none and none otherwise, the service name is the fixed one under TLS and derived from
  the name else, the seed host is that service, the last entry lists one master node per instance,
  and everything outside configuration, service name and resources is unchanged.\<close>

theorem checkSecurity_spec:
  "case checkSecurity rd s w of
     Inl panic \<Rightarrow> sint (sto_Instances (cr_Spec s)) < 0 \<and> panic = MakeSliceLen
   | Inr s' \<Rightarrow> 0 \<le> sint (sto_Instances (cr_Spec s))
       \<and> sto_ServiceName (cr_Spec s') =
           (if sec_TLS (sto_Security (cr_Spec s)) then ''skywalking-storage'' else cr_Name s @ ''-'' @ sto_Type (cr_Spec s))
       \<and> (\<exists>new. sto_Config (cr_Spec s') = userEnv rd s w (sto_Config (cr_Spec s)) @ new
            @ [EnvVarOf ''discovery.seed_hosts'' (sto_ServiceName (cr_Spec s')),
               EnvVarOf ''cluster.initial_master_nodes''
                 (Join (map (\<lambda>i. cr_Name s @ ''-elasticsearch-'' @ Itoa (int i)) [0..<nat (sint (sto_Instances (cr_Spec s)))]) '','')]
            \<and> new = (if \<exists>e \<in> set (sto_Config (cr_Spec s)). ev_Name e = ''ES_JAVA_OPTS'' then []
                     else [EnvVarOf ''ES_JAVA_OPTS'' ''-Xms1g -Xmx1g'']))
       \<and> (\<exists>extra. userEnv rd s w (sto_Config (cr_Spec s)) = sto_Config (cr_Spec s) @ extra)
       \<and> (\<exists>c n r. s' = s\<lparr>cr_Spec := (cr_Spec s)\<lparr>sto_Config := c, sto_ServiceName := n, sto_ResourceCnfig := r\<rparr>\<rparr>)"
proof (cases "sint (sto_Instances (cr_Spec s)) < 0")
  case True
  then have "checkSecurity rd s w = Inl MakeSliceLen"
    by (simp add: checkSecurity_def masterNodes_def Let_def security_steps)
  then show ?thesis using True by simp
next
  case False
  obtain res where prepared: "checkSecurity rd s w = Inr (s\<lparr>cr_Spec := (cr_Spec s)\<lparr>
      sto_Config := userEnv rd s w (sto_Config (cr_Spec s)) @ defaultJavaOpts (cr_Spec s) @
        [EnvVarOf ''discovery.seed_hosts'' (if sec_TLS (sto_Security (cr_Spec s)) then ''skywalking-storage''
           else cr_Name s @ ''-'' @ sto_Type (cr_Spec s)),
         EnvVarOf ''cluster.initial_master_nodes''
           (Join (map (\<lambda>i. cr_Name s @ ''-elasticsearch-'' @ Itoa (int i)) [0..<nat (sint (sto_Instances (cr_Spec s)))]) '','')],
      sto_ServiceName := (if sec_TLS (sto_Security (cr_Spec s)) then ''skywalking-storage''
           else cr_Name s @ ''-'' @ sto_Type (cr_Spec s)),
      sto_ResourceCnfig := res\<rparr>\<rparr>)" (is "_ = Inr ?s'")
    using checkSecurity_prepared [OF False, of rd w] by (elim exE)
  show ?thesis
    unfolding prepared sum.case
  proof (intro conjI)
    show "\<exists>extra. userEnv rd s w (sto_Config (cr_Spec s)) = sto_Config (cr_Spec s) @ extra"
      using userEnv_append [of rd s w "sto_Config (cr_Spec s)"] by blast
    show "\<exists>c n r. ?s' = s\<lparr>cr_Spec := (cr_Spec s)\<lparr>sto_Config := c, sto_ServiceName := n, sto_ResourceCnfig := r\<rparr>\<rparr>"
      by (intro exI) (rule refl)
  qed (use False in \<open>simp_all add: defaultJavaOpts_def\<close>)
qed

section \<open>Certificates\<close>

text \<open>The certificate is never renewed. The secret is written with the password \<open>skywalking\<close> and
  read back with the empty one; where decoding with another password fails, a secret this
  controller wrote, however close to its expiry, makes \<open>createCert\<close> return without doing anything.\<close>

theorem storage_cert_never_renewed:
  assumes password: "\<And>key cert pw b pw'. ce_Pkcs12Encode C key cert pw = Inr b \<Longrightarrow> pw' \<noteq> pw \<Longrightarrow>
      \<exists>err. ce_Pkcs12Decode C b pw' = Inl err"
    and "ce_GetSecret C (cr_Namespace s) ''skywalking-storage'' w = (None, secret)"
    and "om_Name (sec_Meta secret) = ''skywalking-storage''"
    and "ce_Pkcs12Encode C key cert ''skywalking'' = Inr bytes" and "sec_Data secret = [(''storage.p12'', bytes)]"
  shows "createCert C s w = Some (Inr w)"
proof -
  obtain err where "ce_Pkcs12Decode C bytes [] = Inl err" using password [OF assms(4), of "[]"] by auto
  then have "\<not> certNeeded C s w" using assms by (simp add: certNeeded_def mapget_def)
  then show ?thesis by (simp add: createCert_def)
qed

definition demoCertEnv :: "(unit, unit, unit) CertEnv" where
  "demoCertEnv = \<lparr>ce_NewForConfig = None,
     ce_GetSecret = (\<lambda>ns n w. (None, zeroSecret\<lparr>sec_Meta := zeroMeta\<lparr>om_Name := ''skywalking-storage''\<rparr>,
       sec_Data := [(''storage.p12'', ''skywalking'')]\<rparr>)),
     ce_DeleteSecret = (\<lambda>ns n w. (None, w)), ce_CreateSecret = (\<lambda>s w. (None, w)), ce_DeleteCSR = (\<lambda>n w. (None, w)),
     ce_CreateCSR = (\<lambda>q w. (Inl (ErrorString ''no''), w)), ce_UpdateApproval = (\<lambda>c w. (None, w)),
     ce_GetCSR = (\<lambda>n w. (Inl (ErrorString ''no''), w)), ce_Now = (\<lambda>w. 0), ce_GenerateKey = Inr (),
     ce_MarshalSubject = (\<lambda>c l. Inr []), ce_CreateCertificateRequest = (\<lambda>s k. Inr []), ce_PemEncode = (\<lambda>t b. Inr b),
     ce_PemDecode = (\<lambda>b. Some b), ce_ParseCertificate = (\<lambda>b. Inr ()), ce_Pkcs12Encode = (\<lambda>k c pw. Inr pw),
     ce_Pkcs12Decode = (\<lambda>b pw. if b = pw then Inr 0 else Inl (ErrorString ''incorrect password''))\<rparr>"

definition demoStorage :: Storage where
  "demoStorage = \<lparr>cr_Type = zeroTypeMeta, cr_Meta = zeroMeta,
     cr_Spec = \<lparr>sto_Type = ''elasticsearch'', sto_ConnectType = ''internal'', sto_ConnectAddress = [], sto_Version = [],
       sto_Image = [], sto_Instances = 3, sto_Security = \<lparr>sec_TLS = False, sec_User = \<lparr>us_SecretName = []\<rparr>\<rparr>,
       sto_ServiceName = [], sto_Config = [], sto_ResourceCnfig = \<lparr>res_Limit = [], res_Requests = []\<rparr>\<rparr>,
     cr_Status = \<lparr>stos_Conditions = []\<rparr>\<rparr>"

theorem storage_cert_never_renewed_witness: "createCert demoCertEnv demoStorage () = Some (Inr ())"
  by (rule storage_cert_never_renewed
      [where secret = "zeroSecret\<lparr>sec_Meta := zeroMeta\<lparr>om_Name := ''skywalking-storage''\<rparr>,
         sec_Data := [(''storage.p12'', ''skywalking'')]\<rparr>" and bytes = "''skywalking''" and key = "()" and cert = "()"])
    (auto simp: demoCertEnv_def zeroSecret_def)

text \<open>Polling with a bound on the number of reads.\<close>

fun pollN :: "nat \<Rightarrow> ('w, 'key, 'cert) CertEnv \<Rightarrow> 'w \<Rightarrow> ((goerror + CSR) \<times> 'w) option" where
  "pollN 0 C w = None"
| "pollN (Suc n) C w =
     (case ce_GetCSR C ''storage-csr'' w of
        (Inl err, w') \<Rightarrow> Some (Inl err, w')
      | (Inr csr, w') \<Rightarrow> if csr_Certificate csr \<noteq> None then Some (Inr csr, w') else pollN n C w')"

lemma pollN_pollCSR: "pollN n C w = Some r \<Longrightarrow> pollCSR C w = Some r"
proof (induction n arbitrary: w)
  case (Suc n)
  then show ?case by (subst pollCSR.simps) (auto split: prod.splits sum.splits if_splits)
qed simp

lemma pollCSR_pollN: "pollCSR C w = Some r \<Longrightarrow> \<exists>n. pollN n C w = Some r"
proof (rule pollCSR.raw_induct [of "\<lambda>C w r. \<exists>n. pollN n C w = Some r"])
  fix rec C w r
  assume IH: "\<And>C w r. rec C w = Some r \<Longrightarrow> \<exists>n. pollN n C w = Some r"
    and eq: "(case ce_GetCSR C ''storage-csr'' w of
        (Inl err, w') \<Rightarrow> Some (Inl err, w')
      | (Inr csr, w') \<Rightarrow> if csr_Certificate csr \<noteq> None then Some (Inr csr, w') else rec C w') = Some r"
  obtain a w' where g: "ce_GetCSR C ''storage-csr'' w = (a, w')" by force
  show "\<exists>n. pollN n C w = Some r"
  proof (cases "\<exists>csr. a = Inr csr \<and> csr_Certificate csr = None")
    case True
    then obtain csr where a: "a = Inr csr" "csr_Certificate csr = None" by blast
    then obtain n where "pollN n C w' = Some r" using IH [of C w' r] eq g by auto
    then have "pollN (Suc n) C w = Some r" using g a by simp
    then show ?thesis by (rule exI)
  next
    case False
    then have "pollN 1 C w = Some r" using eq g by (cases a) auto
    then show ?thesis by (rule exI)
  qed
qed

text \<open>Waiting for the certificate ends exactly when some finite number of reads shows an error or
  a certificate: as long as the signing request stays unsigned, the reconciler does not return.\<close>

theorem pollCSR_ends_iff: "pollCSR C w = Some r \<longleftrightarrow> (\<exists>n. pollN n C w = Some r)"
  using pollN_pollCSR [of _ C w r] pollCSR_pollN [of C w r] by (intro iffI) (auto elim: exE)

section \<open>A status that is never the same\<close>

text \<open>What the semantic comparison of two storage statuses promises: where the first lists conditions, the
  second lists them first, with equal times; and what the overlay promises: laying a status over an object that
  has it changes nothing.\<close>

definition comparesTimes :: "('w, StorageSpec, StorageStatus) StatusEnv \<Rightarrow> bool" where
  "comparesTimes E \<longleftrightarrow> (\<forall>overlay old. se_DeepDerivative E overlay old \<longrightarrow>
     map ssc_LastTransitionTime (stos_Conditions overlay) =
     take (length (stos_Conditions overlay)) (map ssc_LastTransitionTime (stos_Conditions old)))"

definition overlaysItself :: "('w, 's, 't) StatusEnv \<Rightarrow> bool" where
  "overlaysItself E \<longleftrightarrow>
     (\<forall>k overlay c. se_Overlay E (withStatus k overlay c) (onlyStatus E overlay) = (None, withStatus k overlay c))"

definition setReady :: "'w Reads \<Rightarrow> Storage \<Rightarrow> 'w \<Rightarrow> bool" where
  "setReady rd s w \<longleftrightarrow>
     (case rd_StatefulSet rd (objectKey (cr_Namespace s) (cr_Name s @ ''-'' @ sto_Type (cr_Spec s))) w of
        Inl e \<Rightarrow> IsNotFound e | Inr sts \<Rightarrow> sts_ReadyReplicas sts = sts_Replicas sts)"

text \<open>A server that keeps one storage, for the example.\<close>

definition storageServer :: "(Storage, StorageSpec, StorageStatus) StatusEnv" where
  "storageServer = (plainStatusEnv (cr_Spec demoStorage))\<lparr>se_Get := (\<lambda>k w. Inr w), se_StatusUpdate := (\<lambda>c w. (None, c)),
     se_DeepDerivative := (\<lambda>overlay old.
       stos_Conditions overlay = take (length (stos_Conditions overlay)) (stos_Conditions old))\<rparr>"

definition storageReads :: "'w Reads" where
  "storageReads = \<lparr>rd_Deployment = (\<lambda>k w. Inr zeroDeployment), rd_StatefulSet = (\<lambda>k w. Inr zeroStatefulSet),
     rd_Service = (\<lambda>k w. Inr zeroService), rd_Secret = (\<lambda>k w. Inl (StatusError NotFound ''not found''))\<rparr>"

lemma ready_overlay:
  "setReady rd s w \<Longrightarrow> Storage_overlay rd s now w =
     (\<lparr>stos_Conditions = [\<lparr>ssc_Type = ''Ready'', ssc_Status = ''True'', ssc_LastTransitionTime = now,
        ssc_Reason = ''statefulset '' @ cr_Name s @ ''-'' @ sto_Type (cr_Spec s) @ '' is ready''\<rparr>]\<rparr>, [])"
  by (auto simp: setReady_def Storage_overlay_def Let_def readOrZero_def zeroStatefulSet_def split: sum.splits)


lemma storageServer_laws: "comparesTimes storageServer" "overlaysItself storageServer" "retriesConflicts storageServer"
  by (simp_all add: comparesTimes_def overlaysItself_def retriesConflicts_def storageServer_def plainStatusEnv_def take_map)


end
