(* ===== verification/Managed_Components.thy ===== *)
theory Managed_Components
  imports Controller_Common
begin

text \<open>
  The components whose reconciler applies a directory of manifests and then reports a status computed
  from reads. That such a reconciler keeps the contract of \<open>Controller_Common\<close> and converges (a
  successful run leaves nothing for the next one to do) is proved once, in the locale
  \<open>managed_component\<close>, from laws of the API server and of the status helpers.
\<close>

section \<open>A steady server\<close>

text \<open>Two readings of the same custom resource: they agree on everything but status, type and
  bookkeeping.\<close>

definition alike :: "('s, 't) CR \<Rightarrow> ('s, 't) CR \<Rightarrow> bool" where
  "alike cr cr' \<longleftrightarrow> cr_Spec cr' = cr_Spec cr \<and> cr_Name cr' = cr_Name cr \<and> cr_Namespace cr' = cr_Namespace cr
     \<and> om_UID (cr_Meta cr') = om_UID (cr_Meta cr)"

text \<open>What is relied on of the API server and the helpers. Manifests do not render the status; the
  resource is found under its own key; creating, updating and recording leave it alone; a status
  that was written is read back, next to an otherwise unchanged server; overlaying a status over
  itself keeps it; a status is covered by itself.\<close>

definition steadyServer :: "('w, 'f, ('s, 't) CR) ReconcilerEnv \<Rightarrow> ('w, 's, 't) StatusEnv \<Rightarrow> bool" where
  "steadyServer R E \<longleftrightarrow>
     (\<forall>m f z cr cr'. alike cr cr' \<longrightarrow> LoadTemplate (re_engine R) (re_yaml R) m cr' f z = LoadTemplate (re_engine R) (re_yaml R) m cr f z)
     \<and> (\<forall>k w cr. se_Get E k w = Inr cr \<longrightarrow> cr_key cr = k)
     \<and> (\<forall>k u w. se_Get E k (snd (cl_Create (re_Client R) u w)) = se_Get E k w
            \<and> se_Get E k (snd (cl_Update (re_Client R) u w)) = se_Get E k w)
     \<and> (\<forall>k t r n w. se_Get E k (re_Recorder R t r n w) = se_Get E k w)
     \<and> (\<forall>c w w' cr. se_StatusUpdate E c w = (None, w') \<longrightarrow> se_Get E (cr_key c) w = Inr cr \<longrightarrow>
          (\<exists>cr'. se_Get E (cr_key c) w' = Inr cr' \<and> alike cr cr' \<and> cr_Status cr' = cr_Status c)
          \<and> (\<forall>v k key. cl_Get (re_Client R) v k key w' = cl_Get (re_Client R) v k key w)
          \<and> (\<forall>k. rd_Deployment (re_Reads R) k w' = rd_Deployment (re_Reads R) k w)
          \<and> (\<forall>k. rd_Service (re_Reads R) k w' = rd_Service (re_Reads R) k w))
     \<and> (\<forall>kind st c. se_Overlay E (withStatus kind st c) (onlyStatus E st) = (None, withStatus kind st c))
     \<and> (\<forall>st. se_DeepDerivative E st st)"

lemma steadyServerD:
  assumes "steadyServer R E"
  shows "alike cr cr' \<Longrightarrow> LoadTemplate (re_engine R) (re_yaml R) m cr' f z = LoadTemplate (re_engine R) (re_yaml R) m cr f z"
    and "se_Get E k w = Inr cr \<Longrightarrow> cr_key cr = k"
    and "se_Get E k (snd (cl_Create (re_Client R) u w)) = se_Get E k w"
    and "se_Get E k (snd (cl_Update (re_Client R) u w)) = se_Get E k w"
    and "se_Get E k (re_Recorder R t r n w) = se_Get E k w"
    and "se_StatusUpdate E c w = (None, w') \<Longrightarrow> se_Get E (cr_key c) w = Inr cr \<Longrightarrow>
      \<exists>cr'. se_Get E (cr_key c) w' = Inr cr' \<and> alike cr cr' \<and> cr_Status cr' = cr_Status c"
    and "se_StatusUpdate E c w = (None, w') \<Longrightarrow> se_Get E (cr_key c) w = Inr cr \<Longrightarrow>
      cl_Get (re_Client R) v kd key w' = cl_Get (re_Client R) v kd key w"
    and "se_StatusUpdate E c w = (None, w') \<Longrightarrow> se_Get E (cr_key c) w = Inr cr \<Longrightarrow>
      rd_Deployment (re_Reads R) key w' = rd_Deployment (re_Reads R) key w"
    and "se_StatusUpdate E c w = (None, w') \<Longrightarrow> se_Get E (cr_key c) w = Inr cr \<Longrightarrow>
      rd_Service (re_Reads R) key w' = rd_Service (re_Reads R) key w"
    and "se_Overlay E (withStatus kind st c) (onlyStatus E st) = (None, withStatus kind st c)"
    and "se_DeepDerivative E st st"
  using assms unfolding steadyServer_def by simp_all

lemma applicationFor_simps [simp]:
  "app_Client (applicationFor R cr gvk funcs) = re_Client R" "app_CR (applicationFor R cr gvk funcs) = cr"
  "app_CRMeta (applicationFor R cr gvk funcs) = cr_Meta cr" "app_FileRepo (applicationFor R cr gvk funcs) = re_ReadFile R"
  "app_GVK (applicationFor R cr gvk funcs) = gvk" "app_TmplFunc (applicationFor R cr gvk funcs) = funcs"
  "app_Recorder (applicationFor R cr gvk funcs) = re_Recorder R" "app_engine (applicationFor R cr gvk funcs) = re_engine R"
  "app_yaml (applicationFor R cr gvk funcs) = re_yaml R" "app_metaEncoder (applicationFor R cr gvk funcs) = re_metaEncoder R"
  "versionKey (applicationFor R cr gvk funcs) = gvk_Group gvk @ ''/version''"
  by (simp_all add: applicationFor_def versionKey_def)

text \<open>Whatever creating, updating and recording leave alone, the application of manifests leaves alone.\<close>

lemma Apply_leaves:
  assumes "\<And>u w. obs (snd (cl_Create (re_Client R) u w)) = obs w" and "\<And>u w. obs (snd (cl_Update (re_Client R) u w)) = obs w"
  shows "obs (snd (Apply (applicationFor R cr gvk funcs) f c w)) = obs w"
  using assms
  by (auto simp: Apply_def apply_obj_def apply_create_def apply_update_def Let_def
      split: sum.splits prod.splits option.splits if_splits) (metis snd_conv)+

lemma ApplyAll_leaves:
  assumes "\<And>u w. obs (snd (cl_Create (re_Client R) u w)) = obs w" and "\<And>u w. obs (snd (cl_Update (re_Client R) u w)) = obs w"
    and "\<And>t r n w. obs (re_Recorder R t r n w) = obs w"
  shows "ApplyAll (applicationFor R cr gvk funcs) fs w = (err, w') \<Longrightarrow> obs w' = obs w"
proof -
  have "obs (snd (applyLoop (applicationFor R cr gvk funcs) fs ch w)) = obs w" for ch w
  proof (induction fs arbitrary: ch w)
    case (Cons f fs)
    obtain c err w1 where f: "Apply (applicationFor R cr gvk funcs) f True w = ((c, err), w1)" by (metis prod.exhaust)
    have "obs w1 = obs w" using Apply_leaves [of obs R cr gvk funcs f True w] assms f by simp
    then show ?case using Cons.IH assms(3) by (cases err) (simp_all add: f)
  qed (simp add: assms(3))
  then show "ApplyAll (applicationFor R cr gvk funcs) fs w = (err, w') \<Longrightarrow> obs w' = obs w"
    unfolding ApplyAll_def by (metis snd_conv)
qed

lemma ApplyAll_keeps:
  assumes "steadyServer R E"
  shows "ApplyAll (applicationFor R cr gvk funcs) fs w = (err, w') \<Longrightarrow> se_Get E k w' = se_Get E k w"
  by (rule ApplyAll_leaves [where obs = "se_Get E k"]) (rule steadyServerD(3-5) [OF assms])+

lemma apply_obj_alike:
  assumes "alike cr cr'"
  shows "apply_obj (applicationFor R cr' gvk funcs) u c w = apply_obj (applicationFor R cr gvk funcs) u c w"
proof -
  have ref: "NewControllerRef (cr_Meta cr') gvk = NewControllerRef (cr_Meta cr) gvk"
    using assms by (simp add: alike_def NewControllerRef_def)
  have comp: "compose (applicationFor R cr' gvk funcs) = compose (applicationFor R cr gvk funcs)"
    unfolding compose_eq fun_eq_iff applicationFor_simps ref by simp
  show ?thesis
    unfolding apply_obj_def apply_create_def apply_update_def applicationFor_simps comp by simp
qed

lemma Apply_alike:
  assumes "steadyServer R E" and "alike cr cr'"
  shows "Apply (applicationFor R cr' gvk funcs) f c w = Apply (applicationFor R cr gvk funcs) f c w"
  unfolding Apply_def apply_obj_alike [OF assms(2)] applicationFor_simps steadyServerD(1) [OF assms] by (rule refl)

lemma ApplyAll_alike:
  assumes "steadyServer R E" and "alike cr cr'"
  shows "ApplyAll (applicationFor R cr' gvk funcs) fs w = ApplyAll (applicationFor R cr gvk funcs) fs w"
proof -
  have "applyLoop (applicationFor R cr' gvk funcs) fs ch w = applyLoop (applicationFor R cr gvk funcs) fs ch w" for ch w
  proof (induction fs arbitrary: ch w)
    case (Cons f fs)
    then show ?case using Apply_alike [OF assms] by (simp add: applicationFor_def)
  qed (simp add: applicationFor_def)
  then show ?thesis by (simp add: ApplyAll_def)
qed

section \<open>Applied manifests and written statuses stay\<close>

text \<open>Manifests that were applied stay applied while the objects on the server stay.\<close>

lemma ApplyAll_all_settled:
  "honestServer a \<Longrightarrow> separate a fs \<Longrightarrow> ApplyAll a fs w = (None, w') \<Longrightarrow> f \<in> set fs \<Longrightarrow> settled a f w'"
  using applyLoop_settles [of a "[]" fs w "[]" w'] by (simp add: ApplyAll_def)

lemma settled_same:
  assumes "\<And>u. objectOf a f = Some u \<Longrightarrow> stored a (ident u) w = stored a (ident u) w'" and "settled a f w'"
  shows "settled a f w"
proof (cases "objectOf a f")
  case None
  then show ?thesis using Apply_no_object [OF None, of True] assms(2) by (auto simp: settled_def)
next
  case (Some u)
  then show ?thesis using settled_stored [OF Some assms(1) [OF Some] assms(2)] by blast
qed

text \<open>A status update that reports no error has written the status.\<close>

lemma cr_key_withStatus [simp]: "cr_key (withStatus kind overlay cr) = cr_key cr"
  by (simp add: withStatus_def cr_key_def)

lemma status_withStatus [simp]: "cr_Status (withStatus kind overlay cr) = overlay"
  by (simp add: withStatus_def)

lemma statusAttempt_ok:
  assumes st: "steadyServer R E" and got: "se_Get E (cr_key cr) w = Inr cr0"
    and ok: "statusAttempt E kind g u overlay (cr, errCol, w) = (None, (cr', c, w'))"
  shows "errCol = [] \<and> se_StatusUpdate E (withStatus kind overlay cr0) w = (None, w')"
proof -
  obtain e w1 where up: "se_StatusUpdate E (withStatus kind overlay cr0) w = (e, w1)" by force
  have "statusAttempt E kind g u overlay (cr, errCol, w) =
      (ErrorCollector_Error (collectOpt u e errCol), (withStatus kind overlay cr0, collectOpt u e errCol, w1))"
    unfolding statusAttempt_def Let_def prod.case got sum.case steadyServerD(10) [OF st] up
    by (simp add: collectOpt_def)
  then have "ErrorCollector_Error (collectOpt u e errCol) = None" "w' = w1"
    using ok by simp_all
  then show ?thesis using up by simp
qed

lemma finishState_ok:
  assumes st: "steadyServer R E" and rc: "retriesConflicts E" and got: "se_Get E (cr_key cr) w = Inr cr"
    and ok: "finishState E (\<lambda>st. se_Retry E (statusAttempt E kind g u st)) kind first' msg overlay (cr, errCol, w)
      = (None, (cr2, c2, w2))"
  shows "errCol = [] \<and> (se_DeepDerivative E overlay (cr_Status cr) \<and> w2 = w
    \<or> se_StatusUpdate E (withStatus kind overlay cr) w = (None, w2))"
proof (cases "se_DeepDerivative E overlay (cr_Status cr)")
  case True
  then show ?thesis using ok by (simp add: finishState_def)
next
  case False
  define cr' where "cr' = (if first' then withStatus kind overlay cr else cr)"
  have first_ok: "(if first' then se_Overlay E (withStatus kind overlay cr) (onlyStatus E overlay) else (None, cr)) = (None, cr')"
    by (simp add: cr'_def steadyServerD(10) [OF st])
  have key: "cr_key cr' = cr_key cr" by (simp add: cr'_def)
  obtain e cr3 c3 w3 where att: "statusAttempt E kind g u overlay (cr', errCol, w) = (e, (cr3, c3, w3))"
    by (metis prod_cases4)
  have "finishState E (\<lambda>st. se_Retry E (statusAttempt E kind g u st)) kind first' msg overlay (cr, errCol, w) =
      (ErrorCollector_Error (collectOpt msg e c3), (cr3, collectOpt msg e c3, w3))"
    unfolding finishState_def prod.case first_ok option.case retry_statusAttempt [OF rc] att Let_def using False by simp
  then have "ErrorCollector_Error (collectOpt msg e c3) = None" "w3 = w2" using ok by simp_all
  then have "e = None" "w3 = w2" by simp_all
  then show ?thesis using statusAttempt_ok [OF st _ att [unfolded \<open>e = None\<close>], of cr] got key by simp
qed

text \<open>After a status update, or when none was needed, the resource covers the status, is otherwise as
  before, and all objects read as before.\<close>

lemma status_written:
  assumes st: "steadyServer R E" and got: "se_Get E req w1 = Inr cr"
    and out: "se_DeepDerivative E sta (cr_Status cr) \<and> w2 = w1 \<or> se_StatusUpdate E (withStatus kind sta cr) w1 = (None, w2)"
  obtains cr' where "se_Get E req w2 = Inr cr'" and "alike cr cr'" and "se_DeepDerivative E sta (cr_Status cr')"
    and "\<And>v kd k. cl_Get (re_Client R) v kd k w2 = cl_Get (re_Client R) v kd k w1"
    and "\<And>k. rd_Deployment (re_Reads R) k w2 = rd_Deployment (re_Reads R) k w1"
    and "\<And>k. rd_Service (re_Reads R) k w2 = rd_Service (re_Reads R) k w1"
proof (cases "se_DeepDerivative E sta (cr_Status cr) \<and> w2 = w1")
  case True
  then show thesis using that [of cr] got by (simp add: alike_def)
next
  case False
  have key: "cr_key cr = req" by (rule steadyServerD(2) [OF st got])
  have up: "se_StatusUpdate E (withStatus kind sta cr) w1 = (None, w2)" using out False by blast
  have g: "se_Get E (cr_key (withStatus kind sta cr)) w1 = Inr cr" using got key by simp
  obtain c' where c': "se_Get E req w2 = Inr c'" "alike cr c'" "cr_Status c' = sta"
    using steadyServerD(6) [OF st up g] unfolding cr_key_withStatus key status_withStatus by blast
  show thesis using that [OF c'(1,2) _ steadyServerD(7,8,9) [OF st up g]] c'(3) steadyServerD(11) [OF st] by simp
qed

section \<open>Managed components\<close>

text \<open>There is nothing to do for a resource: it exists, all of its manifests are settled, and its
  status covers what would be reported.\<close>

definition quietFor ::
  "('w, 'f, ('s, 't) CR) ReconcilerEnv \<Rightarrow> ('w, 's, 't) StatusEnv \<Rightarrow> GroupVersionKind
   \<Rightarrow> (('s, 't) CR \<Rightarrow> 'w \<Rightarrow> 't \<times> ErrorCollector) \<Rightarrow> ObjectKey \<Rightarrow> 'w \<Rightarrow> bool" where
  "quietFor R E gvk overlay req w \<longleftrightarrow>
     (\<exists>cr ff st. se_Get E req w = Inr cr \<and> re_GetFilesRecursive R ''templates'' = Inr ff
        \<and> (\<forall>f \<in> set ff. settled (applicationFor R cr gvk None) f w)
        \<and> overlay cr w = (st, []) \<and> se_DeepDerivative E st (cr_Status cr))"

lemma quietForE:
  assumes "quietFor R E gvk overlay req w"
  obtains cr ff st where "se_Get E req w = Inr cr" and "re_GetFilesRecursive R ''templates'' = Inr ff"
    and "\<forall>f \<in> set ff. settled (applicationFor R cr gvk None) f w"
    and "overlay cr w = (st, [])" and "se_DeepDerivative E st (cr_Status cr)"
  using assms unfolding quietFor_def by (elim exE conjE)

text \<open>A component whose reconciler applies all of its manifests and then reports a status computed from
  reads: the reconcilers of user interface, satellite and BanyanDB. Such a reconciler fulfils the
  contract above, and on a steady server it converges.\<close>

locale managed_component =
  fixes R :: "('w, 'f, ('s, 't) CR) ReconcilerEnv" and E :: "('w, 's, 't) StatusEnv"
    and gvk :: GroupVersionKind
    and overlay :: "('s, 't) CR \<Rightarrow> 'w \<Rightarrow> 't \<times> ErrorCollector"
    and kind getMsg updateMsg msg :: string and first' :: bool
    and reconcile :: "ObjectKey \<Rightarrow> 'w \<Rightarrow> 'w reconciled"
  assumes reconcile_eq: "reconcile req w =
      (case se_Get E req w of
         Inl err \<Rightarrow> ((noResult, IgnoreNotFound err), w)
       | Inr cr \<Rightarrow>
           (case re_GetFilesRecursive R ''templates'' of
              Inl err \<Rightarrow> ((noResult, Some err), w)
            | Inr ff \<Rightarrow>
                (case ApplyAll (applicationFor R cr gvk None) ff w of
                   (Some err, w) \<Rightarrow> ((noResult, Some err), w)
                 | (None, w) \<Rightarrow>
                     (case (case overlay cr w of (overlay, errCol) \<Rightarrow>
                          finishState E (\<lambda>st. se_Retry E (statusAttempt E kind getMsg updateMsg st)) kind first' msg overlay (cr, errCol, w)) of
                        (Some err, (cr, errCol, w)) \<Rightarrow> ((noResult, Some err), w)
                      | (None, (cr, errCol, w)) \<Rightarrow> ((\<lparr>RequeueAfter = schedDuration\<rparr>, None), w)))))"
    and overlay_reads: "alike cr cr' \<Longrightarrow>
      (\<And>k. rd_Deployment (re_Reads R) k w' = rd_Deployment (re_Reads R) k w) \<Longrightarrow>
      (\<And>k. rd_Service (re_Reads R) k w' = rd_Service (re_Reads R) k w) \<Longrightarrow> overlay cr' w' = overlay cr w"
begin

lemma run:
  assumes "se_Get E req w = Inr cr" and "re_GetFilesRecursive R ''templates'' = Inr ff"
    and "ApplyAll (applicationFor R cr gvk None) ff w = (None, w1)" and "overlay cr w1 = (st, errCol)"
    and "finishState E (\<lambda>st. se_Retry E (statusAttempt E kind getMsg updateMsg st)) kind first' msg st (cr, errCol, w1)
      = (err, (cr2, errCol2, w2))"
  shows "reconcile req w = ((if err = None then \<lparr>RequeueAfter = schedDuration\<rparr> else noResult, err), w2)"
  unfolding reconcile_eq assms(1,2) sum.case assms(3) prod.case option.case assms(4) assms(5) by (cases err) simp_all

lemma succeeded:
  assumes "se_Get E req w = Inr cr" and "re_GetFilesRecursive R ''templates'' = Inr ff"
    and "reconcile req w = ((res, None), w2)"
  obtains w1 st errCol cr2 errCol2 where "ApplyAll (applicationFor R cr gvk None) ff w = (None, w1)"
    and "overlay cr w1 = (st, errCol)"
    and "finishState E (\<lambda>st. se_Retry E (statusAttempt E kind getMsg updateMsg st)) kind first' msg st (cr, errCol, w1)
      = (None, (cr2, errCol2, w2))"
proof -
  obtain e w1 where a: "ApplyAll (applicationFor R cr gvk None) ff w = (e, w1)" by force
  obtain st errCol where o': "overlay cr w1 = (st, errCol)" by force
  obtain e2 cr2 errCol2 w3 where f: "finishState E (\<lambda>st. se_Retry E (statusAttempt E kind getMsg updateMsg st)) kind first' msg st
      (cr, errCol, w1) = (e2, (cr2, errCol2, w3))" by (metis prod_cases4)
  have "e = None"
    using assms(3) unfolding reconcile_eq assms(1,2) sum.case a prod.case by (cases e) simp_all
  then have r: "ApplyAll (applicationFor R cr gvk None) ff w = (None, w1)" using a by simp
  have "e2 = None \<and> w3 = w2" using run [OF assms(1,2) r o' f] assms(3) by (simp split: if_splits)
  then show thesis using that [OF r o'] f by simp
qed

lemma quiet_idle:
  assumes "quietFor R E gvk overlay req w"
  shows "reconcile req w = ((\<lparr>RequeueAfter = schedDuration\<rparr>, None), w)"
proof -
  obtain cr ff st where got: "se_Get E req w = Inr cr" and ff: "re_GetFilesRecursive R ''templates'' = Inr ff"
    and set: "\<forall>f \<in> set ff. settled (applicationFor R cr gvk None) f w"
    and o': "overlay cr w = (st, [])" and dd: "se_DeepDerivative E st (cr_Status cr)"
    using assms by (rule quietForE)
  have ap: "ApplyAll (applicationFor R cr gvk None) ff w = (None, w)"
    using applyLoop_settled [OF set] by (simp add: ApplyAll_def)
  have "finishState E (\<lambda>st. se_Retry E (statusAttempt E kind getMsg updateMsg st)) kind first' msg st (cr, [], w)
      = (None, (cr, [], w))"
    using dd by (simp add: finishState_def)
  from run [OF got ff ap o' this] show ?thesis by simp
qed

lemma quiesces:
  assumes st: "steadyServer R E" and rc: "retriesConflicts E" and got: "se_Get E req w = Inr cr"
    and ff: "re_GetFilesRecursive R ''templates'' = Inr ff"
    and hon: "honestServer (applicationFor R cr gvk None)" and sep: "separate (applicationFor R cr gvk None) ff"
    and ok: "reconcile req w = ((res, None), w2)"
  shows "quietFor R E gvk overlay req w2"
proof -
  let ?a = "applicationFor R cr gvk None"
  obtain w1 sta errCol cr2 errCol2 where ap: "ApplyAll ?a ff w = (None, w1)" and o': "overlay cr w1 = (sta, errCol)"
    and fin: "finishState E (\<lambda>st. se_Retry E (statusAttempt E kind getMsg updateMsg st)) kind first' msg sta (cr, errCol, w1)
      = (None, (cr2, errCol2, w2))"
    using succeeded [OF got ff ok] by blast
  have key: "cr_key cr = req" by (rule steadyServerD(2) [OF st got])
  have got1: "se_Get E req w1 = Inr cr" using ApplyAll_keeps [OF st ap] got by simp
  note outcome = finishState_ok [OF st rc _ fin, unfolded key, OF got1]
  obtain cr' where cr': "se_Get E req w2 = Inr cr'" "alike cr cr'" "se_DeepDerivative E sta (cr_Status cr')"
    and get: "\<And>v kd k. cl_Get (re_Client R) v kd k w2 = cl_Get (re_Client R) v kd k w1"
    and reads: "\<And>k. rd_Deployment (re_Reads R) k w2 = rd_Deployment (re_Reads R) k w1"
      "\<And>k. rd_Service (re_Reads R) k w2 = rd_Service (re_Reads R) k w1"
    using status_written [OF st got1] outcome by blast
  have same: "stored ?a i w2 = stored ?a i w1" "overlay cr' w2 = overlay cr w1" for i
    using get overlay_reads [OF cr'(2) reads] by (simp_all add: stored_def split: prod.split)
  have "settled (applicationFor R cr' gvk None) f w2" if "f \<in> set ff" for f
    using ApplyAll_all_settled [OF hon sep ap that] settled_same [of ?a f w2 w1] same(1)
    by (simp add: settled_def Apply_alike [OF st cr'(2)])
  then show ?thesis
    unfolding quietFor_def using cr' same(2) o' ff outcome by (intro exI conjI ballI) simp_all
qed

lemma converges:
  assumes "steadyServer R E" and "retriesConflicts E" and "se_Get E req w = Inr cr"
    and "re_GetFilesRecursive R ''templates'' = Inr ff"
    and "honestServer (applicationFor R cr gvk None)" and "separate (applicationFor R cr gvk None) ff"
    and "reconcile req w = ((res, None), w2)"
  shows "reconcile req w2 = ((\<lparr>RequeueAfter = schedDuration\<rparr>, None), w2)"
  by (rule quiet_idle [OF quiesces [OF assms]])

end

sublocale managed_component \<subseteq> reconciler "se_Get E" reconcile
proof
  fix req w err assume "se_Get E req w = Inl err"
  then show "reconcile req w = ((noResult, IgnoreNotFound err), w)" by (simp add: reconcile_eq)
next
  fix req w cr assume g: "se_Get E req w = Inr cr"
  show "(snd (fst (reconcile req w)) = None \<and> fst (fst (reconcile req w)) = \<lparr>RequeueAfter = schedDuration\<rparr>)
    \<or> (snd (fst (reconcile req w)) \<noteq> None \<and> fst (fst (reconcile req w)) = noResult)"
    by (simp add: reconcile_eq g split: sum.split prod.split option.split)
qed

text \<open>When the convergence lemma applies to a request.\<close>

definition applicable ::
  "('w, 'f, ('s, 't) CR) ReconcilerEnv \<Rightarrow> ('w, 's, 't) StatusEnv \<Rightarrow> GroupVersionKind \<Rightarrow> ObjectKey \<Rightarrow> 'w \<Rightarrow> bool" where
  "applicable R E gvk req w \<longleftrightarrow>
     steadyServer R E \<and> retriesConflicts E \<and>
     (\<exists>cr ff. se_Get E req w = Inr cr \<and> re_GetFilesRecursive R ''templates'' = Inr ff
        \<and> honestServer (applicationFor R cr gvk None) \<and> separate (applicationFor R cr gvk None) ff)"

context managed_component
begin

lemma applicable_converges:
  assumes "applicable R E gvk req w" and ok: "reconcile req w = ((res, None), w2)"
  shows "reconcile req w2 = ((\<lparr>RequeueAfter = schedDuration\<rparr>, None), w2)"
proof -
  obtain cr ff where st: "steadyServer R E" and rc: "retriesConflicts E" and got: "se_Get E req w = Inr cr"
    and ff: "re_GetFilesRecursive R ''templates'' = Inr ff"
    and hon: "honestServer (applicationFor R cr gvk None)" and sep: "separate (applicationFor R cr gvk None) ff"
    using assms(1) unfolding applicable_def by (elim exE conjE)
  show ?thesis by (rule converges [OF st rc got ff hon sep ok])
qed

end

section \<open>An example server\<close>

text \<open>A server that holds one custom resource and a map of objects; the deployment and the service of
  every component exist and there is one manifest.\<close>

type_synonym ('s, 't) demoWorld = "('s, 't) CR \<times> demoServer"

definition demoReconciler :: "(('s, 't) demoWorld, unit, ('s, 't) CR) ReconcilerEnv" where
  "demoReconciler =
     \<lparr>re_Client = \<lparr>cl_Get = (\<lambda>v k key w. cl_Get demoClient v k key (snd w)),
        cl_Create = (\<lambda>u w. (None, (fst w, (snd w)(ident u \<mapsto> u)))),
        cl_Update = (\<lambda>u w. (None, (fst w, (snd w)(ident u \<mapsto> u))))\<rparr>,
      re_Reads = \<lparr>rd_Deployment = (\<lambda>k w. Inr zeroDeployment), rd_StatefulSet = (\<lambda>k w. Inr zeroStatefulSet),
        rd_Service = (\<lambda>k w. Inr zeroService), rd_Secret = (\<lambda>k w. Inr zeroSecret)\<rparr>,
      re_ReadFile = (\<lambda>f. Inr f), re_GetFilesRecursive = (\<lambda>d. Inr [''A'']), re_Recorder = (\<lambda>t r n w. w),
      re_engine = (\<lambda>f m. Inr (\<lambda>v. Inr m)), re_yaml = (\<lambda>y u. (None, u\<lparr>u_Kind := y\<rparr>)), re_metaEncoder = (\<lambda>m. JNull)\<rparr>"

definition demoStatusEnv :: "'s \<Rightarrow> (('s, 't) demoWorld, 's, 't) StatusEnv" where
  "demoStatusEnv z =
     \<lparr>se_Get = (\<lambda>k w. if cr_key (fst w) = k then Inr (fst w) else Inl (StatusError NotFound ''not found'')),
      se_Overlay = (\<lambda>c o'. (None, c)), se_StatusUpdate = (\<lambda>c w. (None, ((fst w)\<lparr>cr_Status := cr_Status c\<rparr>, snd w))),
      se_Retry = (\<lambda>f st. f st), se_DeepDerivative = (=), se_zeroSpec = z\<rparr>"

lemma demo_steady: "steadyServer demoReconciler (demoStatusEnv z)"
  unfolding steadyServer_def
  by (simp add: demoReconciler_def demoStatusEnv_def demoClient_def alike_def cr_key_def LoadTemplate_def
      GenerateManifests_def split: if_splits)

lemma demo_retries: "retriesConflicts (demoStatusEnv z)"
  by (simp add: retriesConflicts_def demoStatusEnv_def)

lemma demo_get: "se_Get (demoStatusEnv z) (cr_key cr) (cr, objs) = Inr cr"
  by (simp add: demoStatusEnv_def)

lemma demo_files: "re_GetFilesRecursive demoReconciler ''templates'' = Inr [''A'']"
  by (simp add: demoReconciler_def)

lemma demo_honest_server: "honestServer (applicationFor demoReconciler cr gvk None)"
  unfolding honestServer_def by (auto simp: demoReconciler_def demoClient_def stored_def ident_def)

lemma demo_applicable: "applicable demoReconciler (demoStatusEnv z) gvk (cr_key cr) (cr, objs)"
  unfolding applicable_def
proof (intro conjI exI)
  show "separate (applicationFor demoReconciler cr gvk None) [''A'']" by (simp add: separate_def)
qed (rule demo_steady demo_retries demo_get demo_files demo_honest_server)+

lemma demo_ApplyAll:
  "\<exists>objs'. ApplyAll (applicationFor demoReconciler cr gvk None) [''A''] (cr, objs) = (None, (cr, objs'))"
proof -
  let ?a = "applicationFor demoReconciler cr gvk None"
  have strip: "stripCharacters ''A'' = ''A''"
    by (simp add: stripCharacters_def stripComment_def scanLines_def rawLines_def MaxScanTokenSize_def
        dropCR_def cutComment_def commentChars_def TrimSpace_def TrimRight_def isSpace_def)
  let ?u = "zeroUnstructured\<lparr>u_Kind := ''A''\<rparr>"
  have o': "objectOf ?a ''A'' = Some ?u"
    by (simp add: objectOf_def loaded_def LoadTemplate_def GenerateManifests_def strip demoReconciler_def)
  obtain u' where u': "compose ?a ?u = Inr u'" using demo_compose [of ?u ?a] by (auto simp: zeroUnstructured_def)
  have "\<exists>c objs'. apply_obj ?a ?u True (cr, objs) = ((c, None), (cr, objs'))"
    unfolding apply_obj_def Let_def applicationFor_simps apply_create_def apply_update_def u' if_True sum.case
    by (auto simp: demoReconciler_def demoClient_def IsNotFound_def split: sum.split option.split)
  then obtain c objs' where "Apply ?a ''A'' True (cr, objs) = ((c, None), (cr, objs'))"
    unfolding Apply_object [OF o'] by (elim exE)
  moreover have "app_Recorder ?a = (\<lambda>t r n w. w)" by (simp add: demoReconciler_def)
  ultimately show ?thesis by (simp add: ApplyAll_def)
qed

lemma demo_finishState:
  "\<exists>cr' w'. finishState (demoStatusEnv z) (\<lambda>st. se_Retry (demoStatusEnv z) (statusAttempt (demoStatusEnv z) kind g u st))
     kind first' msg overlay (cr, [], (cr, objs)) = (None, (cr', [], w'))"
  by (cases first'; cases "overlay = cr_Status cr")
    (auto simp: finishState_def demoStatusEnv_def statusAttempt_def collectOpt_def Let_def
      withStatus_def cr_key_def ErrorCollector_Error_def)

lemma demo_run:
  assumes "managed_component demoReconciler (demoStatusEnv z) gvk overlay kind getMsg updateMsg msg first' reconcile"
    and "\<And>w. snd (overlay cr w) = []"
  shows "\<exists>w2. reconcile (cr_key cr) (cr, objs) = ((\<lparr>RequeueAfter = schedDuration\<rparr>, None), w2)"
proof -
  obtain objs' where ap: "ApplyAll (applicationFor demoReconciler cr gvk None) [''A''] (cr, objs) = (None, (cr, objs'))"
    using demo_ApplyAll by blast
  obtain st where o': "overlay cr (cr, objs') = (st, [])" using assms(2) [of "(cr, objs')"] by (metis prod.collapse)
  obtain cr' w' where f: "finishState (demoStatusEnv z) (\<lambda>st. se_Retry (demoStatusEnv z)
      (statusAttempt (demoStatusEnv z) kind getMsg updateMsg st)) kind first' msg st (cr, [], (cr, objs')) = (None, (cr', [], w'))"
    using demo_finishState [of z kind getMsg updateMsg first' msg st cr objs'] by (elim exE)
  from managed_component.run [OF assms(1) demo_get demo_files ap o' f] show ?thesis by simp
qed

end
