(* ===== verification/Controllers_Basic.thy ===== *)
theory Controllers_Basic
  imports Managed_Components
begin

text \<open>
  The reconcilers for \<open>OAPServer\<close>, \<open>UI\<close>, \<open>Satellite\<close>, \<open>BanyanDB\<close>, \<open>Fetcher\<close> and \<open>SwAgent\<close>: read the custom
  resource, apply its manifests, then report the state of what was created. Each method is one
  definition; the environment holds the API server, the manifest repository and the helpers.
\<close>

section \<open>OAPServer\<close>

definition OAPServer_updateStatus ::
  "('w, OAPServerSpec, OAPServerStatus) StatusEnv \<Rightarrow> OAPServerStatus
   \<Rightarrow> ('w, OAPServerSpec, OAPServerStatus) statusState
   \<Rightarrow> goerror option \<times> ('w, OAPServerSpec, OAPServerStatus) statusState" where
  "OAPServer_updateStatus E overlay =
     se_Retry E (statusAttempt E ''OAPServer'' ''failed to get oapServer: ''
       ''failed to update status of OAPServer: '' overlay)"

definition OAPServer_overlay ::
  "'w Reads \<Rightarrow> OAPServer \<Rightarrow> 'w \<Rightarrow> OAPServerStatus \<times> ErrorCollector" where
  "OAPServer_overlay rd o' w =
     (let key = objectKey (cr_Namespace o') (cr_Name o' @ ''-oap'');
          overlay = \<lparr>oaps_AvailableReplicas = 0, oaps_Address = [], oaps_Conditions = []\<rparr>;
          (overlay, errCol) =
            (case readOrZero (rd_Deployment rd key w) zeroDeployment of
               Inl err \<Rightarrow> (overlay, Collect [] (WrapError ''failed to get deployment: '' err []))
             | Inr d \<Rightarrow> (overlay\<lparr>oaps_Conditions := dep_Conditions d,
                              oaps_AvailableReplicas := dep_AvailableReplicas d\<rparr>, []))
      in case readOrZero (rd_Service rd key w) zeroService of
           Inl err \<Rightarrow> (overlay, Collect errCol (WrapError ''failed to get service: '' err []))
         | Inr s \<Rightarrow> (overlay\<lparr>oaps_Address := om_Name (svc_Meta s) @ ''.'' @ om_Namespace (svc_Meta s)\<rparr>, errCol))"

definition OAPServer_checkState ::
  "'w Reads \<Rightarrow> ('w, OAPServerSpec, OAPServerStatus) StatusEnv \<Rightarrow> OAPServer \<Rightarrow> 'w
   \<Rightarrow> goerror option \<times> ('w, OAPServerSpec, OAPServerStatus) statusState" where
  "OAPServer_checkState rd E o' w =
     (case OAPServer_overlay rd o' w of
        (overlay, errCol) \<Rightarrow>
          finishState E (OAPServer_updateStatus E) ''OAPServer'' False
            ''failed to update status of oapServer: '' overlay (o', errCol, w))"

subsection \<open>Storage configuration\<close>

text \<open>The loop over the data of the user's secret.\<close>

fun userLoop :: "entries \<Rightarrow> string \<times> string \<Rightarrow> string \<times> string" where
  "userLoop [] up = up"
| "userLoop ((k, v) # it) up =
     userLoop it (if k = ''username'' then (v, snd up) else if k = ''password'' then (fst up, v) else up)"

text \<open>The URL parser: scheme and host, or nothing; the program dereferences the result without
  looking at the error.\<close>

type_synonym urlParser = "string \<Rightarrow> (string \<times> string) option"

definition storageUser :: "'w Reads \<Rightarrow> Storage \<Rightarrow> 'w \<Rightarrow> string \<times> string" where
  "storageUser rd s w =
     (let secretName = us_SecretName (sec_User (sto_Security (cr_Spec s))) in
      if secretName \<noteq> [] then
        (if secretName = ''default'' then (''elastic'', ''changeme'')
         else (let usersecret = (case rd_Secret rd (objectKey (cr_Namespace s) secretName) w of
                                   Inl err \<Rightarrow> zeroSecret | Inr sec \<Rightarrow> sec)
               in userLoop (sec_Data usersecret) ([], [])))
      else ([], []))"

definition ConfigStorage ::
  "'w Reads \<Rightarrow> urlParser \<Rightarrow> (string \<Rightarrow> string \<Rightarrow> bool) \<Rightarrow> Storage \<Rightarrow> OAPServer \<Rightarrow> 'w \<Rightarrow> gopanic + OAPServer" where
  "ConfigStorage rd parseURL deepDerivative s o' w =
     (case oap_StorageConfig (cr_Spec o') of
        None \<Rightarrow> Inl NilDeref
      | Some rs \<Rightarrow>
          (let spec = cr_Spec s;
               user = us_SecretName (sec_User (sto_Security spec));
               tls = sec_TLS (sto_Security spec);
               (esUser, esPassword) = storageUser rd s w;
               protocol = (if tls then ''https'' else ''http'');
               jksPath = (if tls then ''/skywalking/p12/storage.p12'' else []);
               nodes = (if tls then ''skywalking-storage'' else cr_Name s @ ''-'' @ sto_Type spec);
               config = oap_Config (cr_Spec o') @ [EnvVarOf ''SW_STORAGE'' (sto_Type spec)];
               config = (if user \<noteq> [] then config @ [EnvVarOf ''SW_ES_USER'' esUser, EnvVarOf ''SW_ES_PASSWORD'' esPassword]
                         else config);
               config = (if tls then config @ [EnvVarOf ''SW_STORAGE_ES_SSL_JKS_PATH'' jksPath,
                                              EnvVarOf ''SW_STORAGE_ES_SSL_JKS_PASS'' ''skywalking'']
                         else config);
               o' = o'\<lparr>cr_Spec := (cr_Spec o')\<lparr>oap_StorageConfig := Some (rs\<lparr>rs_Storage := Some s\<rparr>)\<rparr>\<rparr>;
               setConfig = (\<lambda>c. o'\<lparr>cr_Spec := (cr_Spec o')\<lparr>oap_Config := c\<rparr>\<rparr>)
           in if deepDerivative (sto_ConnectType spec) ''external'' then
                (case parseURL (sto_ConnectAddress spec) of
                   None \<Rightarrow> Inl NilDeref
                 | Some (scheme, host) \<Rightarrow>
                     Inr (setConfig (config @ [EnvVarOf ''SW_STORAGE_ES_HTTP_PROTOCOL'' scheme,
                                               EnvVarOf ''SW_STORAGE_ES_CLUSTER_NODES'' host])))
              else Inr (setConfig (config @ [EnvVarOf ''SW_STORAGE_ES_HTTP_PROTOCOL'' protocol,
                                             EnvVarOf ''SW_STORAGE_ES_CLUSTER_NODES'' (nodes @ '':9200'')]))))"

definition InjectStorage ::
  "'w Reads \<Rightarrow> (ObjectKey \<Rightarrow> 'w \<Rightarrow> goerror + Storage) \<Rightarrow> urlParser \<Rightarrow> (string \<Rightarrow> string \<Rightarrow> bool) \<Rightarrow> OAPServer \<Rightarrow> 'w \<Rightarrow> gopanic + OAPServer" where
  "InjectStorage rd getStorage parseURL deepDerivative o' w =
     (case oap_StorageConfig (cr_Spec o') of
        None \<Rightarrow> Inr o'
      | Some rs \<Rightarrow>
          if rs_Name rs = [] then Inr o'
          else (case getStorage (objectKey (cr_Namespace o') (rs_Name rs)) w of
                  Inr storage \<Rightarrow> ConfigStorage rd parseURL deepDerivative storage o' w
                | Inl err \<Rightarrow> Inr o'))"

definition OAPServer_Reconcile ::
  "('w, 'f, OAPServer) ReconcilerEnv \<Rightarrow> ('w, OAPServerSpec, OAPServerStatus) StatusEnv
   \<Rightarrow> (ObjectKey \<Rightarrow> 'w \<Rightarrow> goerror + Storage) \<Rightarrow> urlParser \<Rightarrow> (string \<Rightarrow> string \<Rightarrow> bool) \<Rightarrow> ObjectKey \<Rightarrow> 'w \<Rightarrow> gopanic + 'w reconciled" where
  "OAPServer_Reconcile R E getStorage parseURL deepDerivative req w =
     (case se_Get E req w of
        Inl err \<Rightarrow> Inr ((noResult, IgnoreNotFound err), w)
      | Inr o' \<Rightarrow>
          (case re_GetFilesRecursive R ''templates'' of
             Inl err \<Rightarrow> Inr ((noResult, Some err), w)
           | Inr ff \<Rightarrow>
               (case InjectStorage (re_Reads R) getStorage parseURL deepDerivative o' w of
                  Inl panic \<Rightarrow> Inl panic
                | Inr o' \<Rightarrow>
                    (case ApplyAll (applicationFor R o' (WithKind GroupVersion ''OAPServer'') None) ff w of
                       (Some err, w) \<Rightarrow> Inr ((noResult, Some err), w)
                     | (None, w) \<Rightarrow>
                         (case OAPServer_checkState (re_Reads R) E o' w of
                            (Some err, (cr, errCol, w)) \<Rightarrow> Inr ((noResult, Some err), w)
                          | (None, (cr, errCol, w)) \<Rightarrow> Inr ((\<lparr>RequeueAfter = schedDuration\<rparr>, None), w))))))"

section \<open>UI\<close>

definition UI_updateStatus ::
  "('w, UISpec, UIStatus) StatusEnv \<Rightarrow> UIStatus \<Rightarrow> ('w, UISpec, UIStatus) statusState
   \<Rightarrow> goerror option \<times> ('w, UISpec, UIStatus) statusState" where
  "UI_updateStatus E overlay =
     se_Retry E (statusAttempt E ''UI'' ''failed to get ui: ''
       ''failed to update status of ui: '' overlay)"

definition UI_overlay :: "'w Reads \<Rightarrow> UI \<Rightarrow> 'w \<Rightarrow> UIStatus \<times> ErrorCollector" where
  "UI_overlay rd ui w =
     (let key = objectKey (cr_Namespace ui) (cr_Name ui @ ''-ui'');
          overlay = \<lparr>uis_AvailableReplicas = 0, uis_ExternalIPs = [], uis_Ports = [], uis_InternalAddress = [],
                     uis_Conditions = []\<rparr>;
          (overlay, errCol) =
            (case readOrZero (rd_Deployment rd key w) zeroDeployment of
               Inl err \<Rightarrow> (overlay, Collect [] (WrapError ''failed to get deployment: '' err []))
             | Inr d \<Rightarrow> (overlay\<lparr>uis_Conditions := dep_Conditions d,
                              uis_AvailableReplicas := dep_AvailableReplicas d\<rparr>, []))
      in case readOrZero (rd_Service rd key w) zeroService of
           Inl err \<Rightarrow> (overlay, Collect errCol (WrapError ''failed to get svc: '' err []))
         | Inr s \<Rightarrow>
             (overlay\<lparr>uis_ExternalIPs := uis_ExternalIPs overlay @ svc_IngressIPs s,
                      uis_Ports := (let ports = uis_Ports overlay @ svc_Ports s in
                                    if length ports < 1 then [0] else ports),
                      uis_InternalAddress := om_Name (svc_Meta s) @ ''.'' @ om_Namespace (svc_Meta s)\<rparr>, errCol))"

definition UI_checkState ::
  "'w Reads \<Rightarrow> ('w, UISpec, UIStatus) StatusEnv \<Rightarrow> UI \<Rightarrow> 'w
   \<Rightarrow> goerror option \<times> ('w, UISpec, UIStatus) statusState" where
  "UI_checkState rd E ui w =
     (case UI_overlay rd ui w of
        (overlay, errCol) \<Rightarrow>
          finishState E (UI_updateStatus E) ''UI'' True ''failed to update status of UI: '' overlay (ui, errCol, w))"

definition UI_Reconcile ::
  "('w, 'f, UI) ReconcilerEnv \<Rightarrow> ('w, UISpec, UIStatus) StatusEnv \<Rightarrow> ObjectKey \<Rightarrow> 'w
   \<Rightarrow> 'w reconciled" where
  "UI_Reconcile R E req w =
     (case se_Get E req w of
        Inl err \<Rightarrow> ((noResult, IgnoreNotFound err), w)
      | Inr cr \<Rightarrow>
          (case re_GetFilesRecursive R ''templates'' of
             Inl err \<Rightarrow> ((noResult, Some err), w)
           | Inr ff \<Rightarrow>
               (case ApplyAll (applicationFor R cr (WithKind GroupVersion ''UI'') None) ff w of
                  (Some err, w) \<Rightarrow> ((noResult, Some err), w)
                | (None, w) \<Rightarrow>
                    (case UI_checkState (re_Reads R) E cr w of
                       (Some err, (cr, errCol, w)) \<Rightarrow> ((noResult, Some err), w)
                     | (None, (cr, errCol, w)) \<Rightarrow> ((\<lparr>RequeueAfter = schedDuration\<rparr>, None), w)))))"

section \<open>Satellite\<close>

text \<open>Unlike the others, this check treats a missing deployment or service as an error, and formats it
  without wrapping.\<close>

definition Satellite_updateStatus ::
  "('w, SatelliteSpec, SatelliteStatus) StatusEnv \<Rightarrow> SatelliteStatus \<Rightarrow> ('w, SatelliteSpec, SatelliteStatus) statusState
   \<Rightarrow> goerror option \<times> ('w, SatelliteSpec, SatelliteStatus) statusState" where
  "Satellite_updateStatus E overlay =
     se_Retry E (statusAttempt E ''Satellite'' ''failed to get satellite: ''
       ''failed to update status of satellite: '' overlay)"

definition Satellite_overlay :: "'w Reads \<Rightarrow> Satellite \<Rightarrow> 'w \<Rightarrow> SatelliteStatus \<times> ErrorCollector" where
  "Satellite_overlay rd sat w =
     (let key = objectKey (cr_Namespace sat) (cr_Name sat @ ''-satellite'');
          overlay = \<lparr>sats_AvailableReplicas = 0, sats_Address = [], sats_Conditions = []\<rparr>;
          (overlay, errCol) =
            (case rd_Deployment rd key w of
               Inl err \<Rightarrow> (overlay, Collect [] (ErrorString (''failed to get deployment :'' @ Error err)))
             | Inr d \<Rightarrow> (overlay\<lparr>sats_Conditions := dep_Conditions d,
                              sats_AvailableReplicas := dep_AvailableReplicas d\<rparr>, []))
      in case rd_Service rd key w of
           Inl err \<Rightarrow> (overlay, Collect errCol (ErrorString (''failed to get service :'' @ Error err)))
         | Inr s \<Rightarrow> (overlay\<lparr>sats_Address := om_Name (svc_Meta s) @ ''.'' @ om_Namespace (svc_Meta s)\<rparr>, errCol))"

definition Satellite_checkState ::
  "'w Reads \<Rightarrow> ('w, SatelliteSpec, SatelliteStatus) StatusEnv \<Rightarrow> Satellite \<Rightarrow> 'w
   \<Rightarrow> goerror option \<times> ('w, SatelliteSpec, SatelliteStatus) statusState" where
  "Satellite_checkState rd E sat w =
     (case Satellite_overlay rd sat w of
        (overlay, errCol) \<Rightarrow>
          finishState E (Satellite_updateStatus E) ''Satellite'' True ''failed to update status of satellite: ''
            overlay (sat, errCol, w))"

definition Satellite_Reconcile ::
  "('w, 'f, Satellite) ReconcilerEnv \<Rightarrow> ('w, SatelliteSpec, SatelliteStatus) StatusEnv \<Rightarrow> ObjectKey \<Rightarrow> 'w
   \<Rightarrow> 'w reconciled" where
  "Satellite_Reconcile R E req w =
     (case se_Get E req w of
        Inl err \<Rightarrow> ((noResult, IgnoreNotFound err), w)
      | Inr cr \<Rightarrow>
          (case re_GetFilesRecursive R ''templates'' of
             Inl err \<Rightarrow> ((noResult, Some err), w)
           | Inr ff \<Rightarrow>
               (case ApplyAll (applicationFor R cr (WithKind GroupVersion ''Satellite'') None) ff w of
                  (Some err, w) \<Rightarrow> ((noResult, Some err), w)
                | (None, w) \<Rightarrow>
                    (case Satellite_checkState (re_Reads R) E cr w of
                       (Some err, (cr, errCol, w)) \<Rightarrow> ((noResult, Some err), w)
                     | (None, (cr, errCol, w)) \<Rightarrow> ((\<lparr>RequeueAfter = schedDuration\<rparr>, None), w)))))"

section \<open>BanyanDB\<close>

definition BanyanDB_updateStatus ::
  "('w, BanyanDBSpec, BanyanDBStatus) StatusEnv \<Rightarrow> BanyanDBStatus \<Rightarrow> ('w, BanyanDBSpec, BanyanDBStatus) statusState
   \<Rightarrow> goerror option \<times> ('w, BanyanDBSpec, BanyanDBStatus) statusState" where
  "BanyanDB_updateStatus E overlay =
     se_Retry E (statusAttempt E ''BanyanDB'' ''failed to get banyanDB: ''
       ''failed to update status of banyandb: '' overlay)"

definition BanyanDB_overlay :: "'w Reads \<Rightarrow> BanyanDB \<Rightarrow> 'w \<Rightarrow> BanyanDBStatus \<times> ErrorCollector" where
  "BanyanDB_overlay rd db w =
     (let key = objectKey (cr_Namespace db) (cr_Name db @ ''-banyandb'');
          overlay = \<lparr>bdbs_AvailableReplicas = 0, bdbs_Conditions = []\<rparr>
      in case readOrZero (rd_Deployment rd key w) zeroDeployment of
           Inl err \<Rightarrow> (overlay, Collect [] (WrapError ''failed to get deployment: '' err []))
         | Inr d \<Rightarrow> (overlay\<lparr>bdbs_Conditions := dep_Conditions d,
                          bdbs_AvailableReplicas := dep_AvailableReplicas d\<rparr>, []))"

definition BanyanDB_checkState ::
  "'w Reads \<Rightarrow> ('w, BanyanDBSpec, BanyanDBStatus) StatusEnv \<Rightarrow> BanyanDB \<Rightarrow> 'w
   \<Rightarrow> goerror option \<times> ('w, BanyanDBSpec, BanyanDBStatus) statusState" where
  "BanyanDB_checkState rd E db w =
     (case BanyanDB_overlay rd db w of
        (overlay, errCol) \<Rightarrow>
          finishState E (BanyanDB_updateStatus E) ''BanyanDB'' False ''failed to update status of banyanDB: ''
            overlay (db, errCol, w))"

definition BanyanDB_Reconcile ::
  "('w, 'f, BanyanDB) ReconcilerEnv \<Rightarrow> ('w, BanyanDBSpec, BanyanDBStatus) StatusEnv \<Rightarrow> ObjectKey \<Rightarrow> 'w
   \<Rightarrow> 'w reconciled" where
  "BanyanDB_Reconcile R E req w =
     (case se_Get E req w of
        Inl err \<Rightarrow> ((noResult, IgnoreNotFound err), w)
      | Inr cr \<Rightarrow>
          (case re_GetFilesRecursive R ''templates'' of
             Inl err \<Rightarrow> ((noResult, Some err), w)
           | Inr ff \<Rightarrow>
               (case ApplyAll (applicationFor R cr (WithKind GroupVersion ''BanyanDB'') None) ff w of
                  (Some err, w) \<Rightarrow> ((noResult, Some err), w)
                | (None, w) \<Rightarrow>
                    (case BanyanDB_checkState (re_Reads R) E cr w of
                       (Some err, (cr, errCol, w)) \<Rightarrow> ((noResult, Some err), w)
                     | (None, (cr, errCol, w)) \<Rightarrow> ((\<lparr>RequeueAfter = schedDuration\<rparr>, None), w)))))"

section \<open>Fetcher\<close>

text \<open>The closure of \<open>updateStatus\<close>: every failure is logged and the attempt returns no error.\<close>

definition fetcherAttempt ::
  "('w, FetcherSpec, FetcherStatus) StatusEnv \<Rightarrow> FetcherStatus \<Rightarrow> ('w, FetcherSpec, FetcherStatus) statusState
   \<Rightarrow> goerror option \<times> ('w, FetcherSpec, FetcherStatus) statusState" where
  "fetcherAttempt E overlay st =
     (case st of (f, errCol, w) \<Rightarrow>
        let f = (case se_Get E (cr_key f) w of Inl err \<Rightarrow> f | Inr f' \<Rightarrow> f');
            f = withStatus ''Fetcher'' overlay f;
            f = snd (se_Overlay E f (onlyStatus E overlay));
            w = snd (se_StatusUpdate E f w)
        in (None, (f, errCol, w)))"

definition Fetcher_updateStatus ::
  "('w, FetcherSpec, FetcherStatus) StatusEnv \<Rightarrow> FetcherStatus \<Rightarrow> ('w, FetcherSpec, FetcherStatus) statusState
   \<Rightarrow> goerror option \<times> ('w, FetcherSpec, FetcherStatus) statusState" where
  "Fetcher_updateStatus E overlay = se_Retry E (fetcherAttempt E overlay)"

text \<open>\<open>UpdateStatus\<close>. Setting the fields of \<open>current\<close>, a copy of the first condition, does not change
  the slice it was copied from.\<close>

definition Fetcher_UpdateStatus ::
  "('w, FetcherSpec, FetcherStatus) StatusEnv \<Rightarrow> Fetcher \<Rightarrow> string \<Rightarrow> string \<Rightarrow> Time \<Rightarrow> 'w
   \<Rightarrow> goerror option \<times> Fetcher \<times> 'w" where
  "Fetcher_UpdateStatus E f status msg now w =
     (let st = cr_Status f;
          st = (if fets_Replicas st = 0 then st\<lparr>fets_Replicas := 1\<rparr> else st);
          (changed, st) =
            (if length (fets_Conditions st) < 1 then
               (True, st\<lparr>fets_Conditions := fets_Conditions st @
                  [\<lparr>fc_Type = FetcherConditionTypeRead, fc_Status = status, fc_LastUpdateTime = now,
                    fc_LastTransitionTime = now, fc_Message = msg\<rparr>]\<rparr>)
             else
               (let current = fets_Conditions st ! 0 in
                (fc_Status current \<noteq> status \<or> fc_Message current \<noteq> msg, st)));
          f = f\<lparr>cr_Status := st\<rparr>
      in if \<not> changed then (None, f, w)
         else (case Fetcher_updateStatus E st (f, [], w) of
                 (Some err, (f, _, w)) \<Rightarrow> (Some err, f, w)
               | (None, (f, _, w)) \<Rightarrow> (None, f, w)))"

definition Fetcher_Reconcile ::
  "('w, 'f, Fetcher) ReconcilerEnv \<Rightarrow> ('w, FetcherSpec, FetcherStatus) StatusEnv \<Rightarrow> ObjectKey \<Rightarrow> Time \<Rightarrow> 'w
   \<Rightarrow> 'w reconciled" where
  "Fetcher_Reconcile R E req now w =
     (case se_Get E req w of
        Inl err \<Rightarrow> ((noResult, IgnoreNotFound err), w)
      | Inr f \<Rightarrow>
          (case re_GetFilesRecursive R ''templates'' of
             Inl err \<Rightarrow> ((noResult, Some err), w)
           | Inr ff \<Rightarrow>
               (case ApplyAll (applicationFor R f (WithKind GroupVersion ''Fetcher'') None) ff w of
                  (Some err, w) \<Rightarrow>
                    (case Fetcher_UpdateStatus E f ''False'' ''Failed to apply resources'' now w of
                       (_, _, w) \<Rightarrow> ((noResult, Some err), w))
                | (None, w) \<Rightarrow>
                    (case Fetcher_UpdateStatus E f ''True'' ''Reconciled all of resources'' now w of
                       (Some err, _, w) \<Rightarrow> ((noResult, Some err), w)
                     | (None, _, w) \<Rightarrow> ((\<lparr>RequeueAfter = schedDuration\<rparr>, None), w)))))"

section \<open>SwAgent\<close>

definition SwAgent_Reconcile :: "ObjectKey \<Rightarrow> 'w \<Rightarrow> 'w reconciled" where
  "SwAgent_Reconcile req w = ((noResult, None), w)"

section \<open>The contracts of the reconcilers\<close>

lemma overlay_reads:
  assumes "\<And>k. rd_Deployment rd k w' = rd_Deployment rd k w" and "\<And>k. rd_Service rd k w' = rd_Service rd k w"
  shows "alike ui ui' \<Longrightarrow> UI_overlay rd ui' w' = UI_overlay rd ui w"
    and "alike sat sat' \<Longrightarrow> Satellite_overlay rd sat' w' = Satellite_overlay rd sat w"
    and "alike db db' \<Longrightarrow> BanyanDB_overlay rd db' w' = BanyanDB_overlay rd db w"
  unfolding UI_overlay_def Satellite_overlay_def BanyanDB_overlay_def assms by (simp_all add: alike_def)

interpretation ui_component: managed_component R E "WithKind GroupVersion ''UI''" "UI_overlay (re_Reads R)" "''UI''"
  "''failed to get ui: ''" "''failed to update status of ui: ''" "''failed to update status of UI: ''" True "UI_Reconcile R E"
  for R E
  by unfold_locales
    (simp_all only: UI_Reconcile_def UI_checkState_def UI_updateStatus_def [abs_def], rule overlay_reads(1), simp_all)

interpretation satellite_component: managed_component R E "WithKind GroupVersion ''Satellite''" "Satellite_overlay (re_Reads R)"
  "''Satellite''" "''failed to get satellite: ''" "''failed to update status of satellite: ''"
  "''failed to update status of satellite: ''" True "Satellite_Reconcile R E" for R E
  by unfold_locales
    (simp_all only: Satellite_Reconcile_def Satellite_checkState_def Satellite_updateStatus_def [abs_def],
      rule overlay_reads(2), simp_all)

interpretation banyandb_component: managed_component R E "WithKind GroupVersion ''BanyanDB''" "BanyanDB_overlay (re_Reads R)"
  "''BanyanDB''" "''failed to get banyanDB: ''" "''failed to update status of banyandb: ''"
  "''failed to update status of banyanDB: ''" False "BanyanDB_Reconcile R E" for R E
  by unfold_locales
    (simp_all only: BanyanDB_Reconcile_def BanyanDB_checkState_def BanyanDB_updateStatus_def [abs_def],
      rule overlay_reads(3), simp_all)

interpretation fetcher_reconciler: reconciler "se_Get E" "\<lambda>req w. Fetcher_Reconcile R E req now w" for R E now
proof
  fix req w err assume "se_Get E req w = Inl err"
  then show "Fetcher_Reconcile R E req now w = ((noResult, IgnoreNotFound err), w)" by (simp add: Fetcher_Reconcile_def)
next
  fix req w cr assume g: "se_Get E req w = Inr cr"
  show "(snd (fst (Fetcher_Reconcile R E req now w)) = None \<and>
      fst (fst (Fetcher_Reconcile R E req now w)) = \<lparr>RequeueAfter = schedDuration\<rparr>)
    \<or> (snd (fst (Fetcher_Reconcile R E req now w)) \<noteq> None \<and> fst (fst (Fetcher_Reconcile R E req now w)) = noResult)"
    by (simp add: Fetcher_Reconcile_def g split: sum.split prod.split option.split)
qed

section \<open>Fetcher conditions\<close>

lemma Fetcher_UpdateStatus_later:
  assumes "fets_Conditions (cr_Status f) = c # cs" and "fc_Status c \<noteq> status \<or> fc_Message c \<noteq> msg"
  shows "Fetcher_UpdateStatus E f status msg now w =
    (let st = (if fets_Replicas (cr_Status f) = 0 then (cr_Status f)\<lparr>fets_Replicas := 1\<rparr> else cr_Status f)
     in case Fetcher_updateStatus E st (f\<lparr>cr_Status := st\<rparr>, [], w) of (err, (f, _, w)) \<Rightarrow> (err, f, w))"
  using assms by (auto simp: Fetcher_UpdateStatus_def Let_def split: prod.splits option.splits)

lemma Fetcher_updateStatus_single:
  "retriesConflicts E \<Longrightarrow> Fetcher_updateStatus E overlay st = fetcherAttempt E overlay st"
  unfolding Fetcher_updateStatus_def
  by (rule retriesConflictsD) (simp_all add: fetcherAttempt_def Let_def split: prod.split)

text \<open>The condition of a fetcher is written once and never changes afterwards: when a fetcher
  already has a condition, any two reports that differ from it have exactly the same effect, the
  status sent to the server still has the old conditions, and no failure of the update is ever
  reported.\<close>

theorem fetcher_condition_stuck:
  assumes "retriesConflicts E" and "fets_Conditions (cr_Status f) = c # cs"
    and "fc_Status c \<noteq> status \<or> fc_Message c \<noteq> msg" and "fc_Status c \<noteq> status' \<or> fc_Message c \<noteq> msg'"
  shows "Fetcher_UpdateStatus E f status msg now w = Fetcher_UpdateStatus E f status' msg' now' w
    \<and> fst (Fetcher_UpdateStatus E f status msg now w) = None
    \<and> (\<exists>overlay f' w'. fets_Conditions overlay = c # cs
        \<and> fetcherAttempt E overlay (f\<lparr>cr_Status := overlay\<rparr>, [], w) = (None, (f', [], w'))
        \<and> Fetcher_UpdateStatus E f status msg now w = (None, f', w'))"
proof -
  let ?st = "if fets_Replicas (cr_Status f) = 0 then (cr_Status f)\<lparr>fets_Replicas := 1\<rparr> else cr_Status f"
  obtain f' w' where a: "fetcherAttempt E ?st (f\<lparr>cr_Status := ?st\<rparr>, [], w) = (None, (f', [], w'))"
    by (simp add: fetcherAttempt_def Let_def)
  have conds: "fets_Conditions ?st = c # cs" using assms(2) by simp
  have u: "Fetcher_UpdateStatus E f s m n w = (None, f', w')" if "fc_Status c \<noteq> s \<or> fc_Message c \<noteq> m" for s m n
    unfolding Fetcher_UpdateStatus_later [OF assms(2) that] Let_def Fetcher_updateStatus_single [OF assms(1)] a by simp
  show ?thesis
    unfolding u [OF assms(3)] u [OF assms(4)] using a conds by auto
qed

definition demoFetcher :: Fetcher where
  "demoFetcher = \<lparr>cr_Type = zeroTypeMeta, cr_Meta = zeroMeta,
     cr_Spec = \<lparr>fet_Type = [], fet_OAPServerAddress = [], fet_ClusterName = []\<rparr>,
     cr_Status = \<lparr>fets_Replicas = 1, fets_Conditions = [\<lparr>fc_Type = ''Ready'', fc_Status = ''False'',
       fc_LastUpdateTime = 1, fc_LastTransitionTime = 1, fc_Message = ''Failed to apply resources''\<rparr>]\<rparr>\<rparr>"

theorem fetcher_condition_stuck_witness:
  "Fetcher_UpdateStatus (plainStatusEnv (cr_Spec demoFetcher)) demoFetcher ''True'' ''Reconciled all of resources'' 5 () =
   Fetcher_UpdateStatus (plainStatusEnv (cr_Spec demoFetcher)) demoFetcher ''Unknown'' ''other'' 6 ()"
  using fetcher_condition_stuck [OF plainStatusEnv_retries, of demoFetcher _ _ "''True''" "''Reconciled all of resources''"
      "''Unknown''" "''other''" "cr_Spec demoFetcher" 5 "()" 6]
  by (simp add: demoFetcher_def)

section \<open>Convergence\<close>


lemma demo_overlays:
  "snd (UI_overlay (re_Reads demoReconciler) ui w) = []"
  "snd (Satellite_overlay (re_Reads demoReconciler) sat w) = []"
  "snd (BanyanDB_overlay (re_Reads demoReconciler) db w) = []"
  by (simp_all add: UI_overlay_def Satellite_overlay_def BanyanDB_overlay_def demoReconciler_def)


end
