(* ===== verification/Manifest_Repo.thy ===== *)
theory Manifest_Repo
  imports Prelude
begin

text \<open>
  The manifest repository of \<open>operator/pkg/operator/manifests/repo.go\<close>. The embedded file system is a
  tree and an argument of every operation; opening a path follows package \<open>embed\<close> (an invalid or
  unknown path does not exist), and paths are put together and cleaned as package \<open>path/filepath\<close>
  does on Unix. The recursive listing finds directories by their path, not by descending the tree, so
  it takes fuel; \<open>GetFilesRecursive\<close> starts it with more than the size of the tree, which is always
  enough.
\<close>

section \<open>Paths (path/filepath, io/fs)\<close>

fun cleanElems :: "bool \<Rightarrow> string list \<Rightarrow> string list \<Rightarrow> string list" where
  "cleanElems rooted [] out = out"
| "cleanElems rooted (e # es) out =
     (if e = [] \<or> e = ''.'' then cleanElems rooted es out
      else if e = ''..'' then
        (if out \<noteq> [] \<and> last out \<noteq> ''..'' then cleanElems rooted es (butlast out)
         else if rooted then cleanElems rooted es out
         else cleanElems rooted es (out @ [e]))
      else cleanElems rooted es (out @ [e]))"

definition Clean :: "string \<Rightarrow> string" where
  "Clean path =
     (let rooted = HasPrefix path ''/'';
          cleaned = (if rooted then ''/'' else []) @ Join (cleanElems rooted (Split path CHR ''/'') []) ''/''
      in if cleaned = [] then ''.'' else cleaned)"

definition pathJoin :: "string list \<Rightarrow> string" where
  "pathJoin elems = (case dropWhile (\<lambda>e. e = []) elems of [] \<Rightarrow> [] | es \<Rightarrow> Clean (Join es ''/''))"

definition pathDir :: "string \<Rightarrow> string" where
  "pathDir path = Clean (take (nat (LastIndex path CHR ''/'' + 1)) path)"

definition validElem :: "string \<Rightarrow> bool" where
  "validElem e \<longleftrightarrow> e \<noteq> [] \<and> e \<noteq> ''.'' \<and> e \<noteq> ''..''"

definition ValidPath :: "string \<Rightarrow> bool" where
  "ValidPath name \<longleftrightarrow> name = ''.'' \<or> list_all validElem (Split name CHR ''/'')"

section \<open>The embedded files (embed)\<close>

datatype fsnode = File string | Dir "(string \<times> fsnode) list"

fun isDir :: "fsnode \<Rightarrow> bool" where
  "isDir (File _) = False"
| "isDir (Dir _) = True"

fun walk :: "fsnode \<Rightarrow> string list \<Rightarrow> fsnode option" where
  "walk t [] = Some t"
| "walk (File c) (n # ns) = None"
| "walk (Dir es) (n # ns) = (case map_of es n of None \<Rightarrow> None | Some t \<Rightarrow> walk t ns)"

definition Open :: "fsnode \<Rightarrow> string \<Rightarrow> fsnode option" where
  "Open fs name =
     (if name = ''.'' then Some fs
      else if ValidPath name then walk fs (Split name CHR ''/'') else None)"

definition notExist :: "string \<Rightarrow> string \<Rightarrow> goerror" where
  "notExist op path = ErrorString (op @ '' '' @ path @ '': file does not exist'')"

record FileInfo =
  fi_Name :: string
  fi_IsDir :: bool

definition ReadFile :: "fsnode \<Rightarrow> string \<Rightarrow> goerror + string" where
  "ReadFile fs path =
     (case Open fs path of
        None \<Rightarrow> Inl (notExist ''open'' path)
      | Some (File content) \<Rightarrow> Inr content
      | Some (Dir es) \<Rightarrow> Inl (ErrorString (''read '' @ path @ '': is a directory'')))"

text \<open>\<open>manifests.ReadDir\<close> with its error ignored.\<close>

definition ReadDir :: "fsnode \<Rightarrow> string \<Rightarrow> FileInfo list" where
  "ReadDir fs path =
     (case Open fs path of
        Some (Dir es) \<Rightarrow> map (\<lambda>(n, t). \<lparr>fi_Name = n, fi_IsDir = isDir t\<rparr>) es
      | _ \<Rightarrow> [])"

section \<open>The repository\<close>

record AssetsRepo =
  Root :: string

definition NewRepo :: "string \<Rightarrow> AssetsRepo" where
  "NewRepo component = \<lparr>Root = component\<rparr>"

definition Stat :: "fsnode \<Rightarrow> string \<Rightarrow> goerror + FileInfo" where
  "Stat fs path =
     (case Open fs path of
        None \<Rightarrow> Inl (notExist ''open'' path)
      | Some t \<Rightarrow> Inr \<lparr>fi_Name = last (Split path CHR ''/''), fi_IsDir = isDir t\<rparr>)"

fun dirLoop ::
  "(string \<Rightarrow> FileInfo \<Rightarrow> (goerror + string list) option) \<Rightarrow> fsnode \<Rightarrow> string \<Rightarrow> FileInfo list \<Rightarrow> string list
   \<Rightarrow> (goerror + string list) option" where
  "dirLoop rec fs prefix [] out = Some (Inr out)"
| "dirLoop rec fs prefix (f # fl) out =
     (case Stat fs (pathJoin [prefix, fi_Name f]) of
        Inl err \<Rightarrow> Some (Inl err)
      | Inr info \<Rightarrow>
          if \<not> fi_IsDir f then dirLoop rec fs prefix fl (out @ [pathJoin [prefix, fi_Name f]])
          else (case rec prefix info of
                  None \<Rightarrow> None
                | Some (Inl err) \<Rightarrow> Some (Inl err)
                | Some (Inr nfs) \<Rightarrow> dirLoop rec fs prefix fl (out @ nfs)))"

fun getFilesRecursive :: "fsnode \<Rightarrow> nat \<Rightarrow> string \<Rightarrow> FileInfo \<Rightarrow> (goerror + string list) option" where
  "getFilesRecursive fs 0 prefix root = None"
| "getFilesRecursive fs (Suc n) prefix root =
     (if \<not> fi_IsDir root then Some (Inl (ErrorString (''not a dir: '' @ fi_Name root)))
      else (let prefix = pathJoin [prefix, fi_Name root]
            in dirLoop (getFilesRecursive fs n) fs prefix (ReadDir fs prefix) []))"

definition GetFilesRecursive :: "fsnode \<Rightarrow> AssetsRepo \<Rightarrow> string \<Rightarrow> (goerror + string list) option" where
  "GetFilesRecursive fs a path =
     (let absolutePath = Root a @ ''/'' @ path
      in case Stat fs absolutePath of
           Inl err \<Rightarrow> Some (Inl err)
         | Inr rootFI \<Rightarrow> getFilesRecursive fs (Suc (size fs)) (pathDir absolutePath) rootFI)"

section \<open>Well-formed trees\<close>

text \<open>Names in an embedded tree are path elements, each once per directory.\<close>

definition goodName :: "string \<Rightarrow> bool" where
  "goodName n \<longleftrightarrow> validElem n \<and> CHR ''/'' \<notin> set n"

lemma size_entry [termination_simp]:
  "(n, t) \<in> set es \<Longrightarrow> size t < Suc (size_list (size_prod (\<lambda>_. 0) size) es)"
  by (induction es) auto

fun wfTree :: "fsnode \<Rightarrow> bool" where
  "wfTree (File c) = True"
| "wfTree (Dir es) = (distinct (map fst es) \<and> list_all goodName (map fst es) \<and> list_all wfTree (map snd es))"

text \<open>The files below a directory, as paths, in the order of the tree.\<close>

fun filesBelow :: "string list \<Rightarrow> fsnode \<Rightarrow> string list list" where
  "filesBelow p (File c) = [p]"
| "filesBelow p (Dir es) = concat (map (\<lambda>(n, t). filesBelow (p @ [n]) t) es)"

section \<open>Paths of good names\<close>

definition goodPath :: "string list \<Rightarrow> bool" where
  "goodPath p \<longleftrightarrow> p \<noteq> [] \<and> list_all goodName p"

abbreviation pathText :: "string list \<Rightarrow> string" where
  "pathText p \<equiv> Join p ''/''"

lemma goodPath_snoc: "goodPath p \<Longrightarrow> goodName n \<Longrightarrow> goodPath (p @ [n])"
  by (simp add: goodPath_def)

lemma Split_path: "goodPath p \<Longrightarrow> Split (pathText p) CHR ''/'' = p"
  by (rule Split_Join) (auto simp: goodPath_def goodName_def list_all_iff)

lemma pathText_inj: "goodPath p \<Longrightarrow> goodPath q \<Longrightarrow> pathText p = pathText q \<longleftrightarrow> p = q"
  using Split_path by metis

lemma pathText_nonempty: "goodPath p \<Longrightarrow> pathText p \<noteq> []"
  using Split_path [of p] by (auto simp: goodPath_def goodName_def validElem_def)

lemma pathText_relative: "goodPath p \<Longrightarrow> \<not> HasPrefix (pathText p) ''/''"
proof
  assume g: "goodPath p" and "HasPrefix (pathText p) ''/''"
  then obtain t where "pathText p = CHR ''/'' # t" by (auto simp: HasPrefix_iff)
  then have "p = [] # Split t CHR ''/''" using Split_path [OF g] by simp
  then show False using g by (simp add: goodPath_def goodName_def validElem_def)
qed

lemma pathText_dot: "goodPath p \<Longrightarrow> pathText p \<noteq> ''.''"
  using Split_path [of p] by (auto simp: goodPath_def goodName_def validElem_def)

lemma cleanElems_good: "list_all goodName es \<Longrightarrow> cleanElems r es out = out @ es"
  by (induction es arbitrary: out) (auto simp: goodName_def validElem_def)

lemma Clean_good: "goodPath p \<Longrightarrow> Clean (pathText p) = pathText p"
  using pathText_relative [of p] pathText_nonempty [of p] cleanElems_good [of p]
  by (simp add: Clean_def Split_path Let_def) (simp add: goodPath_def)

lemma pathText_snoc: "goodPath p \<Longrightarrow> pathText (p @ [n]) = pathText p @ ''/'' @ n"
  using Join_append [of p "[n]" "''/''"] by (simp add: goodPath_def)

lemma pathJoin_good: "goodPath p \<Longrightarrow> goodName n \<Longrightarrow> pathJoin [pathText p, n] = pathText (p @ [n])"
  using Clean_good [OF goodPath_snoc] pathText_nonempty [of p] by (simp add: pathJoin_def pathText_snoc)

lemma pathDir_good:
  assumes "goodPath p" and "goodName n"
  shows "pathDir (pathText (p @ [n])) = pathText p"
proof -
  have "LastIndex (pathText p @ CHR ''/'' # n) CHR ''/'' = int (length (pathText p))"
    using assms(2) by (intro LastIndex_append_sep) (simp add: goodName_def)
  then have "pathDir (pathText (p @ [n])) = Clean (pathText p @ ''/'')"
    using assms(1) by (simp add: pathDir_def pathText_snoc nat_add_distrib)
  also have "\<dots> = pathText p"
  proof -
    have "Split (pathText p @ [CHR ''/'']) CHR ''/'' = p @ [[]]"
      using Split_Join [of "p @ [[]]" "CHR ''/''"] assms(1) Join_append [of p "[[]]" "''/''"]
      by (auto simp: goodPath_def goodName_def list_all_iff)
    moreover have "cleanElems r (p @ [[]]) [] = p" for r
    proof -
      have "cleanElems r (es @ [[]]) out = out @ es" if "list_all goodName es" for es out
        using that by (induction es arbitrary: out) (auto simp: goodName_def validElem_def)
      then show ?thesis using assms(1) by (simp add: goodPath_def)
    qed
    moreover have "\<not> HasPrefix (pathText p @ ''/'') ''/''"
      using pathText_relative [OF assms(1)] pathText_nonempty [OF assms(1)]
      by (cases "pathText p") (simp_all add: HasPrefix_def)
    ultimately show ?thesis using pathText_nonempty [OF assms(1)] by (simp add: Clean_def Let_def)
  qed
  finally show ?thesis .
qed

lemma Open_good: "goodPath p \<Longrightarrow> Open fs (pathText p) = walk fs p"
  using pathText_dot [of p]
  by (simp add: Open_def ValidPath_def Split_path) (auto simp: goodPath_def goodName_def list_all_iff)

section \<open>Walking the tree\<close>

lemma walk_append: "walk t (p @ q) = (case walk t p of None \<Rightarrow> None | Some u \<Rightarrow> walk u q)"
  by (induction t p rule: walk.induct) (auto split: option.split)

lemma wfTree_entry: "wfTree (Dir es) \<Longrightarrow> (n, t) \<in> set es \<Longrightarrow> goodName n \<and> wfTree t \<and> map_of es n = Some t"
  by (auto simp: list_all_iff)

lemma walk_wf: "wfTree t \<Longrightarrow> walk t p = Some u \<Longrightarrow> wfTree u \<and> list_all goodName p \<and> size u \<le> size t"
proof (induction t p arbitrary: u rule: walk.induct)
  case (3 es n ns)
  then obtain t where t: "map_of es n = Some t" "walk t ns = Some u" by (auto split: option.splits)
  then have m: "(n, t) \<in> set es" by (simp add: map_of_SomeD)
  then show ?case using 3 t wfTree_entry [OF 3(2) m] size_entry [OF m] by fastforce
qed auto

lemma walk_entry:
  assumes "walk fs p = Some (Dir es)" and "wfTree fs" and "(n, t) \<in> set es"
  shows "walk fs (p @ [n]) = Some t" and "goodName n"
  using walk_wf [OF assms(2,1)] wfTree_entry [of es n t] assms by (simp_all add: walk_append)

section \<open>The listing\<close>

lemma dirLoop_files:
  assumes "goodPath D"
    and "\<And>n t. (n, t) \<in> set es \<Longrightarrow> goodName n \<and> walk fs (D @ [n]) = Some t"
    and "\<And>n t. (n, t) \<in> set es \<Longrightarrow> isDir t \<Longrightarrow>
      rec (pathText D) \<lparr>fi_Name = n, fi_IsDir = True\<rparr> = Some (Inr (map pathText (filesBelow (D @ [n]) t)))"
  shows "dirLoop rec fs (pathText D) (map (\<lambda>(n, t). \<lparr>fi_Name = n, fi_IsDir = isDir t\<rparr>) es) out =
    Some (Inr (out @ map pathText (concat (map (\<lambda>(n, t). filesBelow (D @ [n]) t) es))))"
  using assms(2,3)
proof (induction es arbitrary: out)
  case (Cons e es)
  obtain n t where e: "e = (n, t)" by (cases e)
  have g: "goodName n" "walk fs (D @ [n]) = Some t" using Cons.prems(1) e by auto
  have path: "pathJoin [pathText D, n] = pathText (D @ [n])" using assms(1) g(1) by (rule pathJoin_good)
  have good: "goodPath (D @ [n])" using assms(1) g(1) by (rule goodPath_snoc)
  have stat: "Stat fs (pathJoin [pathText D, n]) = Inr \<lparr>fi_Name = n, fi_IsDir = isDir t\<rparr>"
    unfolding path Stat_def Open_good [OF good] g(2) Split_path [OF good] by simp
  have IH: "dirLoop rec fs (pathText D) (map (\<lambda>(n, t). \<lparr>fi_Name = n, fi_IsDir = isDir t\<rparr>) es) out =
    Some (Inr (out @ map pathText (concat (map (\<lambda>(n, t). filesBelow (D @ [n]) t) es))))" for out
    using Cons.prems by (intro Cons.IH) auto
  show ?case
  proof (cases t)
    case (File c)
    then show ?thesis by (simp add: e stat IH) (simp add: path)
  next
    case (Dir es')
    then have "rec (pathText D) \<lparr>fi_Name = n, fi_IsDir = True\<rparr> = Some (Inr (map pathText (filesBelow (D @ [n]) t)))"
      using Cons.prems(2) [of n t] e by simp
    then show ?thesis using Dir by (simp add: e stat IH)
  qed
qed simp

lemma getFilesRecursive_dir:
  assumes "wfTree fs"
  shows "goodPath D \<Longrightarrow> walk fs (D @ [d]) = Some (Dir es) \<Longrightarrow> size (Dir es) < n \<Longrightarrow>
    getFilesRecursive fs n (pathText D) \<lparr>fi_Name = d, fi_IsDir = True\<rparr> = Some (Inr (map pathText (filesBelow (D @ [d]) (Dir es))))"
proof (induction n arbitrary: D d es)
  case (Suc n)
  note entry = walk_entry [OF Suc.prems(2) assms]
  have d: "goodName d" using walk_wf [OF assms Suc.prems(2)] by simp
  have good: "goodPath (D @ [d])" using Suc.prems(1) d by (rule goodPath_snoc)
  have path: "pathJoin [pathText D, d] = pathText (D @ [d])" using Suc.prems(1) d by (rule pathJoin_good)
  have "getFilesRecursive fs n (pathText (D @ [d])) \<lparr>fi_Name = m, fi_IsDir = True\<rparr> =
      Some (Inr (map pathText (filesBelow ((D @ [d]) @ [m]) t)))" if m: "(m, t) \<in> set es" and "isDir t" for m t
  proof -
    obtain es' where t: "t = Dir es'" using \<open>isDir t\<close> by (cases t) auto
    have "size t < n" using size_entry [OF m] Suc.prems(3) by simp
    then show ?thesis using Suc.IH [OF good, of m es'] entry(1) [OF m] unfolding t by simp
  qed
  then have "dirLoop (getFilesRecursive fs n) fs (pathText (D @ [d])) (map (\<lambda>(n, t). \<lparr>fi_Name = n, fi_IsDir = isDir t\<rparr>) es) [] =
      Some (Inr (map pathText (filesBelow (D @ [d]) (Dir es))))"
    using dirLoop_files [OF good, of es fs "getFilesRecursive fs n" "[]"] entry by simp
  then show ?case
    by (simp add: path Let_def ReadDir_def Open_good [OF good] Suc.prems(2))
qed simp

lemma set_filesBelow:
  "wfTree t \<Longrightarrow> f \<in> set (filesBelow p t) \<longleftrightarrow> (\<exists>q c. f = p @ q \<and> walk t q = Some (File c))"
proof (induction p t rule: filesBelow.induct)
  case (1 p c)
  have "walk (File c) q = Some (File c') \<longleftrightarrow> q = [] \<and> c' = c" for q c' by (cases q) auto
  then show ?case by auto
next
  case (2 p es)
  have "f \<in> set (filesBelow p (Dir es)) \<longleftrightarrow> (\<exists>n t. (n, t) \<in> set es \<and> (\<exists>q c. f = (p @ [n]) @ q \<and> walk t q = Some (File c)))"
    using 2 wfTree_entry [OF 2(2)] by fastforce
  also have "\<dots> \<longleftrightarrow> (\<exists>n t q c. map_of es n = Some t \<and> f = p @ n # q \<and> walk t q = Some (File c))"
  proof -
    have "(n, t) \<in> set es \<longleftrightarrow> map_of es n = Some t" for n t
      using wfTree_entry [OF 2(2)] map_of_SomeD [of es] by blast
    then show ?thesis by auto
  qed
  also have "\<dots> \<longleftrightarrow> (\<exists>q c. f = p @ q \<and> walk (Dir es) q = Some (File c))"
  proof -
    have "walk (Dir es) q = Some (File c) \<longleftrightarrow> (\<exists>n r t. q = n # r \<and> map_of es n = Some t \<and> walk t r = Some (File c))" for q c
      by (cases q) (auto split: option.splits)
    then show ?thesis by auto
  qed
  finally show ?case .
qed

lemma distinct_filesBelow: "wfTree t \<Longrightarrow> distinct (filesBelow p t)"
proof (induction p t rule: filesBelow.induct)
  case (2 p es)
  have "distinct (concat (map (\<lambda>(n, t). filesBelow (p @ [n]) t) xs))" if "set xs \<subseteq> set es" "distinct (map fst xs)" for xs
    using that
  proof (induction xs)
    case (Cons x xs)
    obtain n t where x: "x = (n, t)" by (cases x)
    have wf: "\<And>m u. (m, u) \<in> set (x # xs) \<Longrightarrow> wfTree u"
      using wfTree_entry [OF 2(2)] Cons.prems(1) by blast
    have "f \<notin> set (concat (map (\<lambda>(n, t). filesBelow (p @ [n]) t) xs))" if f: "f \<in> set (filesBelow (p @ [n]) t)" for f
    proof
      assume "f \<in> set (concat (map (\<lambda>(n, t). filesBelow (p @ [n]) t) xs))"
      then obtain m u where mu: "(m, u) \<in> set xs" "f \<in> set (filesBelow (p @ [m]) u)" by auto
      then have "m = n" using f set_filesBelow [OF wf, of m u f "p @ [m]"] set_filesBelow [OF wf, of n t f "p @ [n]"] x by auto
      then show False using mu(1) Cons.prems(2) x by force
    qed
    then have "set (filesBelow (p @ [n]) t) \<inter> set (concat (map (\<lambda>(n, t). filesBelow (p @ [n]) t) xs)) = {}" by blast
    moreover have "distinct (filesBelow (p @ [n]) t)"
    proof (rule 2(1) [of x n t])
      show "x \<in> set es" using Cons.prems(1) by simp
      show "(n, t) = x" using x by simp
      show "wfTree t" by (rule wf [of n]) (simp add: x)
    qed
    moreover have "distinct (concat (map (\<lambda>(n, t). filesBelow (p @ [n]) t) xs))" using Cons by simp
    ultimately show ?case by (simp only: x list.map concat.simps prod.case distinct_append simp_thms)
  qed simp
  then show ?case using 2(2) by simp
qed simp

lemma GetFilesRecursive_eq:
  assumes "goodPath R" and "goodPath P"
  shows "GetFilesRecursive fs (NewRepo (pathText R)) (pathText P) =
    (case walk fs (R @ P) of
       None \<Rightarrow> Some (Inl (notExist ''open'' (pathText (R @ P))))
     | Some t \<Rightarrow> getFilesRecursive fs (Suc (size fs)) (pathText (R @ butlast P)) \<lparr>fi_Name = last P, fi_IsDir = isDir t\<rparr>)"
proof -
  have P: "R @ P = (R @ butlast P) @ [last P]" using assms(2) by (simp add: goodPath_def)
  have D: "goodPath (R @ butlast P)" "goodName (last P)"
    using assms by (auto simp: goodPath_def list_all_iff dest: in_set_butlastD)
  have good: "goodPath (R @ P)" unfolding P using D by (rule goodPath_snoc)
  have abs: "Root (NewRepo (pathText R)) @ ''/'' @ pathText P = pathText (R @ P)"
    using assms Join_append [of R P "''/''"] by (simp add: NewRepo_def goodPath_def)
  have "Stat fs (pathText (R @ P)) = (case walk fs (R @ P) of None \<Rightarrow> Inl (notExist ''open'' (pathText (R @ P)))
      | Some t \<Rightarrow> Inr \<lparr>fi_Name = last P, fi_IsDir = isDir t\<rparr>)"
    using assms(2) unfolding Stat_def Open_good [OF good] Split_path [OF good] by (simp add: goodPath_def split: option.split)
  moreover have "pathDir (pathText (R @ P)) = pathText (R @ butlast P)"
    using pathDir_good [OF D] unfolding P [symmetric] .
  ultimately show ?thesis
    unfolding GetFilesRecursive_def Let_def abs by (cases "walk fs (R @ P)") (simp_all only: option.case sum.case)
qed

text \<open>The files below a directory of a well-formed tree are exactly the paths under it that can be read.\<close>

lemma files_readable:
  assumes "wfTree fs" and "goodPath D" and "walk fs D = Some (Dir es)"
  shows "f \<in> set (map pathText (filesBelow D (Dir es))) \<longleftrightarrow>
      (\<exists>q c. f = pathText (D @ q) \<and> list_all goodName q \<and> ReadFile fs f = Inr c)"
    and "distinct (map pathText (filesBelow D (Dir es)))"
proof -
  have wf: "wfTree (Dir es)" using walk_wf [OF assms(1,3)] by simp
  have below: "g \<in> set (filesBelow D (Dir es)) \<longleftrightarrow> (\<exists>q c. g = D @ q \<and> walk fs (D @ q) = Some (File c))" for g
    using set_filesBelow [OF wf, of g D] walk_append [of fs D] assms(3) by simp
  have gp: "goodPath (D @ q) \<longleftrightarrow> list_all goodName q" for q using assms(2) by (auto simp: goodPath_def)
  have names: "list_all goodName q" if "walk fs (D @ q) = Some u" for q u using walk_wf [OF assms(1) that] by simp
  have read: "walk fs (D @ q) = Some (File c) \<longleftrightarrow> list_all goodName q \<and> ReadFile fs (pathText (D @ q)) = Inr c" for q c
  proof (cases "list_all goodName q")
    case True
    then show ?thesis using Open_good [of "D @ q" fs] by (simp add: gp ReadFile_def split: option.split fsnode.split)
  qed (use names in blast)
  have "f \<in> set (map pathText (filesBelow D (Dir es))) \<longleftrightarrow> (\<exists>q c. f = pathText (D @ q) \<and> walk fs (D @ q) = Some (File c))"
    by (simp only: set_map image_iff Bex_def below) blast
  then show "f \<in> set (map pathText (filesBelow D (Dir es))) \<longleftrightarrow>
      (\<exists>q c. f = pathText (D @ q) \<and> list_all goodName q \<and> ReadFile fs f = Inr c)"
    unfolding read by metis
  have "inj_on pathText (set (filesBelow D (Dir es)))"
    using below names gp pathText_inj by (intro inj_onI) metis
  then show "distinct (map pathText (filesBelow D (Dir es)))"
    using distinct_filesBelow [OF wf, of D] by (simp only: distinct_map simp_thms)
qed

lemma GetFilesRecursive_dir:
  assumes "wfTree fs" and "goodPath R" and "goodPath P" and walk: "walk fs (R @ P) = Some (Dir es)"
  shows "GetFilesRecursive fs (NewRepo (pathText R)) (pathText P) = Some (Inr (map pathText (filesBelow (R @ P) (Dir es))))"
proof -
  have P: "(R @ butlast P) @ [last P] = R @ P" using assms(3) by (simp add: goodPath_def)
  have D: "goodPath (R @ butlast P)"
    using assms(2,3) by (auto simp: goodPath_def list_all_iff dest: in_set_butlastD)
  have "size (Dir es) < Suc (size fs)" using walk_wf [OF assms(1) walk] by (metis le_imp_less_Suc)
  from getFilesRecursive_dir [OF assms(1) D walk [folded P] this] show ?thesis
    unfolding GetFilesRecursive_eq [OF assms(2,3)] walk P by (simp only: option.case isDir.simps)
qed

text \<open>C33. The manifest repository lists what it holds. For a well-formed tree and paths made of names, the
  listing always ends: a path that does not exist or names a file is an error, and for a directory
  the result has every file below it exactly once, as a path under which \<open>ReadFile\<close> finds it, and
  nothing else.\<close>

theorem GetFilesRecursive_lists:
  assumes "wfTree fs" and "goodPath R" and "goodPath P"
  shows "case walk fs (R @ P) of
      None \<Rightarrow> GetFilesRecursive fs (NewRepo (pathText R)) (pathText P) = Some (Inl (notExist ''open'' (pathText (R @ P))))
    | Some (File c) \<Rightarrow> GetFilesRecursive fs (NewRepo (pathText R)) (pathText P) = Some (Inl (ErrorString (''not a dir: '' @ last P)))
    | Some (Dir es) \<Rightarrow>
        \<exists>files. GetFilesRecursive fs (NewRepo (pathText R)) (pathText P) = Some (Inr files) \<and> distinct files
          \<and> (\<forall>f. f \<in> set files \<longleftrightarrow> (\<exists>q c. f = pathText (R @ P @ q) \<and> list_all goodName q \<and> ReadFile fs f = Inr c))"
proof (cases "walk fs (R @ P)")
  case (Some t)
  show ?thesis
  proof (cases t)
    case (Dir es)
    have D: "goodPath (R @ P)" using assms(2,3) by (simp add: goodPath_def)
    have walk: "walk fs (R @ P) = Some (Dir es)" using Some Dir by simp
    have "GetFilesRecursive fs (NewRepo (pathText R)) (pathText P) = Some (Inr (map pathText (filesBelow (R @ P) (Dir es))))"
      by (rule GetFilesRecursive_dir [OF assms walk])
    then show ?thesis
      using files_readable [OF assms(1) D walk] by (simp only: walk option.case fsnode.case append.assoc) blast
  qed (simp add: GetFilesRecursive_eq [OF assms(2,3)] Some)
qed (simp add: GetFilesRecursive_eq [OF assms(2,3)])

definition demoTree :: fsnode where
  "demoTree = Dir [(''ui'', Dir [(''templates'', Dir [(''deployment.yaml'', File ''kind: Deployment''),
     (''sub'', Dir [(''service.yaml'', File ''kind: Service'')])])])]"

theorem GetFilesRecursive_lists_witness:
  "\<exists>files. GetFilesRecursive demoTree (NewRepo ''ui'') ''templates'' = Some (Inr files) \<and> distinct files
     \<and> ''ui/templates/sub/service.yaml'' \<in> set files"
proof -
  have wf: "wfTree demoTree" and R: "goodPath [''ui'']" and P: "goodPath [''templates'']"
    by (simp_all add: demoTree_def goodPath_def goodName_def validElem_def)
  have walk: "walk demoTree ([''ui''] @ [''templates'']) =
      Some (Dir [(''deployment.yaml'', File ''kind: Deployment''), (''sub'', Dir [(''service.yaml'', File ''kind: Service'')])])"
    by (simp add: demoTree_def)
  obtain files where f: "GetFilesRecursive demoTree (NewRepo ''ui'') ''templates'' = Some (Inr files)" "distinct files"
    "\<And>f. f \<in> set files \<longleftrightarrow> (\<exists>q c. f = pathText ([''ui''] @ [''templates''] @ q) \<and> list_all goodName q \<and> ReadFile demoTree f = Inr c)"
    using GetFilesRecursive_lists [OF wf R P] unfolding walk by auto
  have q: "goodPath [''ui'', ''templates'', ''sub'', ''service.yaml'']" "list_all goodName [''sub'', ''service.yaml'']"
    by (simp_all add: goodPath_def goodName_def validElem_def)
  have "ReadFile demoTree (pathText ([''ui''] @ [''templates''] @ [''sub'', ''service.yaml''])) = Inr ''kind: Service''"
    using Open_good [OF q(1), of demoTree] by (simp add: ReadFile_def) (simp add: demoTree_def)
  then have "pathText ([''ui''] @ [''templates''] @ [''sub'', ''service.yaml'']) \<in> set files"
    using f(3) q(2) by blast
  then show ?thesis using f(1,2) by simp
qed

end
