(* ===== verification/Operator_Config.thy ===== *)
theory Operator_Config
  imports Prelude
begin

text \<open>
  The operator's configuration file, \<open>operator/pkg/config/config.go\<close>: its structure, reading it, and
  the options of the controller manager made from it. Opening the file and decoding YAML are
  parameters.
\<close>

record HealthConfig =
  HealthProbeBindAddress :: string

record MetricsConfig =
  MetricsBindAddress :: string

record WebhookConfig =
  wc_Port :: int

record LeaderElectionConfig =
  le_Enabled :: bool
  le_ResourceID :: string

record OperatorConfig =
  oc_ApiVersion :: string
  oc_Kind :: string
  oc_Health :: HealthConfig
  oc_Metrics :: MetricsConfig
  oc_Webhook :: WebhookConfig
  oc_LeaderElection :: LeaderElectionConfig

record ManagerOptionsRec =
  mo_HealthProbeBindAddress :: string
  mo_LeaderElection :: bool
  mo_LeaderElectionID :: string
  mo_MetricsBindAddress :: string
  mo_WebhookPort :: int

definition zeroConfig :: OperatorConfig where
  "zeroConfig = \<lparr>oc_ApiVersion = [], oc_Kind = [], oc_Health = \<lparr>HealthProbeBindAddress = []\<rparr>,
     oc_Metrics = \<lparr>MetricsBindAddress = []\<rparr>, oc_Webhook = \<lparr>wc_Port = 0\<rparr>,
     oc_LeaderElection = \<lparr>le_Enabled = False, le_ResourceID = []\<rparr>\<rparr>"

definition ParseFile ::
  "(string \<Rightarrow> goerror + string) \<Rightarrow> (string \<Rightarrow> OperatorConfig \<Rightarrow> goerror option \<times> OperatorConfig) \<Rightarrow> string
   \<Rightarrow> goerror + OperatorConfig" where
  "ParseFile open' decode path =
     (case open' path of
        Inl err \<Rightarrow> Inl (ErrorString (''could not open the configuration file: '' @ Error err))
      | Inr fd \<Rightarrow>
          (case decode fd zeroConfig of
             (Some err, cfg) \<Rightarrow> Inl (ErrorString (''could not decode configuration file: '' @ Error err))
           | (None, cfg) \<Rightarrow> Inr cfg))"

definition ManagerOptions :: "OperatorConfig \<Rightarrow> ManagerOptionsRec" where
  "ManagerOptions c =
     \<lparr>mo_HealthProbeBindAddress = HealthProbeBindAddress (oc_Health c), mo_LeaderElection = le_Enabled (oc_LeaderElection c),
      mo_LeaderElectionID = le_ResourceID (oc_LeaderElection c), mo_MetricsBindAddress = MetricsBindAddress (oc_Metrics c),
      mo_WebhookPort = wc_Port (oc_Webhook c)\<rparr>"

end
