(* ===== verification/Operator_Main.thy ===== *)
theory Operator_Main
  imports Manifest_Repo Operator_Config Api_Types
begin

text \<open>
  The entry point of the operator, \<open>operator/main.go\<close>, with what it sets up: the scheme of the API group
  (\<open>groupversion_info.go\<close> and the \<open>init\<close> functions of \<open>*_types.go\<close>), what every controller watches
  (\<open>SetupWithManager\<close>) and which webhooks are registered (\<open>SetupWebhookWithManager\<close>). The manager of
  controller-runtime is a parameter that answers one call after another; the configuration that
  asks the API server to send admission requests, \<open>config/webhook/manifests.yaml\<close>, is a table.
\<close>

section \<open>The scheme (groupversion_info.go)\<close>

record 's SchemeOps =
  so_AddKnownTypes :: "string \<times> string \<Rightarrow> string list \<Rightarrow> 's \<Rightarrow> 's"
  so_AddToGroupVersion :: "string \<times> string \<Rightarrow> 's \<Rightarrow> 's"

record 's groupVersionSchemeBuilder =
  sb_gv :: "string \<times> string"
  sb_funcs :: "('s \<Rightarrow> goerror option \<times> 's) list"

definition SchemeBuilder :: "'s groupVersionSchemeBuilder" where
  "SchemeBuilder = \<lparr>sb_gv = GroupVersion, sb_funcs = []\<rparr>"

definition SchemeBuilder_Register :: "'s SchemeOps \<Rightarrow> string list \<Rightarrow> 's groupVersionSchemeBuilder \<Rightarrow> 's groupVersionSchemeBuilder" where
  "SchemeBuilder_Register ops objects b =
     b\<lparr>sb_funcs := sb_funcs b @
       [\<lambda>s. let s = so_AddKnownTypes ops (sb_gv b) objects s; s = so_AddToGroupVersion ops (sb_gv b) s in (None, s)]\<rparr>"

text \<open>\<open>runtime.SchemeBuilder.AddToScheme\<close>: the functions in turn, until one fails.\<close>

fun addAll :: "('s \<Rightarrow> goerror option \<times> 's) list \<Rightarrow> 's \<Rightarrow> goerror option \<times> 's" where
  "addAll [] s = (None, s)"
| "addAll (f # fs) s = (case f s of (Some err, s) \<Rightarrow> (Some err, s) | (None, s) \<Rightarrow> addAll fs s)"

definition SchemeBuilder_AddToScheme :: "'s groupVersionSchemeBuilder \<Rightarrow> 's \<Rightarrow> goerror option \<times> 's" where
  "SchemeBuilder_AddToScheme b s = addAll (sb_funcs b) s"

text \<open>The \<open>init\<close> functions of \<open>*_types.go\<close>.\<close>

definition BanyanDB_init :: "'s SchemeOps \<Rightarrow> 's groupVersionSchemeBuilder \<Rightarrow> 's groupVersionSchemeBuilder" where
  "BanyanDB_init ops b = SchemeBuilder_Register ops [''BanyanDB'', ''BanyanDBList''] b"

definition EventExporter_init :: "'s SchemeOps \<Rightarrow> 's groupVersionSchemeBuilder \<Rightarrow> 's groupVersionSchemeBuilder" where
  "EventExporter_init ops b = SchemeBuilder_Register ops [''EventExporter'', ''EventExporterList''] b"

definition Fetcher_init :: "'s SchemeOps \<Rightarrow> 's groupVersionSchemeBuilder \<Rightarrow> 's groupVersionSchemeBuilder" where
  "Fetcher_init ops b = SchemeBuilder_Register ops [''Fetcher'', ''FetcherList''] b"

definition JavaAgent_init :: "'s SchemeOps \<Rightarrow> 's groupVersionSchemeBuilder \<Rightarrow> 's groupVersionSchemeBuilder" where
  "JavaAgent_init ops b = SchemeBuilder_Register ops [''JavaAgent'', ''JavaAgentList''] b"

definition OAPServer_init :: "'s SchemeOps \<Rightarrow> 's groupVersionSchemeBuilder \<Rightarrow> 's groupVersionSchemeBuilder" where
  "OAPServer_init ops b = SchemeBuilder_Register ops [''OAPServer'', ''OAPServerList''] b"

definition OAPServerConfig_init :: "'s SchemeOps \<Rightarrow> 's groupVersionSchemeBuilder \<Rightarrow> 's groupVersionSchemeBuilder" where
  "OAPServerConfig_init ops b = SchemeBuilder_Register ops [''OAPServerConfig'', ''OAPServerConfigList''] b"

definition OAPServerDynamicConfig_init :: "'s SchemeOps \<Rightarrow> 's groupVersionSchemeBuilder \<Rightarrow> 's groupVersionSchemeBuilder" where
  "OAPServerDynamicConfig_init ops b = SchemeBuilder_Register ops [''OAPServerDynamicConfig'', ''OAPServerDynamicConfigList''] b"

definition Satellite_init :: "'s SchemeOps \<Rightarrow> 's groupVersionSchemeBuilder \<Rightarrow> 's groupVersionSchemeBuilder" where
  "Satellite_init ops b = SchemeBuilder_Register ops [''Satellite'', ''SatelliteList''] b"

definition Storage_init :: "'s SchemeOps \<Rightarrow> 's groupVersionSchemeBuilder \<Rightarrow> 's groupVersionSchemeBuilder" where
  "Storage_init ops b = SchemeBuilder_Register ops [''Storage'', ''StorageList''] b"

definition SwAgent_init :: "'s SchemeOps \<Rightarrow> 's groupVersionSchemeBuilder \<Rightarrow> 's groupVersionSchemeBuilder" where
  "SwAgent_init ops b = SchemeBuilder_Register ops [''SwAgent'', ''SwAgentList''] b"

definition UI_init :: "'s SchemeOps \<Rightarrow> 's groupVersionSchemeBuilder \<Rightarrow> 's groupVersionSchemeBuilder" where
  "UI_init ops b = SchemeBuilder_Register ops [''UI'', ''UIList''] b"

text \<open>The package is initialised file by file, in the order of the file names.\<close>

definition registerAll :: "'s SchemeOps \<Rightarrow> 's groupVersionSchemeBuilder" where
  "registerAll ops =
     (let b = SchemeBuilder; b = BanyanDB_init ops b; b = EventExporter_init ops b; b = Fetcher_init ops b;
          b = JavaAgent_init ops b; b = OAPServer_init ops b; b = OAPServerConfig_init ops b;
          b = OAPServerDynamicConfig_init ops b; b = Satellite_init ops b; b = Storage_init ops b;
          b = SwAgent_init ops b; b = UI_init ops b
      in b)"

text \<open>\<open>init\<close> of package \<open>main\<close>; \<open>utilruntime.Must\<close> panics with the error it is given.\<close>

definition initScheme :: "'s SchemeOps \<Rightarrow> ('s \<Rightarrow> goerror option \<times> 's) \<Rightarrow> 's \<Rightarrow> goerror + 's" where
  "initScheme ops clientgo s =
     (case clientgo s of
        (Some err, s) \<Rightarrow> Inl err
      | (None, s) \<Rightarrow>
          (case SchemeBuilder_AddToScheme (registerAll ops) s of
             (Some err, s) \<Rightarrow> Inl err
           | (None, s) \<Rightarrow> Inr s))"

section \<open>Controllers and webhooks\<close>

record Reconciler =
  rec_FileRepo :: "AssetsRepo option"
  rec_Recorder :: "string option"

record ControllerSetup =
  ctl_Reconciler :: Reconciler
  ctl_For :: GroupVersionKind
  ctl_Owns :: "GroupVersionKind list"
  ctl_EventFilter :: bool

datatype Checker = StartedChecker | Ping

datatype ManagerCall =
    CompleteController ControllerSetup
  | CompleteWebhook GroupVersionKind bool bool \<comment> \<open>with a defaulter, with a validator\<close>
  | RegisterWebhook string
  | AddHealthzCheck string Checker
  | AddReadyzCheck string Checker
  | StartManager

definition operatorKind :: "string \<Rightarrow> GroupVersionKind" where
  "operatorKind k = WithKind GroupVersion k"

definition appsKind :: "string \<Rightarrow> GroupVersionKind" where
  "appsKind k = WithKind (''apps'', ''v1'') k"

definition coreKind :: "string \<Rightarrow> GroupVersionKind" where
  "coreKind k = WithKind ([], ''v1'') k"

definition networkingKind :: "string \<Rightarrow> GroupVersionKind" where
  "networkingKind k = WithKind (''networking.k8s.io'', ''v1'') k"

definition controllerOf :: "Reconciler \<Rightarrow> GroupVersionKind \<Rightarrow> GroupVersionKind list \<Rightarrow> ManagerCall" where
  "controllerOf r k owns = CompleteController \<lparr>ctl_Reconciler = r, ctl_For = k, ctl_Owns = owns, ctl_EventFilter = False\<rparr>"

definition OAPServer_SetupWithManager :: "Reconciler \<Rightarrow> ManagerCall" where
  "OAPServer_SetupWithManager r = controllerOf r (operatorKind ''OAPServer'') [appsKind ''Deployment'', coreKind ''Service'']"

definition UI_SetupWithManager :: "Reconciler \<Rightarrow> ManagerCall" where
  "UI_SetupWithManager r = controllerOf r (operatorKind ''UI'')
     [appsKind ''Deployment'', coreKind ''Service'', coreKind ''ConfigMap'', networkingKind ''Ingress'']"

definition Fetcher_SetupWithManager :: "Reconciler \<Rightarrow> ManagerCall" where
  "Fetcher_SetupWithManager r = controllerOf r (operatorKind ''Fetcher'') [appsKind ''Deployment'', coreKind ''ConfigMap'']"

definition Storage_SetupWithManager :: "Reconciler \<Rightarrow> ManagerCall" where
  "Storage_SetupWithManager r = controllerOf r (operatorKind ''Storage'') [coreKind ''Service'']"

text \<open>The event filter itself is \<open>CreateFunc\<close>, \<open>UpdateFunc\<close> and \<open>DeleteFunc\<close> of
  \<open>JavaAgent_Controller\<close>.\<close>

definition JavaAgent_SetupWithManager :: "Reconciler \<Rightarrow> ManagerCall" where
  "JavaAgent_SetupWithManager r = CompleteController
     \<lparr>ctl_Reconciler = r, ctl_For = coreKind ''Pod'', ctl_Owns = [operatorKind ''JavaAgent''], ctl_EventFilter = True\<rparr>"

definition Satellite_SetupWithManager :: "Reconciler \<Rightarrow> ManagerCall" where
  "Satellite_SetupWithManager r = controllerOf r (operatorKind ''Satellite'') []"

definition SwAgent_SetupWithManager :: "Reconciler \<Rightarrow> ManagerCall" where
  "SwAgent_SetupWithManager r = controllerOf r (operatorKind ''SwAgent'') []"

definition OAPServerConfig_SetupWithManager :: "Reconciler \<Rightarrow> ManagerCall" where
  "OAPServerConfig_SetupWithManager r = controllerOf r (operatorKind ''OAPServerConfig'') [appsKind ''Deployment'']"

definition OAPServerDynamicConfig_SetupWithManager :: "Reconciler \<Rightarrow> ManagerCall" where
  "OAPServerDynamicConfig_SetupWithManager r = controllerOf r (operatorKind ''OAPServerDynamicConfig'') []"

definition BanyanDB_SetupWithManager :: "Reconciler \<Rightarrow> ManagerCall" where
  "BanyanDB_SetupWithManager r = controllerOf r (operatorKind ''BanyanDB'') []"

definition EventExporter_SetupWithManager :: "Reconciler \<Rightarrow> ManagerCall" where
  "EventExporter_SetupWithManager r = controllerOf r (operatorKind ''EventExporter'') []"

definition OAPServer_SetupWebhookWithManager :: ManagerCall where
  "OAPServer_SetupWebhookWithManager = CompleteWebhook (operatorKind ''OAPServer'') True True"

definition UI_SetupWebhookWithManager :: ManagerCall where
  "UI_SetupWebhookWithManager = CompleteWebhook (operatorKind ''UI'') True True"

definition Fetcher_SetupWebhookWithManager :: ManagerCall where
  "Fetcher_SetupWebhookWithManager = CompleteWebhook (operatorKind ''Fetcher'') True True"

definition Storage_SetupWebhookWithManager :: ManagerCall where
  "Storage_SetupWebhookWithManager = CompleteWebhook (operatorKind ''Storage'') True True"

definition JavaAgent_SetupWebhookWithManager :: ManagerCall where
  "JavaAgent_SetupWebhookWithManager = CompleteWebhook (operatorKind ''JavaAgent'') True True"

definition Satellite_SetupWebhookWithManager :: ManagerCall where
  "Satellite_SetupWebhookWithManager = CompleteWebhook (operatorKind ''Satellite'') True True"

definition SwAgent_SetupWebhookWithManager :: ManagerCall where
  "SwAgent_SetupWebhookWithManager = CompleteWebhook (operatorKind ''SwAgent'') True True"

definition OAPServerConfig_SetupWebhookWithManager :: ManagerCall where
  "OAPServerConfig_SetupWebhookWithManager = CompleteWebhook (operatorKind ''OAPServerConfig'') True True"

definition OAPServerDynamicConfig_SetupWebhookWithManager :: ManagerCall where
  "OAPServerDynamicConfig_SetupWebhookWithManager = CompleteWebhook (operatorKind ''OAPServerDynamicConfig'') True True"

definition BanyanDB_SetupWebhookWithManager :: ManagerCall where
  "BanyanDB_SetupWebhookWithManager = CompleteWebhook (operatorKind ''BanyanDB'') True True"

definition EventExporter_SetupWebhookWithManager :: ManagerCall where
  "EventExporter_SetupWebhookWithManager = CompleteWebhook (operatorKind ''EventExporter'') True True"

section \<open>main\<close>

text \<open>A step of the set-up: a call of the manager, what is logged when it fails, and whether the
  process then exits. \<open>Register\<close> of the webhook server returns no error.\<close>

record SetupStep =
  ss_Call :: ManagerCall
  ss_Log :: "string \<times> (string \<times> string) option"
  ss_Exit :: bool

definition repoReconciler :: "string \<Rightarrow> Reconciler" where
  "repoReconciler component = \<lparr>rec_FileRepo = Some (NewRepo component), rec_Recorder = Some (component @ ''-controller'')\<rparr>"

definition controllerStep :: "ManagerCall \<Rightarrow> string \<Rightarrow> SetupStep" where
  "controllerStep c name = \<lparr>ss_Call = c, ss_Log = (''unable to create controller'', Some (''controller'', name)), ss_Exit = True\<rparr>"

definition webhookStep :: "ManagerCall \<Rightarrow> string \<Rightarrow> SetupStep" where
  "webhookStep c name = \<lparr>ss_Call = c, ss_Log = (''unable to create webhook'', Some (''webhook'', name)), ss_Exit = True\<rparr>"

definition controllerSteps :: "SetupStep list" where
  "controllerSteps =
     [controllerStep (OAPServer_SetupWithManager (repoReconciler ''oapserver'')) ''OAPServer'',
      controllerStep (UI_SetupWithManager (repoReconciler ''ui'')) ''UI'',
      controllerStep (Fetcher_SetupWithManager (repoReconciler ''fetcher'')) ''Fetcher'',
      controllerStep (Storage_SetupWithManager (repoReconciler ''storage'')) ''Storage'',
      controllerStep (JavaAgent_SetupWithManager \<lparr>rec_FileRepo = Some (NewRepo ''injector''), rec_Recorder = None\<rparr>) ''JavaAgent'',
      controllerStep (Satellite_SetupWithManager (repoReconciler ''satellite'')) ''Satellite'',
      controllerStep (SwAgent_SetupWithManager \<lparr>rec_FileRepo = None, rec_Recorder = None\<rparr>) ''SwAgent'',
      controllerStep (OAPServerConfig_SetupWithManager \<lparr>rec_FileRepo = None, rec_Recorder = None\<rparr>) ''OAPServerConfig'',
      controllerStep (OAPServerDynamicConfig_SetupWithManager \<lparr>rec_FileRepo = None, rec_Recorder = None\<rparr>) ''OAPServerDynamicConfig'',
      controllerStep (BanyanDB_SetupWithManager (repoReconciler ''banyandb'')) ''BanyanDB'',
      controllerStep (EventExporter_SetupWithManager (repoReconciler ''eventexporter'')) ''EventExporter'']"

definition webhookSteps :: "SetupStep list" where
  "webhookSteps =
     [webhookStep OAPServer_SetupWebhookWithManager ''OAPServer'',
      webhookStep UI_SetupWebhookWithManager ''UI'',
      webhookStep Fetcher_SetupWebhookWithManager ''Fetcher'',
      webhookStep Storage_SetupWebhookWithManager ''Storage'',
      webhookStep JavaAgent_SetupWebhookWithManager ''JavaAgent'',
      webhookStep Satellite_SetupWebhookWithManager ''Satellite'',
      webhookStep SwAgent_SetupWebhookWithManager ''SwAgent'',
      webhookStep OAPServerConfig_SetupWebhookWithManager ''OAPServerConfig'',
      webhookStep OAPServerDynamicConfig_SetupWebhookWithManager ''OAPServerDynamicConfig'',
      webhookStep BanyanDB_SetupWebhookWithManager ''BanyanDB'',
      webhookStep EventExporter_SetupWebhookWithManager ''EventExporter'',
      \<lparr>ss_Call = RegisterWebhook ''/mutate-v1-pod'', ss_Log = ([], None), ss_Exit = False\<rparr>,
      \<lparr>ss_Call = AddHealthzCheck ''healthz'' StartedChecker, ss_Log = (''unable to set up health check for webhook'', None), ss_Exit = True\<rparr>,
      \<lparr>ss_Call = AddReadyzCheck ''readyz'' StartedChecker, ss_Log = (''unable to set up ready check for webhook'', None), ss_Exit = True\<rparr>]"

definition pingSteps :: "SetupStep list" where
  "pingSteps =
     [\<lparr>ss_Call = AddHealthzCheck ''healthz'' Ping, ss_Log = (''unable to set up ready check'', None), ss_Exit = False\<rparr>,
      \<lparr>ss_Call = AddReadyzCheck ''readyz'' Ping, ss_Log = (''unable to set up ready check'', None), ss_Exit = False\<rparr>]"

definition setupSteps :: "(string \<Rightarrow> string) \<Rightarrow> SetupStep list" where
  "setupSteps getenv =
     controllerSteps
     @ (if getenv ''ENABLE_WEBHOOKS'' \<noteq> ''false'' then webhookSteps else pingSteps)
     @ [\<lparr>ss_Call = StartManager, ss_Log = (''problem running manager'', None), ss_Exit = True\<rparr>]"

text \<open>How the process ends: \<open>main\<close> returns, a library exits with a code, or \<open>main\<close> logs an error and exits
  with code 1.\<close>

datatype mainOutcome = Returned | Exited int | Failed goerror "string \<times> (string \<times> string) option"

fun runSetup :: "(ManagerCall \<Rightarrow> 'w \<Rightarrow> goerror option \<times> 'w) \<Rightarrow> SetupStep list \<Rightarrow> 'w \<Rightarrow> mainOutcome \<times> 'w" where
  "runSetup mgr [] w = (Returned, w)"
| "runSetup mgr (s # ss) w =
     (case mgr (ss_Call s) w of
        (None, w) \<Rightarrow> runSetup mgr ss w
      | (Some err, w) \<Rightarrow> if ss_Exit s then (Failed err (ss_Log s), w) else runSetup mgr ss w)"

record ('w, 's) OperatorEnv =
  oe_Parse :: "string list \<Rightarrow> int + string" \<comment> \<open>flag.Parse: it exits, or the value of -config\<close>
  oe_Open :: "string \<Rightarrow> goerror + string"
  oe_Decode :: "string \<Rightarrow> OperatorConfig \<Rightarrow> goerror option \<times> OperatorConfig"
  oe_Getenv :: "string \<Rightarrow> string"
  oe_GetConfigOrDie :: "int option" \<comment> \<open>the code it exits with, if it does\<close>
  oe_NewManager :: "'s \<Rightarrow> ManagerOptionsRec \<Rightarrow> 'w \<Rightarrow> goerror option \<times> 'w"
  oe_Manager :: "ManagerCall \<Rightarrow> 'w \<Rightarrow> goerror option \<times> 'w"

definition operatorMain :: "('w, 's) OperatorEnv \<Rightarrow> 's \<Rightarrow> string list \<Rightarrow> 'w \<Rightarrow> mainOutcome \<times> 'w" where
  "operatorMain env scheme args w =
     (case oe_Parse env args of
        Inl code \<Rightarrow> (Exited code, w)
      | Inr configFile \<Rightarrow>
          (case (if configFile \<noteq> [] then ParseFile (oe_Open env) (oe_Decode env) configFile else Inr zeroConfig) of
             Inl err \<Rightarrow> (Failed err (''unable to load the config file'', None), w)
           | Inr options \<Rightarrow>
               (let o' = ManagerOptions options
                in case oe_GetConfigOrDie env of
                     Some code \<Rightarrow> (Exited code, w)
                   | None \<Rightarrow>
                       (case oe_NewManager env scheme o' w of
                          (Some err, w) \<Rightarrow> (Failed err (''unable to start manager'', None), w)
                        | (None, w) \<Rightarrow> runSetup (oe_Manager env) (setupSteps (oe_Getenv env)) w))))"

section \<open>The scheme knows every kind\<close>

text \<open>The kinds of the API group.\<close>

definition apiKinds :: "string list" where
  "apiKinds = [''BanyanDB'', ''EventExporter'', ''Fetcher'', ''JavaAgent'', ''OAPServer'', ''OAPServerConfig'',
     ''OAPServerDynamicConfig'', ''Satellite'', ''Storage'', ''SwAgent'', ''UI'']"

lemma registerAll_eq: "registerAll ops = fold (\<lambda>k. SchemeBuilder_Register ops [k, k @ ''List'']) apiKinds SchemeBuilder"
  by (simp add: registerAll_def apiKinds_def BanyanDB_init_def EventExporter_init_def Fetcher_init_def JavaAgent_init_def OAPServer_init_def OAPServerConfig_init_def OAPServerDynamicConfig_init_def Satellite_init_def Storage_init_def SwAgent_init_def UI_init_def)

text \<open>What is relied on of \<open>runtime.Scheme\<close>: a type is known after it was added, and stays known.\<close>

definition keepsTypes :: "'s SchemeOps \<Rightarrow> ('s \<Rightarrow> GroupVersionKind set) \<Rightarrow> bool" where
  "keepsTypes ops known \<longleftrightarrow>
     (\<forall>gv ks s. known s \<union> WithKind gv ` set ks \<subseteq> known (so_AddKnownTypes ops gv ks s))
     \<and> (\<forall>gv s. known s \<subseteq> known (so_AddToGroupVersion ops gv s))"

lemma registered_keeps:
  assumes "keepsTypes ops known" and "addAll (sb_funcs b) s = (None, s1)"
  shows "\<exists>s2. addAll (sb_funcs (SchemeBuilder_Register ops ks b)) s = (None, s2)
    \<and> known s1 \<union> WithKind (sb_gv b) ` set ks \<subseteq> known s2"
proof -
  have app: "addAll fs s = (None, s1) \<Longrightarrow> addAll (fs @ gs) s = addAll gs s1" for fs gs s
    by (induction fs arbitrary: s) (auto split: prod.splits option.splits)
  let ?k = "so_AddKnownTypes ops (sb_gv b) ks s1"
  have "known s1 \<union> WithKind (sb_gv b) ` set ks \<subseteq> known (so_AddToGroupVersion ops (sb_gv b) ?k)"
    using assms(1) unfolding keepsTypes_def by blast
  then show ?thesis using app [OF assms(2)] by (simp add: SchemeBuilder_Register_def Let_def)
qed

lemma sb_gv_Register [simp]: "sb_gv (SchemeBuilder_Register ops ks b) = sb_gv b"
  by (simp add: SchemeBuilder_Register_def)

lemma registerAll_knows:
  assumes "keepsTypes ops known" and "addAll (sb_funcs b) s = (None, s1)"
  shows "\<exists>s2. addAll (sb_funcs (fold (\<lambda>k. SchemeBuilder_Register ops [k, k @ ''List'']) kinds b)) s = (None, s2)
    \<and> known s1 \<union> WithKind (sb_gv b) ` set kinds \<subseteq> known s2"
  using assms(2)
proof (induction kinds arbitrary: b s1)
  case (Cons k kinds)
  obtain s2 where "addAll (sb_funcs (SchemeBuilder_Register ops [k, k @ ''List''] b)) s = (None, s2)"
    and k: "known s1 \<union> WithKind (sb_gv b) ` set [k, k @ ''List''] \<subseteq> known s2"
    using registered_keeps [OF assms(1) Cons.prems, of "[k, k @ ''List'']"] by (elim exE conjE)
  from Cons.IH [OF this(1)] k show ?case by auto
qed simp

text \<open>The kinds that a call of the manager makes it look up in the scheme.\<close>

fun kindsOf :: "ManagerCall \<Rightarrow> GroupVersionKind list" where
  "kindsOf (CompleteController c) = ctl_For c # ctl_Owns c"
| "kindsOf (CompleteWebhook k d v) = [k]"
| "kindsOf _ = []"

lemmas setup_defs = setupSteps_def controllerSteps_def webhookSteps_def pingSteps_def controllerStep_def webhookStep_def
  controllerOf_def repoReconciler_def
  OAPServer_SetupWithManager_def UI_SetupWithManager_def Fetcher_SetupWithManager_def Storage_SetupWithManager_def
  JavaAgent_SetupWithManager_def Satellite_SetupWithManager_def SwAgent_SetupWithManager_def
  OAPServerConfig_SetupWithManager_def OAPServerDynamicConfig_SetupWithManager_def BanyanDB_SetupWithManager_def
  EventExporter_SetupWithManager_def
  OAPServer_SetupWebhookWithManager_def UI_SetupWebhookWithManager_def Fetcher_SetupWebhookWithManager_def
  Storage_SetupWebhookWithManager_def JavaAgent_SetupWebhookWithManager_def Satellite_SetupWebhookWithManager_def
  SwAgent_SetupWebhookWithManager_def OAPServerConfig_SetupWebhookWithManager_def
  OAPServerDynamicConfig_SetupWebhookWithManager_def BanyanDB_SetupWebhookWithManager_def
  EventExporter_SetupWebhookWithManager_def

definition builtinKinds :: "GroupVersionKind set" where
  "builtinKinds = {coreKind ''Pod'', coreKind ''Service'', coreKind ''ConfigMap'', appsKind ''Deployment'', networkingKind ''Ingress''}"

lemma setup_kinds:
  "st \<in> set (setupSteps getenv) \<Longrightarrow> set (kindsOf (ss_Call st)) \<subseteq> builtinKinds \<union> operatorKind ` set apiKinds"
  by (auto simp: setup_defs builtinKinds_def apiKinds_def split: if_splits)

text \<open>The operator knows every kind it works with. The API group's builder cannot fail, so when the
  built-in types are added without an error the scheme is built, and every kind that a controller
  reconciles or owns, and every kind a webhook is for, is then known to it.\<close>

theorem scheme_knows_kinds:
  assumes "keepsTypes ops known" and "clientgo s = (None, s1)" and "builtinKinds \<subseteq> known s1"
  shows "\<exists>scheme. initScheme ops clientgo s = Inr scheme
    \<and> (\<Union>st \<in> set (setupSteps getenv). set (kindsOf (ss_Call st))) \<subseteq> known scheme
    \<and> (\<Union>st \<in> set controllerSteps. set (kindsOf (ss_Call st))) = builtinKinds \<union> operatorKind ` set apiKinds"
proof -
  have "addAll (sb_funcs SchemeBuilder) s1 = (None, s1)" by (simp add: SchemeBuilder_def)
  from registerAll_knows [OF assms(1) this, of apiKinds]
  have "\<exists>s2. addAll (sb_funcs (registerAll ops)) s1 = (None, s2) \<and> known s1 \<union> WithKind GroupVersion ` set apiKinds \<subseteq> known s2"
    by (simp add: registerAll_eq SchemeBuilder_def)
  then obtain s2 where a: "addAll (sb_funcs (registerAll ops)) s1 = (None, s2)"
    and k: "known s1 \<union> WithKind GroupVersion ` set apiKinds \<subseteq> known s2" by (elim exE conjE)
  have "builtinKinds \<union> operatorKind ` set apiKinds \<subseteq> known s2"
    using k assms(3) by (auto simp: operatorKind_def)
  then have "(\<Union>st \<in> set (setupSteps getenv). set (kindsOf (ss_Call st))) \<subseteq> known s2"
    using setup_kinds by (meson UN_least order.trans)
  moreover have "(\<Union>st \<in> set controllerSteps. set (kindsOf (ss_Call st))) = builtinKinds \<union> operatorKind ` set apiKinds"
    by (auto simp: setup_defs builtinKinds_def apiKinds_def)
  ultimately show ?thesis using a by (simp add: initScheme_def assms(2) SchemeBuilder_AddToScheme_def)
qed

theorem scheme_knows_kinds_witness:
  "\<exists>scheme. initScheme \<lparr>so_AddKnownTypes = \<lambda>gv ks s. s \<union> WithKind gv ` set ks, so_AddToGroupVersion = \<lambda>gv s. s\<rparr>
      (\<lambda>s. (None, s \<union> builtinKinds)) {} = Inr scheme
    \<and> (\<Union>st \<in> set (setupSteps (\<lambda>_. [])). set (kindsOf (ss_Call st))) \<subseteq> scheme
    \<and> (\<Union>st \<in> set controllerSteps. set (kindsOf (ss_Call st))) = builtinKinds \<union> operatorKind ` set apiKinds"
  by (rule scheme_knows_kinds [where known = "\<lambda>s. s"]) (auto simp: keepsTypes_def)

section \<open>Starting\<close>

text \<open>The calls made of the manager, each with its answer.\<close>

definition recorded ::
  "(ManagerCall \<Rightarrow> 'w \<Rightarrow> goerror option \<times> 'w)
   \<Rightarrow> ManagerCall \<Rightarrow> 'w \<times> (ManagerCall \<times> goerror option) list
   \<Rightarrow> goerror option \<times> ('w \<times> (ManagerCall \<times> goerror option) list)" where
  "recorded mgr c = (\<lambda>(w, tr). case mgr c w of (err, w) \<Rightarrow> (err, (w, tr @ [(c, err)])))"

definition recordingEnv :: "('w, 's) OperatorEnv \<Rightarrow> ('w \<times> (ManagerCall \<times> goerror option) list, 's) OperatorEnv" where
  "recordingEnv env =
     \<lparr>oe_Parse = oe_Parse env, oe_Open = oe_Open env, oe_Decode = oe_Decode env, oe_Getenv = oe_Getenv env,
      oe_GetConfigOrDie = oe_GetConfigOrDie env,
      oe_NewManager = (\<lambda>sch opts (w, tr). case oe_NewManager env sch opts w of (err, w) \<Rightarrow> (err, (w, tr))),
      oe_Manager = recorded (oe_Manager env)\<rparr>"

definition tolerated :: "SetupStep \<Rightarrow> ManagerCall \<times> goerror option \<Rightarrow> bool" where
  "tolerated s a \<longleftrightarrow> fst a = ss_Call s \<and> (ss_Exit s \<longrightarrow> snd a = None)"

lemma runSetup_recorded:
  assumes "runSetup (recorded mgr) ss (w, tr) = (out, (w', tr'))"
  shows "out = Returned \<and> (\<exists>as. tr' = tr @ as \<and> list_all2 tolerated ss as)
    \<or> (\<exists>pre st post as err. ss = pre @ st # post \<and> ss_Exit st \<and> out = Failed err (ss_Log st)
        \<and> tr' = tr @ as @ [(ss_Call st, Some err)] \<and> list_all2 tolerated pre as)"
  using assms
proof (induction ss arbitrary: w tr)
  case (Cons st ss)
  obtain e w1 where m: "mgr (ss_Call st) w = (e, w1)" by force
  then have r: "recorded mgr (ss_Call st) (w, tr) = (e, (w1, tr @ [(ss_Call st, e)]))" by (simp add: recorded_def)
  show ?case
  proof (cases "e \<noteq> None \<and> ss_Exit st")
    case True
    then obtain err where "e = Some err" by blast
    with True Cons.prems r have "ss_Exit st \<and> out = Failed err (ss_Log st) \<and> tr' = tr @ [] @ [(ss_Call st, Some err)]" by simp
    then show ?thesis by (intro disjI2 exI [of _ "[]"] exI [of _ st] exI [of _ ss] exI [of _ err]) simp
  next
    case False
    then have t: "tolerated st (ss_Call st, e)" by (auto simp: tolerated_def)
    have "runSetup (recorded mgr) ss (w1, tr @ [(ss_Call st, e)]) = (out, (w', tr'))"
      using Cons.prems r False by (auto split: option.splits)
    from Cons.IH [OF this] show ?thesis
    proof (elim disjE conjE exE)
      fix as assume "out = Returned" "tr' = (tr @ [(ss_Call st, e)]) @ as" "list_all2 tolerated ss as"
      then show ?thesis using t by (intro disjI1 conjI exI [of _ "(ss_Call st, e) # as"]) simp_all
    next
      fix pre st' post as err
      assume "ss = pre @ st' # post" "ss_Exit st'" "out = Failed err (ss_Log st')"
        "tr' = (tr @ [(ss_Call st, e)]) @ as @ [(ss_Call st', Some err)]" "list_all2 tolerated pre as"
      then show ?thesis using t
        by (intro disjI2 exI [of _ "st # pre"] exI [of _ st'] exI [of _ post] exI [of _ "(ss_Call st, e) # as"] exI [of _ err]) simp
    qed
  qed
qed simp

lemma setupSteps_start:
  "\<exists>before. setupSteps getenv = before @ [\<lparr>ss_Call = StartManager, ss_Log = (''problem running manager'', None), ss_Exit = True\<rparr>]
     \<and> StartManager \<notin> ss_Call ` set before"
proof -
  have "StartManager \<notin> ss_Call ` set (controllerSteps @ (if getenv ''ENABLE_WEBHOOKS'' \<noteq> ''false'' then webhookSteps else pingSteps))"
    by (simp add: setup_defs)
  then show ?thesis unfolding setupSteps_def append_assoc [symmetric] by (intro exI conjI) (rule refl)
qed


text \<open>Example: the webhook of the user interface cannot be set up.\<close>

definition demoOperator :: "(unit, unit) OperatorEnv" where
  "demoOperator =
     \<lparr>oe_Parse = \<lambda>args. Inr [], oe_Open = Inr, oe_Decode = \<lambda>t c. (None, c), oe_Getenv = \<lambda>v. [], oe_GetConfigOrDie = None,
      oe_NewManager = \<lambda>sch opts w. (None, w), oe_Manager = \<lambda>c w. (if c = UI_SetupWebhookWithManager then Some (ErrorString ''no'') else None, w)\<rparr>"

lemma demoOperator_run:
  "operatorMain (recordingEnv demoOperator) () [] ((), []) =
     (Failed (ErrorString ''no'') (''unable to create webhook'', Some (''webhook'', ''UI'')),
      ((), map (\<lambda>s. (ss_Call s, None)) controllerSteps @
         [(OAPServer_SetupWebhookWithManager, None), (UI_SetupWebhookWithManager, Some (ErrorString ''no''))]))"
  by (simp add: operatorMain_def recordingEnv_def demoOperator_def recorded_def Let_def setup_defs operatorKind_def WithKind_def)


section \<open>Admission requests\<close>

text \<open>The paths at which the webhook builder of controller-runtime serves a kind.\<close>

definition webhookPath :: "string \<Rightarrow> GroupVersionKind \<Rightarrow> string" where
  "webhookPath prefix k =
     prefix @ map (\<lambda>c. if c = CHR ''.'' then CHR ''-'' else c) (gvk_Group k) @ ''-'' @ gvk_Version k @ ''-'' @ ToLower (gvk_Kind k)"

fun servedPaths :: "ManagerCall \<Rightarrow> string list" where
  "servedPaths (CompleteWebhook k defaulter validator) =
     (if defaulter then [webhookPath ''/mutate-'' k] else []) @ (if validator then [webhookPath ''/validate-'' k] else [])"
| "servedPaths (RegisterWebhook p) = [p]"
| "servedPaths _ = []"

text \<open>The admission requests the API server is asked to send.\<close>

record WebhookRule =
  wr_Mutating :: bool
  wr_Path :: string
  wr_Group :: string
  wr_Version :: string
  wr_Operations :: "string list"
  wr_Resource :: string

definition crRule :: "bool \<Rightarrow> string \<Rightarrow> string \<Rightarrow> WebhookRule" where
  "crRule mutating path resource =
     \<lparr>wr_Mutating = mutating, wr_Path = path, wr_Group = ''operator.skywalking.apache.org'', wr_Version = ''v1alpha1'',
      wr_Operations = [''CREATE'', ''UPDATE''], wr_Resource = resource\<rparr>"

definition webhookRules :: "WebhookRule list" where
  "webhookRules =
     [crRule True ''/mutate-operator-skywalking-apache-org-v1alpha1-banyandb'' ''banyandbs'',
      crRule True ''/mutate-operator-skywalking-apache-org-v1alpha1-eventexporter'' ''eventexporters'',
      crRule True ''/mutate-operator-skywalking-apache-org-v1alpha1-eventexporter'' ''eventexporters'',
      crRule True ''/mutate-operator-skywalking-apache-org-v1alpha1-fetcher'' ''fetchers'',
      crRule True ''/mutate-operator-skywalking-apache-org-v1alpha1-javaagent'' ''javaagents'',
      crRule True ''/mutate-operator-skywalking-apache-org-v1alpha1-oapserver'' ''oapservers'',
      crRule True ''/mutate-operator-skywalking-apache-org-v1alpha1-oapserverconfig'' ''oapserverconfigs'',
      crRule True ''/mutate-operator-skywalking-apache-org-v1alpha1-oapserverdynamicconfig'' ''oapserverdynamicconfigs'',
      crRule True ''/mutate-operator-skywalking-apache-org-v1alpha1-satellite'' ''satellites'',
      crRule True ''/mutate-operator-skywalking-apache-org-v1alpha1-storage'' ''storages'',
      crRule True ''/mutate-operator-skywalking-apache-org-v1alpha1-swagent'' ''swagents'',
      crRule True ''/mutate-operator-skywalking-apache-org-v1alpha1-ui'' ''uis'',
      \<lparr>wr_Mutating = True, wr_Path = ''/mutate-v1-pod'', wr_Group = [], wr_Version = ''v1'', wr_Operations = [''CREATE'', ''UPDATE''], wr_Resource = ''pods''\<rparr>,
      crRule False ''/validate-operator-skywalking-apache-org-v1alpha1-banyandb'' ''banyandbs'',
      crRule False ''/validate-operator-skywalking-apache-org-v1alpha1-fetcher'' ''fetchers'',
      crRule False ''/validate-operator-skywalking-apache-org-v1alpha1-javaagent'' ''javaagents'',
      crRule False ''/validate-operator-skywalking-apache-org-v1alpha1-oapserver'' ''oapservers'',
      crRule False ''/validate-operator-skywalking-apache-org-v1alpha1-oapserverconfig'' ''oapserverconfigs'',
      crRule False ''/validate-operator-skywalking-apache-org-v1alpha1-oapserverdynamicconfig'' ''oapserverdynamicconfigs'',
      crRule False ''/validate-operator-skywalking-apache-org-v1alpha1-satellite'' ''satellites'',
      crRule False ''/validate-operator-skywalking-apache-org-v1alpha1-storage'' ''storages'',
      crRule False ''/validate-operator-skywalking-apache-org-v1alpha1-swagent'' ''swagents'',
      crRule False ''/validate-operator-skywalking-apache-org-v1alpha1-ui'' ''uis'']"

lemma webhookPath_operatorKind:
  "webhookPath prefix (operatorKind k) = prefix @ ''operator-skywalking-apache-org-v1alpha1-'' @ ToLower k"
  by (simp add: webhookPath_def operatorKind_def WithKind_def GroupVersion_def)

lemma served_eq:
  assumes "getenv ''ENABLE_WEBHOOKS'' \<noteq> ''false''"
  shows "(\<Union>st \<in> set (setupSteps getenv). set (servedPaths (ss_Call st))) =
    (\<lambda>k. webhookPath ''/mutate-'' (operatorKind k)) ` set apiKinds
    \<union> (\<lambda>k. webhookPath ''/validate-'' (operatorKind k)) ` set apiKinds \<union> {''/mutate-v1-pod''}"
  using assms by (auto simp: setup_defs apiKinds_def)

lemma webhookRules_eq:
  "webhookRules =
     map (\<lambda>k. crRule True (webhookPath ''/mutate-'' (operatorKind k)) (ToLower k @ ''s''))
       (''BanyanDB'' # ''EventExporter'' # tl apiKinds)
     @ \<lparr>wr_Mutating = True, wr_Path = ''/mutate-v1-pod'', wr_Group = [], wr_Version = ''v1'',
        wr_Operations = [''CREATE'', ''UPDATE''], wr_Resource = ''pods''\<rparr>
     # map (\<lambda>k. crRule False (webhookPath ''/validate-'' (operatorKind k)) (ToLower k @ ''s''))
       (remove1 ''EventExporter'' apiKinds)"
  by code_simp

lemma apiKinds_facts: "distinct apiKinds" "set (''BanyanDB'' # ''EventExporter'' # tl apiKinds) = set apiKinds"
  by (auto simp: apiKinds_def)

lemma requested_eq:
  "(\<lambda>r. (wr_Mutating r, wr_Path r, wr_Resource r)) ` set webhookRules =
    (\<lambda>k. (True, webhookPath ''/mutate-'' (operatorKind k), ToLower k @ ''s'')) ` set apiKinds
    \<union> (\<lambda>k. (False, webhookPath ''/validate-'' (operatorKind k), ToLower k @ ''s'')) ` (set apiKinds - {''EventExporter''})
    \<union> {(True, ''/mutate-v1-pod'', ''pods'')}"
proof -
  have "set (remove1 ''EventExporter'' apiKinds) = set apiKinds - {''EventExporter''}"
    using apiKinds_facts(1) by (rule set_remove1_eq)
  then show ?thesis
    unfolding webhookRules_eq set_append set_map list.set(2) image_Un image_insert image_image apiKinds_facts(2) [unfolded list.set(2)]
    by (simp add: crRule_def apiKinds_facts(2) [unfolded list.set(2)])
qed

lemma eventexporter_not_requested:
  "webhookPath ''/validate-'' (operatorKind ''EventExporter'') \<notin> set (map wr_Path webhookRules)"
  by code_simp

lemma rules_operations: "list_all (\<lambda>r. wr_Operations r = [''CREATE'', ''UPDATE'']) webhookRules"
  by code_simp

text \<open>C21. Which admission requests reach the operator. With webhooks enabled, every path the API server
  is told to call is served, for the resources of the kind that serves it, and on creation and update
  only, so no deletion is ever validated. What is served is requested, with one exception: no request
  reaches the validator of event exporters.\<close>

theorem webhook_requests_served:
  assumes "getenv ''ENABLE_WEBHOOKS'' \<noteq> ''false''"
  defines "served \<equiv> \<Union>st \<in> set (setupSteps getenv). set (servedPaths (ss_Call st))"
  shows "set (map wr_Path webhookRules) = served - {webhookPath ''/validate-'' (operatorKind ''EventExporter'')}
    \<and> webhookPath ''/validate-'' (operatorKind ''EventExporter'') \<in> served
    \<and> (\<lambda>r. (wr_Mutating r, wr_Path r, wr_Resource r)) ` set webhookRules =
        (\<lambda>k. (True, webhookPath ''/mutate-'' (operatorKind k), ToLower k @ ''s'')) ` set apiKinds
        \<union> (\<lambda>k. (False, webhookPath ''/validate-'' (operatorKind k), ToLower k @ ''s'')) ` (set apiKinds - {''EventExporter''})
        \<union> {(True, ''/mutate-v1-pod'', ''pods'')}
    \<and> list_all (\<lambda>r. wr_Operations r = [''CREATE'', ''UPDATE'']) webhookRules"
proof (intro conjI)
  let ?v = "webhookPath ''/validate-'' (operatorKind ''EventExporter'')"
  have "set (map wr_Path webhookRules) = (\<lambda>(m, p, r). p) ` (\<lambda>r. (wr_Mutating r, wr_Path r, wr_Resource r)) ` set webhookRules"
    by (simp add: image_image)
  also have "\<dots> = (\<lambda>k. webhookPath ''/mutate-'' (operatorKind k)) ` set apiKinds
      \<union> (\<lambda>k. webhookPath ''/validate-'' (operatorKind k)) ` (set apiKinds - {''EventExporter''}) \<union> {''/mutate-v1-pod''}"
    unfolding requested_eq image_Un image_image by simp
  finally have req: "set (map wr_Path webhookRules) = \<dots>" .
  have "''EventExporter'' \<in> set apiKinds" by (simp add: apiKinds_def)
  then have "served = insert ?v (set (map wr_Path webhookRules))"
    unfolding served_def served_eq [of getenv, OF assms(1)] req by blast
  then show "set (map wr_Path webhookRules) = served - {?v}" and "?v \<in> served"
    using eventexporter_not_requested by auto
qed (rule requested_eq rules_operations)+

theorem webhook_requests_served_witness:
  "webhookPath ''/validate-'' (operatorKind ''EventExporter'')
    \<in> (\<Union>st \<in> set (setupSteps (\<lambda>v. ''true'')). set (servedPaths (ss_Call st)))"
  using webhook_requests_served [of "\<lambda>v. ''true''"] by simp

end
