(* ===== verification/Shipped_Manifests.thy ===== *)
theory Shipped_Manifests
  imports Controllers_Basic Operator_Main
begin

text \<open>
  The manifests the operator ships (\<open>operator/pkg/operator/manifests\<close>, embedded by \<open>repo.go\<close>): the tree of
  files, and for every file the identity of the object it describes, as its header lines give it.
  What the templates render beyond the identity stays a parameter. Which objects a resource
  addresses decides whether several resources can live on one server.
\<close>

section \<open>The manifests\<close>

text \<open>Where the object of a manifest is placed: under the name of the resource with a suffix, in its
  namespace; under a fixed name for the whole cluster; or under a name that the specification gives.\<close>

datatype placement = Suffix string | Cluster string | BySpec

record Manifest =
  mf_Path :: "string list"
  mf_APIVersion :: string
  mf_Kind :: string
  mf_Place :: placement

definition mf_File :: "Manifest \<Rightarrow> string" where
  "mf_File m = pathText (mf_Path m)"

definition manifest :: "string list \<Rightarrow> string \<Rightarrow> string \<Rightarrow> string \<Rightarrow> placement \<Rightarrow> Manifest" where
  "manifest component file apiVersion kind p =
     \<lparr>mf_Path = component @ [''templates'', file], mf_APIVersion = apiVersion, mf_Kind = kind, mf_Place = p\<rparr>"

definition banyandb_deployment_yaml :: Manifest where
  "banyandb_deployment_yaml = manifest [''banyandb''] ''deployment.yaml'' ''apps/v1'' ''Deployment'' (Suffix ''-banyandb'')"

definition banyandb_grpc_service_yaml :: Manifest where
  "banyandb_grpc_service_yaml = manifest [''banyandb''] ''grpc_service.yaml'' ''v1'' ''Service'' (Suffix ''-banyandb-grpc'')"

definition banyandb_http_service_yaml :: Manifest where
  "banyandb_http_service_yaml = manifest [''banyandb''] ''http_service.yaml'' ''v1'' ''Service'' (Suffix ''-banyandb-http'')"

definition banyandb_ingress_yaml :: Manifest where
  "banyandb_ingress_yaml = manifest [''banyandb''] ''ingress.yaml'' ''networking.k8s.io/v1'' ''Ingress'' (Suffix ''-banyandb'')"

definition banyandb_pvc_yaml :: Manifest where
  "banyandb_pvc_yaml = manifest [''banyandb''] ''pvc.yaml'' ''v1'' ''PersistentVolumeClaim'' BySpec"

definition banyandb_service_account_yaml :: Manifest where
  "banyandb_service_account_yaml = manifest [''banyandb''] ''service_account.yaml'' ''v1'' ''ServiceAccount'' (Suffix ''-banyandb'')"

definition banyandb_manifests :: "Manifest list" where
  "banyandb_manifests =
     [banyandb_deployment_yaml, banyandb_grpc_service_yaml, banyandb_http_service_yaml,
      banyandb_ingress_yaml, banyandb_pvc_yaml, banyandb_service_account_yaml]"

definition eventexporter_cluster_role_yaml :: Manifest where
  "eventexporter_cluster_role_yaml = manifest [''eventexporter''] ''cluster_role.yaml'' ''rbac.authorization.k8s.io/v1'' ''ClusterRole'' (Cluster ''swck:eventexporter'')"

definition eventexporter_cluster_role_binding_yaml :: Manifest where
  "eventexporter_cluster_role_binding_yaml = manifest [''eventexporter''] ''cluster_role_binding.yaml'' ''rbac.authorization.k8s.io/v1'' ''ClusterRoleBinding'' (Cluster ''swck:eventexporter'')"

definition eventexporter_deployment_yaml :: Manifest where
  "eventexporter_deployment_yaml = manifest [''eventexporter''] ''deployment.yaml'' ''apps/v1'' ''Deployment'' (Suffix ''-eventexporter'')"

definition eventexporter_service_account_yaml :: Manifest where
  "eventexporter_service_account_yaml = manifest [''eventexporter''] ''service_account.yaml'' ''v1'' ''ServiceAccount'' (Suffix ''-eventexporter'')"

definition eventexporter_manifests :: "Manifest list" where
  "eventexporter_manifests =
     [eventexporter_cluster_role_yaml, eventexporter_cluster_role_binding_yaml, eventexporter_deployment_yaml,
      eventexporter_service_account_yaml]"

definition fetcher_cluster_role_yaml :: Manifest where
  "fetcher_cluster_role_yaml = manifest [''fetcher''] ''cluster_role.yaml'' ''rbac.authorization.k8s.io/v1'' ''ClusterRole'' (Cluster ''swck:fetcher'')"

definition fetcher_cluster_role_binding_yaml :: Manifest where
  "fetcher_cluster_role_binding_yaml = manifest [''fetcher''] ''cluster_role_binding.yaml'' ''rbac.authorization.k8s.io/v1'' ''ClusterRoleBinding'' (Cluster ''swck:fetcher'')"

definition fetcher_configmap_yaml :: Manifest where
  "fetcher_configmap_yaml = manifest [''fetcher''] ''configmap.yaml'' ''v1'' ''ConfigMap'' (Suffix ''-fetcher'')"

definition fetcher_deployment_yaml :: Manifest where
  "fetcher_deployment_yaml = manifest [''fetcher''] ''deployment.yaml'' ''apps/v1'' ''Deployment'' (Suffix ''-fetcher'')"

definition fetcher_service_account_yaml :: Manifest where
  "fetcher_service_account_yaml = manifest [''fetcher''] ''service_account.yaml'' ''v1'' ''ServiceAccount'' (Suffix ''-fetcher'')"

definition fetcher_manifests :: "Manifest list" where
  "fetcher_manifests =
     [fetcher_cluster_role_yaml, fetcher_cluster_role_binding_yaml, fetcher_configmap_yaml,
      fetcher_deployment_yaml, fetcher_service_account_yaml]"

definition oapserver_cluster_role_yaml :: Manifest where
  "oapserver_cluster_role_yaml = manifest [''oapserver''] ''cluster_role.yaml'' ''rbac.authorization.k8s.io/v1'' ''ClusterRole'' (Cluster ''swck:oapserver'')"

definition oapserver_cluster_role_binding_yaml :: Manifest where
  "oapserver_cluster_role_binding_yaml = manifest [''oapserver''] ''cluster_role_binding.yaml'' ''rbac.authorization.k8s.io/v1'' ''ClusterRoleBinding'' (Cluster ''swck:oapserver'')"

definition oapserver_deployment_yaml :: Manifest where
  "oapserver_deployment_yaml = manifest [''oapserver''] ''deployment.yaml'' ''apps/v1'' ''Deployment'' (Suffix ''-oap'')"

definition oapserver_ingress_yaml :: Manifest where
  "oapserver_ingress_yaml = manifest [''oapserver''] ''ingress.yaml'' ''networking.k8s.io/v1'' ''Ingress'' (Suffix ''-ui'')"

definition oapserver_service_yaml :: Manifest where
  "oapserver_service_yaml = manifest [''oapserver''] ''service.yaml'' ''v1'' ''Service'' (Suffix ''-oap'')"

definition oapserver_service_account_yaml :: Manifest where
  "oapserver_service_account_yaml = manifest [''oapserver''] ''service_account.yaml'' ''v1'' ''ServiceAccount'' (Suffix ''-oap'')"

definition oapserver_manifests :: "Manifest list" where
  "oapserver_manifests =
     [oapserver_cluster_role_yaml, oapserver_cluster_role_binding_yaml, oapserver_deployment_yaml,
      oapserver_ingress_yaml, oapserver_service_yaml, oapserver_service_account_yaml]"

definition satellite_cluster_role_yaml :: Manifest where
  "satellite_cluster_role_yaml = manifest [''satellite''] ''cluster_role.yaml'' ''rbac.authorization.k8s.io/v1'' ''ClusterRole'' (Cluster ''swck:satellite'')"

definition satellite_cluster_role_binding_yaml :: Manifest where
  "satellite_cluster_role_binding_yaml = manifest [''satellite''] ''cluster_role_binding.yaml'' ''rbac.authorization.k8s.io/v1'' ''ClusterRoleBinding'' (Cluster ''swck:satellite'')"

definition satellite_deployment_yaml :: Manifest where
  "satellite_deployment_yaml = manifest [''satellite''] ''deployment.yaml'' ''apps/v1'' ''Deployment'' (Suffix ''-satellite'')"

definition satellite_service_yaml :: Manifest where
  "satellite_service_yaml = manifest [''satellite''] ''service.yaml'' ''v1'' ''Service'' (Suffix ''-satellite'')"

definition satellite_service_account_yaml :: Manifest where
  "satellite_service_account_yaml = manifest [''satellite''] ''service_account.yaml'' ''v1'' ''ServiceAccount'' (Suffix ''-satellite'')"

definition satellite_manifests :: "Manifest list" where
  "satellite_manifests =
     [satellite_cluster_role_yaml, satellite_cluster_role_binding_yaml, satellite_deployment_yaml,
      satellite_service_yaml, satellite_service_account_yaml]"

definition elasticsearch_configmap_yaml :: Manifest where
  "elasticsearch_configmap_yaml = manifest [''storage'', ''elasticsearch''] ''configmap.yaml'' ''v1'' ''ConfigMap'' (Suffix ''-config'')"

definition elasticsearch_service_yaml :: Manifest where
  "elasticsearch_service_yaml = manifest [''storage'', ''elasticsearch''] ''service.yaml'' ''v1'' ''Service'' BySpec"

definition elasticsearch_service_account_yaml :: Manifest where
  "elasticsearch_service_account_yaml = manifest [''storage'', ''elasticsearch''] ''service_account.yaml'' ''v1'' ''ServiceAccount'' (Suffix ''-elasticsearch'')"

definition elasticsearch_statefulset_yaml :: Manifest where
  "elasticsearch_statefulset_yaml = manifest [''storage'', ''elasticsearch''] ''statefulset.yaml'' ''apps/v1'' ''StatefulSet'' (Suffix ''-elasticsearch'')"

definition elasticsearch_manifests :: "Manifest list" where
  "elasticsearch_manifests =
     [elasticsearch_configmap_yaml, elasticsearch_service_yaml, elasticsearch_service_account_yaml,
      elasticsearch_statefulset_yaml]"

definition ui_configmap_yaml :: Manifest where
  "ui_configmap_yaml = manifest [''ui''] ''configmap.yaml'' ''v1'' ''ConfigMap'' (Suffix ''-ui-horizon'')"

definition ui_deployment_yaml :: Manifest where
  "ui_deployment_yaml = manifest [''ui''] ''deployment.yaml'' ''apps/v1'' ''Deployment'' (Suffix ''-ui'')"

definition ui_ingress_yaml :: Manifest where
  "ui_ingress_yaml = manifest [''ui''] ''ingress.yaml'' ''networking.k8s.io/v1'' ''Ingress'' (Suffix ''-ui'')"

definition ui_service_yaml :: Manifest where
  "ui_service_yaml = manifest [''ui''] ''service.yaml'' ''v1'' ''Service'' (Suffix ''-ui'')"

definition ui_manifests :: "Manifest list" where
  "ui_manifests =
     [ui_configmap_yaml, ui_deployment_yaml, ui_ingress_yaml,
      ui_service_yaml]"

definition shipped :: "(string list \<times> Manifest list) list" where
  "shipped = [([''banyandb''], banyandb_manifests), ([''eventexporter''], eventexporter_manifests), ([''fetcher''], fetcher_manifests),
     ([''oapserver''], oapserver_manifests), ([''satellite''], satellite_manifests), ([''storage'', ''elasticsearch''], elasticsearch_manifests),
     ([''ui''], ui_manifests)]"

lemmas manifest_defs = banyandb_manifests_def eventexporter_manifests_def fetcher_manifests_def oapserver_manifests_def
  satellite_manifests_def elasticsearch_manifests_def ui_manifests_def manifest_def
  banyandb_deployment_yaml_def banyandb_grpc_service_yaml_def banyandb_http_service_yaml_def banyandb_ingress_yaml_def
  banyandb_pvc_yaml_def banyandb_service_account_yaml_def eventexporter_cluster_role_yaml_def eventexporter_cluster_role_binding_yaml_def
  eventexporter_deployment_yaml_def eventexporter_service_account_yaml_def fetcher_cluster_role_yaml_def fetcher_cluster_role_binding_yaml_def
  fetcher_configmap_yaml_def fetcher_deployment_yaml_def fetcher_service_account_yaml_def oapserver_cluster_role_yaml_def
  oapserver_cluster_role_binding_yaml_def oapserver_deployment_yaml_def oapserver_ingress_yaml_def oapserver_service_yaml_def
  oapserver_service_account_yaml_def satellite_cluster_role_yaml_def satellite_cluster_role_binding_yaml_def satellite_deployment_yaml_def
  satellite_service_yaml_def satellite_service_account_yaml_def elasticsearch_configmap_yaml_def elasticsearch_service_yaml_def
  elasticsearch_service_account_yaml_def elasticsearch_statefulset_yaml_def ui_configmap_yaml_def ui_deployment_yaml_def
  ui_ingress_yaml_def ui_service_yaml_def

text \<open>The embedded files, with their contents left open.\<close>

definition templatesDir :: "(string \<Rightarrow> string) \<Rightarrow> string list \<Rightarrow> string list \<Rightarrow> fsnode" where
  "templatesDir body component files =
     Dir [(''templates'', Dir (map (\<lambda>f. (f, File (body (pathText (component @ [''templates'', f]))))) files))]"

definition embedded :: "(string \<Rightarrow> string) \<Rightarrow> fsnode" where
  "embedded body = Dir
     [(''banyandb'', templatesDir body [''banyandb'']
        [''deployment.yaml'', ''grpc_service.yaml'', ''http_service.yaml'', ''ingress.yaml'', ''pvc.yaml'', ''service_account.yaml'']),
      (''eventexporter'', templatesDir body [''eventexporter'']
        [''cluster_role.yaml'', ''cluster_role_binding.yaml'', ''deployment.yaml'', ''service_account.yaml'']),
      (''fetcher'', templatesDir body [''fetcher'']
        [''cluster_role.yaml'', ''cluster_role_binding.yaml'', ''configmap.yaml'', ''deployment.yaml'', ''service_account.yaml'']),
      (''injector'', templatesDir body [''injector''] [''annotations.yaml'', ''javaagent.yaml'']),
      (''oapserver'', templatesDir body [''oapserver'']
        [''cluster_role.yaml'', ''cluster_role_binding.yaml'', ''deployment.yaml'', ''ingress.yaml'', ''service.yaml'', ''service_account.yaml'']),
      (''satellite'', templatesDir body [''satellite'']
        [''cluster_role.yaml'', ''cluster_role_binding.yaml'', ''deployment.yaml'', ''service.yaml'', ''service_account.yaml'']),
      (''storage'', Dir [(''elasticsearch'', templatesDir body [''storage'', ''elasticsearch'']
        [''configmap.yaml'', ''service.yaml'', ''service_account.yaml'', ''statefulset.yaml''])]),
      (''ui'', templatesDir body [''ui''] [''configmap.yaml'', ''deployment.yaml'', ''ingress.yaml'', ''service.yaml''])]"

text \<open>The identity of a manifest's object for a resource of a given name and namespace.\<close>

fun placed :: "placement \<Rightarrow> string \<Rightarrow> string \<Rightarrow> ObjectKey option" where
  "placed (Suffix s) ns name = Some (objectKey ns (name @ s))"
| "placed (Cluster n) ns name = Some (objectKey [] n)"
| "placed BySpec ns name = None"

definition identOf :: "Manifest \<Rightarrow> string \<Rightarrow> string \<Rightarrow> ident option" where
  "identOf m ns name = map_option (\<lambda>k. (mf_APIVersion m, mf_Kind m, k)) (placed (mf_Place m) ns name)"

text \<open>Rendering keeps the header lines: an object loaded from a manifest has the version, the kind and,
  where the resource determines it, the key the file says.\<close>

definition rendersManifests :: "('w, 'f, 'v) Application \<Rightarrow> Manifest list \<Rightarrow> bool" where
  "rendersManifests a ms \<longleftrightarrow>
     (\<forall>m \<in> set ms. \<forall>u. objectOf a (mf_File m) = Some u \<longrightarrow>
        u_APIVersion u = mf_APIVersion m \<and> u_Kind u = mf_Kind m
        \<and> (\<forall>k. placed (mf_Place m) (om_Namespace (app_CRMeta a)) (om_Name (app_CRMeta a)) = Some k \<longrightarrow> ObjectKeyFromObject u = k))"

section \<open>The listing finds them\<close>

lemma embedded_wf: "wfTree (embedded body)"
  by (simp add: embedded_def templatesDir_def goodName_def validElem_def)

lemma map_of_files: "map_of (map (\<lambda>f. (f, g f)) fs) f = (if f \<in> set fs then Some (g f) else None)"
  by (induction fs) auto

lemma walk_templatesDir:
  "walk (templatesDir body c fs) [''templates''] = Some (Dir (map (\<lambda>f. (f, File (body (pathText (c @ [''templates'', f]))))) fs))"
  "f \<in> set fs \<Longrightarrow> walk (templatesDir body c fs) [''templates'', f] = Some (File (body (pathText (c @ [''templates'', f]))))"
  by (simp_all add: templatesDir_def map_of_files)

text \<open>The tree holds one directory of templates per component, with the files of its manifests.\<close>

lemma shipped_dirs_all:
  "list_all (\<lambda>(c, ms). walk (embedded body) c = Some (templatesDir body c (map (last \<circ> mf_Path) ms))) shipped"
  by (simp add: shipped_def embedded_def manifest_defs)

lemma shipped_paths_all:
  "list_all (\<lambda>(c, ms). goodPath c \<and> list_all (\<lambda>m. mf_Path m = c @ [''templates'', last (mf_Path m)] \<and> goodName (last (mf_Path m))) ms) shipped"
  by (simp add: shipped_def manifest_defs goodPath_def goodName_def validElem_def)

lemma shipped_dir: "(c, ms) \<in> set shipped \<Longrightarrow> walk (embedded body) c = Some (templatesDir body c (map (last \<circ> mf_Path) ms))"
  using shipped_dirs_all [of body] unfolding list_all_iff by fastforce

lemma shipped_path:
  assumes "(c, ms) \<in> set shipped"
  shows "goodPath c" and "m \<in> set ms \<Longrightarrow> mf_Path m = c @ [''templates'', last (mf_Path m)]"
    and "m \<in> set ms \<Longrightarrow> goodPath (mf_Path m)"
proof -
  have c: "goodPath c \<and> list_all (\<lambda>m. mf_Path m = c @ [''templates'', last (mf_Path m)] \<and> goodName (last (mf_Path m))) ms"
    using shipped_paths_all assms unfolding list_all_iff by fastforce
  then show "goodPath c" and p: "m \<in> set ms \<Longrightarrow> mf_Path m = c @ [''templates'', last (mf_Path m)]"
    unfolding list_all_iff by blast+
  have "goodPath (c @ [''templates'', n])" if "goodName n" for n
    using c that by (simp add: goodPath_def goodName_def validElem_def)
  then show "m \<in> set ms \<Longrightarrow> goodPath (mf_Path m)" using c p unfolding list_all_iff by metis
qed

lemma shipped_read:
  assumes "(c, ms) \<in> set shipped" and "m \<in> set ms"
  shows "ReadFile (embedded body) (mf_File m) = Inr (body (mf_File m))"
proof -
  let ?f = "last (mf_Path m)"
  have "walk (embedded body) (c @ [''templates'', ?f]) = Some (File (body (pathText (c @ [''templates'', ?f]))))"
    using assms(2) unfolding walk_append shipped_dir [OF assms(1)] option.case by (intro walk_templatesDir(2)) simp
  then show ?thesis
    unfolding shipped_path(2) [OF assms, symmetric] ReadFile_def mf_File_def Open_good [OF shipped_path(3) [OF assms]] by simp
qed

lemma shipped_listed:
  assumes c: "(c, ms) \<in> set shipped"
  shows "GetFilesRecursive (embedded body) (NewRepo (hd c)) (pathText (tl c @ [''templates''])) = Some (Inr (map mf_File ms))"
proof -
  let ?es = "map (\<lambda>f. (f, File (body (pathText (c @ [''templates'', f]))))) (map (last \<circ> mf_Path) ms)"
  have R: "goodPath [hd c]" and P: "goodPath (tl c @ [''templates''])" and eq: "[hd c] @ tl c @ [''templates''] = c @ [''templates'']"
    using shipped_path(1) [OF c] by (cases c; simp add: goodPath_def goodName_def validElem_def)+
  have "walk (embedded body) (c @ [''templates'']) = Some (Dir ?es)"
    unfolding walk_append shipped_dir [OF c] option.case by (rule walk_templatesDir(1))
  from GetFilesRecursive_dir [OF embedded_wf R P this [folded eq]]
  have "GetFilesRecursive (embedded body) (NewRepo (hd c)) (pathText (tl c @ [''templates''])) =
      Some (Inr (map pathText (filesBelow (c @ [''templates'']) (Dir ?es))))"
    unfolding eq by simp
  moreover have "filesBelow (c @ [''templates'']) (Dir ?es) = map (\<lambda>m. c @ [''templates'', last (mf_Path m)]) ms"
    by (induction ms) simp_all
  moreover have "\<dots> = map mf_Path ms" using shipped_path(2) [OF c] by (simp cong: map_cong)
  ultimately show ?thesis by (simp add: mf_File_def)
qed

lemma distinct_files:
  assumes "(c, ms) \<in> set shipped"
  shows "distinct (map mf_File ms)"
proof -
  have "list_all (\<lambda>(c, ms). distinct (map mf_Path ms)) shipped" by (simp add: shipped_def manifest_defs)
  then have d: "distinct (map mf_Path ms)" using assms unfolding list_all_iff by fastforce
  have "inj_on pathText (set (map mf_Path ms))"
    using shipped_path(3) [OF assms] pathText_inj by (intro inj_onI) auto
  with d have "distinct (map pathText (map mf_Path ms))" by (simp only: distinct_map simp_thms)
  moreover have "map pathText (map mf_Path ms) = map mf_File ms" by (simp add: mf_File_def)
  ultimately show ?thesis by (simp only:)
qed

text \<open>The root directory of a controller's repository.\<close>

fun repoOf :: "ManagerCall \<Rightarrow> string option" where
  "repoOf (CompleteController c) = map_option Root (rec_FileRepo (ctl_Reconciler c))"
| "repoOf _ = None"

lemma controller_roots:
  "set (List.map_filter (repoOf \<circ> ss_Call) controllerSteps) = fi_Name ` set (ReadDir (embedded body) ''.'')"
proof -
  have "List.map_filter (repoOf \<circ> ss_Call) controllerSteps =
      [''oapserver'', ''ui'', ''fetcher'', ''storage'', ''injector'', ''satellite'', ''banyandb'', ''eventexporter'']"
    by (simp add: setup_defs List.map_filter_def NewRepo_def)
  moreover have "map fi_Name (ReadDir (embedded body) ''.'') =
      [''banyandb'', ''eventexporter'', ''fetcher'', ''injector'', ''oapserver'', ''satellite'', ''storage'', ''ui'']"
    by (simp add: ReadDir_def Open_def embedded_def)
  ultimately show ?thesis unfolding set_map [symmetric] by (simp add: insert_commute)
qed

text \<open>Every controller finds its manifests. The roots \<open>main\<close> gives to the controllers are exactly the
  directories that are embedded; asked for the templates of a component, the repository lists
  exactly the component's manifests, each once, and each of them can be read.\<close>

theorem controllers_find_manifests:
  assumes "(c, ms) \<in> set shipped"
  shows "hd c \<in> set (List.map_filter (repoOf \<circ> ss_Call) controllerSteps)
    \<and> set (List.map_filter (repoOf \<circ> ss_Call) controllerSteps) = fi_Name ` set (ReadDir (embedded body) ''.'')
    \<and> GetFilesRecursive (embedded body) (NewRepo (hd c)) (pathText (tl c @ [''templates''])) = Some (Inr (map mf_File ms))
    \<and> distinct (map mf_File ms)
    \<and> map (ReadFile (embedded body)) (map mf_File ms) = map (\<lambda>m. Inr (body (mf_File m))) ms"
proof (intro conjI)
  have "list_all (\<lambda>(c, ms). hd c \<in> set (map fi_Name (ReadDir (embedded body) ''.''))) shipped"
    by (simp add: shipped_def ReadDir_def Open_def embedded_def)
  then show "hd c \<in> set (List.map_filter (repoOf \<circ> ss_Call) controllerSteps)"
    using assms unfolding controller_roots [of body] list_all_iff by fastforce
  show "map (ReadFile (embedded body)) (map mf_File ms) = map (\<lambda>m. Inr (body (mf_File m))) ms"
    using shipped_read [OF assms] by simp
qed (rule controller_roots shipped_listed [OF assms] distinct_files [OF assms])+

theorem controllers_find_manifests_witness:
  "GetFilesRecursive (embedded (\<lambda>f. f)) (NewRepo ''ui'') ''templates'' = Some (Inr (map mf_File ui_manifests))"
  using controllers_find_manifests [of "[''ui'']" ui_manifests "\<lambda>f. f"] by (simp add: shipped_def)

section \<open>Objects do not get into each other's way\<close>

text \<open>Neither suffix ends in the other.\<close>

definition clash :: "string \<Rightarrow> string \<Rightarrow> bool" where
  "clash s t \<longleftrightarrow> (if length s \<le> length t then drop (length t - length s) t = s else drop (length s - length t) s = t)"

lemma clash_append: "n @ s = n' @ t \<Longrightarrow> clash s t"
proof -
  assume eq: "n @ s = n' @ t"
  have tail: "drop (length t - length s) t = s" if "n @ s = n' @ t" "length s \<le> length t" for n s n' t :: string
  proof -
    have "length n + length s = length n' + length t" using arg_cong [OF that(1), of length] by simp
    then have "length n - length n' = length t - length s" "length n' \<le> length n" using that(2) by linarith+
    then have "drop (length n) (n' @ t) = drop (length t - length s) t" by simp
    then show ?thesis unfolding that(1) [symmetric] by simp
  qed
  show ?thesis using tail [OF eq] tail [OF eq [symmetric]] by (simp add: clash_def)
qed

definition sameKind :: "Manifest \<Rightarrow> Manifest \<Rightarrow> bool" where
  "sameKind m m' \<longleftrightarrow> mf_Kind m = mf_Kind m' \<and> mf_APIVersion m = mf_APIVersion m'"

text \<open>The places of two manifests, whatever the resources, cannot be the same.\<close>

fun apart :: "placement \<Rightarrow> placement \<Rightarrow> bool" where
  "apart (Suffix s) (Suffix t) \<longleftrightarrow> \<not> clash s t"
| "apart (Cluster s) (Cluster t) \<longleftrightarrow> s \<noteq> t"
| "apart _ _ \<longleftrightarrow> False"

lemma apart_sym: "apart p q \<Longrightarrow> apart q p"
  by (cases p; cases q) (auto simp: clash_def split: if_splits)

lemma apart_placed: "apart p q \<Longrightarrow> placed p ns n = Some k \<Longrightarrow> placed q ns' n' = Some k' \<Longrightarrow> k \<noteq> k'"
  using clash_append by (cases p; cases q) auto

lemma separate_all: "list_all (\<lambda>(c, ms). sorted_wrt (\<lambda>m m'. sameKind m m' \<longrightarrow> apart (mf_Place m) (mf_Place m')) ms) shipped"
  by code_simp

lemma sorted_wrt_pair:
  assumes "sorted_wrt P xs" and "x \<in> set xs" and "y \<in> set xs" and "x \<noteq> y"
  shows "P x y \<or> P y x"
  using assms by (induction xs) auto

lemma shipped_apart:
  assumes "(c, ms) \<in> set shipped" and "m \<in> set ms" and "m' \<in> set ms" and "m \<noteq> m'" and "sameKind m m'"
  shows "apart (mf_Place m) (mf_Place m')"
proof -
  have "sorted_wrt (\<lambda>m m'. sameKind m m' \<longrightarrow> apart (mf_Place m) (mf_Place m')) ms"
    using separate_all assms(1) unfolding list_all_iff by fastforce
  from sorted_wrt_pair [OF this assms(2-4)] show ?thesis using assms(5) apart_sym by (auto simp: sameKind_def)
qed

text \<open>The objects rendered from different manifests of one resource are different objects, so the
  convergence theorems apply to the manifests as shipped.\<close>

lemma renders_separate:
  assumes c: "(c, ms) \<in> set shipped" and r: "rendersManifests a ms"
  shows "separate a (map mf_File ms)"
  unfolding separate_def
proof (intro conjI ballI allI impI)
  fix f g u v
  assume f: "f \<in> set (map mf_File ms)" and g: "g \<in> set (map mf_File ms)" and "f \<noteq> g"
    and u: "objectOf a f = Some u" and v: "objectOf a g = Some v"
  obtain m m' where m: "m \<in> set ms" "f = mf_File m" and m': "m' \<in> set ms" "g = mf_File m'" using f g by auto
  then have "m \<noteq> m'" using \<open>f \<noteq> g\<close> by auto
  note R = r [unfolded rendersManifests_def, rule_format]
  have U: "u_APIVersion u = mf_APIVersion m" "u_Kind u = mf_Kind m" "u_APIVersion v = mf_APIVersion m'" "u_Kind v = mf_Kind m'"
    using R [OF m(1)] R [OF m'(1)] u v m m' by auto
  show "ident u \<noteq> ident v"
  proof
    assume "ident u = ident v"
    then have same: "sameKind m m'" "ObjectKeyFromObject u = ObjectKeyFromObject v" using U by (auto simp: ident_def sameKind_def)
    from shipped_apart [OF c m(1) m'(1) \<open>m \<noteq> m'\<close> this(1)] have ap: "apart (mf_Place m) (mf_Place m')" .
    then obtain k k' where k: "placed (mf_Place m) (om_Namespace (app_CRMeta a)) (om_Name (app_CRMeta a)) = Some k"
      "placed (mf_Place m') (om_Namespace (app_CRMeta a)) (om_Name (app_CRMeta a)) = Some k'"
      by (cases "mf_Place m"; cases "mf_Place m'") auto
    have "ObjectKeyFromObject u = k" "ObjectKeyFromObject v = k'"
      using R [OF m(1)] R [OF m'(1)] u v m m' k by auto
    then show False using apart_placed [OF ap k] same(2) by simp
  qed
qed (rule distinct_files [OF c])

text \<open>All manifests with their component, and the ingress that two components share.\<close>

definition shippedAll :: "(string list \<times> Manifest) list" where
  "shippedAll = concat (map (\<lambda>(c, ms). map (Pair c) ms) shipped)"

definition ofIngress :: "string list \<times> Manifest \<Rightarrow> bool" where
  "ofIngress x \<longleftrightarrow> (fst x = [''oapserver''] \<or> fst x = [''ui'']) \<and> mf_Kind (snd x) = ''Ingress''"

lemma exclusive_all:
  "list_all (\<lambda>x. list_all (\<lambda>y. sameKind (snd x) (snd y) \<longrightarrow>
     mf_Place (snd x) = BySpec \<or> mf_Place (snd y) = BySpec \<or> apart (mf_Place (snd x)) (mf_Place (snd y))
     \<or> x = y \<or> ofIngress x \<and> ofIngress y) shippedAll) shippedAll"
  by code_simp

lemma ingress_all:
  "list_all (\<lambda>x. ofIngress x \<longrightarrow> mf_Place (snd x) = Suffix ''-ui'' \<and> mf_APIVersion (snd x) = ''networking.k8s.io/v1'') shippedAll"
  by code_simp

lemma identOf_Some:
  "identOf m ns n = Some i \<longleftrightarrow> (\<exists>k. placed (mf_Place m) ns n = Some k \<and> i = (mf_APIVersion m, mf_Kind m, k))"
  by (auto simp: identOf_def)

lemma placed_same:
  "placed p ns n = Some k \<Longrightarrow> placed p ns' n' = Some k \<Longrightarrow> (\<exists>s. p = Cluster s) \<or> (ns, n) = (ns', n')"
  by (cases p) auto



section \<open>Contended objects\<close>

lemma rendered_ident:
  assumes "rendersManifests a ms" and "m \<in> set ms" and "objectOf a (mf_File m) = Some u"
    and "identOf m (om_Namespace (app_CRMeta a)) (om_Name (app_CRMeta a)) = Some i"
  shows "ident u = i"
  using assms unfolding rendersManifests_def by (auto simp: identOf_Some ident_def)

lemma settled_versions_agree:
  assumes "objectOf a f = Some u" and "objectOf b g = Some v" and "ident v = ident u"
    and "app_Client b = app_Client a" and "versionKey b = versionKey a"
    and "settled a f w" and "settled b g w"
  shows "hash (app_metaEncoder b) v = hash (app_metaEncoder a) u"
proof -
  obtain cur u' where cur: "stored a (ident u) w = Inr cur" and u': "compose a u = Inr u'"
    and "getVersion cur (versionKey a) = getVersion u' (versionKey a)"
    using assms(6) settled_iff [OF assms(1)] by blast
  moreover obtain cur' v' where "stored b (ident v) w = Inr cur'" and v': "compose b v = Inr v'"
    and "getVersion cur' (versionKey b) = getVersion v' (versionKey b)"
    using assms(7) settled_iff [OF assms(2)] by blast
  moreover have "stored b (ident v) w = stored a (ident u) w" by (simp add: stored_def assms(3,4) split: prod.split)
  ultimately have "getVersion v' (versionKey b) = getVersion u' (versionKey a)" using assms(5) by simp
  then show ?thesis using compose_version [OF u'] compose_version [OF v'] by simp
qed

text \<open>C15. Two resources of one kind contend for the objects of the whole cluster. Take a component that ships
  such an object, as OAP server, satellite, fetcher and event exporter do with their role binding, and
  two resources that render it with different content. Once the manifests of one have been applied,
  the object is not settled for the other: applying it there either fails or overwrites it, and after that
  it is not settled for the first.\<close>

theorem cluster_objects_contended:
  fixes R :: "('w, 'f, ('s, 't) CR) ReconcilerEnv" and cr1 cr2 :: "('s, 't) CR" and gvk :: GroupVersionKind
  defines "a1 \<equiv> applicationFor R cr1 gvk None" and "a2 \<equiv> applicationFor R cr2 gvk None"
  assumes c: "(c, ms) \<in> set shipped" and m: "m \<in> set ms" and "mf_Place m = Cluster s"
    and r: "rendersManifests a1 ms" "rendersManifests a2 ms" and h: "honestServer a1" "honestServer a2"
    and u: "objectOf a1 (mf_File m) = Some u1" "objectOf a2 (mf_File m) = Some u2"
    and "hash (re_metaEncoder R) u1 \<noteq> hash (re_metaEncoder R) u2"
    and ok: "ApplyAll a1 (map mf_File ms) w = (None, w1)"
  shows "\<not> settled a2 (mf_File m) w1
    \<and> (\<forall>changed w2. Apply a2 (mf_File m) True w1 = ((changed, None), w2) \<longrightarrow> changed \<and> \<not> settled a1 (mf_File m) w2)"
proof -
  have "identOf m ns n = Some (mf_APIVersion m, mf_Kind m, objectKey [] s)" for ns n by (simp add: identOf_def assms(5))
  then have "ident u2 = ident u1" using rendered_ident [OF r(1) m u(1)] rendered_ident [OF r(2) m u(2)] by simp
  note agree = settled_versions_agree [OF u this]
  have apart: "\<not> (settled a1 (mf_File m) w' \<and> settled a2 (mf_File m) w')" for w'
    using agree [of w'] assms(12) by (auto simp: a1_def a2_def)
  have "settled a1 (mf_File m) w1"
    using ApplyAll_all_settled [OF h(1) renders_separate [OF c r(1)] ok] m by simp
  then have ns: "\<not> settled a2 (mf_File m) w1" using apart by blast
  have "changed \<and> \<not> settled a1 (mf_File m) w2" if a: "Apply a2 (mf_File m) True w1 = ((changed, None), w2)" for changed w2
  proof
    show changed
    proof (rule ccontr)
      assume "\<not> changed"
      then have "w2 = w1" using apply_obj_cases [OF a [unfolded Apply_object [OF u(2)]]] by simp
      then show False using ns a \<open>\<not> changed\<close> by (simp add: settled_def)
    qed
    show "\<not> settled a1 (mf_File m) w2" using Apply_settles [OF h(2) a] apart by blast
  qed
  with ns show ?thesis by blast
qed

text \<open>Example: two OAP servers whose role bindings differ; the other manifests render nothing.\<close>

definition contendedReconciler :: "(demoServer, unit, (unit, unit) CR) ReconcilerEnv" where
  "contendedReconciler =
     \<lparr>re_Client = demoClient,
      re_Reads = \<lparr>rd_Deployment = (\<lambda>k w. Inr zeroDeployment), rd_StatefulSet = (\<lambda>k w. Inr zeroStatefulSet),
        rd_Service = (\<lambda>k w. Inr zeroService), rd_Secret = (\<lambda>k w. Inr zeroSecret)\<rparr>,
      re_ReadFile = (\<lambda>f. Inr f), re_GetFilesRecursive = (\<lambda>d. Inr []), re_Recorder = (\<lambda>t r n w. w),
      re_engine = (\<lambda>f m. Inr (\<lambda>cr. Inr (if m = mf_File oapserver_cluster_role_binding_yaml then cr_Name cr else []))),
      re_yaml = (\<lambda>y u. (None, u\<lparr>u_APIVersion := ''rbac.authorization.k8s.io/v1'', u_Kind := ''ClusterRoleBinding'',
        u_Meta := zeroMeta\<lparr>om_Name := ''swck:oapserver''\<rparr>, u_fields := [(y, JNull)]\<rparr>)),
      re_metaEncoder = (\<lambda>m. JNull)\<rparr>"

definition namedCR :: "string \<Rightarrow> (unit, unit) CR" where
  "namedCR n = \<lparr>cr_Type = zeroTypeMeta, cr_Meta = zeroMeta\<lparr>om_Name := n\<rparr>, cr_Spec = (), cr_Status = ()\<rparr>"

definition contendedApp :: "string \<Rightarrow> (demoServer, unit, (unit, unit) CR) Application" where
  "contendedApp n = applicationFor contendedReconciler (namedCR n) (operatorKind ''OAPServer'') None"

definition boundTo :: "string \<Rightarrow> Unstructured" where
  "boundTo n = zeroUnstructured\<lparr>u_APIVersion := ''rbac.authorization.k8s.io/v1'', u_Kind := ''ClusterRoleBinding'',
     u_Meta := zeroMeta\<lparr>om_Name := ''swck:oapserver''\<rparr>, u_fields := [(n, JNull)]\<rparr>"

lemma stripCharacters_Nil: "stripCharacters [] = []"
  by (simp add: stripCharacters_def stripComment_def scanLines_def rawLines_def TrimSpace_def TrimRight_def)

lemma contended_object:
  assumes "stripCharacters n = n" and "n \<noteq> []"
  shows "objectOf (contendedApp n) f = (if f = mf_File oapserver_cluster_role_binding_yaml then Some (boundTo n) else None)"
  using assms stripCharacters_Nil
  by (simp add: objectOf_def loaded_def LoadTemplate_def GenerateManifests_def contendedApp_def contendedReconciler_def
      namedCR_def boundTo_def)

lemma contended_strip: "stripCharacters ''a'' = ''a''" "stripCharacters ''b'' = ''b''"
  by (simp_all add: stripCharacters_def stripComment_def scanLines_def rawLines_def MaxScanTokenSize_def
      dropCR_def cutComment_def commentChars_def TrimSpace_def TrimRight_def isSpace_def)

lemma contended_hash: "hash (re_metaEncoder contendedReconciler) (boundTo ''a'') \<noteq> hash (re_metaEncoder contendedReconciler) (boundTo ''b'')"
  by code_simp

lemma binding_file:
  assumes "m \<in> set oapserver_manifests"
  shows "mf_File m = mf_File oapserver_cluster_role_binding_yaml \<longleftrightarrow> m = oapserver_cluster_role_binding_yaml"
proof -
  have sh: "([''oapserver''], oapserver_manifests) \<in> set shipped" by (simp add: shipped_def)
  have "inj_on mf_File (set oapserver_manifests)" using distinct_files [OF sh] by (simp add: distinct_map)
  moreover have "oapserver_cluster_role_binding_yaml \<in> set oapserver_manifests" by (simp add: oapserver_manifests_def oapserver_cluster_role_binding_yaml_def)
  ultimately show ?thesis using assms by (auto dest: inj_onD)
qed

lemma contended_renders:
  assumes "stripCharacters n = n" and "n \<noteq> []"
  shows "rendersManifests (contendedApp n) oapserver_manifests"
  unfolding rendersManifests_def contended_object [OF assms] using binding_file
  by (auto simp: oapserver_cluster_role_binding_yaml_def manifest_def boundTo_def zeroUnstructured_def ObjectKeyFromObject_def zeroMeta_def split: if_splits)

lemma ApplyAll_succeeds:
  assumes "\<And>f w. f \<in> set fs \<Longrightarrow> \<exists>c w'. Apply a f True w = ((c, None), w')"
  shows "\<exists>w'. ApplyAll a fs w = (None, w')"
proof -
  have "\<exists>w'. applyLoop a fs ch w = (None, w')" for ch
    using assms
  proof (induction fs arbitrary: ch w)
    case (Cons f fs)
    obtain c w1 where f: "Apply a f True w = ((c, None), w1)" using Cons.prems [of f w] by auto
    show ?case using Cons.IH [of "if c then ch @ [f] else ch" w1] Cons.prems by (simp add: f)
  qed simp
  then show ?thesis by (simp add: ApplyAll_def)
qed

text \<open>A server that accepts every call: an application can only fail at loading or composing.\<close>

definition acceptsCalls :: "'w Client \<Rightarrow> bool" where
  "acceptsCalls c \<longleftrightarrow>
     (\<forall>u w. fst (cl_Create c u w) = None \<and> fst (cl_Update c u w) = None)
     \<and> (\<forall>v k key w e. cl_Get c v k key w = Inl e \<longrightarrow> IsNotFound e)"

lemma Apply_accepted:
  assumes ac: "acceptsCalls (app_Client a)" and "\<And>u. objectOf a f = Some u \<Longrightarrow> \<exists>u'. compose a u = Inr u'"
    and none: "objectOf a f = None \<Longrightarrow> fst (snd (loaded a f)) = Some ErrNothingLoaded" and "\<exists>m. app_FileRepo a f = Inr m"
  shows "\<exists>c w'. Apply a f True w = ((c, None), w')"
proof (cases "objectOf a f")
  case None
  obtain m where m: "app_FileRepo a f = Inr m" using assms(4) by blast
  have "Apply a f True w = ((False, None), w)"
    using none [OF None] by (auto simp: Apply_def loaded_def m split: prod.splits)
  then show ?thesis by blast
next
  case (Some u)
  obtain u' where u': "compose a u = Inr u'" using assms(2) [OF Some] by blast
  have cr: "cl_Create (app_Client a) u' w = (None, snd (cl_Create (app_Client a) u' w))"
    and up: "cl_Update (app_Client a) u' w = (None, snd (cl_Update (app_Client a) u' w))"
    using ac unfolding acceptsCalls_def by (metis prod.collapse)+
  have nf: "stored a i w = Inl e \<Longrightarrow> IsNotFound e" for i e
    using ac unfolding acceptsCalls_def stored_def by (auto split: prod.splits)
  show ?thesis
  proof (cases "stored a (ident u) w")
    case (Inl e)
    have "Apply a f True w = ((True, None), snd (cl_Create (app_Client a) u' w))"
      unfolding Apply_object [OF Some] apply_obj_stored apply_create_def u' if_True sum.case Inl
      by (subst cr) (simp add: nf [OF Inl])
    then show ?thesis by blast
  next
    case (Inr cur)
    let ?same = "getVersion cur (versionKey a) = getVersion u' (versionKey a)"
    have "Apply a f True w = ((\<not> ?same, None), if ?same then w else snd (cl_Update (app_Client a) u' w))"
      unfolding Apply_object [OF Some] apply_obj_stored apply_update_def u' if_True sum.case Inr
      by (cases ?same; subst up; simp)
    then show ?thesis by blast
  qed
qed

lemma compose_plain: "u_fields u = [(n, JNull)] \<Longrightarrow> \<exists>u'. compose a u = Inr u'"
proof -
  assume "u_fields u = [(n, JNull)]"
  then have "contents u = (if isMeta n then [] else [(n, JNull)])" by (simp add: contents_def)
  then have "\<exists>h. hash (app_metaEncoder a) u = Inr h" by (simp add: hash_eq json_Marshal_def)
  then show ?thesis by (auto simp: compose_eq)
qed

lemma contended_Apply:
  assumes "stripCharacters n = n" and "n \<noteq> []"
  shows "\<exists>c w'. Apply (contendedApp n) f True w = ((c, None), w')"
proof (rule Apply_accepted)
  show "acceptsCalls (app_Client (contendedApp n))"
    by (auto simp: acceptsCalls_def contendedApp_def contendedReconciler_def demoClient_def IsNotFound_def split: option.splits)
  show "\<exists>u'. compose (contendedApp n) u = Inr u'" if "objectOf (contendedApp n) f = Some u" for u
    using that by (intro compose_plain [of _ n]) (auto simp: contended_object [OF assms] boundTo_def split: if_splits)
  show "fst (snd (loaded (contendedApp n) f)) = Some ErrNothingLoaded" if "objectOf (contendedApp n) f = None"
  proof -
    have "f \<noteq> mf_File oapserver_cluster_role_binding_yaml" using that by (auto simp: contended_object [OF assms])
    then show ?thesis
      by (simp add: loaded_def LoadTemplate_def GenerateManifests_def stripCharacters_Nil contendedApp_def contendedReconciler_def)
  qed
qed (simp add: contendedApp_def contendedReconciler_def)

lemma contended_honest: "honestServer (contendedApp n)"
  unfolding honestServer_def by (auto simp: contendedApp_def contendedReconciler_def demoClient_def stored_def ident_def)

theorem cluster_objects_contended_witness:
  "\<exists>w1. ApplyAll (contendedApp ''a'') (map mf_File oapserver_manifests) Map.empty = (None, w1)
     \<and> \<not> settled (contendedApp ''b'') (mf_File oapserver_cluster_role_binding_yaml) w1"
proof -
  have c: "([''oapserver''], oapserver_manifests) \<in> set shipped" by (simp add: shipped_def)
  have m: "oapserver_cluster_role_binding_yaml \<in> set oapserver_manifests" "mf_Place oapserver_cluster_role_binding_yaml = Cluster ''swck:oapserver''"
    by (simp_all add: oapserver_manifests_def oapserver_cluster_role_binding_yaml_def manifest_def)
  have u: "objectOf (contendedApp n) (mf_File oapserver_cluster_role_binding_yaml) = Some (boundTo n)" if "stripCharacters n = n" "n \<noteq> []" for n
    using contended_object [OF that] by simp
  obtain w1 where w1: "ApplyAll (contendedApp ''a'') (map mf_File oapserver_manifests) Map.empty = (None, w1)"
    using ApplyAll_succeeds contended_Apply [OF contended_strip(1)] by fastforce
  note ren = contended_renders [OF contended_strip(1)] contended_renders [OF contended_strip(2)]
  note obj = u [OF contended_strip(1)] u [OF contended_strip(2)]
  have "\<not> settled (contendedApp ''b'') (mf_File oapserver_cluster_role_binding_yaml) w1"
    using cluster_objects_contended [where R = contendedReconciler and ?cr1.0 = "namedCR ''a''" and ?cr2.0 = "namedCR ''b''"
        and gvk = "operatorKind ''OAPServer''" and w = Map.empty, folded contendedApp_def,
        OF c m ren(1) ren(2) contended_honest contended_honest obj(1) obj(2) contended_hash w1] by simp
  with w1 show ?thesis by blast
qed

section \<open>Statuses are computed from own objects\<close>

definition ownIdents :: "Manifest list \<Rightarrow> string \<Rightarrow> string \<Rightarrow> ident set" where
  "ownIdents ms ns name = {i. \<exists>m \<in> set ms. identOf m ns name = Some i}"

lemma ownIdents_simps [simp]:
  "ownIdents [] ns n = {}"
  "ownIdents (m # ms) ns n = (case identOf m ns n of None \<Rightarrow> {} | Some i \<Rightarrow> {i}) \<union> ownIdents ms ns n"
  by (auto simp: ownIdents_def split: option.split)

text \<open>Two states of the server that read the same on given objects.\<close>

definition readAlike :: "'w Reads \<Rightarrow> ident set \<Rightarrow> 'w \<Rightarrow> 'w \<Rightarrow> bool" where
  "readAlike rd I w w' \<longleftrightarrow>
     (\<forall>k. (''apps/v1'', ''Deployment'', k) \<in> I \<longrightarrow> rd_Deployment rd k w' = rd_Deployment rd k w)
     \<and> (\<forall>k. (''v1'', ''Service'', k) \<in> I \<longrightarrow> rd_Service rd k w' = rd_Service rd k w)"

lemma readAlike_keys:
  "readAlike rd I w w' \<Longrightarrow> (''apps/v1'', ''Deployment'', k) \<in> I \<Longrightarrow> rd_Deployment rd k w' = rd_Deployment rd k w"
  "readAlike rd I w w' \<Longrightarrow> (''v1'', ''Service'', k) \<in> I \<Longrightarrow> rd_Service rd k w' = rd_Service rd k w"
  by (simp_all add: readAlike_def)

lemma status_keys:
  "(''apps/v1'', ''Deployment'', objectKey ns (n @ ''-ui'')) \<in> ownIdents ui_manifests ns n"
  "(''v1'', ''Service'', objectKey ns (n @ ''-ui'')) \<in> ownIdents ui_manifests ns n"
  "(''apps/v1'', ''Deployment'', objectKey ns (n @ ''-oap'')) \<in> ownIdents oapserver_manifests ns n"
  "(''v1'', ''Service'', objectKey ns (n @ ''-oap'')) \<in> ownIdents oapserver_manifests ns n"
  "(''apps/v1'', ''Deployment'', objectKey ns (n @ ''-satellite'')) \<in> ownIdents satellite_manifests ns n"
  "(''v1'', ''Service'', objectKey ns (n @ ''-satellite'')) \<in> ownIdents satellite_manifests ns n"
  "(''apps/v1'', ''Deployment'', objectKey ns (n @ ''-banyandb'')) \<in> ownIdents banyandb_manifests ns n"
  by (simp_all add: manifest_defs identOf_def)

lemma UI_overlay_own:
  assumes "readAlike rd (ownIdents ui_manifests (cr_Namespace ui) (cr_Name ui)) w w'"
  shows "UI_overlay rd ui w' = UI_overlay rd ui w"
  unfolding UI_overlay_def Let_def readAlike_keys(1) [OF assms status_keys(1)] readAlike_keys(2) [OF assms status_keys(2)] by simp

text \<open>The status a controller reports is about the resource's own objects. The status of a user
  interface, an OAP server, a satellite or a BanyanDB depends on nothing of the server but the
  deployment and service that the resource's own manifests describe.\<close>

theorem status_of_own_objects:
  assumes ui: "readAlike rd (ownIdents ui_manifests (cr_Namespace ui) (cr_Name ui)) w1 v1"
    and oap: "readAlike rd (ownIdents oapserver_manifests (cr_Namespace oap) (cr_Name oap)) w2 v2"
    and sat: "readAlike rd (ownIdents satellite_manifests (cr_Namespace sat) (cr_Name sat)) w3 v3"
    and db: "readAlike rd (ownIdents banyandb_manifests (cr_Namespace db) (cr_Name db)) w4 v4"
  shows "UI_overlay rd ui v1 = UI_overlay rd ui w1 \<and> OAPServer_overlay rd oap v2 = OAPServer_overlay rd oap w2
    \<and> Satellite_overlay rd sat v3 = Satellite_overlay rd sat w3 \<and> BanyanDB_overlay rd db v4 = BanyanDB_overlay rd db w4"
proof (intro conjI)
  show "UI_overlay rd ui v1 = UI_overlay rd ui w1" by (rule UI_overlay_own [OF ui])
  show "OAPServer_overlay rd oap v2 = OAPServer_overlay rd oap w2"
    unfolding OAPServer_overlay_def Let_def readAlike_keys(1) [OF oap status_keys(3)] readAlike_keys(2) [OF oap status_keys(4)] by simp
  show "Satellite_overlay rd sat v3 = Satellite_overlay rd sat w3"
    unfolding Satellite_overlay_def Let_def readAlike_keys(1) [OF sat status_keys(5)] readAlike_keys(2) [OF sat status_keys(6)] by simp
  show "BanyanDB_overlay rd db v4 = BanyanDB_overlay rd db w4"
    unfolding BanyanDB_overlay_def Let_def readAlike_keys(1) [OF db status_keys(7)] by simp
qed

text \<open>Example: reads that fail for one foreign deployment once the server has changed.\<close>

definition foreignReads :: "bool Reads" where
  "foreignReads = \<lparr>rd_Deployment = (\<lambda>k w. if w \<and> ok_Name k = ''other'' then Inl (ErrorString ''gone'') else Inr zeroDeployment),
     rd_StatefulSet = (\<lambda>k w. Inr zeroStatefulSet), rd_Service = (\<lambda>k w. Inr zeroService), rd_Secret = (\<lambda>k w. Inr zeroSecret)\<rparr>"

lemma foreign_alike:
  "readAlike foreignReads (ownIdents ui_manifests ns n) False True"
  "readAlike foreignReads (ownIdents oapserver_manifests ns n) False True"
  "readAlike foreignReads (ownIdents satellite_manifests ns n) False True"
  "readAlike foreignReads (ownIdents banyandb_manifests ns n) False True"
proof -
  have o': "n @ s = ''other'' \<Longrightarrow> CHR ''-'' \<notin> set s" for s
  proof -
    assume "n @ s = ''other''"
    then have "set s \<subseteq> set ''other''" by (metis set_append Un_upper2)
    then show ?thesis by auto
  qed
  show "readAlike foreignReads (ownIdents ui_manifests ns n) False True"
    "readAlike foreignReads (ownIdents oapserver_manifests ns n) False True"
    "readAlike foreignReads (ownIdents satellite_manifests ns n) False True"
    "readAlike foreignReads (ownIdents banyandb_manifests ns n) False True"
    by (auto simp: readAlike_def foreignReads_def manifest_defs identOf_def dest!: o')
qed

theorem status_of_own_objects_witness:
  "\<forall>ui oap sat db. UI_overlay foreignReads ui True = UI_overlay foreignReads ui False
    \<and> OAPServer_overlay foreignReads oap True = OAPServer_overlay foreignReads oap False
    \<and> Satellite_overlay foreignReads sat True = Satellite_overlay foreignReads sat False
    \<and> BanyanDB_overlay foreignReads db True = BanyanDB_overlay foreignReads db False"
  by (intro allI status_of_own_objects foreign_alike)

end
