(* ===== verification/Reconcile_System.thy ===== *)
theory Reconcile_System
  imports Shipped_Manifests
begin

text \<open>
  Several resources on one server. The controller manager runs the reconcilers of different resources
  in any order; a schedule is the list of requests in the order they are served. The locale
  \<open>interleaving\<close> states what makes schedules come to rest, and its lemmas hold for every component
  whose resources stay within territories of their own.
\<close>

section \<open>Schedules\<close>

fun runAll :: "('k \<Rightarrow> 'w \<Rightarrow> 'w) \<Rightarrow> 'k list \<Rightarrow> 'w \<Rightarrow> 'w" where
  "runAll run [] w = w"
| "runAll run (k # ks) w = runAll run ks (run k w)"

text \<open>The requests that were served with success at some time in a schedule.\<close>

fun completed :: "('k \<Rightarrow> 'w \<Rightarrow> bool) \<Rightarrow> ('k \<Rightarrow> 'w \<Rightarrow> 'w) \<Rightarrow> 'k list \<Rightarrow> 'w \<Rightarrow> 'k set" where
  "completed succeeds run [] w = {}"
| "completed succeeds run (k # ks) w = (if succeeds k w then {k} else {}) \<union> completed succeeds run ks (run k w)"

locale interleaving =
  fixes run :: "'k \<Rightarrow> 'w \<Rightarrow> 'w" and succeeds quiet :: "'k \<Rightarrow> 'w \<Rightarrow> bool"
  assumes settles: "succeeds k w \<Longrightarrow> quiet k (run k w)"
    and idle: "quiet k w \<Longrightarrow> run k w = w"
    and kept: "quiet k w \<Longrightarrow> k' \<noteq> k \<Longrightarrow> quiet k (run k' w)"
begin

lemma stays_quiet: "quiet k w \<Longrightarrow> quiet k (runAll run ks w)"
proof (induction ks arbitrary: w)
  case (Cons k' ks)
  then show ?case using idle kept by (cases "k' = k") auto
qed simp

lemma completed_quiet: "k \<in> completed succeeds run ks w \<Longrightarrow> quiet k (runAll run ks w)"
proof (induction ks arbitrary: w)
  case (Cons k' ks)
  then show ?case using settles stays_quiet by (auto split: if_splits)
qed simp

lemma comes_to_rest:
  assumes "set later \<subseteq> completed succeeds run ks w"
  shows "runAll run later (runAll run ks w) = runAll run ks w"
proof -
  have "runAll run later w' = w'" if "\<forall>k \<in> set later. quiet k w'" for w'
    using that idle by (induction later) auto
  then show ?thesis using assms completed_quiet by blast
qed

end

section \<open>What a run touches\<close>

text \<open>Two states of the server that agree everywhere outside some objects and one custom resource.\<close>

definition touches ::
  "('w, 'f, ('s, 't) CR) ReconcilerEnv \<Rightarrow> ('w, 's, 't) StatusEnv \<Rightarrow> ident set \<Rightarrow> ObjectKey \<Rightarrow> 'w \<Rightarrow> 'w \<Rightarrow> bool" where
  "touches R E I key w w' \<longleftrightarrow>
     (\<forall>v kd k. (v, kd, k) \<notin> I \<longrightarrow> cl_Get (re_Client R) v kd k w' = cl_Get (re_Client R) v kd k w)
     \<and> (\<forall>k. (''apps/v1'', ''Deployment'', k) \<notin> I \<longrightarrow> rd_Deployment (re_Reads R) k w' = rd_Deployment (re_Reads R) k w)
     \<and> (\<forall>k. (''v1'', ''Service'', k) \<notin> I \<longrightarrow> rd_Service (re_Reads R) k w' = rd_Service (re_Reads R) k w)
     \<and> (\<forall>k. k \<noteq> key \<longrightarrow> se_Get E k w' = se_Get E k w)"

lemma touches_refl [simp]: "touches R E I key w w"
  by (simp add: touches_def)

lemma touches_trans: "touches R E I key w w1 \<Longrightarrow> touches R E I key w1 w2 \<Longrightarrow> touches R E I key w w2"
  by (simp add: touches_def)

lemma touches_mono: "touches R E I key w w' \<Longrightarrow> I \<subseteq> J \<Longrightarrow> touches R E J key w w'"
  unfolding touches_def by blast

text \<open>What is relied on of the server: a call, successful or not, changes nothing but the object it is about,
  a status update nothing but its custom resource, an event nothing at all.\<close>

definition isolatedServer :: "('w, 'f, ('s, 't) CR) ReconcilerEnv \<Rightarrow> ('w, 's, 't) StatusEnv \<Rightarrow> bool" where
  "isolatedServer R E \<longleftrightarrow>
     (\<forall>u w key. touches R E {ident u} key w (snd (cl_Create (re_Client R) u w))
        \<and> touches R E {ident u} key w (snd (cl_Update (re_Client R) u w)))
     \<and> (\<forall>t r n w key. touches R E {} key w (re_Recorder R t r n w))
     \<and> (\<forall>c w. touches R E {} (cr_key c) w (snd (se_StatusUpdate E c w)))"

lemma isolatedServerD:
  assumes "isolatedServer R E"
  shows "cl_Create (re_Client R) u w = (e, w') \<Longrightarrow> touches R E {ident u} key w w'"
    and "cl_Update (re_Client R) u w = (e, w') \<Longrightarrow> touches R E {ident u} key w w'"
    and "touches R E I key w (re_Recorder R t r n w)"
    and "se_StatusUpdate E c w = (e, w') \<Longrightarrow> touches R E I (cr_key c) w w'"
proof -
  note iso = assms [unfolded isolatedServer_def]
  show "cl_Create (re_Client R) u w = (e, w') \<Longrightarrow> touches R E {ident u} key w w'"
    using iso by (metis snd_conv)
  show "cl_Update (re_Client R) u w = (e, w') \<Longrightarrow> touches R E {ident u} key w w'"
    using iso by (metis snd_conv)
  show "touches R E I key w (re_Recorder R t r n w)"
    using iso touches_mono [of R E "{}" key w] by blast
  show "se_StatusUpdate E c w = (e, w') \<Longrightarrow> touches R E I (cr_key c) w w'"
    using iso touches_mono [of R E "{}" "cr_key c" w w'] by (metis snd_conv empty_subsetI)
qed

lemma apply_obj_touches:
  assumes "isolatedServer R E"
  shows "touches R E {ident u} key w (snd (apply_obj (applicationFor R cr gvk funcs) u c w))"
proof -
  let ?a = "applicationFor R cr gvk funcs"
  show ?thesis
  proof (cases "prepared ?a c u")
    case (Inl e)
    then show ?thesis
      by (simp add: apply_obj_stored apply_create_def apply_update_def prepared_def [symmetric] split: sum.split)
  next
    case (Inr x)
    have id: "ident x = ident u" by (rule prepared_ident [OF Inr])
    note t = isolatedServerD(1,2) [OF assms, of x, unfolded id]
    show ?thesis
      unfolding apply_obj_stored apply_create_def apply_update_def prepared_def [symmetric] Inr applicationFor_simps sum.case
      by (auto split: sum.split prod.split option.split intro: t)
  qed
qed

lemma Apply_touches:
  assumes "isolatedServer R E" and "\<And>u. objectOf (applicationFor R cr gvk funcs) f = Some u \<Longrightarrow> ident u \<in> I"
  shows "touches R E I key w (snd (Apply (applicationFor R cr gvk funcs) f c w))"
proof (cases "objectOf (applicationFor R cr gvk funcs) f")
  case None
  obtain err where "\<forall>w. Apply (applicationFor R cr gvk funcs) f c w = ((False, err), w)" using Apply_no_object [OF None] by blast
  then show ?thesis by simp
next
  case (Some u)
  show ?thesis
    unfolding Apply_object [OF Some] using assms(2) [OF Some]
    by (intro touches_mono [OF apply_obj_touches [OF assms(1)]]) simp
qed

lemma applyLoop_touches:
  assumes "isolatedServer R E" and "\<And>f u. f \<in> set fs \<Longrightarrow> objectOf (applicationFor R cr gvk funcs) f = Some u \<Longrightarrow> ident u \<in> I"
  shows "touches R E I key w (snd (applyLoop (applicationFor R cr gvk funcs) fs ch w))"
  using assms(2)
proof (induction fs arbitrary: ch w)
  case Nil
  then show ?case using isolatedServerD(3) [OF assms(1)] by simp
next
  case (Cons f fs)
  obtain c err w1 where f: "Apply (applicationFor R cr gvk funcs) f True w = ((c, err), w1)" by (metis prod.exhaust)
  have "touches R E I key w (snd (Apply (applicationFor R cr gvk funcs) f True w))"
    by (rule Apply_touches [OF assms(1)]) (rule Cons.prems [of f], simp_all)
  then have t: "touches R E I key w w1" using f by simp
  show ?case
  proof (cases err)
    case None
    have "touches R E I key w1 (snd (applyLoop (applicationFor R cr gvk funcs) fs ch' w1))" for ch'
      by (rule Cons.IH, rule Cons.prems) simp_all
    from touches_trans [OF t this] show ?thesis using f None by simp
  next
    case (Some e)
    then show ?thesis using touches_trans [OF t isolatedServerD(3) [OF assms(1)]] f by simp
  qed
qed

lemma finishState_touches:
  assumes iso: "isolatedServer R E" and st: "steadyServer R E" and rc: "retriesConflicts E"
    and fin: "finishState E (\<lambda>st. se_Retry E (statusAttempt E kind g u st)) kind first' msg overlay (cr, errCol, w) = (e, (cr', c', w'))"
  shows "touches R E I (cr_key cr) w w'"
proof -
  have att: "touches R E I (cr_key c) w w2"
    if "statusAttempt E kind g u overlay (c, col, w) = (e2, (c2, col2, w2))" for c col e2 c2 col2 w2
  proof -
    define c1 where "c1 = (case se_Get E (cr_key c) w of Inl err \<Rightarrow> c | Inr d \<Rightarrow> d)"
    have key: "cr_key c1 = cr_key c" using steadyServerD(2) [OF st] by (simp add: c1_def split: sum.split)
    obtain e3 w3 where up: "se_StatusUpdate E (withStatus kind overlay c1) w = (e3, w3)" by force
    have "w2 = w3"
      using that unfolding statusAttempt_def Let_def prod.case c1_def [symmetric] steadyServerD(10) [OF st] up by simp
    then show ?thesis using isolatedServerD(4) [OF iso up] key by simp
  qed
  show ?thesis
  proof (cases "se_DeepDerivative E overlay (cr_Status cr)")
    case False
    define d where "d = (if first' then withStatus kind overlay cr else cr)"
    have d: "(if first' then se_Overlay E (withStatus kind overlay cr) (onlyStatus E overlay) else (None, cr)) = (None, d)"
      "cr_key d = cr_key cr"
      by (simp_all add: d_def steadyServerD(10) [OF st])
    obtain e3 c3 col3 w3 where at: "statusAttempt E kind g u overlay (d, errCol, w) = (e3, (c3, col3, w3))" by (metis prod_cases4)
    have "w' = w3"
      using fin False unfolding finishState_def prod.case d(1) option.case retry_statusAttempt [OF rc] at Let_def by simp
    then show ?thesis using att [OF at] d(2) by simp
  qed (use fin in \<open>simp add: finishState_def\<close>)
qed

section \<open>Territories\<close>

text \<open>When the resources of a component can live next to each other: the server is steady, keeps what it is
  sent and isolates objects; the objects of a resource lie in a territory that depends on its key
  alone; territories do not meet; and the status depends on the resource's territory.\<close>

definition clusterLaws ::
  "('w, 'f, ('s, 't) CR) ReconcilerEnv \<Rightarrow> ('w, 's, 't) StatusEnv \<Rightarrow> GroupVersionKind
   \<Rightarrow> (('s, 't) CR \<Rightarrow> 'w \<Rightarrow> 't \<times> ErrorCollector) \<Rightarrow> (ObjectKey \<Rightarrow> ident set) \<Rightarrow> bool" where
  "clusterLaws R E gvk overlay terr \<longleftrightarrow>
     steadyServer R E \<and> retriesConflicts E \<and> isolatedServer R E \<and> (\<forall>cr. honestServer (applicationFor R cr gvk None))
     \<and> (\<exists>ff. re_GetFilesRecursive R ''templates'' = Inr ff
          \<and> (\<forall>cr. separate (applicationFor R cr gvk None) ff
               \<and> (\<forall>f \<in> set ff. \<forall>u. objectOf (applicationFor R cr gvk None) f = Some u \<longrightarrow> ident u \<in> terr (cr_key cr))))
     \<and> (\<forall>k k'. k \<noteq> k' \<longrightarrow> terr k \<inter> terr k' = {})
     \<and> (\<forall>cr w w'. readAlike (re_Reads R) (terr (cr_key cr)) w w' \<longrightarrow> overlay cr w' = overlay cr w)"

lemma clusterLawsE:
  assumes "clusterLaws R E gvk overlay terr"
  obtains ff where "steadyServer R E" and "retriesConflicts E" and "isolatedServer R E"
    and "\<And>cr. honestServer (applicationFor R cr gvk None)" and "re_GetFilesRecursive R ''templates'' = Inr ff"
    and "\<And>cr. separate (applicationFor R cr gvk None) ff"
    and "\<And>cr f u. f \<in> set ff \<Longrightarrow> objectOf (applicationFor R cr gvk None) f = Some u \<Longrightarrow> ident u \<in> terr (cr_key cr)"
    and "\<And>k k'. k \<noteq> k' \<Longrightarrow> terr k \<inter> terr k' = {}"
    and "\<And>cr w w'. readAlike (re_Reads R) (terr (cr_key cr)) w w' \<Longrightarrow> overlay cr w' = overlay cr w"
  using assms unfolding clusterLaws_def by (elim conjE exE) metis

lemma touches_others:
  assumes "touches R E J key w w'" and "I \<inter> J = {}"
  shows "readAlike (re_Reads R) I w w'"
    and "i \<in> I \<Longrightarrow> stored (applicationFor R cr gvk funcs) i w' = stored (applicationFor R cr gvk funcs) i w"
    and "k \<noteq> key \<Longrightarrow> se_Get E k w' = se_Get E k w"
proof -
  show "readAlike (re_Reads R) I w w'" using assms unfolding touches_def readAlike_def by blast
  show "k \<noteq> key \<Longrightarrow> se_Get E k w' = se_Get E k w" using assms(1) unfolding touches_def by blast
  assume "i \<in> I"
  then have "i \<notin> J" using assms(2) by blast
  then show "stored (applicationFor R cr gvk funcs) i w' = stored (applicationFor R cr gvk funcs) i w"
    using assms(1) unfolding touches_def stored_def by (auto split: prod.split)
qed

context managed_component
begin

lemma reconcile_touches:
  assumes iso: "isolatedServer R E" and st: "steadyServer R E" and rc: "retriesConflicts E"
    and ff: "re_GetFilesRecursive R ''templates'' = Inr ff"
    and own: "\<And>cr f u. f \<in> set ff \<Longrightarrow> objectOf (applicationFor R cr gvk None) f = Some u \<Longrightarrow> ident u \<in> terr (cr_key cr)"
  shows "touches R E (terr req) req w (snd (reconcile req w))"
proof (cases "se_Get E req w")
  case (Inl e)
  then show ?thesis by (simp add: reconcile_eq)
next
  case (Inr cr)
  let ?a = "applicationFor R cr gvk None"
  have key: "cr_key cr = req" by (rule steadyServerD(2) [OF st Inr])
  obtain e w1 where ap: "ApplyAll ?a ff w = (e, w1)" by force
  have "touches R E (terr req) req w (snd (applyLoop ?a ff [] w))"
    by (rule applyLoop_touches [OF iso]) (use own [of _ cr] key in simp)
  then have t1: "touches R E (terr req) req w w1" using ap by (simp add: ApplyAll_def)
  show ?thesis
  proof (cases e)
    case None
    obtain sta errCol where o': "overlay cr w1 = (sta, errCol)" by force
    obtain e2 cr2 errCol2 w2 where f: "finishState E (\<lambda>st. se_Retry E (statusAttempt E kind getMsg updateMsg st)) kind first' msg sta
        (cr, errCol, w1) = (e2, (cr2, errCol2, w2))" by (metis prod_cases4)
    have "touches R E (terr req) req w1 w2" using finishState_touches [OF iso st rc f] key by simp
    moreover have "snd (reconcile req w) = w2" using run [OF Inr ff ap [unfolded None] o' f] by simp
    ultimately show ?thesis using touches_trans [OF t1] by simp
  next
    case (Some err)
    then have "snd (reconcile req w) = w1" by (simp add: reconcile_eq Inr ff ap)
    then show ?thesis using t1 by simp
  qed
qed

lemma quiet_kept:
  assumes laws: "clusterLaws R E gvk overlay terr" and q: "quietFor R E gvk overlay k w" and "k' \<noteq> k"
  shows "quietFor R E gvk overlay k (snd (reconcile k' w))"
proof -
  obtain ff where st: "steadyServer R E" and rc: "retriesConflicts E" and iso: "isolatedServer R E"
    and ff: "re_GetFilesRecursive R ''templates'' = Inr ff"
    and own: "\<And>cr f u. f \<in> set ff \<Longrightarrow> objectOf (applicationFor R cr gvk None) f = Some u \<Longrightarrow> ident u \<in> terr (cr_key cr)"
    and disj: "\<And>k k'. k \<noteq> k' \<Longrightarrow> terr k \<inter> terr k' = {}"
    and reads: "\<And>cr w w'. readAlike (re_Reads R) (terr (cr_key cr)) w w' \<Longrightarrow> overlay cr w' = overlay cr w"
    using laws by (rule clusterLawsE) blast
  obtain cr ff' sta where got: "se_Get E k w = Inr cr" and ff': "re_GetFilesRecursive R ''templates'' = Inr ff'"
    and set: "\<forall>f \<in> set ff'. settled (applicationFor R cr gvk None) f w"
    and o': "overlay cr w = (sta, [])" and dd: "se_DeepDerivative E sta (cr_Status cr)"
    using q by (rule quietForE)
  have eq: "ff' = ff" using ff ff' by simp
  have key: "cr_key cr = k" by (rule steadyServerD(2) [OF st got])
  let ?w = "snd (reconcile k' w)"
  have t: "touches R E (terr k') k' w ?w" by (rule reconcile_touches [where terr = terr, OF iso st rc ff own])
  note others = touches_others [OF t disj [of k k']]
  have "settled (applicationFor R cr gvk None) f ?w" if "f \<in> set ff" for f
    using settled_same [of "applicationFor R cr gvk None" f ?w w] others(2) own [OF that] set that key \<open>k' \<noteq> k\<close>
    unfolding eq by metis
  moreover have "overlay cr ?w = (sta, [])" using reads [of cr w ?w] others(1) key o' \<open>k' \<noteq> k\<close> by metis
  moreover have "se_Get E k ?w = Inr cr" using others(3) [of k] got \<open>k' \<noteq> k\<close> by metis
  ultimately show ?thesis unfolding quietFor_def using ff dd by blast
qed

lemma success_quiet:
  assumes "clusterLaws R E gvk overlay terr" and "se_Get E k w = Inr cr" and "snd (fst (reconcile k w)) = None"
  shows "quietFor R E gvk overlay k (snd (reconcile k w))"
proof -
  obtain ff where st: "steadyServer R E" and rc: "retriesConflicts E"
    and hon: "\<And>cr. honestServer (applicationFor R cr gvk None)"
    and ff: "re_GetFilesRecursive R ''templates'' = Inr ff" and sep: "\<And>cr. separate (applicationFor R cr gvk None) ff"
    using assms(1) by (rule clusterLawsE) blast
  have "reconcile k w = ((fst (fst (reconcile k w)), None), snd (reconcile k w))" using assms(3) by (metis prod.collapse)
  from quiesces [OF st rc assms(2) ff hon sep this] show ?thesis .
qed

end

text \<open>A request is served: the resource exists and its run reports no error.\<close>

definition served :: "('k \<Rightarrow> 'w \<Rightarrow> goerror + 'c) \<Rightarrow> ('k \<Rightarrow> 'w \<Rightarrow> 'w reconciled) \<Rightarrow> 'k \<Rightarrow> 'w \<Rightarrow> bool" where
  "served get reconcile k w \<longleftrightarrow> (case get k w of Inl err \<Rightarrow> False | Inr cr \<Rightarrow> snd (fst (reconcile k w)) = None)"

definition after :: "('k \<Rightarrow> 'w \<Rightarrow> 'w reconciled) \<Rightarrow> 'k \<Rightarrow> 'w \<Rightarrow> 'w" where
  "after reconcile k w = snd (reconcile k w)"

text \<open>On a server that keeps the laws, the runs of a component form an interleaving.\<close>

sublocale managed_component \<subseteq> cluster: interleaving "after reconcile"
  "\<lambda>k w. clusterLaws R E gvk overlay terr \<and> served (se_Get E) reconcile k w"
  "\<lambda>k w. clusterLaws R E gvk overlay terr \<and> quietFor R E gvk overlay k w" for terr
proof
  fix k w
  show "clusterLaws R E gvk overlay terr \<and> served (se_Get E) reconcile k w \<Longrightarrow>
      clusterLaws R E gvk overlay terr \<and> quietFor R E gvk overlay k (after reconcile k w)"
    using success_quiet by (auto simp: served_def after_def split: sum.splits)
  show "clusterLaws R E gvk overlay terr \<and> quietFor R E gvk overlay k w \<Longrightarrow> after reconcile k w = w"
    using quiet_idle [of k w] by (simp add: after_def)
  show "clusterLaws R E gvk overlay terr \<and> quietFor R E gvk overlay k w \<Longrightarrow> k' \<noteq> k \<Longrightarrow>
      clusterLaws R E gvk overlay terr \<and> quietFor R E gvk overlay k (after reconcile k' w)" for k'
    using quiet_kept [of terr k w k'] by (simp add: after_def)
qed

section \<open>User interfaces\<close>

definition uiTerritory :: "ObjectKey \<Rightarrow> ident set" where
  "uiTerritory k = ownIdents ui_manifests (ok_Namespace k) (ok_Name k)"

lemma ui_territories: "k \<noteq> k' \<Longrightarrow> uiTerritory k \<inter> uiTerritory k' = {}"
  by (cases k; cases k') (auto simp: uiTerritory_def manifest_defs identOf_def)

text \<open>What is relied on for user interfaces: the server's laws, the embedded manifests of the component, and
  that rendering keeps their headers.\<close>

definition uiCluster :: "('w, 'f, UI) ReconcilerEnv \<Rightarrow> ('w, UISpec, UIStatus) StatusEnv \<Rightarrow> bool" where
  "uiCluster R E \<longleftrightarrow>
     steadyServer R E \<and> retriesConflicts E \<and> isolatedServer R E
     \<and> (\<forall>cr. honestServer (applicationFor R cr (WithKind GroupVersion ''UI'') None))
     \<and> re_GetFilesRecursive R ''templates'' = Inr (map mf_File ui_manifests)
     \<and> (\<forall>cr. rendersManifests (applicationFor R cr (WithKind GroupVersion ''UI'') None) ui_manifests)"

lemma uiCluster_laws:
  assumes "uiCluster R E"
  shows "clusterLaws R E (WithKind GroupVersion ''UI'') (UI_overlay (re_Reads R)) uiTerritory"
proof -
  have c: "([''ui''], ui_manifests) \<in> set shipped" by (simp add: shipped_def)
  have place: "mf_Place m \<noteq> BySpec" if "m \<in> set ui_manifests" for m using that by (auto simp: manifest_defs)
  let ?a = "\<lambda>cr. applicationFor R cr (WithKind GroupVersion ''UI'') None"
  have own: "ident u \<in> uiTerritory (cr_key cr)" if m: "m \<in> set ui_manifests" and u: "objectOf (?a cr) (mf_File m) = Some u" for cr m u
  proof -
    have r: "rendersManifests (?a cr) ui_manifests" using assms by (simp add: uiCluster_def)
    obtain i where i: "identOf m (cr_Namespace cr) (cr_Name cr) = Some i"
      using place [OF m] by (cases "mf_Place m") (auto simp: identOf_def)
    then have "ident u = i" using rendered_ident [OF r m u] by simp
    then show ?thesis using m i by (auto simp: uiTerritory_def ownIdents_def cr_key_def)
  qed
  show ?thesis
    unfolding clusterLaws_def
  proof (intro conjI allI impI exI [of _ "map mf_File ui_manifests"] ballI)
    fix cr f u assume "f \<in> set (map mf_File ui_manifests)" and "objectOf (?a cr) f = Some u"
    then show "ident u \<in> uiTerritory (cr_key cr)" using own by auto
  next
    fix cr :: UI and w w' assume "readAlike (re_Reads R) (uiTerritory (cr_key cr)) w w'"
    then show "UI_overlay (re_Reads R) cr w' = UI_overlay (re_Reads R) cr w"
      by (intro UI_overlay_own) (simp add: uiTerritory_def cr_key_def)
  next
    show "separate (?a cr) (map mf_File ui_manifests)" for cr
      using assms by (intro renders_separate [OF c]) (simp add: uiCluster_def)
  qed (use assms ui_territories in \<open>simp_all add: uiCluster_def\<close>)
qed


section \<open>An example\<close>

text \<open>A server with user interfaces \<open>a\<close> and \<open>b\<close>, each with a deployment.\<close>

type_synonym roomWorld = "(ObjectKey \<rightharpoonup> UI) \<times> demoServer"

definition roomReconciler :: "(roomWorld, unit, UI) ReconcilerEnv" where
  "roomReconciler =
     \<lparr>re_Client = \<lparr>cl_Get = (\<lambda>v k key w. cl_Get demoClient v k key (snd w)),
        cl_Create = (\<lambda>u w. (None, (fst w, (snd w)(ident u \<mapsto> u)))), cl_Update = (\<lambda>u w. (None, (fst w, (snd w)(ident u \<mapsto> u))))\<rparr>,
      re_Reads = \<lparr>rd_Deployment = (\<lambda>k w. Inr zeroDeployment), rd_StatefulSet = (\<lambda>k w. Inr zeroStatefulSet),
        rd_Service = (\<lambda>k w. Inr zeroService), rd_Secret = (\<lambda>k w. Inr zeroSecret)\<rparr>,
      re_ReadFile = (\<lambda>f. Inr f), re_GetFilesRecursive = (\<lambda>d. Inr (map mf_File ui_manifests)), re_Recorder = (\<lambda>t r n w. w),
      re_engine = (\<lambda>f m. Inr (\<lambda>cr. Inr (if m = mf_File ui_deployment_yaml \<and> cr_key cr \<in> {objectKey [] ''a'', objectKey [] ''b''}
         then cr_Name cr else []))),
      re_yaml = (\<lambda>y u. (None, u\<lparr>u_APIVersion := ''apps/v1'', u_Kind := ''Deployment'',
        u_Meta := zeroMeta\<lparr>om_Name := y @ ''-ui''\<rparr>\<rparr>)), re_metaEncoder = (\<lambda>m. JNull)\<rparr>"

definition roomStatus :: "UISpec \<Rightarrow> (roomWorld, UISpec, UIStatus) StatusEnv" where
  "roomStatus z =
     \<lparr>se_Get = (\<lambda>k w. case fst w k of None \<Rightarrow> Inl (StatusError NotFound ''not found'')
        | Some cr \<Rightarrow> if cr_key cr = k then Inr cr else Inl (StatusError NotFound ''not found'')),
      se_Overlay = (\<lambda>c o'. (None, c)),
      se_StatusUpdate = (\<lambda>c w. (None, ((fst w)(cr_key c := map_option (\<lambda>cr. cr\<lparr>cr_Status := cr_Status c\<rparr>) (fst w (cr_key c))), snd w))),
      se_Retry = (\<lambda>f st. f st), se_DeepDerivative = (=), se_zeroSpec = z\<rparr>"

definition roomUI :: "UISpec \<Rightarrow> UIStatus \<Rightarrow> string \<Rightarrow> UI" where
  "roomUI z t n = \<lparr>cr_Type = zeroTypeMeta, cr_Meta = zeroMeta\<lparr>om_Name := n\<rparr>, cr_Spec = z, cr_Status = t\<rparr>"

definition roomStart :: "UISpec \<Rightarrow> UIStatus \<Rightarrow> roomWorld" where
  "roomStart z t = ([objectKey [] ''a'' \<mapsto> roomUI z t ''a'', objectKey [] ''b'' \<mapsto> roomUI z t ''b''], Map.empty)"

lemma room_steady: "steadyServer roomReconciler (roomStatus z)"
  unfolding steadyServer_def
  by (auto simp: roomReconciler_def roomStatus_def demoClient_def alike_def cr_key_def LoadTemplate_def GenerateManifests_def
      split: if_splits option.splits)

lemma room_isolated: "isolatedServer roomReconciler (roomStatus z)"
  unfolding isolatedServer_def touches_def by (auto simp: roomReconciler_def roomStatus_def demoClient_def)

lemma room_honest: "honestServer (applicationFor roomReconciler cr gvk None)"
  unfolding honestServer_def by (auto simp: roomReconciler_def demoClient_def stored_def ident_def)

lemma room_object:
  "objectOf (applicationFor roomReconciler cr gvk None) f =
     (if f = mf_File ui_deployment_yaml \<and> cr_key cr \<in> {objectKey [] ''a'', objectKey [] ''b''}
      then Some (zeroUnstructured\<lparr>u_APIVersion := ''apps/v1'', u_Kind := ''Deployment'', u_Meta := zeroMeta\<lparr>om_Name := cr_Name cr @ ''-ui''\<rparr>\<rparr>)
      else None)"
  using contended_strip stripCharacters_Nil
  by (auto simp: objectOf_def loaded_def LoadTemplate_def GenerateManifests_def roomReconciler_def cr_key_def)

lemma room_cluster: "uiCluster roomReconciler (roomStatus z)"
proof -
  have sh: "([''ui''], ui_manifests) \<in> set shipped" by (simp add: shipped_def)
  have "inj_on mf_File (set ui_manifests)" using distinct_files [OF sh] by (simp add: distinct_map)
  moreover have d: "ui_deployment_yaml \<in> set ui_manifests" by (simp add: ui_manifests_def ui_deployment_yaml_def)
  ultimately have i: "mf_File m = mf_File ui_deployment_yaml \<longleftrightarrow> m = ui_deployment_yaml" if "m \<in> set ui_manifests" for m
    using that by (auto dest: inj_onD)
  have "rendersManifests (applicationFor roomReconciler cr gvk None) ui_manifests" for cr gvk
    unfolding rendersManifests_def room_object using i
    by (auto simp: ui_deployment_yaml_def manifest_def zeroUnstructured_def ObjectKeyFromObject_def zeroMeta_def cr_key_def split: if_splits)
  then show ?thesis
    unfolding uiCluster_def using room_steady room_isolated room_honest
    by (simp add: retriesConflicts_def roomStatus_def) (simp add: roomReconciler_def)
qed

lemma room_Apply: "\<exists>c w'. Apply (applicationFor roomReconciler cr gvk None) f True w = ((c, None), w')"
proof (rule Apply_accepted)
  show "acceptsCalls (app_Client (applicationFor roomReconciler cr gvk None))"
    by (auto simp: acceptsCalls_def roomReconciler_def demoClient_def IsNotFound_def split: option.splits)
  show "\<exists>u'. compose (applicationFor roomReconciler cr gvk None) u = Inr u'"
    if "objectOf (applicationFor roomReconciler cr gvk None) f = Some u" for u
    using that by (intro demo_compose) (auto simp: room_object zeroUnstructured_def split: if_splits)
  show "fst (snd (loaded (applicationFor roomReconciler cr gvk None) f)) = Some ErrNothingLoaded"
    if "objectOf (applicationFor roomReconciler cr gvk None) f = None"
    using that unfolding room_object
    by (auto simp: loaded_def LoadTemplate_def GenerateManifests_def stripCharacters_Nil roomReconciler_def split: if_splits)
qed (simp add: roomReconciler_def)

lemma finishState_succeeds:
  assumes st: "steadyServer R E" and rc: "retriesConflicts E" and got: "se_Get E (cr_key cr) w = Inr cr"
    and up: "\<And>c. \<exists>w2. se_StatusUpdate E c w = (None, w2)"
  shows "\<exists>c' w'. finishState E (\<lambda>st. se_Retry E (statusAttempt E kind g u st)) kind first' msg sta (cr, [], w) = (None, (c', [], w'))"
proof (cases "se_DeepDerivative E sta (cr_Status cr)")
  case True
  then show ?thesis by (simp add: finishState_def ErrorCollector_Error_def)
next
  case False
  define d where "d = (if first' then withStatus kind sta cr else cr)"
  have d: "(if first' then se_Overlay E (withStatus kind sta cr) (onlyStatus E sta) else (None, cr)) = (None, d)"
    "cr_key d = cr_key cr"
    by (simp_all add: d_def steadyServerD(10) [OF st])
  obtain w2 where w2: "se_StatusUpdate E (withStatus kind sta cr) w = (None, w2)" using up by blast
  have "statusAttempt E kind g u sta (d, [], w) = (None, (withStatus kind sta cr, [], w2))"
    unfolding statusAttempt_def prod.case Let_def d(2) got sum.case steadyServerD(10) [OF st] w2
    by (simp add: collectOpt_def ErrorCollector_Error_def)
  then show ?thesis
    unfolding finishState_def prod.case d(1) option.case retry_statusAttempt [OF rc] Let_def using False
    by (simp add: collectOpt_def ErrorCollector_Error_def)
qed

lemma room_served:
  assumes "se_Get (roomStatus z) k w = Inr cr"
  shows "served (se_Get (roomStatus z)) (UI_Reconcile roomReconciler (roomStatus z)) k w"
proof -
  let ?E = "roomStatus z" and ?fs = "map mf_File ui_manifests"
  have ff: "re_GetFilesRecursive roomReconciler ''templates'' = Inr ?fs" by (simp add: roomReconciler_def)
  obtain w1 where ap: "ApplyAll (applicationFor roomReconciler cr (WithKind GroupVersion ''UI'') None) ?fs w = (None, w1)"
    using ApplyAll_succeeds room_Apply by metis
  have "snd (UI_overlay (re_Reads roomReconciler) cr w1) = []"
    by (simp add: UI_overlay_def roomReconciler_def readOrZero_def)
  then obtain sta where o': "UI_overlay (re_Reads roomReconciler) cr w1 = (sta, [])" by (metis prod.collapse)
  have got: "se_Get ?E (cr_key cr) w1 = Inr cr"
    using ApplyAll_keeps [OF room_steady ap] steadyServerD(2) [OF room_steady assms] assms by simp
  obtain c' w' where f: "finishState ?E (\<lambda>st. se_Retry ?E (statusAttempt ?E ''UI'' ''failed to get ui: ''
      ''failed to update status of ui: '' st)) ''UI'' True ''failed to update status of UI: '' sta (cr, [], w1) = (None, (c', [], w'))"
    using finishState_succeeds [OF room_steady _ got] by (fastforce simp: retriesConflicts_def roomStatus_def)
  have "snd (fst (UI_Reconcile roomReconciler ?E k w)) = None"
    using ui_component.run [OF assms ff ap o' f] by simp
  then show ?thesis by (simp add: served_def assms)
qed


end
