(* ===== verification/OAPServer_Convergence.thy ===== *)
theory OAPServer_Convergence
  imports Reconcile_System
begin

text \<open>
  The reconciler of OAP servers prepares the resource before it applies the manifests: it reads the
  storage and the credentials that the resource refers to and adds them to the specification in memory.
  It converges all the same, as long as the storage and its secret stay as they are.
\<close>

section \<open>What the preparation reads and changes\<close>

definition storageInputs ::
  "'w Reads \<Rightarrow> (ObjectKey \<Rightarrow> 'w \<Rightarrow> goerror + Storage) \<Rightarrow> 'w \<Rightarrow> (ObjectKey \<Rightarrow> goerror + Storage) \<times> (ObjectKey \<Rightarrow> goerror + Secret)" where
  "storageInputs rd getStorage w = ((\<lambda>k. getStorage k w), (\<lambda>k. rd_Secret rd k w))"

text \<open>What is relied on of the server: the calls of this reconciler change no storage and no secret.\<close>

definition keepsStorages ::
  "('w, 'f, OAPServer) ReconcilerEnv \<Rightarrow> ('w, OAPServerSpec, OAPServerStatus) StatusEnv
   \<Rightarrow> (ObjectKey \<Rightarrow> 'w \<Rightarrow> goerror + Storage) \<Rightarrow> bool" where
  "keepsStorages R E getStorage \<longleftrightarrow>
     (\<forall>u w. storageInputs (re_Reads R) getStorage (snd (cl_Create (re_Client R) u w)) = storageInputs (re_Reads R) getStorage w
        \<and> storageInputs (re_Reads R) getStorage (snd (cl_Update (re_Client R) u w)) = storageInputs (re_Reads R) getStorage w)
     \<and> (\<forall>t r n w. storageInputs (re_Reads R) getStorage (re_Recorder R t r n w) = storageInputs (re_Reads R) getStorage w)
     \<and> (\<forall>c w. storageInputs (re_Reads R) getStorage (snd (se_StatusUpdate E c w)) = storageInputs (re_Reads R) getStorage w)"

lemma InjectStorage_inputs:
  assumes "storageInputs rd getStorage w' = storageInputs rd getStorage w"
  shows "InjectStorage rd getStorage parseURL dd o' w' = InjectStorage rd getStorage parseURL dd o' w"
proof -
  have g: "getStorage k w' = getStorage k w" and s: "rd_Secret rd k w' = rd_Secret rd k w" for k
    using assms by (auto simp: storageInputs_def fun_eq_iff)
  have c: "ConfigStorage rd parseURL dd st o' w' = ConfigStorage rd parseURL dd st o' w" for st
    unfolding ConfigStorage_def storageUser_def s by (rule refl)
  show ?thesis unfolding InjectStorage_def g c by (rule refl)
qed

text \<open>The preparation changes the specification only, in a way that depends on specification and
  namespace.\<close>

lemma ConfigStorage_spec:
  assumes "ConfigStorage rd parseURL dd s o' w = Inr p" and "cr_Spec q = cr_Spec o'"
  shows "p = o'\<lparr>cr_Spec := cr_Spec p\<rparr>" and "ConfigStorage rd parseURL dd s q w = Inr (q\<lparr>cr_Spec := cr_Spec p\<rparr>)"
  using assms unfolding ConfigStorage_def
  by (auto simp: Let_def split: option.splits if_splits prod.splits)

lemma InjectStorage_spec:
  assumes "InjectStorage rd getStorage parseURL dd o' w = Inr p"
    and "cr_Spec q = cr_Spec o'" and "cr_Namespace q = cr_Namespace o'"
  shows "p = o'\<lparr>cr_Spec := cr_Spec p\<rparr>" and "InjectStorage rd getStorage parseURL dd q w = Inr (q\<lparr>cr_Spec := cr_Spec p\<rparr>)"
  using assms ConfigStorage_spec unfolding InjectStorage_def
  by (auto split: option.splits if_splits sum.splits)

section \<open>Convergence\<close>

lemma OAPServer_overlay_reads:
  assumes "\<And>k. rd_Deployment rd k w' = rd_Deployment rd k w" and "\<And>k. rd_Service rd k w' = rd_Service rd k w"
    and "cr_Name p' = cr_Name p" and "cr_Namespace p' = cr_Namespace p"
  shows "OAPServer_overlay rd p' w' = OAPServer_overlay rd p w"
  unfolding OAPServer_overlay_def assms by (rule refl)

text \<open>The parts of a run that succeeded. The status is written to the resource as it is read again, without
  what the preparation added.\<close>

lemma OAPServer_run:
  assumes st: "steadyServer R E" and rc: "retriesConflicts E" and got: "se_Get E req w = Inr cr"
    and ff: "re_GetFilesRecursive R ''templates'' = Inr ff"
    and ok: "OAPServer_Reconcile R E getStorage parseURL dd req w = Inr ((res, None), w2)"
  obtains p w1 sta where "InjectStorage (re_Reads R) getStorage parseURL dd cr w = Inr p"
    and "ApplyAll (applicationFor R p (WithKind GroupVersion ''OAPServer'') None) ff w = (None, w1)"
    and "OAPServer_overlay (re_Reads R) p w1 = (sta, [])"
    and "se_DeepDerivative E sta (cr_Status cr) \<and> w2 = w1 \<or> se_StatusUpdate E (withStatus ''OAPServer'' sta cr) w1 = (None, w2)"
proof -
  obtain p where p: "InjectStorage (re_Reads R) getStorage parseURL dd cr w = Inr p"
    using ok unfolding OAPServer_Reconcile_def got ff sum.case
    by (cases "InjectStorage (re_Reads R) getStorage parseURL dd cr w") simp_all
  have pcr: "p = cr\<lparr>cr_Spec := cr_Spec p\<rparr>" by (rule InjectStorage_spec(1) [OF p]) simp_all
  have status: "cr_Status p = cr_Status cr" "cr_key p = cr_key cr"
    by (subst pcr, simp add: cr_key_def)+
  obtain e w1 where ap: "ApplyAll (applicationFor R p (WithKind GroupVersion ''OAPServer'') None) ff w = (e, w1)" by force
  have e: "e = None" using ok unfolding OAPServer_Reconcile_def got ff sum.case p ap prod.case by (cases e) simp_all
  obtain sta col where o': "OAPServer_overlay (re_Reads R) p w1 = (sta, col)" by force
  obtain e2 c2 col2 w3 where fin: "finishState E (OAPServer_updateStatus E) ''OAPServer'' False
      ''failed to update status of oapServer: '' sta (p, col, w1) = (e2, (c2, col2, w3))" by (metis prod_cases4)
  have r: "e2 = None" "w3 = w2"
    using ok unfolding OAPServer_Reconcile_def got ff sum.case p ap e prod.case option.case OAPServer_checkState_def o' fin
    by (cases e2; simp)+
  have got1: "se_Get E (cr_key p) w1 = Inr cr"
    using ApplyAll_keeps [OF st ap] got steadyServerD(2) [OF st got] status(2) by simp
  have "col = [] \<and> (se_DeepDerivative E sta (cr_Status cr) \<and> w2 = w1 \<or> se_StatusUpdate E (withStatus ''OAPServer'' sta cr) w1 = (None, w2))"
  proof (cases "se_DeepDerivative E sta (cr_Status cr)")
    case True
    then show ?thesis using fin r status by (simp add: finishState_def)
  next
    case False
    obtain e3 c3 col3 w4 where at: "statusAttempt E ''OAPServer'' ''failed to get oapServer: '' ''failed to update status of OAPServer: ''
        sta (p, col, w1) = (e3, (c3, col3, w4))" by (metis prod_cases4)
    have e3: "e3 = None" and "w4 = w2"
      using fin r False unfolding finishState_def prod.case status OAPServer_updateStatus_def retry_statusAttempt [OF rc] Let_def
      by (simp_all add: at)
    then show ?thesis using statusAttempt_ok [OF st got1 at [unfolded e3]] by simp
  qed
  then show thesis using that [OF p ap [unfolded e]] o' by simp
qed

text \<open>What is relied on for OAP servers: the server's laws, the shipped manifests and that rendering keeps
  their headers.\<close>

definition oapCluster ::
  "('w, 'f, OAPServer) ReconcilerEnv \<Rightarrow> ('w, OAPServerSpec, OAPServerStatus) StatusEnv
   \<Rightarrow> (ObjectKey \<Rightarrow> 'w \<Rightarrow> goerror + Storage) \<Rightarrow> bool" where
  "oapCluster R E getStorage \<longleftrightarrow>
     steadyServer R E \<and> retriesConflicts E \<and> keepsStorages R E getStorage
     \<and> (\<forall>cr. honestServer (applicationFor R cr (WithKind GroupVersion ''OAPServer'') None))
     \<and> re_GetFilesRecursive R ''templates'' = Inr (map mf_File oapserver_manifests)
     \<and> (\<forall>cr. rendersManifests (applicationFor R cr (WithKind GroupVersion ''OAPServer'') None) oapserver_manifests)"

text \<open>A run from a state in which the resource is quiet.\<close>

lemma OAPServer_idle:
  assumes got: "se_Get E req w = Inr cr" and ff: "re_GetFilesRecursive R ''templates'' = Inr ff"
    and p: "InjectStorage (re_Reads R) getStorage parseURL dd cr w = Inr p" and st: "cr_Status p = cr_Status cr"
    and ap: "ApplyAll (applicationFor R p (WithKind GroupVersion ''OAPServer'') None) ff w = (None, w)"
    and o': "OAPServer_overlay (re_Reads R) p w = (sta, [])" and "se_DeepDerivative E sta (cr_Status cr)"
  shows "OAPServer_Reconcile R E getStorage parseURL dd req w = Inr ((\<lparr>RequeueAfter = schedDuration\<rparr>, None), w)"
proof -
  have "finishState E (OAPServer_updateStatus E) ''OAPServer'' False ''failed to update status of oapServer: '' sta (p, [], w)
      = (None, (p, [], w))"
    using assms(7) st by (simp add: finishState_def)
  then show ?thesis
    unfolding OAPServer_Reconcile_def got ff sum.case p ap prod.case option.case OAPServer_checkState_def o' by simp
qed


section \<open>An example\<close>

text \<open>A server with one OAP server, whose role binding is rendered and whose storage does not exist.\<close>

definition loneReconciler :: "((OAPServerSpec, OAPServerStatus) demoWorld, unit, OAPServer) ReconcilerEnv" where
  "loneReconciler = demoReconciler
     \<lparr>re_GetFilesRecursive := (\<lambda>d. Inr (map mf_File oapserver_manifests)),
      re_engine := (\<lambda>f m. Inr (\<lambda>cr. Inr (if m = mf_File oapserver_cluster_role_binding_yaml then ''a'' else []))),
      re_yaml := re_yaml contendedReconciler\<rparr>"

definition noStorage :: "ObjectKey \<Rightarrow> 'w \<Rightarrow> goerror + Storage" where
  "noStorage k w = Inl (StatusError NotFound ''not found'')"

lemma lone_object:
  "objectOf (applicationFor loneReconciler cr gvk None) f = (if f = mf_File oapserver_cluster_role_binding_yaml then Some (boundTo ''a'') else None)"
  using contended_strip(1) stripCharacters_Nil
  by (simp add: objectOf_def loaded_def LoadTemplate_def GenerateManifests_def loneReconciler_def demoReconciler_def
      contendedReconciler_def boundTo_def)

lemma lone_cluster: "oapCluster loneReconciler (demoStatusEnv z) noStorage"
proof -
  have st: "steadyServer loneReconciler (demoStatusEnv z)"
    unfolding steadyServer_def
    by (simp add: loneReconciler_def demoReconciler_def demoStatusEnv_def demoClient_def alike_def cr_key_def LoadTemplate_def
        GenerateManifests_def split: if_splits)
  have hon: "honestServer (applicationFor loneReconciler cr gvk None)" for cr gvk
    unfolding honestServer_def by (auto simp: loneReconciler_def demoReconciler_def demoClient_def stored_def ident_def)
  have ren: "rendersManifests (applicationFor loneReconciler cr gvk None) oapserver_manifests" for cr gvk
    unfolding rendersManifests_def lone_object using binding_file
    by (auto simp: oapserver_cluster_role_binding_yaml_def manifest_def boundTo_def zeroUnstructured_def ObjectKeyFromObject_def zeroMeta_def split: if_splits)
  have keep: "keepsStorages loneReconciler (demoStatusEnv z) noStorage"
    by (simp add: keepsStorages_def storageInputs_def noStorage_def loneReconciler_def demoReconciler_def)
  show ?thesis
    unfolding oapCluster_def using st hon ren keep demo_retries
    by (simp add: loneReconciler_def)
qed

lemma lone_Apply: "\<exists>c w'. Apply (applicationFor loneReconciler cr gvk None) f True w = ((c, None), w')"
proof (rule Apply_accepted)
  show "acceptsCalls (app_Client (applicationFor loneReconciler cr gvk None))"
    by (auto simp: acceptsCalls_def loneReconciler_def demoReconciler_def demoClient_def IsNotFound_def split: option.splits)
  show "\<exists>u'. compose (applicationFor loneReconciler cr gvk None) u = Inr u'"
    if "objectOf (applicationFor loneReconciler cr gvk None) f = Some u" for u
    using that by (intro compose_plain [of _ "''a''"]) (auto simp: lone_object boundTo_def split: if_splits)
  show "fst (snd (loaded (applicationFor loneReconciler cr gvk None) f)) = Some ErrNothingLoaded"
    if "objectOf (applicationFor loneReconciler cr gvk None) f = None"
  proof -
    have "f \<noteq> mf_File oapserver_cluster_role_binding_yaml" using that by (auto simp: lone_object)
    then show ?thesis
      by (simp add: loaded_def LoadTemplate_def GenerateManifests_def stripCharacters_Nil loneReconciler_def demoReconciler_def)
  qed
qed (simp add: loneReconciler_def demoReconciler_def)

lemma lone_run:
  "\<exists>w2. OAPServer_Reconcile loneReconciler (demoStatusEnv z) noStorage parseURL dd (cr_key cr) (cr, objs)
     = Inr ((\<lparr>RequeueAfter = schedDuration\<rparr>, None), w2)"
proof -
  let ?R = loneReconciler and ?E = "demoStatusEnv z" and ?gvk = "WithKind GroupVersion ''OAPServer''"
  have st: "steadyServer ?R ?E" and ff: "re_GetFilesRecursive ?R ''templates'' = Inr (map mf_File oapserver_manifests)"
    using lone_cluster by (simp_all add: oapCluster_def)
  have p: "InjectStorage (re_Reads ?R) noStorage parseURL dd cr (cr, objs) = Inr cr"
    by (simp add: InjectStorage_def noStorage_def split: option.split)
  obtain w1 where ap: "ApplyAll (applicationFor ?R cr ?gvk None) (map mf_File oapserver_manifests) (cr, objs) = (None, w1)"
    using ApplyAll_succeeds lone_Apply by metis
  have "snd (OAPServer_overlay (re_Reads ?R) cr w1) = []"
    by (simp add: OAPServer_overlay_def loneReconciler_def demoReconciler_def readOrZero_def)
  then obtain sta where o': "OAPServer_overlay (re_Reads ?R) cr w1 = (sta, [])" by (metis prod.collapse)
  have got: "se_Get ?E (cr_key cr) w1 = Inr cr" using ApplyAll_keeps [OF st ap] demo_get by metis
  obtain c' w' where "finishState ?E (\<lambda>st. se_Retry ?E (statusAttempt ?E ''OAPServer'' ''failed to get oapServer: ''
      ''failed to update status of OAPServer: '' st)) ''OAPServer'' False ''failed to update status of oapServer: '' sta (cr, [], w1)
      = (None, (c', [], w'))"
    using finishState_succeeds [OF st demo_retries got] by (fastforce simp: demoStatusEnv_def)
  then have "OAPServer_checkState (re_Reads ?R) ?E cr w1 = (None, (c', [], w'))"
    by (simp add: OAPServer_checkState_def o' OAPServer_updateStatus_def [abs_def])
  then show ?thesis unfolding OAPServer_Reconcile_def demo_get ff sum.case p ap by simp
qed


end
