(* ===== verification/Digest.thy ===== *)
theory Digest
  imports Encoding
begin

text \<open>
  The MD5 digest of package \<open>crypto/md5\<close> as RFC 1321 specifies it, on 32 bit words, and the function
  \<open>MD5Hash\<close> of \<open>oapserverdynamicconfig_controller.go\<close>. The value hashed is rendered with the verb
  \<open>%v\<close>: a string as itself, a slice of structs as a bracketed list of the fields in braces, each
  separated by a blank, and a nested pointer as its address.
\<close>

unbundle bit_operations_syntax

section \<open>MD5 (crypto/md5)\<close>

type_synonym w32 = "32 word"
type_synonym digest = "w32 \<times> w32 \<times> w32 \<times> w32"

definition md5Init :: digest where
  "md5Init = (1732584193, 4023233417, 2562383102, 271733878)"

definition md5Table :: "w32 list" where
  "md5Table =
     [
      3614090360, 3905402710, 606105819, 3250441966, 4118548399, 1200080426, 2821735955, 4249261313,
      1770035416, 2336552879, 4294925233, 2304563134, 1804603682, 4254626195, 2792965006, 1236535329,
      4129170786, 3225465664, 643717713, 3921069994, 3593408605, 38016083, 3634488961, 3889429448,
      568446438, 3275163606, 4107603335, 1163531501, 2850285829, 4243563512, 1735328473, 2368359562,
      4294588738, 2272392833, 1839030562, 4259657740, 2763975236, 1272893353, 4139469664, 3200236656,
      681279174, 3936430074, 3572445317, 76029189, 3654602809, 3873151461, 530742520, 3299628645,
      4096336452, 1126891415, 2878612391, 4237533241, 1700485571, 2399980690, 4293915773, 2240044497,
      1873313359, 4264355552, 2734768916, 1309151649, 4149444226, 3174756917, 718787259, 3951481745]"

definition md5Shift :: "nat list" where
  "md5Shift = concat (map (\<lambda>s. concat (replicate 4 s))
     [[7, 12, 17, 22], [5, 9, 14, 20], [4, 11, 16, 23], [6, 10, 15, 21]])"

definition md5Mix :: "nat \<Rightarrow> w32 \<Rightarrow> w32 \<Rightarrow> w32 \<Rightarrow> w32 \<times> nat" where
  "md5Mix i b c d =
     (if i < 16 then ((b AND c) OR (NOT b AND d), i)
      else if i < 32 then ((d AND b) OR (NOT d AND c), (5 * i + 1) mod 16)
      else if i < 48 then (b XOR c XOR d, (3 * i + 5) mod 16)
      else (c XOR (b OR NOT d), (7 * i) mod 16))"

fun md5Rounds :: "w32 list \<Rightarrow> (nat \<times> w32 \<times> nat) list \<Rightarrow> digest \<Rightarrow> digest" where
  "md5Rounds block [] st = st"
| "md5Rounds block ((i, k, s) # steps) (a, b, c, d) =
     (case md5Mix i b c d of
        (f, g) \<Rightarrow> md5Rounds block steps (d, b + word_rotl s (f + a + k + block ! g), b, c))"

definition md5Block :: "w32 list \<Rightarrow> digest \<Rightarrow> digest" where
  "md5Block block st =
     (case st of (a0, b0, c0, d0) \<Rightarrow>
        (case md5Rounds block (zip [0..<64] (zip md5Table md5Shift)) st of
           (a, b, c, d) \<Rightarrow> (a0 + a, b0 + b, c0 + c, d0 + d)))"

text \<open>Little endian words and bytes.\<close>

fun leWords :: "string \<Rightarrow> w32 list" where
  "leWords (b0 # b1 # b2 # b3 # bs) =
     (of_char b0 + 256 * of_char b1 + 65536 * of_char b2 + 16777216 * of_char b3) # leWords bs"
| "leWords bs = []"

fun leBytes :: "nat \<Rightarrow> int \<Rightarrow> string" where
  "leBytes 0 n = []"
| "leBytes (Suc k) n = char_of (n mod 256) # leBytes k (n div 256)"

text \<open>The message is padded with one set bit, zeros up to 56 modulo 64, and the low eight bytes of its bit length.\<close>

definition md5Pad :: "string \<Rightarrow> string" where
  "md5Pad s = s @ CHR 0x80 # replicate ((119 - length s mod 64) mod 64) CHR 0x00 @ leBytes 8 (8 * int (length s))"

fun md5Blocks :: "w32 list \<Rightarrow> digest \<Rightarrow> digest" where
  "md5Blocks [] st = st"
| "md5Blocks (v # vs) st = md5Blocks (drop 15 vs) (md5Block (v # take 15 vs) st)"

definition md5Sum :: "string \<Rightarrow> string" where
  "md5Sum s =
     (case md5Blocks (leWords (md5Pad s)) md5Init of
        (a, b, c, d) \<Rightarrow> leBytes 4 (uint a) @ leBytes 4 (uint b) @ leBytes 4 (uint c) @ leBytes 4 (uint d))"

text \<open>\<open>MD5Hash\<close> of a value that renders as \<open>text\<close>.\<close>

definition MD5Hash :: "string \<Rightarrow> string" where
  "MD5Hash text = EncodeToString (md5Sum text)"

lemma length_leBytes [simp]: "length (leBytes k n) = k"
  by (induction k arbitrary: n) simp_all

lemma length_MD5Hash [simp]: "length (MD5Hash text) = 32"
  by (simp add: MD5Hash_def md5Sum_def split: prod.split)

text \<open>Every padded message is a whole number of blocks, so that no byte is left out.\<close>

lemma md5Pad_blocks: "length (md5Pad s) mod 64 = 0"
proof -
  obtain q r where n: "length s = 64 * q + r" and r: "r < 64"
    by (metis mod_less_divisor mult_div_mod_eq zero_less_numeral)
  have "length (md5Pad s) = 64 * q + (r + 9 + (119 - r) mod 64)"
    using r by (simp add: md5Pad_def n)
  moreover have "(r + 9 + (119 - r) mod 64) mod 64 = 0"
  proof (cases "r < 56")
    case True
    then have "(119 - r) mod 64 = 55 - r" using mod_add_self2 [of "55 - r" 64] by simp
    then show ?thesis using True by simp
  next
    case False
    then show ?thesis using r by simp
  qed
  ultimately show ?thesis by (metis mod_mult_self4)
qed

end
