(* ===== verification/Config_Maps.thy ===== *)
theory Config_Maps
  imports Controller_Common
begin

text \<open>
  Config maps on the API server, as three reconcilers use them: read, create, delete by key, and list
  by labels. The server is a parameter; \<open>keepsConfigMaps\<close> says what a server without failures does:
  a created config map is read back with its name, labels and data until it is deleted, creating one
  that exists is refused, and other keys are not affected.
\<close>

record 'w ConfigMaps =
  cms_Get :: "ObjectKey \<Rightarrow> 'w \<Rightarrow> goerror + ConfigMap"
  cms_Create :: "ConfigMap \<Rightarrow> 'w \<Rightarrow> goerror option \<times> 'w"
  cms_Delete :: "ConfigMap \<Rightarrow> 'w \<Rightarrow> goerror option \<times> 'w"
  cms_List :: "string \<Rightarrow> gomap \<Rightarrow> 'w \<Rightarrow> goerror + ConfigMap list"

definition cm_key :: "ConfigMap \<Rightarrow> ObjectKey" where
  "cm_key c = \<lparr>ok_Namespace = om_Namespace (cm_Meta c), ok_Name = om_Name (cm_Meta c)\<rparr>"

text \<open>A stored config map has the key, labels and data it was created with; the server fills in other
  metadata.\<close>

definition storedAs :: "ConfigMap \<Rightarrow> ConfigMap \<Rightarrow> bool" where
  "storedAs c c' \<longleftrightarrow> cm_key c' = cm_key c \<and> om_Labels (cm_Meta c') = om_Labels (cm_Meta c) \<and> cm_Data c' = cm_Data c"

definition absent :: "'w ConfigMaps \<Rightarrow> ObjectKey \<Rightarrow> 'w \<Rightarrow> bool" where
  "absent M k w \<longleftrightarrow> (\<exists>e. cms_Get M k w = Inl e \<and> IsNotFound e)"

definition unchangedBut :: "'w ConfigMaps \<Rightarrow> ObjectKey set \<Rightarrow> 'w \<Rightarrow> 'w \<Rightarrow> bool" where
  "unchangedBut M K w w' \<longleftrightarrow> (\<forall>k. k \<notin> K \<longrightarrow> cms_Get M k w' = cms_Get M k w)"

definition keepsConfigMaps :: "'w ConfigMaps \<Rightarrow> bool" where
  "keepsConfigMaps M \<longleftrightarrow>
     (\<forall>k w e. cms_Get M k w = Inl e \<longrightarrow> IsNotFound e)
   \<and> (\<forall>k w c. cms_Get M k w = Inr c \<longrightarrow> cm_key c = k)
   \<and> (\<forall>c w. absent M (cm_key c) w \<longrightarrow>
        (\<exists>w' c'. cms_Create M c w = (None, w') \<and> cms_Get M (cm_key c) w' = Inr c' \<and> storedAs c c'
           \<and> unchangedBut M {cm_key c} w w'))
   \<and> (\<forall>c w. \<not> absent M (cm_key c) w \<longrightarrow>
        (\<exists>m. cms_Create M c w = (Some (StatusError AlreadyExists m), w)))
   \<and> (\<forall>c w. \<not> absent M (cm_key c) w \<longrightarrow>
        (\<exists>w'. cms_Delete M c w = (None, w') \<and> absent M (cm_key c) w' \<and> unchangedBut M {cm_key c} w w'))"

lemma keeps_read:
  assumes "keepsConfigMaps M"
  shows "cms_Get M k w = Inl e \<Longrightarrow> IsNotFound e" and "cms_Get M k w = Inr c \<Longrightarrow> cm_key c = k"
  using assms by (auto simp: keepsConfigMaps_def)

lemma absent_iff: "keepsConfigMaps M \<Longrightarrow> absent M k w \<longleftrightarrow> (\<exists>e. cms_Get M k w = Inl e)"
  using keeps_read(1) [of M k w] by (auto simp: absent_def)

lemma keeps_create:
  "keepsConfigMaps M \<Longrightarrow> absent M (cm_key c) w \<Longrightarrow>
   \<exists>w' c'. cms_Create M c w = (None, w') \<and> cms_Get M (cm_key c) w' = Inr c' \<and> storedAs c c'
     \<and> unchangedBut M {cm_key c} w w'"
  by (simp only: keepsConfigMaps_def)

lemma keeps_refuse:
  "keepsConfigMaps M \<Longrightarrow> \<not> absent M (cm_key c) w \<Longrightarrow>
   \<exists>m. cms_Create M c w = (Some (StatusError AlreadyExists m), w)"
  by (simp only: keepsConfigMaps_def) simp

lemma keeps_delete:
  "keepsConfigMaps M \<Longrightarrow> \<not> absent M (cm_key c) w \<Longrightarrow>
   \<exists>w'. cms_Delete M c w = (None, w') \<and> absent M (cm_key c) w' \<and> unchangedBut M {cm_key c} w w'"
  by (simp only: keepsConfigMaps_def) simp

lemma unchangedBut_trans:
  "unchangedBut M K w w' \<Longrightarrow> unchangedBut M L w' w'' \<Longrightarrow> unchangedBut M (K \<union> L) w w''"
  by (simp add: unchangedBut_def)

lemma unchangedButD: "unchangedBut M K w w' \<Longrightarrow> k \<notin> K \<Longrightarrow> cms_Get M k w' = cms_Get M k w"
  by (simp add: unchangedBut_def)

lemma absent_unchanged: "unchangedBut M K w w' \<Longrightarrow> k \<notin> K \<Longrightarrow> absent M k w' \<longleftrightarrow> absent M k w"
  by (simp add: absent_def unchangedBut_def)

section \<open>An example server\<close>

type_synonym cmStore = "ObjectKey \<rightharpoonup> ConfigMap"

definition demoConfigMaps :: "cmStore ConfigMaps" where
  "demoConfigMaps =
     \<lparr>cms_Get = (\<lambda>k w. case w k of None \<Rightarrow> Inl (StatusError NotFound ''not found'')
                         | Some c \<Rightarrow> if cm_key c = k then Inr c else Inl (StatusError NotFound ''not found'')),
      cms_Create = (\<lambda>c w. case w (cm_key c) of
          None \<Rightarrow> (None, w(cm_key c \<mapsto> c))
        | Some c' \<Rightarrow> if cm_key c' = cm_key c then (Some (StatusError AlreadyExists ''already exists''), w)
                      else (None, w(cm_key c \<mapsto> c))),
      cms_Delete = (\<lambda>c w. (None, w(cm_key c := None))),
      cms_List = (\<lambda>ns l w. Inr [])\<rparr>"

lemma demoConfigMaps_keeps: "keepsConfigMaps demoConfigMaps"
  unfolding keepsConfigMaps_def demoConfigMaps_def absent_def unchangedBut_def
  by (auto simp: IsNotFound_def storedAs_def split: option.splits if_splits)

end
