(* ===== verification/EventExporter_Controller.thy ===== *)
theory EventExporter_Controller
  imports Digest Config_Maps
begin

text \<open>
  The reconciler of \<open>operator/controllers/operator/eventexporter_controller.go\<close>. The exporter's
  configuration is kept in an immutable config map named after its hash; a changed configuration gets
  a new config map and the old one is deleted. The name in use is recorded in the status, which is
  written last.
\<close>

definition configMapName :: "EventExporter \<Rightarrow> string" where
  "configMapName eventExporter =
     (let md5 = MD5Hash (cr_Name eventExporter @ ee_Config (cr_Spec eventExporter)) in ''eventexporter-cm-'' @ md5)"

definition newConfigMap :: "EventExporter \<Rightarrow> string \<Rightarrow> ConfigMap" where
  "newConfigMap e name =
     \<lparr>cm_Meta = zeroMeta\<lparr>om_Namespace := cr_Namespace e, om_Name := name,
        om_OwnerReferences := [\<lparr>or_APIVersion = tm_APIVersion (cr_Type e), or_Kind = tm_Kind (cr_Type e),
           or_Name = cr_Name e, or_UID = om_UID (cr_Meta e), or_Controller = None, or_BlockOwnerDeletion = None\<rparr>],
        om_Labels := Some [''app'' \<mapsto> ''eventexporter'',
           ''operator.skywalking.apache.org/eventexporter-name'' \<mapsto> cr_Name e,
           ''operator.skywalking.apache.org/application'' \<mapsto> ''eventexporter'',
           ''operator.skywalking.apache.org/component'' \<mapsto> ''configmap'']\<rparr>,
      cm_Data = [''config.yaml'' \<mapsto> ee_Config (cr_Spec e)], cm_Immutable = Some True\<rparr>"

definition overlayData ::
  "'w ConfigMaps \<Rightarrow> EventExporter \<Rightarrow> string \<Rightarrow> 'w \<Rightarrow> (bool \<times> goerror option) \<times> 'w" where
  "overlayData M e newConfigMapName w =
     (let oldConfigMapName = ees_ConfigMapName (cr_Status e) in
      if oldConfigMapName = newConfigMapName then ((False, None), w)
      else
        (case cms_Create M (newConfigMap e newConfigMapName) w of
           (Some err, w) \<Rightarrow> ((True, Some err), w)
         | (None, w) \<Rightarrow>
             (case cms_Get M (objectKey (cr_Namespace e) oldConfigMapName) w of
                Inl err \<Rightarrow> if \<not> IsNotFound err then ((True, Some err), w) else ((True, None), w)
              | Inr oldConfigMap \<Rightarrow>
                  (case cms_Delete M oldConfigMap w of
                     (Some err, w) \<Rightarrow> ((True, Some err), w)
                   | (None, w) \<Rightarrow> ((True, None), w)))))"

definition EventExporter_updateStatus ::
  "('w, EventExporterSpec, EventExporterStatus) StatusEnv \<Rightarrow> EventExporterStatus
   \<Rightarrow> ('w, EventExporterSpec, EventExporterStatus) statusState
   \<Rightarrow> goerror option \<times> ('w, EventExporterSpec, EventExporterStatus) statusState" where
  "EventExporter_updateStatus E overlay =
     se_Retry E (statusAttempt E ''EventExporter'' ''failed to get EventExporter: ''
       ''failed to update status of EventExporter: '' overlay)"

definition EventExporter_overlay :: "'w Reads \<Rightarrow> EventExporter \<Rightarrow> 'w \<Rightarrow> EventExporterStatus \<times> ErrorCollector" where
  "EventExporter_overlay rd e w =
     (let overlay = \<lparr>ees_AvailableReplicas = 0, ees_Conditions = [], ees_ConfigMapName = []\<rparr>
      in case readOrZero (rd_Deployment rd (objectKey (cr_Namespace e) (cr_Name e @ ''-eventexporter'')) w) zeroDeployment of
           Inl err \<Rightarrow> (overlay, Collect [] (WrapError ''failed to get deployment: '' err []))
         | Inr d \<Rightarrow> (overlay\<lparr>ees_Conditions := dep_Conditions d, ees_AvailableReplicas := dep_AvailableReplicas d,
                           ees_ConfigMapName := configMapName e\<rparr>, []))"

definition EventExporter_checkState ::
  "'w Reads \<Rightarrow> ('w, EventExporterSpec, EventExporterStatus) StatusEnv \<Rightarrow> EventExporter \<Rightarrow> 'w
   \<Rightarrow> goerror option \<times> ('w, EventExporterSpec, EventExporterStatus) statusState" where
  "EventExporter_checkState rd E e w =
     (case EventExporter_overlay rd e w of
        (overlay, errCol) \<Rightarrow>
          finishState E (EventExporter_updateStatus E) ''EventExporter'' False
            ''failed to update status of EventExporter: '' overlay (e, errCol, w))"

text \<open>The template's function table has one function without arguments, here its value.\<close>

definition EventExporter_Reconcile ::
  "('w, entries, EventExporter) ReconcilerEnv \<Rightarrow> ('w, EventExporterSpec, EventExporterStatus) StatusEnv
   \<Rightarrow> 'w ConfigMaps \<Rightarrow> ObjectKey \<Rightarrow> 'w \<Rightarrow> 'w reconciled" where
  "EventExporter_Reconcile R E M req w =
     (case se_Get E req w of
        Inl err \<Rightarrow> ((noResult, IgnoreNotFound err), w)
      | Inr e \<Rightarrow>
          (let newConfigMapName = configMapName e in
           case overlayData M e newConfigMapName w of
             ((_, Some err), w) \<Rightarrow> ((noResult, Some err), w)
           | ((_, None), w) \<Rightarrow>
               (case re_GetFilesRecursive R ''templates'' of
                  Inl err \<Rightarrow> ((noResult, Some err), w)
                | Inr ff \<Rightarrow>
                    (case ApplyAll (applicationFor R e (WithKind GroupVersion ''EventExporter'')
                         (Some [(''configMapName'', newConfigMapName)])) ff w of
                       (Some err, w) \<Rightarrow> ((noResult, Some err), w)
                     | (None, w) \<Rightarrow>
                         (case EventExporter_checkState (re_Reads R) E e w of
                            (Some err, (cr, errCol, w)) \<Rightarrow> ((noResult, Some err), w)
                          | (None, (cr, errCol, w)) \<Rightarrow> ((\<lparr>RequeueAfter = schedDuration\<rparr>, None), w))))))"

interpretation eventexporter_reconciler: reconciler "se_Get E" "EventExporter_Reconcile R E M" for R E M
proof
  fix req w err assume "se_Get E req w = Inl err"
  then show "EventExporter_Reconcile R E M req w = ((noResult, IgnoreNotFound err), w)"
    by (simp add: EventExporter_Reconcile_def)
next
  fix req w cr assume g: "se_Get E req w = Inr cr"
  show "(snd (fst (EventExporter_Reconcile R E M req w)) = None \<and>
      fst (fst (EventExporter_Reconcile R E M req w)) = \<lparr>RequeueAfter = schedDuration\<rparr>)
    \<or> (snd (fst (EventExporter_Reconcile R E M req w)) \<noteq> None \<and> fst (fst (EventExporter_Reconcile R E M req w)) = noResult)"
    by (simp add: EventExporter_Reconcile_def g Let_def split: sum.split prod.split option.split)
qed

section \<open>The configuration in use\<close>

lemma configMapName_text: "\<exists>h. configMapName e = ''eventexporter-cm-'' @ h \<and> length h = 32"
  by (simp add: configMapName_def Let_def)

lemma newConfigMap_key [simp]: "cm_key (newConfigMap e n) = objectKey (cr_Namespace e) n"
  by (simp add: cm_key_def newConfigMap_def)

lemma newConfigMap_Data [simp]: "cm_Data (newConfigMap e n) = [''config.yaml'' \<mapsto> ee_Config (cr_Spec e)]"
  by (simp add: newConfigMap_def)

lemma overlayData_replaces:
  assumes keeps: "keepsConfigMaps M" and new: "ees_ConfigMapName (cr_Status e) \<noteq> n"
    and free: "absent M (objectKey (cr_Namespace e) n) w"
  shows "\<exists>w' c. overlayData M e n w = ((True, None), w') \<and> cms_Get M (objectKey (cr_Namespace e) n) w' = Inr c
      \<and> cm_Data c = [''config.yaml'' \<mapsto> ee_Config (cr_Spec e)]
      \<and> absent M (objectKey (cr_Namespace e) (ees_ConfigMapName (cr_Status e))) w'
      \<and> unchangedBut M {objectKey (cr_Namespace e) n, objectKey (cr_Namespace e) (ees_ConfigMapName (cr_Status e))} w w'"
proof -
  let ?new = "objectKey (cr_Namespace e) n" and ?old = "objectKey (cr_Namespace e) (ees_ConfigMapName (cr_Status e))"
  have neq: "?old \<noteq> ?new" using new by simp
  obtain w1 c where cr: "cms_Create M (newConfigMap e n) w = (None, w1)" "cms_Get M ?new w1 = Inr c"
    "storedAs (newConfigMap e n) c" "unchangedBut M {?new} w w1"
    using keeps_create [OF keeps, of "newConfigMap e n" w] free by (auto elim!: exE)
  have data: "cm_Data c = [''config.yaml'' \<mapsto> ee_Config (cr_Spec e)]" using cr(3) by (simp add: storedAs_def)
  show ?thesis
  proof (cases "cms_Get M ?old w1")
    case (Inl err)
    then have "IsNotFound err" by (rule keeps_read [OF keeps])
    then have "overlayData M e n w = ((True, None), w1)" using new cr(1) Inl by (simp add: overlayData_def)
    moreover have "absent M ?old w1" using Inl absent_iff [OF keeps] by blast
    moreover have "unchangedBut M {?new, ?old} w w1" using cr(4) by (simp add: unchangedBut_def)
    ultimately show ?thesis using cr(2) data by (intro exI conjI)
  next
    case (Inr oc)
    then have key: "cm_key oc = ?old" by (rule keeps_read [OF keeps])
    have "\<not> absent M (cm_key oc) w1" using Inr absent_iff [OF keeps, of ?old w1] unfolding key by simp
    from keeps_delete [OF keeps this] obtain w2 where del: "cms_Delete M oc w1 = (None, w2)" "absent M (cm_key oc) w2" "unchangedBut M {cm_key oc} w1 w2"
      by (elim exE conjE)
    have "overlayData M e n w = ((True, None), w2)" using new cr(1) Inr del(1) by (simp add: overlayData_def)
    moreover have "cms_Get M ?new w2 = Inr c" using unchangedButD [OF del(3), of ?new] neq cr(2) key by simp
    moreover have "unchangedBut M {?new, ?old} w w2"
      using unchangedBut_trans [OF cr(4) del(3)] key by (simp add: insert_commute)
    ultimately show ?thesis using data del(2) key by (intro exI conjI) simp_all
  qed
qed

lemma overlayData_refused:
  assumes "keepsConfigMaps M" and "ees_ConfigMapName (cr_Status e) \<noteq> n" and "\<not> absent M (objectKey (cr_Namespace e) n) w"
  shows "\<exists>m. overlayData M e n w = ((True, Some (StatusError AlreadyExists m)), w)"
proof -
  obtain m where "cms_Create M (newConfigMap e n) w = (Some (StatusError AlreadyExists m), w)"
    using keeps_refuse [OF assms(1), of "newConfigMap e n" w] assms(3) by auto
  then show ?thesis using assms(2) by (simp add: overlayData_def)
qed

text \<open>C35. The config map of an event exporter. On a server that keeps config maps, a configuration whose
  name is recorded is left alone; a new one replaces the old: afterwards the new config map exists
  with exactly the configuration, the recorded one is gone, and no other config map is touched; and
  when the new config map exists already without being recorded, the step fails and changes
  nothing.\<close>

theorem eventexporter_config_replaced:
  assumes "keepsConfigMaps M" and "ees_ConfigMapName (cr_Status e) = old" and "configMapName e = n"
  shows "if old = n then overlayData M e n w = ((False, None), w)
    else if absent M (objectKey (cr_Namespace e) n) w
    then \<exists>w' c. overlayData M e n w = ((True, None), w') \<and> cms_Get M (objectKey (cr_Namespace e) n) w' = Inr c
      \<and> cm_Data c = [''config.yaml'' \<mapsto> ee_Config (cr_Spec e)] \<and> absent M (objectKey (cr_Namespace e) old) w'
      \<and> unchangedBut M {objectKey (cr_Namespace e) n, objectKey (cr_Namespace e) old} w w'
    else \<exists>m. overlayData M e n w = ((True, Some (StatusError AlreadyExists m)), w)"
  using overlayData_replaces [OF assms(1), of e n w] overlayData_refused [OF assms(1), of e n w] assms(2)
  by (simp add: overlayData_def)

text \<open>A run that created the config map but did not get to write the status blocks the exporter: as
  long as the config map of the current configuration exists and the status does not record it,
  every run fails with \<open>AlreadyExists\<close> and changes nothing, so that no later run can succeed.\<close>

theorem eventexporter_stuck:
  assumes "keepsConfigMaps M" and "se_Get E req w = Inr e" and "ees_ConfigMapName (cr_Status e) \<noteq> configMapName e"
    and "\<not> absent M (objectKey (cr_Namespace e) (configMapName e)) w"
  shows "\<exists>m. EventExporter_Reconcile R E M req w = ((noResult, Some (StatusError AlreadyExists m)), w)
    \<and> ((\<lambda>w. snd (EventExporter_Reconcile R E M req w)) ^^ k) w = w"
proof -
  obtain m where "overlayData M e (configMapName e) w = ((True, Some (StatusError AlreadyExists m)), w)"
    using overlayData_refused [OF assms(1,3,4)] by (elim exE)
  then have run: "EventExporter_Reconcile R E M req w = ((noResult, Some (StatusError AlreadyExists m)), w)"
    by (simp add: EventExporter_Reconcile_def assms(2) Let_def)
  then have "((\<lambda>w. snd (EventExporter_Reconcile R E M req w)) ^^ k) w = w"
    by (induction k) simp_all
  with run show ?thesis by blast
qed

section \<open>Examples\<close>

definition demoExporter :: "string \<Rightarrow> EventExporter" where
  "demoExporter recorded = \<lparr>cr_Type = zeroTypeMeta, cr_Meta = zeroMeta\<lparr>om_Name := ''ee''\<rparr>,
     cr_Spec = \<lparr>ee_Version = [], ee_Image = [], ee_Replicas = 1, ee_Config = ''filters: []''\<rparr>,
     cr_Status = \<lparr>ees_AvailableReplicas = 0, ees_Conditions = [], ees_ConfigMapName = recorded\<rparr>\<rparr>"

lemma configMapName_neq: "length old < 17 \<Longrightarrow> old \<noteq> configMapName e"
  using configMapName_text [of e] by auto

theorem eventexporter_config_replaced_witness:
  "\<exists>w' c. overlayData demoConfigMaps (demoExporter ''old'') (configMapName (demoExporter ''old'')) Map.empty = ((True, None), w')
     \<and> cms_Get demoConfigMaps (objectKey [] (configMapName (demoExporter ''old''))) w' = Inr c
     \<and> cm_Data c = [''config.yaml'' \<mapsto> ''filters: []'']"
proof -
  let ?e = "demoExporter ''old''" and ?n = "configMapName (demoExporter ''old'')"
  have e: "ees_ConfigMapName (cr_Status ?e) = ''old''" "cr_Namespace ?e = []" "ee_Config (cr_Spec ?e) = ''filters: []''"
    by (simp_all add: demoExporter_def zeroMeta_def)
  have n: "''old'' \<noteq> ?n" by (rule configMapName_neq) simp
  have a: "absent demoConfigMaps (objectKey [] ?n) Map.empty"
    by (simp add: absent_def demoConfigMaps_def IsNotFound_def)
  from eventexporter_config_replaced [OF demoConfigMaps_keeps e(1) refl, of Map.empty] n a
  show ?thesis unfolding e by auto
qed

theorem eventexporter_stuck_witness:
  "\<forall>R. \<exists>m. EventExporter_Reconcile R
     ((plainStatusEnv (cr_Spec (demoExporter [])))\<lparr>se_Get := (\<lambda>k w. Inr (demoExporter ''old''))\<rparr>)
     demoConfigMaps (objectKey [] ''ee'')
     [objectKey [] (configMapName (demoExporter ''old'')) \<mapsto> newConfigMap (demoExporter ''old'') (configMapName (demoExporter ''old''))] =
   ((noResult, Some (StatusError AlreadyExists m)),
     [objectKey [] (configMapName (demoExporter ''old'')) \<mapsto> newConfigMap (demoExporter ''old'') (configMapName (demoExporter ''old''))])"
proof
  fix R :: "(cmStore, entries, EventExporter) ReconcilerEnv"
  let ?e = "demoExporter ''old''" and ?n = "configMapName (demoExporter ''old'')"
  let ?w = "[objectKey [] ?n \<mapsto> newConfigMap ?e ?n]"
  let ?E = "(plainStatusEnv (cr_Spec (demoExporter [])))\<lparr>se_Get := (\<lambda>k w. Inr ?e)\<rparr>"
  have e: "ees_ConfigMapName (cr_Status ?e) = ''old''" "cr_Namespace ?e = []"
    by (simp_all add: demoExporter_def zeroMeta_def)
  have n: "ees_ConfigMapName (cr_Status ?e) \<noteq> ?n" unfolding e by (rule configMapName_neq) simp
  have a: "\<not> absent demoConfigMaps (objectKey (cr_Namespace ?e) ?n) ?w"
    unfolding e by (simp add: absent_def demoConfigMaps_def e)
  have g: "se_Get ?E (objectKey [] ''ee'') ?w = Inr ?e" by simp
  from eventexporter_stuck [OF demoConfigMaps_keeps g n a, of R 0]
  show "\<exists>m. EventExporter_Reconcile R ?E demoConfigMaps (objectKey [] ''ee'') ?w =
    ((noResult, Some (StatusError AlreadyExists m)), ?w)" by (elim exE conjE) (rule exI)
qed

end
