(* ===== verification/OAPConfig_Controllers.thy ===== *)
theory OAPConfig_Controllers
  imports Digest Config_Maps
begin

text \<open>
  The reconcilers of \<open>oapserverconfig_controller.go\<close> and \<open>oapserverdynamicconfig_controller.go\<close>. The
  first overlays environment variables and files on the deployments of the OAP servers of one
  version, the second keeps one config map of dynamic settings. Both recognise a change by the MD5
  digest of the rendered, sorted settings.

  \<open>sort.Sort\<close> leaves the order of equal elements open, so the sorting functions are parameters, with
  \<open>sortsBy\<close> saying what is relied on. Environment variables render through methods of the API
  package, so their rendering is a parameter too; files and settings have no methods and render field
  by field.
\<close>

section \<open>Rendering and sorting\<close>

definition renderFile :: "FileConfig \<Rightarrow> string" where
  "renderFile f = ''{'' @ Join [fcf_Name f, fcf_Path f, fcf_Data f] '' '' @ ''}''"

definition renderFiles :: "FileConfig list \<Rightarrow> string" where
  "renderFiles fs = ''['' @ Join (map renderFile fs) '' '' @ '']''"

definition renderConfig :: "Config \<Rightarrow> string" where
  "renderConfig c = ''{'' @ Join [cfg_Name c, cfg_Value c] '' '' @ ''}''"

definition renderConfigs :: "Config list \<Rightarrow> string" where
  "renderConfigs cs = ''['' @ Join (map renderConfig cs) '' '' @ '']''"

definition sortsBy :: "('a \<Rightarrow> string) \<Rightarrow> ('a list \<Rightarrow> 'a list) \<Rightarrow> bool" where
  "sortsBy name f \<longleftrightarrow> (\<forall>xs. mset (f xs) = mset xs \<and> sorted (map name (f xs)))"

lemma sortsBy_sort_key: "sortsBy name (sort_key name)"
  by (simp add: sortsBy_def)

lemma sortsBy_set: "sortsBy name f \<Longrightarrow> set (f xs) = set xs"
  by (metis mset_eq_setD sortsBy_def)

lemma sortsBy_distinct: "sortsBy name f \<Longrightarrow> distinct (map name (f xs)) \<longleftrightarrow> distinct (map name xs)"
  unfolding sortsBy_def by (metis mset_map mset_eq_imp_distinct_iff)

section \<open>OAPServerConfig\<close>

record 'w OAPConfigEnv =
  oe_ListOAPServers :: "string \<Rightarrow> 'w \<Rightarrow> goerror + OAPServer list"
  oe_GetDeployment :: "ObjectKey \<Rightarrow> 'w \<Rightarrow> goerror + Deployment"
  oe_UpdateDeployment :: "Deployment \<Rightarrow> 'w \<Rightarrow> goerror option \<times> 'w"
  oe_Overlay :: "Deployment \<Rightarrow> Deployment \<Rightarrow> goerror option \<times> Deployment"
  oe_ConfigMaps :: "'w ConfigMaps"
  oe_renderEnv :: "EnvVar list \<Rightarrow> string"
  oe_sortEnv :: "EnvVar list \<Rightarrow> EnvVar list"
  oe_sortFile :: "FileConfig list \<Rightarrow> FileConfig list"

definition OverlayEnv ::
  "'w OAPConfigEnv \<Rightarrow> OAPServerConfig \<Rightarrow> Deployment \<Rightarrow> gopanic + (bool \<times> OAPServerConfig \<times> Deployment)" where
  "OverlayEnv E osc d =
     (let env = oe_sortEnv E (osc_Env (cr_Spec osc));
          osc = osc\<lparr>cr_Spec := (cr_Spec osc)\<lparr>osc_Env := env\<rparr>\<rparr>;
          newMd5Hash = MD5Hash (oe_renderEnv E env);
          changed = (case dep_TemplateLabels d of
                       None \<Rightarrow> True
                     | Some l \<Rightarrow> (case l ''md5-env'' of None \<Rightarrow> True | Some oldMd5Hash \<Rightarrow> oldMd5Hash \<noteq> newMd5Hash))
      in if changed then
           (case dep_Containers d of
              [] \<Rightarrow> Inl IndexOutOfRange
            | c # cs \<Rightarrow>
                (case dep_TemplateLabels d of
                   None \<Rightarrow> Inl NilMapWrite
                 | Some l \<Rightarrow> Inr (changed, osc, d\<lparr>dep_Containers := c\<lparr>c_Env := env\<rparr> # cs,
                                                 dep_TemplateLabels := Some (l(''md5-env'' \<mapsto> newMd5Hash))\<rparr>)))
         else Inr (changed, osc, d))"

fun filesData :: "FileConfig list \<Rightarrow> gomap \<Rightarrow> gomap" where
  "filesData [] data = data"
| "filesData (f # fs) data = filesData fs (data(fcf_Name f \<mapsto> fcf_Data f))"

definition fileMounts :: "string \<Rightarrow> FileConfig list \<Rightarrow> VolumeMount list" where
  "fileMounts name fs =
     map (\<lambda>f. \<lparr>vm_Name = name, vm_MountPath = fcf_Path f @ ''/'' @ fcf_Name f, vm_SubPath = fcf_Name f\<rparr>) fs"

definition ownerOf :: "('s, 't) CR \<Rightarrow> OwnerReference" where
  "ownerOf cr = \<lparr>or_APIVersion = tm_APIVersion (cr_Type cr), or_Kind = tm_Kind (cr_Type cr), or_Name = cr_Name cr,
     or_UID = om_UID (cr_Meta cr), or_Controller = None, or_BlockOwnerDeletion = None\<rparr>"

definition staticConfigMap :: "OAPServerConfig \<Rightarrow> string \<Rightarrow> ConfigMap" where
  "staticConfigMap osc newMd5Hash =
     \<lparr>cm_Meta = zeroMeta\<lparr>om_Name := cr_Name osc, om_Namespace := cr_Namespace osc, om_OwnerReferences := [ownerOf osc],
        om_Labels := Some [''version'' \<mapsto> osc_Version (cr_Spec osc), ''oapServerConfig'' \<mapsto> ''static'', ''md5-file'' \<mapsto> newMd5Hash]\<rparr>,
      cm_Data = filesData (osc_File (cr_Spec osc)) Map.empty, cm_Immutable = None\<rparr>"

definition configVolume :: "string \<Rightarrow> Volume" where
  "configVolume name = \<lparr>vol_Name = name, vol_EmptyDir = None, vol_ConfigMap = Some name, vol_rest = []\<rparr>"

text \<open>The rest of \<open>OverlayStaticFile\<close> from the construction of the config map on. Source and overlay of
  the final overlay are the same object.\<close>

definition createStatic ::
  "'w OAPConfigEnv \<Rightarrow> OAPServerConfig \<Rightarrow> Deployment \<Rightarrow> string \<Rightarrow> bool \<Rightarrow> 'w
   \<Rightarrow> gopanic + ((bool \<times> goerror option) \<times> OAPServerConfig \<times> Deployment \<times> 'w)" where
  "createStatic E osc d newMd5Hash changed w =
     (case cms_Create (oe_ConfigMaps E) (staticConfigMap osc newMd5Hash) w of
        (Some err, w) \<Rightarrow> Inr ((changed, Some err), osc, d, w)
      | (None, w) \<Rightarrow>
          (case dep_Containers d of
             [] \<Rightarrow> Inl IndexOutOfRange
           | c # cs \<Rightarrow>
               (let d = d\<lparr>dep_Containers := c\<lparr>c_VolumeMounts := fileMounts (cr_Name osc) (osc_File (cr_Spec osc))\<rparr> # cs,
                         dep_Volumes := [configVolume (cr_Name osc)]\<rparr>
                in Inr ((changed, None), osc, snd (oe_Overlay E d d), w))))"

definition OverlayStaticFile ::
  "'w OAPConfigEnv \<Rightarrow> OAPServerConfig \<Rightarrow> Deployment \<Rightarrow> 'w
   \<Rightarrow> gopanic + ((bool \<times> goerror option) \<times> OAPServerConfig \<times> Deployment \<times> 'w)" where
  "OverlayStaticFile E osc d w =
     (let files = oe_sortFile E (osc_File (cr_Spec osc));
          osc = osc\<lparr>cr_Spec := (cr_Spec osc)\<lparr>osc_File := files\<rparr>\<rparr>;
          newMd5Hash = MD5Hash (renderFiles files)
      in case cms_Get (oe_ConfigMaps E) (objectKey (cr_Namespace osc) (cr_Name osc)) w of
           Inl err \<Rightarrow> if \<not> IsNotFound err then Inr ((False, Some err), osc, d, w)
                       else createStatic E osc d newMd5Hash False w
         | Inr configmap \<Rightarrow>
             if nilget (om_Labels (cm_Meta configmap)) ''md5-file'' \<noteq> newMd5Hash
             then createStatic E osc d newMd5Hash True (snd (cms_Delete (oe_ConfigMaps E) configmap w))
             else Inr ((False, None), osc, d, w))"

text \<open>The loop of \<open>Reconcile\<close> over the OAP servers of the version.\<close>

fun configLoop ::
  "'w OAPConfigEnv \<Rightarrow> OAPServer list \<Rightarrow> OAPServerConfig \<Rightarrow> 'w \<Rightarrow> gopanic + (goerror option \<times> OAPServerConfig \<times> 'w)" where
  "configLoop E [] osc w = Inr (None, osc, w)"
| "configLoop E (oapServer # items) osc w =
     (if oap_Version (cr_Spec oapServer) = osc_Version (cr_Spec osc) then
        (case readOrZero (oe_GetDeployment E (objectKey (cr_Namespace oapServer) (cr_Name oapServer @ ''-oap'')) w) zeroDeployment of
           Inl err \<Rightarrow> Inr (Some (WrapError ''failed to get the deployment of OAPServer: '' err []), osc, w)
         | Inr deployment \<Rightarrow>
             (case OverlayEnv E osc deployment of
                Inl panic \<Rightarrow> Inl panic
              | Inr (envChanged, osc, deployment) \<Rightarrow>
                  (case OverlayStaticFile E osc deployment w of
                     Inl panic \<Rightarrow> Inl panic
                   | Inr ((fileChanged, _), osc, deployment, w) \<Rightarrow>
                       if envChanged \<or> fileChanged then
                         (case oe_UpdateDeployment E deployment w of
                            (Some err, w) \<Rightarrow> Inr (Some (WrapError ''failed to update the deployment of OAPServer: '' err []), osc, w)
                          | (None, w) \<Rightarrow> configLoop E items osc w)
                       else configLoop E items osc w)))
      else configLoop E items osc w)"

text \<open>Both status checks end alike: the status is overlaid and then written, without a comparison.\<close>

definition alwaysUpdate ::
  "('w, 's, 't) StatusEnv
   \<Rightarrow> ('t \<Rightarrow> ('w, 's, 't) statusState \<Rightarrow> goerror option \<times> ('w, 's, 't) statusState)
   \<Rightarrow> string \<Rightarrow> string \<Rightarrow> 't \<Rightarrow> ('w, 's, 't) statusState \<Rightarrow> goerror option \<times> ('w, 's, 't) statusState" where
  "alwaysUpdate S updateStatus kind msg overlay st =
     (case st of (cr, errCol, w) \<Rightarrow>
        (case se_Overlay S (withStatus kind overlay cr) (onlyStatus S overlay) of
           (Some err, cr) \<Rightarrow>
             let errCol = collectOpt ''failed to apply overlay: '' (Some err) errCol
             in (ErrorCollector_Error errCol, (cr, errCol, w))
         | (None, cr) \<Rightarrow>
             (case updateStatus overlay (cr, errCol, w) of
                (err, (cr, errCol, w)) \<Rightarrow>
                  let errCol = collectOpt msg err errCol
                  in (ErrorCollector_Error errCol, (cr, errCol, w)))))"

definition OAPServerConfig_updateStatus ::
  "('w, OAPServerConfigSpec, OAPServerConfigStatus) StatusEnv \<Rightarrow> OAPServerConfigStatus
   \<Rightarrow> ('w, OAPServerConfigSpec, OAPServerConfigStatus) statusState
   \<Rightarrow> goerror option \<times> ('w, OAPServerConfigSpec, OAPServerConfigStatus) statusState" where
  "OAPServerConfig_updateStatus S overlay =
     se_Retry S (statusAttempt S ''OAPServerConfig'' ''failed to get oapServerConfig: '' ''failed to update status: '' overlay)"

fun replicas :: "string \<Rightarrow> OAPServer list \<Rightarrow> int \<times> int \<Rightarrow> int \<times> int" where
  "replicas version [] n = n"
| "replicas version (o' # items) (desired, ready) =
     replicas version items
       (if oap_Version (cr_Spec o') = version
        then (desired + sint (oap_Instances (cr_Spec o')), ready + sint (oaps_AvailableReplicas (cr_Status o')))
        else (desired, ready))"

definition OAPServerConfig_overlay :: "OAPServer list \<Rightarrow> Time \<Rightarrow> OAPServerConfig \<Rightarrow> OAPServerConfigStatus" where
  "OAPServerConfig_overlay items now osc =
     (case replicas (osc_Version (cr_Spec osc)) items (0, 0) of
        (desired, ready) \<Rightarrow>
          \<lparr>oscs_Desired = desired, oscs_Ready = ready,
           oscs_CreationTime = (if oscs_CreationTime (cr_Status osc) = 0 then now else oscs_CreationTime (cr_Status osc)),
           oscs_LastUpdateTime = now\<rparr>)"

definition OAPServerConfig_checkState ::
  "('w, OAPServerConfigSpec, OAPServerConfigStatus) StatusEnv \<Rightarrow> OAPServerConfig \<Rightarrow> OAPServer list \<Rightarrow> Time \<Rightarrow> 'w
   \<Rightarrow> goerror option \<times> ('w, OAPServerConfigSpec, OAPServerConfigStatus) statusState" where
  "OAPServerConfig_checkState S osc items now w =
     alwaysUpdate S (OAPServerConfig_updateStatus S) ''OAPServerConfig'' ''failed to update status of OAPServerConfig: ''
       (OAPServerConfig_overlay items now osc) (osc, [], w)"

definition OAPServerConfig_Reconcile ::
  "'w OAPConfigEnv \<Rightarrow> ('w, OAPServerConfigSpec, OAPServerConfigStatus) StatusEnv \<Rightarrow> Time \<Rightarrow> ObjectKey \<Rightarrow> 'w
   \<Rightarrow> gopanic + 'w reconciled" where
  "OAPServerConfig_Reconcile E S now req w =
     (case se_Get S req w of
        Inl err \<Rightarrow> Inr ((noResult, IgnoreNotFound err), w)
      | Inr osc \<Rightarrow>
          (case readOrZero (oe_ListOAPServers E (ok_Namespace req) w) [] of
             Inl err \<Rightarrow> Inr ((noResult, Some (WrapError ''failed to list oapserver: '' err [])), w)
           | Inr items \<Rightarrow>
               (case configLoop E items osc w of
                  Inl panic \<Rightarrow> Inl panic
                | Inr (Some err, osc, w) \<Rightarrow> Inr ((noResult, Some err), w)
                | Inr (None, osc, w) \<Rightarrow>
                    (case OAPServerConfig_checkState S osc items now w of
                       (Some err, (cr, errCol, w)) \<Rightarrow> Inr ((noResult, Some err), w)
                     | (None, (cr, errCol, w)) \<Rightarrow> Inr ((\<lparr>RequeueAfter = schedDuration\<rparr>, None), w)))))"

section \<open>OAPServerDynamicConfig\<close>

text \<open>The label selector parser and the conversion of a selector to a label map belong to apimachinery:
  a parsed selector is the predicate it matches with.\<close>

record 'w DynamicEnv =
  dy_ListOAPServers :: "string \<Rightarrow> 'w \<Rightarrow> goerror + OAPServer list"
  dy_ListConfigs :: "string \<Rightarrow> 'w \<Rightarrow> goerror + OAPServerDynamicConfig list"
  dy_ConfigMaps :: "'w ConfigMaps"
  dy_ParseSelector :: "string \<Rightarrow> goerror + (gomap \<Rightarrow> bool)"
  dy_SelectorToMap :: "string \<Rightarrow> goerror + gomap"
  dy_sort :: "Config list \<Rightarrow> Config list"

text \<open>The names other dynamic configurations of the namespace define.\<close>

definition existedConfiguration :: "OAPServerDynamicConfig list \<Rightarrow> string \<Rightarrow> string list" where
  "existedConfiguration items name =
     concat (map (\<lambda>i. if cr_Name i \<noteq> name then map cfg_Name (odc_Data (cr_Spec i)) else []) items)"

fun firstExisting :: "string list \<Rightarrow> Config list \<Rightarrow> string option" where
  "firstExisting existed [] = None"
| "firstExisting existed (c # cs) = (if cfg_Name c \<in> set existed then Some (cfg_Name c) else firstExisting existed cs)"

fun settingsData :: "Config list \<Rightarrow> gomap \<Rightarrow> gomap" where
  "settingsData [] data = data"
| "settingsData (c # cs) data = settingsData cs (data(cfg_Name c \<mapsto> cfg_Value c))"

definition dynamicConfigMap ::
  "OAPServer \<Rightarrow> OAPServerDynamicConfig \<Rightarrow> Config list \<Rightarrow> gomap \<Rightarrow> string \<Rightarrow> ConfigMap" where
  "dynamicConfigMap oapServer config configuration label newMd5Hash =
     \<lparr>cm_Meta = zeroMeta\<lparr>om_Name := cr_Name config, om_Namespace := cr_Namespace oapServer, om_OwnerReferences := [ownerOf config],
        om_Labels := Some (label(''version'' \<mapsto> odc_Version (cr_Spec config), ''OAPServerConfig'' \<mapsto> ''dynamic'', ''md5'' \<mapsto> newMd5Hash))\<rparr>,
      cm_Data = settingsData configuration Map.empty, cm_Immutable = None\<rparr>"

text \<open>Sorting is in place, so the configuration the caller holds is sorted afterwards.\<close>

definition UpdateDynamicConfig ::
  "'w DynamicEnv \<Rightarrow> OAPServer \<Rightarrow> OAPServerDynamicConfig \<Rightarrow> 'w \<Rightarrow> goerror option \<times> OAPServerDynamicConfig \<times> 'w" where
  "UpdateDynamicConfig E oapServer config w =
     (case readOrZero (dy_ListConfigs E (cr_Namespace config) w) [] of
        Inl err \<Rightarrow> (Some (WrapError ''failed to list OAPServerDynamicConfig: '' err []), config, w)
      | Inr items \<Rightarrow>
          (case firstExisting (existedConfiguration items (cr_Name config)) (odc_Data (cr_Spec config)) of
             Some name \<Rightarrow> (Some (ErrorString (''the configuration '' @ name @ '' already exist'')), config, w)
           | None \<Rightarrow>
               (let configuration = dy_sort E (odc_Data (cr_Spec config));
                    config = config\<lparr>cr_Spec := (cr_Spec config)\<lparr>odc_Data := configuration\<rparr>\<rparr>;
                    newMd5Hash = MD5Hash (renderConfigs configuration)
                in case dy_ParseSelector E (odc_LabelSelector (cr_Spec config)) of
                     Inl err \<Rightarrow> (Some err, config, w)
                   | Inr labelSelector \<Rightarrow>
                       (case dy_SelectorToMap E (odc_LabelSelector (cr_Spec config)) of
                          Inl err \<Rightarrow> (Some err, config, w)
                        | Inr label \<Rightarrow>
                            (let M = dy_ConfigMaps E;
                                 create = (\<lambda>w. case cms_Create M (dynamicConfigMap oapServer config configuration label newMd5Hash) w of
                                                 (err, w) \<Rightarrow> (err, config, w))
                             in case cms_Get M (objectKey (cr_Namespace config) (cr_Name config)) w of
                                  Inl err \<Rightarrow> if \<not> IsNotFound err then (Some err, config, w) else create w
                                | Inr configmap \<Rightarrow>
                                    if nilget (om_Labels (cm_Meta configmap)) ''md5'' \<noteq> newMd5Hash
                                       \<or> \<not> labelSelector (case om_Labels (cm_Meta configmap) of None \<Rightarrow> Map.empty | Some l \<Rightarrow> l)
                                    then create (snd (cms_Delete M configmap w))
                                    else (None, config, w))))))"

fun dynamicLoop ::
  "'w DynamicEnv \<Rightarrow> OAPServer list \<Rightarrow> OAPServerDynamicConfig \<Rightarrow> 'w \<Rightarrow> goerror option \<times> OAPServerDynamicConfig \<times> 'w" where
  "dynamicLoop E [] config w = (None, config, w)"
| "dynamicLoop E (oapServer # items) config w =
     (if oap_Version (cr_Spec oapServer) = odc_Version (cr_Spec config) then
        (case UpdateDynamicConfig E oapServer config w of
           (Some err, config, w) \<Rightarrow> (Some err, config, w)
         | (None, config, w) \<Rightarrow> dynamicLoop E items config w)
      else dynamicLoop E items config w)"

definition OAPServerDynamicConfig_updateStatus ::
  "('w, OAPServerDynamicConfigSpec, OAPServerDynamicConfigStatus) StatusEnv \<Rightarrow> OAPServerDynamicConfigStatus
   \<Rightarrow> ('w, OAPServerDynamicConfigSpec, OAPServerDynamicConfigStatus) statusState
   \<Rightarrow> goerror option \<times> ('w, OAPServerDynamicConfigSpec, OAPServerDynamicConfigStatus) statusState" where
  "OAPServerDynamicConfig_updateStatus S overlay =
     se_Retry S (statusAttempt S ''OAPServerDynamicConfig'' ''failed to get OAPServerDynamicConfig: ''
       ''failed to update status: '' overlay)"

definition OAPServerDynamicConfig_overlay ::
  "'w DynamicEnv \<Rightarrow> OAPServerDynamicConfig \<Rightarrow> Time \<Rightarrow> 'w \<Rightarrow> OAPServerDynamicConfigStatus \<times> ErrorCollector" where
  "OAPServerDynamicConfig_overlay E config now w =
     (let listed = cms_List (dy_ConfigMaps E) (cr_Namespace config)
            [''version'' \<mapsto> odc_Version (cr_Spec config), ''OAPServerConfig'' \<mapsto> ''dynamic''] w;
          errCol = collectOpt ''failed to list configmap: ''
            (case listed of Inl err \<Rightarrow> IgnoreNotFound err | Inr _ \<Rightarrow> None) [];
          items = (case listed of Inl err \<Rightarrow> [] | Inr l \<Rightarrow> l);
          created = odcs_CreationTime (cr_Status config)
      in (\<lparr>odcs_State = (if list_ex (\<lambda>c. Contains (om_Name (cm_Meta c)) (cr_Name config)) items then ''Running'' else ''Stopped''),
           odcs_CreationTime = (if created = 0 then now else created), odcs_LastUpdateTime = now\<rparr>, errCol))"

definition OAPServerDynamicConfig_checkState ::
  "'w DynamicEnv \<Rightarrow> ('w, OAPServerDynamicConfigSpec, OAPServerDynamicConfigStatus) StatusEnv
   \<Rightarrow> OAPServerDynamicConfig \<Rightarrow> Time \<Rightarrow> 'w
   \<Rightarrow> goerror option \<times> ('w, OAPServerDynamicConfigSpec, OAPServerDynamicConfigStatus) statusState" where
  "OAPServerDynamicConfig_checkState E S config now w =
     (case OAPServerDynamicConfig_overlay E config now w of
        (overlay, errCol) \<Rightarrow>
          alwaysUpdate S (OAPServerDynamicConfig_updateStatus S) ''OAPServerDynamicConfig''
            ''failed to update status of OAPServerDynamicConfig: '' overlay (config, errCol, w))"

definition OAPServerDynamicConfig_Reconcile ::
  "'w DynamicEnv \<Rightarrow> ('w, OAPServerDynamicConfigSpec, OAPServerDynamicConfigStatus) StatusEnv \<Rightarrow> Time \<Rightarrow> ObjectKey \<Rightarrow> 'w
   \<Rightarrow> 'w reconciled" where
  "OAPServerDynamicConfig_Reconcile E S now req w =
     (case se_Get S req w of
        Inl err \<Rightarrow> ((noResult, IgnoreNotFound err), w)
      | Inr config \<Rightarrow>
          (case readOrZero (dy_ListOAPServers E (ok_Namespace req) w) [] of
             Inl err \<Rightarrow> ((noResult, Some (WrapError ''failed to list oapserver: '' err [])), w)
           | Inr items \<Rightarrow>
               (case dynamicLoop E items config w of
                  (Some err, config, w) \<Rightarrow> ((noResult, Some err), w)
                | (None, config, w) \<Rightarrow>
                    (case OAPServerDynamicConfig_checkState E S config now w of
                       (Some err, (cr, errCol, w)) \<Rightarrow> ((noResult, Some err), w)
                     | (None, (cr, errCol, w)) \<Rightarrow> ((\<lparr>RequeueAfter = schedDuration\<rparr>, None), w)))))"

interpretation dynamicconfig_reconciler: reconciler "se_Get S" "OAPServerDynamicConfig_Reconcile E S now" for E S now
proof
  fix req w err assume "se_Get S req w = Inl err"
  then show "OAPServerDynamicConfig_Reconcile E S now req w = ((noResult, IgnoreNotFound err), w)"
    by (simp add: OAPServerDynamicConfig_Reconcile_def)
next
  fix req w cr assume g: "se_Get S req w = Inr cr"
  show "(snd (fst (OAPServerDynamicConfig_Reconcile E S now req w)) = None \<and>
      fst (fst (OAPServerDynamicConfig_Reconcile E S now req w)) = \<lparr>RequeueAfter = schedDuration\<rparr>)
    \<or> (snd (fst (OAPServerDynamicConfig_Reconcile E S now req w)) \<noteq> None
        \<and> fst (fst (OAPServerDynamicConfig_Reconcile E S now req w)) = noResult)"
    by (simp add: OAPServerDynamicConfig_Reconcile_def g split: sum.split prod.split option.split)
qed

section \<open>Environment variables\<close>

text \<open>Overlaying the environment. A deployment without containers or template labels makes a needed
  overlay panic; otherwise, the first container gets exactly the configured variables, sorted, and
  nothing else but the hash label changes; overlaying the same configuration on the result changes
  nothing any more.\<close>

theorem OverlayEnv_settles:
  "case OverlayEnv E osc d of
     Inl panic \<Rightarrow> dep_Containers d = [] \<and> panic = IndexOutOfRange \<or> dep_TemplateLabels d = None \<and> panic = NilMapWrite
   | Inr (changed, osc', d') \<Rightarrow>
       OverlayEnv E osc d' = Inr (False, osc', d')
       \<and> (if changed then \<exists>c cs l. dep_Containers d = c # cs \<and> dep_TemplateLabels d = Some l
            \<and> d' = d\<lparr>dep_Containers := c\<lparr>c_Env := oe_sortEnv E (osc_Env (cr_Spec osc))\<rparr> # cs,
                     dep_TemplateLabels := Some (l(''md5-env'' \<mapsto>
                       MD5Hash (oe_renderEnv E (oe_sortEnv E (osc_Env (cr_Spec osc))))))\<rparr>
          else d' = d)"
  by (simp add: OverlayEnv_def Let_def split: list.split option.split)

section \<open>Files\<close>

lemma filesData_map_of: "filesData fs data = data ++ map_of (rev (map (\<lambda>f. (fcf_Name f, fcf_Data f)) fs))"
  by (induction fs arbitrary: data) (simp_all add: map_add_upd_left)

lemma map_of_rev_distinct:
  assumes "distinct (map k xs)" and "x \<in> set xs"
  shows "map_of (rev (map (\<lambda>x. (k x, v x)) xs)) (k x) = Some (v x)"
proof (rule map_of_is_SomeI)
  show "distinct (map fst (rev (map (\<lambda>x. (k x, v x)) xs)))" using assms(1) by (simp add: comp_def flip: rev_map)
  show "(k x, v x) \<in> set (rev (map (\<lambda>x. (k x, v x)) xs))" using assms(2) by simp
qed

lemma filesData_distinct:
  "distinct (map fcf_Name fs) \<Longrightarrow> f \<in> set fs \<Longrightarrow> filesData fs data (fcf_Name f) = Some (fcf_Data f)"
  using map_of_rev_distinct [of fcf_Name fs f fcf_Data] by (simp add: filesData_map_of)

abbreviation oscKey :: "OAPServerConfig \<Rightarrow> ObjectKey" where
  "oscKey osc \<equiv> objectKey (cr_Namespace osc) (cr_Name osc)"

definition withFiles :: "'w OAPConfigEnv \<Rightarrow> OAPServerConfig \<Rightarrow> OAPServerConfig" where
  "withFiles E osc = osc\<lparr>cr_Spec := (cr_Spec osc)\<lparr>osc_File := oe_sortFile E (osc_File (cr_Spec osc))\<rparr>\<rparr>"

definition fileHash :: "'w OAPConfigEnv \<Rightarrow> OAPServerConfig \<Rightarrow> string" where
  "fileHash E osc = MD5Hash (renderFiles (oe_sortFile E (osc_File (cr_Spec osc))))"

text \<open>The deployment with the files of a configuration mounted.\<close>

definition mounted :: "OAPServerConfig \<Rightarrow> Deployment \<Rightarrow> Deployment" where
  "mounted osc d = d\<lparr>dep_Containers := (hd (dep_Containers d))\<lparr>c_VolumeMounts := fileMounts (cr_Name osc) (osc_File (cr_Spec osc))\<rparr>
       # tl (dep_Containers d), dep_Volumes := [configVolume (cr_Name osc)]\<rparr>"

lemma withFiles_sel [simp]:
  "cr_Meta (withFiles E osc) = cr_Meta osc" "osc_File (cr_Spec (withFiles E osc)) = oe_sortFile E (osc_File (cr_Spec osc))"
  "osc_Version (cr_Spec (withFiles E osc)) = osc_Version (cr_Spec osc)"
  by (simp_all add: withFiles_def)

lemma staticConfigMap_sel [simp]:
  "cm_key (staticConfigMap osc h) = oscKey osc" "cm_Data (staticConfigMap osc h) = filesData (osc_File (cr_Spec osc)) Map.empty"
  "nilget (om_Labels (cm_Meta (staticConfigMap osc h))) ''md5-file'' = h"
  by (simp_all add: staticConfigMap_def cm_key_def)

lemma createStatic_ok:
  assumes keeps: "keepsConfigMaps (oe_ConfigMaps E)" and self: "\<And>d. snd (oe_Overlay E d d) = d"
    and "dep_Containers d \<noteq> []" and "absent (oe_ConfigMaps E) (oscKey osc) w"
  shows "\<exists>w' c. createStatic E osc d h changed w = Inr ((changed, None), osc, mounted osc d, w')
    \<and> cms_Create (oe_ConfigMaps E) (staticConfigMap osc h) w = (None, w')
    \<and> cms_Get (oe_ConfigMaps E) (oscKey osc) w' = Inr c \<and> storedAs (staticConfigMap osc h) c
    \<and> unchangedBut (oe_ConfigMaps E) {oscKey osc} w w'"
proof -
  have "absent (oe_ConfigMaps E) (cm_key (staticConfigMap osc h)) w" using assms(4) by simp
  from keeps_create [OF keeps this] obtain w' c where cr: "cms_Create (oe_ConfigMaps E) (staticConfigMap osc h) w = (None, w')"
    "cms_Get (oe_ConfigMaps E) (cm_key (staticConfigMap osc h)) w' = Inr c" "storedAs (staticConfigMap osc h) c"
    "unchangedBut (oe_ConfigMaps E) {cm_key (staticConfigMap osc h)} w w'"
    by (elim exE conjE)
  have "createStatic E osc d h changed w = Inr ((changed, None), osc, mounted osc d, w')"
    using assms(3) cr(1) by (cases "dep_Containers d") (simp_all add: createStatic_def Let_def self mounted_def)
  with cr show ?thesis by (intro exI conjI) simp_all
qed

lemma OverlayStaticFile_eq:
  "OverlayStaticFile E osc d w =
     (case cms_Get (oe_ConfigMaps E) (oscKey osc) w of
        Inl err \<Rightarrow> if \<not> IsNotFound err then Inr ((False, Some err), withFiles E osc, d, w)
                    else createStatic E (withFiles E osc) d (fileHash E osc) False w
      | Inr c \<Rightarrow> if nilget (om_Labels (cm_Meta c)) ''md5-file'' \<noteq> fileHash E osc
                  then createStatic E (withFiles E osc) d (fileHash E osc) True (snd (cms_Delete (oe_ConfigMaps E) c w))
                  else Inr ((False, None), withFiles E osc, d, w))"
  by (cases "cms_Get (oe_ConfigMaps E) (oscKey osc) w")
    (simp_all add: OverlayStaticFile_def withFiles_def fileHash_def Let_def)

text \<open>The files are out of date when none are stored, or other ones.\<close>

definition outdated :: "'w OAPConfigEnv \<Rightarrow> OAPServerConfig \<Rightarrow> 'w \<Rightarrow> bool" where
  "outdated E osc w \<longleftrightarrow>
     (case cms_Get (oe_ConfigMaps E) (oscKey osc) w of
        Inl e \<Rightarrow> True | Inr c \<Rightarrow> nilget (om_Labels (cm_Meta c)) ''md5-file'' \<noteq> fileHash E osc)"

lemma OverlayStaticFile_refresh:
  assumes keeps: "keepsConfigMaps (oe_ConfigMaps E)" and self: "\<And>d. snd (oe_Overlay E d d) = d" and cont: "dep_Containers d \<noteq> []"
    and old: "outdated E osc w"
  shows "\<exists>w' c. OverlayStaticFile E osc d w =
      Inr ((\<not> absent (oe_ConfigMaps E) (oscKey osc) w, None), withFiles E osc, mounted (withFiles E osc) d, w')
    \<and> cms_Get (oe_ConfigMaps E) (oscKey osc) w' = Inr c \<and> storedAs (staticConfigMap (withFiles E osc) (fileHash E osc)) c
    \<and> unchangedBut (oe_ConfigMaps E) {oscKey osc} w w'
    \<and> (absent (oe_ConfigMaps E) (oscKey osc) w \<longrightarrow>
         cms_Create (oe_ConfigMaps E) (staticConfigMap (withFiles E osc) (fileHash E osc)) w = (None, w'))"
proof (cases "cms_Get (oe_ConfigMaps E) (oscKey osc) w")
  case (Inl e)
  then have nf: "IsNotFound e" by (rule keeps_read [OF keeps])
  then have ab: "absent (oe_ConfigMaps E) (oscKey (withFiles E osc)) w" using Inl by (simp add: absent_def)
  from createStatic_ok [OF keeps self cont this, of "fileHash E osc" False] show ?thesis
    using nf Inl ab by (auto simp: OverlayStaticFile_eq)
next
  case (Inr c)
  then have key: "cm_key c = oscKey osc" by (rule keeps_read [OF keeps])
  have pres: "\<not> absent (oe_ConfigMaps E) (oscKey osc) w" using Inr by (simp add: absent_def)
  then have "\<not> absent (oe_ConfigMaps E) (cm_key c) w" unfolding key .
  from keeps_delete [OF keeps this] obtain w1 where del: "cms_Delete (oe_ConfigMaps E) c w = (None, w1)"
    "absent (oe_ConfigMaps E) (oscKey osc) w1" "unchangedBut (oe_ConfigMaps E) {oscKey osc} w w1"
    unfolding key by (elim exE conjE)
  have "absent (oe_ConfigMaps E) (oscKey (withFiles E osc)) w1" using del(2) by simp
  from createStatic_ok [OF keeps self cont this, of "fileHash E osc" True] obtain w' c' where
    cs: "createStatic E (withFiles E osc) d (fileHash E osc) True w1 =
        Inr ((True, None), withFiles E osc, mounted (withFiles E osc) d, w')"
      "cms_Get (oe_ConfigMaps E) (oscKey osc) w' = Inr c'" "storedAs (staticConfigMap (withFiles E osc) (fileHash E osc)) c'"
      "unchangedBut (oe_ConfigMaps E) {oscKey osc} w1 w'"
    unfolding withFiles_sel by (elim exE conjE)
  have "OverlayStaticFile E osc d w = Inr ((True, None), withFiles E osc, mounted (withFiles E osc) d, w')"
    using old cs(1) del(1) by (simp add: OverlayStaticFile_eq outdated_def Inr)
  moreover have "unchangedBut (oe_ConfigMaps E) {oscKey osc} w w'"
    using unchangedBut_trans [OF del(3) cs(4)] by simp
  ultimately show ?thesis using cs(2,3) pres by (intro exI [of _ w'] exI [of _ c'] conjI) simp_all
qed

lemma OverlayStaticFile_same:
  "cms_Get (oe_ConfigMaps E) (oscKey osc) w = Inr c \<Longrightarrow> nilget (om_Labels (cm_Meta c)) ''md5-file'' = fileHash E osc \<Longrightarrow>
   OverlayStaticFile E osc d w = Inr ((False, None), withFiles E osc, d, w)"
  by (simp add: OverlayStaticFile_eq)


lemma OverlayEnv_unchanged:
  "OverlayEnv E osc d = Inr (ch, osc', d') \<Longrightarrow>
   osc' = osc\<lparr>cr_Spec := (cr_Spec osc)\<lparr>osc_Env := oe_sortEnv E (osc_Env (cr_Spec osc))\<rparr>\<rparr> \<and> (\<not> ch \<longrightarrow> d' = d)"
  by (auto simp: OverlayEnv_def Let_def split: if_splits list.splits option.splits)

text \<open>Files that are never mounted. When the environment of a deployment is up to date and no config
  map of the files exists, which is the state after the configuration was deleted and created again,
  a run creates the config map but does not update the deployment; later runs do nothing at all.\<close>

theorem static_files_never_mounted:
  assumes "keepsConfigMaps (oe_ConfigMaps E)" and "\<And>d. snd (oe_Overlay E d d) = d"
    and "oap_Version (cr_Spec o') = osc_Version (cr_Spec osc)"
    and "\<And>w. oe_GetDeployment E (objectKey (cr_Namespace o') (cr_Name o' @ ''-oap'')) w = Inr d"
    and "dep_Containers d \<noteq> []" and "OverlayEnv E osc d = Inr (False, osc', d)"
    and "absent (oe_ConfigMaps E) (oscKey osc) w"
  shows "\<exists>w' osc1 osc2. cms_Create (oe_ConfigMaps E) (staticConfigMap (withFiles E osc') (fileHash E osc')) w = (None, w')
    \<and> configLoop E [o'] osc w = Inr (None, osc1, w') \<and> configLoop E [o'] osc w' = Inr (None, osc2, w')"
proof -
  have osc': "osc' = osc\<lparr>cr_Spec := (cr_Spec osc)\<lparr>osc_Env := oe_sortEnv E (osc_Env (cr_Spec osc))\<rparr>\<rparr>"
    using OverlayEnv_unchanged [OF assms(6)] by simp
  then have key: "oscKey osc' = oscKey osc" by simp
  have none: "outdated E osc' w"
    using assms(7) unfolding outdated_def key absent_def by (auto split: sum.split)
  obtain w' c where r: "OverlayStaticFile E osc' d w =
      Inr ((\<not> absent (oe_ConfigMaps E) (oscKey osc') w, None), withFiles E osc', mounted (withFiles E osc') d, w')"
    "cms_Get (oe_ConfigMaps E) (oscKey osc') w' = Inr c" "storedAs (staticConfigMap (withFiles E osc') (fileHash E osc')) c"
    "absent (oe_ConfigMaps E) (oscKey osc') w \<longrightarrow>
         cms_Create (oe_ConfigMaps E) (staticConfigMap (withFiles E osc') (fileHash E osc')) w = (None, w')"
    using OverlayStaticFile_refresh [OF assms(1,2,5) none] by (elim exE conjE)
  have "nilget (om_Labels (cm_Meta c)) ''md5-file'' = fileHash E osc'"
    using r(3) staticConfigMap_sel(3) [of "withFiles E osc'" "fileHash E osc'"] by (simp add: storedAs_def)
  from OverlayStaticFile_same [OF r(2) this, of d]
  have "configLoop E [o'] osc w' = Inr (None, withFiles E osc', w')"
    by (simp add: assms(3,4,6))
  moreover have "configLoop E [o'] osc w = Inr (None, withFiles E osc', w')"
    using r(1) assms(7) by (simp add: assms(3,4,6) key)
  ultimately show ?thesis using r(4) assms(7) key by (intro exI conjI) simp_all
qed

text \<open>A server whose deployment does not exist yet. As long as the deployment of an OAP server of
  the configured version is missing, every run of the reconciler panics.\<close>

theorem missing_deployment_panics:
  assumes "se_Get S req w = Inr osc" and "oe_ListOAPServers E (ok_Namespace req) w = Inr (o' # items)"
    and "oap_Version (cr_Spec o') = osc_Version (cr_Spec osc)"
    and "oe_GetDeployment E (objectKey (cr_Namespace o') (cr_Name o' @ ''-oap'')) w = Inl (StatusError NotFound m)"
  shows "OAPServerConfig_Reconcile E S now req w = Inl IndexOutOfRange"
  using assms
  by (simp add: OAPServerConfig_Reconcile_def IsNotFound_def OverlayEnv_def zeroDeployment_def Let_def)

section \<open>Dynamic settings\<close>

lemma settingsData_map_of: "settingsData cs data = data ++ map_of (rev (map (\<lambda>c. (cfg_Name c, cfg_Value c)) cs))"
  by (induction cs arbitrary: data) (simp_all add: map_add_upd_left)

lemma settingsData_distinct:
  "distinct (map cfg_Name cs) \<Longrightarrow> c \<in> set cs \<Longrightarrow> settingsData cs data (cfg_Name c) = Some (cfg_Value c)"
  using map_of_rev_distinct [of cfg_Name cs c cfg_Value] by (simp add: settingsData_map_of)

lemma firstExisting_None: "firstExisting ex cs = None \<longleftrightarrow> cfg_Name ` set cs \<inter> set ex = {}"
  by (induction cs) auto

lemma firstExisting_Some: "firstExisting ex cs = Some n \<Longrightarrow> n \<in> cfg_Name ` set cs \<inter> set ex"
  by (induction cs) (auto split: if_splits)

text \<open>The names a configuration shares with the others of its namespace.\<close>

definition clashes :: "OAPServerDynamicConfig list \<Rightarrow> OAPServerDynamicConfig \<Rightarrow> string set" where
  "clashes items config = cfg_Name ` set (odc_Data (cr_Spec config)) \<inter>
     (\<Union>i \<in> {i \<in> set items. cr_Name i \<noteq> cr_Name config}. cfg_Name ` set (odc_Data (cr_Spec i)))"

lemma clashes_existed:
  "clashes items config = cfg_Name ` set (odc_Data (cr_Spec config)) \<inter> set (existedConfiguration items (cr_Name config))"
  by (auto simp: clashes_def existedConfiguration_def)

abbreviation odcKey :: "OAPServerDynamicConfig \<Rightarrow> ObjectKey" where
  "odcKey config \<equiv> objectKey (cr_Namespace config) (cr_Name config)"

definition settingsHash :: "'w DynamicEnv \<Rightarrow> OAPServerDynamicConfig \<Rightarrow> string" where
  "settingsHash E config = MD5Hash (renderConfigs (dy_sort E (odc_Data (cr_Spec config))))"

definition withSettings :: "'w DynamicEnv \<Rightarrow> OAPServerDynamicConfig \<Rightarrow> OAPServerDynamicConfig" where
  "withSettings E config = config\<lparr>cr_Spec := (cr_Spec config)\<lparr>odc_Data := dy_sort E (odc_Data (cr_Spec config))\<rparr>\<rparr>"

definition upToDate :: "'w DynamicEnv \<Rightarrow> OAPServerDynamicConfig \<Rightarrow> (gomap \<Rightarrow> bool) \<Rightarrow> ConfigMap \<Rightarrow> bool" where
  "upToDate E config sel c \<longleftrightarrow> nilget (om_Labels (cm_Meta c)) ''md5'' = settingsHash E config
     \<and> sel (case om_Labels (cm_Meta c) of None \<Rightarrow> Map.empty | Some l \<Rightarrow> l)"

lemma UpdateDynamicConfig_eq:
  assumes "dy_ListConfigs E (cr_Namespace config) w = Inr items" and "clashes items config = {}"
    and "dy_ParseSelector E (odc_LabelSelector (cr_Spec config)) = Inr sel"
    and "dy_SelectorToMap E (odc_LabelSelector (cr_Spec config)) = Inr label"
  shows "UpdateDynamicConfig E o' config w =
    (let create = (\<lambda>w. case cms_Create (dy_ConfigMaps E) (dynamicConfigMap o' (withSettings E config)
           (dy_sort E (odc_Data (cr_Spec config))) label (settingsHash E config)) w of (err, w) \<Rightarrow> (err, withSettings E config, w))
     in case cms_Get (dy_ConfigMaps E) (odcKey config) w of
       Inl err \<Rightarrow> if \<not> IsNotFound err then (Some err, withSettings E config, w) else create w
     | Inr c \<Rightarrow> if upToDate E config sel c then (None, withSettings E config, w)
                 else create (snd (cms_Delete (dy_ConfigMaps E) c w)))"
proof -
  have "firstExisting (existedConfiguration items (cr_Name config)) (odc_Data (cr_Spec config)) = None"
    using assms(2) by (simp add: firstExisting_None clashes_existed)
  then show ?thesis using assms(1,3,4)
    by (cases "cms_Get (dy_ConfigMaps E) (odcKey config) w")
      (simp_all add: UpdateDynamicConfig_def Let_def withSettings_def settingsHash_def upToDate_def)
qed

lemma dynamicConfigMap_sel:
  assumes "cr_Namespace o' = cr_Namespace config"
  shows "cm_key (dynamicConfigMap o' (withSettings E config) cs label h) = odcKey config"
    and "cm_Data (dynamicConfigMap o' config' cs label h) = settingsData cs Map.empty"
    and "om_Labels (cm_Meta (dynamicConfigMap o' config' cs label h)) =
      Some (label(''version'' \<mapsto> odc_Version (cr_Spec config'), ''OAPServerConfig'' \<mapsto> ''dynamic'', ''md5'' \<mapsto> h))"
  using assms by (simp_all add: dynamicConfigMap_def cm_key_def withSettings_def)

definition staleSettings :: "'w DynamicEnv \<Rightarrow> OAPServerDynamicConfig \<Rightarrow> (gomap \<Rightarrow> bool) \<Rightarrow> 'w \<Rightarrow> bool" where
  "staleSettings E config sel w \<longleftrightarrow>
     (case cms_Get (dy_ConfigMaps E) (odcKey config) w of Inl e \<Rightarrow> True | Inr c \<Rightarrow> \<not> upToDate E config sel c)"

text \<open>A stale config map is removed before the new one is created.\<close>

lemma UpdateDynamicConfig_stale:
  assumes keeps: "keepsConfigMaps (dy_ConfigMaps E)"
    and eq: "dy_ListConfigs E (cr_Namespace config) w = Inr items" "clashes items config = {}"
      "dy_ParseSelector E (odc_LabelSelector (cr_Spec config)) = Inr sel"
      "dy_SelectorToMap E (odc_LabelSelector (cr_Spec config)) = Inr label"
    and stale: "staleSettings E config sel w"
  shows "\<exists>w1. absent (dy_ConfigMaps E) (odcKey config) w1 \<and> unchangedBut (dy_ConfigMaps E) {odcKey config} w w1 \<and>
    UpdateDynamicConfig E o' config w =
      (case cms_Create (dy_ConfigMaps E) (dynamicConfigMap o' (withSettings E config)
           (dy_sort E (odc_Data (cr_Spec config))) label (settingsHash E config)) w1 of (err, w) \<Rightarrow> (err, withSettings E config, w))"
proof (cases "cms_Get (dy_ConfigMaps E) (odcKey config) w")
  case (Inl e)
  then have "IsNotFound e" by (rule keeps_read [OF keeps])
  then show ?thesis using Inl
    by (intro exI [of _ w]) (simp add: UpdateDynamicConfig_eq [OF eq] Let_def absent_def unchangedBut_def)
next
  case (Inr c)
  then have key: "cm_key c = odcKey config" by (rule keeps_read [OF keeps])
  have "\<not> absent (dy_ConfigMaps E) (cm_key c) w" using Inr unfolding key by (simp add: absent_def)
  from keeps_delete [OF keeps this] obtain w1 where "cms_Delete (dy_ConfigMaps E) c w = (None, w1)"
    "absent (dy_ConfigMaps E) (odcKey config) w1" "unchangedBut (dy_ConfigMaps E) {odcKey config} w w1"
    unfolding key by (elim exE conjE)
  moreover have "\<not> upToDate E config sel c" using stale Inr by (simp add: staleSettings_def)
  ultimately show ?thesis using Inr
    by (intro exI [of _ w1]) (simp add: UpdateDynamicConfig_eq [OF eq] Let_def)
qed


section \<open>Changes that are not seen\<close>

text \<open>The rendering the hash is taken of does not separate fields: two file configurations that
  differ in where a file is mounted and in what it contains render to the same text, so that changing
  one into the other leaves a config map that is up to date for the first untouched.\<close>

theorem file_change_not_seen:
  assumes "osc_File (cr_Spec osc) = [\<lparr>fcf_Name = n, fcf_Path = p @ '' '' @ q, fcf_Data = x\<rparr>]"
    and "osc_File (cr_Spec osc') = [\<lparr>fcf_Name = n, fcf_Path = p, fcf_Data = q @ '' '' @ x\<rparr>]"
    and "cr_Meta osc' = cr_Meta osc" and "sortsBy fcf_Name (oe_sortFile E)"
    and "cms_Get (oe_ConfigMaps E) (oscKey osc) w = Inr c" and "\<not> outdated E osc w"
  shows "OverlayStaticFile E osc' d w = Inr ((False, None), withFiles E osc', d, w)"
proof -
  have one: "oe_sortFile E [x] = [x]" for x
    using assms(4) by (metis mset_eq_length sortsBy_def length_Suc_conv length_0_conv list.size(3,4) mset_single_iff_right mset.simps)
  have "renderFiles [\<lparr>fcf_Name = n, fcf_Path = p, fcf_Data = q @ '' '' @ x\<rparr>] =
      renderFiles [\<lparr>fcf_Name = n, fcf_Path = p @ '' '' @ q, fcf_Data = x\<rparr>]"
    by (simp add: renderFiles_def renderFile_def)
  then have "fileHash E osc' = fileHash E osc" unfolding fileHash_def assms(1,2) one by simp
  moreover have "nilget (om_Labels (cm_Meta c)) ''md5-file'' = fileHash E osc"
    using assms(5,6) by (simp add: outdated_def)
  ultimately show ?thesis using assms(3,5) by (intro OverlayStaticFile_same [of E osc' w c]) simp_all
qed

section \<open>Examples\<close>

definition demoContainer :: Container where
  "demoContainer = zeroContainer\<lparr>c_Name := ''oap''\<rparr>"

definition demoDeployment :: "string \<Rightarrow> Deployment" where
  "demoDeployment h = zeroDeployment\<lparr>dep_Containers := [demoContainer], dep_TemplateLabels := Some [''md5-env'' \<mapsto> h]\<rparr>"

definition demoOAPServer :: OAPServer where
  "demoOAPServer = \<lparr>cr_Type = zeroTypeMeta, cr_Meta = zeroMeta\<lparr>om_Name := ''oap''\<rparr>,
     cr_Spec = \<lparr>oap_Version = ''9'', oap_Image = [], oap_Instances = 1, oap_Config = [],
       oap_Service = \<lparr>svcs_Template = \<lparr>stpl_ClusterIP = [], stpl_Type = [], stpl_ExternalIPs = [], stpl_LoadBalancerIP = [],
           stpl_LoadBalancerSourceRanges = []\<rparr>,
         svcs_Ingress = \<lparr>ing_Annotations = None, ing_Host = [], ing_IngressClassName = None, ing_TLS = []\<rparr>\<rparr>,
       oap_StorageConfig = Some \<lparr>rs_Name = ''es'', rs_Storage = None\<rparr>\<rparr>,
     cr_Status = \<lparr>oaps_AvailableReplicas = 0, oaps_Address = [], oaps_Conditions = []\<rparr>\<rparr>"

definition demoOsc :: "FileConfig list \<Rightarrow> OAPServerConfig" where
  "demoOsc fs = \<lparr>cr_Type = zeroTypeMeta, cr_Meta = zeroMeta\<lparr>om_Name := ''cfg''\<rparr>,
     cr_Spec = \<lparr>osc_Version = ''9'', osc_Env = [], osc_File = fs\<rparr>,
     cr_Status = \<lparr>oscs_Desired = 0, oscs_Ready = 0, oscs_CreationTime = 0, oscs_LastUpdateTime = 0\<rparr>\<rparr>"

definition demoOscEnv :: "cmStore OAPConfigEnv" where
  "demoOscEnv = \<lparr>oe_ListOAPServers = (\<lambda>ns w. Inr [demoOAPServer]),
     oe_GetDeployment = (\<lambda>k w. Inr (demoDeployment (MD5Hash ''[]''))), oe_UpdateDeployment = (\<lambda>d w. (None, w)),
     oe_Overlay = (\<lambda>d o'. (None, d)), oe_ConfigMaps = demoConfigMaps, oe_renderEnv = (\<lambda>_. ''[]''),
     oe_sortEnv = sort_key ev_Name, oe_sortFile = sort_key fcf_Name\<rparr>"

definition demoFiles :: "FileConfig list" where
  "demoFiles = [\<lparr>fcf_Name = ''b.yaml'', fcf_Path = ''/p'', fcf_Data = ''x''\<rparr>, \<lparr>fcf_Name = ''a.yaml'', fcf_Path = ''/p'', fcf_Data = ''y''\<rparr>]"

lemma demoOscEnv_sel [simp]:
  "oe_ConfigMaps demoOscEnv = demoConfigMaps" "oe_sortFile demoOscEnv = sort_key fcf_Name" "snd (oe_Overlay demoOscEnv d d) = d"
  "oe_GetDeployment demoOscEnv k w = Inr (demoDeployment (MD5Hash ''[]''))" "oe_renderEnv demoOscEnv e = ''[]''"
  "oe_sortEnv demoOscEnv = sort_key ev_Name" "dep_Containers (demoDeployment h) \<noteq> []"
  by (simp_all add: demoOscEnv_def demoDeployment_def)

lemma demo_absent: "absent demoConfigMaps k Map.empty"
  by (simp add: absent_def demoConfigMaps_def IsNotFound_def)

lemma demo_outdated: "outdated demoOscEnv osc Map.empty"
  by (simp add: outdated_def) (simp add: demoConfigMaps_def)


theorem static_files_never_mounted_witness:
  "\<exists>w' osc1 osc2. configLoop demoOscEnv [demoOAPServer] (demoOsc demoFiles) Map.empty = Inr (None, osc1, w')
    \<and> configLoop demoOscEnv [demoOAPServer] (demoOsc demoFiles) w' = Inr (None, osc2, w')"
proof -
  have env: "OverlayEnv demoOscEnv (demoOsc demoFiles) (demoDeployment (MD5Hash ''[]'')) =
      Inr (False, demoOsc demoFiles, demoDeployment (MD5Hash ''[]''))"
    by (simp add: OverlayEnv_def Let_def) (simp add: demoDeployment_def demoOsc_def)
  have v: "oap_Version (cr_Spec demoOAPServer) = osc_Version (cr_Spec (demoOsc demoFiles))"
    by (simp add: demoOAPServer_def demoOsc_def)
  have k: "keepsConfigMaps (oe_ConfigMaps demoOscEnv)" and a: "absent (oe_ConfigMaps demoOscEnv) (oscKey (demoOsc demoFiles)) Map.empty"
    by (simp_all add: demoConfigMaps_keeps demo_absent)
  from static_files_never_mounted [OF k demoOscEnv_sel(3) v demoOscEnv_sel(4) demoOscEnv_sel(7) env a] show ?thesis
    by (elim exE conjE) (intro exI conjI, assumption+)
qed

theorem missing_deployment_panics_witness:
  "OAPServerConfig_Reconcile (demoOscEnv\<lparr>oe_GetDeployment := (\<lambda>k w. Inl (StatusError NotFound ''gone''))\<rparr>)
     ((plainStatusEnv (cr_Spec (demoOsc [])))\<lparr>se_Get := (\<lambda>k w. Inr (demoOsc []))\<rparr>) 1 (objectKey [] ''cfg'') Map.empty = Inl IndexOutOfRange"
  by (rule missing_deployment_panics [where osc = "demoOsc []" and o' = demoOAPServer and items = "[]" and m = "''gone''"])
    (simp_all add: demoOscEnv_def demoOAPServer_def demoOsc_def)

definition demoDynamic :: OAPServerDynamicConfig where
  "demoDynamic = \<lparr>cr_Type = zeroTypeMeta, cr_Meta = zeroMeta\<lparr>om_Name := ''dyn''\<rparr>,
     cr_Spec = \<lparr>odc_Version = ''9'', odc_LabelSelector = [], odc_Data = [\<lparr>cfg_Name = ''k'', cfg_Value = ''v''\<rparr>]\<rparr>,
     cr_Status = \<lparr>odcs_State = [], odcs_CreationTime = 0, odcs_LastUpdateTime = 0\<rparr>\<rparr>"

definition demoDynamicEnv :: "cmStore DynamicEnv" where
  "demoDynamicEnv = \<lparr>dy_ListOAPServers = (\<lambda>ns w. Inr [demoOAPServer]), dy_ListConfigs = (\<lambda>ns w. Inr [demoDynamic]),
     dy_ConfigMaps = demoConfigMaps, dy_ParseSelector = (\<lambda>s. Inr (\<lambda>m. True)), dy_SelectorToMap = (\<lambda>s. Inr Map.empty),
     dy_sort = sort_key cfg_Name\<rparr>"


theorem file_change_not_seen_witness:
  "\<exists>w. OverlayStaticFile demoOscEnv (demoOsc [\<lparr>fcf_Name = ''f'', fcf_Path = ''/p'', fcf_Data = ''q x''\<rparr>]) (demoDeployment []) w =
    Inr ((False, None), withFiles demoOscEnv (demoOsc [\<lparr>fcf_Name = ''f'', fcf_Path = ''/p'', fcf_Data = ''q x''\<rparr>]), demoDeployment [], w)"
proof -
  let ?a = "demoOsc [\<lparr>fcf_Name = ''f'', fcf_Path = ''/p'' @ '' '' @ ''q'', fcf_Data = ''x''\<rparr>]"
    and ?b = "demoOsc [\<lparr>fcf_Name = ''f'', fcf_Path = ''/p'', fcf_Data = ''q'' @ '' '' @ ''x''\<rparr>]"
  let ?c = "staticConfigMap ?a (fileHash demoOscEnv ?a)"
  let ?w = "[oscKey ?a \<mapsto> ?c]"
  have f: "osc_File (cr_Spec ?a) = [\<lparr>fcf_Name = ''f'', fcf_Path = ''/p'' @ '' '' @ ''q'', fcf_Data = ''x''\<rparr>]"
    "osc_File (cr_Spec ?b) = [\<lparr>fcf_Name = ''f'', fcf_Path = ''/p'', fcf_Data = ''q'' @ '' '' @ ''x''\<rparr>]"
    "cr_Meta ?b = cr_Meta ?a" "sortsBy fcf_Name (oe_sortFile demoOscEnv)"
    by (simp_all add: demoOsc_def sortsBy_sort_key)
  have g: "cms_Get (oe_ConfigMaps demoOscEnv) (oscKey ?a) ?w = Inr ?c"
    unfolding demoOscEnv_sel by (simp add: demoConfigMaps_def)
  then have "\<not> outdated demoOscEnv ?a ?w" by (simp add: outdated_def)
  from file_change_not_seen [OF f g this] show ?thesis by (intro exI [of _ ?w]) simp
qed

end
