(* ===== verification/Sort_Interfaces.thy ===== *)
theory Sort_Interfaces
  imports OAPConfig_Controllers
begin

text \<open>
  The three implementations of \<open>sort.Interface\<close>: \<open>SortByFileName\<close> and \<open>SortByEnvName\<close>
  (\<open>oapserverconfig_controller.go\<close>) and \<open>SortByConfigName\<close> (\<open>oapserverdynamicconfig_controller.go\<close>), each with \<open>Len\<close>, \<open>Swap\<close> and
  \<open>Less\<close>. \<open>sort.Sort\<close> sees a slice through these methods alone: \<open>sortsThrough\<close> says what it documents, that it only
  swaps elements within the length and that afterwards no element is less than the one before it.
  The locale \<open>sort_interface\<close> is what the methods promise in return; it yields \<open>sortsBy\<close>, on which the
  controllers' theorems rest, and is interpreted for all three.
\<close>

section \<open>The methods\<close>

definition SortByFileName_Len :: "FileConfig list \<Rightarrow> nat" where
  "SortByFileName_Len a = length a"

definition SortByFileName_Swap :: "FileConfig list \<Rightarrow> nat \<Rightarrow> nat \<Rightarrow> gopanic + FileConfig list" where
  "SortByFileName_Swap a i j =
     (if i < length a \<and> j < length a then Inr (a[i := a ! j, j := a ! i]) else Inl IndexOutOfRange)"

definition SortByFileName_Less :: "FileConfig list \<Rightarrow> nat \<Rightarrow> nat \<Rightarrow> gopanic + bool" where
  "SortByFileName_Less a i j =
     (if i < length a \<and> j < length a then Inr (fcf_Name (a ! i) < fcf_Name (a ! j)) else Inl IndexOutOfRange)"

definition SortByEnvName_Len :: "EnvVar list \<Rightarrow> nat" where
  "SortByEnvName_Len a = length a"

definition SortByEnvName_Swap :: "EnvVar list \<Rightarrow> nat \<Rightarrow> nat \<Rightarrow> gopanic + EnvVar list" where
  "SortByEnvName_Swap a i j =
     (if i < length a \<and> j < length a then Inr (a[i := a ! j, j := a ! i]) else Inl IndexOutOfRange)"

definition SortByEnvName_Less :: "EnvVar list \<Rightarrow> nat \<Rightarrow> nat \<Rightarrow> gopanic + bool" where
  "SortByEnvName_Less a i j =
     (if i < length a \<and> j < length a then Inr (ev_Name (a ! i) < ev_Name (a ! j)) else Inl IndexOutOfRange)"

definition SortByConfigName_Len :: "Config list \<Rightarrow> nat" where
  "SortByConfigName_Len a = length a"

definition SortByConfigName_Swap :: "Config list \<Rightarrow> nat \<Rightarrow> nat \<Rightarrow> gopanic + Config list" where
  "SortByConfigName_Swap a i j =
     (if i < length a \<and> j < length a then Inr (a[i := a ! j, j := a ! i]) else Inl IndexOutOfRange)"

definition SortByConfigName_Less :: "Config list \<Rightarrow> nat \<Rightarrow> nat \<Rightarrow> gopanic + bool" where
  "SortByConfigName_Less a i j =
     (if i < length a \<and> j < length a then Inr (cfg_Name (a ! i) < cfg_Name (a ! j)) else Inl IndexOutOfRange)"

section \<open>What \<open>sort.Sort\<close> does with them\<close>

inductive swapped :: "('a list \<Rightarrow> nat) \<Rightarrow> ('a list \<Rightarrow> nat \<Rightarrow> nat \<Rightarrow> gopanic + 'a list) \<Rightarrow> 'a list \<Rightarrow> 'a list \<Rightarrow> bool"
  for Len Swap where
  unchanged: "swapped Len Swap a a"
| swap: "swapped Len Swap a b \<Longrightarrow> i < Len b \<Longrightarrow> j < Len b \<Longrightarrow> Swap b i j = Inr c \<Longrightarrow> swapped Len Swap a c"

definition sortsThrough ::
  "('a list \<Rightarrow> nat) \<Rightarrow> ('a list \<Rightarrow> nat \<Rightarrow> nat \<Rightarrow> gopanic + 'a list) \<Rightarrow> ('a list \<Rightarrow> nat \<Rightarrow> nat \<Rightarrow> gopanic + bool)
   \<Rightarrow> ('a list \<Rightarrow> 'a list) \<Rightarrow> bool" where
  "sortsThrough Len Swap Less f \<longleftrightarrow>
     (\<forall>a. swapped Len Swap a (f a) \<and> (\<forall>i. Suc i < Len (f a) \<longrightarrow> Less (f a) (Suc i) i \<noteq> Inr True))"

locale sort_interface =
  fixes Len :: "'a list \<Rightarrow> nat"
    and Swap :: "'a list \<Rightarrow> nat \<Rightarrow> nat \<Rightarrow> gopanic + 'a list"
    and Less :: "'a list \<Rightarrow> nat \<Rightarrow> nat \<Rightarrow> gopanic + bool"
    and name :: "'a \<Rightarrow> string"
  assumes Len_length: "Len a = length a"
    and Swap_swaps: "i < length a \<Longrightarrow> j < length a \<Longrightarrow> Swap a i j = Inr (a[i := a ! j, j := a ! i])"
    and Less_names: "i < length a \<Longrightarrow> j < length a \<Longrightarrow> Less a i j = Inr (name (a ! i) < name (a ! j))"
begin

lemma swapped_mset: "swapped Len Swap a b \<Longrightarrow> mset b = mset a"
proof (induction rule: swapped.induct)
  case (swap a b i j c)
  then show ?case using mset_swap [of j b i] Swap_swaps [of i b j] by (simp add: Len_length)
qed simp

text \<open>Whatever sorts through the methods sorts by name.\<close>

lemma sorts_by_name:
  assumes "sortsThrough Len Swap Less f"
  shows "sortsBy name f"
  unfolding sortsBy_def
proof (intro allI conjI)
  fix xs
  show "mset (f xs) = mset xs" using assms swapped_mset by (simp add: sortsThrough_def)
  have "name (f xs ! i) \<le> name (f xs ! Suc i)" if "Suc i < length (f xs)" for i
    using assms that Less_names [of "Suc i" "f xs" i] by (fastforce simp: sortsThrough_def Len_length)
  then show "sorted (map name (f xs))" by (simp add: sorted_iff_nth_Suc)
qed

text \<open>Conversely, swaps reach every arrangement, so there is something that sorts through the methods.\<close>

lemma swapped_prefix:
  assumes "mset ys = mset a" and "n \<le> length ys"
  shows "\<exists>b. swapped Len Swap a b \<and> take n b = take n ys"
  using assms(2)
proof (induction n)
  case (Suc n)
  then obtain b where b: "swapped Len Swap a b" "take n b = take n ys" by auto
  have m: "mset b = mset ys" using swapped_mset [OF b(1)] assms(1) by simp
  then have len: "length b = length ys" by (metis size_mset)
  have "mset (drop n b) = mset (drop n ys)"
    using m b(2) by (metis add_left_cancel append_take_drop_id mset_append)
  moreover have "ys ! n \<in> set (drop n ys)" using Suc.prems by (metis Cons_nth_drop_Suc Suc_le_lessD list.set_intros(1))
  ultimately have "ys ! n \<in> set (drop n b)" by (metis set_mset_mset)
  then obtain k where k: "n + k < length b" "b ! (n + k) = ys ! n"
    by (metis add.commute in_set_conv_nth length_drop less_diff_conv nth_drop less_imp_le_nat Suc.prems Suc_leD len)
  let ?c = "b[n := b ! (n + k), n + k := b ! n]"
  have "swapped Len Swap a ?c"
    using k by (intro swapped.swap [OF b(1), of n "n + k"]) (simp_all add: Len_length Swap_swaps)
  moreover have "take (Suc n) ?c = take (Suc n) ys"
  proof (rule nth_equalityI)
    fix i assume "i < length (take (Suc n) ?c)"
    then show "take (Suc n) ?c ! i = take (Suc n) ys ! i"
      using k len Suc.prems arg_cong [OF b(2), of "\<lambda>l. l ! i"] by (cases "i = n") (auto simp: nth_list_update)
  qed (use len in simp)
  ultimately show ?case by blast
qed (use swapped.unchanged in auto)

lemma sort_key_sorts: "sortsThrough Len Swap Less (sort_key name)"
  unfolding sortsThrough_def
proof (intro allI conjI impI)
  fix a
  obtain b where b: "swapped Len Swap a b" "take (length a) b = take (length a) (sort_key name a)"
    using swapped_prefix [of "sort_key name a" a "length a"] by auto
  have "length b = length a" using swapped_mset [OF b(1)] by (metis size_mset)
  then show "swapped Len Swap a (sort_key name a)" using b by simp
  fix i assume "Suc i < Len (sort_key name a)"
  then show "Less (sort_key name a) (Suc i) i \<noteq> Inr True"
    using Less_names [of "Suc i" "sort_key name a" i] sorted_sort_key [of name a]
    by (simp add: Len_length sorted_iff_nth_Suc not_less)
qed

text \<open>The methods never panic on the indices \<open>sort.Sort\<close> gives them.\<close>

lemma no_panic: "i < Len a \<Longrightarrow> j < Len a \<Longrightarrow> (\<exists>b. Swap a i j = Inr b) \<and> (\<exists>r. Less a i j = Inr r)"
  by (simp add: Len_length Swap_swaps Less_names)

end

interpretation by_file: sort_interface SortByFileName_Len SortByFileName_Swap SortByFileName_Less fcf_Name
  by unfold_locales (simp_all add: SortByFileName_Len_def SortByFileName_Swap_def SortByFileName_Less_def)

interpretation by_env: sort_interface SortByEnvName_Len SortByEnvName_Swap SortByEnvName_Less ev_Name
  by unfold_locales (simp_all add: SortByEnvName_Len_def SortByEnvName_Swap_def SortByEnvName_Less_def)

interpretation by_config: sort_interface SortByConfigName_Len SortByConfigName_Swap SortByConfigName_Less cfg_Name
  by unfold_locales (simp_all add: SortByConfigName_Len_def SortByConfigName_Swap_def SortByConfigName_Less_def)

section \<open>The controllers' sorting\<close>

text \<open>C38. Any algorithm that works through the three methods, swapping within the length until no element is
  less than its predecessor, sorts variables, files and settings by name without losing or inventing
  one. This is what the controllers' results rely on.\<close>

theorem sort_interfaces_sort:
  assumes "sortsThrough SortByEnvName_Len SortByEnvName_Swap SortByEnvName_Less f"
    and "sortsThrough SortByFileName_Len SortByFileName_Swap SortByFileName_Less g"
    and "sortsThrough SortByConfigName_Len SortByConfigName_Swap SortByConfigName_Less h"
  shows "sortsBy ev_Name f \<and> sortsBy fcf_Name g \<and> sortsBy cfg_Name h"
  using by_env.sorts_by_name [OF assms(1)] by_file.sorts_by_name [OF assms(2)] by_config.sorts_by_name [OF assms(3)]
  by simp

theorem sort_interfaces_sort_witness:
  "sortsBy ev_Name (sort_key ev_Name :: EnvVar list \<Rightarrow> EnvVar list) \<and>
   sortsBy fcf_Name (sort_key fcf_Name :: FileConfig list \<Rightarrow> FileConfig list) \<and>
   sortsBy cfg_Name (sort_key cfg_Name :: Config list \<Rightarrow> Config list)"
  by (rule sort_interfaces_sort [OF by_env.sort_key_sorts by_file.sort_key_sorts by_config.sort_key_sorts])

end
