(* ===== verification/Provider.thy ===== *)
theory Provider
  imports Encoding
begin

text \<open>
  The external metrics adapter, \<open>adapter/pkg/provider\<close>: turning a metric name and a label selector
  into a query to the OAP server and its answer into a metric value, and the list of known metrics
  that a background loop refreshes. The OAP client and the clock with its formatting are
  parameters.
\<close>

section \<open>strconv.ParseInt with eight bits\<close>

definition decimalValue :: "string \<Rightarrow> nat" where
  "decimalValue s = foldl (\<lambda>n c. n * 10 + digitVal c) 0 s"

definition signOf :: "string \<Rightarrow> bool \<times> string" where
  "signOf s = (case s of [] \<Rightarrow> (False, [])
     | c # cs \<Rightarrow> if c = CHR ''+'' then (False, cs) else if c = CHR ''-'' then (True, cs) else (False, s))"

definition ParseInt8 :: "string \<Rightarrow> goerror + int" where
  "ParseInt8 s =
     (case signOf s of (neg, ds) \<Rightarrow>
        if ds = [] \<or> \<not> list_all isDigit ds
        then Inl (ErrorString (''strconv.ParseInt: parsing '' @ s @ '': invalid syntax''))
        else (let n = int (decimalValue ds) in
              if \<not> neg \<and> 128 \<le> n \<or> neg \<and> 128 < n
              then Inl (ErrorString (''strconv.ParseInt: parsing '' @ s @ '': value out of range''))
              else Inr (if neg then - n else n)))"

section \<open>Label values\<close>

text \<open>A requirement of a label selector: its key and the element \<open>PopAny\<close> takes from its values.\<close>

record Requirement =
  rq_Key :: string
  rq_Any :: "string option"

definition labelValueTypeStr :: string where
  "labelValueTypeStr = ''str''"

definition labelValueTypeByte :: string where
  "labelValueTypeByte = ''byte''"

type_synonym decoder = "string \<Rightarrow> goerror + string"

text \<open>Growing the buffer: \<open>make\<close> and \<open>copy\<close>. Length and capacity of the buffer always agree.\<close>

definition growTo :: "string list \<Rightarrow> int \<Rightarrow> string list" where
  "growTo buff index =
     (if int (length buff) \<le> index then buff @ replicate (nat (index + 1) - length buff) [] else buff)"

definition bufferEntity ::
  "string list \<Rightarrow> int \<Rightarrow> Requirement \<Rightarrow> decoder option \<Rightarrow> gopanic + goerror + string list" where
  "bufferEntity buff index requirement dec =
     (let buff = growTo buff index in
      case rq_Any requirement of
        None \<Rightarrow> Inr (Inr buff)
      | Some v \<Rightarrow>
          (case dec of
             Some d \<Rightarrow>
               (case d v of
                  Inl err \<Rightarrow> if index < 0 then Inl IndexOutOfRange else Inr (Inl err)
                | Inr x \<Rightarrow> if index < 0 then Inl IndexOutOfRange else Inr (Inr (buff[nat index := x])))
           | None \<Rightarrow> if index < 0 then Inl IndexOutOfRange else Inr (Inr (buff[nat index := v]))))"

definition hexDecoder :: decoder where
  "hexDecoder encoded =
     (case DecodeString encoded of
        (bytes, Some err) \<Rightarrow> Inl (ErrorString (''failed to decode hex to string: '' @ Error err))
      | (bytes, None) \<Rightarrow> Inr bytes)"

text \<open>The loop of \<open>paramValue.extractValue\<close>: the value, an error that leaves the value nil, or a
  panic. In the case of one key component the buffer cannot fail.\<close>

fun extractLoop :: "string \<Rightarrow> Requirement list \<Rightarrow> string list \<Rightarrow> gopanic + goerror + string" where
  "extractLoop key [] vv = Inr (Inr (Join vv []))"
| "extractLoop key (r # rs) vv =
     (if \<not> HasPrefix (rq_Key r) key then extractLoop key rs vv
      else (let kk = Split (rq_Key r) CHR ''.'' in
        if length kk = 1 then
          (case bufferEntity vv 0 r None of
             Inl p \<Rightarrow> Inl p
           | Inr (Inl err) \<Rightarrow> Inl IndexOutOfRange
           | Inr (Inr vv) \<Rightarrow> Inr (Inr (vv ! 0)))
        else if length kk < 3 then Inr (Inl (ErrorString (''invalid label key:'' @ rq_Key r)))
        else (case ParseInt8 (kk ! 2) of
            Inl err \<Rightarrow> Inr (Inl (ErrorString (''failed to parse index string to int: '' @ Error err)))
          | Inr index \<Rightarrow>
              if kk ! 1 = labelValueTypeStr then
                (case bufferEntity vv index r None of
                   Inl p \<Rightarrow> Inl p
                 | Inr (Inl err) \<Rightarrow> extractLoop key rs []
                 | Inr (Inr vv) \<Rightarrow> extractLoop key rs vv)
              else if kk ! 1 = labelValueTypeByte then
                (case bufferEntity vv index r (Some hexDecoder) of
                   Inl p \<Rightarrow> Inl p
                 | Inr (Inl err) \<Rightarrow> Inr (Inl err)
                 | Inr (Inr vv) \<Rightarrow> extractLoop key rs vv)
              else extractLoop key rs vv)))"

record paramValue =
  pv_key :: string
  pv_val :: "string option"

definition paramValue_extractValue :: "paramValue \<Rightarrow> Requirement list \<Rightarrow> gopanic + goerror option \<times> paramValue" where
  "paramValue_extractValue pv requirements =
     (case extractLoop (pv_key pv) requirements (replicate 10 []) of
        Inl p \<Rightarrow> Inl p
      | Inr (Inl err) \<Rightarrow> Inr (Some err, pv)
      | Inr (Inr v) \<Rightarrow> Inr (None, pv\<lparr>pv_val := Some v\<rparr>))"

text \<open>The package function: errors are logged and the value stays nil.\<close>

fun extractValue :: "Requirement list \<Rightarrow> paramValue list \<Rightarrow> gopanic + paramValue list" where
  "extractValue requirement [] = Inr []"
| "extractValue requirement (pv # pvs) =
     (case paramValue_extractValue pv requirement of
        Inl p \<Rightarrow> Inl p
      | Inr (err, pv) \<Rightarrow>
          (case extractValue requirement pvs of Inl p \<Rightarrow> Inl p | Inr pvs \<Rightarrow> Inr (pv # pvs)))"

section \<open>Entities and scopes\<close>

datatype Scope = ScopeAll | ScopeService | ScopeServiceInstance | ScopeEndpoint | ScopeServiceRelation
  | ScopeServiceInstanceRelation | ScopeEndpointRelation

record Entity =
  en_Scope :: Scope
  en_ServiceName :: "string option"
  en_Normal :: "bool option"
  en_ServiceInstanceName :: "string option"
  en_EndpointName :: "string option"
  en_DestServiceName :: "string option"
  en_DestNormal :: "bool option"
  en_DestServiceInstanceName :: "string option"
  en_DestEndpointName :: "string option"

text \<open>Testing a string pointer against the empty string dereferences it.\<close>

definition ifSet :: "string option \<Rightarrow> Scope \<Rightarrow> gopanic + Scope \<Rightarrow> gopanic + Scope" where
  "ifSet ptr scope otherwise' =
     (case ptr of None \<Rightarrow> Inl NilDeref | Some v \<Rightarrow> if v \<noteq> [] then Inr scope else otherwise')"

definition parseScope :: "Entity \<Rightarrow> gopanic + Scope" where
  "parseScope entity =
     ifSet (en_DestEndpointName entity) ScopeEndpointRelation
      (ifSet (en_DestServiceInstanceName entity) ScopeServiceInstanceRelation
       (ifSet (en_DestServiceName entity) ScopeServiceRelation
        (ifSet (en_EndpointName entity) ScopeEndpoint
         (ifSet (en_ServiceInstanceName entity) ScopeServiceInstance
          (ifSet (en_ServiceName entity) ScopeService (Inr ScopeAll))))))"

section \<open>The provider\<close>

datatype MetricsType = MetricsTypeRegularValue | MetricsTypeLabeledValue | MetricsTypeOther

record MetricDefinition =
  md_Name :: string
  md_Type :: MetricsType

record MetricsValues =
  mv_Label :: "string option"
  mv_Values :: "int list"

record Duration =
  du_Start :: string
  du_End :: string

record MetricsCondition =
  mc_Name :: string
  mc_Entity :: Entity

record externalMetricsProvider =
  metricDefines :: "MetricDefinition list"
  regex :: string
  refreshRegistryInterval :: int
  namespace :: string

record ExternalMetricValue =
  emv_MetricName :: string
  emv_Timestamp :: int
  emv_Value :: int

record GroupResource =
  gr_Group :: string
  gr_Resource :: string

text \<open>What the provider calls: the OAP client, the format of a time, the not-found error of the
  metrics API library. Times are nanoseconds.\<close>

record ProviderEnv =
  pe_LinearIntValues :: "MetricsCondition \<Rightarrow> Duration \<Rightarrow> goerror + MetricsValues"
  pe_MultipleLinearIntValues :: "MetricsCondition \<Rightarrow> string list \<Rightarrow> Duration \<Rightarrow> goerror + MetricsValues list"
  pe_ListMetrics :: "string \<Rightarrow> goerror + MetricDefinition list"
  pe_Format :: "int \<Rightarrow> string"
  pe_NotFound :: "GroupResource \<Rightarrow> string \<Rightarrow> goerror"

definition Minute :: int where
  "Minute = 60000000000"

definition NsGroupResource :: GroupResource where
  "NsGroupResource = \<lparr>gr_Group = [], gr_Resource = ''namespaces''\<rparr>"

definition selectGroupResource :: "string \<Rightarrow> GroupResource" where
  "selectGroupResource ns =
     (if ns = ''default'' then NsGroupResource else \<lparr>gr_Group = [], gr_Resource = []\<rparr>)"

definition getMetricNameWithNamespace :: "externalMetricsProvider \<Rightarrow> string \<Rightarrow> string" where
  "getMetricNameWithNamespace p metricName = Join [namespace p, metricName] ''|''"

definition findMetric :: "externalMetricsProvider \<Rightarrow> string \<Rightarrow> MetricDefinition option" where
  "findMetric p metric =
     foldl (\<lambda>md m. if getMetricNameWithNamespace p (md_Name m) = metric then Some m else md)
       None (metricDefines p)"

text \<open>Choosing the series with the wanted label: the last one; a series without a label panics.\<close>

fun labelledSeries :: "string \<Rightarrow> MetricsValues list \<Rightarrow> MetricsValues \<Rightarrow> gopanic + MetricsValues" where
  "labelledSeries label [] mv = Inr mv"
| "labelledSeries label (r # rs) mv =
     (case mv_Label r of
        None \<Rightarrow> Inl NilDeref
      | Some l \<Rightarrow> labelledSeries label rs (if l = label then r else mv))"

definition badRequest :: "string \<Rightarrow> goerror" where
  "badRequest msg = StatusError BadRequest msg"

definition internalError :: "goerror \<Rightarrow> goerror" where
  "internalError err = StatusError InternalError (''Internal error occurred: unable to fetch metrics: '' @ Error err)"

definition lackOfLabel :: "string \<Rightarrow> string \<Rightarrow> string" where
  "lackOfLabel n l = n @ '' is lack of required label '' @ [CHR 0x27] @ l @ [CHR 0x27]"

definition zeroMetricsValues :: MetricsValues where
  "zeroMetricsValues = \<lparr>mv_Label = None, mv_Values = []\<rparr>"

text \<open>The query to the OAP server for one metric definition.\<close>

definition queryMetric ::
  "ProviderEnv \<Rightarrow> MetricDefinition \<Rightarrow> MetricsCondition \<Rightarrow> string option \<Rightarrow> Duration
   \<Rightarrow> gopanic + goerror + MetricsValues" where
  "queryMetric E md condition label duration =
     (case md_Type md of
        MetricsTypeRegularValue \<Rightarrow>
          (case pe_LinearIntValues E condition duration of
             Inl err \<Rightarrow> Inr (Inl (internalError err))
           | Inr mv \<Rightarrow> Inr (Inr mv))
      | MetricsTypeLabeledValue \<Rightarrow>
          (case label of
             None \<Rightarrow> Inl NilDeref
           | Some l \<Rightarrow>
               if l = [] then Inr (Inl (badRequest (lackOfLabel (md_Name md) ''label'')))
               else (case pe_MultipleLinearIntValues E condition [l] duration of
                       Inl err \<Rightarrow> Inr (Inl (internalError err))
                     | Inr result \<Rightarrow>
                         (case labelledSeries l result zeroMetricsValues of
                            Inl p \<Rightarrow> Inl p | Inr mv \<Rightarrow> Inr (Inr mv))))
      | MetricsTypeOther \<Rightarrow> Inr (Inr zeroMetricsValues))"

text \<open>The value and time taken from a series of at least two points.\<close>

definition metricValue :: "string \<Rightarrow> int list \<Rightarrow> int \<Rightarrow> ExternalMetricValue" where
  "metricValue metric vs endTime =
     (let l = length vs;
          kv = vs ! (l - 2);
          sTime = endTime + Minute * (-1);
          sValue = (if 0 < kv then kv else 0);
          sTime = (if sValue = 0 then endTime else sTime)
      in \<lparr>emv_MetricName = metric, emv_Timestamp = sTime, emv_Value = sValue\<rparr>)"

definition queryEntity :: "string option \<Rightarrow> string option \<Rightarrow> string option \<Rightarrow> Entity" where
  "queryEntity svc instance' endpoint =
     \<lparr>en_Scope = ScopeAll, en_ServiceName = svc, en_Normal = Some True, en_ServiceInstanceName = instance',
      en_EndpointName = endpoint, en_DestServiceName = Some [], en_DestNormal = Some True,
      en_DestServiceInstanceName = Some [], en_DestEndpointName = Some []\<rparr>"

text \<open>\<open>GetExternalMetric\<close>. \<open>requirements\<close> is what the selector yields: its requirements, or \<open>None\<close>
  for a selector that matches nothing.\<close>

definition GetExternalMetric ::
  "ProviderEnv \<Rightarrow> externalMetricsProvider \<Rightarrow> int \<Rightarrow> string \<Rightarrow> Requirement list option \<Rightarrow> string
   \<Rightarrow> gopanic + goerror + ExternalMetricValue list" where
  "GetExternalMetric E p now ns requirements metric =
     (case findMetric p metric of
        None \<Rightarrow> Inr (Inl (badRequest (metric @ '' is defined in OAP'')))
      | Some md \<Rightarrow>
        (case requirements of
           None \<Rightarrow> Inr (Inl (badRequest (''no selector for metric: '' @ md_Name md)))
         | Some requirement \<Rightarrow>
           (case extractValue requirement
                   (map (\<lambda>k. \<lparr>pv_key = k, pv_val = None\<rparr>) [''service'', ''label'', ''instance'', ''endpoint'']) of
              Inl panic \<Rightarrow> Inl panic
            | Inr pvs \<Rightarrow>
              (let svc = pv_val (pvs ! 0); label = pv_val (pvs ! 1);
                   instance' = pv_val (pvs ! 2); endpoint = pv_val (pvs ! 3)
               in case svc of
                    None \<Rightarrow> Inl NilDeref
                  | Some s \<Rightarrow>
                    if s = [] then Inr (Inl (badRequest (lackOfLabel (md_Name md) ''service'')))
                    else
                      (let startTime = now + (-3) * Minute;
                           endTime = now;
                           duration = \<lparr>du_Start = pe_Format E startTime, du_End = pe_Format E endTime\<rparr>;
                           entity = queryEntity svc instance' endpoint
                       in case parseScope entity of
                            Inl panic \<Rightarrow> Inl panic
                          | Inr scope \<Rightarrow>
                            (let condition = \<lparr>mc_Name = md_Name md, mc_Entity = entity\<lparr>en_Scope := scope\<rparr>\<rparr>
                             in case queryMetric E md condition label duration of
                                  Inl panic \<Rightarrow> Inl panic
                                | Inr (Inl err) \<Rightarrow> Inr (Inl err)
                                | Inr (Inr mv) \<Rightarrow>
                                  if length (mv_Values mv) < 1
                                  then Inr (Inl (pe_NotFound E (selectGroupResource ns) metric))
                                  else if length (mv_Values mv) < 2
                                  then Inr (Inl (pe_NotFound E (selectGroupResource ns) metric))
                                  else Inr (Inr [metricValue metric (mv_Values mv) endTime])))))))"

section \<open>registery.go\<close>

definition ListAllExternalMetrics :: "externalMetricsProvider \<Rightarrow> string list" where
  "ListAllExternalMetrics p = map (\<lambda>md. getMetricNameWithNamespace p (md_Name md)) (metricDefines p)"

definition updateMetrics :: "ProviderEnv \<Rightarrow> externalMetricsProvider \<Rightarrow> goerror option \<times> externalMetricsProvider" where
  "updateMetrics E p =
     (case pe_ListMetrics E (regex p) of
        Inl err \<Rightarrow> (Some err, p)
      | Inr mdd \<Rightarrow> (None, if 0 < length mdd then p\<lparr>metricDefines := mdd\<rparr> else p))"

text \<open>The refresh loop: each turn updates, an error is logged and forgotten. A run of the loop is
  the sequence of answers the OAP server gives.\<close>

fun syncRun :: "(goerror + MetricDefinition list) list \<Rightarrow> ProviderEnv \<Rightarrow> externalMetricsProvider \<Rightarrow> externalMetricsProvider" where
  "syncRun [] E p = p"
| "syncRun (a # as) E p = syncRun as E (snd (updateMetrics (E\<lparr>pe_ListMetrics := (\<lambda>_. a)\<rparr>) p))"

text \<open>The constructor. The base URL is handed to the client through a flag set; looking a flag up there
  belongs to the command line library and is a parameter, which is given the value bound to the
  flag. The list of metrics is empty until the refresh loop, started last, has had an answer.\<close>

definition stringValue_Set :: "string \<Rightarrow> goerror option \<times> string" where
  "stringValue_Set s = (None, s)"

definition stringValue_String :: "string \<Rightarrow> string" where
  "stringValue_String sv = sv"

definition NewProvider ::
  "(string \<Rightarrow> string \<Rightarrow> string) \<Rightarrow> string \<Rightarrow> string \<Rightarrow> int \<Rightarrow> string \<Rightarrow> goerror + externalMetricsProvider" where
  "NewProvider globalString baseURL metricRegex interval ns =
     (case stringValue_Set baseURL of
        (Some err, k) \<Rightarrow> Inl (ErrorString (''failed to set OAP address: '' @ Error err))
      | (None, k) \<Rightarrow>
          (let url = globalString k ''base-url''
           in if url \<noteq> stringValue_String k then Inl (ErrorString (''failed to set base-url: '' @ url))
              else Inr \<lparr>metricDefines = [], regex = metricRegex, refreshRegistryInterval = interval, namespace = ns\<rparr>))"

section \<open>Decimal indices\<close>

lemma decimalValue_snoc: "decimalValue (s @ [c]) = decimalValue s * 10 + digitVal c"
  by (simp add: decimalValue_def)

lemma decimalValue_utoa: "decimalValue (utoa n) = n"
proof (induction n rule: utoa.induct)
  case (1 n)
  show ?case
  proof (cases "n < 10")
    case True
    then show ?thesis by (simp add: utoa_small decimalValue_def)
  next
    case False
    then have "utoa n = utoa (n div 10) @ [digit (n mod 10)]" by (subst utoa.simps) simp
    with 1 [OF False] show ?thesis by (simp add: decimalValue_snoc)
  qed
qed

lemma signOf_utoa: "signOf (utoa n) = (False, utoa n)"
proof -
  obtain c cs where c: "utoa n = c # cs" by (cases "utoa n") auto
  then have "isDigit c" using utoa_digits [of c n] by simp
  then have "c \<noteq> CHR ''+''" "c \<noteq> CHR ''-''" by (auto simp: isDigit_def)
  with c show ?thesis by (simp add: signOf_def)
qed

lemma ParseInt8_utoa: "n \<le> 127 \<Longrightarrow> ParseInt8 (utoa n) = Inr (int n)"
  using utoa_digits by (auto simp: ParseInt8_def signOf_utoa decimalValue_utoa list_all_iff Let_def)

section \<open>Assembling a label value\<close>

text \<open>A piece of a value: its index, whether it is sent as hexadecimal bytes, and its text.\<close>

type_synonym piece = "nat \<times> bool \<times> string"

definition pieceReq :: "string \<Rightarrow> piece \<Rightarrow> Requirement" where
  "pieceReq key p = (case p of (i, asBytes, s) \<Rightarrow>
     \<lparr>rq_Key = Join [key, (if asBytes then labelValueTypeByte else labelValueTypeStr), utoa i] ''.'',
      rq_Any = Some (if asBytes then EncodeToString s else s)\<rparr>)"

definition entry :: "string list \<Rightarrow> nat \<Rightarrow> string" where
  "entry vv j = (if j < length vv then vv ! j else [])"

definition put :: "string list \<Rightarrow> nat \<Rightarrow> string \<Rightarrow> string list" where
  "put vv i s = (growTo vv (int i))[i := s]"

lemma length_growTo: "length (growTo vv (int i)) = max (length vv) (Suc i)"
  by (auto simp: growTo_def)

lemma entry_put: "entry (put vv i s) j = (if j = i then s else entry vv j)"
  by (auto simp: entry_def put_def length_growTo nth_list_update growTo_def nth_append)

lemma length_put: "length (put vv i s) = max (length vv) (Suc i)"
  by (simp add: put_def length_growTo)

lemma utoa_no_dot: "CHR ''.'' \<notin> set (utoa n)"
  using utoa_digits not_isDigit_dot by blast

lemma extractLoop_piece:
  assumes "CHR ''.'' \<notin> set key" and "i \<le> 127"
  shows "extractLoop key (pieceReq key (i, b, s) # rs) vv = extractLoop key rs (put vv i s)"
proof -
  have "Split (Join [key, (if b then labelValueTypeByte else labelValueTypeStr), utoa i] ''.'') CHR ''.'' =
      [key, (if b then labelValueTypeByte else labelValueTypeStr), utoa i]"
    using assms(1) utoa_no_dot by (intro Split_Join) (auto simp: labelValueTypeByte_def labelValueTypeStr_def)
  moreover have "HasPrefix (Join [key, x, y] ''.'') key" for x y by simp
  ultimately show ?thesis
    using ParseInt8_utoa [OF assms(2)]
    by (simp add: pieceReq_def bufferEntity_def Let_def put_def hexDecoder_def DecodeString_EncodeToString
        labelValueTypeByte_def labelValueTypeStr_def)
qed

lemma extractLoop_pieces:
  assumes "CHR ''.'' \<notin> set key" and "\<forall>(i, b, s) \<in> set ps. i \<le> 127"
    and "filter (\<lambda>r. HasPrefix (rq_Key r) key) rs = map (pieceReq key) ps"
  shows "extractLoop key rs vv = Inr (Inr (Join (foldl (\<lambda>vv (i, b, s). put vv i s) vv ps) []))"
  using assms(2,3)
proof (induction rs arbitrary: ps vv)
  case (Cons r rs)
  show ?case
  proof (cases "HasPrefix (rq_Key r) key")
    case True
    then obtain p ps' where ps: "ps = p # ps'" "r = pieceReq key p"
      and rest: "filter (\<lambda>r. HasPrefix (rq_Key r) key) rs = map (pieceReq key) ps'"
      using Cons.prems(2) by (cases ps) auto
    obtain i b s where p: "p = (i, b, s)" by (metis prod_cases3)
    have "i \<le> 127" using Cons.prems(1) ps p by simp
    then show ?thesis
      using Cons.IH [OF _ rest] Cons.prems(1) unfolding ps p
      by (simp add: extractLoop_piece [OF assms(1)] del: extractLoop.simps)
  next
    case False
    then show ?thesis using Cons by simp
  qed
qed simp

lemma Join_concat: "Join vv [] = concat vv"
proof (induction vv)
  case (Cons x xs)
  then show ?case by (cases xs) auto
qed simp

lemma concat_entry:
  assumes "length vv \<le> n"
  shows "concat vv = concat (map (entry vv) [0..<n])"
proof -
  have "map (entry vv) [0..<n] = vv @ replicate (n - length vv) []"
    using assms by (intro nth_equalityI) (auto simp: entry_def nth_append)
  then show ?thesis by simp
qed

lemma entry_foldl:
  assumes "distinct (map fst ps)"
  shows "entry (foldl (\<lambda>vv (i, b, s). put vv i s) vv ps) j =
    (case map_of (map (\<lambda>(i, b, s). (i, s)) ps) j of None \<Rightarrow> entry vv j | Some s \<Rightarrow> s)"
  using assms
proof (induction ps arbitrary: vv)
  case (Cons p ps)
  obtain i b s where p: "p = (i, b, s)" by (metis prod_cases3)
  have "map_of (map (\<lambda>(i, b, s). (i, s)) ps) i = None"
    using Cons.prems p by (force simp: map_of_eq_None_iff)
  then show ?case using Cons p by (auto simp: entry_put split: option.splits)
qed simp

lemma length_foldl_put:
  "\<forall>(i, b, s) \<in> set ps. i < n \<Longrightarrow> length vv \<le> n \<Longrightarrow> length (foldl (\<lambda>vv (i, b, s). put vv i s) vv ps) \<le> n"
proof (induction ps arbitrary: vv)
  case (Cons p ps)
  obtain i b s where p: "p = (i, b, s)" by (metis prod_cases3)
  then show ?case using Cons by (simp add: length_put)
qed simp



section \<open>Queries\<close>

lemma findMetric_iff: "findMetric p metric \<noteq> None \<longleftrightarrow> metric \<in> set (ListAllExternalMetrics p)"
proof -
  have "foldl (\<lambda>md m. if getMetricNameWithNamespace p (md_Name m) = metric then Some m else md) acc ms \<noteq> None
      \<longleftrightarrow> acc \<noteq> None \<or> metric \<in> set (map (\<lambda>md. getMetricNameWithNamespace p (md_Name md)) ms)" for acc ms
    by (induction ms arbitrary: acc) auto
  from this [of None "metricDefines p"] show ?thesis
    by (simp only: findMetric_def ListAllExternalMetrics_def) simp
qed

lemma metricValue_spec:
  "emv_MetricName (metricValue n vs t) = n" "emv_Value (metricValue n vs t) = max 0 (vs ! (length vs - 2))"
  "emv_Timestamp (metricValue n vs t) = (if emv_Value (metricValue n vs t) = 0 then t else t - Minute)"
  by (auto simp: metricValue_def Let_def)

text \<open>C28. A metric value. A query that succeeds asks for a listed metric and returns exactly one
  value under the name asked for: the last but one point of the series the OAP server returned,
  or zero where that is negative, stamped one minute ago, or now when it is zero.\<close>

theorem GetExternalMetric_value:
  assumes "GetExternalMetric E p now ns reqs metric = Inr (Inr items)"
  shows "metric \<in> set (ListAllExternalMetrics p) \<and>
    (\<exists>md condition label duration mv v. findMetric p metric = Some md
       \<and> queryMetric E md condition label duration = Inr (Inr mv) \<and> mc_Name condition = md_Name md
       \<and> du_End duration = pe_Format E now \<and> 2 \<le> length (mv_Values mv)
       \<and> items = [v] \<and> emv_MetricName v = metric
       \<and> emv_Value v = max 0 (mv_Values mv ! (length (mv_Values mv) - 2)) \<and> 0 \<le> emv_Value v
       \<and> emv_Timestamp v = (if emv_Value v = 0 then now else now - Minute))"
proof -
  from assms obtain md where md: "findMetric p metric = Some md"
    by (auto simp: GetExternalMetric_def split: option.splits)
  note unf = GetExternalMetric_def Let_def md
  obtain rq where rq: "reqs = Some rq"
    using assms by (auto simp: unf split: option.splits)
  obtain pvs where pvs: "extractValue rq (map (\<lambda>k. \<lparr>pv_key = k, pv_val = None\<rparr>)
      [''service'', ''label'', ''instance'', ''endpoint'']) = Inr pvs"
    using assms by (auto simp: unf rq split: sum.splits)
  obtain s where s: "pv_val (pvs ! 0) = Some s" "s \<noteq> []"
    using assms by (auto simp: unf rq pvs [simplified] split: option.splits if_splits)
  let ?e = "queryEntity (pv_val (pvs ! 0)) (pv_val (pvs ! 2)) (pv_val (pvs ! 3))"
  obtain scope where scope: "parseScope ?e = Inr scope"
    using assms by (auto simp: unf rq pvs [simplified] s split: sum.splits)
  let ?c = "\<lparr>mc_Name = md_Name md, mc_Entity = ?e\<lparr>en_Scope := scope\<rparr>\<rparr>"
    and ?d = "\<lparr>du_Start = pe_Format E (now + (-3) * Minute), du_End = pe_Format E now\<rparr>"
  obtain mv where mv: "queryMetric E md ?c (pv_val (pvs ! 1)) ?d = Inr (Inr mv)"
    using assms by (auto simp: unf rq pvs [simplified] s scope [unfolded s] split: sum.splits)
  have "2 \<le> length (mv_Values mv) \<and> items = [metricValue metric (mv_Values mv) now]"
    using assms by (auto simp: unf rq pvs [simplified] s scope [unfolded s] mv [unfolded s, simplified]
        split: if_splits)
  then show ?thesis
    using findMetric_iff [of p metric] md mv
    by (intro conjI exI [of _ md] exI [of _ ?c] exI [of _ "pv_val (pvs ! 1)"] exI [of _ ?d] exI [of _ mv]
        exI [of _ "metricValue metric (mv_Values mv) now"]) (simp_all add: metricValue_spec)
qed

text \<open>A provider with one metric whose series is \<open>3, 5, 8\<close>.\<close>

definition demoProvider :: externalMetricsProvider where
  "demoProvider = \<lparr>metricDefines = [\<lparr>md_Name = ''cpm'', md_Type = MetricsTypeRegularValue\<rparr>], regex = ''.*'',
     refreshRegistryInterval = 10000000000, namespace = ''ns''\<rparr>"

definition demoProviderEnv :: ProviderEnv where
  "demoProviderEnv = \<lparr>pe_LinearIntValues = (\<lambda>c d. Inr \<lparr>mv_Label = None, mv_Values = [3, 5, 8]\<rparr>),
     pe_MultipleLinearIntValues = (\<lambda>c l d. Inr []), pe_ListMetrics = (\<lambda>r. Inr []), pe_Format = (\<lambda>t. []),
     pe_NotFound = (\<lambda>g n. StatusError NotFound n)\<rparr>"

lemma demoMetric:
  "GetExternalMetric demoProviderEnv demoProvider 0 ''ns'' (Some [\<lparr>rq_Key = ''service'', rq_Any = Some ''a''\<rparr>]) ''ns|cpm''
     = Inr (Inr [\<lparr>emv_MetricName = ''ns|cpm'', emv_Timestamp = - Minute, emv_Value = 5\<rparr>])"
  by (simp add: GetExternalMetric_def findMetric_def demoProvider_def getMetricNameWithNamespace_def
      paramValue_extractValue_def HasPrefix_def bufferEntity_def growTo_def queryEntity_def parseScope_def ifSet_def
      queryMetric_def demoProviderEnv_def metricValue_def Let_def numeral_eq_Suc)

theorem GetExternalMetric_value_witness: "''ns|cpm'' \<in> set (ListAllExternalMetrics demoProvider)"
  using GetExternalMetric_value [OF demoMetric] by blast

text \<open>A label the adapter cannot parse is fatal. When the value of \<open>service\<close> cannot be extracted
  (a key with two components, an index that is not an eight bit number, malformed hexadecimal
  text), the error is only logged and the nil value is dereferenced: the query ends in a panic,
  not in an error; and a negative index panics already while the value is put together.\<close>

theorem bad_service_label_panics:
  assumes "findMetric p metric = Some md"
    and "extractLoop ''service'' rs (replicate 10 []) = Inr (Inl err) \<or>
         (\<exists>r rest kind i v. rs = r # rest \<and> rq_Key r = Join [''service'', kind, ''-'' @ utoa (Suc i)] ''.''
            \<and> rq_Any r = Some v \<and> kind = labelValueTypeStr \<and> i < 128)"
  shows "\<exists>panic. GetExternalMetric E p now ns (Some rs) metric = Inl panic"
  using assms(2)
proof
  assume e: "extractLoop ''service'' rs (replicate 10 []) = Inr (Inl err)"
  then have "paramValue_extractValue \<lparr>pv_key = ''service'', pv_val = None\<rparr> rs =
      Inr (Some err, \<lparr>pv_key = ''service'', pv_val = None\<rparr>)"
    by (simp add: paramValue_extractValue_def)
  then have "case extractValue rs (map (\<lambda>k. \<lparr>pv_key = k, pv_val = None\<rparr>)
      [''service'', ''label'', ''instance'', ''endpoint'']) of Inl panic \<Rightarrow> True | Inr pvs \<Rightarrow> pv_val (pvs ! 0) = None"
    by (auto split: sum.splits)
  then show ?thesis by (auto simp: GetExternalMetric_def assms(1) Let_def split: sum.splits)
next
  assume "\<exists>r rest kind i v. rs = r # rest \<and> rq_Key r = Join [''service'', kind, ''-'' @ utoa (Suc i)] ''.''
            \<and> rq_Any r = Some v \<and> kind = labelValueTypeStr \<and> i < 128"
  then obtain r rest i v where rs: "rs = r # rest"
    and key: "rq_Key r = Join [''service'', labelValueTypeStr, ''-'' @ utoa (Suc i)] ''.''"
    and v: "rq_Any r = Some v" "i < 128" by blast
  have sp: "Split (rq_Key r) CHR ''.'' = [''service'', labelValueTypeStr, ''-'' @ utoa (Suc i)]"
    unfolding key using utoa_no_dot by (intro Split_Join) (auto simp: labelValueTypeStr_def)
  have pi: "ParseInt8 (''-'' @ utoa (Suc i)) = Inr (- int (Suc i))"
    using v(2) utoa_digits by (auto simp: ParseInt8_def signOf_def decimalValue_utoa list_all_iff Let_def)
  have "HasPrefix (rq_Key r) ''service''" unfolding key by (simp add: HasPrefix_def)
  then have "extractLoop ''service'' rs (replicate 10 []) = Inl IndexOutOfRange"
    using pi by (simp add: rs sp v(1) bufferEntity_def Let_def labelValueTypeStr_def)
  then show ?thesis by (simp add: GetExternalMetric_def assms(1) paramValue_extractValue_def)
qed

theorem bad_service_label_panics_witness:
  "\<exists>panic. GetExternalMetric demoProviderEnv demoProvider 0 ''ns''
     (Some [\<lparr>rq_Key = ''service.str'', rq_Any = Some ''a''\<rparr>]) ''ns|cpm'' = Inl panic"
proof (rule bad_service_label_panics)
  show "findMetric demoProvider ''ns|cpm'' = Some \<lparr>md_Name = ''cpm'', md_Type = MetricsTypeRegularValue\<rparr>"
    by (simp add: findMetric_def demoProvider_def getMetricNameWithNamespace_def)
  have "extractLoop ''service'' [\<lparr>rq_Key = ''service.str'', rq_Any = Some ''a''\<rparr>] (replicate 10 []) =
      Inr (Inl (ErrorString ''invalid label key:service.str''))"
    by (simp add: HasPrefix_def)
  then show "extractLoop ''service'' [\<lparr>rq_Key = ''service.str'', rq_Any = Some ''a''\<rparr>] (replicate 10 []) =
      Inr (Inl (ErrorString ''invalid label key:service.str'')) \<or>
      (\<exists>r rest kind i v. [\<lparr>rq_Key = ''service.str'', rq_Any = Some ''a''\<rparr>] = r # rest \<and>
        rq_Key r = Join [''service'', kind, ''-'' @ utoa (Suc i)] ''.''
            \<and> rq_Any r = Some v \<and> kind = labelValueTypeStr \<and> i < 128)" by blast
qed

section \<open>The registry\<close>

text \<open>The answers that replace the registry: successful and not empty.\<close>

definition effective :: "(goerror + MetricDefinition list) list \<Rightarrow> MetricDefinition list list" where
  "effective as = filter (\<lambda>m. m \<noteq> []) (concat (map (\<lambda>a. case a of Inl e \<Rightarrow> [] | Inr m \<Rightarrow> [m]) as))"

lemma syncRun_defines: "metricDefines (syncRun as E p) = last (metricDefines p # effective as)"
proof (induction "as" arbitrary: p E)
  case (Cons a as)
  then show ?case by (cases a) (auto simp: effective_def updateMetrics_def)
qed (simp add: effective_def)

lemma syncRun_namespace: "namespace (syncRun as E p) = namespace p"
  by (induction "as" E p rule: syncRun.induct) (auto simp: updateMetrics_def split: sum.splits)

text \<open>C29. The registry of metrics. After any sequence of refreshes the listed metrics are those of
  the last successful, non-empty answer of the OAP server (failed and empty answers change
  nothing), every listed metric is one the provider can look up, and any other name is answered
  with a bad request.\<close>

theorem registry_refresh:
  "ListAllExternalMetrics (syncRun as E p) =
     map (\<lambda>md. namespace p @ ''|'' @ md_Name md) (last (metricDefines p # effective as))
   \<and> (\<forall>metric. metric \<in> set (ListAllExternalMetrics (syncRun as E p)) \<longleftrightarrow>
        findMetric (syncRun as E p) metric \<noteq> None)
   \<and> (\<forall>metric E' now ns reqs. metric \<notin> set (ListAllExternalMetrics (syncRun as E p)) \<longrightarrow>
        GetExternalMetric E' (syncRun as E p) now ns reqs metric = Inr (Inl (badRequest (metric @ '' is defined in OAP''))))"
proof (intro conjI allI impI)
  show "ListAllExternalMetrics (syncRun as E p) =
     map (\<lambda>md. namespace p @ ''|'' @ md_Name md) (last (metricDefines p # effective as))"
    unfolding ListAllExternalMetrics_def getMetricNameWithNamespace_def syncRun_namespace syncRun_defines by simp
  show "metric \<in> set (ListAllExternalMetrics (syncRun as E p)) \<longleftrightarrow> findMetric (syncRun as E p) metric \<noteq> None" for metric
    using findMetric_iff by blast
  fix metric E' now ns reqs
  assume "metric \<notin> set (ListAllExternalMetrics (syncRun as E p))"
  then have "findMetric (syncRun as E p) metric = None" using findMetric_iff by blast
  then show "GetExternalMetric E' (syncRun as E p) now ns reqs metric = Inr (Inl (badRequest (metric @ '' is defined in OAP'')))"
    by (simp add: GetExternalMetric_def)
qed

theorem registry_refresh_witness:
  "GetExternalMetric demoProviderEnv (syncRun [Inr []] demoProviderEnv demoProvider) 0 ''ns'' None ''other''
     = Inr (Inl (badRequest (''other'' @ '' is defined in OAP'')))"
proof -
  have "''other'' \<notin> set (ListAllExternalMetrics (syncRun [Inr []] demoProviderEnv demoProvider))"
    by (simp add: ListAllExternalMetrics_def demoProvider_def getMetricNameWithNamespace_def updateMetrics_def)
  then show ?thesis using registry_refresh [of "[Inr []]" demoProviderEnv demoProvider] by blast
qed

end
