(* ===== verification/Adapter_Main.thy ===== *)
theory Adapter_Main
  imports Provider
begin

text \<open>
  The entry point of the metrics adapter, \<open>adapter/main.go\<close>: its flags with their defaults, building the
  provider of \<open>Provider\<close> from them, and running the API server. Splitting the command line into flags
  (pflag), parsing durations, the command line context and the server are parameters.
\<close>

record Adapter =
  ad_Name :: string
  ad_Title :: string
  ad_Version :: string
  BaseURL :: string
  MetricRegex :: string
  RefreshRegistryInterval :: int
  ad_Message :: string
  ad_Namespace :: string

definition newAdapter :: Adapter where
  "newAdapter =
     \<lparr>ad_Name = ''apache-skywalking-adapter'', ad_Title = ''apache-skywalking-adapter'', ad_Version = ''1.0.0'',
      BaseURL = ''http://oap:12800/graphql'', MetricRegex = [], RefreshRegistryInterval = 10 * 1000000000,
      ad_Message = ''starting adapter...'', ad_Namespace = ''skywalking.apache.org''\<rparr>"

text \<open>One flag of the command line. Flags of the server and of the logging library do not touch the
  adapter's own fields.\<close>

definition setFlag :: "(string \<Rightarrow> goerror + int) \<Rightarrow> string \<Rightarrow> string \<Rightarrow> Adapter \<Rightarrow> goerror + Adapter" where
  "setFlag parseDuration name val cmd =
     (if name = ''msg'' then Inr (cmd\<lparr>ad_Message := val\<rparr>)
      else if name = ''oap-addr'' then Inr (cmd\<lparr>BaseURL := val\<rparr>)
      else if name = ''metric-filter-regex'' then Inr (cmd\<lparr>MetricRegex := val\<rparr>)
      else if name = ''namespace'' then Inr (cmd\<lparr>ad_Namespace := val\<rparr>)
      else if name = ''refresh-interval'' then
        (case parseDuration val of Inl err \<Rightarrow> Inl err | Inr d \<Rightarrow> Inr (cmd\<lparr>RefreshRegistryInterval := d\<rparr>))
      else Inr cmd)"

fun setFlags :: "(string \<Rightarrow> goerror + int) \<Rightarrow> (string \<times> string) list \<Rightarrow> Adapter \<Rightarrow> goerror + Adapter" where
  "setFlags parseDuration [] cmd = Inr cmd"
| "setFlags parseDuration ((name, val) # given) cmd =
     (case setFlag parseDuration name val cmd of Inl err \<Rightarrow> Inl err | Inr cmd \<Rightarrow> setFlags parseDuration given cmd)"

record 'w AdapterEnv =
  ae_Flags :: "string list \<Rightarrow> goerror + (string \<times> string) list"
  ae_ParseDuration :: "string \<Rightarrow> goerror + int"
  ae_GlobalString :: "string \<Rightarrow> string \<Rightarrow> string"
  ae_Run :: "Adapter \<Rightarrow> externalMetricsProvider \<Rightarrow> 'w \<Rightarrow> goerror option \<times> 'w"

datatype adapterOutcome = AdapterReturned | AdapterFatal string

definition adapterMain :: "'w AdapterEnv \<Rightarrow> string list \<Rightarrow> 'w \<Rightarrow> adapterOutcome \<times> 'w" where
  "adapterMain env args w =
     (case (case ae_Flags env args of Inl err \<Rightarrow> Inl err | Inr given \<Rightarrow> setFlags (ae_ParseDuration env) given newAdapter) of
        Inl err \<Rightarrow> (AdapterFatal (''failed to parse arguments: '' @ Error err), w)
      | Inr cmd \<Rightarrow>
          (case NewProvider (ae_GlobalString env) (BaseURL cmd) (MetricRegex cmd) (RefreshRegistryInterval cmd) (ad_Namespace cmd) of
             Inl err \<Rightarrow> (AdapterFatal (''unable to build p: '' @ Error err), w)
           | Inr p \<Rightarrow>
               (case ae_Run env cmd p w of
                  (Some err, w) \<Rightarrow> (AdapterFatal (''unable to run custom metrics adapter: '' @ Error err), w)
                | (None, w) \<Rightarrow> (AdapterReturned, w))))"

section \<open>The flags\<close>

text \<open>The value of a flag: the last one given, or the default.\<close>

definition lastGiven :: "(string \<times> string) list \<Rightarrow> string \<Rightarrow> string \<Rightarrow> string" where
  "lastGiven given name d = last (d # map snd (filter (\<lambda>g. fst g = name) given))"

lemma lastGiven_Cons [simp]:
  "lastGiven [] name d = d"
  "lastGiven ((n, v) # given) name d = (if n = name then lastGiven given name v else lastGiven given name d)"
  by (auto simp: lastGiven_def)

text \<open>The first interval that is not a duration, and the last of the intervals.\<close>

definition badInterval :: "(string \<Rightarrow> goerror + int) \<Rightarrow> (string \<times> string) list \<Rightarrow> goerror option" where
  "badInterval parseDuration given =
     (case List.map_filter (\<lambda>(n, v). if n = ''refresh-interval'' then case_sum Some (\<lambda>_. None) (parseDuration v) else None) given of
        [] \<Rightarrow> None
      | err # _ \<Rightarrow> Some err)"

definition intervalOf :: "(string \<Rightarrow> goerror + int) \<Rightarrow> (string \<times> string) list \<Rightarrow> int \<Rightarrow> int" where
  "intervalOf parseDuration given d =
     last (d # List.map_filter (\<lambda>(n, v). if n = ''refresh-interval'' then case_sum (\<lambda>_. None) Some (parseDuration v) else None) given)"

lemma setFlags_eq:
  "setFlags pd given cmd =
     (case badInterval pd given of
        Some err \<Rightarrow> Inl err
      | None \<Rightarrow> Inr (cmd\<lparr>ad_Message := lastGiven given ''msg'' (ad_Message cmd), BaseURL := lastGiven given ''oap-addr'' (BaseURL cmd),
          MetricRegex := lastGiven given ''metric-filter-regex'' (MetricRegex cmd),
          ad_Namespace := lastGiven given ''namespace'' (ad_Namespace cmd),
          RefreshRegistryInterval := intervalOf pd given (RefreshRegistryInterval cmd)\<rparr>))"
proof (induction given arbitrary: cmd)
  case Nil
  then show ?case by (simp add: badInterval_def intervalOf_def List.map_filter_def)
next
  case (Cons g given)
  obtain n v where g: "g = (n, v)" by force
  show ?case
    using Cons.IH unfolding g
    by (auto simp: setFlag_def badInterval_def intervalOf_def List.map_filter_def split: sum.splits option.splits)
qed

text \<open>What the adapter serves. When the command line is well-formed and every refresh interval on it
  a duration, one server is run, with the provider for the last value given of each flag (its default when there is
  none), starting with an empty registry; otherwise nothing is run and the process ends with
  the error. What the server answers decides how the process ends.\<close>

theorem adapterMain_serves:
  assumes "\<And>k n. ae_GlobalString env k n = k"
  shows "adapterMain env args w =
    (case ae_Flags env args of
       Inl err \<Rightarrow> (AdapterFatal (''failed to parse arguments: '' @ Error err), w)
     | Inr given \<Rightarrow>
         (case badInterval (ae_ParseDuration env) given of
            Some err \<Rightarrow> (AdapterFatal (''failed to parse arguments: '' @ Error err), w)
          | None \<Rightarrow>
              (let p = \<lparr>metricDefines = [], regex = lastGiven given ''metric-filter-regex'' [],
                        refreshRegistryInterval = intervalOf (ae_ParseDuration env) given 10000000000,
                        namespace = lastGiven given ''namespace'' ''skywalking.apache.org''\<rparr>;
                   cmd = newAdapter\<lparr>ad_Message := lastGiven given ''msg'' ''starting adapter...'',
                        BaseURL := lastGiven given ''oap-addr'' ''http://oap:12800/graphql'', MetricRegex := regex p,
                        ad_Namespace := namespace p, RefreshRegistryInterval := refreshRegistryInterval p\<rparr>
               in case ae_Run env cmd p w of
                    (Some err, w') \<Rightarrow> (AdapterFatal (''unable to run custom metrics adapter: '' @ Error err), w')
                  | (None, w') \<Rightarrow> (AdapterReturned, w'))))"
proof (cases "ae_Flags env args")
  case (Inr given)
  show ?thesis
  proof (cases "badInterval (ae_ParseDuration env) given")
    case None
    show ?thesis
      unfolding adapterMain_def Inr sum.case setFlags_eq None option.case Let_def NewProvider_def assms
      by (simp add: stringValue_Set_def stringValue_String_def newAdapter_def)
  qed (simp add: adapterMain_def Inr setFlags_eq)
qed (simp add: adapterMain_def)

theorem adapterMain_serves_witness:
  "adapterMain \<lparr>ae_Flags = \<lambda>args. Inr [(''namespace'', ''a''), (''v'', ''3''), (''namespace'', ''b'')],
      ae_ParseDuration = \<lambda>t. Inl (ErrorString t), ae_GlobalString = \<lambda>k n. k,
      ae_Run = \<lambda>cmd p w. (None, w @ [(BaseURL cmd, namespace p)])\<rparr> [] []
    = (AdapterReturned, [(''http://oap:12800/graphql'', ''b'')])"
  by (subst adapterMain_serves)
    (simp_all add: badInterval_def intervalOf_def List.map_filter_def newAdapter_def Let_def)

end
