(* ===== verification/Go_Heap.thy ===== *)
theory Go_Heap
  imports Prelude "HOL-Library.AList"
begin

text \<open>
  Go memory for code whose meaning depends on aliasing, as the generated \<open>DeepCopy\<close> functions do. The
  heap is a list of cells, an address is an index and an allocation appends a cell. A cell is the
  array behind slices and pointers or the table of a map. A slice is an array with an offset and
  a length, a pointer an array with an index, and nil slices, maps and pointers are values of
  their own, as Go tells a nil slice from an empty one.

  A type of the program is a term of \<open>gtype\<close>. \<open>view T h v\<close> reads a value of type \<open>T\<close> out of the heap:
  the tree of everything it denotes and the addresses that were read, or \<open>None\<close> where the value is
  not of that type or points outside the heap. A \<open>deepCopier\<close> for a type returns a value with the
  same tree that is read from newly allocated cells alone and leaves the cells there were as
  they were. The rules below say which code fragments of the generated functions are such.
\<close>

named_theorems deep_intros \<open>introduction rules for deep copiers\<close>

section \<open>Memory\<close>

datatype plain = PString string | PInt int | PBool bool

datatype gval =
    Plain plain
  | Struct "(string \<times> gval) list"
  | Slice "(nat \<times> nat \<times> nat) option"
  | Pointer "(nat \<times> nat) option"
  | GoMap "nat option"

datatype cell = Arr "gval list" | Table "(string \<times> gval) list"

type_synonym heap = "cell list"

type_synonym copier = "gval \<Rightarrow> heap \<Rightarrow> gval \<times> heap"

definition cellAt :: "heap \<Rightarrow> nat \<Rightarrow> cell option" where
  "cellAt h a = (if a < length h then Some (h ! a) else None)"

definition arrayAt :: "heap \<Rightarrow> nat \<Rightarrow> gval list" where
  "arrayAt h a = (case cellAt h a of Some (Arr vs) \<Rightarrow> vs | _ \<Rightarrow> [])"

definition tableAt :: "heap \<Rightarrow> nat \<Rightarrow> (string \<times> gval) list" where
  "tableAt h a = (case cellAt h a of Some (Table es) \<Rightarrow> es | _ \<Rightarrow> [])"

text \<open>The elements a slice shows: its window on the array.\<close>

definition window :: "heap \<Rightarrow> nat \<Rightarrow> nat \<Rightarrow> nat \<Rightarrow> gval list" where
  "window h a i n = take n (drop i (arrayAt h a))"

text \<open>What \<open>new\<close> and \<open>make\<close> fill an array with: every element is written before it is read.\<close>

definition zeroValue :: gval where
  "zeroValue = Struct []"

text \<open>Reading and assigning a field of a struct value.\<close>

definition fieldOf :: "gval \<Rightarrow> string \<Rightarrow> gval" where
  "fieldOf v f = (case v of Struct fs \<Rightarrow> (case map_of fs f of Some x \<Rightarrow> x | None \<Rightarrow> zeroValue)
     | _ \<Rightarrow> zeroValue)"

definition setField :: "gval \<Rightarrow> string \<Rightarrow> gval \<Rightarrow> gval" where
  "setField v f x = (case v of
       Struct fs \<Rightarrow> Struct (map (\<lambda>(g, y). (g, if g = f then x else y)) fs)
     | _ \<Rightarrow> v)"

section \<open>The fragments of a copy function\<close>

text \<open>\<open>out.F = in.F\<close>: the value itself, with every reference in it shared.\<close>

definition assign :: copier where
  "assign v h = (v, h)"

text \<open>\<open>*out = make([]T, len(*in)); copy(*out, *in)\<close>, under the test for nil.\<close>

definition makeAndCopy :: copier where
  "makeAndCopy v h = (case v of
       Slice (Some (a, i, n)) \<Rightarrow> (Slice (Some (length h, 0, n)), h @ [Arr (window h a i n)])
     | _ \<Rightarrow> (v, h))"

text \<open>\<open>for i := range *in { (*in)[i].DeepCopyInto(&(*out)[i]) }\<close>, from index \<open>i\<close> on.\<close>

fun copyLoop :: "copier \<Rightarrow> nat \<Rightarrow> nat \<Rightarrow> gval list \<Rightarrow> heap \<Rightarrow> heap" where
  "copyLoop c out i [] h = h"
| "copyLoop c out i (v # vs) h =
     (let (v', h') = c v h
      in copyLoop c out (Suc i) vs (h'[out := Arr ((arrayAt h' out)[i := v'])]))"

text \<open>\<open>*out = make([]T, len(*in))\<close> and the loop, under the test for nil.\<close>

definition makeAndLoop :: "copier \<Rightarrow> copier" where
  "makeAndLoop c v h = (case v of
       Slice (Some (a, i, n)) \<Rightarrow>
         (Slice (Some (length h, 0, n)),
          copyLoop c (length h) 0 (window h a i n) (h @ [Arr (replicate n zeroValue)]))
     | _ \<Rightarrow> (v, h))"

text \<open>\<open>*out = make(map[string]string, len(*in)); for key, val := range *in { (*out)[key] = val }\<close>, under
  the test for nil; \<open>order\<close> gives the sequence in which the loop visits the entries.\<close>

definition makeAndRange :: "((string \<times> gval) list \<Rightarrow> (string \<times> gval) list) \<Rightarrow> copier" where
  "makeAndRange order v h = (case v of
       GoMap (Some a) \<Rightarrow>
         (GoMap (Some (length h)),
          fold (\<lambda>(key, val) h'. h'[length h := Table (AList.update key val (tableAt h' (length h)))])
            (order (tableAt h a)) (h @ [Table []]))
     | _ \<Rightarrow> (v, h))"

text \<open>\<open>if in == nil { return nil }; out := new(T); in.DeepCopyInto(out); return out\<close>, the body of every
  \<open>DeepCopy\<close>, and the same with \<open>**out = **in\<close> or \<open>(*in).DeepCopyInto(*out)\<close> for a pointer field.\<close>

definition newAndCopy :: "copier \<Rightarrow> copier" where
  "newAndCopy c v h = (case v of
       Pointer (Some (a, i)) \<Rightarrow>
         (let (v', h') = c (arrayAt h a ! i) (h @ [Arr [zeroValue]])
          in (Pointer (Some (length h, 0)), h'[length h := Arr [v']]))
     | _ \<Rightarrow> (v, h))"

text \<open>The body of a \<open>DeepCopyInto\<close>: \<open>*out = *in\<close>, then one statement for each of some fields, in order.\<close>

definition fieldStep :: "gval \<Rightarrow> string \<times> copier \<Rightarrow> gval \<times> heap \<Rightarrow> gval \<times> heap" where
  "fieldStep src s oh = (case (s, oh) of ((f, c), (out, h)) \<Rightarrow>
     (let (x, h') = c (fieldOf src f) h in (setField out f x, h')))"

definition copyFields :: "(string \<times> copier) list \<Rightarrow> copier" where
  "copyFields stmts src h = fold (fieldStep src) stmts (src, h)"

text \<open>The body of every \<open>DeepCopyObject\<close>: an interface value, its dynamic type and its pointer, or the nil
  interface where \<open>DeepCopy\<close> gives a nil pointer.\<close>

type_synonym iface = "(string \<times> gval) option"

definition asObject :: "string \<Rightarrow> copier \<Rightarrow> gval \<Rightarrow> heap \<Rightarrow> iface \<times> heap" where
  "asObject k c v h = (let (p, h') = c v h
     in (if p \<noteq> Pointer None then Some (k, p) else None, h'))"

section \<open>Types and what a value denotes\<close>

datatype gtype =
    TPlain
  | TStruct "(string \<times> gtype) list"
  | TSlice gtype
  | TPointer gtype
  | TMap gtype

datatype gtree =
    VPlain plain
  | VStruct "(string \<times> gtree) list"
  | VSlice "gtree list option"
  | VPointer "gtree option"
  | VMap "(string \<rightharpoonup> gtree) option"

type_synonym reading = "(gtree \<times> nat list) option"

text \<open>Readings of the parts put together: the trees in order and all addresses.\<close>

definition gather :: "(gtree list \<Rightarrow> gtree) \<Rightarrow> nat list \<Rightarrow> reading list \<Rightarrow> reading" where
  "gather mk as rs = map_option (\<lambda>ps. (mk (map fst ps), as @ concat (map snd ps))) (those rs)"

definition viewStruct :: "(string \<times> (heap \<Rightarrow> gval \<Rightarrow> reading)) list \<Rightarrow> heap \<Rightarrow> gval \<Rightarrow> reading" where
  "viewStruct rs h v = (case v of
       Struct fs \<Rightarrow> (if map fst fs = map fst rs
         then gather (\<lambda>ts. VStruct (zip (map fst rs) ts)) []
                (map2 (\<lambda>r f. snd r h (snd f)) rs fs)
         else None)
     | _ \<Rightarrow> None)"

primrec view :: "gtype \<Rightarrow> heap \<Rightarrow> gval \<Rightarrow> reading" where
  "view TPlain = (\<lambda>h v. case v of Plain p \<Rightarrow> Some (VPlain p, []) | _ \<Rightarrow> None)"
| "view (TStruct fs) = viewStruct (map (map_prod id view) fs)"
| "view (TSlice T) = (\<lambda>h v. case v of
       Slice None \<Rightarrow> Some (VSlice None, [])
     | Slice (Some (a, i, n)) \<Rightarrow>
         (case cellAt h a of
            Some (Arr vs) \<Rightarrow> (if i + n \<le> length vs
              then gather (\<lambda>ts. VSlice (Some ts)) [a] (map (view T h) (take n (drop i vs))) else None)
          | _ \<Rightarrow> None)
     | _ \<Rightarrow> None)"
| "view (TPointer T) = (\<lambda>h v. case v of
       Pointer None \<Rightarrow> Some (VPointer None, [])
     | Pointer (Some (a, i)) \<Rightarrow>
         (case cellAt h a of
            Some (Arr vs) \<Rightarrow> (if i < length vs
              then map_option (\<lambda>(t, as). (VPointer (Some t), a # as)) (view T h (vs ! i)) else None)
          | _ \<Rightarrow> None)
     | _ \<Rightarrow> None)"
| "view (TMap T) = (\<lambda>h v. case v of
       GoMap None \<Rightarrow> Some (VMap None, [])
     | GoMap (Some a) \<Rightarrow>
         (case cellAt h a of
            Some (Table es) \<Rightarrow> (if distinct (map fst es)
              then gather (\<lambda>ts. VMap (Some (map_of (zip (map fst es) ts)))) [a]
                     (map (\<lambda>e. view T h (snd e)) es) else None)
          | _ \<Rightarrow> None)
     | _ \<Rightarrow> None)"

text \<open>Types whose values hold no reference, which an assignment copies.\<close>

primrec flat :: "gtype \<Rightarrow> bool" where
  "flat TPlain = True"
| "flat (TStruct fs) = list_all snd (map (map_prod id flat) fs)"
| "flat (TSlice T) = False"
| "flat (TPointer T) = False"
| "flat (TMap T) = False"

section \<open>Deep copies\<close>

definition extends :: "heap \<Rightarrow> heap \<Rightarrow> bool" where
  "extends h h' \<longleftrightarrow> length h \<le> length h' \<and> take (length h) h' = h"

definition deepCopier :: "gtype \<Rightarrow> copier \<Rightarrow> bool" where
  "deepCopier T c \<longleftrightarrow> (\<forall>h v t as. view T h v = Some (t, as) \<longrightarrow>
     extends h (snd (c v h)) \<and>
     (\<exists>bs. view T (snd (c v h)) (fst (c v h)) = Some (t, bs) \<and> (\<forall>b \<in> set bs. length h \<le> b)))"

text \<open>A \<open>DeepCopyObject\<close> of kind \<open>k\<close> whose \<open>DeepCopy\<close> rests on a deep copier.\<close>

definition deepObject :: "string \<Rightarrow> gtype \<Rightarrow> (gval \<Rightarrow> heap \<Rightarrow> iface \<times> heap) \<Rightarrow> bool" where
  "deepObject k T f \<longleftrightarrow> (\<exists>c. f = asObject k (newAndCopy c) \<and> deepCopier T c)"

text \<open>Every order in which the range loop may visit the entries gives the same map.\<close>

definition rangesTables :: "((string \<times> gval) list \<Rightarrow> (string \<times> gval) list) \<Rightarrow> bool" where
  "rangesTables order \<longleftrightarrow> (\<forall>es. distinct (map fst es) \<longrightarrow> ranges (map_of es) (order es))"

text \<open>Two heaps with the same cells at some addresses.\<close>

definition agreeOn :: "nat set \<Rightarrow> heap \<Rightarrow> heap \<Rightarrow> bool" where
  "agreeOn A h h' \<longleftrightarrow> (\<forall>a \<in> A. cellAt h a = cellAt h' a)"

text \<open>The part of a struct's reading that belongs to one field: its type and its value.\<close>

definition viewField :: "heap \<Rightarrow> (string \<times> gtype) \<times> (string \<times> gval) \<Rightarrow> reading" where
  "viewField h x = view (snd (fst x)) h (snd (snd x))"

text \<open>Two readings with the same tree, the second from addresses not below a bound.\<close>

definition sameTree :: "nat \<Rightarrow> reading \<Rightarrow> reading \<Rightarrow> bool" where
  "sameTree n r r' \<longleftrightarrow>
     (\<exists>t as bs. r = Some (t, as) \<and> r' = Some (t, bs) \<and> (\<forall>b \<in> set bs. n \<le> b))"

text \<open>What a \<open>DeepCopyInto\<close> has established after the statements for the fields \<open>D\<close>: those fields of \<open>out\<close> are
  copies of the fields of \<open>in\<close>, the others still have the value \<open>*out = *in\<close> gave them.\<close>

definition copiedSoFar ::
  "(string \<times> gtype) list \<Rightarrow> heap \<Rightarrow> (string \<times> gval) list \<Rightarrow> string set \<Rightarrow> heap \<Rightarrow> (string \<times> gval) list \<Rightarrow> bool" where
  "copiedSoFar fs base vs D h ws \<longleftrightarrow> extends base h \<and> map fst ws = map fst fs \<and>
     (\<forall>j < length fs. if fst (fs ! j) \<in> D
        then sameTree (length base) (viewField base (fs ! j, vs ! j)) (viewField h (fs ! j, ws ! j))
        else snd (ws ! j) = snd (vs ! j))"

section \<open>Lemmas on readings\<close>

lemma gather_Some:
  "gather mk as rs = Some (t, bs) \<longleftrightarrow>
     (\<exists>ps. those rs = Some ps \<and> t = mk (map fst ps) \<and> bs = as @ concat (map snd ps))"
  by (auto simp: gather_def)

lemma those_Some: "those rs = Some ps \<longleftrightarrow> rs = map Some ps"
  by (induction rs arbitrary: ps) (auto split: option.splits simp: Cons_eq_map_conv)

lemma gather_frame:
  assumes "gather mk as (map f xs) = Some (t, bs)"
    and "\<And>x u cs. x \<in> set xs \<Longrightarrow> f x = Some (u, cs) \<Longrightarrow> set cs \<subseteq> set bs \<Longrightarrow> g x = Some (u, cs)"
  shows "gather mk as (map g xs) = Some (t, bs)"
proof -
  obtain ps where ps: "map f xs = map Some ps" "t = mk (map fst ps)" "bs = as @ concat (map snd ps)"
    using assms(1) by (auto simp: gather_Some those_Some)
  have "map g xs = map Some ps"
  proof (rule nth_equalityI)
    show "length (map g xs) = length (map Some ps)"
      using arg_cong [OF ps(1), of length] by simp
    fix i assume i: "i < length (map g xs)"
    have f: "f (xs ! i) = Some (ps ! i)" "i < length ps"
      using arg_cong [OF ps(1), of "\<lambda>l. l ! i"] arg_cong [OF ps(1), of length] i by auto
    have "set (snd (ps ! i)) \<subseteq> set bs"
      using f(2) ps(3) by auto
    then have "g (xs ! i) = Some (ps ! i)"
      using assms(2) [of "xs ! i" "fst (ps ! i)" "snd (ps ! i)"] f i by auto
    then show "map g xs ! i = map Some ps ! i" using f(2) i by simp
  qed
  then show ?thesis using ps by (auto simp: gather_Some those_Some)
qed

lemma gather_addresses:
  assumes "gather mk as (map f xs) = Some (t, bs)" and "b \<in> set bs"
  obtains "b \<in> set as" | x u cs where "x \<in> set xs" "f x = Some (u, cs)" "b \<in> set cs"
proof -
  obtain ps where ps: "map f xs = map Some ps" "bs = as @ concat (map snd ps)"
    using assms(1) by (auto simp: gather_Some those_Some)
  show thesis
  proof (cases "b \<in> set as")
    case False
    then obtain p where p: "p \<in> set ps" "b \<in> set (snd p)" using ps(2) assms(2) by auto
    then have "Some p \<in> set (map f xs)" unfolding ps(1) by simp
    then obtain x where "x \<in> set xs" "f x = Some (fst p, snd p)" by force
    then show thesis using that(2) p(2) by blast
  qed (rule that(1))
qed

lemma gtype_induct [case_names TPlain TStruct TSlice TPointer TMap]:
  assumes "P TPlain" and "\<And>fs. (\<And>n T. (n, T) \<in> set fs \<Longrightarrow> P T) \<Longrightarrow> P (TStruct fs)"
    and "\<And>T. P T \<Longrightarrow> P (TSlice T)" and "\<And>T. P T \<Longrightarrow> P (TPointer T)" and "\<And>T. P T \<Longrightarrow> P (TMap T)"
  shows "P T"
  by (rule gtype.induct) (auto intro: assms)

lemma view_struct:
  "view (TStruct fs) h v = (case v of
       Struct vs \<Rightarrow> (if map fst vs = map fst fs
         then gather (\<lambda>ts. VStruct (zip (map fst fs) ts)) [] (map (viewField h) (zip fs vs)) else None)
     | _ \<Rightarrow> None)"
  by (auto simp: viewStruct_def zip_map1 viewField_def split_beta comp_def fun_eq_iff split: gval.splits
    intro!: arg_cong [of _ _ "gather _ _"])

declare view.simps(2) [simp del] view_struct [simp]

lemma field_type_in: "x \<in> set (zip fs vs) \<Longrightarrow> (fst (fst x), snd (fst x)) \<in> set fs"
  by (metis in_set_zipE prod.collapse)

lemmas view_splits = gval.splits option.splits cell.splits if_splits

lemma agreeOn_mono: "agreeOn B h h' \<Longrightarrow> A \<subseteq> B \<Longrightarrow> agreeOn A h h'"
  by (auto simp: agreeOn_def)

lemma agreeOn_root:
  "agreeOn (set bs) h h' \<Longrightarrow> gather mk (a # as) rs = Some (t, bs) \<Longrightarrow> cellAt h' a = cellAt h a"
  by (auto simp: gather_Some agreeOn_def)

text \<open>A reading depends on the cells it reads alone.\<close>

lemma view_frame:
  "view T h v = Some (t, as) \<Longrightarrow> agreeOn (set as) h h' \<Longrightarrow> view T h' v = Some (t, as)"
proof (induction T arbitrary: v t as rule: gtype_induct)
  case (TStruct fs)
  have "viewField h' x = Some (u, cs)"
    if "viewField h x = Some (u, cs)" "x \<in> set (zip fs vs)" "set cs \<subseteq> set as" for x u cs vs
    using TStruct.IH [OF field_type_in [OF that(2)]] that(1) agreeOn_mono [OF TStruct.prems(2) that(3)]
    by (simp add: viewField_def)
  then show ?case
    using TStruct.prems(1) by (auto split: view_splits intro: gather_frame)
next
  case (TSlice T)
  have "view T h' x = Some (u, cs)" if "view T h x = Some (u, cs)" "set cs \<subseteq> set as" for x u cs
    using TSlice.IH [OF that(1)] agreeOn_mono [OF TSlice.prems(2) that(2)] by simp
  then show ?case
    using TSlice.prems by (auto simp: agreeOn_root split: view_splits intro: gather_frame)
next
  case (TPointer T)
  then show ?case by (auto simp: agreeOn_def split: view_splits)
next
  case (TMap T)
  have "view T h' x = Some (u, cs)" if "view T h x = Some (u, cs)" "set cs \<subseteq> set as" for x u cs
    using TMap.IH [OF that(1)] agreeOn_mono [OF TMap.prems(2) that(2)] by simp
  then show ?case
    using TMap.prems by (auto simp: agreeOn_root split: view_splits intro: gather_frame)
qed (simp split: view_splits)

lemma view_bound: "view T h v = Some (t, as) \<Longrightarrow> a \<in> set as \<Longrightarrow> a < length h"
proof (induction T arbitrary: v t as rule: gtype_induct)
  case (TStruct fs)
  then show ?case
    by (auto simp: viewField_def split: view_splits elim!: gather_addresses dest!: field_type_in)
next
  case (TSlice T)
  then show ?case by (auto simp: cellAt_def split: view_splits elim!: gather_addresses)
next
  case (TPointer T)
  then show ?case by (auto simp: cellAt_def split: view_splits)
next
  case (TMap T)
  then show ?case by (auto simp: cellAt_def split: view_splits elim!: gather_addresses)
qed (simp split: view_splits)

lemma view_flat: "flat T \<Longrightarrow> view T h v = Some (t, as) \<Longrightarrow> as = []"
proof (induction T arbitrary: v t as rule: gtype_induct)
  case (TStruct fs)
  have "b \<notin> set cs" if "viewField h x = Some (u, cs)" "x \<in> set (zip fs vs)" for b x u cs vs
    using TStruct.IH [OF field_type_in [OF that(2)]] that(1) TStruct.prems(1) field_type_in [OF that(2)]
    by (fastforce simp: viewField_def list_all_iff)
  then have "b \<notin> set as" for b
    using TStruct.prems(2) by (fastforce split: view_splits elim!: gather_addresses)
  then show ?case by (cases as) auto
qed (simp_all split: view_splits)

section \<open>Extension of a heap and readings with the same tree\<close>

lemma extends_refl [simp]: "extends h h"
  by (simp add: extends_def)

lemma extends_trans: "extends h h' \<Longrightarrow> extends h' h'' \<Longrightarrow> extends h h''"
  unfolding extends_def by (metis le_trans min.absorb1 take_take)

lemma extends_append [simp]: "extends h (h @ cs)"
  by (simp add: extends_def)

lemma extends_update: "extends h h' \<Longrightarrow> length h \<le> a \<Longrightarrow> extends h (h'[a := c])"
  by (simp add: extends_def take_update_cancel)

lemma extends_cellAt: "extends h h' \<Longrightarrow> a < length h \<Longrightarrow> cellAt h' a = cellAt h a"
  unfolding extends_def cellAt_def by (metis less_le_trans nth_take)

lemma extends_agree: "extends h h' \<Longrightarrow> agreeOn {..<length h} h h'"
  by (simp add: agreeOn_def extends_cellAt)

lemma view_extends: "view T h v = Some (t, as) \<Longrightarrow> extends h h' \<Longrightarrow> view T h' v = Some (t, as)"
  by (rule view_frame) (auto simp: agreeOn_def extends_cellAt dest: view_bound)

lemma sameTree_extends:
  "sameTree n r (view T h v) \<Longrightarrow> extends h h' \<Longrightarrow> sameTree n r (view T h' v)"
  unfolding sameTree_def by (metis view_extends)

lemma sameTree_flat: "flat T \<Longrightarrow> view T h v = Some r \<Longrightarrow> sameTree n (view T h v) (view T h v)"
  by (cases r) (auto simp: sameTree_def dest: view_flat)

lemma gather_same:
  assumes "gather mk as rs = Some (t, bs)" and "list_all2 (sameTree n) rs rs'" and "\<forall>a \<in> set as'. n \<le> a"
  shows "sameTree n (gather mk as rs) (gather mk as' rs')"
proof -
  obtain ps where ps: "rs = map Some ps" "t = mk (map fst ps)"
    using assms(1) by (auto simp: gather_Some those_Some)
  have "\<exists>qs. rs' = map Some qs \<and> map fst qs = map fst ps \<and> (\<forall>b \<in> set (concat (map snd qs)). n \<le> b)"
    using assms(2) unfolding ps(1)
  proof (induction ps arbitrary: rs')
    case (Cons p ps)
    then obtain r rs'' where r: "rs' = r # rs''" "sameTree n (Some p) r" "list_all2 (sameTree n) (map Some ps) rs''"
      by (auto simp: list_all2_Cons1)
    then obtain qs where "rs'' = map Some qs" "map fst qs = map fst ps" "\<forall>b \<in> set (concat (map snd qs)). n \<le> b"
      using Cons.IH by blast
    moreover obtain q where "r = Some q" "fst q = fst p" "\<forall>b \<in> set (snd q). n \<le> b"
      using r(2) by (auto simp: sameTree_def)
    ultimately have "rs' = map Some (q # qs) \<and> map fst (q # qs) = map fst (p # ps) \<and>
        (\<forall>b \<in> set (concat (map snd (q # qs))). n \<le> b)"
      using r(1) by auto
    then show ?case by blast
  qed simp
  then obtain qs where "rs' = map Some qs" "map fst qs = map fst ps" "\<forall>b \<in> set (concat (map snd qs)). n \<le> b"
    by blast
  then have "gather mk as' rs' = Some (t, as' @ concat (map snd qs))"
    using ps(2) by (simp add: gather_def those_Some)
  then show ?thesis
    using assms(1,3) \<open>\<forall>b \<in> set (concat (map snd qs)). n \<le> b\<close> unfolding sameTree_def by auto
qed

section \<open>The rules for deep copiers\<close>

lemma deepCopierI:
  assumes "\<And>h v t as. view T h v = Some (t, as) \<Longrightarrow>
    extends h (snd (c v h)) \<and> sameTree (length h) (view T h v) (view T (snd (c v h)) (fst (c v h)))"
  shows "deepCopier T c"
  unfolding deepCopier_def
proof (intro allI impI)
  fix h v t as
  assume "view T h v = Some (t, as)"
  then show "extends h (snd (c v h)) \<and>
      (\<exists>bs. view T (snd (c v h)) (fst (c v h)) = Some (t, bs) \<and> (\<forall>b \<in> set bs. length h \<le> b))"
    using assms [of h v t as] by (auto simp: sameTree_def)
qed

lemma deepCopierD:
  assumes "deepCopier T c" and "view T h v = Some r"
  shows "extends h (snd (c v h))"
    and "sameTree (length h) (view T h v) (view T (snd (c v h)) (fst (c v h)))"
  using assms(1) [unfolded deepCopier_def, rule_format, of h v "fst r" "snd r"] assms(2)
  by (cases r; auto simp: sameTree_def)+

lemma deep_assign [deep_intros]: "flat T \<Longrightarrow> deepCopier T assign"
  by (rule deepCopierI) (use sameTree_flat in \<open>fastforce simp: assign_def\<close>)

lemma view_sliceE:
  assumes "view (TSlice T) h v = Some (t, as)"
  obtains "v = Slice None"
  | a i n where "v = Slice (Some (a, i, n))" "length (window h a i n) = n"
      "view (TSlice T) h v = gather (\<lambda>ts. VSlice (Some ts)) [a] (map (view T h) (window h a i n))"
  using assms by (auto simp: window_def arrayAt_def split: view_splits)

lemma view_whole_slice:
  "cellAt h a = Some (Arr vs) \<Longrightarrow> view (TSlice T) h (Slice (Some (a, 0, length vs))) =
     gather (\<lambda>ts. VSlice (Some ts)) [a] (map (view T h) vs)"
  by simp

lemma gather_part:
  "gather mk as (map f xs) = Some (t, bs) \<Longrightarrow> x \<in> set xs \<Longrightarrow> \<exists>r. f x = Some r"
  unfolding gather_Some those_Some by (metis ex_map_conv imageE image_eqI list.set_map)

lemma slice_copied:
  assumes "view (TSlice T) h v = Some (t, as)" and "v = Slice (Some (a, i, n))"
    and "cellAt h' (length h) = Some (Arr ws)"
    and "list_all2 (\<lambda>x w. sameTree (length h) (view T h x) (view T h' w)) (window h a i n) ws"
  shows "sameTree (length h) (view (TSlice T) h v) (view (TSlice T) h' (Slice (Some (length h, 0, n))))"
  using assms(1)
proof (cases rule: view_sliceE)
  case (2 a' i' n')
  then have n: "length ws = n" using list_all2_lengthD [OF assms(4)] assms(2) by simp
  have g: "gather (\<lambda>ts. VSlice (Some ts)) [a] (map (view T h) (window h a i n)) = Some (t, as)"
    using 2 assms(1,2) by simp
  show ?thesis
    using gather_same [OF g, of "length h" "map (view T h') ws" "[length h]"] assms(2,4) 2(1,3)
      view_whole_slice [OF assms(3), of T] n
    by (simp add: list_all2_map1 list_all2_map2 del: view.simps)
qed (simp add: assms(2))

lemma deep_makeAndCopy [deep_intros]: "flat T \<Longrightarrow> deepCopier (TSlice T) makeAndCopy"
proof (rule deepCopierI, goal_cases)
  case (1 h v t as)
  show ?case
    using 1(2)
  proof (cases rule: view_sliceE)
    case (2 a i n)
    let ?h = "h @ [Arr (window h a i n)]"
    have "sameTree (length h) (view T h x) (view T ?h x)" if x: "x \<in> set (window h a i n)" for x
    proof -
      obtain r where r: "view T h x = Some r"
        using gather_part [OF trans [OF 2(3) [symmetric] 1(2)] x] by blast
      show ?thesis using sameTree_extends [OF sameTree_flat [OF 1(1) r]] by simp
    qed
    then have "sameTree (length h) (view (TSlice T) h v) (view (TSlice T) ?h (Slice (Some (length h, 0, n))))"
      by (intro slice_copied [OF 1(2) 2(1)]) (auto simp: cellAt_def list_all2_same)
    then show ?thesis using 2 by (simp add: makeAndCopy_def del: view.simps)
  qed (simp add: makeAndCopy_def sameTree_def)
qed

lemma arrayAt_cell: "cellAt h a = Some (Arr vs) \<Longrightarrow> arrayAt h a = vs"
  by (simp add: arrayAt_def)

lemma cellAt_update: "cellAt (h[a := c]) b = (if b = a \<and> b < length h then Some c else cellAt h b)"
  by (auto simp: cellAt_def)

text \<open>One element: its copy is read from cells the writes to \<open>out\<close> and later allocations leave alone.\<close>

lemma element_copied:
  assumes "deepCopier T c" and "view T base x = Some r" and "extends base h" and "out < length h"
    and "\<And>b. b < length (snd (c x h)) \<Longrightarrow> b \<noteq> out \<Longrightarrow> cellAt h' b = cellAt (snd (c x h)) b"
  shows "sameTree (length base) (view T base x) (view T h' (fst (c x h)))"
proof -
  have rh: "view T h x = Some r"
    using view_extends [of T base x] assms(2,3) by (cases r) simp
  then obtain bs where bs: "view T (snd (c x h)) (fst (c x h)) = Some (fst r, bs)" "\<forall>b \<in> set bs. length h \<le> b"
    using deepCopierD(2) [OF assms(1) rh] by (auto simp: sameTree_def)
  have "agreeOn (set bs) (snd (c x h)) h'"
    using bs(2) assms(4,5) view_bound [OF bs(1)] by (fastforce simp: agreeOn_def)
  then show ?thesis
    using view_frame [OF bs(1)] bs(2) assms(2,3) by (cases r) (fastforce simp: sameTree_def extends_def)
qed

text \<open>The loop over the elements: what is below \<open>base\<close> stays, and from index \<open>i\<close> on every element of the new
  array is a copy of the element of the old one.\<close>

lemma copyLoop_copies:
  assumes "deepCopier T c" and "extends base h" and "length base \<le> out"
    and "cellAt h out = Some (Arr ws)" and "length ws = i + length vs"
    and "\<And>x. x \<in> set vs \<Longrightarrow> \<exists>r. view T base x = Some r"
  shows "\<exists>ws'. extends base (copyLoop c out i vs h) \<and> length h \<le> length (copyLoop c out i vs h) \<and>
    (\<forall>b. b < length h \<and> b \<noteq> out \<longrightarrow> cellAt (copyLoop c out i vs h) b = cellAt h b) \<and>
    cellAt (copyLoop c out i vs h) out = Some (Arr ws') \<and> take i ws' = take i ws \<and>
    list_all2 (\<lambda>x w. sameTree (length base) (view T base x) (view T (copyLoop c out i vs h) w))
      vs (drop i ws')"
  using assms(2-)
proof (induction vs arbitrary: i h ws)
  case (Cons x vs)
  obtain r where r: "view T base x = Some r" using Cons.prems(5) [of x] by auto
  have rh: "view T h x = Some r" using view_extends [of T base x] r Cons.prems(1) by (cases r) simp
  define v' h1 where "v' = fst (c x h)" and "h1 = snd (c x h)"
  define h2 where "h2 = h1[out := Arr (ws[i := v'])]"
  have ext: "extends h h1" using deepCopierD(1) [OF assms(1) rh] by (simp add: h1_def)
  have out: "out < length h" using Cons.prems(3) by (auto simp: cellAt_def split: if_splits)
  have cell1: "cellAt h1 out = Some (Arr ws)" using extends_cellAt [OF ext out] Cons.prems(3) by simp
  have len: "length h \<le> length h1" "length h2 = length h1" using ext by (simp_all add: extends_def h2_def)
  have loop: "copyLoop c out i (x # vs) h = copyLoop c out (Suc i) vs h2"
    by (simp add: h2_def h1_def v'_def split_beta arrayAt_cell [OF cell1 [unfolded h1_def]])
  have base2: "extends base h2"
    unfolding h2_def by (intro extends_update extends_trans [OF Cons.prems(1) ext] Cons.prems(2))
  have out2: "cellAt h2 out = Some (Arr (ws[i := v']))"
    using out len by (simp add: h2_def cellAt_def)
  obtain ws' where IH: "extends base (copyLoop c out (Suc i) vs h2)"
      "length h2 \<le> length (copyLoop c out (Suc i) vs h2)"
      "\<forall>b. b < length h2 \<and> b \<noteq> out \<longrightarrow> cellAt (copyLoop c out (Suc i) vs h2) b = cellAt h2 b"
      "cellAt (copyLoop c out (Suc i) vs h2) out = Some (Arr ws')" "take (Suc i) ws' = take (Suc i) (ws[i := v'])"
      "list_all2 (\<lambda>x w. sameTree (length base) (view T base x) (view T (copyLoop c out (Suc i) vs h2) w))
         vs (drop (Suc i) ws')"
    using Cons.IH [OF base2 Cons.prems(2) out2, of "Suc i"] Cons.prems(4,5) by auto
  let ?h = "copyLoop c out (Suc i) vs h2"
  have i: "i < length ws" "length ws' \<ge> Suc i" 
    using Cons.prems(4) arg_cong [OF IH(5), of length] by auto
  have "ws' ! i = v'" using arg_cong [OF IH(5), of "\<lambda>l. l ! i"] i by simp
  then have drop: "drop i ws' = v' # drop (Suc i) ws'" using i by (simp add: Cons_nth_drop_Suc [symmetric])
  have "sameTree (length base) (view T base x) (view T ?h v')"
    unfolding v'_def using IH(3) len
    by (intro element_copied [OF assms(1) r Cons.prems(1) out]) (simp add: h2_def h1_def cellAt_update)
  moreover have "take i ws' = take i ws"
    using arg_cong [OF IH(5), of "take i"] by (simp add: min_def)
  moreover have "cellAt ?h b = cellAt h b" if "b < length h" "b \<noteq> out" for b
    using IH(3) that len extends_cellAt [OF ext that(1)] by (simp add: h2_def cellAt_update)
  ultimately show ?case
    using IH len drop unfolding loop by (intro exI [of _ ws']) auto
qed (auto simp: extends_def)

lemma deep_makeAndLoop [deep_intros]: "deepCopier T c \<Longrightarrow> deepCopier (TSlice T) (makeAndLoop c)"
proof (rule deepCopierI, goal_cases)
  case (1 h v t as)
  show ?case
    using 1(2)
  proof (cases rule: view_sliceE)
    case (2 a i n)
    let ?h = "h @ [Arr (replicate n zeroValue)]"
    let ?h' = "copyLoop c (length h) 0 (window h a i n) ?h"
    have "\<exists>r. view T h x = Some r" if "x \<in> set (window h a i n)" for x
      using gather_part [OF trans [OF 2(3) [symmetric] 1(2)] that] by blast
    then obtain ws where ws: "extends h ?h'" "cellAt ?h' (length h) = Some (Arr ws)"
        "list_all2 (\<lambda>x w. sameTree (length h) (view T h x) (view T ?h' w)) (window h a i n) ws"
      using copyLoop_copies [OF 1(1), of h ?h "length h" "replicate n zeroValue" 0 "window h a i n"] 2(2)
      by (auto simp: cellAt_def)
    then show ?thesis
      using slice_copied [OF 1(2) 2(1) ws(2,3)] 2(1) by (simp add: makeAndLoop_def del: view.simps)
  qed (simp add: makeAndLoop_def sameTree_def)
qed

lemma deep_newAndCopy [deep_intros]: "deepCopier T c \<Longrightarrow> deepCopier (TPointer T) (newAndCopy c)"
proof (rule deepCopierI, goal_cases)
  case (1 h v t as)
  show ?case
  proof (cases "v = Pointer None")
    case False
    then obtain a i vs r where v: "v = Pointer (Some (a, i))" "cellAt h a = Some (Arr vs)" "i < length vs"
      and r: "view T h (vs ! i) = Some r" "t = VPointer (Some (fst r))"
      using 1(2) by (auto split: view_splits)
    let ?h = "h @ [Arr [zeroValue]]" and ?x = "vs ! i"
    let ?h' = "(snd (c ?x ?h))[length h := Arr [fst (c ?x ?h)]]"
    have rh: "view T ?h ?x = Some r" using view_extends [of T h ?x "fst r" "snd r" ?h] r by simp
    have ext: "extends ?h (snd (c ?x ?h))" using deepCopierD(1) [OF 1(1) rh] .
    have new: "cellAt ?h' (length h) = Some (Arr [fst (c ?x ?h)])"
      using ext by (simp add: extends_def cellAt_def)
    have "sameTree (length h) (view T h ?x) (view T ?h' (fst (c ?x ?h)))"
      by (rule element_copied [OF 1(1) r(1), where out = "length h"]) (auto simp: cellAt_update)
    then have "sameTree (length h) (view (TPointer T) h v) (view (TPointer T) ?h' (Pointer (Some (length h, 0))))"
      using v r new by (auto simp: sameTree_def)
    moreover have "extends h ?h'" using extends_update extends_trans [OF _ ext] by simp
    ultimately show ?thesis
      using v by (simp add: newAndCopy_def arrayAt_cell split_beta Let_def del: view.simps)
  qed (simp add: newAndCopy_def sameTree_def)
qed

lemma fold_update_map_of: "map_of (fold (\<lambda>(k, v). AList.update k v) es al) = map_of al ++ map_of (rev es)"
  by (induction es arbitrary: al) (auto simp: update_conv' map_add_def fun_eq_iff split: option.splits)

lemma range_loop:
  assumes "a < length h" and "cellAt h a = Some (Table es)"
  shows "fold (\<lambda>(key, val) h'. h'[a := Table (AList.update key val (tableAt h' a))]) its h =
    h[a := Table (fold (\<lambda>(k, v). AList.update k v) its es)]"
  using assms
proof (induction its arbitrary: h es)
  case (Cons e its)
  obtain k x where e: "e = (k, x)" by (cases e)
  have "tableAt h a = es" using Cons.prems(2) by (simp add: tableAt_def)
  then show ?case
    using Cons.IH [of "h[a := Table (AList.update k x es)]" "AList.update k x es"] Cons.prems(1) e
    by (simp add: cellAt_def)
qed (metis cellAt_def fold_simps(1) list_update_id option.inject)

lemma map_of_rev: "distinct (map fst xs) \<Longrightarrow> map_of (rev xs) = map_of xs"
  by (simp add: map_of_inject_set rev_map [symmetric])

lemma distinct_fold_update:
  "distinct (map fst al) \<Longrightarrow> distinct (map fst (fold (\<lambda>(k, v). AList.update k v) es al))"
  by (induction es arbitrary: al) (auto simp: distinct_update split_beta)

text \<open>The tree of a map is determined by the lookups in its table.\<close>

lemma table_tree:
  "map (\<lambda>e. view T h (snd e)) es = map Some ps \<Longrightarrow>
     map_of (zip (map fst es) (map fst ps)) =
       (\<lambda>k. Option.bind (map_of es k) (\<lambda>x. map_option fst (view T h x)))"
  by (induction es arbitrary: ps) (auto simp: fun_eq_iff Cons_eq_map_conv)

lemma same_table_view:
  assumes "gather (\<lambda>ts. VMap (Some (map_of (zip (map fst es) ts)))) [a]
      (map (\<lambda>e. view T h (snd e)) es) = Some (t, as)"
    and "distinct (map fst es)" and "distinct (map fst es')" and "map_of es' = map_of es"
  shows "\<exists>bs. gather (\<lambda>ts. VMap (Some (map_of (zip (map fst es') ts)))) [a'] (map (\<lambda>e. view T h (snd e)) es') =
    Some (t, bs)"
proof -
  obtain ps where ps: "map (\<lambda>e. view T h (snd e)) es = map Some ps" "t = VMap (Some (map_of (zip (map fst es) (map fst ps))))"
    using assms(1) by (auto simp: gather_Some those_Some)
  have set: "set es' = set es" using assms(2-4) by (metis map_of_eqI map_of_inject_set)
  define qs where "qs = map (\<lambda>e. the (view T h (snd e))) es'"
  have part: "\<exists>r. view T h (snd e) = Some r" if "e \<in> set es'" for e
    using gather_part [OF assms(1), of e] that set by simp
  then have qs: "map (\<lambda>e. view T h (snd e)) es' = map Some qs"
    unfolding qs_def by (force intro: nth_equalityI)
  have "map_of (zip (map fst es') (map fst qs)) = map_of (zip (map fst es) (map fst ps))"
    unfolding table_tree [OF ps(1)] table_tree [OF qs] assms(4) ..
  then show ?thesis
    using qs ps(2) by (auto simp: gather_Some those_Some)
qed

lemma deep_makeAndRange [deep_intros]:
  "flat T \<Longrightarrow> rangesTables order \<Longrightarrow> deepCopier (TMap T) (makeAndRange order)"
proof (rule deepCopierI, goal_cases)
  case (1 h v t as)
  show ?case
  proof (cases "v = GoMap None")
    case False
    then obtain a es where v: "v = GoMap (Some a)" "cellAt h a = Some (Table es)" "distinct (map fst es)"
      and g: "gather (\<lambda>ts. VMap (Some (map_of (zip (map fst es) ts)))) [a] (map (\<lambda>e. view T h (snd e)) es) = Some (t, as)"
      using 1(3) by (auto split: view_splits)
    let ?es = "fold (\<lambda>(k, v). AList.update k v) (order es) []"
    let ?h = "h @ [Table ?es]"
    have "ranges (map_of es) (order es)" using 1(2) v(3) by (simp add: rangesTables_def)
    then have es: "map_of ?es = map_of es" by (simp add: fold_update_map_of ranges_def map_of_rev)
    have "tableAt h a = es" using v(2) by (simp add: tableAt_def)
    moreover have "cellAt (h @ [Table []]) (length h) = Some (Table [])" by (simp add: cellAt_def)
    ultimately have run: "makeAndRange order v h = (GoMap (Some (length h)), ?h)"
      using range_loop [of "length h" "h @ [Table []]" "[]" "order es"] v(1) by (simp add: makeAndRange_def)
    obtain bs where bs: "gather (\<lambda>ts. VMap (Some (map_of (zip (map fst ?es) ts)))) [length h]
        (map (\<lambda>e. view T h (snd e)) ?es) = Some (t, bs)"
      using same_table_view [OF g v(3) distinct_fold_update es] by auto
    have new: "b = length h" if "b \<in> set bs" for b
      using bs that by (rule gather_addresses) (use view_flat [OF 1(1)] in fastforce)+
    have "gather (\<lambda>ts. VMap (Some (map_of (zip (map fst ?es) ts)))) [length h]
        (map (\<lambda>e. view T ?h (snd e)) ?es) = Some (t, bs)"
      by (rule gather_frame [OF bs]) (rule view_extends [OF _ extends_append])
    then have "view (TMap T) ?h (GoMap (Some (length h))) = Some (t, bs)"
      using distinct_fold_update [of "[]" "order es"] by (simp add: cellAt_def)
    with 1(3) have "sameTree (length h) (view (TMap T) h v) (view (TMap T) ?h (GoMap (Some (length h))))"
      unfolding sameTree_def by (intro exI [of _ t] exI [of _ as] exI [of _ bs] conjI ballI) (auto dest: new)
    then show ?thesis unfolding run by simp
  qed (simp add: makeAndRange_def sameTree_def)
qed

section \<open>Structs\<close>

lemma fieldOf_nth:
  "distinct (map fst vs) \<Longrightarrow> j < length vs \<Longrightarrow> fieldOf (Struct vs) (fst (vs ! j)) = snd (vs ! j)"
  by (simp add: fieldOf_def map_of_is_SomeI [of vs _ "snd (vs ! j)"])

lemma map_of_layout:
  assumes "distinct (map fst fs)" and "map_of fs f = Some T"
  obtains j where "j < length fs" "fs ! j = (f, T)"
  using map_of_SomeD [OF assms(2)] by (auto simp: in_set_conv_nth)

lemma field_copied:
  assumes fs: "distinct (map fst fs)" "map fst vs = map fst fs"
    and parts: "\<And>j. j < length fs \<Longrightarrow> \<exists>r. viewField base (fs ! j, vs ! j) = Some r"
    and T: "map_of fs f = Some T" "deepCopier T c" and inv: "copiedSoFar fs base vs D h ws"
  shows "\<exists>ws' h'. fieldStep (Struct vs) (f, c) (Struct ws, h) = (Struct ws', h') \<and>
    copiedSoFar fs base vs (insert f D) h' ws'"
proof -
  have base: "extends base h" and names: "map fst ws = map fst fs"
    using inv by (simp_all add: copiedSoFar_def)
  obtain k where k: "k < length fs" "fs ! k = (f, T)" by (rule map_of_layout [OF fs(1) T(1)])
  have len: "length vs = length fs" "length ws = length fs"
    using arg_cong [OF fs(2), of length] arg_cong [OF names, of length] by simp_all
  have nm: "fst (vs ! j) = fst (fs ! j)" "fst (ws ! j) = fst (fs ! j)" if "j < length fs" for j
    using that len arg_cong [OF fs(2), of "\<lambda>l. l ! j"] arg_cong [OF names, of "\<lambda>l. l ! j"] by simp_all
  let ?x = "snd (vs ! k)"
  obtain r where r: "view T base ?x = Some r" using parts [OF k(1)] k(2) by (auto simp: viewField_def)
  have rh: "view T h ?x = Some r" using view_extends [of T base ?x] r base by (cases r) simp
  let ?h' = "snd (c ?x h)" and ?ws' = "map (\<lambda>(g, y). (g, if g = f then fst (c ?x h) else y)) ws"
  have ext: "extends h ?h'" using deepCopierD(1) [OF T(2) rh] .
  have copied: "sameTree (length base) (view T base ?x) (view T ?h' (fst (c ?x h)))"
    using deepCopierD(2) [OF T(2) rh] r rh base by (cases r) (fastforce simp: sameTree_def extends_def)
  have step: "fieldStep (Struct vs) (f, c) (Struct ws, h) = (Struct ?ws', ?h')"
    using fieldOf_nth [of vs k] fs k len nm(1) [OF k(1)]
    by (simp add: fieldStep_def setField_def split_beta)
  have uniq: "fst (fs ! j) = f \<longleftrightarrow> j = k" if "j < length fs" for j
    using that k fs(1) nth_eq_iff_index_eq [of "map fst fs" j k] by simp
  have ws': "snd (?ws' ! j) = (if j = k then fst (c ?x h) else snd (ws ! j))" if "j < length fs" for j
    using that len nm(2) [OF that] uniq [OF that] by (simp add: split_beta)
  have "copiedSoFar fs base vs (insert f D) ?h' ?ws'"
    unfolding copiedSoFar_def
  proof (intro conjI allI impI)
    show "extends base ?h'" using extends_trans [OF base ext] .
    show "map fst ?ws' = map fst fs" using names by (simp add: split_beta comp_def)
    fix j assume j: "j < length fs"
    show "if fst (fs ! j) \<in> insert f D
      then sameTree (length base) (viewField base (fs ! j, vs ! j)) (viewField ?h' (fs ! j, ?ws' ! j))
      else snd (?ws' ! j) = snd (vs ! j)"
      using inv j copied k(2) uniq [OF j] ws' [OF j] sameTree_extends [OF _ ext]
      by (auto simp: viewField_def copiedSoFar_def split: if_splits)
  qed
  then show ?thesis using step by blast
qed

lemma fields_copied:
  assumes "distinct (map fst fs)" "map fst vs = map fst fs"
    and "\<And>j. j < length fs \<Longrightarrow> \<exists>r. viewField base (fs ! j, vs ! j) = Some r"
    and "\<And>f c. (f, c) \<in> set stmts \<Longrightarrow> \<exists>T. map_of fs f = Some T \<and> deepCopier T c"
    and "copiedSoFar fs base vs D h ws"
  shows "\<exists>ws' h'. fold (fieldStep (Struct vs)) stmts (Struct ws, h) = (Struct ws', h') \<and>
    copiedSoFar fs base vs (D \<union> fst ` set stmts) h' ws'"
  using assms(4-)
proof (induction stmts arbitrary: h ws D)
  case (Cons s stmts)
  obtain f c where s: "s = (f, c)" by (cases s)
  then obtain T where T: "map_of fs f = Some T" "deepCopier T c" using Cons.prems(1) by auto
  obtain ws1 h1 where step: "fieldStep (Struct vs) s (Struct ws, h) = (Struct ws1, h1)"
    and inv: "copiedSoFar fs base vs (insert f D) h1 ws1"
    using field_copied [OF assms(1,2,3) T Cons.prems(2)] s by blast
  show ?case
    using Cons.IH [OF _ inv] Cons.prems(1) step s by simp
qed auto

text \<open>A \<open>DeepCopyInto\<close> copies deeply when each of its statements does and the fields without a statement
  hold no reference.\<close>

lemma deep_struct:
  assumes fs: "distinct (map fst fs)"
    and stmts: "\<And>f c. (f, c) \<in> set stmts \<Longrightarrow> \<exists>T. map_of fs f = Some T \<and> deepCopier T c"
    and rest: "\<And>f T. (f, T) \<in> set fs \<Longrightarrow> f \<notin> fst ` set stmts \<Longrightarrow> flat T"
  shows "deepCopier (TStruct fs) (copyFields stmts)"
proof (rule deepCopierI)
  fix h v t as
  assume view: "view (TStruct fs) h v = Some (t, as)"
  then obtain vs where v: "v = Struct vs" "map fst vs = map fst fs"
    and g: "gather (\<lambda>ts. VStruct (zip (map fst fs) ts)) [] (map (viewField h) (zip fs vs)) = Some (t, as)"
    by (auto split: view_splits)
  have len: "length vs = length fs" using arg_cong [OF v(2), of length] by simp
  have parts: "\<exists>r. viewField h (fs ! j, vs ! j) = Some r" if "j < length fs" for j
    using gather_part [OF g, of "(fs ! j, vs ! j)"] that len by (auto simp: set_zip)
  obtain ws h' where run: "copyFields stmts v h = (Struct ws, h')"
    and inv: "copiedSoFar fs h vs (fst ` set stmts) h' ws"
    using fields_copied [OF fs v(2) parts stmts, of stmts "{}" h vs] v by (auto simp: copyFields_def copiedSoFar_def)
  have ws: "map fst ws = map fst fs" "extends h h'" using inv by (simp_all add: copiedSoFar_def)
  have lw: "length ws = length fs" using arg_cong [OF ws(1), of length] by simp
  have "sameTree (length h) (viewField h (fs ! j, vs ! j)) (viewField h' (fs ! j, ws ! j))" if j: "j < length fs" for j
  proof (cases "fst (fs ! j) \<in> fst ` set stmts")
    case False
    obtain r where r: "view (snd (fs ! j)) h (snd (vs ! j)) = Some r"
      using parts [OF j] by (auto simp: viewField_def)
    have "flat (snd (fs ! j))" using rest [of "fst (fs ! j)" "snd (fs ! j)"] False j by simp
    then show ?thesis
      using sameTree_extends [OF sameTree_flat [OF _ r] ws(2)] inv j False
      by (simp add: copiedSoFar_def viewField_def)
  qed (use inv j in \<open>simp add: copiedSoFar_def\<close>)
  then have "list_all2 (sameTree (length h)) (map (viewField h) (zip fs vs)) (map (viewField h') (zip fs ws))"
    using len lw by (simp add: list_all2_conv_all_nth)
  from gather_same [OF g this, of "[]"] show "extends h (snd (copyFields stmts v h)) \<and>
      sameTree (length h) (view (TStruct fs) h v) (view (TStruct fs) (snd (copyFields stmts v h)) (fst (copyFields stmts v h)))"
    using run v ws by simp
qed

text \<open>The same rule with its side conditions as checks on the lists.\<close>

lemma deep_structI:
  assumes "distinct (map fst fs)"
    and "list_all (\<lambda>(f, c). case map_of fs f of Some T \<Rightarrow> deepCopier T c | None \<Rightarrow> False) stmts"
    and "list_all (\<lambda>(f, T). f \<in> set (map fst stmts) \<or> flat T) fs"
  shows "deepCopier (TStruct fs) (copyFields stmts)"
  by (rule deep_struct) (use assms in \<open>fastforce simp: list_all_iff split: option.splits\<close>)+

lemma deepObjectI: "deepCopier T c \<Longrightarrow> deepObject k T (asObject k (newAndCopy c))"
  by (auto simp: deepObject_def)

section \<open>What a deep copy is good for\<close>

text \<open>After a deep copy, whatever is written to cells that were there before, the copy reads as it
  did; whatever is written to other cells, the original reads as it did.\<close>

lemma deep_independent:
  assumes "deepCopier T c" and "view T h v = Some (t, as)" and "c v h = (v', h')"
  shows "extends h h'"
    and "\<exists>bs. (\<forall>b \<in> set bs. length h \<le> b \<and> b < length h') \<and>
      (\<forall>h''. agreeOn {length h..<length h'} h' h'' \<longrightarrow> view T h'' v' = Some (t, bs))"
    and "agreeOn {..<length h} h' h'' \<Longrightarrow> view T h'' v = Some (t, as)"
proof -
  have D: "extends h h'" "sameTree (length h) (view T h v) (view T h' v')"
    using deepCopierD [OF assms(1,2)] assms(3) by simp_all
  then show "extends h h'" by simp
  obtain bs where bs: "view T h' v' = Some (t, bs)" "\<forall>b \<in> set bs. length h \<le> b"
    using D(2) assms(2) by (auto simp: sameTree_def)
  have sub: "set bs \<subseteq> {length h..<length h'}" using bs(2) view_bound [OF bs(1)] by auto
  have "view T h'' v' = Some (t, bs)" if "agreeOn {length h..<length h'} h' h''" for h''
    using view_frame [OF bs(1) agreeOn_mono [OF that sub]] .
  then show "\<exists>bs. (\<forall>b \<in> set bs. length h \<le> b \<and> b < length h') \<and>
      (\<forall>h''. agreeOn {length h..<length h'} h' h'' \<longrightarrow> view T h'' v' = Some (t, bs))"
    using bs(2) view_bound [OF bs(1)] by blast
  have sup: "set as \<subseteq> {..<length h}" using view_bound [OF assms(2)] by auto
  show "view T h'' v = Some (t, as)" if "agreeOn {..<length h} h' h''"
    using view_frame [OF view_extends [OF assms(2) D(1)] agreeOn_mono [OF that sup]] .
qed

end
