(* ===== verification/Deep_Copy.thy ===== *)
theory Deep_Copy
  imports Go_Heap
begin

text \<open>
  The copy functions of the API types, \<open>operator/apis/operator/v1alpha1/zz_generated.deepcopy.go\<close>, over the memory of
  \<open>Go_Heap\<close>. For each struct of the package, \<open><T>_struct\<close> is its declaration as a type of that theory,
  \<open><T>_DeepCopyInto\<close> its copy function statement by statement, \<open><T>_DeepCopy\<close> the one that allocates and, for
  the kinds and their lists, \<open><T>_DeepCopyObject\<close> the one the API machinery calls through
  \<open>runtime.Object\<close>: the cache of the manager hands out copies made by it.

  A copy function for a value, here \<open>*in\<close>, returns the value it stores in \<open>*out\<close> and the heap. Types of
  other modules and their copy functions are a parameter \<open>packages\<close>: the declaration of a type, its
  \<open>DeepCopyInto\<close> and the order in which a range loop visits a map. \<open>packagesOK\<close> says what their documentation
  promises: a \<open>DeepCopyInto\<close> copies deeply, \<open>TypeMeta\<close> and \<open>ConditionStatus\<close> hold strings only, and a range loop
  visits each entry once. \<open>metav1.Time\<close> documents that its hidden pointer is immutable; its declaration
  counts as plain data in that sense.
\<close>

record packages =
  px_type :: "string \<Rightarrow> gtype"
  px_copy :: "string \<Rightarrow> copier"
  px_range :: "(string \<times> gval) list \<Rightarrow> (string \<times> gval) list"

text \<open>The types of other modules that the functions copy by their \<open>DeepCopyInto\<close>.\<close>

definition copiedTypes :: "string list" where
  "copiedTypes =
     [''appsv1.DeploymentCondition'', ''appsv1.StatefulSetCondition'', ''corev1.Affinity'',
      ''corev1.EnvVar'', ''corev1.PersistentVolumeClaimSpec'', ''corev1.ResourceRequirements'',
      ''metav1.ListMeta'', ''metav1.ObjectMeta'', ''metav1.Time'', ''networkingv1.IngressTLS'']"

definition packagesOK :: "packages \<Rightarrow> bool" where
  "packagesOK X \<longleftrightarrow> rangesTables (px_range X) \<and>
     flat (px_type X ''metav1.TypeMeta'') \<and> flat (px_type X ''corev1.ConditionStatus'') \<and>
     list_all (\<lambda>n. deepCopier (px_type X n) (px_copy X n)) copiedTypes"

section \<open>Types of \<open>common.go\<close>\<close>

definition ServiceTemplate_struct :: "packages \<Rightarrow> gtype" where
  "ServiceTemplate_struct X = TStruct
     [(''ClusterIP'', TPlain), (''Type'', TPlain), (''ExternalIPs'', TSlice TPlain),
      (''LoadBalancerIP'', TPlain), (''LoadBalancerSourceRanges'', TSlice TPlain)]"

definition ServiceTemplate_DeepCopyInto :: "packages \<Rightarrow> copier" where
  "ServiceTemplate_DeepCopyInto X = copyFields
     [(''ExternalIPs'', makeAndCopy), (''LoadBalancerSourceRanges'', makeAndCopy)]"

definition ServiceTemplate_DeepCopy :: "packages \<Rightarrow> copier" where
  "ServiceTemplate_DeepCopy X = newAndCopy (ServiceTemplate_DeepCopyInto X)"

definition Ingress_struct :: "packages \<Rightarrow> gtype" where
  "Ingress_struct X = TStruct
     [(''Annotations'', TMap TPlain), (''Host'', TPlain),
      (''IngressClassName'', TPointer TPlain),
      (''TLS'', TSlice (px_type X ''networkingv1.IngressTLS''))]"

definition Ingress_DeepCopyInto :: "packages \<Rightarrow> copier" where
  "Ingress_DeepCopyInto X = copyFields
     [(''Annotations'', makeAndRange (px_range X)), (''IngressClassName'', newAndCopy assign),
      (''TLS'', makeAndLoop (px_copy X ''networkingv1.IngressTLS''))]"

definition Ingress_DeepCopy :: "packages \<Rightarrow> copier" where
  "Ingress_DeepCopy X = newAndCopy (Ingress_DeepCopyInto X)"

definition Service_struct :: "packages \<Rightarrow> gtype" where
  "Service_struct X = TStruct
     [(''Template'', ServiceTemplate_struct X), (''Ingress'', Ingress_struct X)]"

definition Service_DeepCopyInto :: "packages \<Rightarrow> copier" where
  "Service_DeepCopyInto X = copyFields
     [(''Template'', ServiceTemplate_DeepCopyInto X), (''Ingress'', Ingress_DeepCopyInto X)]"

definition Service_DeepCopy :: "packages \<Rightarrow> copier" where
  "Service_DeepCopy X = newAndCopy (Service_DeepCopyInto X)"

section \<open>Types of \<open>banyandb_types.go\<close>\<close>

definition StorageConfig_struct :: "packages \<Rightarrow> gtype" where
  "StorageConfig_struct X = TStruct
     [(''Name'', TPlain), (''Path'', TPlain),
      (''PersistentVolumeClaimSpec'', px_type X ''corev1.PersistentVolumeClaimSpec'')]"

definition StorageConfig_DeepCopyInto :: "packages \<Rightarrow> copier" where
  "StorageConfig_DeepCopyInto X = copyFields
     [(''PersistentVolumeClaimSpec'', px_copy X ''corev1.PersistentVolumeClaimSpec'')]"

definition StorageConfig_DeepCopy :: "packages \<Rightarrow> copier" where
  "StorageConfig_DeepCopy X = newAndCopy (StorageConfig_DeepCopyInto X)"

definition BanyanDBSpec_struct :: "packages \<Rightarrow> gtype" where
  "BanyanDBSpec_struct X = TStruct
     [(''Version'', TPlain), (''Counts'', TPlain), (''Image'', TPlain),
      (''Affinity'', px_type X ''corev1.Affinity''), (''Config'', TSlice TPlain),
      (''HTTPSvc'', Service_struct X), (''GRPCSvc'', Service_struct X),
      (''Storages'', TSlice (StorageConfig_struct X))]"

definition BanyanDBSpec_DeepCopyInto :: "packages \<Rightarrow> copier" where
  "BanyanDBSpec_DeepCopyInto X = copyFields
     [(''Affinity'', px_copy X ''corev1.Affinity''), (''Config'', makeAndCopy),
      (''HTTPSvc'', Service_DeepCopyInto X), (''GRPCSvc'', Service_DeepCopyInto X),
      (''Storages'', makeAndLoop (StorageConfig_DeepCopyInto X))]"

definition BanyanDBSpec_DeepCopy :: "packages \<Rightarrow> copier" where
  "BanyanDBSpec_DeepCopy X = newAndCopy (BanyanDBSpec_DeepCopyInto X)"

definition BanyanDBStatus_struct :: "packages \<Rightarrow> gtype" where
  "BanyanDBStatus_struct X = TStruct
     [(''AvailableReplicas'', TPlain),
      (''Conditions'', TSlice (px_type X ''appsv1.DeploymentCondition''))]"

definition BanyanDBStatus_DeepCopyInto :: "packages \<Rightarrow> copier" where
  "BanyanDBStatus_DeepCopyInto X = copyFields
     [(''Conditions'', makeAndLoop (px_copy X ''appsv1.DeploymentCondition''))]"

definition BanyanDBStatus_DeepCopy :: "packages \<Rightarrow> copier" where
  "BanyanDBStatus_DeepCopy X = newAndCopy (BanyanDBStatus_DeepCopyInto X)"

definition BanyanDB_struct :: "packages \<Rightarrow> gtype" where
  "BanyanDB_struct X = TStruct
     [(''TypeMeta'', px_type X ''metav1.TypeMeta''),
      (''ObjectMeta'', px_type X ''metav1.ObjectMeta''), (''Spec'', BanyanDBSpec_struct X),
      (''Status'', BanyanDBStatus_struct X)]"

definition BanyanDB_DeepCopyInto :: "packages \<Rightarrow> copier" where
  "BanyanDB_DeepCopyInto X = copyFields
     [(''TypeMeta'', assign), (''ObjectMeta'', px_copy X ''metav1.ObjectMeta''),
      (''Spec'', BanyanDBSpec_DeepCopyInto X), (''Status'', BanyanDBStatus_DeepCopyInto X)]"

definition BanyanDB_DeepCopy :: "packages \<Rightarrow> copier" where
  "BanyanDB_DeepCopy X = newAndCopy (BanyanDB_DeepCopyInto X)"

definition BanyanDB_DeepCopyObject :: "packages \<Rightarrow> gval \<Rightarrow> heap \<Rightarrow> iface \<times> heap" where
  "BanyanDB_DeepCopyObject X = asObject ''BanyanDB'' (BanyanDB_DeepCopy X)"

definition BanyanDBList_struct :: "packages \<Rightarrow> gtype" where
  "BanyanDBList_struct X = TStruct
     [(''TypeMeta'', px_type X ''metav1.TypeMeta''),
      (''ListMeta'', px_type X ''metav1.ListMeta''), (''Items'', TSlice (BanyanDB_struct X))]"

definition BanyanDBList_DeepCopyInto :: "packages \<Rightarrow> copier" where
  "BanyanDBList_DeepCopyInto X = copyFields
     [(''TypeMeta'', assign), (''ListMeta'', px_copy X ''metav1.ListMeta''),
      (''Items'', makeAndLoop (BanyanDB_DeepCopyInto X))]"

definition BanyanDBList_DeepCopy :: "packages \<Rightarrow> copier" where
  "BanyanDBList_DeepCopy X = newAndCopy (BanyanDBList_DeepCopyInto X)"

definition BanyanDBList_DeepCopyObject :: "packages \<Rightarrow> gval \<Rightarrow> heap \<Rightarrow> iface \<times> heap" where
  "BanyanDBList_DeepCopyObject X = asObject ''BanyanDBList'' (BanyanDBList_DeepCopy X)"

section \<open>Types of \<open>eventexporter_types.go\<close>\<close>

definition EventExporterSpec_struct :: "packages \<Rightarrow> gtype" where
  "EventExporterSpec_struct X = TStruct
     [(''Version'', TPlain), (''Image'', TPlain), (''Replicas'', TPlain), (''Config'', TPlain)]"

definition EventExporterSpec_DeepCopyInto :: "packages \<Rightarrow> copier" where
  "EventExporterSpec_DeepCopyInto X = copyFields []"

definition EventExporterSpec_DeepCopy :: "packages \<Rightarrow> copier" where
  "EventExporterSpec_DeepCopy X = newAndCopy (EventExporterSpec_DeepCopyInto X)"

definition EventExporterStatus_struct :: "packages \<Rightarrow> gtype" where
  "EventExporterStatus_struct X = TStruct
     [(''AvailableReplicas'', TPlain),
      (''Conditions'', TSlice (px_type X ''appsv1.DeploymentCondition'')),
      (''ConfigMapName'', TPlain)]"

definition EventExporterStatus_DeepCopyInto :: "packages \<Rightarrow> copier" where
  "EventExporterStatus_DeepCopyInto X = copyFields
     [(''Conditions'', makeAndLoop (px_copy X ''appsv1.DeploymentCondition''))]"

definition EventExporterStatus_DeepCopy :: "packages \<Rightarrow> copier" where
  "EventExporterStatus_DeepCopy X = newAndCopy (EventExporterStatus_DeepCopyInto X)"

definition EventExporter_struct :: "packages \<Rightarrow> gtype" where
  "EventExporter_struct X = TStruct
     [(''TypeMeta'', px_type X ''metav1.TypeMeta''),
      (''ObjectMeta'', px_type X ''metav1.ObjectMeta''), (''Spec'', EventExporterSpec_struct X),
      (''Status'', EventExporterStatus_struct X)]"

definition EventExporter_DeepCopyInto :: "packages \<Rightarrow> copier" where
  "EventExporter_DeepCopyInto X = copyFields
     [(''TypeMeta'', assign), (''ObjectMeta'', px_copy X ''metav1.ObjectMeta''),
      (''Spec'', assign), (''Status'', EventExporterStatus_DeepCopyInto X)]"

definition EventExporter_DeepCopy :: "packages \<Rightarrow> copier" where
  "EventExporter_DeepCopy X = newAndCopy (EventExporter_DeepCopyInto X)"

definition EventExporter_DeepCopyObject :: "packages \<Rightarrow> gval \<Rightarrow> heap \<Rightarrow> iface \<times> heap" where
  "EventExporter_DeepCopyObject X = asObject ''EventExporter'' (EventExporter_DeepCopy X)"

definition EventExporterList_struct :: "packages \<Rightarrow> gtype" where
  "EventExporterList_struct X = TStruct
     [(''TypeMeta'', px_type X ''metav1.TypeMeta''),
      (''ListMeta'', px_type X ''metav1.ListMeta''),
      (''Items'', TSlice (EventExporter_struct X))]"

definition EventExporterList_DeepCopyInto :: "packages \<Rightarrow> copier" where
  "EventExporterList_DeepCopyInto X = copyFields
     [(''TypeMeta'', assign), (''ListMeta'', px_copy X ''metav1.ListMeta''),
      (''Items'', makeAndLoop (EventExporter_DeepCopyInto X))]"

definition EventExporterList_DeepCopy :: "packages \<Rightarrow> copier" where
  "EventExporterList_DeepCopy X = newAndCopy (EventExporterList_DeepCopyInto X)"

definition EventExporterList_DeepCopyObject :: "packages \<Rightarrow> gval \<Rightarrow> heap \<Rightarrow> iface \<times> heap" where
  "EventExporterList_DeepCopyObject X = asObject ''EventExporterList'' (EventExporterList_DeepCopy X)"

section \<open>Types of \<open>fetcher_types.go\<close>\<close>

definition FetcherSpec_struct :: "packages \<Rightarrow> gtype" where
  "FetcherSpec_struct X = TStruct
     [(''Type'', TSlice TPlain), (''OAPServerAddress'', TPlain), (''ClusterName'', TPlain)]"

definition FetcherSpec_DeepCopyInto :: "packages \<Rightarrow> copier" where
  "FetcherSpec_DeepCopyInto X = copyFields
     [(''Type'', makeAndCopy)]"

definition FetcherSpec_DeepCopy :: "packages \<Rightarrow> copier" where
  "FetcherSpec_DeepCopy X = newAndCopy (FetcherSpec_DeepCopyInto X)"

definition FetcherCondition_struct :: "packages \<Rightarrow> gtype" where
  "FetcherCondition_struct X = TStruct
     [(''Type'', TPlain), (''Status'', px_type X ''corev1.ConditionStatus''),
      (''LastUpdateTime'', px_type X ''metav1.Time''),
      (''LastTransitionTime'', px_type X ''metav1.Time''), (''Message'', TPlain)]"

definition FetcherCondition_DeepCopyInto :: "packages \<Rightarrow> copier" where
  "FetcherCondition_DeepCopyInto X = copyFields
     [(''LastUpdateTime'', px_copy X ''metav1.Time''),
      (''LastTransitionTime'', px_copy X ''metav1.Time'')]"

definition FetcherCondition_DeepCopy :: "packages \<Rightarrow> copier" where
  "FetcherCondition_DeepCopy X = newAndCopy (FetcherCondition_DeepCopyInto X)"

definition FetcherStatus_struct :: "packages \<Rightarrow> gtype" where
  "FetcherStatus_struct X = TStruct
     [(''Replicas'', TPlain), (''Conditions'', TSlice (FetcherCondition_struct X))]"

definition FetcherStatus_DeepCopyInto :: "packages \<Rightarrow> copier" where
  "FetcherStatus_DeepCopyInto X = copyFields
     [(''Conditions'', makeAndLoop (FetcherCondition_DeepCopyInto X))]"

definition FetcherStatus_DeepCopy :: "packages \<Rightarrow> copier" where
  "FetcherStatus_DeepCopy X = newAndCopy (FetcherStatus_DeepCopyInto X)"

definition Fetcher_struct :: "packages \<Rightarrow> gtype" where
  "Fetcher_struct X = TStruct
     [(''TypeMeta'', px_type X ''metav1.TypeMeta''),
      (''ObjectMeta'', px_type X ''metav1.ObjectMeta''), (''Spec'', FetcherSpec_struct X),
      (''Status'', FetcherStatus_struct X)]"

definition Fetcher_DeepCopyInto :: "packages \<Rightarrow> copier" where
  "Fetcher_DeepCopyInto X = copyFields
     [(''TypeMeta'', assign), (''ObjectMeta'', px_copy X ''metav1.ObjectMeta''),
      (''Spec'', FetcherSpec_DeepCopyInto X), (''Status'', FetcherStatus_DeepCopyInto X)]"

definition Fetcher_DeepCopy :: "packages \<Rightarrow> copier" where
  "Fetcher_DeepCopy X = newAndCopy (Fetcher_DeepCopyInto X)"

definition Fetcher_DeepCopyObject :: "packages \<Rightarrow> gval \<Rightarrow> heap \<Rightarrow> iface \<times> heap" where
  "Fetcher_DeepCopyObject X = asObject ''Fetcher'' (Fetcher_DeepCopy X)"

definition FetcherList_struct :: "packages \<Rightarrow> gtype" where
  "FetcherList_struct X = TStruct
     [(''TypeMeta'', px_type X ''metav1.TypeMeta''),
      (''ListMeta'', px_type X ''metav1.ListMeta''), (''Items'', TSlice (Fetcher_struct X))]"

definition FetcherList_DeepCopyInto :: "packages \<Rightarrow> copier" where
  "FetcherList_DeepCopyInto X = copyFields
     [(''TypeMeta'', assign), (''ListMeta'', px_copy X ''metav1.ListMeta''),
      (''Items'', makeAndLoop (Fetcher_DeepCopyInto X))]"

definition FetcherList_DeepCopy :: "packages \<Rightarrow> copier" where
  "FetcherList_DeepCopy X = newAndCopy (FetcherList_DeepCopyInto X)"

definition FetcherList_DeepCopyObject :: "packages \<Rightarrow> gval \<Rightarrow> heap \<Rightarrow> iface \<times> heap" where
  "FetcherList_DeepCopyObject X = asObject ''FetcherList'' (FetcherList_DeepCopy X)"

section \<open>Types of \<open>javaagent_types.go\<close>\<close>

definition JavaAgentSpec_struct :: "packages \<Rightarrow> gtype" where
  "JavaAgentSpec_struct X = TStruct
     [(''PodSelector'', TPlain), (''ServiceName'', TPlain), (''BackendService'', TPlain),
      (''AgentConfiguration'', TMap TPlain)]"

definition JavaAgentSpec_DeepCopyInto :: "packages \<Rightarrow> copier" where
  "JavaAgentSpec_DeepCopyInto X = copyFields
     [(''AgentConfiguration'', makeAndRange (px_range X))]"

definition JavaAgentSpec_DeepCopy :: "packages \<Rightarrow> copier" where
  "JavaAgentSpec_DeepCopy X = newAndCopy (JavaAgentSpec_DeepCopyInto X)"

definition JavaAgentStatus_struct :: "packages \<Rightarrow> gtype" where
  "JavaAgentStatus_struct X = TStruct
     [(''ExpectedInjectedNum'', TPlain), (''RealInjectedNum'', TPlain),
      (''CreationTime'', px_type X ''metav1.Time''),
      (''LastUpdateTime'', px_type X ''metav1.Time'')]"

definition JavaAgentStatus_DeepCopyInto :: "packages \<Rightarrow> copier" where
  "JavaAgentStatus_DeepCopyInto X = copyFields
     [(''CreationTime'', px_copy X ''metav1.Time''),
      (''LastUpdateTime'', px_copy X ''metav1.Time'')]"

definition JavaAgentStatus_DeepCopy :: "packages \<Rightarrow> copier" where
  "JavaAgentStatus_DeepCopy X = newAndCopy (JavaAgentStatus_DeepCopyInto X)"

definition JavaAgent_struct :: "packages \<Rightarrow> gtype" where
  "JavaAgent_struct X = TStruct
     [(''TypeMeta'', px_type X ''metav1.TypeMeta''),
      (''ObjectMeta'', px_type X ''metav1.ObjectMeta''), (''Spec'', JavaAgentSpec_struct X),
      (''Status'', JavaAgentStatus_struct X)]"

definition JavaAgent_DeepCopyInto :: "packages \<Rightarrow> copier" where
  "JavaAgent_DeepCopyInto X = copyFields
     [(''TypeMeta'', assign), (''ObjectMeta'', px_copy X ''metav1.ObjectMeta''),
      (''Spec'', JavaAgentSpec_DeepCopyInto X), (''Status'', JavaAgentStatus_DeepCopyInto X)]"

definition JavaAgent_DeepCopy :: "packages \<Rightarrow> copier" where
  "JavaAgent_DeepCopy X = newAndCopy (JavaAgent_DeepCopyInto X)"

definition JavaAgent_DeepCopyObject :: "packages \<Rightarrow> gval \<Rightarrow> heap \<Rightarrow> iface \<times> heap" where
  "JavaAgent_DeepCopyObject X = asObject ''JavaAgent'' (JavaAgent_DeepCopy X)"

definition JavaAgentList_struct :: "packages \<Rightarrow> gtype" where
  "JavaAgentList_struct X = TStruct
     [(''TypeMeta'', px_type X ''metav1.TypeMeta''),
      (''ListMeta'', px_type X ''metav1.ListMeta''), (''Items'', TSlice (JavaAgent_struct X))]"

definition JavaAgentList_DeepCopyInto :: "packages \<Rightarrow> copier" where
  "JavaAgentList_DeepCopyInto X = copyFields
     [(''TypeMeta'', assign), (''ListMeta'', px_copy X ''metav1.ListMeta''),
      (''Items'', makeAndLoop (JavaAgent_DeepCopyInto X))]"

definition JavaAgentList_DeepCopy :: "packages \<Rightarrow> copier" where
  "JavaAgentList_DeepCopy X = newAndCopy (JavaAgentList_DeepCopyInto X)"

definition JavaAgentList_DeepCopyObject :: "packages \<Rightarrow> gval \<Rightarrow> heap \<Rightarrow> iface \<times> heap" where
  "JavaAgentList_DeepCopyObject X = asObject ''JavaAgentList'' (JavaAgentList_DeepCopy X)"

section \<open>Types of \<open>storage_types.go\<close>\<close>

definition UserSpec_struct :: "packages \<Rightarrow> gtype" where
  "UserSpec_struct X = TStruct
     [(''SecretName'', TPlain)]"

definition UserSpec_DeepCopyInto :: "packages \<Rightarrow> copier" where
  "UserSpec_DeepCopyInto X = copyFields []"

definition UserSpec_DeepCopy :: "packages \<Rightarrow> copier" where
  "UserSpec_DeepCopy X = newAndCopy (UserSpec_DeepCopyInto X)"

definition SecuritySpec_struct :: "packages \<Rightarrow> gtype" where
  "SecuritySpec_struct X = TStruct
     [(''TLS'', TPlain), (''User'', UserSpec_struct X)]"

definition SecuritySpec_DeepCopyInto :: "packages \<Rightarrow> copier" where
  "SecuritySpec_DeepCopyInto X = copyFields
     [(''User'', assign)]"

definition SecuritySpec_DeepCopy :: "packages \<Rightarrow> copier" where
  "SecuritySpec_DeepCopy X = newAndCopy (SecuritySpec_DeepCopyInto X)"

definition Resource_struct :: "packages \<Rightarrow> gtype" where
  "Resource_struct X = TStruct
     [(''Limit'', TPlain), (''Requests'', TPlain)]"

definition Resource_DeepCopyInto :: "packages \<Rightarrow> copier" where
  "Resource_DeepCopyInto X = copyFields []"

definition Resource_DeepCopy :: "packages \<Rightarrow> copier" where
  "Resource_DeepCopy X = newAndCopy (Resource_DeepCopyInto X)"

definition StorageSpec_struct :: "packages \<Rightarrow> gtype" where
  "StorageSpec_struct X = TStruct
     [(''Type'', TPlain), (''ConnectType'', TPlain), (''ConnectAddress'', TPlain),
      (''Version'', TPlain), (''Image'', TPlain), (''Instances'', TPlain),
      (''Security'', SecuritySpec_struct X), (''ServiceName'', TPlain),
      (''Config'', TSlice (px_type X ''corev1.EnvVar'')), (''ResourceCnfig'', Resource_struct X)]"

definition StorageSpec_DeepCopyInto :: "packages \<Rightarrow> copier" where
  "StorageSpec_DeepCopyInto X = copyFields
     [(''Security'', assign), (''Config'', makeAndLoop (px_copy X ''corev1.EnvVar'')),
      (''ResourceCnfig'', assign)]"

definition StorageSpec_DeepCopy :: "packages \<Rightarrow> copier" where
  "StorageSpec_DeepCopy X = newAndCopy (StorageSpec_DeepCopyInto X)"

definition StorageStatus_struct :: "packages \<Rightarrow> gtype" where
  "StorageStatus_struct X = TStruct
     [(''Conditions'', TSlice (px_type X ''appsv1.StatefulSetCondition''))]"

definition StorageStatus_DeepCopyInto :: "packages \<Rightarrow> copier" where
  "StorageStatus_DeepCopyInto X = copyFields
     [(''Conditions'', makeAndLoop (px_copy X ''appsv1.StatefulSetCondition''))]"

definition StorageStatus_DeepCopy :: "packages \<Rightarrow> copier" where
  "StorageStatus_DeepCopy X = newAndCopy (StorageStatus_DeepCopyInto X)"

definition Storage_struct :: "packages \<Rightarrow> gtype" where
  "Storage_struct X = TStruct
     [(''TypeMeta'', px_type X ''metav1.TypeMeta''),
      (''ObjectMeta'', px_type X ''metav1.ObjectMeta''), (''Spec'', StorageSpec_struct X),
      (''Status'', StorageStatus_struct X)]"

definition Storage_DeepCopyInto :: "packages \<Rightarrow> copier" where
  "Storage_DeepCopyInto X = copyFields
     [(''TypeMeta'', assign), (''ObjectMeta'', px_copy X ''metav1.ObjectMeta''),
      (''Spec'', StorageSpec_DeepCopyInto X), (''Status'', StorageStatus_DeepCopyInto X)]"

definition Storage_DeepCopy :: "packages \<Rightarrow> copier" where
  "Storage_DeepCopy X = newAndCopy (Storage_DeepCopyInto X)"

definition Storage_DeepCopyObject :: "packages \<Rightarrow> gval \<Rightarrow> heap \<Rightarrow> iface \<times> heap" where
  "Storage_DeepCopyObject X = asObject ''Storage'' (Storage_DeepCopy X)"

section \<open>Types of \<open>oapserver_types.go\<close>\<close>

definition RelevantStorage_struct :: "packages \<Rightarrow> gtype" where
  "RelevantStorage_struct X = TStruct
     [(''Name'', TPlain), (''Storage'', TPointer (Storage_struct X))]"

definition RelevantStorage_DeepCopyInto :: "packages \<Rightarrow> copier" where
  "RelevantStorage_DeepCopyInto X = copyFields
     [(''Storage'', newAndCopy (Storage_DeepCopyInto X))]"

definition RelevantStorage_DeepCopy :: "packages \<Rightarrow> copier" where
  "RelevantStorage_DeepCopy X = newAndCopy (RelevantStorage_DeepCopyInto X)"

definition OAPServerSpec_struct :: "packages \<Rightarrow> gtype" where
  "OAPServerSpec_struct X = TStruct
     [(''Version'', TPlain), (''Image'', TPlain), (''Instances'', TPlain),
      (''Config'', TSlice (px_type X ''corev1.EnvVar'')), (''Service'', Service_struct X),
      (''StorageConfig'', TPointer (RelevantStorage_struct X))]"

definition OAPServerSpec_DeepCopyInto :: "packages \<Rightarrow> copier" where
  "OAPServerSpec_DeepCopyInto X = copyFields
     [(''Config'', makeAndLoop (px_copy X ''corev1.EnvVar'')),
      (''Service'', Service_DeepCopyInto X),
      (''StorageConfig'', newAndCopy (RelevantStorage_DeepCopyInto X))]"

definition OAPServerSpec_DeepCopy :: "packages \<Rightarrow> copier" where
  "OAPServerSpec_DeepCopy X = newAndCopy (OAPServerSpec_DeepCopyInto X)"

definition OAPServerStatus_struct :: "packages \<Rightarrow> gtype" where
  "OAPServerStatus_struct X = TStruct
     [(''AvailableReplicas'', TPlain), (''Address'', TPlain),
      (''Conditions'', TSlice (px_type X ''appsv1.DeploymentCondition''))]"

definition OAPServerStatus_DeepCopyInto :: "packages \<Rightarrow> copier" where
  "OAPServerStatus_DeepCopyInto X = copyFields
     [(''Conditions'', makeAndLoop (px_copy X ''appsv1.DeploymentCondition''))]"

definition OAPServerStatus_DeepCopy :: "packages \<Rightarrow> copier" where
  "OAPServerStatus_DeepCopy X = newAndCopy (OAPServerStatus_DeepCopyInto X)"

definition OAPServer_struct :: "packages \<Rightarrow> gtype" where
  "OAPServer_struct X = TStruct
     [(''TypeMeta'', px_type X ''metav1.TypeMeta''),
      (''ObjectMeta'', px_type X ''metav1.ObjectMeta''), (''Spec'', OAPServerSpec_struct X),
      (''Status'', OAPServerStatus_struct X)]"

definition OAPServer_DeepCopyInto :: "packages \<Rightarrow> copier" where
  "OAPServer_DeepCopyInto X = copyFields
     [(''TypeMeta'', assign), (''ObjectMeta'', px_copy X ''metav1.ObjectMeta''),
      (''Spec'', OAPServerSpec_DeepCopyInto X), (''Status'', OAPServerStatus_DeepCopyInto X)]"

definition OAPServer_DeepCopy :: "packages \<Rightarrow> copier" where
  "OAPServer_DeepCopy X = newAndCopy (OAPServer_DeepCopyInto X)"

definition OAPServer_DeepCopyObject :: "packages \<Rightarrow> gval \<Rightarrow> heap \<Rightarrow> iface \<times> heap" where
  "OAPServer_DeepCopyObject X = asObject ''OAPServer'' (OAPServer_DeepCopy X)"

definition OAPServerList_struct :: "packages \<Rightarrow> gtype" where
  "OAPServerList_struct X = TStruct
     [(''TypeMeta'', px_type X ''metav1.TypeMeta''),
      (''ListMeta'', px_type X ''metav1.ListMeta''), (''Items'', TSlice (OAPServer_struct X))]"

definition OAPServerList_DeepCopyInto :: "packages \<Rightarrow> copier" where
  "OAPServerList_DeepCopyInto X = copyFields
     [(''TypeMeta'', assign), (''ListMeta'', px_copy X ''metav1.ListMeta''),
      (''Items'', makeAndLoop (OAPServer_DeepCopyInto X))]"

definition OAPServerList_DeepCopy :: "packages \<Rightarrow> copier" where
  "OAPServerList_DeepCopy X = newAndCopy (OAPServerList_DeepCopyInto X)"

definition OAPServerList_DeepCopyObject :: "packages \<Rightarrow> gval \<Rightarrow> heap \<Rightarrow> iface \<times> heap" where
  "OAPServerList_DeepCopyObject X = asObject ''OAPServerList'' (OAPServerList_DeepCopy X)"

section \<open>Types of \<open>oapserverconfig_types.go\<close>\<close>

definition FileConfig_struct :: "packages \<Rightarrow> gtype" where
  "FileConfig_struct X = TStruct
     [(''Name'', TPlain), (''Path'', TPlain), (''Data'', TPlain)]"

definition FileConfig_DeepCopyInto :: "packages \<Rightarrow> copier" where
  "FileConfig_DeepCopyInto X = copyFields []"

definition FileConfig_DeepCopy :: "packages \<Rightarrow> copier" where
  "FileConfig_DeepCopy X = newAndCopy (FileConfig_DeepCopyInto X)"

definition OAPServerConfigSpec_struct :: "packages \<Rightarrow> gtype" where
  "OAPServerConfigSpec_struct X = TStruct
     [(''Version'', TPlain), (''Env'', TSlice (px_type X ''corev1.EnvVar'')),
      (''File'', TSlice (FileConfig_struct X))]"

definition OAPServerConfigSpec_DeepCopyInto :: "packages \<Rightarrow> copier" where
  "OAPServerConfigSpec_DeepCopyInto X = copyFields
     [(''Env'', makeAndLoop (px_copy X ''corev1.EnvVar'')), (''File'', makeAndCopy)]"

definition OAPServerConfigSpec_DeepCopy :: "packages \<Rightarrow> copier" where
  "OAPServerConfigSpec_DeepCopy X = newAndCopy (OAPServerConfigSpec_DeepCopyInto X)"

definition OAPServerConfigStatus_struct :: "packages \<Rightarrow> gtype" where
  "OAPServerConfigStatus_struct X = TStruct
     [(''Desired'', TPlain), (''Ready'', TPlain), (''CreationTime'', px_type X ''metav1.Time''),
      (''LastUpdateTime'', px_type X ''metav1.Time'')]"

definition OAPServerConfigStatus_DeepCopyInto :: "packages \<Rightarrow> copier" where
  "OAPServerConfigStatus_DeepCopyInto X = copyFields
     [(''CreationTime'', px_copy X ''metav1.Time''),
      (''LastUpdateTime'', px_copy X ''metav1.Time'')]"

definition OAPServerConfigStatus_DeepCopy :: "packages \<Rightarrow> copier" where
  "OAPServerConfigStatus_DeepCopy X = newAndCopy (OAPServerConfigStatus_DeepCopyInto X)"

definition OAPServerConfig_struct :: "packages \<Rightarrow> gtype" where
  "OAPServerConfig_struct X = TStruct
     [(''TypeMeta'', px_type X ''metav1.TypeMeta''),
      (''ObjectMeta'', px_type X ''metav1.ObjectMeta''),
      (''Spec'', OAPServerConfigSpec_struct X), (''Status'', OAPServerConfigStatus_struct X)]"

definition OAPServerConfig_DeepCopyInto :: "packages \<Rightarrow> copier" where
  "OAPServerConfig_DeepCopyInto X = copyFields
     [(''TypeMeta'', assign), (''ObjectMeta'', px_copy X ''metav1.ObjectMeta''),
      (''Spec'', OAPServerConfigSpec_DeepCopyInto X),
      (''Status'', OAPServerConfigStatus_DeepCopyInto X)]"

definition OAPServerConfig_DeepCopy :: "packages \<Rightarrow> copier" where
  "OAPServerConfig_DeepCopy X = newAndCopy (OAPServerConfig_DeepCopyInto X)"

definition OAPServerConfig_DeepCopyObject :: "packages \<Rightarrow> gval \<Rightarrow> heap \<Rightarrow> iface \<times> heap" where
  "OAPServerConfig_DeepCopyObject X = asObject ''OAPServerConfig'' (OAPServerConfig_DeepCopy X)"

definition OAPServerConfigList_struct :: "packages \<Rightarrow> gtype" where
  "OAPServerConfigList_struct X = TStruct
     [(''TypeMeta'', px_type X ''metav1.TypeMeta''),
      (''ListMeta'', px_type X ''metav1.ListMeta''),
      (''Items'', TSlice (OAPServerConfig_struct X))]"

definition OAPServerConfigList_DeepCopyInto :: "packages \<Rightarrow> copier" where
  "OAPServerConfigList_DeepCopyInto X = copyFields
     [(''TypeMeta'', assign), (''ListMeta'', px_copy X ''metav1.ListMeta''),
      (''Items'', makeAndLoop (OAPServerConfig_DeepCopyInto X))]"

definition OAPServerConfigList_DeepCopy :: "packages \<Rightarrow> copier" where
  "OAPServerConfigList_DeepCopy X = newAndCopy (OAPServerConfigList_DeepCopyInto X)"

definition OAPServerConfigList_DeepCopyObject :: "packages \<Rightarrow> gval \<Rightarrow> heap \<Rightarrow> iface \<times> heap" where
  "OAPServerConfigList_DeepCopyObject X = asObject ''OAPServerConfigList'' (OAPServerConfigList_DeepCopy X)"

section \<open>Types of \<open>oapserverdynamicconfig_types.go\<close>\<close>

definition Config_struct :: "packages \<Rightarrow> gtype" where
  "Config_struct X = TStruct
     [(''Name'', TPlain), (''Value'', TPlain)]"

definition Config_DeepCopyInto :: "packages \<Rightarrow> copier" where
  "Config_DeepCopyInto X = copyFields []"

definition Config_DeepCopy :: "packages \<Rightarrow> copier" where
  "Config_DeepCopy X = newAndCopy (Config_DeepCopyInto X)"

definition OAPServerDynamicConfigSpec_struct :: "packages \<Rightarrow> gtype" where
  "OAPServerDynamicConfigSpec_struct X = TStruct
     [(''Version'', TPlain), (''LabelSelector'', TPlain), (''Data'', TSlice (Config_struct X))]"

definition OAPServerDynamicConfigSpec_DeepCopyInto :: "packages \<Rightarrow> copier" where
  "OAPServerDynamicConfigSpec_DeepCopyInto X = copyFields
     [(''Data'', makeAndCopy)]"

definition OAPServerDynamicConfigSpec_DeepCopy :: "packages \<Rightarrow> copier" where
  "OAPServerDynamicConfigSpec_DeepCopy X = newAndCopy (OAPServerDynamicConfigSpec_DeepCopyInto X)"

definition OAPServerDynamicConfigStatus_struct :: "packages \<Rightarrow> gtype" where
  "OAPServerDynamicConfigStatus_struct X = TStruct
     [(''State'', TPlain), (''CreationTime'', px_type X ''metav1.Time''),
      (''LastUpdateTime'', px_type X ''metav1.Time'')]"

definition OAPServerDynamicConfigStatus_DeepCopyInto :: "packages \<Rightarrow> copier" where
  "OAPServerDynamicConfigStatus_DeepCopyInto X = copyFields
     [(''CreationTime'', px_copy X ''metav1.Time''),
      (''LastUpdateTime'', px_copy X ''metav1.Time'')]"

definition OAPServerDynamicConfigStatus_DeepCopy :: "packages \<Rightarrow> copier" where
  "OAPServerDynamicConfigStatus_DeepCopy X = newAndCopy (OAPServerDynamicConfigStatus_DeepCopyInto X)"

definition OAPServerDynamicConfig_struct :: "packages \<Rightarrow> gtype" where
  "OAPServerDynamicConfig_struct X = TStruct
     [(''TypeMeta'', px_type X ''metav1.TypeMeta''),
      (''ObjectMeta'', px_type X ''metav1.ObjectMeta''),
      (''Spec'', OAPServerDynamicConfigSpec_struct X),
      (''Status'', OAPServerDynamicConfigStatus_struct X)]"

definition OAPServerDynamicConfig_DeepCopyInto :: "packages \<Rightarrow> copier" where
  "OAPServerDynamicConfig_DeepCopyInto X = copyFields
     [(''TypeMeta'', assign), (''ObjectMeta'', px_copy X ''metav1.ObjectMeta''),
      (''Spec'', OAPServerDynamicConfigSpec_DeepCopyInto X),
      (''Status'', OAPServerDynamicConfigStatus_DeepCopyInto X)]"

definition OAPServerDynamicConfig_DeepCopy :: "packages \<Rightarrow> copier" where
  "OAPServerDynamicConfig_DeepCopy X = newAndCopy (OAPServerDynamicConfig_DeepCopyInto X)"

definition OAPServerDynamicConfig_DeepCopyObject :: "packages \<Rightarrow> gval \<Rightarrow> heap \<Rightarrow> iface \<times> heap" where
  "OAPServerDynamicConfig_DeepCopyObject X = asObject ''OAPServerDynamicConfig'' (OAPServerDynamicConfig_DeepCopy X)"

definition OAPServerDynamicConfigList_struct :: "packages \<Rightarrow> gtype" where
  "OAPServerDynamicConfigList_struct X = TStruct
     [(''TypeMeta'', px_type X ''metav1.TypeMeta''),
      (''ListMeta'', px_type X ''metav1.ListMeta''),
      (''Items'', TSlice (OAPServerDynamicConfig_struct X))]"

definition OAPServerDynamicConfigList_DeepCopyInto :: "packages \<Rightarrow> copier" where
  "OAPServerDynamicConfigList_DeepCopyInto X = copyFields
     [(''TypeMeta'', assign), (''ListMeta'', px_copy X ''metav1.ListMeta''),
      (''Items'', makeAndLoop (OAPServerDynamicConfig_DeepCopyInto X))]"

definition OAPServerDynamicConfigList_DeepCopy :: "packages \<Rightarrow> copier" where
  "OAPServerDynamicConfigList_DeepCopy X = newAndCopy (OAPServerDynamicConfigList_DeepCopyInto X)"

definition OAPServerDynamicConfigList_DeepCopyObject :: "packages \<Rightarrow> gval \<Rightarrow> heap \<Rightarrow> iface \<times> heap" where
  "OAPServerDynamicConfigList_DeepCopyObject X = asObject ''OAPServerDynamicConfigList'' (OAPServerDynamicConfigList_DeepCopy X)"

section \<open>Types of \<open>satellite_types.go\<close>\<close>

definition SatelliteSpec_struct :: "packages \<Rightarrow> gtype" where
  "SatelliteSpec_struct X = TStruct
     [(''Version'', TPlain), (''Image'', TPlain), (''Instances'', TPlain),
      (''Config'', TSlice (px_type X ''corev1.EnvVar'')), (''Service'', Service_struct X),
      (''OAPServerName'', TPlain)]"

definition SatelliteSpec_DeepCopyInto :: "packages \<Rightarrow> copier" where
  "SatelliteSpec_DeepCopyInto X = copyFields
     [(''Config'', makeAndLoop (px_copy X ''corev1.EnvVar'')),
      (''Service'', Service_DeepCopyInto X)]"

definition SatelliteSpec_DeepCopy :: "packages \<Rightarrow> copier" where
  "SatelliteSpec_DeepCopy X = newAndCopy (SatelliteSpec_DeepCopyInto X)"

definition SatelliteStatus_struct :: "packages \<Rightarrow> gtype" where
  "SatelliteStatus_struct X = TStruct
     [(''AvailableReplicas'', TPlain), (''Address'', TPlain),
      (''Conditions'', TSlice (px_type X ''appsv1.DeploymentCondition''))]"

definition SatelliteStatus_DeepCopyInto :: "packages \<Rightarrow> copier" where
  "SatelliteStatus_DeepCopyInto X = copyFields
     [(''Conditions'', makeAndLoop (px_copy X ''appsv1.DeploymentCondition''))]"

definition SatelliteStatus_DeepCopy :: "packages \<Rightarrow> copier" where
  "SatelliteStatus_DeepCopy X = newAndCopy (SatelliteStatus_DeepCopyInto X)"

definition Satellite_struct :: "packages \<Rightarrow> gtype" where
  "Satellite_struct X = TStruct
     [(''TypeMeta'', px_type X ''metav1.TypeMeta''),
      (''ObjectMeta'', px_type X ''metav1.ObjectMeta''), (''Spec'', SatelliteSpec_struct X),
      (''Status'', SatelliteStatus_struct X)]"

definition Satellite_DeepCopyInto :: "packages \<Rightarrow> copier" where
  "Satellite_DeepCopyInto X = copyFields
     [(''TypeMeta'', assign), (''ObjectMeta'', px_copy X ''metav1.ObjectMeta''),
      (''Spec'', SatelliteSpec_DeepCopyInto X), (''Status'', SatelliteStatus_DeepCopyInto X)]"

definition Satellite_DeepCopy :: "packages \<Rightarrow> copier" where
  "Satellite_DeepCopy X = newAndCopy (Satellite_DeepCopyInto X)"

definition Satellite_DeepCopyObject :: "packages \<Rightarrow> gval \<Rightarrow> heap \<Rightarrow> iface \<times> heap" where
  "Satellite_DeepCopyObject X = asObject ''Satellite'' (Satellite_DeepCopy X)"

definition SatelliteList_struct :: "packages \<Rightarrow> gtype" where
  "SatelliteList_struct X = TStruct
     [(''TypeMeta'', px_type X ''metav1.TypeMeta''),
      (''ListMeta'', px_type X ''metav1.ListMeta''), (''Items'', TSlice (Satellite_struct X))]"

definition SatelliteList_DeepCopyInto :: "packages \<Rightarrow> copier" where
  "SatelliteList_DeepCopyInto X = copyFields
     [(''TypeMeta'', assign), (''ListMeta'', px_copy X ''metav1.ListMeta''),
      (''Items'', makeAndLoop (Satellite_DeepCopyInto X))]"

definition SatelliteList_DeepCopy :: "packages \<Rightarrow> copier" where
  "SatelliteList_DeepCopy X = newAndCopy (SatelliteList_DeepCopyInto X)"

definition SatelliteList_DeepCopyObject :: "packages \<Rightarrow> gval \<Rightarrow> heap \<Rightarrow> iface \<times> heap" where
  "SatelliteList_DeepCopyObject X = asObject ''SatelliteList'' (SatelliteList_DeepCopy X)"

section \<open>Types of \<open>storage_types.go\<close>\<close>

definition StorageList_struct :: "packages \<Rightarrow> gtype" where
  "StorageList_struct X = TStruct
     [(''TypeMeta'', px_type X ''metav1.TypeMeta''),
      (''ListMeta'', px_type X ''metav1.ListMeta''), (''Items'', TSlice (Storage_struct X))]"

definition StorageList_DeepCopyInto :: "packages \<Rightarrow> copier" where
  "StorageList_DeepCopyInto X = copyFields
     [(''TypeMeta'', assign), (''ListMeta'', px_copy X ''metav1.ListMeta''),
      (''Items'', makeAndLoop (Storage_DeepCopyInto X))]"

definition StorageList_DeepCopy :: "packages \<Rightarrow> copier" where
  "StorageList_DeepCopy X = newAndCopy (StorageList_DeepCopyInto X)"

definition StorageList_DeepCopyObject :: "packages \<Rightarrow> gval \<Rightarrow> heap \<Rightarrow> iface \<times> heap" where
  "StorageList_DeepCopyObject X = asObject ''StorageList'' (StorageList_DeepCopy X)"

section \<open>Types of \<open>swagent_types.go\<close>\<close>

definition JavaSidecar_struct :: "packages \<Rightarrow> gtype" where
  "JavaSidecar_struct X = TStruct
     [(''Name'', TPlain), (''Image'', TPlain), (''Command'', TSlice TPlain),
      (''Args'', TSlice TPlain), (''Resources'', px_type X ''corev1.ResourceRequirements''),
      (''Env'', TSlice (px_type X ''corev1.EnvVar''))]"

definition JavaSidecar_DeepCopyInto :: "packages \<Rightarrow> copier" where
  "JavaSidecar_DeepCopyInto X = copyFields
     [(''Command'', makeAndCopy), (''Args'', makeAndCopy),
      (''Resources'', px_copy X ''corev1.ResourceRequirements''),
      (''Env'', makeAndLoop (px_copy X ''corev1.EnvVar''))]"

definition JavaSidecar_DeepCopy :: "packages \<Rightarrow> copier" where
  "JavaSidecar_DeepCopy X = newAndCopy (JavaSidecar_DeepCopyInto X)"

definition SwAgentSpec_struct :: "packages \<Rightarrow> gtype" where
  "SwAgentSpec_struct X = TStruct
     [(''Selector'', TMap TPlain), (''ContainerMatcher'', TPlain),
      (''JavaSidecar'', JavaSidecar_struct X), (''SharedVolumeName'', TPlain),
      (''OptionalPlugins'', TSlice TPlain), (''OptionalReporterPlugins'', TSlice TPlain),
      (''BootstrapPlugins'', TSlice TPlain)]"

definition SwAgentSpec_DeepCopyInto :: "packages \<Rightarrow> copier" where
  "SwAgentSpec_DeepCopyInto X = copyFields
     [(''Selector'', makeAndRange (px_range X)), (''JavaSidecar'', JavaSidecar_DeepCopyInto X),
      (''OptionalPlugins'', makeAndCopy), (''OptionalReporterPlugins'', makeAndCopy),
      (''BootstrapPlugins'', makeAndCopy)]"

definition SwAgentSpec_DeepCopy :: "packages \<Rightarrow> copier" where
  "SwAgentSpec_DeepCopy X = newAndCopy (SwAgentSpec_DeepCopyInto X)"

definition SwAgentStatus_struct :: "packages \<Rightarrow> gtype" where
  "SwAgentStatus_struct X = TStruct
     [(''CreationTime'', px_type X ''metav1.Time''),
      (''LastUpdateTime'', px_type X ''metav1.Time'')]"

definition SwAgentStatus_DeepCopyInto :: "packages \<Rightarrow> copier" where
  "SwAgentStatus_DeepCopyInto X = copyFields
     [(''CreationTime'', px_copy X ''metav1.Time''),
      (''LastUpdateTime'', px_copy X ''metav1.Time'')]"

definition SwAgentStatus_DeepCopy :: "packages \<Rightarrow> copier" where
  "SwAgentStatus_DeepCopy X = newAndCopy (SwAgentStatus_DeepCopyInto X)"

definition SharedVolume_struct :: "packages \<Rightarrow> gtype" where
  "SharedVolume_struct X = TStruct
     [(''Name'', TPlain), (''MountPath'', TPlain)]"

definition SharedVolume_DeepCopyInto :: "packages \<Rightarrow> copier" where
  "SharedVolume_DeepCopyInto X = copyFields []"

definition SharedVolume_DeepCopy :: "packages \<Rightarrow> copier" where
  "SharedVolume_DeepCopy X = newAndCopy (SharedVolume_DeepCopyInto X)"

definition SwAgent_struct :: "packages \<Rightarrow> gtype" where
  "SwAgent_struct X = TStruct
     [(''TypeMeta'', px_type X ''metav1.TypeMeta''),
      (''ObjectMeta'', px_type X ''metav1.ObjectMeta''), (''Spec'', SwAgentSpec_struct X),
      (''Status'', SwAgentStatus_struct X)]"

definition SwAgent_DeepCopyInto :: "packages \<Rightarrow> copier" where
  "SwAgent_DeepCopyInto X = copyFields
     [(''TypeMeta'', assign), (''ObjectMeta'', px_copy X ''metav1.ObjectMeta''),
      (''Spec'', SwAgentSpec_DeepCopyInto X), (''Status'', SwAgentStatus_DeepCopyInto X)]"

definition SwAgent_DeepCopy :: "packages \<Rightarrow> copier" where
  "SwAgent_DeepCopy X = newAndCopy (SwAgent_DeepCopyInto X)"

definition SwAgent_DeepCopyObject :: "packages \<Rightarrow> gval \<Rightarrow> heap \<Rightarrow> iface \<times> heap" where
  "SwAgent_DeepCopyObject X = asObject ''SwAgent'' (SwAgent_DeepCopy X)"

definition SwAgentList_struct :: "packages \<Rightarrow> gtype" where
  "SwAgentList_struct X = TStruct
     [(''TypeMeta'', px_type X ''metav1.TypeMeta''),
      (''ListMeta'', px_type X ''metav1.ListMeta''), (''Items'', TSlice (SwAgent_struct X))]"

definition SwAgentList_DeepCopyInto :: "packages \<Rightarrow> copier" where
  "SwAgentList_DeepCopyInto X = copyFields
     [(''TypeMeta'', assign), (''ListMeta'', px_copy X ''metav1.ListMeta''),
      (''Items'', makeAndLoop (SwAgent_DeepCopyInto X))]"

definition SwAgentList_DeepCopy :: "packages \<Rightarrow> copier" where
  "SwAgentList_DeepCopy X = newAndCopy (SwAgentList_DeepCopyInto X)"

definition SwAgentList_DeepCopyObject :: "packages \<Rightarrow> gval \<Rightarrow> heap \<Rightarrow> iface \<times> heap" where
  "SwAgentList_DeepCopyObject X = asObject ''SwAgentList'' (SwAgentList_DeepCopy X)"

section \<open>Types of \<open>ui_types.go\<close>\<close>

definition UISpec_struct :: "packages \<Rightarrow> gtype" where
  "UISpec_struct X = TStruct
     [(''Kind'', TPlain), (''Version'', TPlain), (''Image'', TPlain), (''Instances'', TPlain),
      (''OAPServerAddress'', TPlain), (''OAPServerAdminAddress'', TPlain),
      (''OAPServerZipkinAddress'', TPlain), (''Config'', TPlain),
      (''Service'', Service_struct X)]"

definition UISpec_DeepCopyInto :: "packages \<Rightarrow> copier" where
  "UISpec_DeepCopyInto X = copyFields
     [(''Service'', Service_DeepCopyInto X)]"

definition UISpec_DeepCopy :: "packages \<Rightarrow> copier" where
  "UISpec_DeepCopy X = newAndCopy (UISpec_DeepCopyInto X)"

definition UIStatus_struct :: "packages \<Rightarrow> gtype" where
  "UIStatus_struct X = TStruct
     [(''AvailableReplicas'', TPlain), (''ExternalIPs'', TSlice TPlain),
      (''Ports'', TSlice TPlain), (''InternalAddress'', TPlain),
      (''Conditions'', TSlice (px_type X ''appsv1.DeploymentCondition''))]"

definition UIStatus_DeepCopyInto :: "packages \<Rightarrow> copier" where
  "UIStatus_DeepCopyInto X = copyFields
     [(''ExternalIPs'', makeAndCopy), (''Ports'', makeAndCopy),
      (''Conditions'', makeAndLoop (px_copy X ''appsv1.DeploymentCondition''))]"

definition UIStatus_DeepCopy :: "packages \<Rightarrow> copier" where
  "UIStatus_DeepCopy X = newAndCopy (UIStatus_DeepCopyInto X)"

definition UI_struct :: "packages \<Rightarrow> gtype" where
  "UI_struct X = TStruct
     [(''TypeMeta'', px_type X ''metav1.TypeMeta''),
      (''ObjectMeta'', px_type X ''metav1.ObjectMeta''), (''Spec'', UISpec_struct X),
      (''Status'', UIStatus_struct X)]"

definition UI_DeepCopyInto :: "packages \<Rightarrow> copier" where
  "UI_DeepCopyInto X = copyFields
     [(''TypeMeta'', assign), (''ObjectMeta'', px_copy X ''metav1.ObjectMeta''),
      (''Spec'', UISpec_DeepCopyInto X), (''Status'', UIStatus_DeepCopyInto X)]"

definition UI_DeepCopy :: "packages \<Rightarrow> copier" where
  "UI_DeepCopy X = newAndCopy (UI_DeepCopyInto X)"

definition UI_DeepCopyObject :: "packages \<Rightarrow> gval \<Rightarrow> heap \<Rightarrow> iface \<times> heap" where
  "UI_DeepCopyObject X = asObject ''UI'' (UI_DeepCopy X)"

definition UIList_struct :: "packages \<Rightarrow> gtype" where
  "UIList_struct X = TStruct
     [(''TypeMeta'', px_type X ''metav1.TypeMeta''),
      (''ListMeta'', px_type X ''metav1.ListMeta''), (''Items'', TSlice (UI_struct X))]"

definition UIList_DeepCopyInto :: "packages \<Rightarrow> copier" where
  "UIList_DeepCopyInto X = copyFields
     [(''TypeMeta'', assign), (''ListMeta'', px_copy X ''metav1.ListMeta''),
      (''Items'', makeAndLoop (UI_DeepCopyInto X))]"

definition UIList_DeepCopy :: "packages \<Rightarrow> copier" where
  "UIList_DeepCopy X = newAndCopy (UIList_DeepCopyInto X)"

definition UIList_DeepCopyObject :: "packages \<Rightarrow> gval \<Rightarrow> heap \<Rightarrow> iface \<times> heap" where
  "UIList_DeepCopyObject X = asObject ''UIList'' (UIList_DeepCopy X)"

section \<open>All of them\<close>

text \<open>Every struct of the package with its \<open>DeepCopyInto\<close>, and every kind and list of a kind with its
  \<open>DeepCopyObject\<close>.\<close>

definition deepCopyIntos :: "packages \<Rightarrow> (string \<times> gtype \<times> copier) list" where
  "deepCopyIntos X =
     [(''ServiceTemplate'', ServiceTemplate_struct X, ServiceTemplate_DeepCopyInto X),
      (''Ingress'', Ingress_struct X, Ingress_DeepCopyInto X),
      (''Service'', Service_struct X, Service_DeepCopyInto X),
      (''StorageConfig'', StorageConfig_struct X, StorageConfig_DeepCopyInto X),
      (''BanyanDBSpec'', BanyanDBSpec_struct X, BanyanDBSpec_DeepCopyInto X),
      (''BanyanDBStatus'', BanyanDBStatus_struct X, BanyanDBStatus_DeepCopyInto X),
      (''BanyanDB'', BanyanDB_struct X, BanyanDB_DeepCopyInto X),
      (''BanyanDBList'', BanyanDBList_struct X, BanyanDBList_DeepCopyInto X),
      (''EventExporterSpec'', EventExporterSpec_struct X, EventExporterSpec_DeepCopyInto X),
      (''EventExporterStatus'', EventExporterStatus_struct X, EventExporterStatus_DeepCopyInto X),
      (''EventExporter'', EventExporter_struct X, EventExporter_DeepCopyInto X),
      (''EventExporterList'', EventExporterList_struct X, EventExporterList_DeepCopyInto X),
      (''FetcherSpec'', FetcherSpec_struct X, FetcherSpec_DeepCopyInto X),
      (''FetcherCondition'', FetcherCondition_struct X, FetcherCondition_DeepCopyInto X),
      (''FetcherStatus'', FetcherStatus_struct X, FetcherStatus_DeepCopyInto X),
      (''Fetcher'', Fetcher_struct X, Fetcher_DeepCopyInto X),
      (''FetcherList'', FetcherList_struct X, FetcherList_DeepCopyInto X),
      (''JavaAgentSpec'', JavaAgentSpec_struct X, JavaAgentSpec_DeepCopyInto X),
      (''JavaAgentStatus'', JavaAgentStatus_struct X, JavaAgentStatus_DeepCopyInto X),
      (''JavaAgent'', JavaAgent_struct X, JavaAgent_DeepCopyInto X),
      (''JavaAgentList'', JavaAgentList_struct X, JavaAgentList_DeepCopyInto X),
      (''UserSpec'', UserSpec_struct X, UserSpec_DeepCopyInto X),
      (''SecuritySpec'', SecuritySpec_struct X, SecuritySpec_DeepCopyInto X),
      (''Resource'', Resource_struct X, Resource_DeepCopyInto X),
      (''StorageSpec'', StorageSpec_struct X, StorageSpec_DeepCopyInto X),
      (''StorageStatus'', StorageStatus_struct X, StorageStatus_DeepCopyInto X),
      (''Storage'', Storage_struct X, Storage_DeepCopyInto X),
      (''RelevantStorage'', RelevantStorage_struct X, RelevantStorage_DeepCopyInto X),
      (''OAPServerSpec'', OAPServerSpec_struct X, OAPServerSpec_DeepCopyInto X),
      (''OAPServerStatus'', OAPServerStatus_struct X, OAPServerStatus_DeepCopyInto X),
      (''OAPServer'', OAPServer_struct X, OAPServer_DeepCopyInto X),
      (''OAPServerList'', OAPServerList_struct X, OAPServerList_DeepCopyInto X),
      (''FileConfig'', FileConfig_struct X, FileConfig_DeepCopyInto X),
      (''OAPServerConfigSpec'', OAPServerConfigSpec_struct X, OAPServerConfigSpec_DeepCopyInto X),
      (''OAPServerConfigStatus'', OAPServerConfigStatus_struct X, OAPServerConfigStatus_DeepCopyInto X),
      (''OAPServerConfig'', OAPServerConfig_struct X, OAPServerConfig_DeepCopyInto X),
      (''OAPServerConfigList'', OAPServerConfigList_struct X, OAPServerConfigList_DeepCopyInto X),
      (''Config'', Config_struct X, Config_DeepCopyInto X),
      (''OAPServerDynamicConfigSpec'', OAPServerDynamicConfigSpec_struct X, OAPServerDynamicConfigSpec_DeepCopyInto X),
      (''OAPServerDynamicConfigStatus'', OAPServerDynamicConfigStatus_struct X, OAPServerDynamicConfigStatus_DeepCopyInto X),
      (''OAPServerDynamicConfig'', OAPServerDynamicConfig_struct X, OAPServerDynamicConfig_DeepCopyInto X),
      (''OAPServerDynamicConfigList'', OAPServerDynamicConfigList_struct X, OAPServerDynamicConfigList_DeepCopyInto X),
      (''SatelliteSpec'', SatelliteSpec_struct X, SatelliteSpec_DeepCopyInto X),
      (''SatelliteStatus'', SatelliteStatus_struct X, SatelliteStatus_DeepCopyInto X),
      (''Satellite'', Satellite_struct X, Satellite_DeepCopyInto X),
      (''SatelliteList'', SatelliteList_struct X, SatelliteList_DeepCopyInto X),
      (''StorageList'', StorageList_struct X, StorageList_DeepCopyInto X),
      (''JavaSidecar'', JavaSidecar_struct X, JavaSidecar_DeepCopyInto X),
      (''SwAgentSpec'', SwAgentSpec_struct X, SwAgentSpec_DeepCopyInto X),
      (''SwAgentStatus'', SwAgentStatus_struct X, SwAgentStatus_DeepCopyInto X),
      (''SharedVolume'', SharedVolume_struct X, SharedVolume_DeepCopyInto X),
      (''SwAgent'', SwAgent_struct X, SwAgent_DeepCopyInto X),
      (''SwAgentList'', SwAgentList_struct X, SwAgentList_DeepCopyInto X),
      (''UISpec'', UISpec_struct X, UISpec_DeepCopyInto X),
      (''UIStatus'', UIStatus_struct X, UIStatus_DeepCopyInto X),
      (''UI'', UI_struct X, UI_DeepCopyInto X),
      (''UIList'', UIList_struct X, UIList_DeepCopyInto X)]"

definition runtimeObjects ::
  "packages \<Rightarrow> (string \<times> gtype \<times> (gval \<Rightarrow> heap \<Rightarrow> iface \<times> heap)) list" where
  "runtimeObjects X =
     [(''BanyanDB'', BanyanDB_struct X, BanyanDB_DeepCopyObject X),
      (''BanyanDBList'', BanyanDBList_struct X, BanyanDBList_DeepCopyObject X),
      (''EventExporter'', EventExporter_struct X, EventExporter_DeepCopyObject X),
      (''EventExporterList'', EventExporterList_struct X, EventExporterList_DeepCopyObject X),
      (''Fetcher'', Fetcher_struct X, Fetcher_DeepCopyObject X),
      (''FetcherList'', FetcherList_struct X, FetcherList_DeepCopyObject X),
      (''JavaAgent'', JavaAgent_struct X, JavaAgent_DeepCopyObject X),
      (''JavaAgentList'', JavaAgentList_struct X, JavaAgentList_DeepCopyObject X),
      (''Storage'', Storage_struct X, Storage_DeepCopyObject X),
      (''OAPServer'', OAPServer_struct X, OAPServer_DeepCopyObject X),
      (''OAPServerList'', OAPServerList_struct X, OAPServerList_DeepCopyObject X),
      (''OAPServerConfig'', OAPServerConfig_struct X, OAPServerConfig_DeepCopyObject X),
      (''OAPServerConfigList'', OAPServerConfigList_struct X, OAPServerConfigList_DeepCopyObject X),
      (''OAPServerDynamicConfig'', OAPServerDynamicConfig_struct X, OAPServerDynamicConfig_DeepCopyObject X),
      (''OAPServerDynamicConfigList'', OAPServerDynamicConfigList_struct X, OAPServerDynamicConfigList_DeepCopyObject X),
      (''Satellite'', Satellite_struct X, Satellite_DeepCopyObject X),
      (''SatelliteList'', SatelliteList_struct X, SatelliteList_DeepCopyObject X),
      (''StorageList'', StorageList_struct X, StorageList_DeepCopyObject X),
      (''SwAgent'', SwAgent_struct X, SwAgent_DeepCopyObject X),
      (''SwAgentList'', SwAgentList_struct X, SwAgentList_DeepCopyObject X),
      (''UI'', UI_struct X, UI_DeepCopyObject X),
      (''UIList'', UIList_struct X, UIList_DeepCopyObject X)]"

text \<open>An instance of the parameter: object metadata with a map of labels and a slice of finalizers, everything
  else plain; and a \<open>JavaAgent\<close> with labels and an agent configuration, at address 3.\<close>

definition metaStruct :: gtype where
  "metaStruct = TStruct [(''Name'', TPlain), (''Labels'', TMap TPlain), (''Finalizers'', TSlice TPlain)]"

definition examplePackages :: packages where
  "examplePackages = \<lparr>
     px_type = (\<lambda>n. if n = ''metav1.ObjectMeta'' then metaStruct else TPlain),
     px_copy = (\<lambda>n. if n = ''metav1.ObjectMeta''
       then copyFields [(''Labels'', makeAndRange id), (''Finalizers'', makeAndCopy)] else assign),
     px_range = rev\<rparr>"

definition exampleHeap :: heap where
  "exampleHeap =
     [Table [(''app'', Plain (PString ''shop''))],
      Arr [Plain (PString ''old''), Plain (PString ''keep'')],
      Table [(''agent.ignore_suffix'', Plain (PString ''.jpg'')), (''logging.level'', Plain (PString ''INFO''))],
      Arr [Struct [(''TypeMeta'', Plain (PString ''JavaAgent'')),
        (''ObjectMeta'', Struct [(''Name'', Plain (PString ''shop'')), (''Labels'', GoMap (Some 0)),
           (''Finalizers'', Slice (Some (1, 1, 1)))]),
        (''Spec'', Struct [(''PodSelector'', Plain (PString ''app=shop'')), (''ServiceName'', Plain (PString ''shop'')),
           (''BackendService'', Plain (PString ''oap:11800'')), (''AgentConfiguration'', GoMap (Some 2))]),
        (''Status'', Struct [(''ExpectedInjectedNum'', Plain (PInt 2)), (''RealInjectedNum'', Plain (PInt 1)),
           (''CreationTime'', Plain (PInt 0)), (''LastUpdateTime'', Plain (PInt 7))])]]]"

definition exampleCopy :: "iface \<times> heap" where
  "exampleCopy = JavaAgent_DeepCopyObject examplePackages (Pointer (Some (3, 0))) exampleHeap"

section \<open>Every copy function copies deeply\<close>

lemma packages_deep [deep_intros]:
  assumes "packagesOK X"
  shows "deepCopier (px_type X ''appsv1.DeploymentCondition'') (px_copy X ''appsv1.DeploymentCondition'')"
    and "deepCopier (px_type X ''appsv1.StatefulSetCondition'') (px_copy X ''appsv1.StatefulSetCondition'')"
    and "deepCopier (px_type X ''corev1.Affinity'') (px_copy X ''corev1.Affinity'')"
    and "deepCopier (px_type X ''corev1.EnvVar'') (px_copy X ''corev1.EnvVar'')"
    and "deepCopier (px_type X ''corev1.PersistentVolumeClaimSpec'') (px_copy X ''corev1.PersistentVolumeClaimSpec'')"
    and "deepCopier (px_type X ''corev1.ResourceRequirements'') (px_copy X ''corev1.ResourceRequirements'')"
    and "deepCopier (px_type X ''metav1.ListMeta'') (px_copy X ''metav1.ListMeta'')"
    and "deepCopier (px_type X ''metav1.ObjectMeta'') (px_copy X ''metav1.ObjectMeta'')"
    and "deepCopier (px_type X ''metav1.Time'') (px_copy X ''metav1.Time'')"
    and "deepCopier (px_type X ''networkingv1.IngressTLS'') (px_copy X ''networkingv1.IngressTLS'')"
  using assms by (simp_all add: packagesOK_def copiedTypes_def)

lemma packages_flat:
  assumes "packagesOK X"
  shows "flat (px_type X ''metav1.TypeMeta'')" and "flat (px_type X ''corev1.ConditionStatus'')"
    and "rangesTables (px_range X)"
  using assms by (simp_all add: packagesOK_def)

lemma struct_flat:
  "flat (EventExporterSpec_struct X)"
  "flat (UserSpec_struct X)"
  "flat (SecuritySpec_struct X)"
  "flat (Resource_struct X)"
  "flat (FileConfig_struct X)"
  "flat (Config_struct X)"
  "flat (SharedVolume_struct X)"
  by (simp_all add: EventExporterSpec_struct_def UserSpec_struct_def SecuritySpec_struct_def Resource_struct_def FileConfig_struct_def Config_struct_def SharedVolume_struct_def)

lemma ServiceTemplate_deep [deep_intros]: "packagesOK X \<Longrightarrow> deepCopier (ServiceTemplate_struct X) (ServiceTemplate_DeepCopyInto X)"
  unfolding ServiceTemplate_struct_def ServiceTemplate_DeepCopyInto_def
  by (rule deep_structI) (simp_all add: deep_intros packages_flat struct_flat)

lemma Ingress_deep [deep_intros]: "packagesOK X \<Longrightarrow> deepCopier (Ingress_struct X) (Ingress_DeepCopyInto X)"
  unfolding Ingress_struct_def Ingress_DeepCopyInto_def
  by (rule deep_structI) (simp_all add: deep_intros packages_flat struct_flat)

lemma Service_deep [deep_intros]: "packagesOK X \<Longrightarrow> deepCopier (Service_struct X) (Service_DeepCopyInto X)"
  unfolding Service_struct_def Service_DeepCopyInto_def
  by (rule deep_structI) (simp_all add: deep_intros packages_flat struct_flat)

lemma StorageConfig_deep [deep_intros]: "packagesOK X \<Longrightarrow> deepCopier (StorageConfig_struct X) (StorageConfig_DeepCopyInto X)"
  unfolding StorageConfig_struct_def StorageConfig_DeepCopyInto_def
  by (rule deep_structI) (simp_all add: deep_intros packages_flat struct_flat)

lemma BanyanDBSpec_deep [deep_intros]: "packagesOK X \<Longrightarrow> deepCopier (BanyanDBSpec_struct X) (BanyanDBSpec_DeepCopyInto X)"
  unfolding BanyanDBSpec_struct_def BanyanDBSpec_DeepCopyInto_def
  by (rule deep_structI) (simp_all add: deep_intros packages_flat struct_flat)

lemma BanyanDBStatus_deep [deep_intros]: "packagesOK X \<Longrightarrow> deepCopier (BanyanDBStatus_struct X) (BanyanDBStatus_DeepCopyInto X)"
  unfolding BanyanDBStatus_struct_def BanyanDBStatus_DeepCopyInto_def
  by (rule deep_structI) (simp_all add: deep_intros packages_flat struct_flat)

lemma BanyanDB_deep [deep_intros]: "packagesOK X \<Longrightarrow> deepCopier (BanyanDB_struct X) (BanyanDB_DeepCopyInto X)"
  unfolding BanyanDB_struct_def BanyanDB_DeepCopyInto_def
  by (rule deep_structI) (simp_all add: deep_intros packages_flat struct_flat)

lemma BanyanDBList_deep [deep_intros]: "packagesOK X \<Longrightarrow> deepCopier (BanyanDBList_struct X) (BanyanDBList_DeepCopyInto X)"
  unfolding BanyanDBList_struct_def BanyanDBList_DeepCopyInto_def
  by (rule deep_structI) (simp_all add: deep_intros packages_flat struct_flat)

lemma EventExporterSpec_deep [deep_intros]: "packagesOK X \<Longrightarrow> deepCopier (EventExporterSpec_struct X) (EventExporterSpec_DeepCopyInto X)"
  unfolding EventExporterSpec_struct_def EventExporterSpec_DeepCopyInto_def
  by (rule deep_structI) (simp_all add: deep_intros packages_flat struct_flat)

lemma EventExporterStatus_deep [deep_intros]: "packagesOK X \<Longrightarrow> deepCopier (EventExporterStatus_struct X) (EventExporterStatus_DeepCopyInto X)"
  unfolding EventExporterStatus_struct_def EventExporterStatus_DeepCopyInto_def
  by (rule deep_structI) (simp_all add: deep_intros packages_flat struct_flat)

lemma EventExporter_deep [deep_intros]: "packagesOK X \<Longrightarrow> deepCopier (EventExporter_struct X) (EventExporter_DeepCopyInto X)"
  unfolding EventExporter_struct_def EventExporter_DeepCopyInto_def
  by (rule deep_structI) (simp_all add: deep_intros packages_flat struct_flat)

lemma EventExporterList_deep [deep_intros]: "packagesOK X \<Longrightarrow> deepCopier (EventExporterList_struct X) (EventExporterList_DeepCopyInto X)"
  unfolding EventExporterList_struct_def EventExporterList_DeepCopyInto_def
  by (rule deep_structI) (simp_all add: deep_intros packages_flat struct_flat)

lemma FetcherSpec_deep [deep_intros]: "packagesOK X \<Longrightarrow> deepCopier (FetcherSpec_struct X) (FetcherSpec_DeepCopyInto X)"
  unfolding FetcherSpec_struct_def FetcherSpec_DeepCopyInto_def
  by (rule deep_structI) (simp_all add: deep_intros packages_flat struct_flat)

lemma FetcherCondition_deep [deep_intros]: "packagesOK X \<Longrightarrow> deepCopier (FetcherCondition_struct X) (FetcherCondition_DeepCopyInto X)"
  unfolding FetcherCondition_struct_def FetcherCondition_DeepCopyInto_def
  by (rule deep_structI) (simp_all add: deep_intros packages_flat struct_flat)

lemma FetcherStatus_deep [deep_intros]: "packagesOK X \<Longrightarrow> deepCopier (FetcherStatus_struct X) (FetcherStatus_DeepCopyInto X)"
  unfolding FetcherStatus_struct_def FetcherStatus_DeepCopyInto_def
  by (rule deep_structI) (simp_all add: deep_intros packages_flat struct_flat)

lemma Fetcher_deep [deep_intros]: "packagesOK X \<Longrightarrow> deepCopier (Fetcher_struct X) (Fetcher_DeepCopyInto X)"
  unfolding Fetcher_struct_def Fetcher_DeepCopyInto_def
  by (rule deep_structI) (simp_all add: deep_intros packages_flat struct_flat)

lemma FetcherList_deep [deep_intros]: "packagesOK X \<Longrightarrow> deepCopier (FetcherList_struct X) (FetcherList_DeepCopyInto X)"
  unfolding FetcherList_struct_def FetcherList_DeepCopyInto_def
  by (rule deep_structI) (simp_all add: deep_intros packages_flat struct_flat)

lemma JavaAgentSpec_deep [deep_intros]: "packagesOK X \<Longrightarrow> deepCopier (JavaAgentSpec_struct X) (JavaAgentSpec_DeepCopyInto X)"
  unfolding JavaAgentSpec_struct_def JavaAgentSpec_DeepCopyInto_def
  by (rule deep_structI) (simp_all add: deep_intros packages_flat struct_flat)

lemma JavaAgentStatus_deep [deep_intros]: "packagesOK X \<Longrightarrow> deepCopier (JavaAgentStatus_struct X) (JavaAgentStatus_DeepCopyInto X)"
  unfolding JavaAgentStatus_struct_def JavaAgentStatus_DeepCopyInto_def
  by (rule deep_structI) (simp_all add: deep_intros packages_flat struct_flat)

lemma JavaAgent_deep [deep_intros]: "packagesOK X \<Longrightarrow> deepCopier (JavaAgent_struct X) (JavaAgent_DeepCopyInto X)"
  unfolding JavaAgent_struct_def JavaAgent_DeepCopyInto_def
  by (rule deep_structI) (simp_all add: deep_intros packages_flat struct_flat)

lemma JavaAgentList_deep [deep_intros]: "packagesOK X \<Longrightarrow> deepCopier (JavaAgentList_struct X) (JavaAgentList_DeepCopyInto X)"
  unfolding JavaAgentList_struct_def JavaAgentList_DeepCopyInto_def
  by (rule deep_structI) (simp_all add: deep_intros packages_flat struct_flat)

lemma UserSpec_deep [deep_intros]: "packagesOK X \<Longrightarrow> deepCopier (UserSpec_struct X) (UserSpec_DeepCopyInto X)"
  unfolding UserSpec_struct_def UserSpec_DeepCopyInto_def
  by (rule deep_structI) (simp_all add: deep_intros packages_flat struct_flat)

lemma SecuritySpec_deep [deep_intros]: "packagesOK X \<Longrightarrow> deepCopier (SecuritySpec_struct X) (SecuritySpec_DeepCopyInto X)"
  unfolding SecuritySpec_struct_def SecuritySpec_DeepCopyInto_def
  by (rule deep_structI) (simp_all add: deep_intros packages_flat struct_flat)

lemma Resource_deep [deep_intros]: "packagesOK X \<Longrightarrow> deepCopier (Resource_struct X) (Resource_DeepCopyInto X)"
  unfolding Resource_struct_def Resource_DeepCopyInto_def
  by (rule deep_structI) (simp_all add: deep_intros packages_flat struct_flat)

lemma StorageSpec_deep [deep_intros]: "packagesOK X \<Longrightarrow> deepCopier (StorageSpec_struct X) (StorageSpec_DeepCopyInto X)"
  unfolding StorageSpec_struct_def StorageSpec_DeepCopyInto_def
  by (rule deep_structI) (simp_all add: deep_intros packages_flat struct_flat)

lemma StorageStatus_deep [deep_intros]: "packagesOK X \<Longrightarrow> deepCopier (StorageStatus_struct X) (StorageStatus_DeepCopyInto X)"
  unfolding StorageStatus_struct_def StorageStatus_DeepCopyInto_def
  by (rule deep_structI) (simp_all add: deep_intros packages_flat struct_flat)

lemma Storage_deep [deep_intros]: "packagesOK X \<Longrightarrow> deepCopier (Storage_struct X) (Storage_DeepCopyInto X)"
  unfolding Storage_struct_def Storage_DeepCopyInto_def
  by (rule deep_structI) (simp_all add: deep_intros packages_flat struct_flat)

lemma RelevantStorage_deep [deep_intros]: "packagesOK X \<Longrightarrow> deepCopier (RelevantStorage_struct X) (RelevantStorage_DeepCopyInto X)"
  unfolding RelevantStorage_struct_def RelevantStorage_DeepCopyInto_def
  by (rule deep_structI) (simp_all add: deep_intros packages_flat struct_flat)

lemma OAPServerSpec_deep [deep_intros]: "packagesOK X \<Longrightarrow> deepCopier (OAPServerSpec_struct X) (OAPServerSpec_DeepCopyInto X)"
  unfolding OAPServerSpec_struct_def OAPServerSpec_DeepCopyInto_def
  by (rule deep_structI) (simp_all add: deep_intros packages_flat struct_flat)

lemma OAPServerStatus_deep [deep_intros]: "packagesOK X \<Longrightarrow> deepCopier (OAPServerStatus_struct X) (OAPServerStatus_DeepCopyInto X)"
  unfolding OAPServerStatus_struct_def OAPServerStatus_DeepCopyInto_def
  by (rule deep_structI) (simp_all add: deep_intros packages_flat struct_flat)

lemma OAPServer_deep [deep_intros]: "packagesOK X \<Longrightarrow> deepCopier (OAPServer_struct X) (OAPServer_DeepCopyInto X)"
  unfolding OAPServer_struct_def OAPServer_DeepCopyInto_def
  by (rule deep_structI) (simp_all add: deep_intros packages_flat struct_flat)

lemma OAPServerList_deep [deep_intros]: "packagesOK X \<Longrightarrow> deepCopier (OAPServerList_struct X) (OAPServerList_DeepCopyInto X)"
  unfolding OAPServerList_struct_def OAPServerList_DeepCopyInto_def
  by (rule deep_structI) (simp_all add: deep_intros packages_flat struct_flat)

lemma FileConfig_deep [deep_intros]: "packagesOK X \<Longrightarrow> deepCopier (FileConfig_struct X) (FileConfig_DeepCopyInto X)"
  unfolding FileConfig_struct_def FileConfig_DeepCopyInto_def
  by (rule deep_structI) (simp_all add: deep_intros packages_flat struct_flat)

lemma OAPServerConfigSpec_deep [deep_intros]: "packagesOK X \<Longrightarrow> deepCopier (OAPServerConfigSpec_struct X) (OAPServerConfigSpec_DeepCopyInto X)"
  unfolding OAPServerConfigSpec_struct_def OAPServerConfigSpec_DeepCopyInto_def
  by (rule deep_structI) (simp_all add: deep_intros packages_flat struct_flat)

lemma OAPServerConfigStatus_deep [deep_intros]: "packagesOK X \<Longrightarrow> deepCopier (OAPServerConfigStatus_struct X) (OAPServerConfigStatus_DeepCopyInto X)"
  unfolding OAPServerConfigStatus_struct_def OAPServerConfigStatus_DeepCopyInto_def
  by (rule deep_structI) (simp_all add: deep_intros packages_flat struct_flat)

lemma OAPServerConfig_deep [deep_intros]: "packagesOK X \<Longrightarrow> deepCopier (OAPServerConfig_struct X) (OAPServerConfig_DeepCopyInto X)"
  unfolding OAPServerConfig_struct_def OAPServerConfig_DeepCopyInto_def
  by (rule deep_structI) (simp_all add: deep_intros packages_flat struct_flat)

lemma OAPServerConfigList_deep [deep_intros]: "packagesOK X \<Longrightarrow> deepCopier (OAPServerConfigList_struct X) (OAPServerConfigList_DeepCopyInto X)"
  unfolding OAPServerConfigList_struct_def OAPServerConfigList_DeepCopyInto_def
  by (rule deep_structI) (simp_all add: deep_intros packages_flat struct_flat)

lemma Config_deep [deep_intros]: "packagesOK X \<Longrightarrow> deepCopier (Config_struct X) (Config_DeepCopyInto X)"
  unfolding Config_struct_def Config_DeepCopyInto_def
  by (rule deep_structI) (simp_all add: deep_intros packages_flat struct_flat)

lemma OAPServerDynamicConfigSpec_deep [deep_intros]: "packagesOK X \<Longrightarrow> deepCopier (OAPServerDynamicConfigSpec_struct X) (OAPServerDynamicConfigSpec_DeepCopyInto X)"
  unfolding OAPServerDynamicConfigSpec_struct_def OAPServerDynamicConfigSpec_DeepCopyInto_def
  by (rule deep_structI) (simp_all add: deep_intros packages_flat struct_flat)

lemma OAPServerDynamicConfigStatus_deep [deep_intros]: "packagesOK X \<Longrightarrow> deepCopier (OAPServerDynamicConfigStatus_struct X) (OAPServerDynamicConfigStatus_DeepCopyInto X)"
  unfolding OAPServerDynamicConfigStatus_struct_def OAPServerDynamicConfigStatus_DeepCopyInto_def
  by (rule deep_structI) (simp_all add: deep_intros packages_flat struct_flat)

lemma OAPServerDynamicConfig_deep [deep_intros]: "packagesOK X \<Longrightarrow> deepCopier (OAPServerDynamicConfig_struct X) (OAPServerDynamicConfig_DeepCopyInto X)"
  unfolding OAPServerDynamicConfig_struct_def OAPServerDynamicConfig_DeepCopyInto_def
  by (rule deep_structI) (simp_all add: deep_intros packages_flat struct_flat)

lemma OAPServerDynamicConfigList_deep [deep_intros]: "packagesOK X \<Longrightarrow> deepCopier (OAPServerDynamicConfigList_struct X) (OAPServerDynamicConfigList_DeepCopyInto X)"
  unfolding OAPServerDynamicConfigList_struct_def OAPServerDynamicConfigList_DeepCopyInto_def
  by (rule deep_structI) (simp_all add: deep_intros packages_flat struct_flat)

lemma SatelliteSpec_deep [deep_intros]: "packagesOK X \<Longrightarrow> deepCopier (SatelliteSpec_struct X) (SatelliteSpec_DeepCopyInto X)"
  unfolding SatelliteSpec_struct_def SatelliteSpec_DeepCopyInto_def
  by (rule deep_structI) (simp_all add: deep_intros packages_flat struct_flat)

lemma SatelliteStatus_deep [deep_intros]: "packagesOK X \<Longrightarrow> deepCopier (SatelliteStatus_struct X) (SatelliteStatus_DeepCopyInto X)"
  unfolding SatelliteStatus_struct_def SatelliteStatus_DeepCopyInto_def
  by (rule deep_structI) (simp_all add: deep_intros packages_flat struct_flat)

lemma Satellite_deep [deep_intros]: "packagesOK X \<Longrightarrow> deepCopier (Satellite_struct X) (Satellite_DeepCopyInto X)"
  unfolding Satellite_struct_def Satellite_DeepCopyInto_def
  by (rule deep_structI) (simp_all add: deep_intros packages_flat struct_flat)

lemma SatelliteList_deep [deep_intros]: "packagesOK X \<Longrightarrow> deepCopier (SatelliteList_struct X) (SatelliteList_DeepCopyInto X)"
  unfolding SatelliteList_struct_def SatelliteList_DeepCopyInto_def
  by (rule deep_structI) (simp_all add: deep_intros packages_flat struct_flat)

lemma StorageList_deep [deep_intros]: "packagesOK X \<Longrightarrow> deepCopier (StorageList_struct X) (StorageList_DeepCopyInto X)"
  unfolding StorageList_struct_def StorageList_DeepCopyInto_def
  by (rule deep_structI) (simp_all add: deep_intros packages_flat struct_flat)

lemma JavaSidecar_deep [deep_intros]: "packagesOK X \<Longrightarrow> deepCopier (JavaSidecar_struct X) (JavaSidecar_DeepCopyInto X)"
  unfolding JavaSidecar_struct_def JavaSidecar_DeepCopyInto_def
  by (rule deep_structI) (simp_all add: deep_intros packages_flat struct_flat)

lemma SwAgentSpec_deep [deep_intros]: "packagesOK X \<Longrightarrow> deepCopier (SwAgentSpec_struct X) (SwAgentSpec_DeepCopyInto X)"
  unfolding SwAgentSpec_struct_def SwAgentSpec_DeepCopyInto_def
  by (rule deep_structI) (simp_all add: deep_intros packages_flat struct_flat)

lemma SwAgentStatus_deep [deep_intros]: "packagesOK X \<Longrightarrow> deepCopier (SwAgentStatus_struct X) (SwAgentStatus_DeepCopyInto X)"
  unfolding SwAgentStatus_struct_def SwAgentStatus_DeepCopyInto_def
  by (rule deep_structI) (simp_all add: deep_intros packages_flat struct_flat)

lemma SharedVolume_deep [deep_intros]: "packagesOK X \<Longrightarrow> deepCopier (SharedVolume_struct X) (SharedVolume_DeepCopyInto X)"
  unfolding SharedVolume_struct_def SharedVolume_DeepCopyInto_def
  by (rule deep_structI) (simp_all add: deep_intros packages_flat struct_flat)

lemma SwAgent_deep [deep_intros]: "packagesOK X \<Longrightarrow> deepCopier (SwAgent_struct X) (SwAgent_DeepCopyInto X)"
  unfolding SwAgent_struct_def SwAgent_DeepCopyInto_def
  by (rule deep_structI) (simp_all add: deep_intros packages_flat struct_flat)

lemma SwAgentList_deep [deep_intros]: "packagesOK X \<Longrightarrow> deepCopier (SwAgentList_struct X) (SwAgentList_DeepCopyInto X)"
  unfolding SwAgentList_struct_def SwAgentList_DeepCopyInto_def
  by (rule deep_structI) (simp_all add: deep_intros packages_flat struct_flat)

lemma UISpec_deep [deep_intros]: "packagesOK X \<Longrightarrow> deepCopier (UISpec_struct X) (UISpec_DeepCopyInto X)"
  unfolding UISpec_struct_def UISpec_DeepCopyInto_def
  by (rule deep_structI) (simp_all add: deep_intros packages_flat struct_flat)

lemma UIStatus_deep [deep_intros]: "packagesOK X \<Longrightarrow> deepCopier (UIStatus_struct X) (UIStatus_DeepCopyInto X)"
  unfolding UIStatus_struct_def UIStatus_DeepCopyInto_def
  by (rule deep_structI) (simp_all add: deep_intros packages_flat struct_flat)

lemma UI_deep [deep_intros]: "packagesOK X \<Longrightarrow> deepCopier (UI_struct X) (UI_DeepCopyInto X)"
  unfolding UI_struct_def UI_DeepCopyInto_def
  by (rule deep_structI) (simp_all add: deep_intros packages_flat struct_flat)

lemma UIList_deep [deep_intros]: "packagesOK X \<Longrightarrow> deepCopier (UIList_struct X) (UIList_DeepCopyInto X)"
  unfolding UIList_struct_def UIList_DeepCopyInto_def
  by (rule deep_structI) (simp_all add: deep_intros packages_flat struct_flat)

lemma deepCopyIntos_deep: "packagesOK X \<Longrightarrow> list_all (\<lambda>(n, T, c). deepCopier T c) (deepCopyIntos X)"
  by (simp add: deepCopyIntos_def deep_intros)

lemmas DeepCopyObject_defs =
    BanyanDB_DeepCopyObject_def BanyanDB_DeepCopy_def
    BanyanDBList_DeepCopyObject_def BanyanDBList_DeepCopy_def
    EventExporter_DeepCopyObject_def EventExporter_DeepCopy_def
    EventExporterList_DeepCopyObject_def EventExporterList_DeepCopy_def
    Fetcher_DeepCopyObject_def Fetcher_DeepCopy_def
    FetcherList_DeepCopyObject_def FetcherList_DeepCopy_def
    JavaAgent_DeepCopyObject_def JavaAgent_DeepCopy_def
    JavaAgentList_DeepCopyObject_def JavaAgentList_DeepCopy_def
    Storage_DeepCopyObject_def Storage_DeepCopy_def
    OAPServer_DeepCopyObject_def OAPServer_DeepCopy_def
    OAPServerList_DeepCopyObject_def OAPServerList_DeepCopy_def
    OAPServerConfig_DeepCopyObject_def OAPServerConfig_DeepCopy_def
    OAPServerConfigList_DeepCopyObject_def OAPServerConfigList_DeepCopy_def
    OAPServerDynamicConfig_DeepCopyObject_def OAPServerDynamicConfig_DeepCopy_def
    OAPServerDynamicConfigList_DeepCopyObject_def OAPServerDynamicConfigList_DeepCopy_def
    Satellite_DeepCopyObject_def Satellite_DeepCopy_def
    SatelliteList_DeepCopyObject_def SatelliteList_DeepCopy_def
    StorageList_DeepCopyObject_def StorageList_DeepCopy_def
    SwAgent_DeepCopyObject_def SwAgent_DeepCopy_def
    SwAgentList_DeepCopyObject_def SwAgentList_DeepCopy_def
    UI_DeepCopyObject_def UI_DeepCopy_def
    UIList_DeepCopyObject_def UIList_DeepCopy_def

lemma runtimeObjects_deep:
  "packagesOK X \<Longrightarrow> list_all (\<lambda>(k, T, f). deepObject k T f) (runtimeObjects X)"
  by (simp add: runtimeObjects_def DeepCopyObject_defs deepObjectI deep_intros)

text \<open>C16. \<^bold>\<open>A deep copy of an API object shares nothing with it.\<close> Take any kind of the operator, or list of a kind,
  any pointer to a value of that type in any heap, and run its \<open>DeepCopyObject\<close>. A nil pointer gives the nil
  interface and no other does. Otherwise the result is an interface of that kind holding a new
  pointer; every cell of the old heap is as it was; whatever is written afterwards to the cells there
  were, the copy reads as the original did, and whatever is written to the new cells, the original
  still reads as it did. So a reconciler that edits an object it got from the cache edits its own.\<close>

theorem deepcopy_objects_independent:
  assumes "packagesOK X" and "(k, T, copy) \<in> set (runtimeObjects X)"
    and "view (TPointer T) h p = Some (t, as)" and "copy p h = (obj, h')"
  shows "extends h h' \<and> (obj = None \<longleftrightarrow> p = Pointer None) \<and>
    (\<forall>k' q. obj = Some (k', q) \<longrightarrow> k' = k \<and>
       (\<exists>bs. \<forall>h''. agreeOn {length h..<length h'} h' h'' \<longrightarrow> view (TPointer T) h'' q = Some (t, bs))) \<and>
    (\<forall>h''. agreeOn {..<length h} h' h'' \<longrightarrow> view (TPointer T) h'' p = Some (t, as))"
proof -
  obtain c where c: "copy = asObject k (newAndCopy c)" "deepCopier T c"
    using runtimeObjects_deep [OF assms(1)] assms(2) by (auto simp: list_all_iff deepObject_def)
  obtain q where q: "newAndCopy c p h = (q, h')" "obj = (if q \<noteq> Pointer None then Some (k, q) else None)"
    using assms(4) c(1) by (cases "newAndCopy c p h") (auto simp: asObject_def)
  note indep = deep_independent [OF deep_newAndCopy [OF c(2)] assms(3) q(1)]
  have "q = Pointer None \<longleftrightarrow> p = Pointer None"
    using q(1) assms(3) by (auto simp: newAndCopy_def split: view_splits prod.splits)
  then show ?thesis using indep q(2) by auto
qed

lemma examplePackages_OK: "packagesOK examplePackages"
proof -
  have r: "rangesTables rev" "rangesTables id"
    by (simp_all add: rangesTables_def ranges_def map_of_rev rev_map [symmetric])
  have "deepCopier metaStruct (copyFields [(''Labels'', makeAndRange id), (''Finalizers'', makeAndCopy)])"
    unfolding metaStruct_def by (rule deep_structI) (simp_all add: deep_intros r)
  then show ?thesis
    using r by (simp add: packagesOK_def examplePackages_def copiedTypes_def deep_assign)
qed

lemma exampleCopy_runs:
  "fst exampleCopy = Some (''JavaAgent'', Pointer (Some (4, 0)))" "length (snd exampleCopy) = 8"
  "length exampleHeap = 4"
  "\<not> Option.is_none (view (TPointer (JavaAgent_struct examplePackages)) exampleHeap (Pointer (Some (3, 0))))"
  by code_simp+

theorem deepcopy_objects_independent_witness:
  "\<exists>t as bs. view (TPointer (JavaAgent_struct examplePackages)) exampleHeap (Pointer (Some (3, 0))) = Some (t, as) \<and>
     view (TPointer (JavaAgent_struct examplePackages)) ((snd exampleCopy)[2 := Table []]) (Pointer (Some (4, 0))) =
       Some (t, bs)"
proof -
  let ?T = "JavaAgent_struct examplePackages" and ?h' = "snd exampleCopy"
  obtain t as where v: "view (TPointer ?T) exampleHeap (Pointer (Some (3, 0))) = Some (t, as)"
    using exampleCopy_runs(4) by (cases "view (TPointer ?T) exampleHeap (Pointer (Some (3, 0)))") auto
  have m: "(''JavaAgent'', ?T, JavaAgent_DeepCopyObject examplePackages) \<in> set (runtimeObjects examplePackages)"
    by (simp add: runtimeObjects_def)
  have run: "JavaAgent_DeepCopyObject examplePackages (Pointer (Some (3, 0))) exampleHeap =
      (Some (''JavaAgent'', Pointer (Some (4, 0))), ?h')"
    using exampleCopy_runs(1) unfolding exampleCopy_def by (metis prod.collapse)
  have "agreeOn {length exampleHeap..<length ?h'} ?h' (?h'[2 := Table []])"
    using exampleCopy_runs(2,3) by (simp add: agreeOn_def cellAt_update)
  then show ?thesis
    using deepcopy_objects_independent [OF examplePackages_OK m v run] v by blast
qed

end
