(* ===== verification/OpenAPI_Schema.thy ===== *)
theory OpenAPI_Schema
  imports Prelude
begin

text \<open>
  OpenAPI definitions as the generated file \<open>adapter/pkg/api/generated/openapi/zz_generated.openapi.go\<close> writes
  them. A schema is the keyed composite literal of \<open>spec.Schema\<close>: the list of the fields it sets, in
  order, the fields of its \<open>SchemaProps\<close> and its \<open>VendorExtensible\<close> alike; a field that is not there has its zero
  value. The \<open>Description\<close> texts, prose for readers of the API, are left out.

  The functions of the file take the callback \<open>ref\<close>, which turns the name of a model into a reference.
  What they use of other modules is a parameter too (record \<open>openapi\<close>): the type and format some types declare
  for themselves, the one-of schemas of \<open>resource.Quantity\<close> and the function that embeds one definition
  into another. \<open>openapiOK\<close> states what those modules document.

  A definition lists its \<open>Dependencies\<close>; the API server's document builder starts at the models the
  routes mention and resolves the dependencies of each model it meets, which needs a definition for
  every one of them. \<open>resolvable\<close> says that this ends well for a model.
\<close>

datatype json = JString string | JInt int | JBool bool | JList "json list" | JObject "(string \<times> json) list"

datatype 'r schemaField =
    Type "string list"
  | Format string
  | Default json
  | Enum "json list"
  | Ref 'r
  | Items "'r schemaField list"
  | AdditionalProperties bool "'r schemaField list"
  | Properties "(string \<times> 'r schemaField list) list"
  | Required "string list"
  | OneOf "'r schemaField list list"
  | VendorExtensible "(string \<times> json) list"

type_synonym 'r schema = "'r schemaField list"

record 'r openAPIDefinition =
  od_Schema :: "'r schema"
  od_Dependencies :: "string list"

record 'r openapi =
  oa_ref :: "string \<Rightarrow> 'r"
  oa_type :: "string \<Rightarrow> string list"
  oa_format :: "string \<Rightarrow> string"
  oa_oneOf :: "string \<Rightarrow> 'r schema list"
  oa_embed :: "'r openAPIDefinition \<Rightarrow> 'r openAPIDefinition \<Rightarrow> 'r openAPIDefinition"

type_synonym 'r definitions = "(string \<times> 'r openAPIDefinition) list"

section \<open>Looking into a schema\<close>

text \<open>The schemas inside a field, at any depth.\<close>

fun subSchemas :: "'r schemaField \<Rightarrow> 'r schema list" where
  "subSchemas (Items s) = s # concat (map subSchemas s)"
| "subSchemas (AdditionalProperties b s) = s # concat (map subSchemas s)"
| "subSchemas (Properties ps) = concat (map (\<lambda>p. snd p # concat (map subSchemas (snd p))) ps)"
| "subSchemas (OneOf ss) = concat (map (\<lambda>s. s # concat (map subSchemas s)) ss)"
| "subSchemas f = []"

definition allSchemas :: "'r schema \<Rightarrow> 'r schema list" where
  "allSchemas s = s # concat (map subSchemas s)"

fun fieldRefs :: "'r schemaField \<Rightarrow> 'r list" where
  "fieldRefs (Ref r) = [r]"
| "fieldRefs f = []"

text \<open>Every reference in a schema.\<close>

definition schemaRefs :: "'r schema \<Rightarrow> 'r list" where
  "schemaRefs s = concat (map (\<lambda>x. concat (map fieldRefs x)) (allSchemas s))"

fun fieldProperties :: "'r schemaField \<Rightarrow> string list" where
  "fieldProperties (Properties ps) = map fst ps"
| "fieldProperties f = []"

definition propertyNames :: "'r schema \<Rightarrow> string list" where
  "propertyNames s = concat (map fieldProperties s)"

fun fieldRequired :: "'r schemaField \<Rightarrow> string list" where
  "fieldRequired (Required ns) = ns"
| "fieldRequired f = []"

definition requiredNames :: "'r schema \<Rightarrow> string list" where
  "requiredNames s = concat (map fieldRequired s)"

fun isItems :: "'r schemaField \<Rightarrow> bool" where
  "isItems (Items s) = True"
| "isItems f = False"

fun isRef :: "'r schemaField \<Rightarrow> bool" where
  "isRef (Ref r) = True"
| "isRef f = False"

fun declaresType :: "'r schemaField \<Rightarrow> bool" where
  "declaresType (Type ts) = True"
| "declaresType f = False"

fun isType :: "string list \<Rightarrow> 'r schemaField \<Rightarrow> bool" where
  "isType ts (Type us) = (us = ts)"
| "isType ts f = False"

fun jsonType :: "json \<Rightarrow> string" where
  "jsonType (JString s) = ''string''"
| "jsonType (JInt i) = ''integer''"
| "jsonType (JBool b) = ''boolean''"
| "jsonType (JList xs) = ''array''"
| "jsonType (JObject kvs) = ''object''"

text \<open>A default is of the type its schema declares, where it declares one.\<close>

fun defaultFits :: "'r schema \<Rightarrow> 'r schemaField \<Rightarrow> bool" where
  "defaultFits s (Default j) = (list_ex isRef s \<or> list_ex (isType [jsonType j]) s)"
| "defaultFits s f = True"

text \<open>A schema in itself: the properties it requires are among its properties, property names are
  not repeated, it has items where it is an array and only there, it is not a reference and a
  declared type at once, and its default is of its type.\<close>

definition wfSchema :: "'r schema \<Rightarrow> bool" where
  "wfSchema s \<longleftrightarrow> list_all (\<lambda>n. n \<in> set (propertyNames s)) (requiredNames s) \<and>
     distinct (propertyNames s) \<and>
     (list_ex isItems s = list_ex (isType [''array'']) s) \<and>
     \<not> (list_ex isRef s \<and> list_ex declaresType s) \<and>
     list_all (defaultFits s) s"

definition wfDefinition :: "'r openAPIDefinition \<Rightarrow> bool" where
  "wfDefinition d \<longleftrightarrow> list_all wfSchema (allSchemas (od_Schema d))"

text \<open>The dependencies of a definition are the names its schema hands to the callback.\<close>

definition dependenciesExact :: "'r openapi \<Rightarrow> 'r openAPIDefinition \<Rightarrow> bool" where
  "dependenciesExact E d \<longleftrightarrow>
     list_all (\<lambda>r. r \<in> set (map (oa_ref E) (od_Dependencies d))) (schemaRefs (od_Schema d)) \<and>
     list_all (\<lambda>n. oa_ref E n \<in> set (schemaRefs (od_Schema d))) (od_Dependencies d)"

section \<open>Resolving models\<close>

text \<open>\<open>resolvable ds U n\<close>: starting from model \<open>n\<close>, the builder resolves everything, when the models \<open>U\<close> are
  resolved for it.\<close>

inductive resolvable :: "'r definitions \<Rightarrow> string set \<Rightarrow> string \<Rightarrow> bool" for ds U where
  given: "n \<in> U \<Longrightarrow> resolvable ds U n"
| resolve: "(n, d) \<in> set ds \<Longrightarrow> list_all (resolvable ds U) (od_Dependencies d) \<Longrightarrow> resolvable ds U n"

text \<open>The relation from a model to the models it depends on, the dependency first.\<close>

definition dependency :: "'r definitions \<Rightarrow> (string \<times> string) set" where
  "dependency ds = {(m, n). \<exists>d. (n, d) \<in> set ds \<and> m \<in> set (od_Dependencies d)}"

section \<open>Other modules\<close>

definition openapiOK :: "'r openapi \<Rightarrow> bool" where
  "openapiOK E \<longleftrightarrow>
     list_all (\<lambda>n. oa_type E n = [''string'']) [''v1.Time'', ''v1.MicroTime'', ''v1.Duration''] \<and>
     list_all (\<lambda>s. s = [Type [''string'']] \<or> s = [Type [''number'']]) (oa_oneOf E ''resource.Quantity'') \<and>
     (\<forall>d d'. od_Dependencies (oa_embed E d d') = od_Dependencies d \<and>
        (\<exists>x. od_Schema (oa_embed E d d') = od_Schema d @ [VendorExtensible x]))"

section \<open>Lemmas\<close>

named_theorems model_dependencies \<open>what each model depends on\<close>
named_theorems model_exact \<open>the dependencies of each model are exact\<close>
named_theorems model_wf \<open>the schema of each model is well-formed\<close>

lemmas schema_eval = dependenciesExact_def schemaRefs_def allSchemas_def wfDefinition_def wfSchema_def
  propertyNames_def requiredNames_def


lemma openapi_types:
  assumes "openapiOK E"
  shows "oa_type E ''v1.Time'' = [''string'']" "oa_type E ''v1.MicroTime'' = [''string'']"
    "oa_type E ''v1.Duration'' = [''string'']"
  using assms by (simp_all add: openapiOK_def)

lemma unique_definition: "distinct (map fst ds) \<Longrightarrow> (n, d) \<in> set ds \<Longrightarrow> (n, d') \<in> set ds \<Longrightarrow> d = d'"
  by (metis eq_key_imp_eq_value)

text \<open>The introduction rule for all models of a list at once.\<close>

lemma resolve_all:
  "ds' = ds \<Longrightarrow> list_all (\<lambda>p. list_all (resolvable ds U) (od_Dependencies (snd p)) \<longrightarrow> resolvable ds U (fst p)) ds'"
  by (auto simp: list_all_iff [of _ ds] intro: resolve)

lemma member_all: "ns' = ns \<Longrightarrow> list_all (\<lambda>n. n \<in> set ns) ns'"
  by (simp add: list_all_iff)

lemma resolvable_known: "resolvable ds U n \<Longrightarrow> n \<in> U \<or> n \<in> fst ` set ds"
  by (erule resolvable.cases) (auto intro: rev_image_eqI)

lemma resolvable_dependencies:
  assumes "distinct (map fst ds)" and "(n, d) \<in> set ds" and "resolvable ds U n" and "n \<notin> U"
  shows "set (od_Dependencies d) \<subseteq> fst ` set ds \<union> U"
  using assms(3)
proof (cases rule: resolvable.cases)
  case (resolve d')
  then have "list_all (resolvable ds U) (od_Dependencies d)"
    using unique_definition [OF assms(1) assms(2), of d'] by simp
  then show ?thesis by (auto simp: list_all_iff dest!: bspec resolvable_known)
qed (use assms(4) in simp)

lemma dependency_key: "(m, n) \<in> dependency ds \<Longrightarrow> n \<in> fst ` set ds"
  by (auto simp: dependency_def intro: rev_image_eqI)

lemma acc_outside: "n \<notin> fst ` set ds \<Longrightarrow> n \<in> Wellfounded.acc (dependency ds)"
proof (rule accI)
  fix m assume "n \<notin> fst ` set ds" and "(m, n) \<in> dependency ds"
  then show "m \<in> Wellfounded.acc (dependency ds)" by (simp add: dependency_key)
qed

lemma resolvable_acc:
  assumes "distinct (map fst ds)" and "U \<inter> fst ` set ds = {}"
  shows "resolvable ds U n \<Longrightarrow> n \<in> Wellfounded.acc (dependency ds)"
proof (induction rule: resolvable.induct)
  case (given n)
  then show ?case using assms(2) by (intro acc_outside) auto
next
  case (resolve n d)
  show ?case
  proof (rule accI)
    fix m assume "(m, n) \<in> dependency ds"
    then obtain d' where "(n, d') \<in> set ds" "m \<in> set (od_Dependencies d')" by (auto simp: dependency_def)
    with resolve show "m \<in> Wellfounded.acc (dependency ds)"
      using unique_definition [OF assms(1), of n d' d] by (auto simp: list_all_iff)
  qed
qed

text \<open>When everything can be resolved, from whatever models without a definition, the dependencies have no
  circle.\<close>

lemma resolvable_wf:
  assumes "distinct (map fst ds)" and "U \<inter> fst ` set ds = {}"
    and "\<And>n. n \<in> fst ` set ds \<Longrightarrow> resolvable ds U n"
  shows "wf (dependency ds)"
proof (rule acc_wfI, rule allI)
  fix n
  show "n \<in> Wellfounded.acc (dependency ds)"
  proof (cases "n \<in> fst ` set ds")
    case True
    then show ?thesis by (rule resolvable_acc [OF assms(1,2) assms(3)])
  qed (rule acc_outside)
qed

lemma unresolvable:
  assumes "distinct (map fst ds)" and "n \<in> N" and "U \<inter> N = {}"
    and "\<And>n d. (n, d) \<in> set ds \<Longrightarrow> n \<in> N \<Longrightarrow> list_ex (\<lambda>m. m \<in> N) (od_Dependencies d)"
  shows "\<not> resolvable ds U n"
proof
  assume "resolvable ds U n"
  then have "n \<notin> N"
  proof (induction rule: resolvable.induct)
    case (resolve n d)
    then show ?case using assms(4) [of n d] by (auto simp: list_all_iff list_ex_iff)
  qed (use assms(3) in auto)
  then show False using assms(2) by simp
qed

end
