(* ===== verification/OpenAPI_Names.thy ===== *)
theory OpenAPI_Names
  imports OpenAPI_Schema
begin

text \<open>
  The names of the models, as the keys of the map in \<open>GetOpenAPIDefinitions\<close> and the arguments of \<open>ref\<close> spell them:
  the import path of a Go package and the name of a type. Each constant is named after the function
  that builds the model. The last three are names the file refers to and has no model for.
\<close>

definition k8sio_api_core_v1_AWSElasticBlockStoreVolumeSource :: string where
  "k8sio_api_core_v1_AWSElasticBlockStoreVolumeSource = ''k8s.io/api/core/v1.AWSElasticBlockStoreVolumeSource''"

definition k8sio_api_core_v1_Affinity :: string where
  "k8sio_api_core_v1_Affinity = ''k8s.io/api/core/v1.Affinity''"

definition k8sio_api_core_v1_AttachedVolume :: string where
  "k8sio_api_core_v1_AttachedVolume = ''k8s.io/api/core/v1.AttachedVolume''"

definition k8sio_api_core_v1_AvoidPods :: string where
  "k8sio_api_core_v1_AvoidPods = ''k8s.io/api/core/v1.AvoidPods''"

definition k8sio_api_core_v1_AzureDiskVolumeSource :: string where
  "k8sio_api_core_v1_AzureDiskVolumeSource = ''k8s.io/api/core/v1.AzureDiskVolumeSource''"

definition k8sio_api_core_v1_AzureFilePersistentVolumeSource :: string where
  "k8sio_api_core_v1_AzureFilePersistentVolumeSource = ''k8s.io/api/core/v1.AzureFilePersistentVolumeSource''"

definition k8sio_api_core_v1_AzureFileVolumeSource :: string where
  "k8sio_api_core_v1_AzureFileVolumeSource = ''k8s.io/api/core/v1.AzureFileVolumeSource''"

definition k8sio_api_core_v1_Binding :: string where
  "k8sio_api_core_v1_Binding = ''k8s.io/api/core/v1.Binding''"

definition k8sio_api_core_v1_CSIPersistentVolumeSource :: string where
  "k8sio_api_core_v1_CSIPersistentVolumeSource = ''k8s.io/api/core/v1.CSIPersistentVolumeSource''"

definition k8sio_api_core_v1_CSIVolumeSource :: string where
  "k8sio_api_core_v1_CSIVolumeSource = ''k8s.io/api/core/v1.CSIVolumeSource''"

definition k8sio_api_core_v1_Capabilities :: string where
  "k8sio_api_core_v1_Capabilities = ''k8s.io/api/core/v1.Capabilities''"

definition k8sio_api_core_v1_CephFSPersistentVolumeSource :: string where
  "k8sio_api_core_v1_CephFSPersistentVolumeSource = ''k8s.io/api/core/v1.CephFSPersistentVolumeSource''"

definition k8sio_api_core_v1_CephFSVolumeSource :: string where
  "k8sio_api_core_v1_CephFSVolumeSource = ''k8s.io/api/core/v1.CephFSVolumeSource''"

definition k8sio_api_core_v1_CinderPersistentVolumeSource :: string where
  "k8sio_api_core_v1_CinderPersistentVolumeSource = ''k8s.io/api/core/v1.CinderPersistentVolumeSource''"

definition k8sio_api_core_v1_CinderVolumeSource :: string where
  "k8sio_api_core_v1_CinderVolumeSource = ''k8s.io/api/core/v1.CinderVolumeSource''"

definition k8sio_api_core_v1_ClaimSource :: string where
  "k8sio_api_core_v1_ClaimSource = ''k8s.io/api/core/v1.ClaimSource''"

definition k8sio_api_core_v1_ClientIPConfig :: string where
  "k8sio_api_core_v1_ClientIPConfig = ''k8s.io/api/core/v1.ClientIPConfig''"

definition k8sio_api_core_v1_ComponentCondition :: string where
  "k8sio_api_core_v1_ComponentCondition = ''k8s.io/api/core/v1.ComponentCondition''"

definition k8sio_api_core_v1_ComponentStatus :: string where
  "k8sio_api_core_v1_ComponentStatus = ''k8s.io/api/core/v1.ComponentStatus''"

definition k8sio_api_core_v1_ComponentStatusList :: string where
  "k8sio_api_core_v1_ComponentStatusList = ''k8s.io/api/core/v1.ComponentStatusList''"

definition k8sio_api_core_v1_ConfigMap :: string where
  "k8sio_api_core_v1_ConfigMap = ''k8s.io/api/core/v1.ConfigMap''"

definition k8sio_api_core_v1_ConfigMapEnvSource :: string where
  "k8sio_api_core_v1_ConfigMapEnvSource = ''k8s.io/api/core/v1.ConfigMapEnvSource''"

definition k8sio_api_core_v1_ConfigMapKeySelector :: string where
  "k8sio_api_core_v1_ConfigMapKeySelector = ''k8s.io/api/core/v1.ConfigMapKeySelector''"

definition k8sio_api_core_v1_ConfigMapList :: string where
  "k8sio_api_core_v1_ConfigMapList = ''k8s.io/api/core/v1.ConfigMapList''"

definition k8sio_api_core_v1_ConfigMapNodeConfigSource :: string where
  "k8sio_api_core_v1_ConfigMapNodeConfigSource = ''k8s.io/api/core/v1.ConfigMapNodeConfigSource''"

definition k8sio_api_core_v1_ConfigMapProjection :: string where
  "k8sio_api_core_v1_ConfigMapProjection = ''k8s.io/api/core/v1.ConfigMapProjection''"

definition k8sio_api_core_v1_ConfigMapVolumeSource :: string where
  "k8sio_api_core_v1_ConfigMapVolumeSource = ''k8s.io/api/core/v1.ConfigMapVolumeSource''"

definition k8sio_api_core_v1_Container :: string where
  "k8sio_api_core_v1_Container = ''k8s.io/api/core/v1.Container''"

definition k8sio_api_core_v1_ContainerImage :: string where
  "k8sio_api_core_v1_ContainerImage = ''k8s.io/api/core/v1.ContainerImage''"

definition k8sio_api_core_v1_ContainerPort :: string where
  "k8sio_api_core_v1_ContainerPort = ''k8s.io/api/core/v1.ContainerPort''"

definition k8sio_api_core_v1_ContainerResizePolicy :: string where
  "k8sio_api_core_v1_ContainerResizePolicy = ''k8s.io/api/core/v1.ContainerResizePolicy''"

definition k8sio_api_core_v1_ContainerState :: string where
  "k8sio_api_core_v1_ContainerState = ''k8s.io/api/core/v1.ContainerState''"

definition k8sio_api_core_v1_ContainerStateRunning :: string where
  "k8sio_api_core_v1_ContainerStateRunning = ''k8s.io/api/core/v1.ContainerStateRunning''"

definition k8sio_api_core_v1_ContainerStateTerminated :: string where
  "k8sio_api_core_v1_ContainerStateTerminated = ''k8s.io/api/core/v1.ContainerStateTerminated''"

definition k8sio_api_core_v1_ContainerStateWaiting :: string where
  "k8sio_api_core_v1_ContainerStateWaiting = ''k8s.io/api/core/v1.ContainerStateWaiting''"

definition k8sio_api_core_v1_ContainerStatus :: string where
  "k8sio_api_core_v1_ContainerStatus = ''k8s.io/api/core/v1.ContainerStatus''"

definition k8sio_api_core_v1_DaemonEndpoint :: string where
  "k8sio_api_core_v1_DaemonEndpoint = ''k8s.io/api/core/v1.DaemonEndpoint''"

definition k8sio_api_core_v1_DownwardAPIProjection :: string where
  "k8sio_api_core_v1_DownwardAPIProjection = ''k8s.io/api/core/v1.DownwardAPIProjection''"

definition k8sio_api_core_v1_DownwardAPIVolumeFile :: string where
  "k8sio_api_core_v1_DownwardAPIVolumeFile = ''k8s.io/api/core/v1.DownwardAPIVolumeFile''"

definition k8sio_api_core_v1_DownwardAPIVolumeSource :: string where
  "k8sio_api_core_v1_DownwardAPIVolumeSource = ''k8s.io/api/core/v1.DownwardAPIVolumeSource''"

definition k8sio_api_core_v1_EmptyDirVolumeSource :: string where
  "k8sio_api_core_v1_EmptyDirVolumeSource = ''k8s.io/api/core/v1.EmptyDirVolumeSource''"

definition k8sio_api_core_v1_EndpointAddress :: string where
  "k8sio_api_core_v1_EndpointAddress = ''k8s.io/api/core/v1.EndpointAddress''"

definition k8sio_api_core_v1_EndpointPort :: string where
  "k8sio_api_core_v1_EndpointPort = ''k8s.io/api/core/v1.EndpointPort''"

definition k8sio_api_core_v1_EndpointSubset :: string where
  "k8sio_api_core_v1_EndpointSubset = ''k8s.io/api/core/v1.EndpointSubset''"

definition k8sio_api_core_v1_Endpoints :: string where
  "k8sio_api_core_v1_Endpoints = ''k8s.io/api/core/v1.Endpoints''"

definition k8sio_api_core_v1_EndpointsList :: string where
  "k8sio_api_core_v1_EndpointsList = ''k8s.io/api/core/v1.EndpointsList''"

definition k8sio_api_core_v1_EnvFromSource :: string where
  "k8sio_api_core_v1_EnvFromSource = ''k8s.io/api/core/v1.EnvFromSource''"

definition k8sio_api_core_v1_EnvVar :: string where
  "k8sio_api_core_v1_EnvVar = ''k8s.io/api/core/v1.EnvVar''"

definition k8sio_api_core_v1_EnvVarSource :: string where
  "k8sio_api_core_v1_EnvVarSource = ''k8s.io/api/core/v1.EnvVarSource''"

definition k8sio_api_core_v1_EphemeralContainer :: string where
  "k8sio_api_core_v1_EphemeralContainer = ''k8s.io/api/core/v1.EphemeralContainer''"

definition k8sio_api_core_v1_EphemeralContainerCommon :: string where
  "k8sio_api_core_v1_EphemeralContainerCommon = ''k8s.io/api/core/v1.EphemeralContainerCommon''"

definition k8sio_api_core_v1_EphemeralVolumeSource :: string where
  "k8sio_api_core_v1_EphemeralVolumeSource = ''k8s.io/api/core/v1.EphemeralVolumeSource''"

definition k8sio_api_core_v1_Event :: string where
  "k8sio_api_core_v1_Event = ''k8s.io/api/core/v1.Event''"

definition k8sio_api_core_v1_EventList :: string where
  "k8sio_api_core_v1_EventList = ''k8s.io/api/core/v1.EventList''"

definition k8sio_api_core_v1_EventSeries :: string where
  "k8sio_api_core_v1_EventSeries = ''k8s.io/api/core/v1.EventSeries''"

definition k8sio_api_core_v1_EventSource :: string where
  "k8sio_api_core_v1_EventSource = ''k8s.io/api/core/v1.EventSource''"

definition k8sio_api_core_v1_ExecAction :: string where
  "k8sio_api_core_v1_ExecAction = ''k8s.io/api/core/v1.ExecAction''"

definition k8sio_api_core_v1_FCVolumeSource :: string where
  "k8sio_api_core_v1_FCVolumeSource = ''k8s.io/api/core/v1.FCVolumeSource''"

definition k8sio_api_core_v1_FlexPersistentVolumeSource :: string where
  "k8sio_api_core_v1_FlexPersistentVolumeSource = ''k8s.io/api/core/v1.FlexPersistentVolumeSource''"

definition k8sio_api_core_v1_FlexVolumeSource :: string where
  "k8sio_api_core_v1_FlexVolumeSource = ''k8s.io/api/core/v1.FlexVolumeSource''"

definition k8sio_api_core_v1_FlockerVolumeSource :: string where
  "k8sio_api_core_v1_FlockerVolumeSource = ''k8s.io/api/core/v1.FlockerVolumeSource''"

definition k8sio_api_core_v1_GCEPersistentDiskVolumeSource :: string where
  "k8sio_api_core_v1_GCEPersistentDiskVolumeSource = ''k8s.io/api/core/v1.GCEPersistentDiskVolumeSource''"

definition k8sio_api_core_v1_GRPCAction :: string where
  "k8sio_api_core_v1_GRPCAction = ''k8s.io/api/core/v1.GRPCAction''"

definition k8sio_api_core_v1_GitRepoVolumeSource :: string where
  "k8sio_api_core_v1_GitRepoVolumeSource = ''k8s.io/api/core/v1.GitRepoVolumeSource''"

definition k8sio_api_core_v1_GlusterfsPersistentVolumeSource :: string where
  "k8sio_api_core_v1_GlusterfsPersistentVolumeSource = ''k8s.io/api/core/v1.GlusterfsPersistentVolumeSource''"

definition k8sio_api_core_v1_GlusterfsVolumeSource :: string where
  "k8sio_api_core_v1_GlusterfsVolumeSource = ''k8s.io/api/core/v1.GlusterfsVolumeSource''"

definition k8sio_api_core_v1_HTTPGetAction :: string where
  "k8sio_api_core_v1_HTTPGetAction = ''k8s.io/api/core/v1.HTTPGetAction''"

definition k8sio_api_core_v1_HTTPHeader :: string where
  "k8sio_api_core_v1_HTTPHeader = ''k8s.io/api/core/v1.HTTPHeader''"

definition k8sio_api_core_v1_HostAlias :: string where
  "k8sio_api_core_v1_HostAlias = ''k8s.io/api/core/v1.HostAlias''"

definition k8sio_api_core_v1_HostIP :: string where
  "k8sio_api_core_v1_HostIP = ''k8s.io/api/core/v1.HostIP''"

definition k8sio_api_core_v1_HostPathVolumeSource :: string where
  "k8sio_api_core_v1_HostPathVolumeSource = ''k8s.io/api/core/v1.HostPathVolumeSource''"

definition k8sio_api_core_v1_ISCSIPersistentVolumeSource :: string where
  "k8sio_api_core_v1_ISCSIPersistentVolumeSource = ''k8s.io/api/core/v1.ISCSIPersistentVolumeSource''"

definition k8sio_api_core_v1_ISCSIVolumeSource :: string where
  "k8sio_api_core_v1_ISCSIVolumeSource = ''k8s.io/api/core/v1.ISCSIVolumeSource''"

definition k8sio_api_core_v1_KeyToPath :: string where
  "k8sio_api_core_v1_KeyToPath = ''k8s.io/api/core/v1.KeyToPath''"

definition k8sio_api_core_v1_Lifecycle :: string where
  "k8sio_api_core_v1_Lifecycle = ''k8s.io/api/core/v1.Lifecycle''"

definition k8sio_api_core_v1_LifecycleHandler :: string where
  "k8sio_api_core_v1_LifecycleHandler = ''k8s.io/api/core/v1.LifecycleHandler''"

definition k8sio_api_core_v1_LimitRange :: string where
  "k8sio_api_core_v1_LimitRange = ''k8s.io/api/core/v1.LimitRange''"

definition k8sio_api_core_v1_LimitRangeItem :: string where
  "k8sio_api_core_v1_LimitRangeItem = ''k8s.io/api/core/v1.LimitRangeItem''"

definition k8sio_api_core_v1_LimitRangeList :: string where
  "k8sio_api_core_v1_LimitRangeList = ''k8s.io/api/core/v1.LimitRangeList''"

definition k8sio_api_core_v1_LimitRangeSpec :: string where
  "k8sio_api_core_v1_LimitRangeSpec = ''k8s.io/api/core/v1.LimitRangeSpec''"

definition k8sio_api_core_v1_List :: string where
  "k8sio_api_core_v1_List = ''k8s.io/api/core/v1.List''"

definition k8sio_api_core_v1_LoadBalancerIngress :: string where
  "k8sio_api_core_v1_LoadBalancerIngress = ''k8s.io/api/core/v1.LoadBalancerIngress''"

definition k8sio_api_core_v1_LoadBalancerStatus :: string where
  "k8sio_api_core_v1_LoadBalancerStatus = ''k8s.io/api/core/v1.LoadBalancerStatus''"

definition k8sio_api_core_v1_LocalObjectReference :: string where
  "k8sio_api_core_v1_LocalObjectReference = ''k8s.io/api/core/v1.LocalObjectReference''"

definition k8sio_api_core_v1_LocalVolumeSource :: string where
  "k8sio_api_core_v1_LocalVolumeSource = ''k8s.io/api/core/v1.LocalVolumeSource''"

definition k8sio_api_core_v1_NFSVolumeSource :: string where
  "k8sio_api_core_v1_NFSVolumeSource = ''k8s.io/api/core/v1.NFSVolumeSource''"

definition k8sio_api_core_v1_Namespace :: string where
  "k8sio_api_core_v1_Namespace = ''k8s.io/api/core/v1.Namespace''"

definition k8sio_api_core_v1_NamespaceCondition :: string where
  "k8sio_api_core_v1_NamespaceCondition = ''k8s.io/api/core/v1.NamespaceCondition''"

definition k8sio_api_core_v1_NamespaceList :: string where
  "k8sio_api_core_v1_NamespaceList = ''k8s.io/api/core/v1.NamespaceList''"

definition k8sio_api_core_v1_NamespaceSpec :: string where
  "k8sio_api_core_v1_NamespaceSpec = ''k8s.io/api/core/v1.NamespaceSpec''"

definition k8sio_api_core_v1_NamespaceStatus :: string where
  "k8sio_api_core_v1_NamespaceStatus = ''k8s.io/api/core/v1.NamespaceStatus''"

definition k8sio_api_core_v1_Node :: string where
  "k8sio_api_core_v1_Node = ''k8s.io/api/core/v1.Node''"

definition k8sio_api_core_v1_NodeAddress :: string where
  "k8sio_api_core_v1_NodeAddress = ''k8s.io/api/core/v1.NodeAddress''"

definition k8sio_api_core_v1_NodeAffinity :: string where
  "k8sio_api_core_v1_NodeAffinity = ''k8s.io/api/core/v1.NodeAffinity''"

definition k8sio_api_core_v1_NodeCondition :: string where
  "k8sio_api_core_v1_NodeCondition = ''k8s.io/api/core/v1.NodeCondition''"

definition k8sio_api_core_v1_NodeConfigSource :: string where
  "k8sio_api_core_v1_NodeConfigSource = ''k8s.io/api/core/v1.NodeConfigSource''"

definition k8sio_api_core_v1_NodeConfigStatus :: string where
  "k8sio_api_core_v1_NodeConfigStatus = ''k8s.io/api/core/v1.NodeConfigStatus''"

definition k8sio_api_core_v1_NodeDaemonEndpoints :: string where
  "k8sio_api_core_v1_NodeDaemonEndpoints = ''k8s.io/api/core/v1.NodeDaemonEndpoints''"

definition k8sio_api_core_v1_NodeList :: string where
  "k8sio_api_core_v1_NodeList = ''k8s.io/api/core/v1.NodeList''"

definition k8sio_api_core_v1_NodeProxyOptions :: string where
  "k8sio_api_core_v1_NodeProxyOptions = ''k8s.io/api/core/v1.NodeProxyOptions''"

definition k8sio_api_core_v1_NodeResources :: string where
  "k8sio_api_core_v1_NodeResources = ''k8s.io/api/core/v1.NodeResources''"

definition k8sio_api_core_v1_NodeSelector :: string where
  "k8sio_api_core_v1_NodeSelector = ''k8s.io/api/core/v1.NodeSelector''"

definition k8sio_api_core_v1_NodeSelectorRequirement :: string where
  "k8sio_api_core_v1_NodeSelectorRequirement = ''k8s.io/api/core/v1.NodeSelectorRequirement''"

definition k8sio_api_core_v1_NodeSelectorTerm :: string where
  "k8sio_api_core_v1_NodeSelectorTerm = ''k8s.io/api/core/v1.NodeSelectorTerm''"

definition k8sio_api_core_v1_NodeSpec :: string where
  "k8sio_api_core_v1_NodeSpec = ''k8s.io/api/core/v1.NodeSpec''"

definition k8sio_api_core_v1_NodeStatus :: string where
  "k8sio_api_core_v1_NodeStatus = ''k8s.io/api/core/v1.NodeStatus''"

definition k8sio_api_core_v1_NodeSystemInfo :: string where
  "k8sio_api_core_v1_NodeSystemInfo = ''k8s.io/api/core/v1.NodeSystemInfo''"

definition k8sio_api_core_v1_ObjectFieldSelector :: string where
  "k8sio_api_core_v1_ObjectFieldSelector = ''k8s.io/api/core/v1.ObjectFieldSelector''"

definition k8sio_api_core_v1_ObjectReference :: string where
  "k8sio_api_core_v1_ObjectReference = ''k8s.io/api/core/v1.ObjectReference''"

definition k8sio_api_core_v1_PersistentVolume :: string where
  "k8sio_api_core_v1_PersistentVolume = ''k8s.io/api/core/v1.PersistentVolume''"

definition k8sio_api_core_v1_PersistentVolumeClaim :: string where
  "k8sio_api_core_v1_PersistentVolumeClaim = ''k8s.io/api/core/v1.PersistentVolumeClaim''"

definition k8sio_api_core_v1_PersistentVolumeClaimCondition :: string where
  "k8sio_api_core_v1_PersistentVolumeClaimCondition = ''k8s.io/api/core/v1.PersistentVolumeClaimCondition''"

definition k8sio_api_core_v1_PersistentVolumeClaimList :: string where
  "k8sio_api_core_v1_PersistentVolumeClaimList = ''k8s.io/api/core/v1.PersistentVolumeClaimList''"

definition k8sio_api_core_v1_PersistentVolumeClaimSpec :: string where
  "k8sio_api_core_v1_PersistentVolumeClaimSpec = ''k8s.io/api/core/v1.PersistentVolumeClaimSpec''"

definition k8sio_api_core_v1_PersistentVolumeClaimStatus :: string where
  "k8sio_api_core_v1_PersistentVolumeClaimStatus = ''k8s.io/api/core/v1.PersistentVolumeClaimStatus''"

definition k8sio_api_core_v1_PersistentVolumeClaimTemplate :: string where
  "k8sio_api_core_v1_PersistentVolumeClaimTemplate = ''k8s.io/api/core/v1.PersistentVolumeClaimTemplate''"

definition k8sio_api_core_v1_PersistentVolumeClaimVolumeSource :: string where
  "k8sio_api_core_v1_PersistentVolumeClaimVolumeSource = ''k8s.io/api/core/v1.PersistentVolumeClaimVolumeSource''"

definition k8sio_api_core_v1_PersistentVolumeList :: string where
  "k8sio_api_core_v1_PersistentVolumeList = ''k8s.io/api/core/v1.PersistentVolumeList''"

definition k8sio_api_core_v1_PersistentVolumeSource :: string where
  "k8sio_api_core_v1_PersistentVolumeSource = ''k8s.io/api/core/v1.PersistentVolumeSource''"

definition k8sio_api_core_v1_PersistentVolumeSpec :: string where
  "k8sio_api_core_v1_PersistentVolumeSpec = ''k8s.io/api/core/v1.PersistentVolumeSpec''"

definition k8sio_api_core_v1_PersistentVolumeStatus :: string where
  "k8sio_api_core_v1_PersistentVolumeStatus = ''k8s.io/api/core/v1.PersistentVolumeStatus''"

definition k8sio_api_core_v1_PhotonPersistentDiskVolumeSource :: string where
  "k8sio_api_core_v1_PhotonPersistentDiskVolumeSource = ''k8s.io/api/core/v1.PhotonPersistentDiskVolumeSource''"

definition k8sio_api_core_v1_Pod :: string where
  "k8sio_api_core_v1_Pod = ''k8s.io/api/core/v1.Pod''"

definition k8sio_api_core_v1_PodAffinity :: string where
  "k8sio_api_core_v1_PodAffinity = ''k8s.io/api/core/v1.PodAffinity''"

definition k8sio_api_core_v1_PodAffinityTerm :: string where
  "k8sio_api_core_v1_PodAffinityTerm = ''k8s.io/api/core/v1.PodAffinityTerm''"

definition k8sio_api_core_v1_PodAntiAffinity :: string where
  "k8sio_api_core_v1_PodAntiAffinity = ''k8s.io/api/core/v1.PodAntiAffinity''"

definition k8sio_api_core_v1_PodAttachOptions :: string where
  "k8sio_api_core_v1_PodAttachOptions = ''k8s.io/api/core/v1.PodAttachOptions''"

definition k8sio_api_core_v1_PodCondition :: string where
  "k8sio_api_core_v1_PodCondition = ''k8s.io/api/core/v1.PodCondition''"

definition k8sio_api_core_v1_PodDNSConfig :: string where
  "k8sio_api_core_v1_PodDNSConfig = ''k8s.io/api/core/v1.PodDNSConfig''"

definition k8sio_api_core_v1_PodDNSConfigOption :: string where
  "k8sio_api_core_v1_PodDNSConfigOption = ''k8s.io/api/core/v1.PodDNSConfigOption''"

definition k8sio_api_core_v1_PodExecOptions :: string where
  "k8sio_api_core_v1_PodExecOptions = ''k8s.io/api/core/v1.PodExecOptions''"

definition k8sio_api_core_v1_PodIP :: string where
  "k8sio_api_core_v1_PodIP = ''k8s.io/api/core/v1.PodIP''"

definition k8sio_api_core_v1_PodList :: string where
  "k8sio_api_core_v1_PodList = ''k8s.io/api/core/v1.PodList''"

definition k8sio_api_core_v1_PodLogOptions :: string where
  "k8sio_api_core_v1_PodLogOptions = ''k8s.io/api/core/v1.PodLogOptions''"

definition k8sio_api_core_v1_PodOS :: string where
  "k8sio_api_core_v1_PodOS = ''k8s.io/api/core/v1.PodOS''"

definition k8sio_api_core_v1_PodPortForwardOptions :: string where
  "k8sio_api_core_v1_PodPortForwardOptions = ''k8s.io/api/core/v1.PodPortForwardOptions''"

definition k8sio_api_core_v1_PodProxyOptions :: string where
  "k8sio_api_core_v1_PodProxyOptions = ''k8s.io/api/core/v1.PodProxyOptions''"

definition k8sio_api_core_v1_PodReadinessGate :: string where
  "k8sio_api_core_v1_PodReadinessGate = ''k8s.io/api/core/v1.PodReadinessGate''"

definition k8sio_api_core_v1_PodResourceClaim :: string where
  "k8sio_api_core_v1_PodResourceClaim = ''k8s.io/api/core/v1.PodResourceClaim''"

definition k8sio_api_core_v1_PodResourceClaimStatus :: string where
  "k8sio_api_core_v1_PodResourceClaimStatus = ''k8s.io/api/core/v1.PodResourceClaimStatus''"

definition k8sio_api_core_v1_PodSchedulingGate :: string where
  "k8sio_api_core_v1_PodSchedulingGate = ''k8s.io/api/core/v1.PodSchedulingGate''"

definition k8sio_api_core_v1_PodSecurityContext :: string where
  "k8sio_api_core_v1_PodSecurityContext = ''k8s.io/api/core/v1.PodSecurityContext''"

definition k8sio_api_core_v1_PodSignature :: string where
  "k8sio_api_core_v1_PodSignature = ''k8s.io/api/core/v1.PodSignature''"

definition k8sio_api_core_v1_PodSpec :: string where
  "k8sio_api_core_v1_PodSpec = ''k8s.io/api/core/v1.PodSpec''"

definition k8sio_api_core_v1_PodStatus :: string where
  "k8sio_api_core_v1_PodStatus = ''k8s.io/api/core/v1.PodStatus''"

definition k8sio_api_core_v1_PodStatusResult :: string where
  "k8sio_api_core_v1_PodStatusResult = ''k8s.io/api/core/v1.PodStatusResult''"

definition k8sio_api_core_v1_PodTemplate :: string where
  "k8sio_api_core_v1_PodTemplate = ''k8s.io/api/core/v1.PodTemplate''"

definition k8sio_api_core_v1_PodTemplateList :: string where
  "k8sio_api_core_v1_PodTemplateList = ''k8s.io/api/core/v1.PodTemplateList''"

definition k8sio_api_core_v1_PodTemplateSpec :: string where
  "k8sio_api_core_v1_PodTemplateSpec = ''k8s.io/api/core/v1.PodTemplateSpec''"

definition k8sio_api_core_v1_PortStatus :: string where
  "k8sio_api_core_v1_PortStatus = ''k8s.io/api/core/v1.PortStatus''"

definition k8sio_api_core_v1_PortworxVolumeSource :: string where
  "k8sio_api_core_v1_PortworxVolumeSource = ''k8s.io/api/core/v1.PortworxVolumeSource''"

definition k8sio_api_core_v1_PreferAvoidPodsEntry :: string where
  "k8sio_api_core_v1_PreferAvoidPodsEntry = ''k8s.io/api/core/v1.PreferAvoidPodsEntry''"

definition k8sio_api_core_v1_PreferredSchedulingTerm :: string where
  "k8sio_api_core_v1_PreferredSchedulingTerm = ''k8s.io/api/core/v1.PreferredSchedulingTerm''"

definition k8sio_api_core_v1_Probe :: string where
  "k8sio_api_core_v1_Probe = ''k8s.io/api/core/v1.Probe''"

definition k8sio_api_core_v1_ProbeHandler :: string where
  "k8sio_api_core_v1_ProbeHandler = ''k8s.io/api/core/v1.ProbeHandler''"

definition k8sio_api_core_v1_ProjectedVolumeSource :: string where
  "k8sio_api_core_v1_ProjectedVolumeSource = ''k8s.io/api/core/v1.ProjectedVolumeSource''"

definition k8sio_api_core_v1_QuobyteVolumeSource :: string where
  "k8sio_api_core_v1_QuobyteVolumeSource = ''k8s.io/api/core/v1.QuobyteVolumeSource''"

definition k8sio_api_core_v1_RBDPersistentVolumeSource :: string where
  "k8sio_api_core_v1_RBDPersistentVolumeSource = ''k8s.io/api/core/v1.RBDPersistentVolumeSource''"

definition k8sio_api_core_v1_RBDVolumeSource :: string where
  "k8sio_api_core_v1_RBDVolumeSource = ''k8s.io/api/core/v1.RBDVolumeSource''"

definition k8sio_api_core_v1_RangeAllocation :: string where
  "k8sio_api_core_v1_RangeAllocation = ''k8s.io/api/core/v1.RangeAllocation''"

definition k8sio_api_core_v1_ReplicationController :: string where
  "k8sio_api_core_v1_ReplicationController = ''k8s.io/api/core/v1.ReplicationController''"

definition k8sio_api_core_v1_ReplicationControllerCondition :: string where
  "k8sio_api_core_v1_ReplicationControllerCondition = ''k8s.io/api/core/v1.ReplicationControllerCondition''"

definition k8sio_api_core_v1_ReplicationControllerList :: string where
  "k8sio_api_core_v1_ReplicationControllerList = ''k8s.io/api/core/v1.ReplicationControllerList''"

definition k8sio_api_core_v1_ReplicationControllerSpec :: string where
  "k8sio_api_core_v1_ReplicationControllerSpec = ''k8s.io/api/core/v1.ReplicationControllerSpec''"

definition k8sio_api_core_v1_ReplicationControllerStatus :: string where
  "k8sio_api_core_v1_ReplicationControllerStatus = ''k8s.io/api/core/v1.ReplicationControllerStatus''"

definition k8sio_api_core_v1_ResourceClaim :: string where
  "k8sio_api_core_v1_ResourceClaim = ''k8s.io/api/core/v1.ResourceClaim''"

definition k8sio_api_core_v1_ResourceFieldSelector :: string where
  "k8sio_api_core_v1_ResourceFieldSelector = ''k8s.io/api/core/v1.ResourceFieldSelector''"

definition k8sio_api_core_v1_ResourceQuota :: string where
  "k8sio_api_core_v1_ResourceQuota = ''k8s.io/api/core/v1.ResourceQuota''"

definition k8sio_api_core_v1_ResourceQuotaList :: string where
  "k8sio_api_core_v1_ResourceQuotaList = ''k8s.io/api/core/v1.ResourceQuotaList''"

definition k8sio_api_core_v1_ResourceQuotaSpec :: string where
  "k8sio_api_core_v1_ResourceQuotaSpec = ''k8s.io/api/core/v1.ResourceQuotaSpec''"

definition k8sio_api_core_v1_ResourceQuotaStatus :: string where
  "k8sio_api_core_v1_ResourceQuotaStatus = ''k8s.io/api/core/v1.ResourceQuotaStatus''"

definition k8sio_api_core_v1_ResourceRequirements :: string where
  "k8sio_api_core_v1_ResourceRequirements = ''k8s.io/api/core/v1.ResourceRequirements''"

definition k8sio_api_core_v1_SELinuxOptions :: string where
  "k8sio_api_core_v1_SELinuxOptions = ''k8s.io/api/core/v1.SELinuxOptions''"

definition k8sio_api_core_v1_ScaleIOPersistentVolumeSource :: string where
  "k8sio_api_core_v1_ScaleIOPersistentVolumeSource = ''k8s.io/api/core/v1.ScaleIOPersistentVolumeSource''"

definition k8sio_api_core_v1_ScaleIOVolumeSource :: string where
  "k8sio_api_core_v1_ScaleIOVolumeSource = ''k8s.io/api/core/v1.ScaleIOVolumeSource''"

definition k8sio_api_core_v1_ScopeSelector :: string where
  "k8sio_api_core_v1_ScopeSelector = ''k8s.io/api/core/v1.ScopeSelector''"

definition k8sio_api_core_v1_ScopedResourceSelectorRequirement :: string where
  "k8sio_api_core_v1_ScopedResourceSelectorRequirement = ''k8s.io/api/core/v1.ScopedResourceSelectorRequirement''"

definition k8sio_api_core_v1_SeccompProfile :: string where
  "k8sio_api_core_v1_SeccompProfile = ''k8s.io/api/core/v1.SeccompProfile''"

definition k8sio_api_core_v1_Secret :: string where
  "k8sio_api_core_v1_Secret = ''k8s.io/api/core/v1.Secret''"

definition k8sio_api_core_v1_SecretEnvSource :: string where
  "k8sio_api_core_v1_SecretEnvSource = ''k8s.io/api/core/v1.SecretEnvSource''"

definition k8sio_api_core_v1_SecretKeySelector :: string where
  "k8sio_api_core_v1_SecretKeySelector = ''k8s.io/api/core/v1.SecretKeySelector''"

definition k8sio_api_core_v1_SecretList :: string where
  "k8sio_api_core_v1_SecretList = ''k8s.io/api/core/v1.SecretList''"

definition k8sio_api_core_v1_SecretProjection :: string where
  "k8sio_api_core_v1_SecretProjection = ''k8s.io/api/core/v1.SecretProjection''"

definition k8sio_api_core_v1_SecretReference :: string where
  "k8sio_api_core_v1_SecretReference = ''k8s.io/api/core/v1.SecretReference''"

definition k8sio_api_core_v1_SecretVolumeSource :: string where
  "k8sio_api_core_v1_SecretVolumeSource = ''k8s.io/api/core/v1.SecretVolumeSource''"

definition k8sio_api_core_v1_SecurityContext :: string where
  "k8sio_api_core_v1_SecurityContext = ''k8s.io/api/core/v1.SecurityContext''"

definition k8sio_api_core_v1_SerializedReference :: string where
  "k8sio_api_core_v1_SerializedReference = ''k8s.io/api/core/v1.SerializedReference''"

definition k8sio_api_core_v1_Service :: string where
  "k8sio_api_core_v1_Service = ''k8s.io/api/core/v1.Service''"

definition k8sio_api_core_v1_ServiceAccount :: string where
  "k8sio_api_core_v1_ServiceAccount = ''k8s.io/api/core/v1.ServiceAccount''"

definition k8sio_api_core_v1_ServiceAccountList :: string where
  "k8sio_api_core_v1_ServiceAccountList = ''k8s.io/api/core/v1.ServiceAccountList''"

definition k8sio_api_core_v1_ServiceAccountTokenProjection :: string where
  "k8sio_api_core_v1_ServiceAccountTokenProjection = ''k8s.io/api/core/v1.ServiceAccountTokenProjection''"

definition k8sio_api_core_v1_ServiceList :: string where
  "k8sio_api_core_v1_ServiceList = ''k8s.io/api/core/v1.ServiceList''"

definition k8sio_api_core_v1_ServicePort :: string where
  "k8sio_api_core_v1_ServicePort = ''k8s.io/api/core/v1.ServicePort''"

definition k8sio_api_core_v1_ServiceProxyOptions :: string where
  "k8sio_api_core_v1_ServiceProxyOptions = ''k8s.io/api/core/v1.ServiceProxyOptions''"

definition k8sio_api_core_v1_ServiceSpec :: string where
  "k8sio_api_core_v1_ServiceSpec = ''k8s.io/api/core/v1.ServiceSpec''"

definition k8sio_api_core_v1_ServiceStatus :: string where
  "k8sio_api_core_v1_ServiceStatus = ''k8s.io/api/core/v1.ServiceStatus''"

definition k8sio_api_core_v1_SessionAffinityConfig :: string where
  "k8sio_api_core_v1_SessionAffinityConfig = ''k8s.io/api/core/v1.SessionAffinityConfig''"

definition k8sio_api_core_v1_StorageOSPersistentVolumeSource :: string where
  "k8sio_api_core_v1_StorageOSPersistentVolumeSource = ''k8s.io/api/core/v1.StorageOSPersistentVolumeSource''"

definition k8sio_api_core_v1_StorageOSVolumeSource :: string where
  "k8sio_api_core_v1_StorageOSVolumeSource = ''k8s.io/api/core/v1.StorageOSVolumeSource''"

definition k8sio_api_core_v1_Sysctl :: string where
  "k8sio_api_core_v1_Sysctl = ''k8s.io/api/core/v1.Sysctl''"

definition k8sio_api_core_v1_TCPSocketAction :: string where
  "k8sio_api_core_v1_TCPSocketAction = ''k8s.io/api/core/v1.TCPSocketAction''"

definition k8sio_api_core_v1_Taint :: string where
  "k8sio_api_core_v1_Taint = ''k8s.io/api/core/v1.Taint''"

definition k8sio_api_core_v1_Toleration :: string where
  "k8sio_api_core_v1_Toleration = ''k8s.io/api/core/v1.Toleration''"

definition k8sio_api_core_v1_TopologySelectorLabelRequirement :: string where
  "k8sio_api_core_v1_TopologySelectorLabelRequirement = ''k8s.io/api/core/v1.TopologySelectorLabelRequirement''"

definition k8sio_api_core_v1_TopologySelectorTerm :: string where
  "k8sio_api_core_v1_TopologySelectorTerm = ''k8s.io/api/core/v1.TopologySelectorTerm''"

definition k8sio_api_core_v1_TopologySpreadConstraint :: string where
  "k8sio_api_core_v1_TopologySpreadConstraint = ''k8s.io/api/core/v1.TopologySpreadConstraint''"

definition k8sio_api_core_v1_TypedLocalObjectReference :: string where
  "k8sio_api_core_v1_TypedLocalObjectReference = ''k8s.io/api/core/v1.TypedLocalObjectReference''"

definition k8sio_api_core_v1_TypedObjectReference :: string where
  "k8sio_api_core_v1_TypedObjectReference = ''k8s.io/api/core/v1.TypedObjectReference''"

definition k8sio_api_core_v1_Volume :: string where
  "k8sio_api_core_v1_Volume = ''k8s.io/api/core/v1.Volume''"

definition k8sio_api_core_v1_VolumeDevice :: string where
  "k8sio_api_core_v1_VolumeDevice = ''k8s.io/api/core/v1.VolumeDevice''"

definition k8sio_api_core_v1_VolumeMount :: string where
  "k8sio_api_core_v1_VolumeMount = ''k8s.io/api/core/v1.VolumeMount''"

definition k8sio_api_core_v1_VolumeNodeAffinity :: string where
  "k8sio_api_core_v1_VolumeNodeAffinity = ''k8s.io/api/core/v1.VolumeNodeAffinity''"

definition k8sio_api_core_v1_VolumeProjection :: string where
  "k8sio_api_core_v1_VolumeProjection = ''k8s.io/api/core/v1.VolumeProjection''"

definition k8sio_api_core_v1_VolumeSource :: string where
  "k8sio_api_core_v1_VolumeSource = ''k8s.io/api/core/v1.VolumeSource''"

definition k8sio_api_core_v1_VsphereVirtualDiskVolumeSource :: string where
  "k8sio_api_core_v1_VsphereVirtualDiskVolumeSource = ''k8s.io/api/core/v1.VsphereVirtualDiskVolumeSource''"

definition k8sio_api_core_v1_WeightedPodAffinityTerm :: string where
  "k8sio_api_core_v1_WeightedPodAffinityTerm = ''k8s.io/api/core/v1.WeightedPodAffinityTerm''"

definition k8sio_api_core_v1_WindowsSecurityContextOptions :: string where
  "k8sio_api_core_v1_WindowsSecurityContextOptions = ''k8s.io/api/core/v1.WindowsSecurityContextOptions''"

definition apimachinery_pkg_api_resource_Quantity :: string where
  "apimachinery_pkg_api_resource_Quantity = ''k8s.io/apimachinery/pkg/api/resource.Quantity''"

definition apimachinery_pkg_api_resource_int64Amount :: string where
  "apimachinery_pkg_api_resource_int64Amount = ''k8s.io/apimachinery/pkg/api/resource.int64Amount''"

definition pkg_apis_meta_v1_APIGroup :: string where
  "pkg_apis_meta_v1_APIGroup = ''k8s.io/apimachinery/pkg/apis/meta/v1.APIGroup''"

definition pkg_apis_meta_v1_APIGroupList :: string where
  "pkg_apis_meta_v1_APIGroupList = ''k8s.io/apimachinery/pkg/apis/meta/v1.APIGroupList''"

definition pkg_apis_meta_v1_APIResource :: string where
  "pkg_apis_meta_v1_APIResource = ''k8s.io/apimachinery/pkg/apis/meta/v1.APIResource''"

definition pkg_apis_meta_v1_APIResourceList :: string where
  "pkg_apis_meta_v1_APIResourceList = ''k8s.io/apimachinery/pkg/apis/meta/v1.APIResourceList''"

definition pkg_apis_meta_v1_APIVersions :: string where
  "pkg_apis_meta_v1_APIVersions = ''k8s.io/apimachinery/pkg/apis/meta/v1.APIVersions''"

definition pkg_apis_meta_v1_ApplyOptions :: string where
  "pkg_apis_meta_v1_ApplyOptions = ''k8s.io/apimachinery/pkg/apis/meta/v1.ApplyOptions''"

definition pkg_apis_meta_v1_Condition :: string where
  "pkg_apis_meta_v1_Condition = ''k8s.io/apimachinery/pkg/apis/meta/v1.Condition''"

definition pkg_apis_meta_v1_CreateOptions :: string where
  "pkg_apis_meta_v1_CreateOptions = ''k8s.io/apimachinery/pkg/apis/meta/v1.CreateOptions''"

definition pkg_apis_meta_v1_DeleteOptions :: string where
  "pkg_apis_meta_v1_DeleteOptions = ''k8s.io/apimachinery/pkg/apis/meta/v1.DeleteOptions''"

definition pkg_apis_meta_v1_Duration :: string where
  "pkg_apis_meta_v1_Duration = ''k8s.io/apimachinery/pkg/apis/meta/v1.Duration''"

definition pkg_apis_meta_v1_FieldsV1 :: string where
  "pkg_apis_meta_v1_FieldsV1 = ''k8s.io/apimachinery/pkg/apis/meta/v1.FieldsV1''"

definition pkg_apis_meta_v1_GetOptions :: string where
  "pkg_apis_meta_v1_GetOptions = ''k8s.io/apimachinery/pkg/apis/meta/v1.GetOptions''"

definition pkg_apis_meta_v1_GroupKind :: string where
  "pkg_apis_meta_v1_GroupKind = ''k8s.io/apimachinery/pkg/apis/meta/v1.GroupKind''"

definition pkg_apis_meta_v1_GroupResource :: string where
  "pkg_apis_meta_v1_GroupResource = ''k8s.io/apimachinery/pkg/apis/meta/v1.GroupResource''"

definition pkg_apis_meta_v1_GroupVersion :: string where
  "pkg_apis_meta_v1_GroupVersion = ''k8s.io/apimachinery/pkg/apis/meta/v1.GroupVersion''"

definition pkg_apis_meta_v1_GroupVersionForDiscovery :: string where
  "pkg_apis_meta_v1_GroupVersionForDiscovery = ''k8s.io/apimachinery/pkg/apis/meta/v1.GroupVersionForDiscovery''"

definition pkg_apis_meta_v1_GroupVersionKind :: string where
  "pkg_apis_meta_v1_GroupVersionKind = ''k8s.io/apimachinery/pkg/apis/meta/v1.GroupVersionKind''"

definition pkg_apis_meta_v1_GroupVersionResource :: string where
  "pkg_apis_meta_v1_GroupVersionResource = ''k8s.io/apimachinery/pkg/apis/meta/v1.GroupVersionResource''"

definition pkg_apis_meta_v1_InternalEvent :: string where
  "pkg_apis_meta_v1_InternalEvent = ''k8s.io/apimachinery/pkg/apis/meta/v1.InternalEvent''"

definition pkg_apis_meta_v1_LabelSelector :: string where
  "pkg_apis_meta_v1_LabelSelector = ''k8s.io/apimachinery/pkg/apis/meta/v1.LabelSelector''"

definition pkg_apis_meta_v1_LabelSelectorRequirement :: string where
  "pkg_apis_meta_v1_LabelSelectorRequirement = ''k8s.io/apimachinery/pkg/apis/meta/v1.LabelSelectorRequirement''"

definition pkg_apis_meta_v1_List :: string where
  "pkg_apis_meta_v1_List = ''k8s.io/apimachinery/pkg/apis/meta/v1.List''"

definition pkg_apis_meta_v1_ListMeta :: string where
  "pkg_apis_meta_v1_ListMeta = ''k8s.io/apimachinery/pkg/apis/meta/v1.ListMeta''"

definition pkg_apis_meta_v1_ListOptions :: string where
  "pkg_apis_meta_v1_ListOptions = ''k8s.io/apimachinery/pkg/apis/meta/v1.ListOptions''"

definition pkg_apis_meta_v1_ManagedFieldsEntry :: string where
  "pkg_apis_meta_v1_ManagedFieldsEntry = ''k8s.io/apimachinery/pkg/apis/meta/v1.ManagedFieldsEntry''"

definition pkg_apis_meta_v1_MicroTime :: string where
  "pkg_apis_meta_v1_MicroTime = ''k8s.io/apimachinery/pkg/apis/meta/v1.MicroTime''"

definition pkg_apis_meta_v1_ObjectMeta :: string where
  "pkg_apis_meta_v1_ObjectMeta = ''k8s.io/apimachinery/pkg/apis/meta/v1.ObjectMeta''"

definition pkg_apis_meta_v1_OwnerReference :: string where
  "pkg_apis_meta_v1_OwnerReference = ''k8s.io/apimachinery/pkg/apis/meta/v1.OwnerReference''"

definition pkg_apis_meta_v1_PartialObjectMetadata :: string where
  "pkg_apis_meta_v1_PartialObjectMetadata = ''k8s.io/apimachinery/pkg/apis/meta/v1.PartialObjectMetadata''"

definition pkg_apis_meta_v1_PartialObjectMetadataList :: string where
  "pkg_apis_meta_v1_PartialObjectMetadataList = ''k8s.io/apimachinery/pkg/apis/meta/v1.PartialObjectMetadataList''"

definition pkg_apis_meta_v1_Patch :: string where
  "pkg_apis_meta_v1_Patch = ''k8s.io/apimachinery/pkg/apis/meta/v1.Patch''"

definition pkg_apis_meta_v1_PatchOptions :: string where
  "pkg_apis_meta_v1_PatchOptions = ''k8s.io/apimachinery/pkg/apis/meta/v1.PatchOptions''"

definition pkg_apis_meta_v1_Preconditions :: string where
  "pkg_apis_meta_v1_Preconditions = ''k8s.io/apimachinery/pkg/apis/meta/v1.Preconditions''"

definition pkg_apis_meta_v1_RootPaths :: string where
  "pkg_apis_meta_v1_RootPaths = ''k8s.io/apimachinery/pkg/apis/meta/v1.RootPaths''"

definition pkg_apis_meta_v1_ServerAddressByClientCIDR :: string where
  "pkg_apis_meta_v1_ServerAddressByClientCIDR = ''k8s.io/apimachinery/pkg/apis/meta/v1.ServerAddressByClientCIDR''"

definition pkg_apis_meta_v1_Status :: string where
  "pkg_apis_meta_v1_Status = ''k8s.io/apimachinery/pkg/apis/meta/v1.Status''"

definition pkg_apis_meta_v1_StatusCause :: string where
  "pkg_apis_meta_v1_StatusCause = ''k8s.io/apimachinery/pkg/apis/meta/v1.StatusCause''"

definition pkg_apis_meta_v1_StatusDetails :: string where
  "pkg_apis_meta_v1_StatusDetails = ''k8s.io/apimachinery/pkg/apis/meta/v1.StatusDetails''"

definition pkg_apis_meta_v1_Table :: string where
  "pkg_apis_meta_v1_Table = ''k8s.io/apimachinery/pkg/apis/meta/v1.Table''"

definition pkg_apis_meta_v1_TableColumnDefinition :: string where
  "pkg_apis_meta_v1_TableColumnDefinition = ''k8s.io/apimachinery/pkg/apis/meta/v1.TableColumnDefinition''"

definition pkg_apis_meta_v1_TableOptions :: string where
  "pkg_apis_meta_v1_TableOptions = ''k8s.io/apimachinery/pkg/apis/meta/v1.TableOptions''"

definition pkg_apis_meta_v1_TableRow :: string where
  "pkg_apis_meta_v1_TableRow = ''k8s.io/apimachinery/pkg/apis/meta/v1.TableRow''"

definition pkg_apis_meta_v1_TableRowCondition :: string where
  "pkg_apis_meta_v1_TableRowCondition = ''k8s.io/apimachinery/pkg/apis/meta/v1.TableRowCondition''"

definition pkg_apis_meta_v1_Time :: string where
  "pkg_apis_meta_v1_Time = ''k8s.io/apimachinery/pkg/apis/meta/v1.Time''"

definition pkg_apis_meta_v1_Timestamp :: string where
  "pkg_apis_meta_v1_Timestamp = ''k8s.io/apimachinery/pkg/apis/meta/v1.Timestamp''"

definition pkg_apis_meta_v1_TypeMeta :: string where
  "pkg_apis_meta_v1_TypeMeta = ''k8s.io/apimachinery/pkg/apis/meta/v1.TypeMeta''"

definition pkg_apis_meta_v1_UpdateOptions :: string where
  "pkg_apis_meta_v1_UpdateOptions = ''k8s.io/apimachinery/pkg/apis/meta/v1.UpdateOptions''"

definition pkg_apis_meta_v1_WatchEvent :: string where
  "pkg_apis_meta_v1_WatchEvent = ''k8s.io/apimachinery/pkg/apis/meta/v1.WatchEvent''"

definition k8sio_apimachinery_pkg_version_Info :: string where
  "k8sio_apimachinery_pkg_version_Info = ''k8s.io/apimachinery/pkg/version.Info''"

definition pkg_apis_custom_metrics_v1beta1_MetricListOptions :: string where
  "pkg_apis_custom_metrics_v1beta1_MetricListOptions = ''k8s.io/metrics/pkg/apis/custom_metrics/v1beta1.MetricListOptions''"

definition pkg_apis_custom_metrics_v1beta1_MetricValue :: string where
  "pkg_apis_custom_metrics_v1beta1_MetricValue = ''k8s.io/metrics/pkg/apis/custom_metrics/v1beta1.MetricValue''"

definition pkg_apis_custom_metrics_v1beta1_MetricValueList :: string where
  "pkg_apis_custom_metrics_v1beta1_MetricValueList = ''k8s.io/metrics/pkg/apis/custom_metrics/v1beta1.MetricValueList''"

definition pkg_apis_custom_metrics_v1beta2_MetricIdentifier :: string where
  "pkg_apis_custom_metrics_v1beta2_MetricIdentifier = ''k8s.io/metrics/pkg/apis/custom_metrics/v1beta2.MetricIdentifier''"

definition pkg_apis_custom_metrics_v1beta2_MetricListOptions :: string where
  "pkg_apis_custom_metrics_v1beta2_MetricListOptions = ''k8s.io/metrics/pkg/apis/custom_metrics/v1beta2.MetricListOptions''"

definition pkg_apis_custom_metrics_v1beta2_MetricValue :: string where
  "pkg_apis_custom_metrics_v1beta2_MetricValue = ''k8s.io/metrics/pkg/apis/custom_metrics/v1beta2.MetricValue''"

definition pkg_apis_custom_metrics_v1beta2_MetricValueList :: string where
  "pkg_apis_custom_metrics_v1beta2_MetricValueList = ''k8s.io/metrics/pkg/apis/custom_metrics/v1beta2.MetricValueList''"

definition pkg_apis_external_metrics_v1beta1_ExternalMetricValue :: string where
  "pkg_apis_external_metrics_v1beta1_ExternalMetricValue = ''k8s.io/metrics/pkg/apis/external_metrics/v1beta1.ExternalMetricValue''"

definition pkg_apis_external_metrics_v1beta1_ExternalMetricValueList :: string where
  "pkg_apis_external_metrics_v1beta1_ExternalMetricValueList = ''k8s.io/metrics/pkg/apis/external_metrics/v1beta1.ExternalMetricValueList''"

definition pkg_apis_metrics_v1beta1_ContainerMetrics :: string where
  "pkg_apis_metrics_v1beta1_ContainerMetrics = ''k8s.io/metrics/pkg/apis/metrics/v1beta1.ContainerMetrics''"

definition pkg_apis_metrics_v1beta1_NodeMetrics :: string where
  "pkg_apis_metrics_v1beta1_NodeMetrics = ''k8s.io/metrics/pkg/apis/metrics/v1beta1.NodeMetrics''"

definition pkg_apis_metrics_v1beta1_NodeMetricsList :: string where
  "pkg_apis_metrics_v1beta1_NodeMetricsList = ''k8s.io/metrics/pkg/apis/metrics/v1beta1.NodeMetricsList''"

definition pkg_apis_metrics_v1beta1_PodMetrics :: string where
  "pkg_apis_metrics_v1beta1_PodMetrics = ''k8s.io/metrics/pkg/apis/metrics/v1beta1.PodMetrics''"

definition pkg_apis_metrics_v1beta1_PodMetricsList :: string where
  "pkg_apis_metrics_v1beta1_PodMetricsList = ''k8s.io/metrics/pkg/apis/metrics/v1beta1.PodMetricsList''"

definition k8sio_apimachinery_pkg_runtime_RawExtension :: string where
  "k8sio_apimachinery_pkg_runtime_RawExtension = ''k8s.io/apimachinery/pkg/runtime.RawExtension''"

definition k8sio_apimachinery_pkg_runtime_Object :: string where
  "k8sio_apimachinery_pkg_runtime_Object = ''k8s.io/apimachinery/pkg/runtime.Object''"

definition k8sio_apimachinery_pkg_util_intstr_IntOrString :: string where
  "k8sio_apimachinery_pkg_util_intstr_IntOrString = ''k8s.io/apimachinery/pkg/util/intstr.IntOrString''"

end
