(* ===== verification/OpenAPI_Core_A.thy ===== *)
theory OpenAPI_Core_A
  imports OpenAPI_Names
begin

text \<open>
  The models of package \<open>k8s.io/api/core/v1\<close> from \<open>AWSElasticBlockStoreVolumeSource\<close> to \<open>LocalVolumeSource\<close>.
\<close>

definition schema_k8sio_api_core_v1_AWSElasticBlockStoreVolumeSource :: "'r openapi \<Rightarrow> 'r openAPIDefinition" where
  "schema_k8sio_api_core_v1_AWSElasticBlockStoreVolumeSource E = \<lparr>
     od_Schema = [
       Type [''object''],
       Properties [
         (''volumeID'', [Default (JString ''''), Type [''string''], Format '''']),
         (''fsType'', [Type [''string''], Format '''']),
         (''partition'', [Type [''integer''], Format ''int32'']),
         (''readOnly'', [Type [''boolean''], Format ''''])],
       Required [''volumeID'']],
     od_Dependencies = []\<rparr>"

definition schema_k8sio_api_core_v1_Affinity :: "'r openapi \<Rightarrow> 'r openAPIDefinition" where
  "schema_k8sio_api_core_v1_Affinity E = \<lparr>
     od_Schema = [
       Type [''object''],
       Properties [
         (''nodeAffinity'', [Ref (oa_ref E k8sio_api_core_v1_NodeAffinity)]),
         (''podAffinity'', [Ref (oa_ref E k8sio_api_core_v1_PodAffinity)]),
         (''podAntiAffinity'', [Ref (oa_ref E k8sio_api_core_v1_PodAntiAffinity)])]],
     od_Dependencies = [k8sio_api_core_v1_NodeAffinity, k8sio_api_core_v1_PodAffinity,
       k8sio_api_core_v1_PodAntiAffinity]\<rparr>"

definition schema_k8sio_api_core_v1_AttachedVolume :: "'r openapi \<Rightarrow> 'r openAPIDefinition" where
  "schema_k8sio_api_core_v1_AttachedVolume E = \<lparr>
     od_Schema = [
       Type [''object''],
       Properties [
         (''name'', [Default (JString ''''), Type [''string''], Format '''']),
         (''devicePath'', [Default (JString ''''), Type [''string''], Format ''''])],
       Required [''name'', ''devicePath'']],
     od_Dependencies = []\<rparr>"

definition schema_k8sio_api_core_v1_AvoidPods :: "'r openapi \<Rightarrow> 'r openAPIDefinition" where
  "schema_k8sio_api_core_v1_AvoidPods E = \<lparr>
     od_Schema = [
       Type [''object''],
       Properties [
         (''preferAvoidPods'', [
           Type [''array''],
           Items [Default (JObject []), Ref (oa_ref E k8sio_api_core_v1_PreferAvoidPodsEntry)]])]],
     od_Dependencies = [k8sio_api_core_v1_PreferAvoidPodsEntry]\<rparr>"

definition schema_k8sio_api_core_v1_AzureDiskVolumeSource :: "'r openapi \<Rightarrow> 'r openAPIDefinition" where
  "schema_k8sio_api_core_v1_AzureDiskVolumeSource E = \<lparr>
     od_Schema = [
       Type [''object''],
       Properties [
         (''diskName'', [Default (JString ''''), Type [''string''], Format '''']),
         (''diskURI'', [Default (JString ''''), Type [''string''], Format '''']),
         (''cachingMode'', [
           Type [''string''], Format '''',
           Enum [JString ''None'', JString ''ReadOnly'', JString ''ReadWrite'']]),
         (''fsType'', [Type [''string''], Format '''']),
         (''readOnly'', [Type [''boolean''], Format '''']),
         (''kind'', [
           Type [''string''], Format '''',
           Enum [JString ''Dedicated'', JString ''Managed'', JString ''Shared'']])],
       Required [''diskName'', ''diskURI'']],
     od_Dependencies = []\<rparr>"

definition schema_k8sio_api_core_v1_AzureFilePersistentVolumeSource :: "'r openapi \<Rightarrow> 'r openAPIDefinition" where
  "schema_k8sio_api_core_v1_AzureFilePersistentVolumeSource E = \<lparr>
     od_Schema = [
       Type [''object''],
       Properties [
         (''secretName'', [Default (JString ''''), Type [''string''], Format '''']),
         (''shareName'', [Default (JString ''''), Type [''string''], Format '''']),
         (''readOnly'', [Type [''boolean''], Format '''']),
         (''secretNamespace'', [Type [''string''], Format ''''])],
       Required [''secretName'', ''shareName'']],
     od_Dependencies = []\<rparr>"

definition schema_k8sio_api_core_v1_AzureFileVolumeSource :: "'r openapi \<Rightarrow> 'r openAPIDefinition" where
  "schema_k8sio_api_core_v1_AzureFileVolumeSource E = \<lparr>
     od_Schema = [
       Type [''object''],
       Properties [
         (''secretName'', [Default (JString ''''), Type [''string''], Format '''']),
         (''shareName'', [Default (JString ''''), Type [''string''], Format '''']),
         (''readOnly'', [Type [''boolean''], Format ''''])],
       Required [''secretName'', ''shareName'']],
     od_Dependencies = []\<rparr>"

definition schema_k8sio_api_core_v1_Binding :: "'r openapi \<Rightarrow> 'r openAPIDefinition" where
  "schema_k8sio_api_core_v1_Binding E = \<lparr>
     od_Schema = [
       Type [''object''],
       Properties [
         (''kind'', [Type [''string''], Format '''']),
         (''apiVersion'', [Type [''string''], Format '''']),
         (''metadata'', [Default (JObject []), Ref (oa_ref E pkg_apis_meta_v1_ObjectMeta)]),
         (''target'', [Default (JObject []), Ref (oa_ref E k8sio_api_core_v1_ObjectReference)])],
       Required [''target'']],
     od_Dependencies = [k8sio_api_core_v1_ObjectReference, pkg_apis_meta_v1_ObjectMeta]\<rparr>"

definition schema_k8sio_api_core_v1_CSIPersistentVolumeSource :: "'r openapi \<Rightarrow> 'r openAPIDefinition" where
  "schema_k8sio_api_core_v1_CSIPersistentVolumeSource E = \<lparr>
     od_Schema = [
       Type [''object''],
       Properties [
         (''driver'', [Default (JString ''''), Type [''string''], Format '''']),
         (''volumeHandle'', [Default (JString ''''), Type [''string''], Format '''']),
         (''readOnly'', [Type [''boolean''], Format '''']),
         (''fsType'', [Type [''string''], Format '''']),
         (''volumeAttributes'', [
           Type [''object''],
           AdditionalProperties True [Default (JString ''''), Type [''string''], Format '''']]),
         (''controllerPublishSecretRef'', [Ref (oa_ref E k8sio_api_core_v1_SecretReference)]),
         (''nodeStageSecretRef'', [Ref (oa_ref E k8sio_api_core_v1_SecretReference)]),
         (''nodePublishSecretRef'', [Ref (oa_ref E k8sio_api_core_v1_SecretReference)]),
         (''controllerExpandSecretRef'', [Ref (oa_ref E k8sio_api_core_v1_SecretReference)]),
         (''nodeExpandSecretRef'', [Ref (oa_ref E k8sio_api_core_v1_SecretReference)])],
       Required [''driver'', ''volumeHandle'']],
     od_Dependencies = [k8sio_api_core_v1_SecretReference]\<rparr>"

definition schema_k8sio_api_core_v1_CSIVolumeSource :: "'r openapi \<Rightarrow> 'r openAPIDefinition" where
  "schema_k8sio_api_core_v1_CSIVolumeSource E = \<lparr>
     od_Schema = [
       Type [''object''],
       Properties [
         (''driver'', [Default (JString ''''), Type [''string''], Format '''']),
         (''readOnly'', [Type [''boolean''], Format '''']),
         (''fsType'', [Type [''string''], Format '''']),
         (''volumeAttributes'', [
           Type [''object''],
           AdditionalProperties True [Default (JString ''''), Type [''string''], Format '''']]),
         (''nodePublishSecretRef'', [Ref (oa_ref E k8sio_api_core_v1_LocalObjectReference)])],
       Required [''driver'']],
     od_Dependencies = [k8sio_api_core_v1_LocalObjectReference]\<rparr>"

definition schema_k8sio_api_core_v1_Capabilities :: "'r openapi \<Rightarrow> 'r openAPIDefinition" where
  "schema_k8sio_api_core_v1_Capabilities E = \<lparr>
     od_Schema = [
       Type [''object''],
       Properties [
         (''add'', [
           Type [''array''], Items [Default (JString ''''), Type [''string''], Format '''']]),
         (''drop'', [
           Type [''array''], Items [Default (JString ''''), Type [''string''], Format '''']])]],
     od_Dependencies = []\<rparr>"

definition schema_k8sio_api_core_v1_CephFSPersistentVolumeSource :: "'r openapi \<Rightarrow> 'r openAPIDefinition" where
  "schema_k8sio_api_core_v1_CephFSPersistentVolumeSource E = \<lparr>
     od_Schema = [
       Type [''object''],
       Properties [
         (''monitors'', [
           Type [''array''], Items [Default (JString ''''), Type [''string''], Format '''']]),
         (''path'', [Type [''string''], Format '''']),
         (''user'', [Type [''string''], Format '''']),
         (''secretFile'', [Type [''string''], Format '''']),
         (''secretRef'', [Ref (oa_ref E k8sio_api_core_v1_SecretReference)]),
         (''readOnly'', [Type [''boolean''], Format ''''])],
       Required [''monitors'']],
     od_Dependencies = [k8sio_api_core_v1_SecretReference]\<rparr>"

definition schema_k8sio_api_core_v1_CephFSVolumeSource :: "'r openapi \<Rightarrow> 'r openAPIDefinition" where
  "schema_k8sio_api_core_v1_CephFSVolumeSource E = \<lparr>
     od_Schema = [
       Type [''object''],
       Properties [
         (''monitors'', [
           Type [''array''], Items [Default (JString ''''), Type [''string''], Format '''']]),
         (''path'', [Type [''string''], Format '''']),
         (''user'', [Type [''string''], Format '''']),
         (''secretFile'', [Type [''string''], Format '''']),
         (''secretRef'', [Ref (oa_ref E k8sio_api_core_v1_LocalObjectReference)]),
         (''readOnly'', [Type [''boolean''], Format ''''])],
       Required [''monitors'']],
     od_Dependencies = [k8sio_api_core_v1_LocalObjectReference]\<rparr>"

definition schema_k8sio_api_core_v1_CinderPersistentVolumeSource :: "'r openapi \<Rightarrow> 'r openAPIDefinition" where
  "schema_k8sio_api_core_v1_CinderPersistentVolumeSource E = \<lparr>
     od_Schema = [
       Type [''object''],
       Properties [
         (''volumeID'', [Default (JString ''''), Type [''string''], Format '''']),
         (''fsType'', [Type [''string''], Format '''']),
         (''readOnly'', [Type [''boolean''], Format '''']),
         (''secretRef'', [Ref (oa_ref E k8sio_api_core_v1_SecretReference)])],
       Required [''volumeID'']],
     od_Dependencies = [k8sio_api_core_v1_SecretReference]\<rparr>"

definition schema_k8sio_api_core_v1_CinderVolumeSource :: "'r openapi \<Rightarrow> 'r openAPIDefinition" where
  "schema_k8sio_api_core_v1_CinderVolumeSource E = \<lparr>
     od_Schema = [
       Type [''object''],
       Properties [
         (''volumeID'', [Default (JString ''''), Type [''string''], Format '''']),
         (''fsType'', [Type [''string''], Format '''']),
         (''readOnly'', [Type [''boolean''], Format '''']),
         (''secretRef'', [Ref (oa_ref E k8sio_api_core_v1_LocalObjectReference)])],
       Required [''volumeID'']],
     od_Dependencies = [k8sio_api_core_v1_LocalObjectReference]\<rparr>"

definition schema_k8sio_api_core_v1_ClaimSource :: "'r openapi \<Rightarrow> 'r openAPIDefinition" where
  "schema_k8sio_api_core_v1_ClaimSource E = \<lparr>
     od_Schema = [
       Type [''object''],
       Properties [
         (''resourceClaimName'', [Type [''string''], Format '''']),
         (''resourceClaimTemplateName'', [Type [''string''], Format ''''])]],
     od_Dependencies = []\<rparr>"

definition schema_k8sio_api_core_v1_ClientIPConfig :: "'r openapi \<Rightarrow> 'r openAPIDefinition" where
  "schema_k8sio_api_core_v1_ClientIPConfig E = \<lparr>
     od_Schema = [
       Type [''object''],
       Properties [(''timeoutSeconds'', [Type [''integer''], Format ''int32''])]],
     od_Dependencies = []\<rparr>"

definition schema_k8sio_api_core_v1_ComponentCondition :: "'r openapi \<Rightarrow> 'r openAPIDefinition" where
  "schema_k8sio_api_core_v1_ComponentCondition E = \<lparr>
     od_Schema = [
       Type [''object''],
       Properties [
         (''type'', [Default (JString ''''), Type [''string''], Format '''']),
         (''status'', [Default (JString ''''), Type [''string''], Format '''']),
         (''message'', [Type [''string''], Format '''']),
         (''error'', [Type [''string''], Format ''''])],
       Required [''type'', ''status'']],
     od_Dependencies = []\<rparr>"

definition schema_k8sio_api_core_v1_ComponentStatus :: "'r openapi \<Rightarrow> 'r openAPIDefinition" where
  "schema_k8sio_api_core_v1_ComponentStatus E = \<lparr>
     od_Schema = [
       Type [''object''],
       Properties [
         (''kind'', [Type [''string''], Format '''']),
         (''apiVersion'', [Type [''string''], Format '''']),
         (''metadata'', [Default (JObject []), Ref (oa_ref E pkg_apis_meta_v1_ObjectMeta)]),
         (''conditions'', [
           VendorExtensible [(''x-kubernetes-patch-merge-key'', JString ''type''),
             (''x-kubernetes-patch-strategy'', JString ''merge'')],
           Type [''array''],
           Items [Default (JObject []), Ref (oa_ref E k8sio_api_core_v1_ComponentCondition)]])]],
     od_Dependencies = [k8sio_api_core_v1_ComponentCondition, pkg_apis_meta_v1_ObjectMeta]\<rparr>"

definition schema_k8sio_api_core_v1_ComponentStatusList :: "'r openapi \<Rightarrow> 'r openAPIDefinition" where
  "schema_k8sio_api_core_v1_ComponentStatusList E = \<lparr>
     od_Schema = [
       Type [''object''],
       Properties [
         (''kind'', [Type [''string''], Format '''']),
         (''apiVersion'', [Type [''string''], Format '''']),
         (''metadata'', [Default (JObject []), Ref (oa_ref E pkg_apis_meta_v1_ListMeta)]),
         (''items'', [
           Type [''array''],
           Items [Default (JObject []), Ref (oa_ref E k8sio_api_core_v1_ComponentStatus)]])],
       Required [''items'']],
     od_Dependencies = [k8sio_api_core_v1_ComponentStatus, pkg_apis_meta_v1_ListMeta]\<rparr>"

definition schema_k8sio_api_core_v1_ConfigMap :: "'r openapi \<Rightarrow> 'r openAPIDefinition" where
  "schema_k8sio_api_core_v1_ConfigMap E = \<lparr>
     od_Schema = [
       Type [''object''],
       Properties [
         (''kind'', [Type [''string''], Format '''']),
         (''apiVersion'', [Type [''string''], Format '''']),
         (''metadata'', [Default (JObject []), Ref (oa_ref E pkg_apis_meta_v1_ObjectMeta)]),
         (''immutable'', [Type [''boolean''], Format '''']),
         (''data'', [
           Type [''object''],
           AdditionalProperties True [Default (JString ''''), Type [''string''], Format '''']]),
         (''binaryData'', [
           Type [''object''],
           AdditionalProperties True [Type [''string''], Format ''byte'']])]],
     od_Dependencies = [pkg_apis_meta_v1_ObjectMeta]\<rparr>"

definition schema_k8sio_api_core_v1_ConfigMapEnvSource :: "'r openapi \<Rightarrow> 'r openAPIDefinition" where
  "schema_k8sio_api_core_v1_ConfigMapEnvSource E = \<lparr>
     od_Schema = [
       Type [''object''],
       Properties [
         (''name'', [Type [''string''], Format '''']),
         (''optional'', [Type [''boolean''], Format ''''])]],
     od_Dependencies = []\<rparr>"

definition schema_k8sio_api_core_v1_ConfigMapKeySelector :: "'r openapi \<Rightarrow> 'r openAPIDefinition" where
  "schema_k8sio_api_core_v1_ConfigMapKeySelector E = \<lparr>
     od_Schema = [
       Type [''object''],
       Properties [
         (''name'', [Type [''string''], Format '''']),
         (''key'', [Default (JString ''''), Type [''string''], Format '''']),
         (''optional'', [Type [''boolean''], Format ''''])],
       Required [''key''], VendorExtensible [(''x-kubernetes-map-type'', JString ''atomic'')]],
     od_Dependencies = []\<rparr>"

definition schema_k8sio_api_core_v1_ConfigMapList :: "'r openapi \<Rightarrow> 'r openAPIDefinition" where
  "schema_k8sio_api_core_v1_ConfigMapList E = \<lparr>
     od_Schema = [
       Type [''object''],
       Properties [
         (''kind'', [Type [''string''], Format '''']),
         (''apiVersion'', [Type [''string''], Format '''']),
         (''metadata'', [Default (JObject []), Ref (oa_ref E pkg_apis_meta_v1_ListMeta)]),
         (''items'', [
           Type [''array''],
           Items [Default (JObject []), Ref (oa_ref E k8sio_api_core_v1_ConfigMap)]])],
       Required [''items'']],
     od_Dependencies = [k8sio_api_core_v1_ConfigMap, pkg_apis_meta_v1_ListMeta]\<rparr>"

definition schema_k8sio_api_core_v1_ConfigMapNodeConfigSource :: "'r openapi \<Rightarrow> 'r openAPIDefinition" where
  "schema_k8sio_api_core_v1_ConfigMapNodeConfigSource E = \<lparr>
     od_Schema = [
       Type [''object''],
       Properties [
         (''namespace'', [Default (JString ''''), Type [''string''], Format '''']),
         (''name'', [Default (JString ''''), Type [''string''], Format '''']),
         (''uid'', [Type [''string''], Format '''']),
         (''resourceVersion'', [Type [''string''], Format '''']),
         (''kubeletConfigKey'', [Default (JString ''''), Type [''string''], Format ''''])],
       Required [''namespace'', ''name'', ''kubeletConfigKey'']],
     od_Dependencies = []\<rparr>"

definition schema_k8sio_api_core_v1_ConfigMapProjection :: "'r openapi \<Rightarrow> 'r openAPIDefinition" where
  "schema_k8sio_api_core_v1_ConfigMapProjection E = \<lparr>
     od_Schema = [
       Type [''object''],
       Properties [
         (''name'', [Type [''string''], Format '''']),
         (''items'', [
           Type [''array''],
           Items [Default (JObject []), Ref (oa_ref E k8sio_api_core_v1_KeyToPath)]]),
         (''optional'', [Type [''boolean''], Format ''''])]],
     od_Dependencies = [k8sio_api_core_v1_KeyToPath]\<rparr>"

definition schema_k8sio_api_core_v1_ConfigMapVolumeSource :: "'r openapi \<Rightarrow> 'r openAPIDefinition" where
  "schema_k8sio_api_core_v1_ConfigMapVolumeSource E = \<lparr>
     od_Schema = [
       Type [''object''],
       Properties [
         (''name'', [Type [''string''], Format '''']),
         (''items'', [
           Type [''array''],
           Items [Default (JObject []), Ref (oa_ref E k8sio_api_core_v1_KeyToPath)]]),
         (''defaultMode'', [Type [''integer''], Format ''int32'']),
         (''optional'', [Type [''boolean''], Format ''''])]],
     od_Dependencies = [k8sio_api_core_v1_KeyToPath]\<rparr>"

definition schema_k8sio_api_core_v1_Container :: "'r openapi \<Rightarrow> 'r openAPIDefinition" where
  "schema_k8sio_api_core_v1_Container E = \<lparr>
     od_Schema = [
       Type [''object''],
       Properties [
         (''name'', [Default (JString ''''), Type [''string''], Format '''']),
         (''image'', [Type [''string''], Format '''']),
         (''command'', [
           Type [''array''], Items [Default (JString ''''), Type [''string''], Format '''']]),
         (''args'', [
           Type [''array''], Items [Default (JString ''''), Type [''string''], Format '''']]),
         (''workingDir'', [Type [''string''], Format '''']),
         (''ports'', [
           VendorExtensible [(''x-kubernetes-list-map-keys'', JList [JString ''containerPort'',
             JString ''protocol'']), (''x-kubernetes-list-type'', JString ''map''),
             (''x-kubernetes-patch-merge-key'', JString ''containerPort''),
             (''x-kubernetes-patch-strategy'', JString ''merge'')],
           Type [''array''],
           Items [Default (JObject []), Ref (oa_ref E k8sio_api_core_v1_ContainerPort)]]),
         (''envFrom'', [
           Type [''array''],
           Items [Default (JObject []), Ref (oa_ref E k8sio_api_core_v1_EnvFromSource)]]),
         (''env'', [
           VendorExtensible [(''x-kubernetes-patch-merge-key'', JString ''name''),
             (''x-kubernetes-patch-strategy'', JString ''merge'')],
           Type [''array''], Items [Default (JObject []), Ref (oa_ref E k8sio_api_core_v1_EnvVar)]]),
         (''resources'', [
           Default (JObject []), Ref (oa_ref E k8sio_api_core_v1_ResourceRequirements)]),
         (''resizePolicy'', [
           VendorExtensible [(''x-kubernetes-list-type'', JString ''atomic'')], Type [''array''],
           Items [Default (JObject []), Ref (oa_ref E k8sio_api_core_v1_ContainerResizePolicy)]]),
         (''restartPolicy'', [Type [''string''], Format '''']),
         (''volumeMounts'', [
           VendorExtensible [(''x-kubernetes-patch-merge-key'', JString ''mountPath''),
             (''x-kubernetes-patch-strategy'', JString ''merge'')],
           Type [''array''],
           Items [Default (JObject []), Ref (oa_ref E k8sio_api_core_v1_VolumeMount)]]),
         (''volumeDevices'', [
           VendorExtensible [(''x-kubernetes-patch-merge-key'', JString ''devicePath''),
             (''x-kubernetes-patch-strategy'', JString ''merge'')],
           Type [''array''],
           Items [Default (JObject []), Ref (oa_ref E k8sio_api_core_v1_VolumeDevice)]]),
         (''livenessProbe'', [Ref (oa_ref E k8sio_api_core_v1_Probe)]),
         (''readinessProbe'', [Ref (oa_ref E k8sio_api_core_v1_Probe)]),
         (''startupProbe'', [Ref (oa_ref E k8sio_api_core_v1_Probe)]),
         (''lifecycle'', [Ref (oa_ref E k8sio_api_core_v1_Lifecycle)]),
         (''terminationMessagePath'', [Type [''string''], Format '''']),
         (''terminationMessagePolicy'', [
           Type [''string''], Format '''',
           Enum [JString ''FallbackToLogsOnError'', JString ''File'']]),
         (''imagePullPolicy'', [
           Type [''string''], Format '''',
           Enum [JString ''Always'', JString ''IfNotPresent'', JString ''Never'']]),
         (''securityContext'', [Ref (oa_ref E k8sio_api_core_v1_SecurityContext)]),
         (''stdin'', [Type [''boolean''], Format '''']),
         (''stdinOnce'', [Type [''boolean''], Format '''']),
         (''tty'', [Type [''boolean''], Format ''''])],
       Required [''name'']],
     od_Dependencies = [k8sio_api_core_v1_ContainerPort, k8sio_api_core_v1_ContainerResizePolicy,
       k8sio_api_core_v1_EnvFromSource, k8sio_api_core_v1_EnvVar, k8sio_api_core_v1_Lifecycle,
       k8sio_api_core_v1_Probe, k8sio_api_core_v1_ResourceRequirements,
       k8sio_api_core_v1_SecurityContext, k8sio_api_core_v1_VolumeDevice,
       k8sio_api_core_v1_VolumeMount]\<rparr>"

definition schema_k8sio_api_core_v1_ContainerImage :: "'r openapi \<Rightarrow> 'r openAPIDefinition" where
  "schema_k8sio_api_core_v1_ContainerImage E = \<lparr>
     od_Schema = [
       Type [''object''],
       Properties [
         (''names'', [
           Type [''array''], Items [Default (JString ''''), Type [''string''], Format '''']]),
         (''sizeBytes'', [Type [''integer''], Format ''int64''])]],
     od_Dependencies = []\<rparr>"

definition schema_k8sio_api_core_v1_ContainerPort :: "'r openapi \<Rightarrow> 'r openAPIDefinition" where
  "schema_k8sio_api_core_v1_ContainerPort E = \<lparr>
     od_Schema = [
       Type [''object''],
       Properties [
         (''name'', [Type [''string''], Format '''']),
         (''hostPort'', [Type [''integer''], Format ''int32'']),
         (''containerPort'', [Default (JInt 0), Type [''integer''], Format ''int32'']),
         (''protocol'', [
           Default (JString ''TCP''), Type [''string''], Format '''',
           Enum [JString ''SCTP'', JString ''TCP'', JString ''UDP'']]),
         (''hostIP'', [Type [''string''], Format ''''])],
       Required [''containerPort'']],
     od_Dependencies = []\<rparr>"

definition schema_k8sio_api_core_v1_ContainerResizePolicy :: "'r openapi \<Rightarrow> 'r openAPIDefinition" where
  "schema_k8sio_api_core_v1_ContainerResizePolicy E = \<lparr>
     od_Schema = [
       Type [''object''],
       Properties [
         (''resourceName'', [Default (JString ''''), Type [''string''], Format '''']),
         (''restartPolicy'', [Default (JString ''''), Type [''string''], Format ''''])],
       Required [''resourceName'', ''restartPolicy'']],
     od_Dependencies = []\<rparr>"

definition schema_k8sio_api_core_v1_ContainerState :: "'r openapi \<Rightarrow> 'r openAPIDefinition" where
  "schema_k8sio_api_core_v1_ContainerState E = \<lparr>
     od_Schema = [
       Type [''object''],
       Properties [
         (''waiting'', [Ref (oa_ref E k8sio_api_core_v1_ContainerStateWaiting)]),
         (''running'', [Ref (oa_ref E k8sio_api_core_v1_ContainerStateRunning)]),
         (''terminated'', [Ref (oa_ref E k8sio_api_core_v1_ContainerStateTerminated)])]],
     od_Dependencies = [k8sio_api_core_v1_ContainerStateRunning,
       k8sio_api_core_v1_ContainerStateTerminated, k8sio_api_core_v1_ContainerStateWaiting]\<rparr>"

definition schema_k8sio_api_core_v1_ContainerStateRunning :: "'r openapi \<Rightarrow> 'r openAPIDefinition" where
  "schema_k8sio_api_core_v1_ContainerStateRunning E = \<lparr>
     od_Schema = [
       Type [''object''],
       Properties [(''startedAt'', [Default (JObject []), Ref (oa_ref E pkg_apis_meta_v1_Time)])]],
     od_Dependencies = [pkg_apis_meta_v1_Time]\<rparr>"

definition schema_k8sio_api_core_v1_ContainerStateTerminated :: "'r openapi \<Rightarrow> 'r openAPIDefinition" where
  "schema_k8sio_api_core_v1_ContainerStateTerminated E = \<lparr>
     od_Schema = [
       Type [''object''],
       Properties [
         (''exitCode'', [Default (JInt 0), Type [''integer''], Format ''int32'']),
         (''signal'', [Type [''integer''], Format ''int32'']),
         (''reason'', [Type [''string''], Format '''']),
         (''message'', [Type [''string''], Format '''']),
         (''startedAt'', [Default (JObject []), Ref (oa_ref E pkg_apis_meta_v1_Time)]),
         (''finishedAt'', [Default (JObject []), Ref (oa_ref E pkg_apis_meta_v1_Time)]),
         (''containerID'', [Type [''string''], Format ''''])],
       Required [''exitCode'']],
     od_Dependencies = [pkg_apis_meta_v1_Time]\<rparr>"

definition schema_k8sio_api_core_v1_ContainerStateWaiting :: "'r openapi \<Rightarrow> 'r openAPIDefinition" where
  "schema_k8sio_api_core_v1_ContainerStateWaiting E = \<lparr>
     od_Schema = [
       Type [''object''],
       Properties [
         (''reason'', [Type [''string''], Format '''']),
         (''message'', [Type [''string''], Format ''''])]],
     od_Dependencies = []\<rparr>"

definition schema_k8sio_api_core_v1_ContainerStatus :: "'r openapi \<Rightarrow> 'r openAPIDefinition" where
  "schema_k8sio_api_core_v1_ContainerStatus E = \<lparr>
     od_Schema = [
       Type [''object''],
       Properties [
         (''name'', [Default (JString ''''), Type [''string''], Format '''']),
         (''state'', [Default (JObject []), Ref (oa_ref E k8sio_api_core_v1_ContainerState)]),
         (''lastState'', [Default (JObject []), Ref (oa_ref E k8sio_api_core_v1_ContainerState)]),
         (''ready'', [Default (JBool False), Type [''boolean''], Format '''']),
         (''restartCount'', [Default (JInt 0), Type [''integer''], Format ''int32'']),
         (''image'', [Default (JString ''''), Type [''string''], Format '''']),
         (''imageID'', [Default (JString ''''), Type [''string''], Format '''']),
         (''containerID'', [Type [''string''], Format '''']),
         (''started'', [Type [''boolean''], Format '''']),
         (''allocatedResources'', [
           Type [''object''],
           AdditionalProperties True [
             Default (JObject []), Ref (oa_ref E apimachinery_pkg_api_resource_Quantity)]]),
         (''resources'', [Ref (oa_ref E k8sio_api_core_v1_ResourceRequirements)])],
       Required [''name'', ''ready'', ''restartCount'', ''image'', ''imageID'']],
     od_Dependencies = [k8sio_api_core_v1_ContainerState, k8sio_api_core_v1_ResourceRequirements,
       apimachinery_pkg_api_resource_Quantity]\<rparr>"

definition schema_k8sio_api_core_v1_DaemonEndpoint :: "'r openapi \<Rightarrow> 'r openAPIDefinition" where
  "schema_k8sio_api_core_v1_DaemonEndpoint E = \<lparr>
     od_Schema = [
       Type [''object''],
       Properties [(''Port'', [Default (JInt 0), Type [''integer''], Format ''int32''])],
       Required [''Port'']],
     od_Dependencies = []\<rparr>"

definition schema_k8sio_api_core_v1_DownwardAPIProjection :: "'r openapi \<Rightarrow> 'r openAPIDefinition" where
  "schema_k8sio_api_core_v1_DownwardAPIProjection E = \<lparr>
     od_Schema = [
       Type [''object''],
       Properties [
         (''items'', [
           Type [''array''],
           Items [Default (JObject []), Ref (oa_ref E k8sio_api_core_v1_DownwardAPIVolumeFile)]])]],
     od_Dependencies = [k8sio_api_core_v1_DownwardAPIVolumeFile]\<rparr>"

definition schema_k8sio_api_core_v1_DownwardAPIVolumeFile :: "'r openapi \<Rightarrow> 'r openAPIDefinition" where
  "schema_k8sio_api_core_v1_DownwardAPIVolumeFile E = \<lparr>
     od_Schema = [
       Type [''object''],
       Properties [
         (''path'', [Default (JString ''''), Type [''string''], Format '''']),
         (''fieldRef'', [Ref (oa_ref E k8sio_api_core_v1_ObjectFieldSelector)]),
         (''resourceFieldRef'', [Ref (oa_ref E k8sio_api_core_v1_ResourceFieldSelector)]),
         (''mode'', [Type [''integer''], Format ''int32''])],
       Required [''path'']],
     od_Dependencies = [k8sio_api_core_v1_ObjectFieldSelector,
       k8sio_api_core_v1_ResourceFieldSelector]\<rparr>"

definition schema_k8sio_api_core_v1_DownwardAPIVolumeSource :: "'r openapi \<Rightarrow> 'r openAPIDefinition" where
  "schema_k8sio_api_core_v1_DownwardAPIVolumeSource E = \<lparr>
     od_Schema = [
       Type [''object''],
       Properties [
         (''items'', [
           Type [''array''],
           Items [Default (JObject []), Ref (oa_ref E k8sio_api_core_v1_DownwardAPIVolumeFile)]]),
         (''defaultMode'', [Type [''integer''], Format ''int32''])]],
     od_Dependencies = [k8sio_api_core_v1_DownwardAPIVolumeFile]\<rparr>"

definition schema_k8sio_api_core_v1_EmptyDirVolumeSource :: "'r openapi \<Rightarrow> 'r openAPIDefinition" where
  "schema_k8sio_api_core_v1_EmptyDirVolumeSource E = \<lparr>
     od_Schema = [
       Type [''object''],
       Properties [
         (''medium'', [Type [''string''], Format '''']),
         (''sizeLimit'', [Ref (oa_ref E apimachinery_pkg_api_resource_Quantity)])]],
     od_Dependencies = [apimachinery_pkg_api_resource_Quantity]\<rparr>"

definition schema_k8sio_api_core_v1_EndpointAddress :: "'r openapi \<Rightarrow> 'r openAPIDefinition" where
  "schema_k8sio_api_core_v1_EndpointAddress E = \<lparr>
     od_Schema = [
       Type [''object''],
       Properties [
         (''ip'', [Default (JString ''''), Type [''string''], Format '''']),
         (''hostname'', [Type [''string''], Format '''']),
         (''nodeName'', [Type [''string''], Format '''']),
         (''targetRef'', [Ref (oa_ref E k8sio_api_core_v1_ObjectReference)])],
       Required [''ip''], VendorExtensible [(''x-kubernetes-map-type'', JString ''atomic'')]],
     od_Dependencies = [k8sio_api_core_v1_ObjectReference]\<rparr>"

definition schema_k8sio_api_core_v1_EndpointPort :: "'r openapi \<Rightarrow> 'r openAPIDefinition" where
  "schema_k8sio_api_core_v1_EndpointPort E = \<lparr>
     od_Schema = [
       Type [''object''],
       Properties [
         (''name'', [Type [''string''], Format '''']),
         (''port'', [Default (JInt 0), Type [''integer''], Format ''int32'']),
         (''protocol'', [
           Type [''string''], Format '''', Enum [JString ''SCTP'', JString ''TCP'', JString ''UDP'']]),
         (''appProtocol'', [Type [''string''], Format ''''])],
       Required [''port''], VendorExtensible [(''x-kubernetes-map-type'', JString ''atomic'')]],
     od_Dependencies = []\<rparr>"

definition schema_k8sio_api_core_v1_EndpointSubset :: "'r openapi \<Rightarrow> 'r openAPIDefinition" where
  "schema_k8sio_api_core_v1_EndpointSubset E = \<lparr>
     od_Schema = [
       Type [''object''],
       Properties [
         (''addresses'', [
           Type [''array''],
           Items [Default (JObject []), Ref (oa_ref E k8sio_api_core_v1_EndpointAddress)]]),
         (''notReadyAddresses'', [
           Type [''array''],
           Items [Default (JObject []), Ref (oa_ref E k8sio_api_core_v1_EndpointAddress)]]),
         (''ports'', [
           Type [''array''],
           Items [Default (JObject []), Ref (oa_ref E k8sio_api_core_v1_EndpointPort)]])]],
     od_Dependencies = [k8sio_api_core_v1_EndpointAddress, k8sio_api_core_v1_EndpointPort]\<rparr>"

definition schema_k8sio_api_core_v1_Endpoints :: "'r openapi \<Rightarrow> 'r openAPIDefinition" where
  "schema_k8sio_api_core_v1_Endpoints E = \<lparr>
     od_Schema = [
       Type [''object''],
       Properties [
         (''kind'', [Type [''string''], Format '''']),
         (''apiVersion'', [Type [''string''], Format '''']),
         (''metadata'', [Default (JObject []), Ref (oa_ref E pkg_apis_meta_v1_ObjectMeta)]),
         (''subsets'', [
           Type [''array''],
           Items [Default (JObject []), Ref (oa_ref E k8sio_api_core_v1_EndpointSubset)]])]],
     od_Dependencies = [k8sio_api_core_v1_EndpointSubset, pkg_apis_meta_v1_ObjectMeta]\<rparr>"

definition schema_k8sio_api_core_v1_EndpointsList :: "'r openapi \<Rightarrow> 'r openAPIDefinition" where
  "schema_k8sio_api_core_v1_EndpointsList E = \<lparr>
     od_Schema = [
       Type [''object''],
       Properties [
         (''kind'', [Type [''string''], Format '''']),
         (''apiVersion'', [Type [''string''], Format '''']),
         (''metadata'', [Default (JObject []), Ref (oa_ref E pkg_apis_meta_v1_ListMeta)]),
         (''items'', [
           Type [''array''],
           Items [Default (JObject []), Ref (oa_ref E k8sio_api_core_v1_Endpoints)]])],
       Required [''items'']],
     od_Dependencies = [k8sio_api_core_v1_Endpoints, pkg_apis_meta_v1_ListMeta]\<rparr>"

definition schema_k8sio_api_core_v1_EnvFromSource :: "'r openapi \<Rightarrow> 'r openAPIDefinition" where
  "schema_k8sio_api_core_v1_EnvFromSource E = \<lparr>
     od_Schema = [
       Type [''object''],
       Properties [
         (''prefix'', [Type [''string''], Format '''']),
         (''configMapRef'', [Ref (oa_ref E k8sio_api_core_v1_ConfigMapEnvSource)]),
         (''secretRef'', [Ref (oa_ref E k8sio_api_core_v1_SecretEnvSource)])]],
     od_Dependencies = [k8sio_api_core_v1_ConfigMapEnvSource,
       k8sio_api_core_v1_SecretEnvSource]\<rparr>"

definition schema_k8sio_api_core_v1_EnvVar :: "'r openapi \<Rightarrow> 'r openAPIDefinition" where
  "schema_k8sio_api_core_v1_EnvVar E = \<lparr>
     od_Schema = [
       Type [''object''],
       Properties [
         (''name'', [Default (JString ''''), Type [''string''], Format '''']),
         (''value'', [Type [''string''], Format '''']),
         (''valueFrom'', [Ref (oa_ref E k8sio_api_core_v1_EnvVarSource)])],
       Required [''name'']],
     od_Dependencies = [k8sio_api_core_v1_EnvVarSource]\<rparr>"

definition schema_k8sio_api_core_v1_EnvVarSource :: "'r openapi \<Rightarrow> 'r openAPIDefinition" where
  "schema_k8sio_api_core_v1_EnvVarSource E = \<lparr>
     od_Schema = [
       Type [''object''],
       Properties [
         (''fieldRef'', [Ref (oa_ref E k8sio_api_core_v1_ObjectFieldSelector)]),
         (''resourceFieldRef'', [Ref (oa_ref E k8sio_api_core_v1_ResourceFieldSelector)]),
         (''configMapKeyRef'', [Ref (oa_ref E k8sio_api_core_v1_ConfigMapKeySelector)]),
         (''secretKeyRef'', [Ref (oa_ref E k8sio_api_core_v1_SecretKeySelector)])]],
     od_Dependencies = [k8sio_api_core_v1_ConfigMapKeySelector,
       k8sio_api_core_v1_ObjectFieldSelector, k8sio_api_core_v1_ResourceFieldSelector,
       k8sio_api_core_v1_SecretKeySelector]\<rparr>"

definition schema_k8sio_api_core_v1_EphemeralContainer :: "'r openapi \<Rightarrow> 'r openAPIDefinition" where
  "schema_k8sio_api_core_v1_EphemeralContainer E = \<lparr>
     od_Schema = [
       Type [''object''],
       Properties [
         (''name'', [Default (JString ''''), Type [''string''], Format '''']),
         (''image'', [Type [''string''], Format '''']),
         (''command'', [
           Type [''array''], Items [Default (JString ''''), Type [''string''], Format '''']]),
         (''args'', [
           Type [''array''], Items [Default (JString ''''), Type [''string''], Format '''']]),
         (''workingDir'', [Type [''string''], Format '''']),
         (''ports'', [
           VendorExtensible [(''x-kubernetes-list-map-keys'', JList [JString ''containerPort'',
             JString ''protocol'']), (''x-kubernetes-list-type'', JString ''map''),
             (''x-kubernetes-patch-merge-key'', JString ''containerPort''),
             (''x-kubernetes-patch-strategy'', JString ''merge'')],
           Type [''array''],
           Items [Default (JObject []), Ref (oa_ref E k8sio_api_core_v1_ContainerPort)]]),
         (''envFrom'', [
           Type [''array''],
           Items [Default (JObject []), Ref (oa_ref E k8sio_api_core_v1_EnvFromSource)]]),
         (''env'', [
           VendorExtensible [(''x-kubernetes-patch-merge-key'', JString ''name''),
             (''x-kubernetes-patch-strategy'', JString ''merge'')],
           Type [''array''], Items [Default (JObject []), Ref (oa_ref E k8sio_api_core_v1_EnvVar)]]),
         (''resources'', [
           Default (JObject []), Ref (oa_ref E k8sio_api_core_v1_ResourceRequirements)]),
         (''resizePolicy'', [
           VendorExtensible [(''x-kubernetes-list-type'', JString ''atomic'')], Type [''array''],
           Items [Default (JObject []), Ref (oa_ref E k8sio_api_core_v1_ContainerResizePolicy)]]),
         (''restartPolicy'', [Type [''string''], Format '''']),
         (''volumeMounts'', [
           VendorExtensible [(''x-kubernetes-patch-merge-key'', JString ''mountPath''),
             (''x-kubernetes-patch-strategy'', JString ''merge'')],
           Type [''array''],
           Items [Default (JObject []), Ref (oa_ref E k8sio_api_core_v1_VolumeMount)]]),
         (''volumeDevices'', [
           VendorExtensible [(''x-kubernetes-patch-merge-key'', JString ''devicePath''),
             (''x-kubernetes-patch-strategy'', JString ''merge'')],
           Type [''array''],
           Items [Default (JObject []), Ref (oa_ref E k8sio_api_core_v1_VolumeDevice)]]),
         (''livenessProbe'', [Ref (oa_ref E k8sio_api_core_v1_Probe)]),
         (''readinessProbe'', [Ref (oa_ref E k8sio_api_core_v1_Probe)]),
         (''startupProbe'', [Ref (oa_ref E k8sio_api_core_v1_Probe)]),
         (''lifecycle'', [Ref (oa_ref E k8sio_api_core_v1_Lifecycle)]),
         (''terminationMessagePath'', [Type [''string''], Format '''']),
         (''terminationMessagePolicy'', [
           Type [''string''], Format '''',
           Enum [JString ''FallbackToLogsOnError'', JString ''File'']]),
         (''imagePullPolicy'', [
           Type [''string''], Format '''',
           Enum [JString ''Always'', JString ''IfNotPresent'', JString ''Never'']]),
         (''securityContext'', [Ref (oa_ref E k8sio_api_core_v1_SecurityContext)]),
         (''stdin'', [Type [''boolean''], Format '''']),
         (''stdinOnce'', [Type [''boolean''], Format '''']),
         (''tty'', [Type [''boolean''], Format '''']),
         (''targetContainerName'', [Type [''string''], Format ''''])],
       Required [''name'']],
     od_Dependencies = [k8sio_api_core_v1_ContainerPort, k8sio_api_core_v1_ContainerResizePolicy,
       k8sio_api_core_v1_EnvFromSource, k8sio_api_core_v1_EnvVar, k8sio_api_core_v1_Lifecycle,
       k8sio_api_core_v1_Probe, k8sio_api_core_v1_ResourceRequirements,
       k8sio_api_core_v1_SecurityContext, k8sio_api_core_v1_VolumeDevice,
       k8sio_api_core_v1_VolumeMount]\<rparr>"

definition schema_k8sio_api_core_v1_EphemeralContainerCommon :: "'r openapi \<Rightarrow> 'r openAPIDefinition" where
  "schema_k8sio_api_core_v1_EphemeralContainerCommon E = \<lparr>
     od_Schema = [
       Type [''object''],
       Properties [
         (''name'', [Default (JString ''''), Type [''string''], Format '''']),
         (''image'', [Type [''string''], Format '''']),
         (''command'', [
           Type [''array''], Items [Default (JString ''''), Type [''string''], Format '''']]),
         (''args'', [
           Type [''array''], Items [Default (JString ''''), Type [''string''], Format '''']]),
         (''workingDir'', [Type [''string''], Format '''']),
         (''ports'', [
           VendorExtensible [(''x-kubernetes-list-map-keys'', JList [JString ''containerPort'',
             JString ''protocol'']), (''x-kubernetes-list-type'', JString ''map''),
             (''x-kubernetes-patch-merge-key'', JString ''containerPort''),
             (''x-kubernetes-patch-strategy'', JString ''merge'')],
           Type [''array''],
           Items [Default (JObject []), Ref (oa_ref E k8sio_api_core_v1_ContainerPort)]]),
         (''envFrom'', [
           Type [''array''],
           Items [Default (JObject []), Ref (oa_ref E k8sio_api_core_v1_EnvFromSource)]]),
         (''env'', [
           VendorExtensible [(''x-kubernetes-patch-merge-key'', JString ''name''),
             (''x-kubernetes-patch-strategy'', JString ''merge'')],
           Type [''array''], Items [Default (JObject []), Ref (oa_ref E k8sio_api_core_v1_EnvVar)]]),
         (''resources'', [
           Default (JObject []), Ref (oa_ref E k8sio_api_core_v1_ResourceRequirements)]),
         (''resizePolicy'', [
           VendorExtensible [(''x-kubernetes-list-type'', JString ''atomic'')], Type [''array''],
           Items [Default (JObject []), Ref (oa_ref E k8sio_api_core_v1_ContainerResizePolicy)]]),
         (''restartPolicy'', [Type [''string''], Format '''']),
         (''volumeMounts'', [
           VendorExtensible [(''x-kubernetes-patch-merge-key'', JString ''mountPath''),
             (''x-kubernetes-patch-strategy'', JString ''merge'')],
           Type [''array''],
           Items [Default (JObject []), Ref (oa_ref E k8sio_api_core_v1_VolumeMount)]]),
         (''volumeDevices'', [
           VendorExtensible [(''x-kubernetes-patch-merge-key'', JString ''devicePath''),
             (''x-kubernetes-patch-strategy'', JString ''merge'')],
           Type [''array''],
           Items [Default (JObject []), Ref (oa_ref E k8sio_api_core_v1_VolumeDevice)]]),
         (''livenessProbe'', [Ref (oa_ref E k8sio_api_core_v1_Probe)]),
         (''readinessProbe'', [Ref (oa_ref E k8sio_api_core_v1_Probe)]),
         (''startupProbe'', [Ref (oa_ref E k8sio_api_core_v1_Probe)]),
         (''lifecycle'', [Ref (oa_ref E k8sio_api_core_v1_Lifecycle)]),
         (''terminationMessagePath'', [Type [''string''], Format '''']),
         (''terminationMessagePolicy'', [
           Type [''string''], Format '''',
           Enum [JString ''FallbackToLogsOnError'', JString ''File'']]),
         (''imagePullPolicy'', [
           Type [''string''], Format '''',
           Enum [JString ''Always'', JString ''IfNotPresent'', JString ''Never'']]),
         (''securityContext'', [Ref (oa_ref E k8sio_api_core_v1_SecurityContext)]),
         (''stdin'', [Type [''boolean''], Format '''']),
         (''stdinOnce'', [Type [''boolean''], Format '''']),
         (''tty'', [Type [''boolean''], Format ''''])],
       Required [''name'']],
     od_Dependencies = [k8sio_api_core_v1_ContainerPort, k8sio_api_core_v1_ContainerResizePolicy,
       k8sio_api_core_v1_EnvFromSource, k8sio_api_core_v1_EnvVar, k8sio_api_core_v1_Lifecycle,
       k8sio_api_core_v1_Probe, k8sio_api_core_v1_ResourceRequirements,
       k8sio_api_core_v1_SecurityContext, k8sio_api_core_v1_VolumeDevice,
       k8sio_api_core_v1_VolumeMount]\<rparr>"

definition schema_k8sio_api_core_v1_EphemeralVolumeSource :: "'r openapi \<Rightarrow> 'r openAPIDefinition" where
  "schema_k8sio_api_core_v1_EphemeralVolumeSource E = \<lparr>
     od_Schema = [
       Type [''object''],
       Properties [
         (''volumeClaimTemplate'', [Ref (oa_ref E k8sio_api_core_v1_PersistentVolumeClaimTemplate)])]],
     od_Dependencies = [k8sio_api_core_v1_PersistentVolumeClaimTemplate]\<rparr>"

definition schema_k8sio_api_core_v1_Event :: "'r openapi \<Rightarrow> 'r openAPIDefinition" where
  "schema_k8sio_api_core_v1_Event E = \<lparr>
     od_Schema = [
       Type [''object''],
       Properties [
         (''kind'', [Type [''string''], Format '''']),
         (''apiVersion'', [Type [''string''], Format '''']),
         (''metadata'', [Default (JObject []), Ref (oa_ref E pkg_apis_meta_v1_ObjectMeta)]),
         (''involvedObject'', [
           Default (JObject []), Ref (oa_ref E k8sio_api_core_v1_ObjectReference)]),
         (''reason'', [Type [''string''], Format '''']),
         (''message'', [Type [''string''], Format '''']),
         (''source'', [Default (JObject []), Ref (oa_ref E k8sio_api_core_v1_EventSource)]),
         (''firstTimestamp'', [Default (JObject []), Ref (oa_ref E pkg_apis_meta_v1_Time)]),
         (''lastTimestamp'', [Default (JObject []), Ref (oa_ref E pkg_apis_meta_v1_Time)]),
         (''count'', [Type [''integer''], Format ''int32'']),
         (''type'', [Type [''string''], Format '''']),
         (''eventTime'', [Default (JObject []), Ref (oa_ref E pkg_apis_meta_v1_MicroTime)]),
         (''series'', [Ref (oa_ref E k8sio_api_core_v1_EventSeries)]),
         (''action'', [Type [''string''], Format '''']),
         (''related'', [Ref (oa_ref E k8sio_api_core_v1_ObjectReference)]),
         (''reportingComponent'', [Default (JString ''''), Type [''string''], Format '''']),
         (''reportingInstance'', [Default (JString ''''), Type [''string''], Format ''''])],
       Required [''metadata'', ''involvedObject'']],
     od_Dependencies = [k8sio_api_core_v1_EventSeries, k8sio_api_core_v1_EventSource,
       k8sio_api_core_v1_ObjectReference, pkg_apis_meta_v1_MicroTime, pkg_apis_meta_v1_ObjectMeta,
       pkg_apis_meta_v1_Time]\<rparr>"

definition schema_k8sio_api_core_v1_EventList :: "'r openapi \<Rightarrow> 'r openAPIDefinition" where
  "schema_k8sio_api_core_v1_EventList E = \<lparr>
     od_Schema = [
       Type [''object''],
       Properties [
         (''kind'', [Type [''string''], Format '''']),
         (''apiVersion'', [Type [''string''], Format '''']),
         (''metadata'', [Default (JObject []), Ref (oa_ref E pkg_apis_meta_v1_ListMeta)]),
         (''items'', [
           Type [''array''], Items [Default (JObject []), Ref (oa_ref E k8sio_api_core_v1_Event)]])],
       Required [''items'']],
     od_Dependencies = [k8sio_api_core_v1_Event, pkg_apis_meta_v1_ListMeta]\<rparr>"

definition schema_k8sio_api_core_v1_EventSeries :: "'r openapi \<Rightarrow> 'r openAPIDefinition" where
  "schema_k8sio_api_core_v1_EventSeries E = \<lparr>
     od_Schema = [
       Type [''object''],
       Properties [
         (''count'', [Type [''integer''], Format ''int32'']),
         (''lastObservedTime'', [Default (JObject []), Ref (oa_ref E pkg_apis_meta_v1_MicroTime)])]],
     od_Dependencies = [pkg_apis_meta_v1_MicroTime]\<rparr>"

definition schema_k8sio_api_core_v1_EventSource :: "'r openapi \<Rightarrow> 'r openAPIDefinition" where
  "schema_k8sio_api_core_v1_EventSource E = \<lparr>
     od_Schema = [
       Type [''object''],
       Properties [
         (''component'', [Type [''string''], Format '''']),
         (''host'', [Type [''string''], Format ''''])]],
     od_Dependencies = []\<rparr>"

definition schema_k8sio_api_core_v1_ExecAction :: "'r openapi \<Rightarrow> 'r openAPIDefinition" where
  "schema_k8sio_api_core_v1_ExecAction E = \<lparr>
     od_Schema = [
       Type [''object''],
       Properties [
         (''command'', [
           Type [''array''], Items [Default (JString ''''), Type [''string''], Format '''']])]],
     od_Dependencies = []\<rparr>"

definition schema_k8sio_api_core_v1_FCVolumeSource :: "'r openapi \<Rightarrow> 'r openAPIDefinition" where
  "schema_k8sio_api_core_v1_FCVolumeSource E = \<lparr>
     od_Schema = [
       Type [''object''],
       Properties [
         (''targetWWNs'', [
           Type [''array''], Items [Default (JString ''''), Type [''string''], Format '''']]),
         (''lun'', [Type [''integer''], Format ''int32'']),
         (''fsType'', [Type [''string''], Format '''']),
         (''readOnly'', [Type [''boolean''], Format '''']),
         (''wwids'', [
           Type [''array''], Items [Default (JString ''''), Type [''string''], Format '''']])]],
     od_Dependencies = []\<rparr>"

definition schema_k8sio_api_core_v1_FlexPersistentVolumeSource :: "'r openapi \<Rightarrow> 'r openAPIDefinition" where
  "schema_k8sio_api_core_v1_FlexPersistentVolumeSource E = \<lparr>
     od_Schema = [
       Type [''object''],
       Properties [
         (''driver'', [Default (JString ''''), Type [''string''], Format '''']),
         (''fsType'', [Type [''string''], Format '''']),
         (''secretRef'', [Ref (oa_ref E k8sio_api_core_v1_SecretReference)]),
         (''readOnly'', [Type [''boolean''], Format '''']),
         (''options'', [
           Type [''object''],
           AdditionalProperties True [Default (JString ''''), Type [''string''], Format '''']])],
       Required [''driver'']],
     od_Dependencies = [k8sio_api_core_v1_SecretReference]\<rparr>"

definition schema_k8sio_api_core_v1_FlexVolumeSource :: "'r openapi \<Rightarrow> 'r openAPIDefinition" where
  "schema_k8sio_api_core_v1_FlexVolumeSource E = \<lparr>
     od_Schema = [
       Type [''object''],
       Properties [
         (''driver'', [Default (JString ''''), Type [''string''], Format '''']),
         (''fsType'', [Type [''string''], Format '''']),
         (''secretRef'', [Ref (oa_ref E k8sio_api_core_v1_LocalObjectReference)]),
         (''readOnly'', [Type [''boolean''], Format '''']),
         (''options'', [
           Type [''object''],
           AdditionalProperties True [Default (JString ''''), Type [''string''], Format '''']])],
       Required [''driver'']],
     od_Dependencies = [k8sio_api_core_v1_LocalObjectReference]\<rparr>"

definition schema_k8sio_api_core_v1_FlockerVolumeSource :: "'r openapi \<Rightarrow> 'r openAPIDefinition" where
  "schema_k8sio_api_core_v1_FlockerVolumeSource E = \<lparr>
     od_Schema = [
       Type [''object''],
       Properties [
         (''datasetName'', [Type [''string''], Format '''']),
         (''datasetUUID'', [Type [''string''], Format ''''])]],
     od_Dependencies = []\<rparr>"

definition schema_k8sio_api_core_v1_GCEPersistentDiskVolumeSource :: "'r openapi \<Rightarrow> 'r openAPIDefinition" where
  "schema_k8sio_api_core_v1_GCEPersistentDiskVolumeSource E = \<lparr>
     od_Schema = [
       Type [''object''],
       Properties [
         (''pdName'', [Default (JString ''''), Type [''string''], Format '''']),
         (''fsType'', [Type [''string''], Format '''']),
         (''partition'', [Type [''integer''], Format ''int32'']),
         (''readOnly'', [Type [''boolean''], Format ''''])],
       Required [''pdName'']],
     od_Dependencies = []\<rparr>"

definition schema_k8sio_api_core_v1_GRPCAction :: "'r openapi \<Rightarrow> 'r openAPIDefinition" where
  "schema_k8sio_api_core_v1_GRPCAction E = \<lparr>
     od_Schema = [
       Type [''object''],
       Properties [
         (''port'', [Default (JInt 0), Type [''integer''], Format ''int32'']),
         (''service'', [Default (JString ''''), Type [''string''], Format ''''])],
       Required [''port'']],
     od_Dependencies = []\<rparr>"

definition schema_k8sio_api_core_v1_GitRepoVolumeSource :: "'r openapi \<Rightarrow> 'r openAPIDefinition" where
  "schema_k8sio_api_core_v1_GitRepoVolumeSource E = \<lparr>
     od_Schema = [
       Type [''object''],
       Properties [
         (''repository'', [Default (JString ''''), Type [''string''], Format '''']),
         (''revision'', [Type [''string''], Format '''']),
         (''directory'', [Type [''string''], Format ''''])],
       Required [''repository'']],
     od_Dependencies = []\<rparr>"

definition schema_k8sio_api_core_v1_GlusterfsPersistentVolumeSource :: "'r openapi \<Rightarrow> 'r openAPIDefinition" where
  "schema_k8sio_api_core_v1_GlusterfsPersistentVolumeSource E = \<lparr>
     od_Schema = [
       Type [''object''],
       Properties [
         (''endpoints'', [Default (JString ''''), Type [''string''], Format '''']),
         (''path'', [Default (JString ''''), Type [''string''], Format '''']),
         (''readOnly'', [Type [''boolean''], Format '''']),
         (''endpointsNamespace'', [Type [''string''], Format ''''])],
       Required [''endpoints'', ''path'']],
     od_Dependencies = []\<rparr>"

definition schema_k8sio_api_core_v1_GlusterfsVolumeSource :: "'r openapi \<Rightarrow> 'r openAPIDefinition" where
  "schema_k8sio_api_core_v1_GlusterfsVolumeSource E = \<lparr>
     od_Schema = [
       Type [''object''],
       Properties [
         (''endpoints'', [Default (JString ''''), Type [''string''], Format '''']),
         (''path'', [Default (JString ''''), Type [''string''], Format '''']),
         (''readOnly'', [Type [''boolean''], Format ''''])],
       Required [''endpoints'', ''path'']],
     od_Dependencies = []\<rparr>"

definition schema_k8sio_api_core_v1_HTTPGetAction :: "'r openapi \<Rightarrow> 'r openAPIDefinition" where
  "schema_k8sio_api_core_v1_HTTPGetAction E = \<lparr>
     od_Schema = [
       Type [''object''],
       Properties [
         (''path'', [Type [''string''], Format '''']),
         (''port'', [
           Default (JObject []), Ref (oa_ref E k8sio_apimachinery_pkg_util_intstr_IntOrString)]),
         (''host'', [Type [''string''], Format '''']),
         (''scheme'', [Type [''string''], Format '''', Enum [JString ''HTTP'', JString ''HTTPS'']]),
         (''httpHeaders'', [
           Type [''array''],
           Items [Default (JObject []), Ref (oa_ref E k8sio_api_core_v1_HTTPHeader)]])],
       Required [''port'']],
     od_Dependencies = [k8sio_api_core_v1_HTTPHeader,
       k8sio_apimachinery_pkg_util_intstr_IntOrString]\<rparr>"

definition schema_k8sio_api_core_v1_HTTPHeader :: "'r openapi \<Rightarrow> 'r openAPIDefinition" where
  "schema_k8sio_api_core_v1_HTTPHeader E = \<lparr>
     od_Schema = [
       Type [''object''],
       Properties [
         (''name'', [Default (JString ''''), Type [''string''], Format '''']),
         (''value'', [Default (JString ''''), Type [''string''], Format ''''])],
       Required [''name'', ''value'']],
     od_Dependencies = []\<rparr>"

definition schema_k8sio_api_core_v1_HostAlias :: "'r openapi \<Rightarrow> 'r openAPIDefinition" where
  "schema_k8sio_api_core_v1_HostAlias E = \<lparr>
     od_Schema = [
       Type [''object''],
       Properties [
         (''ip'', [Type [''string''], Format '''']),
         (''hostnames'', [
           Type [''array''], Items [Default (JString ''''), Type [''string''], Format '''']])]],
     od_Dependencies = []\<rparr>"

definition schema_k8sio_api_core_v1_HostIP :: "'r openapi \<Rightarrow> 'r openAPIDefinition" where
  "schema_k8sio_api_core_v1_HostIP E = \<lparr>
     od_Schema = [
       Type [''object''],
       Properties [(''ip'', [Type [''string''], Format ''''])]],
     od_Dependencies = []\<rparr>"

definition schema_k8sio_api_core_v1_HostPathVolumeSource :: "'r openapi \<Rightarrow> 'r openAPIDefinition" where
  "schema_k8sio_api_core_v1_HostPathVolumeSource E = \<lparr>
     od_Schema = [
       Type [''object''],
       Properties [
         (''path'', [Default (JString ''''), Type [''string''], Format '''']),
         (''type'', [
           Type [''string''], Format '''',
           Enum [JString '''', JString ''BlockDevice'', JString ''CharDevice'', JString
             ''Directory'', JString ''DirectoryOrCreate'', JString ''File'', JString
             ''FileOrCreate'', JString ''Socket'']])],
       Required [''path'']],
     od_Dependencies = []\<rparr>"

definition schema_k8sio_api_core_v1_ISCSIPersistentVolumeSource :: "'r openapi \<Rightarrow> 'r openAPIDefinition" where
  "schema_k8sio_api_core_v1_ISCSIPersistentVolumeSource E = \<lparr>
     od_Schema = [
       Type [''object''],
       Properties [
         (''targetPortal'', [Default (JString ''''), Type [''string''], Format '''']),
         (''iqn'', [Default (JString ''''), Type [''string''], Format '''']),
         (''lun'', [Default (JInt 0), Type [''integer''], Format ''int32'']),
         (''iscsiInterface'', [Type [''string''], Format '''']),
         (''fsType'', [Type [''string''], Format '''']),
         (''readOnly'', [Type [''boolean''], Format '''']),
         (''portals'', [
           Type [''array''], Items [Default (JString ''''), Type [''string''], Format '''']]),
         (''chapAuthDiscovery'', [Type [''boolean''], Format '''']),
         (''chapAuthSession'', [Type [''boolean''], Format '''']),
         (''secretRef'', [Ref (oa_ref E k8sio_api_core_v1_SecretReference)]),
         (''initiatorName'', [Type [''string''], Format ''''])],
       Required [''targetPortal'', ''iqn'', ''lun'']],
     od_Dependencies = [k8sio_api_core_v1_SecretReference]\<rparr>"

definition schema_k8sio_api_core_v1_ISCSIVolumeSource :: "'r openapi \<Rightarrow> 'r openAPIDefinition" where
  "schema_k8sio_api_core_v1_ISCSIVolumeSource E = \<lparr>
     od_Schema = [
       Type [''object''],
       Properties [
         (''targetPortal'', [Default (JString ''''), Type [''string''], Format '''']),
         (''iqn'', [Default (JString ''''), Type [''string''], Format '''']),
         (''lun'', [Default (JInt 0), Type [''integer''], Format ''int32'']),
         (''iscsiInterface'', [Type [''string''], Format '''']),
         (''fsType'', [Type [''string''], Format '''']),
         (''readOnly'', [Type [''boolean''], Format '''']),
         (''portals'', [
           Type [''array''], Items [Default (JString ''''), Type [''string''], Format '''']]),
         (''chapAuthDiscovery'', [Type [''boolean''], Format '''']),
         (''chapAuthSession'', [Type [''boolean''], Format '''']),
         (''secretRef'', [Ref (oa_ref E k8sio_api_core_v1_LocalObjectReference)]),
         (''initiatorName'', [Type [''string''], Format ''''])],
       Required [''targetPortal'', ''iqn'', ''lun'']],
     od_Dependencies = [k8sio_api_core_v1_LocalObjectReference]\<rparr>"

definition schema_k8sio_api_core_v1_KeyToPath :: "'r openapi \<Rightarrow> 'r openAPIDefinition" where
  "schema_k8sio_api_core_v1_KeyToPath E = \<lparr>
     od_Schema = [
       Type [''object''],
       Properties [
         (''key'', [Default (JString ''''), Type [''string''], Format '''']),
         (''path'', [Default (JString ''''), Type [''string''], Format '''']),
         (''mode'', [Type [''integer''], Format ''int32''])],
       Required [''key'', ''path'']],
     od_Dependencies = []\<rparr>"

definition schema_k8sio_api_core_v1_Lifecycle :: "'r openapi \<Rightarrow> 'r openAPIDefinition" where
  "schema_k8sio_api_core_v1_Lifecycle E = \<lparr>
     od_Schema = [
       Type [''object''],
       Properties [
         (''postStart'', [Ref (oa_ref E k8sio_api_core_v1_LifecycleHandler)]),
         (''preStop'', [Ref (oa_ref E k8sio_api_core_v1_LifecycleHandler)])]],
     od_Dependencies = [k8sio_api_core_v1_LifecycleHandler]\<rparr>"

definition schema_k8sio_api_core_v1_LifecycleHandler :: "'r openapi \<Rightarrow> 'r openAPIDefinition" where
  "schema_k8sio_api_core_v1_LifecycleHandler E = \<lparr>
     od_Schema = [
       Type [''object''],
       Properties [
         (''exec'', [Ref (oa_ref E k8sio_api_core_v1_ExecAction)]),
         (''httpGet'', [Ref (oa_ref E k8sio_api_core_v1_HTTPGetAction)]),
         (''tcpSocket'', [Ref (oa_ref E k8sio_api_core_v1_TCPSocketAction)])]],
     od_Dependencies = [k8sio_api_core_v1_ExecAction, k8sio_api_core_v1_HTTPGetAction,
       k8sio_api_core_v1_TCPSocketAction]\<rparr>"

definition schema_k8sio_api_core_v1_LimitRange :: "'r openapi \<Rightarrow> 'r openAPIDefinition" where
  "schema_k8sio_api_core_v1_LimitRange E = \<lparr>
     od_Schema = [
       Type [''object''],
       Properties [
         (''kind'', [Type [''string''], Format '''']),
         (''apiVersion'', [Type [''string''], Format '''']),
         (''metadata'', [Default (JObject []), Ref (oa_ref E pkg_apis_meta_v1_ObjectMeta)]),
         (''spec'', [Default (JObject []), Ref (oa_ref E k8sio_api_core_v1_LimitRangeSpec)])]],
     od_Dependencies = [k8sio_api_core_v1_LimitRangeSpec, pkg_apis_meta_v1_ObjectMeta]\<rparr>"

definition schema_k8sio_api_core_v1_LimitRangeItem :: "'r openapi \<Rightarrow> 'r openAPIDefinition" where
  "schema_k8sio_api_core_v1_LimitRangeItem E = \<lparr>
     od_Schema = [
       Type [''object''],
       Properties [
         (''type'', [Default (JString ''''), Type [''string''], Format '''']),
         (''max'', [
           Type [''object''],
           AdditionalProperties True [
             Default (JObject []), Ref (oa_ref E apimachinery_pkg_api_resource_Quantity)]]),
         (''min'', [
           Type [''object''],
           AdditionalProperties True [
             Default (JObject []), Ref (oa_ref E apimachinery_pkg_api_resource_Quantity)]]),
         (''default'', [
           Type [''object''],
           AdditionalProperties True [
             Default (JObject []), Ref (oa_ref E apimachinery_pkg_api_resource_Quantity)]]),
         (''defaultRequest'', [
           Type [''object''],
           AdditionalProperties True [
             Default (JObject []), Ref (oa_ref E apimachinery_pkg_api_resource_Quantity)]]),
         (''maxLimitRequestRatio'', [
           Type [''object''],
           AdditionalProperties True [
             Default (JObject []), Ref (oa_ref E apimachinery_pkg_api_resource_Quantity)]])],
       Required [''type'']],
     od_Dependencies = [apimachinery_pkg_api_resource_Quantity]\<rparr>"

definition schema_k8sio_api_core_v1_LimitRangeList :: "'r openapi \<Rightarrow> 'r openAPIDefinition" where
  "schema_k8sio_api_core_v1_LimitRangeList E = \<lparr>
     od_Schema = [
       Type [''object''],
       Properties [
         (''kind'', [Type [''string''], Format '''']),
         (''apiVersion'', [Type [''string''], Format '''']),
         (''metadata'', [Default (JObject []), Ref (oa_ref E pkg_apis_meta_v1_ListMeta)]),
         (''items'', [
           Type [''array''],
           Items [Default (JObject []), Ref (oa_ref E k8sio_api_core_v1_LimitRange)]])],
       Required [''items'']],
     od_Dependencies = [k8sio_api_core_v1_LimitRange, pkg_apis_meta_v1_ListMeta]\<rparr>"

definition schema_k8sio_api_core_v1_LimitRangeSpec :: "'r openapi \<Rightarrow> 'r openAPIDefinition" where
  "schema_k8sio_api_core_v1_LimitRangeSpec E = \<lparr>
     od_Schema = [
       Type [''object''],
       Properties [
         (''limits'', [
           Type [''array''],
           Items [Default (JObject []), Ref (oa_ref E k8sio_api_core_v1_LimitRangeItem)]])],
       Required [''limits'']],
     od_Dependencies = [k8sio_api_core_v1_LimitRangeItem]\<rparr>"

definition schema_k8sio_api_core_v1_List :: "'r openapi \<Rightarrow> 'r openAPIDefinition" where
  "schema_k8sio_api_core_v1_List E = \<lparr>
     od_Schema = [
       Type [''object''],
       Properties [
         (''kind'', [Type [''string''], Format '''']),
         (''apiVersion'', [Type [''string''], Format '''']),
         (''metadata'', [Default (JObject []), Ref (oa_ref E pkg_apis_meta_v1_ListMeta)]),
         (''items'', [
           Type [''array''],
           Items [Default (JObject []), Ref (oa_ref E k8sio_apimachinery_pkg_runtime_RawExtension)]])],
       Required [''items'']],
     od_Dependencies = [pkg_apis_meta_v1_ListMeta,
       k8sio_apimachinery_pkg_runtime_RawExtension]\<rparr>"

definition schema_k8sio_api_core_v1_LoadBalancerIngress :: "'r openapi \<Rightarrow> 'r openAPIDefinition" where
  "schema_k8sio_api_core_v1_LoadBalancerIngress E = \<lparr>
     od_Schema = [
       Type [''object''],
       Properties [
         (''ip'', [Type [''string''], Format '''']),
         (''hostname'', [Type [''string''], Format '''']),
         (''ports'', [
           VendorExtensible [(''x-kubernetes-list-type'', JString ''atomic'')], Type [''array''],
           Items [Default (JObject []), Ref (oa_ref E k8sio_api_core_v1_PortStatus)]])]],
     od_Dependencies = [k8sio_api_core_v1_PortStatus]\<rparr>"

definition schema_k8sio_api_core_v1_LoadBalancerStatus :: "'r openapi \<Rightarrow> 'r openAPIDefinition" where
  "schema_k8sio_api_core_v1_LoadBalancerStatus E = \<lparr>
     od_Schema = [
       Type [''object''],
       Properties [
         (''ingress'', [
           Type [''array''],
           Items [Default (JObject []), Ref (oa_ref E k8sio_api_core_v1_LoadBalancerIngress)]])]],
     od_Dependencies = [k8sio_api_core_v1_LoadBalancerIngress]\<rparr>"

definition schema_k8sio_api_core_v1_LocalObjectReference :: "'r openapi \<Rightarrow> 'r openAPIDefinition" where
  "schema_k8sio_api_core_v1_LocalObjectReference E = \<lparr>
     od_Schema = [
       Type [''object''],
       Properties [(''name'', [Type [''string''], Format ''''])],
       VendorExtensible [(''x-kubernetes-map-type'', JString ''atomic'')]],
     od_Dependencies = []\<rparr>"

definition schema_k8sio_api_core_v1_LocalVolumeSource :: "'r openapi \<Rightarrow> 'r openAPIDefinition" where
  "schema_k8sio_api_core_v1_LocalVolumeSource E = \<lparr>
     od_Schema = [
       Type [''object''],
       Properties [
         (''path'', [Default (JString ''''), Type [''string''], Format '''']),
         (''fsType'', [Type [''string''], Format ''''])],
       Required [''path'']],
     od_Dependencies = []\<rparr>"

section \<open>The checks\<close>

lemmas Core_A_defs =
    schema_k8sio_api_core_v1_AWSElasticBlockStoreVolumeSource_def
    schema_k8sio_api_core_v1_Affinity_def
    schema_k8sio_api_core_v1_AttachedVolume_def
    schema_k8sio_api_core_v1_AvoidPods_def
    schema_k8sio_api_core_v1_AzureDiskVolumeSource_def
    schema_k8sio_api_core_v1_AzureFilePersistentVolumeSource_def
    schema_k8sio_api_core_v1_AzureFileVolumeSource_def
    schema_k8sio_api_core_v1_Binding_def
    schema_k8sio_api_core_v1_CSIPersistentVolumeSource_def
    schema_k8sio_api_core_v1_CSIVolumeSource_def
    schema_k8sio_api_core_v1_Capabilities_def
    schema_k8sio_api_core_v1_CephFSPersistentVolumeSource_def
    schema_k8sio_api_core_v1_CephFSVolumeSource_def
    schema_k8sio_api_core_v1_CinderPersistentVolumeSource_def
    schema_k8sio_api_core_v1_CinderVolumeSource_def
    schema_k8sio_api_core_v1_ClaimSource_def
    schema_k8sio_api_core_v1_ClientIPConfig_def
    schema_k8sio_api_core_v1_ComponentCondition_def
    schema_k8sio_api_core_v1_ComponentStatus_def
    schema_k8sio_api_core_v1_ComponentStatusList_def
    schema_k8sio_api_core_v1_ConfigMap_def
    schema_k8sio_api_core_v1_ConfigMapEnvSource_def
    schema_k8sio_api_core_v1_ConfigMapKeySelector_def
    schema_k8sio_api_core_v1_ConfigMapList_def
    schema_k8sio_api_core_v1_ConfigMapNodeConfigSource_def
    schema_k8sio_api_core_v1_ConfigMapProjection_def
    schema_k8sio_api_core_v1_ConfigMapVolumeSource_def
    schema_k8sio_api_core_v1_Container_def
    schema_k8sio_api_core_v1_ContainerImage_def
    schema_k8sio_api_core_v1_ContainerPort_def
    schema_k8sio_api_core_v1_ContainerResizePolicy_def
    schema_k8sio_api_core_v1_ContainerState_def
    schema_k8sio_api_core_v1_ContainerStateRunning_def
    schema_k8sio_api_core_v1_ContainerStateTerminated_def
    schema_k8sio_api_core_v1_ContainerStateWaiting_def
    schema_k8sio_api_core_v1_ContainerStatus_def
    schema_k8sio_api_core_v1_DaemonEndpoint_def
    schema_k8sio_api_core_v1_DownwardAPIProjection_def
    schema_k8sio_api_core_v1_DownwardAPIVolumeFile_def
    schema_k8sio_api_core_v1_DownwardAPIVolumeSource_def
    schema_k8sio_api_core_v1_EmptyDirVolumeSource_def
    schema_k8sio_api_core_v1_EndpointAddress_def
    schema_k8sio_api_core_v1_EndpointPort_def
    schema_k8sio_api_core_v1_EndpointSubset_def
    schema_k8sio_api_core_v1_Endpoints_def
    schema_k8sio_api_core_v1_EndpointsList_def
    schema_k8sio_api_core_v1_EnvFromSource_def
    schema_k8sio_api_core_v1_EnvVar_def
    schema_k8sio_api_core_v1_EnvVarSource_def
    schema_k8sio_api_core_v1_EphemeralContainer_def
    schema_k8sio_api_core_v1_EphemeralContainerCommon_def
    schema_k8sio_api_core_v1_EphemeralVolumeSource_def
    schema_k8sio_api_core_v1_Event_def
    schema_k8sio_api_core_v1_EventList_def
    schema_k8sio_api_core_v1_EventSeries_def
    schema_k8sio_api_core_v1_EventSource_def
    schema_k8sio_api_core_v1_ExecAction_def
    schema_k8sio_api_core_v1_FCVolumeSource_def
    schema_k8sio_api_core_v1_FlexPersistentVolumeSource_def
    schema_k8sio_api_core_v1_FlexVolumeSource_def
    schema_k8sio_api_core_v1_FlockerVolumeSource_def
    schema_k8sio_api_core_v1_GCEPersistentDiskVolumeSource_def
    schema_k8sio_api_core_v1_GRPCAction_def
    schema_k8sio_api_core_v1_GitRepoVolumeSource_def
    schema_k8sio_api_core_v1_GlusterfsPersistentVolumeSource_def
    schema_k8sio_api_core_v1_GlusterfsVolumeSource_def
    schema_k8sio_api_core_v1_HTTPGetAction_def
    schema_k8sio_api_core_v1_HTTPHeader_def
    schema_k8sio_api_core_v1_HostAlias_def
    schema_k8sio_api_core_v1_HostIP_def
    schema_k8sio_api_core_v1_HostPathVolumeSource_def
    schema_k8sio_api_core_v1_ISCSIPersistentVolumeSource_def
    schema_k8sio_api_core_v1_ISCSIVolumeSource_def
    schema_k8sio_api_core_v1_KeyToPath_def
    schema_k8sio_api_core_v1_Lifecycle_def
    schema_k8sio_api_core_v1_LifecycleHandler_def
    schema_k8sio_api_core_v1_LimitRange_def
    schema_k8sio_api_core_v1_LimitRangeItem_def
    schema_k8sio_api_core_v1_LimitRangeList_def
    schema_k8sio_api_core_v1_LimitRangeSpec_def
    schema_k8sio_api_core_v1_List_def
    schema_k8sio_api_core_v1_LoadBalancerIngress_def
    schema_k8sio_api_core_v1_LoadBalancerStatus_def
    schema_k8sio_api_core_v1_LocalObjectReference_def
    schema_k8sio_api_core_v1_LocalVolumeSource_def

lemma Core_A_dependencies [model_dependencies]:
  "od_Dependencies (schema_k8sio_api_core_v1_AWSElasticBlockStoreVolumeSource E) = []"
  "od_Dependencies (schema_k8sio_api_core_v1_Affinity E) = [k8sio_api_core_v1_NodeAffinity,
     k8sio_api_core_v1_PodAffinity, k8sio_api_core_v1_PodAntiAffinity]"
  "od_Dependencies (schema_k8sio_api_core_v1_AttachedVolume E) = []"
  "od_Dependencies (schema_k8sio_api_core_v1_AvoidPods E) =
     [k8sio_api_core_v1_PreferAvoidPodsEntry]"
  "od_Dependencies (schema_k8sio_api_core_v1_AzureDiskVolumeSource E) = []"
  "od_Dependencies (schema_k8sio_api_core_v1_AzureFilePersistentVolumeSource E) = []"
  "od_Dependencies (schema_k8sio_api_core_v1_AzureFileVolumeSource E) = []"
  "od_Dependencies (schema_k8sio_api_core_v1_Binding E) = [k8sio_api_core_v1_ObjectReference,
     pkg_apis_meta_v1_ObjectMeta]"
  "od_Dependencies (schema_k8sio_api_core_v1_CSIPersistentVolumeSource E) =
     [k8sio_api_core_v1_SecretReference]"
  "od_Dependencies (schema_k8sio_api_core_v1_CSIVolumeSource E) =
     [k8sio_api_core_v1_LocalObjectReference]"
  "od_Dependencies (schema_k8sio_api_core_v1_Capabilities E) = []"
  "od_Dependencies (schema_k8sio_api_core_v1_CephFSPersistentVolumeSource E) =
     [k8sio_api_core_v1_SecretReference]"
  "od_Dependencies (schema_k8sio_api_core_v1_CephFSVolumeSource E) =
     [k8sio_api_core_v1_LocalObjectReference]"
  "od_Dependencies (schema_k8sio_api_core_v1_CinderPersistentVolumeSource E) =
     [k8sio_api_core_v1_SecretReference]"
  "od_Dependencies (schema_k8sio_api_core_v1_CinderVolumeSource E) =
     [k8sio_api_core_v1_LocalObjectReference]"
  "od_Dependencies (schema_k8sio_api_core_v1_ClaimSource E) = []"
  "od_Dependencies (schema_k8sio_api_core_v1_ClientIPConfig E) = []"
  "od_Dependencies (schema_k8sio_api_core_v1_ComponentCondition E) = []"
  "od_Dependencies (schema_k8sio_api_core_v1_ComponentStatus E) =
     [k8sio_api_core_v1_ComponentCondition, pkg_apis_meta_v1_ObjectMeta]"
  "od_Dependencies (schema_k8sio_api_core_v1_ComponentStatusList E) =
     [k8sio_api_core_v1_ComponentStatus, pkg_apis_meta_v1_ListMeta]"
  "od_Dependencies (schema_k8sio_api_core_v1_ConfigMap E) = [pkg_apis_meta_v1_ObjectMeta]"
  "od_Dependencies (schema_k8sio_api_core_v1_ConfigMapEnvSource E) = []"
  "od_Dependencies (schema_k8sio_api_core_v1_ConfigMapKeySelector E) = []"
  "od_Dependencies (schema_k8sio_api_core_v1_ConfigMapList E) = [k8sio_api_core_v1_ConfigMap,
     pkg_apis_meta_v1_ListMeta]"
  "od_Dependencies (schema_k8sio_api_core_v1_ConfigMapNodeConfigSource E) = []"
  "od_Dependencies (schema_k8sio_api_core_v1_ConfigMapProjection E) =
     [k8sio_api_core_v1_KeyToPath]"
  "od_Dependencies (schema_k8sio_api_core_v1_ConfigMapVolumeSource E) =
     [k8sio_api_core_v1_KeyToPath]"
  "od_Dependencies (schema_k8sio_api_core_v1_Container E) = [k8sio_api_core_v1_ContainerPort,
     k8sio_api_core_v1_ContainerResizePolicy, k8sio_api_core_v1_EnvFromSource,
     k8sio_api_core_v1_EnvVar, k8sio_api_core_v1_Lifecycle, k8sio_api_core_v1_Probe,
     k8sio_api_core_v1_ResourceRequirements, k8sio_api_core_v1_SecurityContext,
     k8sio_api_core_v1_VolumeDevice, k8sio_api_core_v1_VolumeMount]"
  "od_Dependencies (schema_k8sio_api_core_v1_ContainerImage E) = []"
  "od_Dependencies (schema_k8sio_api_core_v1_ContainerPort E) = []"
  "od_Dependencies (schema_k8sio_api_core_v1_ContainerResizePolicy E) = []"
  "od_Dependencies (schema_k8sio_api_core_v1_ContainerState E) =
     [k8sio_api_core_v1_ContainerStateRunning, k8sio_api_core_v1_ContainerStateTerminated,
     k8sio_api_core_v1_ContainerStateWaiting]"
  "od_Dependencies (schema_k8sio_api_core_v1_ContainerStateRunning E) = [pkg_apis_meta_v1_Time]"
  "od_Dependencies (schema_k8sio_api_core_v1_ContainerStateTerminated E) =
     [pkg_apis_meta_v1_Time]"
  "od_Dependencies (schema_k8sio_api_core_v1_ContainerStateWaiting E) = []"
  "od_Dependencies (schema_k8sio_api_core_v1_ContainerStatus E) =
     [k8sio_api_core_v1_ContainerState, k8sio_api_core_v1_ResourceRequirements,
     apimachinery_pkg_api_resource_Quantity]"
  "od_Dependencies (schema_k8sio_api_core_v1_DaemonEndpoint E) = []"
  "od_Dependencies (schema_k8sio_api_core_v1_DownwardAPIProjection E) =
     [k8sio_api_core_v1_DownwardAPIVolumeFile]"
  "od_Dependencies (schema_k8sio_api_core_v1_DownwardAPIVolumeFile E) =
     [k8sio_api_core_v1_ObjectFieldSelector, k8sio_api_core_v1_ResourceFieldSelector]"
  "od_Dependencies (schema_k8sio_api_core_v1_DownwardAPIVolumeSource E) =
     [k8sio_api_core_v1_DownwardAPIVolumeFile]"
  "od_Dependencies (schema_k8sio_api_core_v1_EmptyDirVolumeSource E) =
     [apimachinery_pkg_api_resource_Quantity]"
  "od_Dependencies (schema_k8sio_api_core_v1_EndpointAddress E) =
     [k8sio_api_core_v1_ObjectReference]"
  "od_Dependencies (schema_k8sio_api_core_v1_EndpointPort E) = []"
  "od_Dependencies (schema_k8sio_api_core_v1_EndpointSubset E) =
     [k8sio_api_core_v1_EndpointAddress, k8sio_api_core_v1_EndpointPort]"
  "od_Dependencies (schema_k8sio_api_core_v1_Endpoints E) = [k8sio_api_core_v1_EndpointSubset,
     pkg_apis_meta_v1_ObjectMeta]"
  "od_Dependencies (schema_k8sio_api_core_v1_EndpointsList E) = [k8sio_api_core_v1_Endpoints,
     pkg_apis_meta_v1_ListMeta]"
  "od_Dependencies (schema_k8sio_api_core_v1_EnvFromSource E) =
     [k8sio_api_core_v1_ConfigMapEnvSource, k8sio_api_core_v1_SecretEnvSource]"
  "od_Dependencies (schema_k8sio_api_core_v1_EnvVar E) = [k8sio_api_core_v1_EnvVarSource]"
  "od_Dependencies (schema_k8sio_api_core_v1_EnvVarSource E) =
     [k8sio_api_core_v1_ConfigMapKeySelector, k8sio_api_core_v1_ObjectFieldSelector,
     k8sio_api_core_v1_ResourceFieldSelector, k8sio_api_core_v1_SecretKeySelector]"
  "od_Dependencies (schema_k8sio_api_core_v1_EphemeralContainer E) =
     [k8sio_api_core_v1_ContainerPort, k8sio_api_core_v1_ContainerResizePolicy,
     k8sio_api_core_v1_EnvFromSource, k8sio_api_core_v1_EnvVar, k8sio_api_core_v1_Lifecycle,
     k8sio_api_core_v1_Probe, k8sio_api_core_v1_ResourceRequirements,
     k8sio_api_core_v1_SecurityContext, k8sio_api_core_v1_VolumeDevice,
     k8sio_api_core_v1_VolumeMount]"
  "od_Dependencies (schema_k8sio_api_core_v1_EphemeralContainerCommon E) =
     [k8sio_api_core_v1_ContainerPort, k8sio_api_core_v1_ContainerResizePolicy,
     k8sio_api_core_v1_EnvFromSource, k8sio_api_core_v1_EnvVar, k8sio_api_core_v1_Lifecycle,
     k8sio_api_core_v1_Probe, k8sio_api_core_v1_ResourceRequirements,
     k8sio_api_core_v1_SecurityContext, k8sio_api_core_v1_VolumeDevice,
     k8sio_api_core_v1_VolumeMount]"
  "od_Dependencies (schema_k8sio_api_core_v1_EphemeralVolumeSource E) =
     [k8sio_api_core_v1_PersistentVolumeClaimTemplate]"
  "od_Dependencies (schema_k8sio_api_core_v1_Event E) = [k8sio_api_core_v1_EventSeries,
     k8sio_api_core_v1_EventSource, k8sio_api_core_v1_ObjectReference, pkg_apis_meta_v1_MicroTime,
     pkg_apis_meta_v1_ObjectMeta, pkg_apis_meta_v1_Time]"
  "od_Dependencies (schema_k8sio_api_core_v1_EventList E) = [k8sio_api_core_v1_Event,
     pkg_apis_meta_v1_ListMeta]"
  "od_Dependencies (schema_k8sio_api_core_v1_EventSeries E) = [pkg_apis_meta_v1_MicroTime]"
  "od_Dependencies (schema_k8sio_api_core_v1_EventSource E) = []"
  "od_Dependencies (schema_k8sio_api_core_v1_ExecAction E) = []"
  "od_Dependencies (schema_k8sio_api_core_v1_FCVolumeSource E) = []"
  "od_Dependencies (schema_k8sio_api_core_v1_FlexPersistentVolumeSource E) =
     [k8sio_api_core_v1_SecretReference]"
  "od_Dependencies (schema_k8sio_api_core_v1_FlexVolumeSource E) =
     [k8sio_api_core_v1_LocalObjectReference]"
  "od_Dependencies (schema_k8sio_api_core_v1_FlockerVolumeSource E) = []"
  "od_Dependencies (schema_k8sio_api_core_v1_GCEPersistentDiskVolumeSource E) = []"
  "od_Dependencies (schema_k8sio_api_core_v1_GRPCAction E) = []"
  "od_Dependencies (schema_k8sio_api_core_v1_GitRepoVolumeSource E) = []"
  "od_Dependencies (schema_k8sio_api_core_v1_GlusterfsPersistentVolumeSource E) = []"
  "od_Dependencies (schema_k8sio_api_core_v1_GlusterfsVolumeSource E) = []"
  "od_Dependencies (schema_k8sio_api_core_v1_HTTPGetAction E) = [k8sio_api_core_v1_HTTPHeader,
     k8sio_apimachinery_pkg_util_intstr_IntOrString]"
  "od_Dependencies (schema_k8sio_api_core_v1_HTTPHeader E) = []"
  "od_Dependencies (schema_k8sio_api_core_v1_HostAlias E) = []"
  "od_Dependencies (schema_k8sio_api_core_v1_HostIP E) = []"
  "od_Dependencies (schema_k8sio_api_core_v1_HostPathVolumeSource E) = []"
  "od_Dependencies (schema_k8sio_api_core_v1_ISCSIPersistentVolumeSource E) =
     [k8sio_api_core_v1_SecretReference]"
  "od_Dependencies (schema_k8sio_api_core_v1_ISCSIVolumeSource E) =
     [k8sio_api_core_v1_LocalObjectReference]"
  "od_Dependencies (schema_k8sio_api_core_v1_KeyToPath E) = []"
  "od_Dependencies (schema_k8sio_api_core_v1_Lifecycle E) = [k8sio_api_core_v1_LifecycleHandler]"
  "od_Dependencies (schema_k8sio_api_core_v1_LifecycleHandler E) = [k8sio_api_core_v1_ExecAction,
     k8sio_api_core_v1_HTTPGetAction, k8sio_api_core_v1_TCPSocketAction]"
  "od_Dependencies (schema_k8sio_api_core_v1_LimitRange E) = [k8sio_api_core_v1_LimitRangeSpec,
     pkg_apis_meta_v1_ObjectMeta]"
  "od_Dependencies (schema_k8sio_api_core_v1_LimitRangeItem E) =
     [apimachinery_pkg_api_resource_Quantity]"
  "od_Dependencies (schema_k8sio_api_core_v1_LimitRangeList E) = [k8sio_api_core_v1_LimitRange,
     pkg_apis_meta_v1_ListMeta]"
  "od_Dependencies (schema_k8sio_api_core_v1_LimitRangeSpec E) =
     [k8sio_api_core_v1_LimitRangeItem]"
  "od_Dependencies (schema_k8sio_api_core_v1_List E) = [pkg_apis_meta_v1_ListMeta,
     k8sio_apimachinery_pkg_runtime_RawExtension]"
  "od_Dependencies (schema_k8sio_api_core_v1_LoadBalancerIngress E) =
     [k8sio_api_core_v1_PortStatus]"
  "od_Dependencies (schema_k8sio_api_core_v1_LoadBalancerStatus E) =
     [k8sio_api_core_v1_LoadBalancerIngress]"
  "od_Dependencies (schema_k8sio_api_core_v1_LocalObjectReference E) = []"
  "od_Dependencies (schema_k8sio_api_core_v1_LocalVolumeSource E) = []"
  by (simp_all add: Core_A_defs openapiOK_def)

lemma Core_A_exact [model_exact]:
  "dependenciesExact E (schema_k8sio_api_core_v1_AWSElasticBlockStoreVolumeSource E)"
  "dependenciesExact E (schema_k8sio_api_core_v1_Affinity E)"
  "dependenciesExact E (schema_k8sio_api_core_v1_AttachedVolume E)"
  "dependenciesExact E (schema_k8sio_api_core_v1_AvoidPods E)"
  "dependenciesExact E (schema_k8sio_api_core_v1_AzureDiskVolumeSource E)"
  "dependenciesExact E (schema_k8sio_api_core_v1_AzureFilePersistentVolumeSource E)"
  "dependenciesExact E (schema_k8sio_api_core_v1_AzureFileVolumeSource E)"
  "dependenciesExact E (schema_k8sio_api_core_v1_Binding E)"
  "dependenciesExact E (schema_k8sio_api_core_v1_CSIPersistentVolumeSource E)"
  "dependenciesExact E (schema_k8sio_api_core_v1_CSIVolumeSource E)"
  "dependenciesExact E (schema_k8sio_api_core_v1_Capabilities E)"
  "dependenciesExact E (schema_k8sio_api_core_v1_CephFSPersistentVolumeSource E)"
  "dependenciesExact E (schema_k8sio_api_core_v1_CephFSVolumeSource E)"
  "dependenciesExact E (schema_k8sio_api_core_v1_CinderPersistentVolumeSource E)"
  "dependenciesExact E (schema_k8sio_api_core_v1_CinderVolumeSource E)"
  "dependenciesExact E (schema_k8sio_api_core_v1_ClaimSource E)"
  "dependenciesExact E (schema_k8sio_api_core_v1_ClientIPConfig E)"
  "dependenciesExact E (schema_k8sio_api_core_v1_ComponentCondition E)"
  "dependenciesExact E (schema_k8sio_api_core_v1_ComponentStatus E)"
  "dependenciesExact E (schema_k8sio_api_core_v1_ComponentStatusList E)"
  "dependenciesExact E (schema_k8sio_api_core_v1_ConfigMap E)"
  "dependenciesExact E (schema_k8sio_api_core_v1_ConfigMapEnvSource E)"
  "dependenciesExact E (schema_k8sio_api_core_v1_ConfigMapKeySelector E)"
  "dependenciesExact E (schema_k8sio_api_core_v1_ConfigMapList E)"
  "dependenciesExact E (schema_k8sio_api_core_v1_ConfigMapNodeConfigSource E)"
  "dependenciesExact E (schema_k8sio_api_core_v1_ConfigMapProjection E)"
  "dependenciesExact E (schema_k8sio_api_core_v1_ConfigMapVolumeSource E)"
  "dependenciesExact E (schema_k8sio_api_core_v1_Container E)"
  "dependenciesExact E (schema_k8sio_api_core_v1_ContainerImage E)"
  "dependenciesExact E (schema_k8sio_api_core_v1_ContainerPort E)"
  "dependenciesExact E (schema_k8sio_api_core_v1_ContainerResizePolicy E)"
  "dependenciesExact E (schema_k8sio_api_core_v1_ContainerState E)"
  "dependenciesExact E (schema_k8sio_api_core_v1_ContainerStateRunning E)"
  "dependenciesExact E (schema_k8sio_api_core_v1_ContainerStateTerminated E)"
  "dependenciesExact E (schema_k8sio_api_core_v1_ContainerStateWaiting E)"
  "dependenciesExact E (schema_k8sio_api_core_v1_ContainerStatus E)"
  "dependenciesExact E (schema_k8sio_api_core_v1_DaemonEndpoint E)"
  "dependenciesExact E (schema_k8sio_api_core_v1_DownwardAPIProjection E)"
  "dependenciesExact E (schema_k8sio_api_core_v1_DownwardAPIVolumeFile E)"
  "dependenciesExact E (schema_k8sio_api_core_v1_DownwardAPIVolumeSource E)"
  "dependenciesExact E (schema_k8sio_api_core_v1_EmptyDirVolumeSource E)"
  "dependenciesExact E (schema_k8sio_api_core_v1_EndpointAddress E)"
  "dependenciesExact E (schema_k8sio_api_core_v1_EndpointPort E)"
  "dependenciesExact E (schema_k8sio_api_core_v1_EndpointSubset E)"
  "dependenciesExact E (schema_k8sio_api_core_v1_Endpoints E)"
  "dependenciesExact E (schema_k8sio_api_core_v1_EndpointsList E)"
  "dependenciesExact E (schema_k8sio_api_core_v1_EnvFromSource E)"
  "dependenciesExact E (schema_k8sio_api_core_v1_EnvVar E)"
  "dependenciesExact E (schema_k8sio_api_core_v1_EnvVarSource E)"
  "dependenciesExact E (schema_k8sio_api_core_v1_EphemeralContainer E)"
  "dependenciesExact E (schema_k8sio_api_core_v1_EphemeralContainerCommon E)"
  "dependenciesExact E (schema_k8sio_api_core_v1_EphemeralVolumeSource E)"
  "dependenciesExact E (schema_k8sio_api_core_v1_Event E)"
  "dependenciesExact E (schema_k8sio_api_core_v1_EventList E)"
  "dependenciesExact E (schema_k8sio_api_core_v1_EventSeries E)"
  "dependenciesExact E (schema_k8sio_api_core_v1_EventSource E)"
  "dependenciesExact E (schema_k8sio_api_core_v1_ExecAction E)"
  "dependenciesExact E (schema_k8sio_api_core_v1_FCVolumeSource E)"
  "dependenciesExact E (schema_k8sio_api_core_v1_FlexPersistentVolumeSource E)"
  "dependenciesExact E (schema_k8sio_api_core_v1_FlexVolumeSource E)"
  "dependenciesExact E (schema_k8sio_api_core_v1_FlockerVolumeSource E)"
  "dependenciesExact E (schema_k8sio_api_core_v1_GCEPersistentDiskVolumeSource E)"
  "dependenciesExact E (schema_k8sio_api_core_v1_GRPCAction E)"
  "dependenciesExact E (schema_k8sio_api_core_v1_GitRepoVolumeSource E)"
  "dependenciesExact E (schema_k8sio_api_core_v1_GlusterfsPersistentVolumeSource E)"
  "dependenciesExact E (schema_k8sio_api_core_v1_GlusterfsVolumeSource E)"
  "dependenciesExact E (schema_k8sio_api_core_v1_HTTPGetAction E)"
  "dependenciesExact E (schema_k8sio_api_core_v1_HTTPHeader E)"
  "dependenciesExact E (schema_k8sio_api_core_v1_HostAlias E)"
  "dependenciesExact E (schema_k8sio_api_core_v1_HostIP E)"
  "dependenciesExact E (schema_k8sio_api_core_v1_HostPathVolumeSource E)"
  "dependenciesExact E (schema_k8sio_api_core_v1_ISCSIPersistentVolumeSource E)"
  "dependenciesExact E (schema_k8sio_api_core_v1_ISCSIVolumeSource E)"
  "dependenciesExact E (schema_k8sio_api_core_v1_KeyToPath E)"
  "dependenciesExact E (schema_k8sio_api_core_v1_Lifecycle E)"
  "dependenciesExact E (schema_k8sio_api_core_v1_LifecycleHandler E)"
  "dependenciesExact E (schema_k8sio_api_core_v1_LimitRange E)"
  "dependenciesExact E (schema_k8sio_api_core_v1_LimitRangeItem E)"
  "dependenciesExact E (schema_k8sio_api_core_v1_LimitRangeList E)"
  "dependenciesExact E (schema_k8sio_api_core_v1_LimitRangeSpec E)"
  "dependenciesExact E (schema_k8sio_api_core_v1_List E)"
  "dependenciesExact E (schema_k8sio_api_core_v1_LoadBalancerIngress E)"
  "dependenciesExact E (schema_k8sio_api_core_v1_LoadBalancerStatus E)"
  "dependenciesExact E (schema_k8sio_api_core_v1_LocalObjectReference E)"
  "dependenciesExact E (schema_k8sio_api_core_v1_LocalVolumeSource E)"
  by (simp_all add: Core_A_defs schema_eval)

lemma Core_A_wf [model_wf]:
  "wfDefinition (schema_k8sio_api_core_v1_AWSElasticBlockStoreVolumeSource E)"
  "wfDefinition (schema_k8sio_api_core_v1_Affinity E)"
  "wfDefinition (schema_k8sio_api_core_v1_AttachedVolume E)"
  "wfDefinition (schema_k8sio_api_core_v1_AvoidPods E)"
  "wfDefinition (schema_k8sio_api_core_v1_AzureDiskVolumeSource E)"
  "wfDefinition (schema_k8sio_api_core_v1_AzureFilePersistentVolumeSource E)"
  "wfDefinition (schema_k8sio_api_core_v1_AzureFileVolumeSource E)"
  "wfDefinition (schema_k8sio_api_core_v1_Binding E)"
  "wfDefinition (schema_k8sio_api_core_v1_CSIPersistentVolumeSource E)"
  "wfDefinition (schema_k8sio_api_core_v1_CSIVolumeSource E)"
  "wfDefinition (schema_k8sio_api_core_v1_Capabilities E)"
  "wfDefinition (schema_k8sio_api_core_v1_CephFSPersistentVolumeSource E)"
  "wfDefinition (schema_k8sio_api_core_v1_CephFSVolumeSource E)"
  "wfDefinition (schema_k8sio_api_core_v1_CinderPersistentVolumeSource E)"
  "wfDefinition (schema_k8sio_api_core_v1_CinderVolumeSource E)"
  "wfDefinition (schema_k8sio_api_core_v1_ClaimSource E)"
  "wfDefinition (schema_k8sio_api_core_v1_ClientIPConfig E)"
  "wfDefinition (schema_k8sio_api_core_v1_ComponentCondition E)"
  "wfDefinition (schema_k8sio_api_core_v1_ComponentStatus E)"
  "wfDefinition (schema_k8sio_api_core_v1_ComponentStatusList E)"
  "wfDefinition (schema_k8sio_api_core_v1_ConfigMap E)"
  "wfDefinition (schema_k8sio_api_core_v1_ConfigMapEnvSource E)"
  "wfDefinition (schema_k8sio_api_core_v1_ConfigMapKeySelector E)"
  "wfDefinition (schema_k8sio_api_core_v1_ConfigMapList E)"
  "wfDefinition (schema_k8sio_api_core_v1_ConfigMapNodeConfigSource E)"
  "wfDefinition (schema_k8sio_api_core_v1_ConfigMapProjection E)"
  "wfDefinition (schema_k8sio_api_core_v1_ConfigMapVolumeSource E)"
  "wfDefinition (schema_k8sio_api_core_v1_Container E)"
  "wfDefinition (schema_k8sio_api_core_v1_ContainerImage E)"
  "wfDefinition (schema_k8sio_api_core_v1_ContainerPort E)"
  "wfDefinition (schema_k8sio_api_core_v1_ContainerResizePolicy E)"
  "wfDefinition (schema_k8sio_api_core_v1_ContainerState E)"
  "wfDefinition (schema_k8sio_api_core_v1_ContainerStateRunning E)"
  "wfDefinition (schema_k8sio_api_core_v1_ContainerStateTerminated E)"
  "wfDefinition (schema_k8sio_api_core_v1_ContainerStateWaiting E)"
  "wfDefinition (schema_k8sio_api_core_v1_ContainerStatus E)"
  "wfDefinition (schema_k8sio_api_core_v1_DaemonEndpoint E)"
  "wfDefinition (schema_k8sio_api_core_v1_DownwardAPIProjection E)"
  "wfDefinition (schema_k8sio_api_core_v1_DownwardAPIVolumeFile E)"
  "wfDefinition (schema_k8sio_api_core_v1_DownwardAPIVolumeSource E)"
  "wfDefinition (schema_k8sio_api_core_v1_EmptyDirVolumeSource E)"
  "wfDefinition (schema_k8sio_api_core_v1_EndpointAddress E)"
  "wfDefinition (schema_k8sio_api_core_v1_EndpointPort E)"
  "wfDefinition (schema_k8sio_api_core_v1_EndpointSubset E)"
  "wfDefinition (schema_k8sio_api_core_v1_Endpoints E)"
  "wfDefinition (schema_k8sio_api_core_v1_EndpointsList E)"
  "wfDefinition (schema_k8sio_api_core_v1_EnvFromSource E)"
  "wfDefinition (schema_k8sio_api_core_v1_EnvVar E)"
  "wfDefinition (schema_k8sio_api_core_v1_EnvVarSource E)"
  "wfDefinition (schema_k8sio_api_core_v1_EphemeralContainer E)"
  "wfDefinition (schema_k8sio_api_core_v1_EphemeralContainerCommon E)"
  "wfDefinition (schema_k8sio_api_core_v1_EphemeralVolumeSource E)"
  "wfDefinition (schema_k8sio_api_core_v1_Event E)"
  "wfDefinition (schema_k8sio_api_core_v1_EventList E)"
  "wfDefinition (schema_k8sio_api_core_v1_EventSeries E)"
  "wfDefinition (schema_k8sio_api_core_v1_EventSource E)"
  "wfDefinition (schema_k8sio_api_core_v1_ExecAction E)"
  "wfDefinition (schema_k8sio_api_core_v1_FCVolumeSource E)"
  "wfDefinition (schema_k8sio_api_core_v1_FlexPersistentVolumeSource E)"
  "wfDefinition (schema_k8sio_api_core_v1_FlexVolumeSource E)"
  "wfDefinition (schema_k8sio_api_core_v1_FlockerVolumeSource E)"
  "wfDefinition (schema_k8sio_api_core_v1_GCEPersistentDiskVolumeSource E)"
  "wfDefinition (schema_k8sio_api_core_v1_GRPCAction E)"
  "wfDefinition (schema_k8sio_api_core_v1_GitRepoVolumeSource E)"
  "wfDefinition (schema_k8sio_api_core_v1_GlusterfsPersistentVolumeSource E)"
  "wfDefinition (schema_k8sio_api_core_v1_GlusterfsVolumeSource E)"
  "wfDefinition (schema_k8sio_api_core_v1_HTTPGetAction E)"
  "wfDefinition (schema_k8sio_api_core_v1_HTTPHeader E)"
  "wfDefinition (schema_k8sio_api_core_v1_HostAlias E)"
  "wfDefinition (schema_k8sio_api_core_v1_HostIP E)"
  "wfDefinition (schema_k8sio_api_core_v1_HostPathVolumeSource E)"
  "wfDefinition (schema_k8sio_api_core_v1_ISCSIPersistentVolumeSource E)"
  "wfDefinition (schema_k8sio_api_core_v1_ISCSIVolumeSource E)"
  "wfDefinition (schema_k8sio_api_core_v1_KeyToPath E)"
  "wfDefinition (schema_k8sio_api_core_v1_Lifecycle E)"
  "wfDefinition (schema_k8sio_api_core_v1_LifecycleHandler E)"
  "wfDefinition (schema_k8sio_api_core_v1_LimitRange E)"
  "wfDefinition (schema_k8sio_api_core_v1_LimitRangeItem E)"
  "wfDefinition (schema_k8sio_api_core_v1_LimitRangeList E)"
  "wfDefinition (schema_k8sio_api_core_v1_LimitRangeSpec E)"
  "wfDefinition (schema_k8sio_api_core_v1_List E)"
  "wfDefinition (schema_k8sio_api_core_v1_LoadBalancerIngress E)"
  "wfDefinition (schema_k8sio_api_core_v1_LoadBalancerStatus E)"
  "wfDefinition (schema_k8sio_api_core_v1_LocalObjectReference E)"
  "wfDefinition (schema_k8sio_api_core_v1_LocalVolumeSource E)"
  by (simp_all add: Core_A_defs schema_eval)

end
