(* ===== verification/OpenAPI_Core_B.thy ===== *)
theory OpenAPI_Core_B
  imports OpenAPI_Names
begin

text \<open>
  The models of package \<open>k8s.io/api/core/v1\<close> from \<open>NFSVolumeSource\<close> on.
\<close>

definition schema_k8sio_api_core_v1_NFSVolumeSource :: "'r openapi \<Rightarrow> 'r openAPIDefinition" where
  "schema_k8sio_api_core_v1_NFSVolumeSource E = \<lparr>
     od_Schema = [
       Type [''object''],
       Properties [
         (''server'', [Default (JString ''''), Type [''string''], Format '''']),
         (''path'', [Default (JString ''''), Type [''string''], Format '''']),
         (''readOnly'', [Type [''boolean''], Format ''''])],
       Required [''server'', ''path'']],
     od_Dependencies = []\<rparr>"

definition schema_k8sio_api_core_v1_Namespace :: "'r openapi \<Rightarrow> 'r openAPIDefinition" where
  "schema_k8sio_api_core_v1_Namespace E = \<lparr>
     od_Schema = [
       Type [''object''],
       Properties [
         (''kind'', [Type [''string''], Format '''']),
         (''apiVersion'', [Type [''string''], Format '''']),
         (''metadata'', [Default (JObject []), Ref (oa_ref E pkg_apis_meta_v1_ObjectMeta)]),
         (''spec'', [Default (JObject []), Ref (oa_ref E k8sio_api_core_v1_NamespaceSpec)]),
         (''status'', [Default (JObject []), Ref (oa_ref E k8sio_api_core_v1_NamespaceStatus)])]],
     od_Dependencies = [k8sio_api_core_v1_NamespaceSpec, k8sio_api_core_v1_NamespaceStatus,
       pkg_apis_meta_v1_ObjectMeta]\<rparr>"

definition schema_k8sio_api_core_v1_NamespaceCondition :: "'r openapi \<Rightarrow> 'r openAPIDefinition" where
  "schema_k8sio_api_core_v1_NamespaceCondition E = \<lparr>
     od_Schema = [
       Type [''object''],
       Properties [
         (''type'', [Default (JString ''''), Type [''string''], Format '''']),
         (''status'', [Default (JString ''''), Type [''string''], Format '''']),
         (''lastTransitionTime'', [Default (JObject []), Ref (oa_ref E pkg_apis_meta_v1_Time)]),
         (''reason'', [Type [''string''], Format '''']),
         (''message'', [Type [''string''], Format ''''])],
       Required [''type'', ''status'']],
     od_Dependencies = [pkg_apis_meta_v1_Time]\<rparr>"

definition schema_k8sio_api_core_v1_NamespaceList :: "'r openapi \<Rightarrow> 'r openAPIDefinition" where
  "schema_k8sio_api_core_v1_NamespaceList E = \<lparr>
     od_Schema = [
       Type [''object''],
       Properties [
         (''kind'', [Type [''string''], Format '''']),
         (''apiVersion'', [Type [''string''], Format '''']),
         (''metadata'', [Default (JObject []), Ref (oa_ref E pkg_apis_meta_v1_ListMeta)]),
         (''items'', [
           Type [''array''],
           Items [Default (JObject []), Ref (oa_ref E k8sio_api_core_v1_Namespace)]])],
       Required [''items'']],
     od_Dependencies = [k8sio_api_core_v1_Namespace, pkg_apis_meta_v1_ListMeta]\<rparr>"

definition schema_k8sio_api_core_v1_NamespaceSpec :: "'r openapi \<Rightarrow> 'r openAPIDefinition" where
  "schema_k8sio_api_core_v1_NamespaceSpec E = \<lparr>
     od_Schema = [
       Type [''object''],
       Properties [
         (''finalizers'', [
           Type [''array''], Items [Default (JString ''''), Type [''string''], Format '''']])]],
     od_Dependencies = []\<rparr>"

definition schema_k8sio_api_core_v1_NamespaceStatus :: "'r openapi \<Rightarrow> 'r openAPIDefinition" where
  "schema_k8sio_api_core_v1_NamespaceStatus E = \<lparr>
     od_Schema = [
       Type [''object''],
       Properties [
         (''phase'', [
           Type [''string''], Format '''', Enum [JString ''Active'', JString ''Terminating'']]),
         (''conditions'', [
           VendorExtensible [(''x-kubernetes-patch-merge-key'', JString ''type''),
             (''x-kubernetes-patch-strategy'', JString ''merge'')],
           Type [''array''],
           Items [Default (JObject []), Ref (oa_ref E k8sio_api_core_v1_NamespaceCondition)]])]],
     od_Dependencies = [k8sio_api_core_v1_NamespaceCondition]\<rparr>"

definition schema_k8sio_api_core_v1_Node :: "'r openapi \<Rightarrow> 'r openAPIDefinition" where
  "schema_k8sio_api_core_v1_Node E = \<lparr>
     od_Schema = [
       Type [''object''],
       Properties [
         (''kind'', [Type [''string''], Format '''']),
         (''apiVersion'', [Type [''string''], Format '''']),
         (''metadata'', [Default (JObject []), Ref (oa_ref E pkg_apis_meta_v1_ObjectMeta)]),
         (''spec'', [Default (JObject []), Ref (oa_ref E k8sio_api_core_v1_NodeSpec)]),
         (''status'', [Default (JObject []), Ref (oa_ref E k8sio_api_core_v1_NodeStatus)])]],
     od_Dependencies = [k8sio_api_core_v1_NodeSpec, k8sio_api_core_v1_NodeStatus,
       pkg_apis_meta_v1_ObjectMeta]\<rparr>"

definition schema_k8sio_api_core_v1_NodeAddress :: "'r openapi \<Rightarrow> 'r openAPIDefinition" where
  "schema_k8sio_api_core_v1_NodeAddress E = \<lparr>
     od_Schema = [
       Type [''object''],
       Properties [
         (''type'', [Default (JString ''''), Type [''string''], Format '''']),
         (''address'', [Default (JString ''''), Type [''string''], Format ''''])],
       Required [''type'', ''address'']],
     od_Dependencies = []\<rparr>"

definition schema_k8sio_api_core_v1_NodeAffinity :: "'r openapi \<Rightarrow> 'r openAPIDefinition" where
  "schema_k8sio_api_core_v1_NodeAffinity E = \<lparr>
     od_Schema = [
       Type [''object''],
       Properties [
         (''requiredDuringSchedulingIgnoredDuringExecution'', [
           Ref (oa_ref E k8sio_api_core_v1_NodeSelector)]),
         (''preferredDuringSchedulingIgnoredDuringExecution'', [
           Type [''array''],
           Items [Default (JObject []), Ref (oa_ref E k8sio_api_core_v1_PreferredSchedulingTerm)]])]],
     od_Dependencies = [k8sio_api_core_v1_NodeSelector,
       k8sio_api_core_v1_PreferredSchedulingTerm]\<rparr>"

definition schema_k8sio_api_core_v1_NodeCondition :: "'r openapi \<Rightarrow> 'r openAPIDefinition" where
  "schema_k8sio_api_core_v1_NodeCondition E = \<lparr>
     od_Schema = [
       Type [''object''],
       Properties [
         (''type'', [Default (JString ''''), Type [''string''], Format '''']),
         (''status'', [Default (JString ''''), Type [''string''], Format '''']),
         (''lastHeartbeatTime'', [Default (JObject []), Ref (oa_ref E pkg_apis_meta_v1_Time)]),
         (''lastTransitionTime'', [Default (JObject []), Ref (oa_ref E pkg_apis_meta_v1_Time)]),
         (''reason'', [Type [''string''], Format '''']),
         (''message'', [Type [''string''], Format ''''])],
       Required [''type'', ''status'']],
     od_Dependencies = [pkg_apis_meta_v1_Time]\<rparr>"

definition schema_k8sio_api_core_v1_NodeConfigSource :: "'r openapi \<Rightarrow> 'r openAPIDefinition" where
  "schema_k8sio_api_core_v1_NodeConfigSource E = \<lparr>
     od_Schema = [
       Type [''object''],
       Properties [(''configMap'', [Ref (oa_ref E k8sio_api_core_v1_ConfigMapNodeConfigSource)])]],
     od_Dependencies = [k8sio_api_core_v1_ConfigMapNodeConfigSource]\<rparr>"

definition schema_k8sio_api_core_v1_NodeConfigStatus :: "'r openapi \<Rightarrow> 'r openAPIDefinition" where
  "schema_k8sio_api_core_v1_NodeConfigStatus E = \<lparr>
     od_Schema = [
       Type [''object''],
       Properties [
         (''assigned'', [Ref (oa_ref E k8sio_api_core_v1_NodeConfigSource)]),
         (''active'', [Ref (oa_ref E k8sio_api_core_v1_NodeConfigSource)]),
         (''lastKnownGood'', [Ref (oa_ref E k8sio_api_core_v1_NodeConfigSource)]),
         (''error'', [Type [''string''], Format ''''])]],
     od_Dependencies = [k8sio_api_core_v1_NodeConfigSource]\<rparr>"

definition schema_k8sio_api_core_v1_NodeDaemonEndpoints :: "'r openapi \<Rightarrow> 'r openAPIDefinition" where
  "schema_k8sio_api_core_v1_NodeDaemonEndpoints E = \<lparr>
     od_Schema = [
       Type [''object''],
       Properties [
         (''kubeletEndpoint'', [
           Default (JObject []), Ref (oa_ref E k8sio_api_core_v1_DaemonEndpoint)])]],
     od_Dependencies = [k8sio_api_core_v1_DaemonEndpoint]\<rparr>"

definition schema_k8sio_api_core_v1_NodeList :: "'r openapi \<Rightarrow> 'r openAPIDefinition" where
  "schema_k8sio_api_core_v1_NodeList E = \<lparr>
     od_Schema = [
       Type [''object''],
       Properties [
         (''kind'', [Type [''string''], Format '''']),
         (''apiVersion'', [Type [''string''], Format '''']),
         (''metadata'', [Default (JObject []), Ref (oa_ref E pkg_apis_meta_v1_ListMeta)]),
         (''items'', [
           Type [''array''], Items [Default (JObject []), Ref (oa_ref E k8sio_api_core_v1_Node)]])],
       Required [''items'']],
     od_Dependencies = [k8sio_api_core_v1_Node, pkg_apis_meta_v1_ListMeta]\<rparr>"

definition schema_k8sio_api_core_v1_NodeProxyOptions :: "'r openapi \<Rightarrow> 'r openAPIDefinition" where
  "schema_k8sio_api_core_v1_NodeProxyOptions E = \<lparr>
     od_Schema = [
       Type [''object''],
       Properties [
         (''kind'', [Type [''string''], Format '''']),
         (''apiVersion'', [Type [''string''], Format '''']),
         (''path'', [Type [''string''], Format ''''])]],
     od_Dependencies = []\<rparr>"

definition schema_k8sio_api_core_v1_NodeResources :: "'r openapi \<Rightarrow> 'r openAPIDefinition" where
  "schema_k8sio_api_core_v1_NodeResources E = \<lparr>
     od_Schema = [
       Type [''object''],
       Properties [
         (''Capacity'', [
           Type [''object''],
           AdditionalProperties True [
             Default (JObject []), Ref (oa_ref E apimachinery_pkg_api_resource_Quantity)]])],
       Required [''Capacity'']],
     od_Dependencies = [apimachinery_pkg_api_resource_Quantity]\<rparr>"

definition schema_k8sio_api_core_v1_NodeSelector :: "'r openapi \<Rightarrow> 'r openAPIDefinition" where
  "schema_k8sio_api_core_v1_NodeSelector E = \<lparr>
     od_Schema = [
       Type [''object''],
       Properties [
         (''nodeSelectorTerms'', [
           Type [''array''],
           Items [Default (JObject []), Ref (oa_ref E k8sio_api_core_v1_NodeSelectorTerm)]])],
       Required [''nodeSelectorTerms''],
       VendorExtensible [(''x-kubernetes-map-type'', JString ''atomic'')]],
     od_Dependencies = [k8sio_api_core_v1_NodeSelectorTerm]\<rparr>"

definition schema_k8sio_api_core_v1_NodeSelectorRequirement :: "'r openapi \<Rightarrow> 'r openAPIDefinition" where
  "schema_k8sio_api_core_v1_NodeSelectorRequirement E = \<lparr>
     od_Schema = [
       Type [''object''],
       Properties [
         (''key'', [Default (JString ''''), Type [''string''], Format '''']),
         (''operator'', [
           Default (JString ''''), Type [''string''], Format '''',
           Enum [JString ''DoesNotExist'', JString ''Exists'', JString ''Gt'', JString ''In'',
             JString ''Lt'', JString ''NotIn'']]),
         (''values'', [
           Type [''array''], Items [Default (JString ''''), Type [''string''], Format '''']])],
       Required [''key'', ''operator'']],
     od_Dependencies = []\<rparr>"

definition schema_k8sio_api_core_v1_NodeSelectorTerm :: "'r openapi \<Rightarrow> 'r openAPIDefinition" where
  "schema_k8sio_api_core_v1_NodeSelectorTerm E = \<lparr>
     od_Schema = [
       Type [''object''],
       Properties [
         (''matchExpressions'', [
           Type [''array''],
           Items [Default (JObject []), Ref (oa_ref E k8sio_api_core_v1_NodeSelectorRequirement)]]),
         (''matchFields'', [
           Type [''array''],
           Items [Default (JObject []), Ref (oa_ref E k8sio_api_core_v1_NodeSelectorRequirement)]])],
       VendorExtensible [(''x-kubernetes-map-type'', JString ''atomic'')]],
     od_Dependencies = [k8sio_api_core_v1_NodeSelectorRequirement]\<rparr>"

definition schema_k8sio_api_core_v1_NodeSpec :: "'r openapi \<Rightarrow> 'r openAPIDefinition" where
  "schema_k8sio_api_core_v1_NodeSpec E = \<lparr>
     od_Schema = [
       Type [''object''],
       Properties [
         (''podCIDR'', [Type [''string''], Format '''']),
         (''podCIDRs'', [
           VendorExtensible [(''x-kubernetes-patch-strategy'', JString ''merge'')],
           Type [''array''], Items [Default (JString ''''), Type [''string''], Format '''']]),
         (''providerID'', [Type [''string''], Format '''']),
         (''unschedulable'', [Type [''boolean''], Format '''']),
         (''taints'', [
           Type [''array''], Items [Default (JObject []), Ref (oa_ref E k8sio_api_core_v1_Taint)]]),
         (''configSource'', [Ref (oa_ref E k8sio_api_core_v1_NodeConfigSource)]),
         (''externalID'', [Type [''string''], Format ''''])]],
     od_Dependencies = [k8sio_api_core_v1_NodeConfigSource, k8sio_api_core_v1_Taint]\<rparr>"

definition schema_k8sio_api_core_v1_NodeStatus :: "'r openapi \<Rightarrow> 'r openAPIDefinition" where
  "schema_k8sio_api_core_v1_NodeStatus E = \<lparr>
     od_Schema = [
       Type [''object''],
       Properties [
         (''capacity'', [
           Type [''object''],
           AdditionalProperties True [
             Default (JObject []), Ref (oa_ref E apimachinery_pkg_api_resource_Quantity)]]),
         (''allocatable'', [
           Type [''object''],
           AdditionalProperties True [
             Default (JObject []), Ref (oa_ref E apimachinery_pkg_api_resource_Quantity)]]),
         (''phase'', [
           Type [''string''], Format '''',
           Enum [JString ''Pending'', JString ''Running'', JString ''Terminated'']]),
         (''conditions'', [
           VendorExtensible [(''x-kubernetes-patch-merge-key'', JString ''type''),
             (''x-kubernetes-patch-strategy'', JString ''merge'')],
           Type [''array''],
           Items [Default (JObject []), Ref (oa_ref E k8sio_api_core_v1_NodeCondition)]]),
         (''addresses'', [
           VendorExtensible [(''x-kubernetes-patch-merge-key'', JString ''type''),
             (''x-kubernetes-patch-strategy'', JString ''merge'')],
           Type [''array''],
           Items [Default (JObject []), Ref (oa_ref E k8sio_api_core_v1_NodeAddress)]]),
         (''daemonEndpoints'', [
           Default (JObject []), Ref (oa_ref E k8sio_api_core_v1_NodeDaemonEndpoints)]),
         (''nodeInfo'', [Default (JObject []), Ref (oa_ref E k8sio_api_core_v1_NodeSystemInfo)]),
         (''images'', [
           Type [''array''],
           Items [Default (JObject []), Ref (oa_ref E k8sio_api_core_v1_ContainerImage)]]),
         (''volumesInUse'', [
           Type [''array''], Items [Default (JString ''''), Type [''string''], Format '''']]),
         (''volumesAttached'', [
           Type [''array''],
           Items [Default (JObject []), Ref (oa_ref E k8sio_api_core_v1_AttachedVolume)]]),
         (''config'', [Ref (oa_ref E k8sio_api_core_v1_NodeConfigStatus)])]],
     od_Dependencies = [k8sio_api_core_v1_AttachedVolume, k8sio_api_core_v1_ContainerImage,
       k8sio_api_core_v1_NodeAddress, k8sio_api_core_v1_NodeCondition,
       k8sio_api_core_v1_NodeConfigStatus, k8sio_api_core_v1_NodeDaemonEndpoints,
       k8sio_api_core_v1_NodeSystemInfo, apimachinery_pkg_api_resource_Quantity]\<rparr>"

definition schema_k8sio_api_core_v1_NodeSystemInfo :: "'r openapi \<Rightarrow> 'r openAPIDefinition" where
  "schema_k8sio_api_core_v1_NodeSystemInfo E = \<lparr>
     od_Schema = [
       Type [''object''],
       Properties [
         (''machineID'', [Default (JString ''''), Type [''string''], Format '''']),
         (''systemUUID'', [Default (JString ''''), Type [''string''], Format '''']),
         (''bootID'', [Default (JString ''''), Type [''string''], Format '''']),
         (''kernelVersion'', [Default (JString ''''), Type [''string''], Format '''']),
         (''osImage'', [Default (JString ''''), Type [''string''], Format '''']),
         (''containerRuntimeVersion'', [Default (JString ''''), Type [''string''], Format '''']),
         (''kubeletVersion'', [Default (JString ''''), Type [''string''], Format '''']),
         (''kubeProxyVersion'', [Default (JString ''''), Type [''string''], Format '''']),
         (''operatingSystem'', [Default (JString ''''), Type [''string''], Format '''']),
         (''architecture'', [Default (JString ''''), Type [''string''], Format ''''])],
       Required [''machineID'', ''systemUUID'', ''bootID'', ''kernelVersion'', ''osImage'',
         ''containerRuntimeVersion'', ''kubeletVersion'', ''kubeProxyVersion'', ''operatingSystem'',
         ''architecture'']],
     od_Dependencies = []\<rparr>"

definition schema_k8sio_api_core_v1_ObjectFieldSelector :: "'r openapi \<Rightarrow> 'r openAPIDefinition" where
  "schema_k8sio_api_core_v1_ObjectFieldSelector E = \<lparr>
     od_Schema = [
       Type [''object''],
       Properties [
         (''apiVersion'', [Type [''string''], Format '''']),
         (''fieldPath'', [Default (JString ''''), Type [''string''], Format ''''])],
       Required [''fieldPath''], VendorExtensible [(''x-kubernetes-map-type'', JString ''atomic'')]],
     od_Dependencies = []\<rparr>"

definition schema_k8sio_api_core_v1_ObjectReference :: "'r openapi \<Rightarrow> 'r openAPIDefinition" where
  "schema_k8sio_api_core_v1_ObjectReference E = \<lparr>
     od_Schema = [
       Type [''object''],
       Properties [
         (''kind'', [Type [''string''], Format '''']),
         (''namespace'', [Type [''string''], Format '''']),
         (''name'', [Type [''string''], Format '''']),
         (''uid'', [Type [''string''], Format '''']),
         (''apiVersion'', [Type [''string''], Format '''']),
         (''resourceVersion'', [Type [''string''], Format '''']),
         (''fieldPath'', [Type [''string''], Format ''''])],
       VendorExtensible [(''x-kubernetes-map-type'', JString ''atomic'')]],
     od_Dependencies = []\<rparr>"

definition schema_k8sio_api_core_v1_PersistentVolume :: "'r openapi \<Rightarrow> 'r openAPIDefinition" where
  "schema_k8sio_api_core_v1_PersistentVolume E = \<lparr>
     od_Schema = [
       Type [''object''],
       Properties [
         (''kind'', [Type [''string''], Format '''']),
         (''apiVersion'', [Type [''string''], Format '''']),
         (''metadata'', [Default (JObject []), Ref (oa_ref E pkg_apis_meta_v1_ObjectMeta)]),
         (''spec'', [Default (JObject []), Ref (oa_ref E k8sio_api_core_v1_PersistentVolumeSpec)]),
         (''status'', [
           Default (JObject []), Ref (oa_ref E k8sio_api_core_v1_PersistentVolumeStatus)])]],
     od_Dependencies = [k8sio_api_core_v1_PersistentVolumeSpec,
       k8sio_api_core_v1_PersistentVolumeStatus, pkg_apis_meta_v1_ObjectMeta]\<rparr>"

definition schema_k8sio_api_core_v1_PersistentVolumeClaim :: "'r openapi \<Rightarrow> 'r openAPIDefinition" where
  "schema_k8sio_api_core_v1_PersistentVolumeClaim E = \<lparr>
     od_Schema = [
       Type [''object''],
       Properties [
         (''kind'', [Type [''string''], Format '''']),
         (''apiVersion'', [Type [''string''], Format '''']),
         (''metadata'', [Default (JObject []), Ref (oa_ref E pkg_apis_meta_v1_ObjectMeta)]),
         (''spec'', [
           Default (JObject []), Ref (oa_ref E k8sio_api_core_v1_PersistentVolumeClaimSpec)]),
         (''status'', [
           Default (JObject []), Ref (oa_ref E k8sio_api_core_v1_PersistentVolumeClaimStatus)])]],
     od_Dependencies = [k8sio_api_core_v1_PersistentVolumeClaimSpec,
       k8sio_api_core_v1_PersistentVolumeClaimStatus, pkg_apis_meta_v1_ObjectMeta]\<rparr>"

definition schema_k8sio_api_core_v1_PersistentVolumeClaimCondition :: "'r openapi \<Rightarrow> 'r openAPIDefinition" where
  "schema_k8sio_api_core_v1_PersistentVolumeClaimCondition E = \<lparr>
     od_Schema = [
       Type [''object''],
       Properties [
         (''type'', [Default (JString ''''), Type [''string''], Format '''']),
         (''status'', [Default (JString ''''), Type [''string''], Format '''']),
         (''lastProbeTime'', [Default (JObject []), Ref (oa_ref E pkg_apis_meta_v1_Time)]),
         (''lastTransitionTime'', [Default (JObject []), Ref (oa_ref E pkg_apis_meta_v1_Time)]),
         (''reason'', [Type [''string''], Format '''']),
         (''message'', [Type [''string''], Format ''''])],
       Required [''type'', ''status'']],
     od_Dependencies = [pkg_apis_meta_v1_Time]\<rparr>"

definition schema_k8sio_api_core_v1_PersistentVolumeClaimList :: "'r openapi \<Rightarrow> 'r openAPIDefinition" where
  "schema_k8sio_api_core_v1_PersistentVolumeClaimList E = \<lparr>
     od_Schema = [
       Type [''object''],
       Properties [
         (''kind'', [Type [''string''], Format '''']),
         (''apiVersion'', [Type [''string''], Format '''']),
         (''metadata'', [Default (JObject []), Ref (oa_ref E pkg_apis_meta_v1_ListMeta)]),
         (''items'', [
           Type [''array''],
           Items [Default (JObject []), Ref (oa_ref E k8sio_api_core_v1_PersistentVolumeClaim)]])],
       Required [''items'']],
     od_Dependencies = [k8sio_api_core_v1_PersistentVolumeClaim, pkg_apis_meta_v1_ListMeta]\<rparr>"

definition schema_k8sio_api_core_v1_PersistentVolumeClaimSpec :: "'r openapi \<Rightarrow> 'r openAPIDefinition" where
  "schema_k8sio_api_core_v1_PersistentVolumeClaimSpec E = \<lparr>
     od_Schema = [
       Type [''object''],
       Properties [
         (''accessModes'', [
           Type [''array''], Items [Default (JString ''''), Type [''string''], Format '''']]),
         (''selector'', [Ref (oa_ref E pkg_apis_meta_v1_LabelSelector)]),
         (''resources'', [
           Default (JObject []), Ref (oa_ref E k8sio_api_core_v1_ResourceRequirements)]),
         (''volumeName'', [Type [''string''], Format '''']),
         (''storageClassName'', [Type [''string''], Format '''']),
         (''volumeMode'', [
           Type [''string''], Format '''', Enum [JString ''Block'', JString ''Filesystem'']]),
         (''dataSource'', [Ref (oa_ref E k8sio_api_core_v1_TypedLocalObjectReference)]),
         (''dataSourceRef'', [Ref (oa_ref E k8sio_api_core_v1_TypedObjectReference)])]],
     od_Dependencies = [k8sio_api_core_v1_ResourceRequirements,
       k8sio_api_core_v1_TypedLocalObjectReference, k8sio_api_core_v1_TypedObjectReference,
       pkg_apis_meta_v1_LabelSelector]\<rparr>"

definition schema_k8sio_api_core_v1_PersistentVolumeClaimStatus :: "'r openapi \<Rightarrow> 'r openAPIDefinition" where
  "schema_k8sio_api_core_v1_PersistentVolumeClaimStatus E = \<lparr>
     od_Schema = [
       Type [''object''],
       Properties [
         (''phase'', [
           Type [''string''], Format '''',
           Enum [JString ''Bound'', JString ''Lost'', JString ''Pending'']]),
         (''accessModes'', [
           Type [''array''], Items [Default (JString ''''), Type [''string''], Format '''']]),
         (''capacity'', [
           Type [''object''],
           AdditionalProperties True [
             Default (JObject []), Ref (oa_ref E apimachinery_pkg_api_resource_Quantity)]]),
         (''conditions'', [
           VendorExtensible [(''x-kubernetes-patch-merge-key'', JString ''type''),
             (''x-kubernetes-patch-strategy'', JString ''merge'')],
           Type [''array''],
           Items [
             Default (JObject []), Ref (oa_ref E k8sio_api_core_v1_PersistentVolumeClaimCondition)]]),
         (''allocatedResources'', [
           Type [''object''],
           AdditionalProperties True [
             Default (JObject []), Ref (oa_ref E apimachinery_pkg_api_resource_Quantity)]]),
         (''allocatedResourceStatuses'', [
           VendorExtensible [(''x-kubernetes-map-type'', JString ''granular'')], Type [''object''],
           AdditionalProperties True [Default (JString ''''), Type [''string''], Format '''']])]],
     od_Dependencies = [k8sio_api_core_v1_PersistentVolumeClaimCondition,
       apimachinery_pkg_api_resource_Quantity]\<rparr>"

definition schema_k8sio_api_core_v1_PersistentVolumeClaimTemplate :: "'r openapi \<Rightarrow> 'r openAPIDefinition" where
  "schema_k8sio_api_core_v1_PersistentVolumeClaimTemplate E = \<lparr>
     od_Schema = [
       Type [''object''],
       Properties [
         (''metadata'', [Default (JObject []), Ref (oa_ref E pkg_apis_meta_v1_ObjectMeta)]),
         (''spec'', [
           Default (JObject []), Ref (oa_ref E k8sio_api_core_v1_PersistentVolumeClaimSpec)])],
       Required [''spec'']],
     od_Dependencies = [k8sio_api_core_v1_PersistentVolumeClaimSpec,
       pkg_apis_meta_v1_ObjectMeta]\<rparr>"

definition schema_k8sio_api_core_v1_PersistentVolumeClaimVolumeSource :: "'r openapi \<Rightarrow> 'r openAPIDefinition" where
  "schema_k8sio_api_core_v1_PersistentVolumeClaimVolumeSource E = \<lparr>
     od_Schema = [
       Type [''object''],
       Properties [
         (''claimName'', [Default (JString ''''), Type [''string''], Format '''']),
         (''readOnly'', [Type [''boolean''], Format ''''])],
       Required [''claimName'']],
     od_Dependencies = []\<rparr>"

definition schema_k8sio_api_core_v1_PersistentVolumeList :: "'r openapi \<Rightarrow> 'r openAPIDefinition" where
  "schema_k8sio_api_core_v1_PersistentVolumeList E = \<lparr>
     od_Schema = [
       Type [''object''],
       Properties [
         (''kind'', [Type [''string''], Format '''']),
         (''apiVersion'', [Type [''string''], Format '''']),
         (''metadata'', [Default (JObject []), Ref (oa_ref E pkg_apis_meta_v1_ListMeta)]),
         (''items'', [
           Type [''array''],
           Items [Default (JObject []), Ref (oa_ref E k8sio_api_core_v1_PersistentVolume)]])],
       Required [''items'']],
     od_Dependencies = [k8sio_api_core_v1_PersistentVolume, pkg_apis_meta_v1_ListMeta]\<rparr>"

definition schema_k8sio_api_core_v1_PersistentVolumeSource :: "'r openapi \<Rightarrow> 'r openAPIDefinition" where
  "schema_k8sio_api_core_v1_PersistentVolumeSource E = \<lparr>
     od_Schema = [
       Type [''object''],
       Properties [
         (''gcePersistentDisk'', [Ref (oa_ref E k8sio_api_core_v1_GCEPersistentDiskVolumeSource)]),
         (''awsElasticBlockStore'', [
           Ref (oa_ref E k8sio_api_core_v1_AWSElasticBlockStoreVolumeSource)]),
         (''hostPath'', [Ref (oa_ref E k8sio_api_core_v1_HostPathVolumeSource)]),
         (''glusterfs'', [Ref (oa_ref E k8sio_api_core_v1_GlusterfsPersistentVolumeSource)]),
         (''nfs'', [Ref (oa_ref E k8sio_api_core_v1_NFSVolumeSource)]),
         (''rbd'', [Ref (oa_ref E k8sio_api_core_v1_RBDPersistentVolumeSource)]),
         (''iscsi'', [Ref (oa_ref E k8sio_api_core_v1_ISCSIPersistentVolumeSource)]),
         (''cinder'', [Ref (oa_ref E k8sio_api_core_v1_CinderPersistentVolumeSource)]),
         (''cephfs'', [Ref (oa_ref E k8sio_api_core_v1_CephFSPersistentVolumeSource)]),
         (''fc'', [Ref (oa_ref E k8sio_api_core_v1_FCVolumeSource)]),
         (''flocker'', [Ref (oa_ref E k8sio_api_core_v1_FlockerVolumeSource)]),
         (''flexVolume'', [Ref (oa_ref E k8sio_api_core_v1_FlexPersistentVolumeSource)]),
         (''azureFile'', [Ref (oa_ref E k8sio_api_core_v1_AzureFilePersistentVolumeSource)]),
         (''vsphereVolume'', [Ref (oa_ref E k8sio_api_core_v1_VsphereVirtualDiskVolumeSource)]),
         (''quobyte'', [Ref (oa_ref E k8sio_api_core_v1_QuobyteVolumeSource)]),
         (''azureDisk'', [Ref (oa_ref E k8sio_api_core_v1_AzureDiskVolumeSource)]),
         (''photonPersistentDisk'', [
           Ref (oa_ref E k8sio_api_core_v1_PhotonPersistentDiskVolumeSource)]),
         (''portworxVolume'', [Ref (oa_ref E k8sio_api_core_v1_PortworxVolumeSource)]),
         (''scaleIO'', [Ref (oa_ref E k8sio_api_core_v1_ScaleIOPersistentVolumeSource)]),
         (''local'', [Ref (oa_ref E k8sio_api_core_v1_LocalVolumeSource)]),
         (''storageos'', [Ref (oa_ref E k8sio_api_core_v1_StorageOSPersistentVolumeSource)]),
         (''csi'', [Ref (oa_ref E k8sio_api_core_v1_CSIPersistentVolumeSource)])]],
     od_Dependencies = [k8sio_api_core_v1_AWSElasticBlockStoreVolumeSource,
       k8sio_api_core_v1_AzureDiskVolumeSource, k8sio_api_core_v1_AzureFilePersistentVolumeSource,
       k8sio_api_core_v1_CSIPersistentVolumeSource, k8sio_api_core_v1_CephFSPersistentVolumeSource,
       k8sio_api_core_v1_CinderPersistentVolumeSource, k8sio_api_core_v1_FCVolumeSource,
       k8sio_api_core_v1_FlexPersistentVolumeSource, k8sio_api_core_v1_FlockerVolumeSource,
       k8sio_api_core_v1_GCEPersistentDiskVolumeSource,
       k8sio_api_core_v1_GlusterfsPersistentVolumeSource, k8sio_api_core_v1_HostPathVolumeSource,
       k8sio_api_core_v1_ISCSIPersistentVolumeSource, k8sio_api_core_v1_LocalVolumeSource,
       k8sio_api_core_v1_NFSVolumeSource, k8sio_api_core_v1_PhotonPersistentDiskVolumeSource,
       k8sio_api_core_v1_PortworxVolumeSource, k8sio_api_core_v1_QuobyteVolumeSource,
       k8sio_api_core_v1_RBDPersistentVolumeSource, k8sio_api_core_v1_ScaleIOPersistentVolumeSource,
       k8sio_api_core_v1_StorageOSPersistentVolumeSource,
       k8sio_api_core_v1_VsphereVirtualDiskVolumeSource]\<rparr>"

definition schema_k8sio_api_core_v1_PersistentVolumeSpec :: "'r openapi \<Rightarrow> 'r openAPIDefinition" where
  "schema_k8sio_api_core_v1_PersistentVolumeSpec E = \<lparr>
     od_Schema = [
       Type [''object''],
       Properties [
         (''capacity'', [
           Type [''object''],
           AdditionalProperties True [
             Default (JObject []), Ref (oa_ref E apimachinery_pkg_api_resource_Quantity)]]),
         (''gcePersistentDisk'', [Ref (oa_ref E k8sio_api_core_v1_GCEPersistentDiskVolumeSource)]),
         (''awsElasticBlockStore'', [
           Ref (oa_ref E k8sio_api_core_v1_AWSElasticBlockStoreVolumeSource)]),
         (''hostPath'', [Ref (oa_ref E k8sio_api_core_v1_HostPathVolumeSource)]),
         (''glusterfs'', [Ref (oa_ref E k8sio_api_core_v1_GlusterfsPersistentVolumeSource)]),
         (''nfs'', [Ref (oa_ref E k8sio_api_core_v1_NFSVolumeSource)]),
         (''rbd'', [Ref (oa_ref E k8sio_api_core_v1_RBDPersistentVolumeSource)]),
         (''iscsi'', [Ref (oa_ref E k8sio_api_core_v1_ISCSIPersistentVolumeSource)]),
         (''cinder'', [Ref (oa_ref E k8sio_api_core_v1_CinderPersistentVolumeSource)]),
         (''cephfs'', [Ref (oa_ref E k8sio_api_core_v1_CephFSPersistentVolumeSource)]),
         (''fc'', [Ref (oa_ref E k8sio_api_core_v1_FCVolumeSource)]),
         (''flocker'', [Ref (oa_ref E k8sio_api_core_v1_FlockerVolumeSource)]),
         (''flexVolume'', [Ref (oa_ref E k8sio_api_core_v1_FlexPersistentVolumeSource)]),
         (''azureFile'', [Ref (oa_ref E k8sio_api_core_v1_AzureFilePersistentVolumeSource)]),
         (''vsphereVolume'', [Ref (oa_ref E k8sio_api_core_v1_VsphereVirtualDiskVolumeSource)]),
         (''quobyte'', [Ref (oa_ref E k8sio_api_core_v1_QuobyteVolumeSource)]),
         (''azureDisk'', [Ref (oa_ref E k8sio_api_core_v1_AzureDiskVolumeSource)]),
         (''photonPersistentDisk'', [
           Ref (oa_ref E k8sio_api_core_v1_PhotonPersistentDiskVolumeSource)]),
         (''portworxVolume'', [Ref (oa_ref E k8sio_api_core_v1_PortworxVolumeSource)]),
         (''scaleIO'', [Ref (oa_ref E k8sio_api_core_v1_ScaleIOPersistentVolumeSource)]),
         (''local'', [Ref (oa_ref E k8sio_api_core_v1_LocalVolumeSource)]),
         (''storageos'', [Ref (oa_ref E k8sio_api_core_v1_StorageOSPersistentVolumeSource)]),
         (''csi'', [Ref (oa_ref E k8sio_api_core_v1_CSIPersistentVolumeSource)]),
         (''accessModes'', [
           Type [''array''], Items [Default (JString ''''), Type [''string''], Format '''']]),
         (''claimRef'', [
           VendorExtensible [(''x-kubernetes-map-type'', JString ''granular'')],
           Ref (oa_ref E k8sio_api_core_v1_ObjectReference)]),
         (''persistentVolumeReclaimPolicy'', [
           Type [''string''], Format '''',
           Enum [JString ''Delete'', JString ''Recycle'', JString ''Retain'']]),
         (''storageClassName'', [Type [''string''], Format '''']),
         (''mountOptions'', [
           Type [''array''], Items [Default (JString ''''), Type [''string''], Format '''']]),
         (''volumeMode'', [
           Type [''string''], Format '''', Enum [JString ''Block'', JString ''Filesystem'']]),
         (''nodeAffinity'', [Ref (oa_ref E k8sio_api_core_v1_VolumeNodeAffinity)])]],
     od_Dependencies = [k8sio_api_core_v1_AWSElasticBlockStoreVolumeSource,
       k8sio_api_core_v1_AzureDiskVolumeSource, k8sio_api_core_v1_AzureFilePersistentVolumeSource,
       k8sio_api_core_v1_CSIPersistentVolumeSource, k8sio_api_core_v1_CephFSPersistentVolumeSource,
       k8sio_api_core_v1_CinderPersistentVolumeSource, k8sio_api_core_v1_FCVolumeSource,
       k8sio_api_core_v1_FlexPersistentVolumeSource, k8sio_api_core_v1_FlockerVolumeSource,
       k8sio_api_core_v1_GCEPersistentDiskVolumeSource,
       k8sio_api_core_v1_GlusterfsPersistentVolumeSource, k8sio_api_core_v1_HostPathVolumeSource,
       k8sio_api_core_v1_ISCSIPersistentVolumeSource, k8sio_api_core_v1_LocalVolumeSource,
       k8sio_api_core_v1_NFSVolumeSource, k8sio_api_core_v1_ObjectReference,
       k8sio_api_core_v1_PhotonPersistentDiskVolumeSource, k8sio_api_core_v1_PortworxVolumeSource,
       k8sio_api_core_v1_QuobyteVolumeSource, k8sio_api_core_v1_RBDPersistentVolumeSource,
       k8sio_api_core_v1_ScaleIOPersistentVolumeSource,
       k8sio_api_core_v1_StorageOSPersistentVolumeSource, k8sio_api_core_v1_VolumeNodeAffinity,
       k8sio_api_core_v1_VsphereVirtualDiskVolumeSource,
       apimachinery_pkg_api_resource_Quantity]\<rparr>"

definition schema_k8sio_api_core_v1_PersistentVolumeStatus :: "'r openapi \<Rightarrow> 'r openAPIDefinition" where
  "schema_k8sio_api_core_v1_PersistentVolumeStatus E = \<lparr>
     od_Schema = [
       Type [''object''],
       Properties [
         (''phase'', [
           Type [''string''], Format '''',
           Enum [JString ''Available'', JString ''Bound'', JString ''Failed'', JString ''Pending'',
             JString ''Released'']]),
         (''message'', [Type [''string''], Format '''']),
         (''reason'', [Type [''string''], Format '''']),
         (''lastPhaseTransitionTime'', [Ref (oa_ref E pkg_apis_meta_v1_Time)])]],
     od_Dependencies = [pkg_apis_meta_v1_Time]\<rparr>"

definition schema_k8sio_api_core_v1_PhotonPersistentDiskVolumeSource :: "'r openapi \<Rightarrow> 'r openAPIDefinition" where
  "schema_k8sio_api_core_v1_PhotonPersistentDiskVolumeSource E = \<lparr>
     od_Schema = [
       Type [''object''],
       Properties [
         (''pdID'', [Default (JString ''''), Type [''string''], Format '''']),
         (''fsType'', [Type [''string''], Format ''''])],
       Required [''pdID'']],
     od_Dependencies = []\<rparr>"

definition schema_k8sio_api_core_v1_Pod :: "'r openapi \<Rightarrow> 'r openAPIDefinition" where
  "schema_k8sio_api_core_v1_Pod E = \<lparr>
     od_Schema = [
       Type [''object''],
       Properties [
         (''kind'', [Type [''string''], Format '''']),
         (''apiVersion'', [Type [''string''], Format '''']),
         (''metadata'', [Default (JObject []), Ref (oa_ref E pkg_apis_meta_v1_ObjectMeta)]),
         (''spec'', [Default (JObject []), Ref (oa_ref E k8sio_api_core_v1_PodSpec)]),
         (''status'', [Default (JObject []), Ref (oa_ref E k8sio_api_core_v1_PodStatus)])]],
     od_Dependencies = [k8sio_api_core_v1_PodSpec, k8sio_api_core_v1_PodStatus,
       pkg_apis_meta_v1_ObjectMeta]\<rparr>"

definition schema_k8sio_api_core_v1_PodAffinity :: "'r openapi \<Rightarrow> 'r openAPIDefinition" where
  "schema_k8sio_api_core_v1_PodAffinity E = \<lparr>
     od_Schema = [
       Type [''object''],
       Properties [
         (''requiredDuringSchedulingIgnoredDuringExecution'', [
           Type [''array''],
           Items [Default (JObject []), Ref (oa_ref E k8sio_api_core_v1_PodAffinityTerm)]]),
         (''preferredDuringSchedulingIgnoredDuringExecution'', [
           Type [''array''],
           Items [Default (JObject []), Ref (oa_ref E k8sio_api_core_v1_WeightedPodAffinityTerm)]])]],
     od_Dependencies = [k8sio_api_core_v1_PodAffinityTerm,
       k8sio_api_core_v1_WeightedPodAffinityTerm]\<rparr>"

definition schema_k8sio_api_core_v1_PodAffinityTerm :: "'r openapi \<Rightarrow> 'r openAPIDefinition" where
  "schema_k8sio_api_core_v1_PodAffinityTerm E = \<lparr>
     od_Schema = [
       Type [''object''],
       Properties [
         (''labelSelector'', [Ref (oa_ref E pkg_apis_meta_v1_LabelSelector)]),
         (''namespaces'', [
           Type [''array''], Items [Default (JString ''''), Type [''string''], Format '''']]),
         (''topologyKey'', [Default (JString ''''), Type [''string''], Format '''']),
         (''namespaceSelector'', [Ref (oa_ref E pkg_apis_meta_v1_LabelSelector)])],
       Required [''topologyKey'']],
     od_Dependencies = [pkg_apis_meta_v1_LabelSelector]\<rparr>"

definition schema_k8sio_api_core_v1_PodAntiAffinity :: "'r openapi \<Rightarrow> 'r openAPIDefinition" where
  "schema_k8sio_api_core_v1_PodAntiAffinity E = \<lparr>
     od_Schema = [
       Type [''object''],
       Properties [
         (''requiredDuringSchedulingIgnoredDuringExecution'', [
           Type [''array''],
           Items [Default (JObject []), Ref (oa_ref E k8sio_api_core_v1_PodAffinityTerm)]]),
         (''preferredDuringSchedulingIgnoredDuringExecution'', [
           Type [''array''],
           Items [Default (JObject []), Ref (oa_ref E k8sio_api_core_v1_WeightedPodAffinityTerm)]])]],
     od_Dependencies = [k8sio_api_core_v1_PodAffinityTerm,
       k8sio_api_core_v1_WeightedPodAffinityTerm]\<rparr>"

definition schema_k8sio_api_core_v1_PodAttachOptions :: "'r openapi \<Rightarrow> 'r openAPIDefinition" where
  "schema_k8sio_api_core_v1_PodAttachOptions E = \<lparr>
     od_Schema = [
       Type [''object''],
       Properties [
         (''kind'', [Type [''string''], Format '''']),
         (''apiVersion'', [Type [''string''], Format '''']),
         (''stdin'', [Type [''boolean''], Format '''']),
         (''stdout'', [Type [''boolean''], Format '''']),
         (''stderr'', [Type [''boolean''], Format '''']),
         (''tty'', [Type [''boolean''], Format '''']),
         (''container'', [Type [''string''], Format ''''])]],
     od_Dependencies = []\<rparr>"

definition schema_k8sio_api_core_v1_PodCondition :: "'r openapi \<Rightarrow> 'r openAPIDefinition" where
  "schema_k8sio_api_core_v1_PodCondition E = \<lparr>
     od_Schema = [
       Type [''object''],
       Properties [
         (''type'', [Default (JString ''''), Type [''string''], Format '''']),
         (''status'', [Default (JString ''''), Type [''string''], Format '''']),
         (''lastProbeTime'', [Default (JObject []), Ref (oa_ref E pkg_apis_meta_v1_Time)]),
         (''lastTransitionTime'', [Default (JObject []), Ref (oa_ref E pkg_apis_meta_v1_Time)]),
         (''reason'', [Type [''string''], Format '''']),
         (''message'', [Type [''string''], Format ''''])],
       Required [''type'', ''status'']],
     od_Dependencies = [pkg_apis_meta_v1_Time]\<rparr>"

definition schema_k8sio_api_core_v1_PodDNSConfig :: "'r openapi \<Rightarrow> 'r openAPIDefinition" where
  "schema_k8sio_api_core_v1_PodDNSConfig E = \<lparr>
     od_Schema = [
       Type [''object''],
       Properties [
         (''nameservers'', [
           Type [''array''], Items [Default (JString ''''), Type [''string''], Format '''']]),
         (''searches'', [
           Type [''array''], Items [Default (JString ''''), Type [''string''], Format '''']]),
         (''options'', [
           Type [''array''],
           Items [Default (JObject []), Ref (oa_ref E k8sio_api_core_v1_PodDNSConfigOption)]])]],
     od_Dependencies = [k8sio_api_core_v1_PodDNSConfigOption]\<rparr>"

definition schema_k8sio_api_core_v1_PodDNSConfigOption :: "'r openapi \<Rightarrow> 'r openAPIDefinition" where
  "schema_k8sio_api_core_v1_PodDNSConfigOption E = \<lparr>
     od_Schema = [
       Type [''object''],
       Properties [
         (''name'', [Type [''string''], Format '''']),
         (''value'', [Type [''string''], Format ''''])]],
     od_Dependencies = []\<rparr>"

definition schema_k8sio_api_core_v1_PodExecOptions :: "'r openapi \<Rightarrow> 'r openAPIDefinition" where
  "schema_k8sio_api_core_v1_PodExecOptions E = \<lparr>
     od_Schema = [
       Type [''object''],
       Properties [
         (''kind'', [Type [''string''], Format '''']),
         (''apiVersion'', [Type [''string''], Format '''']),
         (''stdin'', [Type [''boolean''], Format '''']),
         (''stdout'', [Type [''boolean''], Format '''']),
         (''stderr'', [Type [''boolean''], Format '''']),
         (''tty'', [Type [''boolean''], Format '''']),
         (''container'', [Type [''string''], Format '''']),
         (''command'', [
           Type [''array''], Items [Default (JString ''''), Type [''string''], Format '''']])],
       Required [''command'']],
     od_Dependencies = []\<rparr>"

definition schema_k8sio_api_core_v1_PodIP :: "'r openapi \<Rightarrow> 'r openAPIDefinition" where
  "schema_k8sio_api_core_v1_PodIP E = \<lparr>
     od_Schema = [
       Type [''object''],
       Properties [(''ip'', [Type [''string''], Format ''''])]],
     od_Dependencies = []\<rparr>"

definition schema_k8sio_api_core_v1_PodList :: "'r openapi \<Rightarrow> 'r openAPIDefinition" where
  "schema_k8sio_api_core_v1_PodList E = \<lparr>
     od_Schema = [
       Type [''object''],
       Properties [
         (''kind'', [Type [''string''], Format '''']),
         (''apiVersion'', [Type [''string''], Format '''']),
         (''metadata'', [Default (JObject []), Ref (oa_ref E pkg_apis_meta_v1_ListMeta)]),
         (''items'', [
           Type [''array''], Items [Default (JObject []), Ref (oa_ref E k8sio_api_core_v1_Pod)]])],
       Required [''items'']],
     od_Dependencies = [k8sio_api_core_v1_Pod, pkg_apis_meta_v1_ListMeta]\<rparr>"

definition schema_k8sio_api_core_v1_PodLogOptions :: "'r openapi \<Rightarrow> 'r openAPIDefinition" where
  "schema_k8sio_api_core_v1_PodLogOptions E = \<lparr>
     od_Schema = [
       Type [''object''],
       Properties [
         (''kind'', [Type [''string''], Format '''']),
         (''apiVersion'', [Type [''string''], Format '''']),
         (''container'', [Type [''string''], Format '''']),
         (''follow'', [Type [''boolean''], Format '''']),
         (''previous'', [Type [''boolean''], Format '''']),
         (''sinceSeconds'', [Type [''integer''], Format ''int64'']),
         (''sinceTime'', [Ref (oa_ref E pkg_apis_meta_v1_Time)]),
         (''timestamps'', [Type [''boolean''], Format '''']),
         (''tailLines'', [Type [''integer''], Format ''int64'']),
         (''limitBytes'', [Type [''integer''], Format ''int64'']),
         (''insecureSkipTLSVerifyBackend'', [Type [''boolean''], Format ''''])]],
     od_Dependencies = [pkg_apis_meta_v1_Time]\<rparr>"

definition schema_k8sio_api_core_v1_PodOS :: "'r openapi \<Rightarrow> 'r openAPIDefinition" where
  "schema_k8sio_api_core_v1_PodOS E = \<lparr>
     od_Schema = [
       Type [''object''],
       Properties [(''name'', [Default (JString ''''), Type [''string''], Format ''''])],
       Required [''name'']],
     od_Dependencies = []\<rparr>"

definition schema_k8sio_api_core_v1_PodPortForwardOptions :: "'r openapi \<Rightarrow> 'r openAPIDefinition" where
  "schema_k8sio_api_core_v1_PodPortForwardOptions E = \<lparr>
     od_Schema = [
       Type [''object''],
       Properties [
         (''kind'', [Type [''string''], Format '''']),
         (''apiVersion'', [Type [''string''], Format '''']),
         (''ports'', [
           Type [''array''], Items [Default (JInt 0), Type [''integer''], Format ''int32'']])]],
     od_Dependencies = []\<rparr>"

definition schema_k8sio_api_core_v1_PodProxyOptions :: "'r openapi \<Rightarrow> 'r openAPIDefinition" where
  "schema_k8sio_api_core_v1_PodProxyOptions E = \<lparr>
     od_Schema = [
       Type [''object''],
       Properties [
         (''kind'', [Type [''string''], Format '''']),
         (''apiVersion'', [Type [''string''], Format '''']),
         (''path'', [Type [''string''], Format ''''])]],
     od_Dependencies = []\<rparr>"

definition schema_k8sio_api_core_v1_PodReadinessGate :: "'r openapi \<Rightarrow> 'r openAPIDefinition" where
  "schema_k8sio_api_core_v1_PodReadinessGate E = \<lparr>
     od_Schema = [
       Type [''object''],
       Properties [(''conditionType'', [Default (JString ''''), Type [''string''], Format ''''])],
       Required [''conditionType'']],
     od_Dependencies = []\<rparr>"

definition schema_k8sio_api_core_v1_PodResourceClaim :: "'r openapi \<Rightarrow> 'r openAPIDefinition" where
  "schema_k8sio_api_core_v1_PodResourceClaim E = \<lparr>
     od_Schema = [
       Type [''object''],
       Properties [
         (''name'', [Default (JString ''''), Type [''string''], Format '''']),
         (''source'', [Default (JObject []), Ref (oa_ref E k8sio_api_core_v1_ClaimSource)])],
       Required [''name'']],
     od_Dependencies = [k8sio_api_core_v1_ClaimSource]\<rparr>"

definition schema_k8sio_api_core_v1_PodResourceClaimStatus :: "'r openapi \<Rightarrow> 'r openAPIDefinition" where
  "schema_k8sio_api_core_v1_PodResourceClaimStatus E = \<lparr>
     od_Schema = [
       Type [''object''],
       Properties [
         (''name'', [Default (JString ''''), Type [''string''], Format '''']),
         (''resourceClaimName'', [Type [''string''], Format ''''])],
       Required [''name'']],
     od_Dependencies = []\<rparr>"

definition schema_k8sio_api_core_v1_PodSchedulingGate :: "'r openapi \<Rightarrow> 'r openAPIDefinition" where
  "schema_k8sio_api_core_v1_PodSchedulingGate E = \<lparr>
     od_Schema = [
       Type [''object''],
       Properties [(''name'', [Default (JString ''''), Type [''string''], Format ''''])],
       Required [''name'']],
     od_Dependencies = []\<rparr>"

definition schema_k8sio_api_core_v1_PodSecurityContext :: "'r openapi \<Rightarrow> 'r openAPIDefinition" where
  "schema_k8sio_api_core_v1_PodSecurityContext E = \<lparr>
     od_Schema = [
       Type [''object''],
       Properties [
         (''seLinuxOptions'', [Ref (oa_ref E k8sio_api_core_v1_SELinuxOptions)]),
         (''windowsOptions'', [Ref (oa_ref E k8sio_api_core_v1_WindowsSecurityContextOptions)]),
         (''runAsUser'', [Type [''integer''], Format ''int64'']),
         (''runAsGroup'', [Type [''integer''], Format ''int64'']),
         (''runAsNonRoot'', [Type [''boolean''], Format '''']),
         (''supplementalGroups'', [
           Type [''array''], Items [Default (JInt 0), Type [''integer''], Format ''int64'']]),
         (''fsGroup'', [Type [''integer''], Format ''int64'']),
         (''sysctls'', [
           Type [''array''], Items [Default (JObject []), Ref (oa_ref E k8sio_api_core_v1_Sysctl)]]),
         (''fsGroupChangePolicy'', [
           Type [''string''], Format '''', Enum [JString ''Always'', JString ''OnRootMismatch'']]),
         (''seccompProfile'', [Ref (oa_ref E k8sio_api_core_v1_SeccompProfile)])]],
     od_Dependencies = [k8sio_api_core_v1_SELinuxOptions, k8sio_api_core_v1_SeccompProfile,
       k8sio_api_core_v1_Sysctl, k8sio_api_core_v1_WindowsSecurityContextOptions]\<rparr>"

definition schema_k8sio_api_core_v1_PodSignature :: "'r openapi \<Rightarrow> 'r openAPIDefinition" where
  "schema_k8sio_api_core_v1_PodSignature E = \<lparr>
     od_Schema = [
       Type [''object''],
       Properties [(''podController'', [Ref (oa_ref E pkg_apis_meta_v1_OwnerReference)])]],
     od_Dependencies = [pkg_apis_meta_v1_OwnerReference]\<rparr>"

definition schema_k8sio_api_core_v1_PodSpec :: "'r openapi \<Rightarrow> 'r openAPIDefinition" where
  "schema_k8sio_api_core_v1_PodSpec E = \<lparr>
     od_Schema = [
       Type [''object''],
       Properties [
         (''volumes'', [
           VendorExtensible [(''x-kubernetes-patch-merge-key'', JString ''name''),
             (''x-kubernetes-patch-strategy'', JString ''merge,retainKeys'')],
           Type [''array''], Items [Default (JObject []), Ref (oa_ref E k8sio_api_core_v1_Volume)]]),
         (''initContainers'', [
           VendorExtensible [(''x-kubernetes-patch-merge-key'', JString ''name''),
             (''x-kubernetes-patch-strategy'', JString ''merge'')],
           Type [''array''],
           Items [Default (JObject []), Ref (oa_ref E k8sio_api_core_v1_Container)]]),
         (''containers'', [
           VendorExtensible [(''x-kubernetes-patch-merge-key'', JString ''name''),
             (''x-kubernetes-patch-strategy'', JString ''merge'')],
           Type [''array''],
           Items [Default (JObject []), Ref (oa_ref E k8sio_api_core_v1_Container)]]),
         (''ephemeralContainers'', [
           VendorExtensible [(''x-kubernetes-patch-merge-key'', JString ''name''),
             (''x-kubernetes-patch-strategy'', JString ''merge'')],
           Type [''array''],
           Items [Default (JObject []), Ref (oa_ref E k8sio_api_core_v1_EphemeralContainer)]]),
         (''restartPolicy'', [
           Type [''string''], Format '''',
           Enum [JString ''Always'', JString ''Never'', JString ''OnFailure'']]),
         (''terminationGracePeriodSeconds'', [Type [''integer''], Format ''int64'']),
         (''activeDeadlineSeconds'', [Type [''integer''], Format ''int64'']),
         (''dnsPolicy'', [
           Type [''string''], Format '''',
           Enum [JString ''ClusterFirst'', JString ''ClusterFirstWithHostNet'', JString ''Default'',
             JString ''None'']]),
         (''nodeSelector'', [
           VendorExtensible [(''x-kubernetes-map-type'', JString ''atomic'')], Type [''object''],
           AdditionalProperties True [Default (JString ''''), Type [''string''], Format '''']]),
         (''serviceAccountName'', [Type [''string''], Format '''']),
         (''serviceAccount'', [Type [''string''], Format '''']),
         (''automountServiceAccountToken'', [Type [''boolean''], Format '''']),
         (''nodeName'', [Type [''string''], Format '''']),
         (''hostNetwork'', [Type [''boolean''], Format '''']),
         (''hostPID'', [Type [''boolean''], Format '''']),
         (''hostIPC'', [Type [''boolean''], Format '''']),
         (''shareProcessNamespace'', [Type [''boolean''], Format '''']),
         (''securityContext'', [Ref (oa_ref E k8sio_api_core_v1_PodSecurityContext)]),
         (''imagePullSecrets'', [
           VendorExtensible [(''x-kubernetes-patch-merge-key'', JString ''name''),
             (''x-kubernetes-patch-strategy'', JString ''merge'')],
           Type [''array''],
           Items [Default (JObject []), Ref (oa_ref E k8sio_api_core_v1_LocalObjectReference)]]),
         (''hostname'', [Type [''string''], Format '''']),
         (''subdomain'', [Type [''string''], Format '''']),
         (''affinity'', [Ref (oa_ref E k8sio_api_core_v1_Affinity)]),
         (''schedulerName'', [Type [''string''], Format '''']),
         (''tolerations'', [
           Type [''array''],
           Items [Default (JObject []), Ref (oa_ref E k8sio_api_core_v1_Toleration)]]),
         (''hostAliases'', [
           VendorExtensible [(''x-kubernetes-patch-merge-key'', JString ''ip''),
             (''x-kubernetes-patch-strategy'', JString ''merge'')],
           Type [''array''],
           Items [Default (JObject []), Ref (oa_ref E k8sio_api_core_v1_HostAlias)]]),
         (''priorityClassName'', [Type [''string''], Format '''']),
         (''priority'', [Type [''integer''], Format ''int32'']),
         (''dnsConfig'', [Ref (oa_ref E k8sio_api_core_v1_PodDNSConfig)]),
         (''readinessGates'', [
           Type [''array''],
           Items [Default (JObject []), Ref (oa_ref E k8sio_api_core_v1_PodReadinessGate)]]),
         (''runtimeClassName'', [Type [''string''], Format '''']),
         (''enableServiceLinks'', [Type [''boolean''], Format '''']),
         (''preemptionPolicy'', [
           Type [''string''], Format '''',
           Enum [JString ''Never'', JString ''PreemptLowerPriority'']]),
         (''overhead'', [
           Type [''object''],
           AdditionalProperties True [
             Default (JObject []), Ref (oa_ref E apimachinery_pkg_api_resource_Quantity)]]),
         (''topologySpreadConstraints'', [
           VendorExtensible [(''x-kubernetes-list-map-keys'', JList [JString ''topologyKey'',
             JString ''whenUnsatisfiable'']), (''x-kubernetes-list-type'', JString ''map''),
             (''x-kubernetes-patch-merge-key'', JString ''topologyKey''),
             (''x-kubernetes-patch-strategy'', JString ''merge'')],
           Type [''array''],
           Items [Default (JObject []), Ref (oa_ref E k8sio_api_core_v1_TopologySpreadConstraint)]]),
         (''setHostnameAsFQDN'', [Type [''boolean''], Format '''']),
         (''os'', [Ref (oa_ref E k8sio_api_core_v1_PodOS)]),
         (''hostUsers'', [Type [''boolean''], Format '''']),
         (''schedulingGates'', [
           VendorExtensible [(''x-kubernetes-list-map-keys'', JList [JString ''name'']),
             (''x-kubernetes-list-type'', JString ''map''), (''x-kubernetes-patch-merge-key'',
             JString ''name''), (''x-kubernetes-patch-strategy'', JString ''merge'')],
           Type [''array''],
           Items [Default (JObject []), Ref (oa_ref E k8sio_api_core_v1_PodSchedulingGate)]]),
         (''resourceClaims'', [
           VendorExtensible [(''x-kubernetes-list-map-keys'', JList [JString ''name'']),
             (''x-kubernetes-list-type'', JString ''map''), (''x-kubernetes-patch-merge-key'',
             JString ''name''), (''x-kubernetes-patch-strategy'', JString ''merge,retainKeys'')],
           Type [''array''],
           Items [Default (JObject []), Ref (oa_ref E k8sio_api_core_v1_PodResourceClaim)]])],
       Required [''containers'']],
     od_Dependencies = [k8sio_api_core_v1_Affinity, k8sio_api_core_v1_Container,
       k8sio_api_core_v1_EphemeralContainer, k8sio_api_core_v1_HostAlias,
       k8sio_api_core_v1_LocalObjectReference, k8sio_api_core_v1_PodDNSConfig,
       k8sio_api_core_v1_PodOS, k8sio_api_core_v1_PodReadinessGate,
       k8sio_api_core_v1_PodResourceClaim, k8sio_api_core_v1_PodSchedulingGate,
       k8sio_api_core_v1_PodSecurityContext, k8sio_api_core_v1_Toleration,
       k8sio_api_core_v1_TopologySpreadConstraint, k8sio_api_core_v1_Volume,
       apimachinery_pkg_api_resource_Quantity]\<rparr>"

definition schema_k8sio_api_core_v1_PodStatus :: "'r openapi \<Rightarrow> 'r openAPIDefinition" where
  "schema_k8sio_api_core_v1_PodStatus E = \<lparr>
     od_Schema = [
       Type [''object''],
       Properties [
         (''phase'', [
           Type [''string''], Format '''',
           Enum [JString ''Failed'', JString ''Pending'', JString ''Running'', JString
             ''Succeeded'', JString ''Unknown'']]),
         (''conditions'', [
           VendorExtensible [(''x-kubernetes-patch-merge-key'', JString ''type''),
             (''x-kubernetes-patch-strategy'', JString ''merge'')],
           Type [''array''],
           Items [Default (JObject []), Ref (oa_ref E k8sio_api_core_v1_PodCondition)]]),
         (''message'', [Type [''string''], Format '''']),
         (''reason'', [Type [''string''], Format '''']),
         (''nominatedNodeName'', [Type [''string''], Format '''']),
         (''hostIP'', [Type [''string''], Format '''']),
         (''hostIPs'', [
           VendorExtensible [(''x-kubernetes-list-type'', JString ''atomic''),
             (''x-kubernetes-patch-merge-key'', JString ''ip''), (''x-kubernetes-patch-strategy'',
             JString ''merge'')],
           Type [''array''], Items [Default (JObject []), Ref (oa_ref E k8sio_api_core_v1_HostIP)]]),
         (''podIP'', [Type [''string''], Format '''']),
         (''podIPs'', [
           VendorExtensible [(''x-kubernetes-patch-merge-key'', JString ''ip''),
             (''x-kubernetes-patch-strategy'', JString ''merge'')],
           Type [''array''], Items [Default (JObject []), Ref (oa_ref E k8sio_api_core_v1_PodIP)]]),
         (''startTime'', [Ref (oa_ref E pkg_apis_meta_v1_Time)]),
         (''initContainerStatuses'', [
           Type [''array''],
           Items [Default (JObject []), Ref (oa_ref E k8sio_api_core_v1_ContainerStatus)]]),
         (''containerStatuses'', [
           Type [''array''],
           Items [Default (JObject []), Ref (oa_ref E k8sio_api_core_v1_ContainerStatus)]]),
         (''qosClass'', [
           Type [''string''], Format '''',
           Enum [JString ''BestEffort'', JString ''Burstable'', JString ''Guaranteed'']]),
         (''ephemeralContainerStatuses'', [
           Type [''array''],
           Items [Default (JObject []), Ref (oa_ref E k8sio_api_core_v1_ContainerStatus)]]),
         (''resize'', [Type [''string''], Format '''']),
         (''resourceClaimStatuses'', [
           VendorExtensible [(''x-kubernetes-list-map-keys'', JList [JString ''name'']),
             (''x-kubernetes-list-type'', JString ''map''), (''x-kubernetes-patch-merge-key'',
             JString ''name''), (''x-kubernetes-patch-strategy'', JString ''merge,retainKeys'')],
           Type [''array''],
           Items [Default (JObject []), Ref (oa_ref E k8sio_api_core_v1_PodResourceClaimStatus)]])]],
     od_Dependencies = [k8sio_api_core_v1_ContainerStatus, k8sio_api_core_v1_HostIP,
       k8sio_api_core_v1_PodCondition, k8sio_api_core_v1_PodIP,
       k8sio_api_core_v1_PodResourceClaimStatus, pkg_apis_meta_v1_Time]\<rparr>"

definition schema_k8sio_api_core_v1_PodStatusResult :: "'r openapi \<Rightarrow> 'r openAPIDefinition" where
  "schema_k8sio_api_core_v1_PodStatusResult E = \<lparr>
     od_Schema = [
       Type [''object''],
       Properties [
         (''kind'', [Type [''string''], Format '''']),
         (''apiVersion'', [Type [''string''], Format '''']),
         (''metadata'', [Default (JObject []), Ref (oa_ref E pkg_apis_meta_v1_ObjectMeta)]),
         (''status'', [Default (JObject []), Ref (oa_ref E k8sio_api_core_v1_PodStatus)])]],
     od_Dependencies = [k8sio_api_core_v1_PodStatus, pkg_apis_meta_v1_ObjectMeta]\<rparr>"

definition schema_k8sio_api_core_v1_PodTemplate :: "'r openapi \<Rightarrow> 'r openAPIDefinition" where
  "schema_k8sio_api_core_v1_PodTemplate E = \<lparr>
     od_Schema = [
       Type [''object''],
       Properties [
         (''kind'', [Type [''string''], Format '''']),
         (''apiVersion'', [Type [''string''], Format '''']),
         (''metadata'', [Default (JObject []), Ref (oa_ref E pkg_apis_meta_v1_ObjectMeta)]),
         (''template'', [Default (JObject []), Ref (oa_ref E k8sio_api_core_v1_PodTemplateSpec)])]],
     od_Dependencies = [k8sio_api_core_v1_PodTemplateSpec, pkg_apis_meta_v1_ObjectMeta]\<rparr>"

definition schema_k8sio_api_core_v1_PodTemplateList :: "'r openapi \<Rightarrow> 'r openAPIDefinition" where
  "schema_k8sio_api_core_v1_PodTemplateList E = \<lparr>
     od_Schema = [
       Type [''object''],
       Properties [
         (''kind'', [Type [''string''], Format '''']),
         (''apiVersion'', [Type [''string''], Format '''']),
         (''metadata'', [Default (JObject []), Ref (oa_ref E pkg_apis_meta_v1_ListMeta)]),
         (''items'', [
           Type [''array''],
           Items [Default (JObject []), Ref (oa_ref E k8sio_api_core_v1_PodTemplate)]])],
       Required [''items'']],
     od_Dependencies = [k8sio_api_core_v1_PodTemplate, pkg_apis_meta_v1_ListMeta]\<rparr>"

definition schema_k8sio_api_core_v1_PodTemplateSpec :: "'r openapi \<Rightarrow> 'r openAPIDefinition" where
  "schema_k8sio_api_core_v1_PodTemplateSpec E = \<lparr>
     od_Schema = [
       Type [''object''],
       Properties [
         (''metadata'', [Default (JObject []), Ref (oa_ref E pkg_apis_meta_v1_ObjectMeta)]),
         (''spec'', [Default (JObject []), Ref (oa_ref E k8sio_api_core_v1_PodSpec)])]],
     od_Dependencies = [k8sio_api_core_v1_PodSpec, pkg_apis_meta_v1_ObjectMeta]\<rparr>"

definition schema_k8sio_api_core_v1_PortStatus :: "'r openapi \<Rightarrow> 'r openAPIDefinition" where
  "schema_k8sio_api_core_v1_PortStatus E = \<lparr>
     od_Schema = [
       Type [''object''],
       Properties [
         (''port'', [Default (JInt 0), Type [''integer''], Format ''int32'']),
         (''protocol'', [
           Default (JString ''''), Type [''string''], Format '''',
           Enum [JString ''SCTP'', JString ''TCP'', JString ''UDP'']]),
         (''error'', [Type [''string''], Format ''''])],
       Required [''port'', ''protocol'']],
     od_Dependencies = []\<rparr>"

definition schema_k8sio_api_core_v1_PortworxVolumeSource :: "'r openapi \<Rightarrow> 'r openAPIDefinition" where
  "schema_k8sio_api_core_v1_PortworxVolumeSource E = \<lparr>
     od_Schema = [
       Type [''object''],
       Properties [
         (''volumeID'', [Default (JString ''''), Type [''string''], Format '''']),
         (''fsType'', [Type [''string''], Format '''']),
         (''readOnly'', [Type [''boolean''], Format ''''])],
       Required [''volumeID'']],
     od_Dependencies = []\<rparr>"

definition schema_k8sio_api_core_v1_PreferAvoidPodsEntry :: "'r openapi \<Rightarrow> 'r openAPIDefinition" where
  "schema_k8sio_api_core_v1_PreferAvoidPodsEntry E = \<lparr>
     od_Schema = [
       Type [''object''],
       Properties [
         (''podSignature'', [Default (JObject []), Ref (oa_ref E k8sio_api_core_v1_PodSignature)]),
         (''evictionTime'', [Default (JObject []), Ref (oa_ref E pkg_apis_meta_v1_Time)]),
         (''reason'', [Type [''string''], Format '''']),
         (''message'', [Type [''string''], Format ''''])],
       Required [''podSignature'']],
     od_Dependencies = [k8sio_api_core_v1_PodSignature, pkg_apis_meta_v1_Time]\<rparr>"

definition schema_k8sio_api_core_v1_PreferredSchedulingTerm :: "'r openapi \<Rightarrow> 'r openAPIDefinition" where
  "schema_k8sio_api_core_v1_PreferredSchedulingTerm E = \<lparr>
     od_Schema = [
       Type [''object''],
       Properties [
         (''weight'', [Default (JInt 0), Type [''integer''], Format ''int32'']),
         (''preference'', [Default (JObject []), Ref (oa_ref E k8sio_api_core_v1_NodeSelectorTerm)])],
       Required [''weight'', ''preference'']],
     od_Dependencies = [k8sio_api_core_v1_NodeSelectorTerm]\<rparr>"

definition schema_k8sio_api_core_v1_Probe :: "'r openapi \<Rightarrow> 'r openAPIDefinition" where
  "schema_k8sio_api_core_v1_Probe E = \<lparr>
     od_Schema = [
       Type [''object''],
       Properties [
         (''exec'', [Ref (oa_ref E k8sio_api_core_v1_ExecAction)]),
         (''httpGet'', [Ref (oa_ref E k8sio_api_core_v1_HTTPGetAction)]),
         (''tcpSocket'', [Ref (oa_ref E k8sio_api_core_v1_TCPSocketAction)]),
         (''grpc'', [Ref (oa_ref E k8sio_api_core_v1_GRPCAction)]),
         (''initialDelaySeconds'', [Type [''integer''], Format ''int32'']),
         (''timeoutSeconds'', [Type [''integer''], Format ''int32'']),
         (''periodSeconds'', [Type [''integer''], Format ''int32'']),
         (''successThreshold'', [Type [''integer''], Format ''int32'']),
         (''failureThreshold'', [Type [''integer''], Format ''int32'']),
         (''terminationGracePeriodSeconds'', [Type [''integer''], Format ''int64''])]],
     od_Dependencies = [k8sio_api_core_v1_ExecAction, k8sio_api_core_v1_GRPCAction,
       k8sio_api_core_v1_HTTPGetAction, k8sio_api_core_v1_TCPSocketAction]\<rparr>"

definition schema_k8sio_api_core_v1_ProbeHandler :: "'r openapi \<Rightarrow> 'r openAPIDefinition" where
  "schema_k8sio_api_core_v1_ProbeHandler E = \<lparr>
     od_Schema = [
       Type [''object''],
       Properties [
         (''exec'', [Ref (oa_ref E k8sio_api_core_v1_ExecAction)]),
         (''httpGet'', [Ref (oa_ref E k8sio_api_core_v1_HTTPGetAction)]),
         (''tcpSocket'', [Ref (oa_ref E k8sio_api_core_v1_TCPSocketAction)]),
         (''grpc'', [Ref (oa_ref E k8sio_api_core_v1_GRPCAction)])]],
     od_Dependencies = [k8sio_api_core_v1_ExecAction, k8sio_api_core_v1_GRPCAction,
       k8sio_api_core_v1_HTTPGetAction, k8sio_api_core_v1_TCPSocketAction]\<rparr>"

definition schema_k8sio_api_core_v1_ProjectedVolumeSource :: "'r openapi \<Rightarrow> 'r openAPIDefinition" where
  "schema_k8sio_api_core_v1_ProjectedVolumeSource E = \<lparr>
     od_Schema = [
       Type [''object''],
       Properties [
         (''sources'', [
           Type [''array''],
           Items [Default (JObject []), Ref (oa_ref E k8sio_api_core_v1_VolumeProjection)]]),
         (''defaultMode'', [Type [''integer''], Format ''int32''])]],
     od_Dependencies = [k8sio_api_core_v1_VolumeProjection]\<rparr>"

definition schema_k8sio_api_core_v1_QuobyteVolumeSource :: "'r openapi \<Rightarrow> 'r openAPIDefinition" where
  "schema_k8sio_api_core_v1_QuobyteVolumeSource E = \<lparr>
     od_Schema = [
       Type [''object''],
       Properties [
         (''registry'', [Default (JString ''''), Type [''string''], Format '''']),
         (''volume'', [Default (JString ''''), Type [''string''], Format '''']),
         (''readOnly'', [Type [''boolean''], Format '''']),
         (''user'', [Type [''string''], Format '''']),
         (''group'', [Type [''string''], Format '''']),
         (''tenant'', [Type [''string''], Format ''''])],
       Required [''registry'', ''volume'']],
     od_Dependencies = []\<rparr>"

definition schema_k8sio_api_core_v1_RBDPersistentVolumeSource :: "'r openapi \<Rightarrow> 'r openAPIDefinition" where
  "schema_k8sio_api_core_v1_RBDPersistentVolumeSource E = \<lparr>
     od_Schema = [
       Type [''object''],
       Properties [
         (''monitors'', [
           Type [''array''], Items [Default (JString ''''), Type [''string''], Format '''']]),
         (''image'', [Default (JString ''''), Type [''string''], Format '''']),
         (''fsType'', [Type [''string''], Format '''']),
         (''pool'', [Type [''string''], Format '''']),
         (''user'', [Type [''string''], Format '''']),
         (''keyring'', [Type [''string''], Format '''']),
         (''secretRef'', [Ref (oa_ref E k8sio_api_core_v1_SecretReference)]),
         (''readOnly'', [Type [''boolean''], Format ''''])],
       Required [''monitors'', ''image'']],
     od_Dependencies = [k8sio_api_core_v1_SecretReference]\<rparr>"

definition schema_k8sio_api_core_v1_RBDVolumeSource :: "'r openapi \<Rightarrow> 'r openAPIDefinition" where
  "schema_k8sio_api_core_v1_RBDVolumeSource E = \<lparr>
     od_Schema = [
       Type [''object''],
       Properties [
         (''monitors'', [
           Type [''array''], Items [Default (JString ''''), Type [''string''], Format '''']]),
         (''image'', [Default (JString ''''), Type [''string''], Format '''']),
         (''fsType'', [Type [''string''], Format '''']),
         (''pool'', [Type [''string''], Format '''']),
         (''user'', [Type [''string''], Format '''']),
         (''keyring'', [Type [''string''], Format '''']),
         (''secretRef'', [Ref (oa_ref E k8sio_api_core_v1_LocalObjectReference)]),
         (''readOnly'', [Type [''boolean''], Format ''''])],
       Required [''monitors'', ''image'']],
     od_Dependencies = [k8sio_api_core_v1_LocalObjectReference]\<rparr>"

definition schema_k8sio_api_core_v1_RangeAllocation :: "'r openapi \<Rightarrow> 'r openAPIDefinition" where
  "schema_k8sio_api_core_v1_RangeAllocation E = \<lparr>
     od_Schema = [
       Type [''object''],
       Properties [
         (''kind'', [Type [''string''], Format '''']),
         (''apiVersion'', [Type [''string''], Format '''']),
         (''metadata'', [Default (JObject []), Ref (oa_ref E pkg_apis_meta_v1_ObjectMeta)]),
         (''range'', [Default (JString ''''), Type [''string''], Format '''']),
         (''data'', [Type [''string''], Format ''byte''])],
       Required [''range'', ''data'']],
     od_Dependencies = [pkg_apis_meta_v1_ObjectMeta]\<rparr>"

definition schema_k8sio_api_core_v1_ReplicationController :: "'r openapi \<Rightarrow> 'r openAPIDefinition" where
  "schema_k8sio_api_core_v1_ReplicationController E = \<lparr>
     od_Schema = [
       Type [''object''],
       Properties [
         (''kind'', [Type [''string''], Format '''']),
         (''apiVersion'', [Type [''string''], Format '''']),
         (''metadata'', [Default (JObject []), Ref (oa_ref E pkg_apis_meta_v1_ObjectMeta)]),
         (''spec'', [
           Default (JObject []), Ref (oa_ref E k8sio_api_core_v1_ReplicationControllerSpec)]),
         (''status'', [
           Default (JObject []), Ref (oa_ref E k8sio_api_core_v1_ReplicationControllerStatus)])]],
     od_Dependencies = [k8sio_api_core_v1_ReplicationControllerSpec,
       k8sio_api_core_v1_ReplicationControllerStatus, pkg_apis_meta_v1_ObjectMeta]\<rparr>"

definition schema_k8sio_api_core_v1_ReplicationControllerCondition :: "'r openapi \<Rightarrow> 'r openAPIDefinition" where
  "schema_k8sio_api_core_v1_ReplicationControllerCondition E = \<lparr>
     od_Schema = [
       Type [''object''],
       Properties [
         (''type'', [Default (JString ''''), Type [''string''], Format '''']),
         (''status'', [Default (JString ''''), Type [''string''], Format '''']),
         (''lastTransitionTime'', [Default (JObject []), Ref (oa_ref E pkg_apis_meta_v1_Time)]),
         (''reason'', [Type [''string''], Format '''']),
         (''message'', [Type [''string''], Format ''''])],
       Required [''type'', ''status'']],
     od_Dependencies = [pkg_apis_meta_v1_Time]\<rparr>"

definition schema_k8sio_api_core_v1_ReplicationControllerList :: "'r openapi \<Rightarrow> 'r openAPIDefinition" where
  "schema_k8sio_api_core_v1_ReplicationControllerList E = \<lparr>
     od_Schema = [
       Type [''object''],
       Properties [
         (''kind'', [Type [''string''], Format '''']),
         (''apiVersion'', [Type [''string''], Format '''']),
         (''metadata'', [Default (JObject []), Ref (oa_ref E pkg_apis_meta_v1_ListMeta)]),
         (''items'', [
           Type [''array''],
           Items [Default (JObject []), Ref (oa_ref E k8sio_api_core_v1_ReplicationController)]])],
       Required [''items'']],
     od_Dependencies = [k8sio_api_core_v1_ReplicationController, pkg_apis_meta_v1_ListMeta]\<rparr>"

definition schema_k8sio_api_core_v1_ReplicationControllerSpec :: "'r openapi \<Rightarrow> 'r openAPIDefinition" where
  "schema_k8sio_api_core_v1_ReplicationControllerSpec E = \<lparr>
     od_Schema = [
       Type [''object''],
       Properties [
         (''replicas'', [Type [''integer''], Format ''int32'']),
         (''minReadySeconds'', [Type [''integer''], Format ''int32'']),
         (''selector'', [
           VendorExtensible [(''x-kubernetes-map-type'', JString ''atomic'')], Type [''object''],
           AdditionalProperties True [Default (JString ''''), Type [''string''], Format '''']]),
         (''template'', [Ref (oa_ref E k8sio_api_core_v1_PodTemplateSpec)])]],
     od_Dependencies = [k8sio_api_core_v1_PodTemplateSpec]\<rparr>"

definition schema_k8sio_api_core_v1_ReplicationControllerStatus :: "'r openapi \<Rightarrow> 'r openAPIDefinition" where
  "schema_k8sio_api_core_v1_ReplicationControllerStatus E = \<lparr>
     od_Schema = [
       Type [''object''],
       Properties [
         (''replicas'', [Default (JInt 0), Type [''integer''], Format ''int32'']),
         (''fullyLabeledReplicas'', [Type [''integer''], Format ''int32'']),
         (''readyReplicas'', [Type [''integer''], Format ''int32'']),
         (''availableReplicas'', [Type [''integer''], Format ''int32'']),
         (''observedGeneration'', [Type [''integer''], Format ''int64'']),
         (''conditions'', [
           VendorExtensible [(''x-kubernetes-patch-merge-key'', JString ''type''),
             (''x-kubernetes-patch-strategy'', JString ''merge'')],
           Type [''array''],
           Items [
             Default (JObject []), Ref (oa_ref E k8sio_api_core_v1_ReplicationControllerCondition)]])],
       Required [''replicas'']],
     od_Dependencies = [k8sio_api_core_v1_ReplicationControllerCondition]\<rparr>"

definition schema_k8sio_api_core_v1_ResourceClaim :: "'r openapi \<Rightarrow> 'r openAPIDefinition" where
  "schema_k8sio_api_core_v1_ResourceClaim E = \<lparr>
     od_Schema = [
       Type [''object''],
       Properties [(''name'', [Default (JString ''''), Type [''string''], Format ''''])],
       Required [''name'']],
     od_Dependencies = []\<rparr>"

definition schema_k8sio_api_core_v1_ResourceFieldSelector :: "'r openapi \<Rightarrow> 'r openAPIDefinition" where
  "schema_k8sio_api_core_v1_ResourceFieldSelector E = \<lparr>
     od_Schema = [
       Type [''object''],
       Properties [
         (''containerName'', [Type [''string''], Format '''']),
         (''resource'', [Default (JString ''''), Type [''string''], Format '''']),
         (''divisor'', [
           Default (JObject []), Ref (oa_ref E apimachinery_pkg_api_resource_Quantity)])],
       Required [''resource''], VendorExtensible [(''x-kubernetes-map-type'', JString ''atomic'')]],
     od_Dependencies = [apimachinery_pkg_api_resource_Quantity]\<rparr>"

definition schema_k8sio_api_core_v1_ResourceQuota :: "'r openapi \<Rightarrow> 'r openAPIDefinition" where
  "schema_k8sio_api_core_v1_ResourceQuota E = \<lparr>
     od_Schema = [
       Type [''object''],
       Properties [
         (''kind'', [Type [''string''], Format '''']),
         (''apiVersion'', [Type [''string''], Format '''']),
         (''metadata'', [Default (JObject []), Ref (oa_ref E pkg_apis_meta_v1_ObjectMeta)]),
         (''spec'', [Default (JObject []), Ref (oa_ref E k8sio_api_core_v1_ResourceQuotaSpec)]),
         (''status'', [Default (JObject []), Ref (oa_ref E k8sio_api_core_v1_ResourceQuotaStatus)])]],
     od_Dependencies = [k8sio_api_core_v1_ResourceQuotaSpec, k8sio_api_core_v1_ResourceQuotaStatus,
       pkg_apis_meta_v1_ObjectMeta]\<rparr>"

definition schema_k8sio_api_core_v1_ResourceQuotaList :: "'r openapi \<Rightarrow> 'r openAPIDefinition" where
  "schema_k8sio_api_core_v1_ResourceQuotaList E = \<lparr>
     od_Schema = [
       Type [''object''],
       Properties [
         (''kind'', [Type [''string''], Format '''']),
         (''apiVersion'', [Type [''string''], Format '''']),
         (''metadata'', [Default (JObject []), Ref (oa_ref E pkg_apis_meta_v1_ListMeta)]),
         (''items'', [
           Type [''array''],
           Items [Default (JObject []), Ref (oa_ref E k8sio_api_core_v1_ResourceQuota)]])],
       Required [''items'']],
     od_Dependencies = [k8sio_api_core_v1_ResourceQuota, pkg_apis_meta_v1_ListMeta]\<rparr>"

definition schema_k8sio_api_core_v1_ResourceQuotaSpec :: "'r openapi \<Rightarrow> 'r openAPIDefinition" where
  "schema_k8sio_api_core_v1_ResourceQuotaSpec E = \<lparr>
     od_Schema = [
       Type [''object''],
       Properties [
         (''hard'', [
           Type [''object''],
           AdditionalProperties True [
             Default (JObject []), Ref (oa_ref E apimachinery_pkg_api_resource_Quantity)]]),
         (''scopes'', [
           Type [''array''], Items [Default (JString ''''), Type [''string''], Format '''']]),
         (''scopeSelector'', [Ref (oa_ref E k8sio_api_core_v1_ScopeSelector)])]],
     od_Dependencies = [k8sio_api_core_v1_ScopeSelector,
       apimachinery_pkg_api_resource_Quantity]\<rparr>"

definition schema_k8sio_api_core_v1_ResourceQuotaStatus :: "'r openapi \<Rightarrow> 'r openAPIDefinition" where
  "schema_k8sio_api_core_v1_ResourceQuotaStatus E = \<lparr>
     od_Schema = [
       Type [''object''],
       Properties [
         (''hard'', [
           Type [''object''],
           AdditionalProperties True [
             Default (JObject []), Ref (oa_ref E apimachinery_pkg_api_resource_Quantity)]]),
         (''used'', [
           Type [''object''],
           AdditionalProperties True [
             Default (JObject []), Ref (oa_ref E apimachinery_pkg_api_resource_Quantity)]])]],
     od_Dependencies = [apimachinery_pkg_api_resource_Quantity]\<rparr>"

definition schema_k8sio_api_core_v1_ResourceRequirements :: "'r openapi \<Rightarrow> 'r openAPIDefinition" where
  "schema_k8sio_api_core_v1_ResourceRequirements E = \<lparr>
     od_Schema = [
       Type [''object''],
       Properties [
         (''limits'', [
           Type [''object''],
           AdditionalProperties True [
             Default (JObject []), Ref (oa_ref E apimachinery_pkg_api_resource_Quantity)]]),
         (''requests'', [
           Type [''object''],
           AdditionalProperties True [
             Default (JObject []), Ref (oa_ref E apimachinery_pkg_api_resource_Quantity)]]),
         (''claims'', [
           VendorExtensible [(''x-kubernetes-list-map-keys'', JList [JString ''name'']),
             (''x-kubernetes-list-type'', JString ''map'')],
           Type [''array''],
           Items [Default (JObject []), Ref (oa_ref E k8sio_api_core_v1_ResourceClaim)]])]],
     od_Dependencies = [k8sio_api_core_v1_ResourceClaim,
       apimachinery_pkg_api_resource_Quantity]\<rparr>"

definition schema_k8sio_api_core_v1_SELinuxOptions :: "'r openapi \<Rightarrow> 'r openAPIDefinition" where
  "schema_k8sio_api_core_v1_SELinuxOptions E = \<lparr>
     od_Schema = [
       Type [''object''],
       Properties [
         (''user'', [Type [''string''], Format '''']),
         (''role'', [Type [''string''], Format '''']),
         (''type'', [Type [''string''], Format '''']),
         (''level'', [Type [''string''], Format ''''])]],
     od_Dependencies = []\<rparr>"

definition schema_k8sio_api_core_v1_ScaleIOPersistentVolumeSource :: "'r openapi \<Rightarrow> 'r openAPIDefinition" where
  "schema_k8sio_api_core_v1_ScaleIOPersistentVolumeSource E = \<lparr>
     od_Schema = [
       Type [''object''],
       Properties [
         (''gateway'', [Default (JString ''''), Type [''string''], Format '''']),
         (''system'', [Default (JString ''''), Type [''string''], Format '''']),
         (''secretRef'', [Ref (oa_ref E k8sio_api_core_v1_SecretReference)]),
         (''sslEnabled'', [Type [''boolean''], Format '''']),
         (''protectionDomain'', [Type [''string''], Format '''']),
         (''storagePool'', [Type [''string''], Format '''']),
         (''storageMode'', [Type [''string''], Format '''']),
         (''volumeName'', [Type [''string''], Format '''']),
         (''fsType'', [Type [''string''], Format '''']),
         (''readOnly'', [Type [''boolean''], Format ''''])],
       Required [''gateway'', ''system'', ''secretRef'']],
     od_Dependencies = [k8sio_api_core_v1_SecretReference]\<rparr>"

definition schema_k8sio_api_core_v1_ScaleIOVolumeSource :: "'r openapi \<Rightarrow> 'r openAPIDefinition" where
  "schema_k8sio_api_core_v1_ScaleIOVolumeSource E = \<lparr>
     od_Schema = [
       Type [''object''],
       Properties [
         (''gateway'', [Default (JString ''''), Type [''string''], Format '''']),
         (''system'', [Default (JString ''''), Type [''string''], Format '''']),
         (''secretRef'', [Ref (oa_ref E k8sio_api_core_v1_LocalObjectReference)]),
         (''sslEnabled'', [Type [''boolean''], Format '''']),
         (''protectionDomain'', [Type [''string''], Format '''']),
         (''storagePool'', [Type [''string''], Format '''']),
         (''storageMode'', [Type [''string''], Format '''']),
         (''volumeName'', [Type [''string''], Format '''']),
         (''fsType'', [Type [''string''], Format '''']),
         (''readOnly'', [Type [''boolean''], Format ''''])],
       Required [''gateway'', ''system'', ''secretRef'']],
     od_Dependencies = [k8sio_api_core_v1_LocalObjectReference]\<rparr>"

definition schema_k8sio_api_core_v1_ScopeSelector :: "'r openapi \<Rightarrow> 'r openAPIDefinition" where
  "schema_k8sio_api_core_v1_ScopeSelector E = \<lparr>
     od_Schema = [
       Type [''object''],
       Properties [
         (''matchExpressions'', [
           Type [''array''],
           Items [
             Default (JObject []),
             Ref (oa_ref E k8sio_api_core_v1_ScopedResourceSelectorRequirement)]])],
       VendorExtensible [(''x-kubernetes-map-type'', JString ''atomic'')]],
     od_Dependencies = [k8sio_api_core_v1_ScopedResourceSelectorRequirement]\<rparr>"

definition schema_k8sio_api_core_v1_ScopedResourceSelectorRequirement :: "'r openapi \<Rightarrow> 'r openAPIDefinition" where
  "schema_k8sio_api_core_v1_ScopedResourceSelectorRequirement E = \<lparr>
     od_Schema = [
       Type [''object''],
       Properties [
         (''scopeName'', [
           Default (JString ''''), Type [''string''], Format '''',
           Enum [JString ''BestEffort'', JString ''CrossNamespacePodAffinity'', JString
             ''NotBestEffort'', JString ''NotTerminating'', JString ''PriorityClass'', JString
             ''Terminating'']]),
         (''operator'', [
           Default (JString ''''), Type [''string''], Format '''',
           Enum [JString ''DoesNotExist'', JString ''Exists'', JString ''In'', JString ''NotIn'']]),
         (''values'', [
           Type [''array''], Items [Default (JString ''''), Type [''string''], Format '''']])],
       Required [''scopeName'', ''operator'']],
     od_Dependencies = []\<rparr>"

definition schema_k8sio_api_core_v1_SeccompProfile :: "'r openapi \<Rightarrow> 'r openAPIDefinition" where
  "schema_k8sio_api_core_v1_SeccompProfile E = \<lparr>
     od_Schema = [
       Type [''object''],
       Properties [
         (''type'', [
           Default (JString ''''), Type [''string''], Format '''',
           Enum [JString ''Localhost'', JString ''RuntimeDefault'', JString ''Unconfined'']]),
         (''localhostProfile'', [Type [''string''], Format ''''])],
       Required [''type''],
       VendorExtensible [(''x-kubernetes-unions'', JList [JObject [(''discriminator'', JString
         ''type''), (''fields-to-discriminateBy'', JObject [(''localhostProfile'', JString
         ''LocalhostProfile'')])]])]],
     od_Dependencies = []\<rparr>"

definition schema_k8sio_api_core_v1_Secret :: "'r openapi \<Rightarrow> 'r openAPIDefinition" where
  "schema_k8sio_api_core_v1_Secret E = \<lparr>
     od_Schema = [
       Type [''object''],
       Properties [
         (''kind'', [Type [''string''], Format '''']),
         (''apiVersion'', [Type [''string''], Format '''']),
         (''metadata'', [Default (JObject []), Ref (oa_ref E pkg_apis_meta_v1_ObjectMeta)]),
         (''immutable'', [Type [''boolean''], Format '''']),
         (''data'', [
           Type [''object''],
           AdditionalProperties True [Type [''string''], Format ''byte'']]),
         (''stringData'', [
           Type [''object''],
           AdditionalProperties True [Default (JString ''''), Type [''string''], Format '''']]),
         (''type'', [Type [''string''], Format ''''])]],
     od_Dependencies = [pkg_apis_meta_v1_ObjectMeta]\<rparr>"

definition schema_k8sio_api_core_v1_SecretEnvSource :: "'r openapi \<Rightarrow> 'r openAPIDefinition" where
  "schema_k8sio_api_core_v1_SecretEnvSource E = \<lparr>
     od_Schema = [
       Type [''object''],
       Properties [
         (''name'', [Type [''string''], Format '''']),
         (''optional'', [Type [''boolean''], Format ''''])]],
     od_Dependencies = []\<rparr>"

definition schema_k8sio_api_core_v1_SecretKeySelector :: "'r openapi \<Rightarrow> 'r openAPIDefinition" where
  "schema_k8sio_api_core_v1_SecretKeySelector E = \<lparr>
     od_Schema = [
       Type [''object''],
       Properties [
         (''name'', [Type [''string''], Format '''']),
         (''key'', [Default (JString ''''), Type [''string''], Format '''']),
         (''optional'', [Type [''boolean''], Format ''''])],
       Required [''key''], VendorExtensible [(''x-kubernetes-map-type'', JString ''atomic'')]],
     od_Dependencies = []\<rparr>"

definition schema_k8sio_api_core_v1_SecretList :: "'r openapi \<Rightarrow> 'r openAPIDefinition" where
  "schema_k8sio_api_core_v1_SecretList E = \<lparr>
     od_Schema = [
       Type [''object''],
       Properties [
         (''kind'', [Type [''string''], Format '''']),
         (''apiVersion'', [Type [''string''], Format '''']),
         (''metadata'', [Default (JObject []), Ref (oa_ref E pkg_apis_meta_v1_ListMeta)]),
         (''items'', [
           Type [''array''], Items [Default (JObject []), Ref (oa_ref E k8sio_api_core_v1_Secret)]])],
       Required [''items'']],
     od_Dependencies = [k8sio_api_core_v1_Secret, pkg_apis_meta_v1_ListMeta]\<rparr>"

definition schema_k8sio_api_core_v1_SecretProjection :: "'r openapi \<Rightarrow> 'r openAPIDefinition" where
  "schema_k8sio_api_core_v1_SecretProjection E = \<lparr>
     od_Schema = [
       Type [''object''],
       Properties [
         (''name'', [Type [''string''], Format '''']),
         (''items'', [
           Type [''array''],
           Items [Default (JObject []), Ref (oa_ref E k8sio_api_core_v1_KeyToPath)]]),
         (''optional'', [Type [''boolean''], Format ''''])]],
     od_Dependencies = [k8sio_api_core_v1_KeyToPath]\<rparr>"

definition schema_k8sio_api_core_v1_SecretReference :: "'r openapi \<Rightarrow> 'r openAPIDefinition" where
  "schema_k8sio_api_core_v1_SecretReference E = \<lparr>
     od_Schema = [
       Type [''object''],
       Properties [
         (''name'', [Type [''string''], Format '''']),
         (''namespace'', [Type [''string''], Format ''''])],
       VendorExtensible [(''x-kubernetes-map-type'', JString ''atomic'')]],
     od_Dependencies = []\<rparr>"

definition schema_k8sio_api_core_v1_SecretVolumeSource :: "'r openapi \<Rightarrow> 'r openAPIDefinition" where
  "schema_k8sio_api_core_v1_SecretVolumeSource E = \<lparr>
     od_Schema = [
       Type [''object''],
       Properties [
         (''secretName'', [Type [''string''], Format '''']),
         (''items'', [
           Type [''array''],
           Items [Default (JObject []), Ref (oa_ref E k8sio_api_core_v1_KeyToPath)]]),
         (''defaultMode'', [Type [''integer''], Format ''int32'']),
         (''optional'', [Type [''boolean''], Format ''''])]],
     od_Dependencies = [k8sio_api_core_v1_KeyToPath]\<rparr>"

definition schema_k8sio_api_core_v1_SecurityContext :: "'r openapi \<Rightarrow> 'r openAPIDefinition" where
  "schema_k8sio_api_core_v1_SecurityContext E = \<lparr>
     od_Schema = [
       Type [''object''],
       Properties [
         (''capabilities'', [Ref (oa_ref E k8sio_api_core_v1_Capabilities)]),
         (''privileged'', [Type [''boolean''], Format '''']),
         (''seLinuxOptions'', [Ref (oa_ref E k8sio_api_core_v1_SELinuxOptions)]),
         (''windowsOptions'', [Ref (oa_ref E k8sio_api_core_v1_WindowsSecurityContextOptions)]),
         (''runAsUser'', [Type [''integer''], Format ''int64'']),
         (''runAsGroup'', [Type [''integer''], Format ''int64'']),
         (''runAsNonRoot'', [Type [''boolean''], Format '''']),
         (''readOnlyRootFilesystem'', [Type [''boolean''], Format '''']),
         (''allowPrivilegeEscalation'', [Type [''boolean''], Format '''']),
         (''procMount'', [
           Type [''string''], Format '''', Enum [JString ''Default'', JString ''Unmasked'']]),
         (''seccompProfile'', [Ref (oa_ref E k8sio_api_core_v1_SeccompProfile)])]],
     od_Dependencies = [k8sio_api_core_v1_Capabilities, k8sio_api_core_v1_SELinuxOptions,
       k8sio_api_core_v1_SeccompProfile, k8sio_api_core_v1_WindowsSecurityContextOptions]\<rparr>"

definition schema_k8sio_api_core_v1_SerializedReference :: "'r openapi \<Rightarrow> 'r openAPIDefinition" where
  "schema_k8sio_api_core_v1_SerializedReference E = \<lparr>
     od_Schema = [
       Type [''object''],
       Properties [
         (''kind'', [Type [''string''], Format '''']),
         (''apiVersion'', [Type [''string''], Format '''']),
         (''reference'', [Default (JObject []), Ref (oa_ref E k8sio_api_core_v1_ObjectReference)])]],
     od_Dependencies = [k8sio_api_core_v1_ObjectReference]\<rparr>"

definition schema_k8sio_api_core_v1_Service :: "'r openapi \<Rightarrow> 'r openAPIDefinition" where
  "schema_k8sio_api_core_v1_Service E = \<lparr>
     od_Schema = [
       Type [''object''],
       Properties [
         (''kind'', [Type [''string''], Format '''']),
         (''apiVersion'', [Type [''string''], Format '''']),
         (''metadata'', [Default (JObject []), Ref (oa_ref E pkg_apis_meta_v1_ObjectMeta)]),
         (''spec'', [Default (JObject []), Ref (oa_ref E k8sio_api_core_v1_ServiceSpec)]),
         (''status'', [Default (JObject []), Ref (oa_ref E k8sio_api_core_v1_ServiceStatus)])]],
     od_Dependencies = [k8sio_api_core_v1_ServiceSpec, k8sio_api_core_v1_ServiceStatus,
       pkg_apis_meta_v1_ObjectMeta]\<rparr>"

definition schema_k8sio_api_core_v1_ServiceAccount :: "'r openapi \<Rightarrow> 'r openAPIDefinition" where
  "schema_k8sio_api_core_v1_ServiceAccount E = \<lparr>
     od_Schema = [
       Type [''object''],
       Properties [
         (''kind'', [Type [''string''], Format '''']),
         (''apiVersion'', [Type [''string''], Format '''']),
         (''metadata'', [Default (JObject []), Ref (oa_ref E pkg_apis_meta_v1_ObjectMeta)]),
         (''secrets'', [
           VendorExtensible [(''x-kubernetes-patch-merge-key'', JString ''name''),
             (''x-kubernetes-patch-strategy'', JString ''merge'')],
           Type [''array''],
           Items [Default (JObject []), Ref (oa_ref E k8sio_api_core_v1_ObjectReference)]]),
         (''imagePullSecrets'', [
           Type [''array''],
           Items [Default (JObject []), Ref (oa_ref E k8sio_api_core_v1_LocalObjectReference)]]),
         (''automountServiceAccountToken'', [Type [''boolean''], Format ''''])]],
     od_Dependencies = [k8sio_api_core_v1_LocalObjectReference, k8sio_api_core_v1_ObjectReference,
       pkg_apis_meta_v1_ObjectMeta]\<rparr>"

definition schema_k8sio_api_core_v1_ServiceAccountList :: "'r openapi \<Rightarrow> 'r openAPIDefinition" where
  "schema_k8sio_api_core_v1_ServiceAccountList E = \<lparr>
     od_Schema = [
       Type [''object''],
       Properties [
         (''kind'', [Type [''string''], Format '''']),
         (''apiVersion'', [Type [''string''], Format '''']),
         (''metadata'', [Default (JObject []), Ref (oa_ref E pkg_apis_meta_v1_ListMeta)]),
         (''items'', [
           Type [''array''],
           Items [Default (JObject []), Ref (oa_ref E k8sio_api_core_v1_ServiceAccount)]])],
       Required [''items'']],
     od_Dependencies = [k8sio_api_core_v1_ServiceAccount, pkg_apis_meta_v1_ListMeta]\<rparr>"

definition schema_k8sio_api_core_v1_ServiceAccountTokenProjection :: "'r openapi \<Rightarrow> 'r openAPIDefinition" where
  "schema_k8sio_api_core_v1_ServiceAccountTokenProjection E = \<lparr>
     od_Schema = [
       Type [''object''],
       Properties [
         (''audience'', [Type [''string''], Format '''']),
         (''expirationSeconds'', [Type [''integer''], Format ''int64'']),
         (''path'', [Default (JString ''''), Type [''string''], Format ''''])],
       Required [''path'']],
     od_Dependencies = []\<rparr>"

definition schema_k8sio_api_core_v1_ServiceList :: "'r openapi \<Rightarrow> 'r openAPIDefinition" where
  "schema_k8sio_api_core_v1_ServiceList E = \<lparr>
     od_Schema = [
       Type [''object''],
       Properties [
         (''kind'', [Type [''string''], Format '''']),
         (''apiVersion'', [Type [''string''], Format '''']),
         (''metadata'', [Default (JObject []), Ref (oa_ref E pkg_apis_meta_v1_ListMeta)]),
         (''items'', [
           Type [''array''], Items [Default (JObject []), Ref (oa_ref E k8sio_api_core_v1_Service)]])],
       Required [''items'']],
     od_Dependencies = [k8sio_api_core_v1_Service, pkg_apis_meta_v1_ListMeta]\<rparr>"

definition schema_k8sio_api_core_v1_ServicePort :: "'r openapi \<Rightarrow> 'r openAPIDefinition" where
  "schema_k8sio_api_core_v1_ServicePort E = \<lparr>
     od_Schema = [
       Type [''object''],
       Properties [
         (''name'', [Type [''string''], Format '''']),
         (''protocol'', [
           Default (JString ''TCP''), Type [''string''], Format '''',
           Enum [JString ''SCTP'', JString ''TCP'', JString ''UDP'']]),
         (''appProtocol'', [Type [''string''], Format '''']),
         (''port'', [Default (JInt 0), Type [''integer''], Format ''int32'']),
         (''targetPort'', [
           Default (JObject []), Ref (oa_ref E k8sio_apimachinery_pkg_util_intstr_IntOrString)]),
         (''nodePort'', [Type [''integer''], Format ''int32''])],
       Required [''port'']],
     od_Dependencies = [k8sio_apimachinery_pkg_util_intstr_IntOrString]\<rparr>"

definition schema_k8sio_api_core_v1_ServiceProxyOptions :: "'r openapi \<Rightarrow> 'r openAPIDefinition" where
  "schema_k8sio_api_core_v1_ServiceProxyOptions E = \<lparr>
     od_Schema = [
       Type [''object''],
       Properties [
         (''kind'', [Type [''string''], Format '''']),
         (''apiVersion'', [Type [''string''], Format '''']),
         (''path'', [Type [''string''], Format ''''])]],
     od_Dependencies = []\<rparr>"

definition schema_k8sio_api_core_v1_ServiceSpec :: "'r openapi \<Rightarrow> 'r openAPIDefinition" where
  "schema_k8sio_api_core_v1_ServiceSpec E = \<lparr>
     od_Schema = [
       Type [''object''],
       Properties [
         (''ports'', [
           VendorExtensible [(''x-kubernetes-list-map-keys'', JList [JString ''port'', JString
             ''protocol'']), (''x-kubernetes-list-type'', JString ''map''),
             (''x-kubernetes-patch-merge-key'', JString ''port''), (''x-kubernetes-patch-strategy'',
             JString ''merge'')],
           Type [''array''],
           Items [Default (JObject []), Ref (oa_ref E k8sio_api_core_v1_ServicePort)]]),
         (''selector'', [
           VendorExtensible [(''x-kubernetes-map-type'', JString ''atomic'')], Type [''object''],
           AdditionalProperties True [Default (JString ''''), Type [''string''], Format '''']]),
         (''clusterIP'', [Type [''string''], Format '''']),
         (''clusterIPs'', [
           VendorExtensible [(''x-kubernetes-list-type'', JString ''atomic'')], Type [''array''],
           Items [Default (JString ''''), Type [''string''], Format '''']]),
         (''type'', [
           Type [''string''], Format '''',
           Enum [JString ''ClusterIP'', JString ''ExternalName'', JString ''LoadBalancer'', JString
             ''NodePort'']]),
         (''externalIPs'', [
           Type [''array''], Items [Default (JString ''''), Type [''string''], Format '''']]),
         (''sessionAffinity'', [
           Type [''string''], Format '''', Enum [JString ''ClientIP'', JString ''None'']]),
         (''loadBalancerIP'', [Type [''string''], Format '''']),
         (''loadBalancerSourceRanges'', [
           Type [''array''], Items [Default (JString ''''), Type [''string''], Format '''']]),
         (''externalName'', [Type [''string''], Format '''']),
         (''externalTrafficPolicy'', [
           Type [''string''], Format '''',
           Enum [JString ''Cluster'', JString ''Cluster'', JString ''Local'', JString ''Local'']]),
         (''healthCheckNodePort'', [Type [''integer''], Format ''int32'']),
         (''publishNotReadyAddresses'', [Type [''boolean''], Format '''']),
         (''sessionAffinityConfig'', [Ref (oa_ref E k8sio_api_core_v1_SessionAffinityConfig)]),
         (''ipFamilies'', [
           VendorExtensible [(''x-kubernetes-list-type'', JString ''atomic'')], Type [''array''],
           Items [Default (JString ''''), Type [''string''], Format '''']]),
         (''ipFamilyPolicy'', [
           Type [''string''], Format '''',
           Enum [JString ''PreferDualStack'', JString ''RequireDualStack'', JString ''SingleStack'']]),
         (''allocateLoadBalancerNodePorts'', [Type [''boolean''], Format '''']),
         (''loadBalancerClass'', [Type [''string''], Format '''']),
         (''internalTrafficPolicy'', [
           Type [''string''], Format '''', Enum [JString ''Cluster'', JString ''Local'']])]],
     od_Dependencies = [k8sio_api_core_v1_ServicePort,
       k8sio_api_core_v1_SessionAffinityConfig]\<rparr>"

definition schema_k8sio_api_core_v1_ServiceStatus :: "'r openapi \<Rightarrow> 'r openAPIDefinition" where
  "schema_k8sio_api_core_v1_ServiceStatus E = \<lparr>
     od_Schema = [
       Type [''object''],
       Properties [
         (''loadBalancer'', [
           Default (JObject []), Ref (oa_ref E k8sio_api_core_v1_LoadBalancerStatus)]),
         (''conditions'', [
           VendorExtensible [(''x-kubernetes-list-map-keys'', JList [JString ''type'']),
             (''x-kubernetes-list-type'', JString ''map''), (''x-kubernetes-patch-merge-key'',
             JString ''type''), (''x-kubernetes-patch-strategy'', JString ''merge'')],
           Type [''array''], Items [Default (JObject []), Ref (oa_ref E pkg_apis_meta_v1_Condition)]])]],
     od_Dependencies = [k8sio_api_core_v1_LoadBalancerStatus, pkg_apis_meta_v1_Condition]\<rparr>"

definition schema_k8sio_api_core_v1_SessionAffinityConfig :: "'r openapi \<Rightarrow> 'r openAPIDefinition" where
  "schema_k8sio_api_core_v1_SessionAffinityConfig E = \<lparr>
     od_Schema = [
       Type [''object''],
       Properties [(''clientIP'', [Ref (oa_ref E k8sio_api_core_v1_ClientIPConfig)])]],
     od_Dependencies = [k8sio_api_core_v1_ClientIPConfig]\<rparr>"

definition schema_k8sio_api_core_v1_StorageOSPersistentVolumeSource :: "'r openapi \<Rightarrow> 'r openAPIDefinition" where
  "schema_k8sio_api_core_v1_StorageOSPersistentVolumeSource E = \<lparr>
     od_Schema = [
       Type [''object''],
       Properties [
         (''volumeName'', [Type [''string''], Format '''']),
         (''volumeNamespace'', [Type [''string''], Format '''']),
         (''fsType'', [Type [''string''], Format '''']),
         (''readOnly'', [Type [''boolean''], Format '''']),
         (''secretRef'', [Ref (oa_ref E k8sio_api_core_v1_ObjectReference)])]],
     od_Dependencies = [k8sio_api_core_v1_ObjectReference]\<rparr>"

definition schema_k8sio_api_core_v1_StorageOSVolumeSource :: "'r openapi \<Rightarrow> 'r openAPIDefinition" where
  "schema_k8sio_api_core_v1_StorageOSVolumeSource E = \<lparr>
     od_Schema = [
       Type [''object''],
       Properties [
         (''volumeName'', [Type [''string''], Format '''']),
         (''volumeNamespace'', [Type [''string''], Format '''']),
         (''fsType'', [Type [''string''], Format '''']),
         (''readOnly'', [Type [''boolean''], Format '''']),
         (''secretRef'', [Ref (oa_ref E k8sio_api_core_v1_LocalObjectReference)])]],
     od_Dependencies = [k8sio_api_core_v1_LocalObjectReference]\<rparr>"

definition schema_k8sio_api_core_v1_Sysctl :: "'r openapi \<Rightarrow> 'r openAPIDefinition" where
  "schema_k8sio_api_core_v1_Sysctl E = \<lparr>
     od_Schema = [
       Type [''object''],
       Properties [
         (''name'', [Default (JString ''''), Type [''string''], Format '''']),
         (''value'', [Default (JString ''''), Type [''string''], Format ''''])],
       Required [''name'', ''value'']],
     od_Dependencies = []\<rparr>"

definition schema_k8sio_api_core_v1_TCPSocketAction :: "'r openapi \<Rightarrow> 'r openAPIDefinition" where
  "schema_k8sio_api_core_v1_TCPSocketAction E = \<lparr>
     od_Schema = [
       Type [''object''],
       Properties [
         (''port'', [
           Default (JObject []), Ref (oa_ref E k8sio_apimachinery_pkg_util_intstr_IntOrString)]),
         (''host'', [Type [''string''], Format ''''])],
       Required [''port'']],
     od_Dependencies = [k8sio_apimachinery_pkg_util_intstr_IntOrString]\<rparr>"

definition schema_k8sio_api_core_v1_Taint :: "'r openapi \<Rightarrow> 'r openAPIDefinition" where
  "schema_k8sio_api_core_v1_Taint E = \<lparr>
     od_Schema = [
       Type [''object''],
       Properties [
         (''key'', [Default (JString ''''), Type [''string''], Format '''']),
         (''value'', [Type [''string''], Format '''']),
         (''effect'', [
           Default (JString ''''), Type [''string''], Format '''',
           Enum [JString ''NoExecute'', JString ''NoSchedule'', JString ''PreferNoSchedule'']]),
         (''timeAdded'', [Ref (oa_ref E pkg_apis_meta_v1_Time)])],
       Required [''key'', ''effect'']],
     od_Dependencies = [pkg_apis_meta_v1_Time]\<rparr>"

definition schema_k8sio_api_core_v1_Toleration :: "'r openapi \<Rightarrow> 'r openAPIDefinition" where
  "schema_k8sio_api_core_v1_Toleration E = \<lparr>
     od_Schema = [
       Type [''object''],
       Properties [
         (''key'', [Type [''string''], Format '''']),
         (''operator'', [
           Type [''string''], Format '''', Enum [JString ''Equal'', JString ''Exists'']]),
         (''value'', [Type [''string''], Format '''']),
         (''effect'', [
           Type [''string''], Format '''',
           Enum [JString ''NoExecute'', JString ''NoSchedule'', JString ''PreferNoSchedule'']]),
         (''tolerationSeconds'', [Type [''integer''], Format ''int64''])]],
     od_Dependencies = []\<rparr>"

definition schema_k8sio_api_core_v1_TopologySelectorLabelRequirement :: "'r openapi \<Rightarrow> 'r openAPIDefinition" where
  "schema_k8sio_api_core_v1_TopologySelectorLabelRequirement E = \<lparr>
     od_Schema = [
       Type [''object''],
       Properties [
         (''key'', [Default (JString ''''), Type [''string''], Format '''']),
         (''values'', [
           Type [''array''], Items [Default (JString ''''), Type [''string''], Format '''']])],
       Required [''key'', ''values'']],
     od_Dependencies = []\<rparr>"

definition schema_k8sio_api_core_v1_TopologySelectorTerm :: "'r openapi \<Rightarrow> 'r openAPIDefinition" where
  "schema_k8sio_api_core_v1_TopologySelectorTerm E = \<lparr>
     od_Schema = [
       Type [''object''],
       Properties [
         (''matchLabelExpressions'', [
           Type [''array''],
           Items [
             Default (JObject []), Ref (oa_ref E k8sio_api_core_v1_TopologySelectorLabelRequirement)]])],
       VendorExtensible [(''x-kubernetes-map-type'', JString ''atomic'')]],
     od_Dependencies = [k8sio_api_core_v1_TopologySelectorLabelRequirement]\<rparr>"

definition schema_k8sio_api_core_v1_TopologySpreadConstraint :: "'r openapi \<Rightarrow> 'r openAPIDefinition" where
  "schema_k8sio_api_core_v1_TopologySpreadConstraint E = \<lparr>
     od_Schema = [
       Type [''object''],
       Properties [
         (''maxSkew'', [Default (JInt 0), Type [''integer''], Format ''int32'']),
         (''topologyKey'', [Default (JString ''''), Type [''string''], Format '''']),
         (''whenUnsatisfiable'', [
           Default (JString ''''), Type [''string''], Format '''',
           Enum [JString ''DoNotSchedule'', JString ''ScheduleAnyway'']]),
         (''labelSelector'', [Ref (oa_ref E pkg_apis_meta_v1_LabelSelector)]),
         (''minDomains'', [Type [''integer''], Format ''int32'']),
         (''nodeAffinityPolicy'', [
           Type [''string''], Format '''', Enum [JString ''Honor'', JString ''Ignore'']]),
         (''nodeTaintsPolicy'', [
           Type [''string''], Format '''', Enum [JString ''Honor'', JString ''Ignore'']]),
         (''matchLabelKeys'', [
           VendorExtensible [(''x-kubernetes-list-type'', JString ''atomic'')], Type [''array''],
           Items [Default (JString ''''), Type [''string''], Format '''']])],
       Required [''maxSkew'', ''topologyKey'', ''whenUnsatisfiable'']],
     od_Dependencies = [pkg_apis_meta_v1_LabelSelector]\<rparr>"

definition schema_k8sio_api_core_v1_TypedLocalObjectReference :: "'r openapi \<Rightarrow> 'r openAPIDefinition" where
  "schema_k8sio_api_core_v1_TypedLocalObjectReference E = \<lparr>
     od_Schema = [
       Type [''object''],
       Properties [
         (''apiGroup'', [Type [''string''], Format '''']),
         (''kind'', [Default (JString ''''), Type [''string''], Format '''']),
         (''name'', [Default (JString ''''), Type [''string''], Format ''''])],
       Required [''kind'', ''name''],
       VendorExtensible [(''x-kubernetes-map-type'', JString ''atomic'')]],
     od_Dependencies = []\<rparr>"

definition schema_k8sio_api_core_v1_TypedObjectReference :: "'r openapi \<Rightarrow> 'r openAPIDefinition" where
  "schema_k8sio_api_core_v1_TypedObjectReference E = \<lparr>
     od_Schema = [
       Type [''object''],
       Properties [
         (''apiGroup'', [Type [''string''], Format '''']),
         (''kind'', [Default (JString ''''), Type [''string''], Format '''']),
         (''name'', [Default (JString ''''), Type [''string''], Format '''']),
         (''namespace'', [Type [''string''], Format ''''])],
       Required [''kind'', ''name'']],
     od_Dependencies = []\<rparr>"

definition schema_k8sio_api_core_v1_Volume :: "'r openapi \<Rightarrow> 'r openAPIDefinition" where
  "schema_k8sio_api_core_v1_Volume E = \<lparr>
     od_Schema = [
       Type [''object''],
       Properties [
         (''name'', [Default (JString ''''), Type [''string''], Format '''']),
         (''hostPath'', [Ref (oa_ref E k8sio_api_core_v1_HostPathVolumeSource)]),
         (''emptyDir'', [Ref (oa_ref E k8sio_api_core_v1_EmptyDirVolumeSource)]),
         (''gcePersistentDisk'', [Ref (oa_ref E k8sio_api_core_v1_GCEPersistentDiskVolumeSource)]),
         (''awsElasticBlockStore'', [
           Ref (oa_ref E k8sio_api_core_v1_AWSElasticBlockStoreVolumeSource)]),
         (''gitRepo'', [Ref (oa_ref E k8sio_api_core_v1_GitRepoVolumeSource)]),
         (''secret'', [Ref (oa_ref E k8sio_api_core_v1_SecretVolumeSource)]),
         (''nfs'', [Ref (oa_ref E k8sio_api_core_v1_NFSVolumeSource)]),
         (''iscsi'', [Ref (oa_ref E k8sio_api_core_v1_ISCSIVolumeSource)]),
         (''glusterfs'', [Ref (oa_ref E k8sio_api_core_v1_GlusterfsVolumeSource)]),
         (''persistentVolumeClaim'', [
           Ref (oa_ref E k8sio_api_core_v1_PersistentVolumeClaimVolumeSource)]),
         (''rbd'', [Ref (oa_ref E k8sio_api_core_v1_RBDVolumeSource)]),
         (''flexVolume'', [Ref (oa_ref E k8sio_api_core_v1_FlexVolumeSource)]),
         (''cinder'', [Ref (oa_ref E k8sio_api_core_v1_CinderVolumeSource)]),
         (''cephfs'', [Ref (oa_ref E k8sio_api_core_v1_CephFSVolumeSource)]),
         (''flocker'', [Ref (oa_ref E k8sio_api_core_v1_FlockerVolumeSource)]),
         (''downwardAPI'', [Ref (oa_ref E k8sio_api_core_v1_DownwardAPIVolumeSource)]),
         (''fc'', [Ref (oa_ref E k8sio_api_core_v1_FCVolumeSource)]),
         (''azureFile'', [Ref (oa_ref E k8sio_api_core_v1_AzureFileVolumeSource)]),
         (''configMap'', [Ref (oa_ref E k8sio_api_core_v1_ConfigMapVolumeSource)]),
         (''vsphereVolume'', [Ref (oa_ref E k8sio_api_core_v1_VsphereVirtualDiskVolumeSource)]),
         (''quobyte'', [Ref (oa_ref E k8sio_api_core_v1_QuobyteVolumeSource)]),
         (''azureDisk'', [Ref (oa_ref E k8sio_api_core_v1_AzureDiskVolumeSource)]),
         (''photonPersistentDisk'', [
           Ref (oa_ref E k8sio_api_core_v1_PhotonPersistentDiskVolumeSource)]),
         (''projected'', [Ref (oa_ref E k8sio_api_core_v1_ProjectedVolumeSource)]),
         (''portworxVolume'', [Ref (oa_ref E k8sio_api_core_v1_PortworxVolumeSource)]),
         (''scaleIO'', [Ref (oa_ref E k8sio_api_core_v1_ScaleIOVolumeSource)]),
         (''storageos'', [Ref (oa_ref E k8sio_api_core_v1_StorageOSVolumeSource)]),
         (''csi'', [Ref (oa_ref E k8sio_api_core_v1_CSIVolumeSource)]),
         (''ephemeral'', [Ref (oa_ref E k8sio_api_core_v1_EphemeralVolumeSource)])],
       Required [''name'']],
     od_Dependencies = [k8sio_api_core_v1_AWSElasticBlockStoreVolumeSource,
       k8sio_api_core_v1_AzureDiskVolumeSource, k8sio_api_core_v1_AzureFileVolumeSource,
       k8sio_api_core_v1_CSIVolumeSource, k8sio_api_core_v1_CephFSVolumeSource,
       k8sio_api_core_v1_CinderVolumeSource, k8sio_api_core_v1_ConfigMapVolumeSource,
       k8sio_api_core_v1_DownwardAPIVolumeSource, k8sio_api_core_v1_EmptyDirVolumeSource,
       k8sio_api_core_v1_EphemeralVolumeSource, k8sio_api_core_v1_FCVolumeSource,
       k8sio_api_core_v1_FlexVolumeSource, k8sio_api_core_v1_FlockerVolumeSource,
       k8sio_api_core_v1_GCEPersistentDiskVolumeSource, k8sio_api_core_v1_GitRepoVolumeSource,
       k8sio_api_core_v1_GlusterfsVolumeSource, k8sio_api_core_v1_HostPathVolumeSource,
       k8sio_api_core_v1_ISCSIVolumeSource, k8sio_api_core_v1_NFSVolumeSource,
       k8sio_api_core_v1_PersistentVolumeClaimVolumeSource,
       k8sio_api_core_v1_PhotonPersistentDiskVolumeSource, k8sio_api_core_v1_PortworxVolumeSource,
       k8sio_api_core_v1_ProjectedVolumeSource, k8sio_api_core_v1_QuobyteVolumeSource,
       k8sio_api_core_v1_RBDVolumeSource, k8sio_api_core_v1_ScaleIOVolumeSource,
       k8sio_api_core_v1_SecretVolumeSource, k8sio_api_core_v1_StorageOSVolumeSource,
       k8sio_api_core_v1_VsphereVirtualDiskVolumeSource]\<rparr>"

definition schema_k8sio_api_core_v1_VolumeDevice :: "'r openapi \<Rightarrow> 'r openAPIDefinition" where
  "schema_k8sio_api_core_v1_VolumeDevice E = \<lparr>
     od_Schema = [
       Type [''object''],
       Properties [
         (''name'', [Default (JString ''''), Type [''string''], Format '''']),
         (''devicePath'', [Default (JString ''''), Type [''string''], Format ''''])],
       Required [''name'', ''devicePath'']],
     od_Dependencies = []\<rparr>"

definition schema_k8sio_api_core_v1_VolumeMount :: "'r openapi \<Rightarrow> 'r openAPIDefinition" where
  "schema_k8sio_api_core_v1_VolumeMount E = \<lparr>
     od_Schema = [
       Type [''object''],
       Properties [
         (''name'', [Default (JString ''''), Type [''string''], Format '''']),
         (''readOnly'', [Type [''boolean''], Format '''']),
         (''mountPath'', [Default (JString ''''), Type [''string''], Format '''']),
         (''subPath'', [Type [''string''], Format '''']),
         (''mountPropagation'', [
           Type [''string''], Format '''',
           Enum [JString ''Bidirectional'', JString ''HostToContainer'', JString ''None'']]),
         (''subPathExpr'', [Type [''string''], Format ''''])],
       Required [''name'', ''mountPath'']],
     od_Dependencies = []\<rparr>"

definition schema_k8sio_api_core_v1_VolumeNodeAffinity :: "'r openapi \<Rightarrow> 'r openAPIDefinition" where
  "schema_k8sio_api_core_v1_VolumeNodeAffinity E = \<lparr>
     od_Schema = [
       Type [''object''],
       Properties [(''required'', [Ref (oa_ref E k8sio_api_core_v1_NodeSelector)])]],
     od_Dependencies = [k8sio_api_core_v1_NodeSelector]\<rparr>"

definition schema_k8sio_api_core_v1_VolumeProjection :: "'r openapi \<Rightarrow> 'r openAPIDefinition" where
  "schema_k8sio_api_core_v1_VolumeProjection E = \<lparr>
     od_Schema = [
       Type [''object''],
       Properties [
         (''secret'', [Ref (oa_ref E k8sio_api_core_v1_SecretProjection)]),
         (''downwardAPI'', [Ref (oa_ref E k8sio_api_core_v1_DownwardAPIProjection)]),
         (''configMap'', [Ref (oa_ref E k8sio_api_core_v1_ConfigMapProjection)]),
         (''serviceAccountToken'', [Ref (oa_ref E k8sio_api_core_v1_ServiceAccountTokenProjection)])]],
     od_Dependencies = [k8sio_api_core_v1_ConfigMapProjection,
       k8sio_api_core_v1_DownwardAPIProjection, k8sio_api_core_v1_SecretProjection,
       k8sio_api_core_v1_ServiceAccountTokenProjection]\<rparr>"

definition schema_k8sio_api_core_v1_VolumeSource :: "'r openapi \<Rightarrow> 'r openAPIDefinition" where
  "schema_k8sio_api_core_v1_VolumeSource E = \<lparr>
     od_Schema = [
       Type [''object''],
       Properties [
         (''hostPath'', [Ref (oa_ref E k8sio_api_core_v1_HostPathVolumeSource)]),
         (''emptyDir'', [Ref (oa_ref E k8sio_api_core_v1_EmptyDirVolumeSource)]),
         (''gcePersistentDisk'', [Ref (oa_ref E k8sio_api_core_v1_GCEPersistentDiskVolumeSource)]),
         (''awsElasticBlockStore'', [
           Ref (oa_ref E k8sio_api_core_v1_AWSElasticBlockStoreVolumeSource)]),
         (''gitRepo'', [Ref (oa_ref E k8sio_api_core_v1_GitRepoVolumeSource)]),
         (''secret'', [Ref (oa_ref E k8sio_api_core_v1_SecretVolumeSource)]),
         (''nfs'', [Ref (oa_ref E k8sio_api_core_v1_NFSVolumeSource)]),
         (''iscsi'', [Ref (oa_ref E k8sio_api_core_v1_ISCSIVolumeSource)]),
         (''glusterfs'', [Ref (oa_ref E k8sio_api_core_v1_GlusterfsVolumeSource)]),
         (''persistentVolumeClaim'', [
           Ref (oa_ref E k8sio_api_core_v1_PersistentVolumeClaimVolumeSource)]),
         (''rbd'', [Ref (oa_ref E k8sio_api_core_v1_RBDVolumeSource)]),
         (''flexVolume'', [Ref (oa_ref E k8sio_api_core_v1_FlexVolumeSource)]),
         (''cinder'', [Ref (oa_ref E k8sio_api_core_v1_CinderVolumeSource)]),
         (''cephfs'', [Ref (oa_ref E k8sio_api_core_v1_CephFSVolumeSource)]),
         (''flocker'', [Ref (oa_ref E k8sio_api_core_v1_FlockerVolumeSource)]),
         (''downwardAPI'', [Ref (oa_ref E k8sio_api_core_v1_DownwardAPIVolumeSource)]),
         (''fc'', [Ref (oa_ref E k8sio_api_core_v1_FCVolumeSource)]),
         (''azureFile'', [Ref (oa_ref E k8sio_api_core_v1_AzureFileVolumeSource)]),
         (''configMap'', [Ref (oa_ref E k8sio_api_core_v1_ConfigMapVolumeSource)]),
         (''vsphereVolume'', [Ref (oa_ref E k8sio_api_core_v1_VsphereVirtualDiskVolumeSource)]),
         (''quobyte'', [Ref (oa_ref E k8sio_api_core_v1_QuobyteVolumeSource)]),
         (''azureDisk'', [Ref (oa_ref E k8sio_api_core_v1_AzureDiskVolumeSource)]),
         (''photonPersistentDisk'', [
           Ref (oa_ref E k8sio_api_core_v1_PhotonPersistentDiskVolumeSource)]),
         (''projected'', [Ref (oa_ref E k8sio_api_core_v1_ProjectedVolumeSource)]),
         (''portworxVolume'', [Ref (oa_ref E k8sio_api_core_v1_PortworxVolumeSource)]),
         (''scaleIO'', [Ref (oa_ref E k8sio_api_core_v1_ScaleIOVolumeSource)]),
         (''storageos'', [Ref (oa_ref E k8sio_api_core_v1_StorageOSVolumeSource)]),
         (''csi'', [Ref (oa_ref E k8sio_api_core_v1_CSIVolumeSource)]),
         (''ephemeral'', [Ref (oa_ref E k8sio_api_core_v1_EphemeralVolumeSource)])]],
     od_Dependencies = [k8sio_api_core_v1_AWSElasticBlockStoreVolumeSource,
       k8sio_api_core_v1_AzureDiskVolumeSource, k8sio_api_core_v1_AzureFileVolumeSource,
       k8sio_api_core_v1_CSIVolumeSource, k8sio_api_core_v1_CephFSVolumeSource,
       k8sio_api_core_v1_CinderVolumeSource, k8sio_api_core_v1_ConfigMapVolumeSource,
       k8sio_api_core_v1_DownwardAPIVolumeSource, k8sio_api_core_v1_EmptyDirVolumeSource,
       k8sio_api_core_v1_EphemeralVolumeSource, k8sio_api_core_v1_FCVolumeSource,
       k8sio_api_core_v1_FlexVolumeSource, k8sio_api_core_v1_FlockerVolumeSource,
       k8sio_api_core_v1_GCEPersistentDiskVolumeSource, k8sio_api_core_v1_GitRepoVolumeSource,
       k8sio_api_core_v1_GlusterfsVolumeSource, k8sio_api_core_v1_HostPathVolumeSource,
       k8sio_api_core_v1_ISCSIVolumeSource, k8sio_api_core_v1_NFSVolumeSource,
       k8sio_api_core_v1_PersistentVolumeClaimVolumeSource,
       k8sio_api_core_v1_PhotonPersistentDiskVolumeSource, k8sio_api_core_v1_PortworxVolumeSource,
       k8sio_api_core_v1_ProjectedVolumeSource, k8sio_api_core_v1_QuobyteVolumeSource,
       k8sio_api_core_v1_RBDVolumeSource, k8sio_api_core_v1_ScaleIOVolumeSource,
       k8sio_api_core_v1_SecretVolumeSource, k8sio_api_core_v1_StorageOSVolumeSource,
       k8sio_api_core_v1_VsphereVirtualDiskVolumeSource]\<rparr>"

definition schema_k8sio_api_core_v1_VsphereVirtualDiskVolumeSource :: "'r openapi \<Rightarrow> 'r openAPIDefinition" where
  "schema_k8sio_api_core_v1_VsphereVirtualDiskVolumeSource E = \<lparr>
     od_Schema = [
       Type [''object''],
       Properties [
         (''volumePath'', [Default (JString ''''), Type [''string''], Format '''']),
         (''fsType'', [Type [''string''], Format '''']),
         (''storagePolicyName'', [Type [''string''], Format '''']),
         (''storagePolicyID'', [Type [''string''], Format ''''])],
       Required [''volumePath'']],
     od_Dependencies = []\<rparr>"

definition schema_k8sio_api_core_v1_WeightedPodAffinityTerm :: "'r openapi \<Rightarrow> 'r openAPIDefinition" where
  "schema_k8sio_api_core_v1_WeightedPodAffinityTerm E = \<lparr>
     od_Schema = [
       Type [''object''],
       Properties [
         (''weight'', [Default (JInt 0), Type [''integer''], Format ''int32'']),
         (''podAffinityTerm'', [
           Default (JObject []), Ref (oa_ref E k8sio_api_core_v1_PodAffinityTerm)])],
       Required [''weight'', ''podAffinityTerm'']],
     od_Dependencies = [k8sio_api_core_v1_PodAffinityTerm]\<rparr>"

definition schema_k8sio_api_core_v1_WindowsSecurityContextOptions :: "'r openapi \<Rightarrow> 'r openAPIDefinition" where
  "schema_k8sio_api_core_v1_WindowsSecurityContextOptions E = \<lparr>
     od_Schema = [
       Type [''object''],
       Properties [
         (''gmsaCredentialSpecName'', [Type [''string''], Format '''']),
         (''gmsaCredentialSpec'', [Type [''string''], Format '''']),
         (''runAsUserName'', [Type [''string''], Format '''']),
         (''hostProcess'', [Type [''boolean''], Format ''''])]],
     od_Dependencies = []\<rparr>"

section \<open>The checks\<close>

lemmas Core_B_defs =
    schema_k8sio_api_core_v1_NFSVolumeSource_def
    schema_k8sio_api_core_v1_Namespace_def
    schema_k8sio_api_core_v1_NamespaceCondition_def
    schema_k8sio_api_core_v1_NamespaceList_def
    schema_k8sio_api_core_v1_NamespaceSpec_def
    schema_k8sio_api_core_v1_NamespaceStatus_def
    schema_k8sio_api_core_v1_Node_def
    schema_k8sio_api_core_v1_NodeAddress_def
    schema_k8sio_api_core_v1_NodeAffinity_def
    schema_k8sio_api_core_v1_NodeCondition_def
    schema_k8sio_api_core_v1_NodeConfigSource_def
    schema_k8sio_api_core_v1_NodeConfigStatus_def
    schema_k8sio_api_core_v1_NodeDaemonEndpoints_def
    schema_k8sio_api_core_v1_NodeList_def
    schema_k8sio_api_core_v1_NodeProxyOptions_def
    schema_k8sio_api_core_v1_NodeResources_def
    schema_k8sio_api_core_v1_NodeSelector_def
    schema_k8sio_api_core_v1_NodeSelectorRequirement_def
    schema_k8sio_api_core_v1_NodeSelectorTerm_def
    schema_k8sio_api_core_v1_NodeSpec_def
    schema_k8sio_api_core_v1_NodeStatus_def
    schema_k8sio_api_core_v1_NodeSystemInfo_def
    schema_k8sio_api_core_v1_ObjectFieldSelector_def
    schema_k8sio_api_core_v1_ObjectReference_def
    schema_k8sio_api_core_v1_PersistentVolume_def
    schema_k8sio_api_core_v1_PersistentVolumeClaim_def
    schema_k8sio_api_core_v1_PersistentVolumeClaimCondition_def
    schema_k8sio_api_core_v1_PersistentVolumeClaimList_def
    schema_k8sio_api_core_v1_PersistentVolumeClaimSpec_def
    schema_k8sio_api_core_v1_PersistentVolumeClaimStatus_def
    schema_k8sio_api_core_v1_PersistentVolumeClaimTemplate_def
    schema_k8sio_api_core_v1_PersistentVolumeClaimVolumeSource_def
    schema_k8sio_api_core_v1_PersistentVolumeList_def
    schema_k8sio_api_core_v1_PersistentVolumeSource_def
    schema_k8sio_api_core_v1_PersistentVolumeSpec_def
    schema_k8sio_api_core_v1_PersistentVolumeStatus_def
    schema_k8sio_api_core_v1_PhotonPersistentDiskVolumeSource_def
    schema_k8sio_api_core_v1_Pod_def
    schema_k8sio_api_core_v1_PodAffinity_def
    schema_k8sio_api_core_v1_PodAffinityTerm_def
    schema_k8sio_api_core_v1_PodAntiAffinity_def
    schema_k8sio_api_core_v1_PodAttachOptions_def
    schema_k8sio_api_core_v1_PodCondition_def
    schema_k8sio_api_core_v1_PodDNSConfig_def
    schema_k8sio_api_core_v1_PodDNSConfigOption_def
    schema_k8sio_api_core_v1_PodExecOptions_def
    schema_k8sio_api_core_v1_PodIP_def
    schema_k8sio_api_core_v1_PodList_def
    schema_k8sio_api_core_v1_PodLogOptions_def
    schema_k8sio_api_core_v1_PodOS_def
    schema_k8sio_api_core_v1_PodPortForwardOptions_def
    schema_k8sio_api_core_v1_PodProxyOptions_def
    schema_k8sio_api_core_v1_PodReadinessGate_def
    schema_k8sio_api_core_v1_PodResourceClaim_def
    schema_k8sio_api_core_v1_PodResourceClaimStatus_def
    schema_k8sio_api_core_v1_PodSchedulingGate_def
    schema_k8sio_api_core_v1_PodSecurityContext_def
    schema_k8sio_api_core_v1_PodSignature_def
    schema_k8sio_api_core_v1_PodSpec_def
    schema_k8sio_api_core_v1_PodStatus_def
    schema_k8sio_api_core_v1_PodStatusResult_def
    schema_k8sio_api_core_v1_PodTemplate_def
    schema_k8sio_api_core_v1_PodTemplateList_def
    schema_k8sio_api_core_v1_PodTemplateSpec_def
    schema_k8sio_api_core_v1_PortStatus_def
    schema_k8sio_api_core_v1_PortworxVolumeSource_def
    schema_k8sio_api_core_v1_PreferAvoidPodsEntry_def
    schema_k8sio_api_core_v1_PreferredSchedulingTerm_def
    schema_k8sio_api_core_v1_Probe_def
    schema_k8sio_api_core_v1_ProbeHandler_def
    schema_k8sio_api_core_v1_ProjectedVolumeSource_def
    schema_k8sio_api_core_v1_QuobyteVolumeSource_def
    schema_k8sio_api_core_v1_RBDPersistentVolumeSource_def
    schema_k8sio_api_core_v1_RBDVolumeSource_def
    schema_k8sio_api_core_v1_RangeAllocation_def
    schema_k8sio_api_core_v1_ReplicationController_def
    schema_k8sio_api_core_v1_ReplicationControllerCondition_def
    schema_k8sio_api_core_v1_ReplicationControllerList_def
    schema_k8sio_api_core_v1_ReplicationControllerSpec_def
    schema_k8sio_api_core_v1_ReplicationControllerStatus_def
    schema_k8sio_api_core_v1_ResourceClaim_def
    schema_k8sio_api_core_v1_ResourceFieldSelector_def
    schema_k8sio_api_core_v1_ResourceQuota_def
    schema_k8sio_api_core_v1_ResourceQuotaList_def
    schema_k8sio_api_core_v1_ResourceQuotaSpec_def
    schema_k8sio_api_core_v1_ResourceQuotaStatus_def
    schema_k8sio_api_core_v1_ResourceRequirements_def
    schema_k8sio_api_core_v1_SELinuxOptions_def
    schema_k8sio_api_core_v1_ScaleIOPersistentVolumeSource_def
    schema_k8sio_api_core_v1_ScaleIOVolumeSource_def
    schema_k8sio_api_core_v1_ScopeSelector_def
    schema_k8sio_api_core_v1_ScopedResourceSelectorRequirement_def
    schema_k8sio_api_core_v1_SeccompProfile_def
    schema_k8sio_api_core_v1_Secret_def
    schema_k8sio_api_core_v1_SecretEnvSource_def
    schema_k8sio_api_core_v1_SecretKeySelector_def
    schema_k8sio_api_core_v1_SecretList_def
    schema_k8sio_api_core_v1_SecretProjection_def
    schema_k8sio_api_core_v1_SecretReference_def
    schema_k8sio_api_core_v1_SecretVolumeSource_def
    schema_k8sio_api_core_v1_SecurityContext_def
    schema_k8sio_api_core_v1_SerializedReference_def
    schema_k8sio_api_core_v1_Service_def
    schema_k8sio_api_core_v1_ServiceAccount_def
    schema_k8sio_api_core_v1_ServiceAccountList_def
    schema_k8sio_api_core_v1_ServiceAccountTokenProjection_def
    schema_k8sio_api_core_v1_ServiceList_def
    schema_k8sio_api_core_v1_ServicePort_def
    schema_k8sio_api_core_v1_ServiceProxyOptions_def
    schema_k8sio_api_core_v1_ServiceSpec_def
    schema_k8sio_api_core_v1_ServiceStatus_def
    schema_k8sio_api_core_v1_SessionAffinityConfig_def
    schema_k8sio_api_core_v1_StorageOSPersistentVolumeSource_def
    schema_k8sio_api_core_v1_StorageOSVolumeSource_def
    schema_k8sio_api_core_v1_Sysctl_def
    schema_k8sio_api_core_v1_TCPSocketAction_def
    schema_k8sio_api_core_v1_Taint_def
    schema_k8sio_api_core_v1_Toleration_def
    schema_k8sio_api_core_v1_TopologySelectorLabelRequirement_def
    schema_k8sio_api_core_v1_TopologySelectorTerm_def
    schema_k8sio_api_core_v1_TopologySpreadConstraint_def
    schema_k8sio_api_core_v1_TypedLocalObjectReference_def
    schema_k8sio_api_core_v1_TypedObjectReference_def
    schema_k8sio_api_core_v1_Volume_def
    schema_k8sio_api_core_v1_VolumeDevice_def
    schema_k8sio_api_core_v1_VolumeMount_def
    schema_k8sio_api_core_v1_VolumeNodeAffinity_def
    schema_k8sio_api_core_v1_VolumeProjection_def
    schema_k8sio_api_core_v1_VolumeSource_def
    schema_k8sio_api_core_v1_VsphereVirtualDiskVolumeSource_def
    schema_k8sio_api_core_v1_WeightedPodAffinityTerm_def
    schema_k8sio_api_core_v1_WindowsSecurityContextOptions_def

lemma Core_B_dependencies [model_dependencies]:
  "od_Dependencies (schema_k8sio_api_core_v1_NFSVolumeSource E) = []"
  "od_Dependencies (schema_k8sio_api_core_v1_Namespace E) = [k8sio_api_core_v1_NamespaceSpec,
     k8sio_api_core_v1_NamespaceStatus, pkg_apis_meta_v1_ObjectMeta]"
  "od_Dependencies (schema_k8sio_api_core_v1_NamespaceCondition E) = [pkg_apis_meta_v1_Time]"
  "od_Dependencies (schema_k8sio_api_core_v1_NamespaceList E) = [k8sio_api_core_v1_Namespace,
     pkg_apis_meta_v1_ListMeta]"
  "od_Dependencies (schema_k8sio_api_core_v1_NamespaceSpec E) = []"
  "od_Dependencies (schema_k8sio_api_core_v1_NamespaceStatus E) =
     [k8sio_api_core_v1_NamespaceCondition]"
  "od_Dependencies (schema_k8sio_api_core_v1_Node E) = [k8sio_api_core_v1_NodeSpec,
     k8sio_api_core_v1_NodeStatus, pkg_apis_meta_v1_ObjectMeta]"
  "od_Dependencies (schema_k8sio_api_core_v1_NodeAddress E) = []"
  "od_Dependencies (schema_k8sio_api_core_v1_NodeAffinity E) = [k8sio_api_core_v1_NodeSelector,
     k8sio_api_core_v1_PreferredSchedulingTerm]"
  "od_Dependencies (schema_k8sio_api_core_v1_NodeCondition E) = [pkg_apis_meta_v1_Time]"
  "od_Dependencies (schema_k8sio_api_core_v1_NodeConfigSource E) =
     [k8sio_api_core_v1_ConfigMapNodeConfigSource]"
  "od_Dependencies (schema_k8sio_api_core_v1_NodeConfigStatus E) =
     [k8sio_api_core_v1_NodeConfigSource]"
  "od_Dependencies (schema_k8sio_api_core_v1_NodeDaemonEndpoints E) =
     [k8sio_api_core_v1_DaemonEndpoint]"
  "od_Dependencies (schema_k8sio_api_core_v1_NodeList E) = [k8sio_api_core_v1_Node,
     pkg_apis_meta_v1_ListMeta]"
  "od_Dependencies (schema_k8sio_api_core_v1_NodeProxyOptions E) = []"
  "od_Dependencies (schema_k8sio_api_core_v1_NodeResources E) =
     [apimachinery_pkg_api_resource_Quantity]"
  "od_Dependencies (schema_k8sio_api_core_v1_NodeSelector E) =
     [k8sio_api_core_v1_NodeSelectorTerm]"
  "od_Dependencies (schema_k8sio_api_core_v1_NodeSelectorRequirement E) = []"
  "od_Dependencies (schema_k8sio_api_core_v1_NodeSelectorTerm E) =
     [k8sio_api_core_v1_NodeSelectorRequirement]"
  "od_Dependencies (schema_k8sio_api_core_v1_NodeSpec E) = [k8sio_api_core_v1_NodeConfigSource,
     k8sio_api_core_v1_Taint]"
  "od_Dependencies (schema_k8sio_api_core_v1_NodeStatus E) = [k8sio_api_core_v1_AttachedVolume,
     k8sio_api_core_v1_ContainerImage, k8sio_api_core_v1_NodeAddress,
     k8sio_api_core_v1_NodeCondition, k8sio_api_core_v1_NodeConfigStatus,
     k8sio_api_core_v1_NodeDaemonEndpoints, k8sio_api_core_v1_NodeSystemInfo,
     apimachinery_pkg_api_resource_Quantity]"
  "od_Dependencies (schema_k8sio_api_core_v1_NodeSystemInfo E) = []"
  "od_Dependencies (schema_k8sio_api_core_v1_ObjectFieldSelector E) = []"
  "od_Dependencies (schema_k8sio_api_core_v1_ObjectReference E) = []"
  "od_Dependencies (schema_k8sio_api_core_v1_PersistentVolume E) =
     [k8sio_api_core_v1_PersistentVolumeSpec, k8sio_api_core_v1_PersistentVolumeStatus,
     pkg_apis_meta_v1_ObjectMeta]"
  "od_Dependencies (schema_k8sio_api_core_v1_PersistentVolumeClaim E) =
     [k8sio_api_core_v1_PersistentVolumeClaimSpec, k8sio_api_core_v1_PersistentVolumeClaimStatus,
     pkg_apis_meta_v1_ObjectMeta]"
  "od_Dependencies (schema_k8sio_api_core_v1_PersistentVolumeClaimCondition E) =
     [pkg_apis_meta_v1_Time]"
  "od_Dependencies (schema_k8sio_api_core_v1_PersistentVolumeClaimList E) =
     [k8sio_api_core_v1_PersistentVolumeClaim, pkg_apis_meta_v1_ListMeta]"
  "od_Dependencies (schema_k8sio_api_core_v1_PersistentVolumeClaimSpec E) =
     [k8sio_api_core_v1_ResourceRequirements, k8sio_api_core_v1_TypedLocalObjectReference,
     k8sio_api_core_v1_TypedObjectReference, pkg_apis_meta_v1_LabelSelector]"
  "od_Dependencies (schema_k8sio_api_core_v1_PersistentVolumeClaimStatus E) =
     [k8sio_api_core_v1_PersistentVolumeClaimCondition, apimachinery_pkg_api_resource_Quantity]"
  "od_Dependencies (schema_k8sio_api_core_v1_PersistentVolumeClaimTemplate E) =
     [k8sio_api_core_v1_PersistentVolumeClaimSpec, pkg_apis_meta_v1_ObjectMeta]"
  "od_Dependencies (schema_k8sio_api_core_v1_PersistentVolumeClaimVolumeSource E) = []"
  "od_Dependencies (schema_k8sio_api_core_v1_PersistentVolumeList E) =
     [k8sio_api_core_v1_PersistentVolume, pkg_apis_meta_v1_ListMeta]"
  "od_Dependencies (schema_k8sio_api_core_v1_PersistentVolumeSource E) =
     [k8sio_api_core_v1_AWSElasticBlockStoreVolumeSource, k8sio_api_core_v1_AzureDiskVolumeSource,
     k8sio_api_core_v1_AzureFilePersistentVolumeSource,
     k8sio_api_core_v1_CSIPersistentVolumeSource, k8sio_api_core_v1_CephFSPersistentVolumeSource,
     k8sio_api_core_v1_CinderPersistentVolumeSource, k8sio_api_core_v1_FCVolumeSource,
     k8sio_api_core_v1_FlexPersistentVolumeSource, k8sio_api_core_v1_FlockerVolumeSource,
     k8sio_api_core_v1_GCEPersistentDiskVolumeSource,
     k8sio_api_core_v1_GlusterfsPersistentVolumeSource, k8sio_api_core_v1_HostPathVolumeSource,
     k8sio_api_core_v1_ISCSIPersistentVolumeSource, k8sio_api_core_v1_LocalVolumeSource,
     k8sio_api_core_v1_NFSVolumeSource, k8sio_api_core_v1_PhotonPersistentDiskVolumeSource,
     k8sio_api_core_v1_PortworxVolumeSource, k8sio_api_core_v1_QuobyteVolumeSource,
     k8sio_api_core_v1_RBDPersistentVolumeSource, k8sio_api_core_v1_ScaleIOPersistentVolumeSource,
     k8sio_api_core_v1_StorageOSPersistentVolumeSource,
     k8sio_api_core_v1_VsphereVirtualDiskVolumeSource]"
  "od_Dependencies (schema_k8sio_api_core_v1_PersistentVolumeSpec E) =
     [k8sio_api_core_v1_AWSElasticBlockStoreVolumeSource, k8sio_api_core_v1_AzureDiskVolumeSource,
     k8sio_api_core_v1_AzureFilePersistentVolumeSource,
     k8sio_api_core_v1_CSIPersistentVolumeSource, k8sio_api_core_v1_CephFSPersistentVolumeSource,
     k8sio_api_core_v1_CinderPersistentVolumeSource, k8sio_api_core_v1_FCVolumeSource,
     k8sio_api_core_v1_FlexPersistentVolumeSource, k8sio_api_core_v1_FlockerVolumeSource,
     k8sio_api_core_v1_GCEPersistentDiskVolumeSource,
     k8sio_api_core_v1_GlusterfsPersistentVolumeSource, k8sio_api_core_v1_HostPathVolumeSource,
     k8sio_api_core_v1_ISCSIPersistentVolumeSource, k8sio_api_core_v1_LocalVolumeSource,
     k8sio_api_core_v1_NFSVolumeSource, k8sio_api_core_v1_ObjectReference,
     k8sio_api_core_v1_PhotonPersistentDiskVolumeSource, k8sio_api_core_v1_PortworxVolumeSource,
     k8sio_api_core_v1_QuobyteVolumeSource, k8sio_api_core_v1_RBDPersistentVolumeSource,
     k8sio_api_core_v1_ScaleIOPersistentVolumeSource,
     k8sio_api_core_v1_StorageOSPersistentVolumeSource, k8sio_api_core_v1_VolumeNodeAffinity,
     k8sio_api_core_v1_VsphereVirtualDiskVolumeSource, apimachinery_pkg_api_resource_Quantity]"
  "od_Dependencies (schema_k8sio_api_core_v1_PersistentVolumeStatus E) = [pkg_apis_meta_v1_Time]"
  "od_Dependencies (schema_k8sio_api_core_v1_PhotonPersistentDiskVolumeSource E) = []"
  "od_Dependencies (schema_k8sio_api_core_v1_Pod E) = [k8sio_api_core_v1_PodSpec,
     k8sio_api_core_v1_PodStatus, pkg_apis_meta_v1_ObjectMeta]"
  "od_Dependencies (schema_k8sio_api_core_v1_PodAffinity E) = [k8sio_api_core_v1_PodAffinityTerm,
     k8sio_api_core_v1_WeightedPodAffinityTerm]"
  "od_Dependencies (schema_k8sio_api_core_v1_PodAffinityTerm E) =
     [pkg_apis_meta_v1_LabelSelector]"
  "od_Dependencies (schema_k8sio_api_core_v1_PodAntiAffinity E) =
     [k8sio_api_core_v1_PodAffinityTerm, k8sio_api_core_v1_WeightedPodAffinityTerm]"
  "od_Dependencies (schema_k8sio_api_core_v1_PodAttachOptions E) = []"
  "od_Dependencies (schema_k8sio_api_core_v1_PodCondition E) = [pkg_apis_meta_v1_Time]"
  "od_Dependencies (schema_k8sio_api_core_v1_PodDNSConfig E) =
     [k8sio_api_core_v1_PodDNSConfigOption]"
  "od_Dependencies (schema_k8sio_api_core_v1_PodDNSConfigOption E) = []"
  "od_Dependencies (schema_k8sio_api_core_v1_PodExecOptions E) = []"
  "od_Dependencies (schema_k8sio_api_core_v1_PodIP E) = []"
  "od_Dependencies (schema_k8sio_api_core_v1_PodList E) = [k8sio_api_core_v1_Pod,
     pkg_apis_meta_v1_ListMeta]"
  "od_Dependencies (schema_k8sio_api_core_v1_PodLogOptions E) = [pkg_apis_meta_v1_Time]"
  "od_Dependencies (schema_k8sio_api_core_v1_PodOS E) = []"
  "od_Dependencies (schema_k8sio_api_core_v1_PodPortForwardOptions E) = []"
  "od_Dependencies (schema_k8sio_api_core_v1_PodProxyOptions E) = []"
  "od_Dependencies (schema_k8sio_api_core_v1_PodReadinessGate E) = []"
  "od_Dependencies (schema_k8sio_api_core_v1_PodResourceClaim E) =
     [k8sio_api_core_v1_ClaimSource]"
  "od_Dependencies (schema_k8sio_api_core_v1_PodResourceClaimStatus E) = []"
  "od_Dependencies (schema_k8sio_api_core_v1_PodSchedulingGate E) = []"
  "od_Dependencies (schema_k8sio_api_core_v1_PodSecurityContext E) =
     [k8sio_api_core_v1_SELinuxOptions, k8sio_api_core_v1_SeccompProfile,
     k8sio_api_core_v1_Sysctl, k8sio_api_core_v1_WindowsSecurityContextOptions]"
  "od_Dependencies (schema_k8sio_api_core_v1_PodSignature E) = [pkg_apis_meta_v1_OwnerReference]"
  "od_Dependencies (schema_k8sio_api_core_v1_PodSpec E) = [k8sio_api_core_v1_Affinity,
     k8sio_api_core_v1_Container, k8sio_api_core_v1_EphemeralContainer,
     k8sio_api_core_v1_HostAlias, k8sio_api_core_v1_LocalObjectReference,
     k8sio_api_core_v1_PodDNSConfig, k8sio_api_core_v1_PodOS, k8sio_api_core_v1_PodReadinessGate,
     k8sio_api_core_v1_PodResourceClaim, k8sio_api_core_v1_PodSchedulingGate,
     k8sio_api_core_v1_PodSecurityContext, k8sio_api_core_v1_Toleration,
     k8sio_api_core_v1_TopologySpreadConstraint, k8sio_api_core_v1_Volume,
     apimachinery_pkg_api_resource_Quantity]"
  "od_Dependencies (schema_k8sio_api_core_v1_PodStatus E) = [k8sio_api_core_v1_ContainerStatus,
     k8sio_api_core_v1_HostIP, k8sio_api_core_v1_PodCondition, k8sio_api_core_v1_PodIP,
     k8sio_api_core_v1_PodResourceClaimStatus, pkg_apis_meta_v1_Time]"
  "od_Dependencies (schema_k8sio_api_core_v1_PodStatusResult E) = [k8sio_api_core_v1_PodStatus,
     pkg_apis_meta_v1_ObjectMeta]"
  "od_Dependencies (schema_k8sio_api_core_v1_PodTemplate E) = [k8sio_api_core_v1_PodTemplateSpec,
     pkg_apis_meta_v1_ObjectMeta]"
  "od_Dependencies (schema_k8sio_api_core_v1_PodTemplateList E) = [k8sio_api_core_v1_PodTemplate,
     pkg_apis_meta_v1_ListMeta]"
  "od_Dependencies (schema_k8sio_api_core_v1_PodTemplateSpec E) = [k8sio_api_core_v1_PodSpec,
     pkg_apis_meta_v1_ObjectMeta]"
  "od_Dependencies (schema_k8sio_api_core_v1_PortStatus E) = []"
  "od_Dependencies (schema_k8sio_api_core_v1_PortworxVolumeSource E) = []"
  "od_Dependencies (schema_k8sio_api_core_v1_PreferAvoidPodsEntry E) =
     [k8sio_api_core_v1_PodSignature, pkg_apis_meta_v1_Time]"
  "od_Dependencies (schema_k8sio_api_core_v1_PreferredSchedulingTerm E) =
     [k8sio_api_core_v1_NodeSelectorTerm]"
  "od_Dependencies (schema_k8sio_api_core_v1_Probe E) = [k8sio_api_core_v1_ExecAction,
     k8sio_api_core_v1_GRPCAction, k8sio_api_core_v1_HTTPGetAction,
     k8sio_api_core_v1_TCPSocketAction]"
  "od_Dependencies (schema_k8sio_api_core_v1_ProbeHandler E) = [k8sio_api_core_v1_ExecAction,
     k8sio_api_core_v1_GRPCAction, k8sio_api_core_v1_HTTPGetAction,
     k8sio_api_core_v1_TCPSocketAction]"
  "od_Dependencies (schema_k8sio_api_core_v1_ProjectedVolumeSource E) =
     [k8sio_api_core_v1_VolumeProjection]"
  "od_Dependencies (schema_k8sio_api_core_v1_QuobyteVolumeSource E) = []"
  "od_Dependencies (schema_k8sio_api_core_v1_RBDPersistentVolumeSource E) =
     [k8sio_api_core_v1_SecretReference]"
  "od_Dependencies (schema_k8sio_api_core_v1_RBDVolumeSource E) =
     [k8sio_api_core_v1_LocalObjectReference]"
  "od_Dependencies (schema_k8sio_api_core_v1_RangeAllocation E) = [pkg_apis_meta_v1_ObjectMeta]"
  "od_Dependencies (schema_k8sio_api_core_v1_ReplicationController E) =
     [k8sio_api_core_v1_ReplicationControllerSpec, k8sio_api_core_v1_ReplicationControllerStatus,
     pkg_apis_meta_v1_ObjectMeta]"
  "od_Dependencies (schema_k8sio_api_core_v1_ReplicationControllerCondition E) =
     [pkg_apis_meta_v1_Time]"
  "od_Dependencies (schema_k8sio_api_core_v1_ReplicationControllerList E) =
     [k8sio_api_core_v1_ReplicationController, pkg_apis_meta_v1_ListMeta]"
  "od_Dependencies (schema_k8sio_api_core_v1_ReplicationControllerSpec E) =
     [k8sio_api_core_v1_PodTemplateSpec]"
  "od_Dependencies (schema_k8sio_api_core_v1_ReplicationControllerStatus E) =
     [k8sio_api_core_v1_ReplicationControllerCondition]"
  "od_Dependencies (schema_k8sio_api_core_v1_ResourceClaim E) = []"
  "od_Dependencies (schema_k8sio_api_core_v1_ResourceFieldSelector E) =
     [apimachinery_pkg_api_resource_Quantity]"
  "od_Dependencies (schema_k8sio_api_core_v1_ResourceQuota E) =
     [k8sio_api_core_v1_ResourceQuotaSpec, k8sio_api_core_v1_ResourceQuotaStatus,
     pkg_apis_meta_v1_ObjectMeta]"
  "od_Dependencies (schema_k8sio_api_core_v1_ResourceQuotaList E) =
     [k8sio_api_core_v1_ResourceQuota, pkg_apis_meta_v1_ListMeta]"
  "od_Dependencies (schema_k8sio_api_core_v1_ResourceQuotaSpec E) =
     [k8sio_api_core_v1_ScopeSelector, apimachinery_pkg_api_resource_Quantity]"
  "od_Dependencies (schema_k8sio_api_core_v1_ResourceQuotaStatus E) =
     [apimachinery_pkg_api_resource_Quantity]"
  "od_Dependencies (schema_k8sio_api_core_v1_ResourceRequirements E) =
     [k8sio_api_core_v1_ResourceClaim, apimachinery_pkg_api_resource_Quantity]"
  "od_Dependencies (schema_k8sio_api_core_v1_SELinuxOptions E) = []"
  "od_Dependencies (schema_k8sio_api_core_v1_ScaleIOPersistentVolumeSource E) =
     [k8sio_api_core_v1_SecretReference]"
  "od_Dependencies (schema_k8sio_api_core_v1_ScaleIOVolumeSource E) =
     [k8sio_api_core_v1_LocalObjectReference]"
  "od_Dependencies (schema_k8sio_api_core_v1_ScopeSelector E) =
     [k8sio_api_core_v1_ScopedResourceSelectorRequirement]"
  "od_Dependencies (schema_k8sio_api_core_v1_ScopedResourceSelectorRequirement E) = []"
  "od_Dependencies (schema_k8sio_api_core_v1_SeccompProfile E) = []"
  "od_Dependencies (schema_k8sio_api_core_v1_Secret E) = [pkg_apis_meta_v1_ObjectMeta]"
  "od_Dependencies (schema_k8sio_api_core_v1_SecretEnvSource E) = []"
  "od_Dependencies (schema_k8sio_api_core_v1_SecretKeySelector E) = []"
  "od_Dependencies (schema_k8sio_api_core_v1_SecretList E) = [k8sio_api_core_v1_Secret,
     pkg_apis_meta_v1_ListMeta]"
  "od_Dependencies (schema_k8sio_api_core_v1_SecretProjection E) = [k8sio_api_core_v1_KeyToPath]"
  "od_Dependencies (schema_k8sio_api_core_v1_SecretReference E) = []"
  "od_Dependencies (schema_k8sio_api_core_v1_SecretVolumeSource E) =
     [k8sio_api_core_v1_KeyToPath]"
  "od_Dependencies (schema_k8sio_api_core_v1_SecurityContext E) = [k8sio_api_core_v1_Capabilities,
     k8sio_api_core_v1_SELinuxOptions, k8sio_api_core_v1_SeccompProfile,
     k8sio_api_core_v1_WindowsSecurityContextOptions]"
  "od_Dependencies (schema_k8sio_api_core_v1_SerializedReference E) =
     [k8sio_api_core_v1_ObjectReference]"
  "od_Dependencies (schema_k8sio_api_core_v1_Service E) = [k8sio_api_core_v1_ServiceSpec,
     k8sio_api_core_v1_ServiceStatus, pkg_apis_meta_v1_ObjectMeta]"
  "od_Dependencies (schema_k8sio_api_core_v1_ServiceAccount E) =
     [k8sio_api_core_v1_LocalObjectReference, k8sio_api_core_v1_ObjectReference,
     pkg_apis_meta_v1_ObjectMeta]"
  "od_Dependencies (schema_k8sio_api_core_v1_ServiceAccountList E) =
     [k8sio_api_core_v1_ServiceAccount, pkg_apis_meta_v1_ListMeta]"
  "od_Dependencies (schema_k8sio_api_core_v1_ServiceAccountTokenProjection E) = []"
  "od_Dependencies (schema_k8sio_api_core_v1_ServiceList E) = [k8sio_api_core_v1_Service,
     pkg_apis_meta_v1_ListMeta]"
  "od_Dependencies (schema_k8sio_api_core_v1_ServicePort E) =
     [k8sio_apimachinery_pkg_util_intstr_IntOrString]"
  "od_Dependencies (schema_k8sio_api_core_v1_ServiceProxyOptions E) = []"
  "od_Dependencies (schema_k8sio_api_core_v1_ServiceSpec E) = [k8sio_api_core_v1_ServicePort,
     k8sio_api_core_v1_SessionAffinityConfig]"
  "od_Dependencies (schema_k8sio_api_core_v1_ServiceStatus E) =
     [k8sio_api_core_v1_LoadBalancerStatus, pkg_apis_meta_v1_Condition]"
  "od_Dependencies (schema_k8sio_api_core_v1_SessionAffinityConfig E) =
     [k8sio_api_core_v1_ClientIPConfig]"
  "od_Dependencies (schema_k8sio_api_core_v1_StorageOSPersistentVolumeSource E) =
     [k8sio_api_core_v1_ObjectReference]"
  "od_Dependencies (schema_k8sio_api_core_v1_StorageOSVolumeSource E) =
     [k8sio_api_core_v1_LocalObjectReference]"
  "od_Dependencies (schema_k8sio_api_core_v1_Sysctl E) = []"
  "od_Dependencies (schema_k8sio_api_core_v1_TCPSocketAction E) =
     [k8sio_apimachinery_pkg_util_intstr_IntOrString]"
  "od_Dependencies (schema_k8sio_api_core_v1_Taint E) = [pkg_apis_meta_v1_Time]"
  "od_Dependencies (schema_k8sio_api_core_v1_Toleration E) = []"
  "od_Dependencies (schema_k8sio_api_core_v1_TopologySelectorLabelRequirement E) = []"
  "od_Dependencies (schema_k8sio_api_core_v1_TopologySelectorTerm E) =
     [k8sio_api_core_v1_TopologySelectorLabelRequirement]"
  "od_Dependencies (schema_k8sio_api_core_v1_TopologySpreadConstraint E) =
     [pkg_apis_meta_v1_LabelSelector]"
  "od_Dependencies (schema_k8sio_api_core_v1_TypedLocalObjectReference E) = []"
  "od_Dependencies (schema_k8sio_api_core_v1_TypedObjectReference E) = []"
  "od_Dependencies (schema_k8sio_api_core_v1_Volume E) =
     [k8sio_api_core_v1_AWSElasticBlockStoreVolumeSource, k8sio_api_core_v1_AzureDiskVolumeSource,
     k8sio_api_core_v1_AzureFileVolumeSource, k8sio_api_core_v1_CSIVolumeSource,
     k8sio_api_core_v1_CephFSVolumeSource, k8sio_api_core_v1_CinderVolumeSource,
     k8sio_api_core_v1_ConfigMapVolumeSource, k8sio_api_core_v1_DownwardAPIVolumeSource,
     k8sio_api_core_v1_EmptyDirVolumeSource, k8sio_api_core_v1_EphemeralVolumeSource,
     k8sio_api_core_v1_FCVolumeSource, k8sio_api_core_v1_FlexVolumeSource,
     k8sio_api_core_v1_FlockerVolumeSource, k8sio_api_core_v1_GCEPersistentDiskVolumeSource,
     k8sio_api_core_v1_GitRepoVolumeSource, k8sio_api_core_v1_GlusterfsVolumeSource,
     k8sio_api_core_v1_HostPathVolumeSource, k8sio_api_core_v1_ISCSIVolumeSource,
     k8sio_api_core_v1_NFSVolumeSource, k8sio_api_core_v1_PersistentVolumeClaimVolumeSource,
     k8sio_api_core_v1_PhotonPersistentDiskVolumeSource, k8sio_api_core_v1_PortworxVolumeSource,
     k8sio_api_core_v1_ProjectedVolumeSource, k8sio_api_core_v1_QuobyteVolumeSource,
     k8sio_api_core_v1_RBDVolumeSource, k8sio_api_core_v1_ScaleIOVolumeSource,
     k8sio_api_core_v1_SecretVolumeSource, k8sio_api_core_v1_StorageOSVolumeSource,
     k8sio_api_core_v1_VsphereVirtualDiskVolumeSource]"
  "od_Dependencies (schema_k8sio_api_core_v1_VolumeDevice E) = []"
  "od_Dependencies (schema_k8sio_api_core_v1_VolumeMount E) = []"
  "od_Dependencies (schema_k8sio_api_core_v1_VolumeNodeAffinity E) =
     [k8sio_api_core_v1_NodeSelector]"
  "od_Dependencies (schema_k8sio_api_core_v1_VolumeProjection E) =
     [k8sio_api_core_v1_ConfigMapProjection, k8sio_api_core_v1_DownwardAPIProjection,
     k8sio_api_core_v1_SecretProjection, k8sio_api_core_v1_ServiceAccountTokenProjection]"
  "od_Dependencies (schema_k8sio_api_core_v1_VolumeSource E) =
     [k8sio_api_core_v1_AWSElasticBlockStoreVolumeSource, k8sio_api_core_v1_AzureDiskVolumeSource,
     k8sio_api_core_v1_AzureFileVolumeSource, k8sio_api_core_v1_CSIVolumeSource,
     k8sio_api_core_v1_CephFSVolumeSource, k8sio_api_core_v1_CinderVolumeSource,
     k8sio_api_core_v1_ConfigMapVolumeSource, k8sio_api_core_v1_DownwardAPIVolumeSource,
     k8sio_api_core_v1_EmptyDirVolumeSource, k8sio_api_core_v1_EphemeralVolumeSource,
     k8sio_api_core_v1_FCVolumeSource, k8sio_api_core_v1_FlexVolumeSource,
     k8sio_api_core_v1_FlockerVolumeSource, k8sio_api_core_v1_GCEPersistentDiskVolumeSource,
     k8sio_api_core_v1_GitRepoVolumeSource, k8sio_api_core_v1_GlusterfsVolumeSource,
     k8sio_api_core_v1_HostPathVolumeSource, k8sio_api_core_v1_ISCSIVolumeSource,
     k8sio_api_core_v1_NFSVolumeSource, k8sio_api_core_v1_PersistentVolumeClaimVolumeSource,
     k8sio_api_core_v1_PhotonPersistentDiskVolumeSource, k8sio_api_core_v1_PortworxVolumeSource,
     k8sio_api_core_v1_ProjectedVolumeSource, k8sio_api_core_v1_QuobyteVolumeSource,
     k8sio_api_core_v1_RBDVolumeSource, k8sio_api_core_v1_ScaleIOVolumeSource,
     k8sio_api_core_v1_SecretVolumeSource, k8sio_api_core_v1_StorageOSVolumeSource,
     k8sio_api_core_v1_VsphereVirtualDiskVolumeSource]"
  "od_Dependencies (schema_k8sio_api_core_v1_VsphereVirtualDiskVolumeSource E) = []"
  "od_Dependencies (schema_k8sio_api_core_v1_WeightedPodAffinityTerm E) =
     [k8sio_api_core_v1_PodAffinityTerm]"
  "od_Dependencies (schema_k8sio_api_core_v1_WindowsSecurityContextOptions E) = []"
  by (simp_all add: Core_B_defs openapiOK_def)

lemma Core_B_exact [model_exact]:
  "dependenciesExact E (schema_k8sio_api_core_v1_NFSVolumeSource E)"
  "dependenciesExact E (schema_k8sio_api_core_v1_Namespace E)"
  "dependenciesExact E (schema_k8sio_api_core_v1_NamespaceCondition E)"
  "dependenciesExact E (schema_k8sio_api_core_v1_NamespaceList E)"
  "dependenciesExact E (schema_k8sio_api_core_v1_NamespaceSpec E)"
  "dependenciesExact E (schema_k8sio_api_core_v1_NamespaceStatus E)"
  "dependenciesExact E (schema_k8sio_api_core_v1_Node E)"
  "dependenciesExact E (schema_k8sio_api_core_v1_NodeAddress E)"
  "dependenciesExact E (schema_k8sio_api_core_v1_NodeAffinity E)"
  "dependenciesExact E (schema_k8sio_api_core_v1_NodeCondition E)"
  "dependenciesExact E (schema_k8sio_api_core_v1_NodeConfigSource E)"
  "dependenciesExact E (schema_k8sio_api_core_v1_NodeConfigStatus E)"
  "dependenciesExact E (schema_k8sio_api_core_v1_NodeDaemonEndpoints E)"
  "dependenciesExact E (schema_k8sio_api_core_v1_NodeList E)"
  "dependenciesExact E (schema_k8sio_api_core_v1_NodeProxyOptions E)"
  "dependenciesExact E (schema_k8sio_api_core_v1_NodeResources E)"
  "dependenciesExact E (schema_k8sio_api_core_v1_NodeSelector E)"
  "dependenciesExact E (schema_k8sio_api_core_v1_NodeSelectorRequirement E)"
  "dependenciesExact E (schema_k8sio_api_core_v1_NodeSelectorTerm E)"
  "dependenciesExact E (schema_k8sio_api_core_v1_NodeSpec E)"
  "dependenciesExact E (schema_k8sio_api_core_v1_NodeStatus E)"
  "dependenciesExact E (schema_k8sio_api_core_v1_NodeSystemInfo E)"
  "dependenciesExact E (schema_k8sio_api_core_v1_ObjectFieldSelector E)"
  "dependenciesExact E (schema_k8sio_api_core_v1_ObjectReference E)"
  "dependenciesExact E (schema_k8sio_api_core_v1_PersistentVolume E)"
  "dependenciesExact E (schema_k8sio_api_core_v1_PersistentVolumeClaim E)"
  "dependenciesExact E (schema_k8sio_api_core_v1_PersistentVolumeClaimCondition E)"
  "dependenciesExact E (schema_k8sio_api_core_v1_PersistentVolumeClaimList E)"
  "dependenciesExact E (schema_k8sio_api_core_v1_PersistentVolumeClaimSpec E)"
  "dependenciesExact E (schema_k8sio_api_core_v1_PersistentVolumeClaimStatus E)"
  "dependenciesExact E (schema_k8sio_api_core_v1_PersistentVolumeClaimTemplate E)"
  "dependenciesExact E (schema_k8sio_api_core_v1_PersistentVolumeClaimVolumeSource E)"
  "dependenciesExact E (schema_k8sio_api_core_v1_PersistentVolumeList E)"
  "dependenciesExact E (schema_k8sio_api_core_v1_PersistentVolumeSource E)"
  "dependenciesExact E (schema_k8sio_api_core_v1_PersistentVolumeSpec E)"
  "dependenciesExact E (schema_k8sio_api_core_v1_PersistentVolumeStatus E)"
  "dependenciesExact E (schema_k8sio_api_core_v1_PhotonPersistentDiskVolumeSource E)"
  "dependenciesExact E (schema_k8sio_api_core_v1_Pod E)"
  "dependenciesExact E (schema_k8sio_api_core_v1_PodAffinity E)"
  "dependenciesExact E (schema_k8sio_api_core_v1_PodAffinityTerm E)"
  "dependenciesExact E (schema_k8sio_api_core_v1_PodAntiAffinity E)"
  "dependenciesExact E (schema_k8sio_api_core_v1_PodAttachOptions E)"
  "dependenciesExact E (schema_k8sio_api_core_v1_PodCondition E)"
  "dependenciesExact E (schema_k8sio_api_core_v1_PodDNSConfig E)"
  "dependenciesExact E (schema_k8sio_api_core_v1_PodDNSConfigOption E)"
  "dependenciesExact E (schema_k8sio_api_core_v1_PodExecOptions E)"
  "dependenciesExact E (schema_k8sio_api_core_v1_PodIP E)"
  "dependenciesExact E (schema_k8sio_api_core_v1_PodList E)"
  "dependenciesExact E (schema_k8sio_api_core_v1_PodLogOptions E)"
  "dependenciesExact E (schema_k8sio_api_core_v1_PodOS E)"
  "dependenciesExact E (schema_k8sio_api_core_v1_PodPortForwardOptions E)"
  "dependenciesExact E (schema_k8sio_api_core_v1_PodProxyOptions E)"
  "dependenciesExact E (schema_k8sio_api_core_v1_PodReadinessGate E)"
  "dependenciesExact E (schema_k8sio_api_core_v1_PodResourceClaim E)"
  "dependenciesExact E (schema_k8sio_api_core_v1_PodResourceClaimStatus E)"
  "dependenciesExact E (schema_k8sio_api_core_v1_PodSchedulingGate E)"
  "dependenciesExact E (schema_k8sio_api_core_v1_PodSecurityContext E)"
  "dependenciesExact E (schema_k8sio_api_core_v1_PodSignature E)"
  "dependenciesExact E (schema_k8sio_api_core_v1_PodSpec E)"
  "dependenciesExact E (schema_k8sio_api_core_v1_PodStatus E)"
  "dependenciesExact E (schema_k8sio_api_core_v1_PodStatusResult E)"
  "dependenciesExact E (schema_k8sio_api_core_v1_PodTemplate E)"
  "dependenciesExact E (schema_k8sio_api_core_v1_PodTemplateList E)"
  "dependenciesExact E (schema_k8sio_api_core_v1_PodTemplateSpec E)"
  "dependenciesExact E (schema_k8sio_api_core_v1_PortStatus E)"
  "dependenciesExact E (schema_k8sio_api_core_v1_PortworxVolumeSource E)"
  "dependenciesExact E (schema_k8sio_api_core_v1_PreferAvoidPodsEntry E)"
  "dependenciesExact E (schema_k8sio_api_core_v1_PreferredSchedulingTerm E)"
  "dependenciesExact E (schema_k8sio_api_core_v1_Probe E)"
  "dependenciesExact E (schema_k8sio_api_core_v1_ProbeHandler E)"
  "dependenciesExact E (schema_k8sio_api_core_v1_ProjectedVolumeSource E)"
  "dependenciesExact E (schema_k8sio_api_core_v1_QuobyteVolumeSource E)"
  "dependenciesExact E (schema_k8sio_api_core_v1_RBDPersistentVolumeSource E)"
  "dependenciesExact E (schema_k8sio_api_core_v1_RBDVolumeSource E)"
  "dependenciesExact E (schema_k8sio_api_core_v1_RangeAllocation E)"
  "dependenciesExact E (schema_k8sio_api_core_v1_ReplicationController E)"
  "dependenciesExact E (schema_k8sio_api_core_v1_ReplicationControllerCondition E)"
  "dependenciesExact E (schema_k8sio_api_core_v1_ReplicationControllerList E)"
  "dependenciesExact E (schema_k8sio_api_core_v1_ReplicationControllerSpec E)"
  "dependenciesExact E (schema_k8sio_api_core_v1_ReplicationControllerStatus E)"
  "dependenciesExact E (schema_k8sio_api_core_v1_ResourceClaim E)"
  "dependenciesExact E (schema_k8sio_api_core_v1_ResourceFieldSelector E)"
  "dependenciesExact E (schema_k8sio_api_core_v1_ResourceQuota E)"
  "dependenciesExact E (schema_k8sio_api_core_v1_ResourceQuotaList E)"
  "dependenciesExact E (schema_k8sio_api_core_v1_ResourceQuotaSpec E)"
  "dependenciesExact E (schema_k8sio_api_core_v1_ResourceQuotaStatus E)"
  "dependenciesExact E (schema_k8sio_api_core_v1_ResourceRequirements E)"
  "dependenciesExact E (schema_k8sio_api_core_v1_SELinuxOptions E)"
  "dependenciesExact E (schema_k8sio_api_core_v1_ScaleIOPersistentVolumeSource E)"
  "dependenciesExact E (schema_k8sio_api_core_v1_ScaleIOVolumeSource E)"
  "dependenciesExact E (schema_k8sio_api_core_v1_ScopeSelector E)"
  "dependenciesExact E (schema_k8sio_api_core_v1_ScopedResourceSelectorRequirement E)"
  "dependenciesExact E (schema_k8sio_api_core_v1_SeccompProfile E)"
  "dependenciesExact E (schema_k8sio_api_core_v1_Secret E)"
  "dependenciesExact E (schema_k8sio_api_core_v1_SecretEnvSource E)"
  "dependenciesExact E (schema_k8sio_api_core_v1_SecretKeySelector E)"
  "dependenciesExact E (schema_k8sio_api_core_v1_SecretList E)"
  "dependenciesExact E (schema_k8sio_api_core_v1_SecretProjection E)"
  "dependenciesExact E (schema_k8sio_api_core_v1_SecretReference E)"
  "dependenciesExact E (schema_k8sio_api_core_v1_SecretVolumeSource E)"
  "dependenciesExact E (schema_k8sio_api_core_v1_SecurityContext E)"
  "dependenciesExact E (schema_k8sio_api_core_v1_SerializedReference E)"
  "dependenciesExact E (schema_k8sio_api_core_v1_Service E)"
  "dependenciesExact E (schema_k8sio_api_core_v1_ServiceAccount E)"
  "dependenciesExact E (schema_k8sio_api_core_v1_ServiceAccountList E)"
  "dependenciesExact E (schema_k8sio_api_core_v1_ServiceAccountTokenProjection E)"
  "dependenciesExact E (schema_k8sio_api_core_v1_ServiceList E)"
  "dependenciesExact E (schema_k8sio_api_core_v1_ServicePort E)"
  "dependenciesExact E (schema_k8sio_api_core_v1_ServiceProxyOptions E)"
  "dependenciesExact E (schema_k8sio_api_core_v1_ServiceSpec E)"
  "dependenciesExact E (schema_k8sio_api_core_v1_ServiceStatus E)"
  "dependenciesExact E (schema_k8sio_api_core_v1_SessionAffinityConfig E)"
  "dependenciesExact E (schema_k8sio_api_core_v1_StorageOSPersistentVolumeSource E)"
  "dependenciesExact E (schema_k8sio_api_core_v1_StorageOSVolumeSource E)"
  "dependenciesExact E (schema_k8sio_api_core_v1_Sysctl E)"
  "dependenciesExact E (schema_k8sio_api_core_v1_TCPSocketAction E)"
  "dependenciesExact E (schema_k8sio_api_core_v1_Taint E)"
  "dependenciesExact E (schema_k8sio_api_core_v1_Toleration E)"
  "dependenciesExact E (schema_k8sio_api_core_v1_TopologySelectorLabelRequirement E)"
  "dependenciesExact E (schema_k8sio_api_core_v1_TopologySelectorTerm E)"
  "dependenciesExact E (schema_k8sio_api_core_v1_TopologySpreadConstraint E)"
  "dependenciesExact E (schema_k8sio_api_core_v1_TypedLocalObjectReference E)"
  "dependenciesExact E (schema_k8sio_api_core_v1_TypedObjectReference E)"
  "dependenciesExact E (schema_k8sio_api_core_v1_Volume E)"
  "dependenciesExact E (schema_k8sio_api_core_v1_VolumeDevice E)"
  "dependenciesExact E (schema_k8sio_api_core_v1_VolumeMount E)"
  "dependenciesExact E (schema_k8sio_api_core_v1_VolumeNodeAffinity E)"
  "dependenciesExact E (schema_k8sio_api_core_v1_VolumeProjection E)"
  "dependenciesExact E (schema_k8sio_api_core_v1_VolumeSource E)"
  "dependenciesExact E (schema_k8sio_api_core_v1_VsphereVirtualDiskVolumeSource E)"
  "dependenciesExact E (schema_k8sio_api_core_v1_WeightedPodAffinityTerm E)"
  "dependenciesExact E (schema_k8sio_api_core_v1_WindowsSecurityContextOptions E)"
  by (simp_all add: Core_B_defs schema_eval)

lemma Core_B_wf [model_wf]:
  "wfDefinition (schema_k8sio_api_core_v1_NFSVolumeSource E)"
  "wfDefinition (schema_k8sio_api_core_v1_Namespace E)"
  "wfDefinition (schema_k8sio_api_core_v1_NamespaceCondition E)"
  "wfDefinition (schema_k8sio_api_core_v1_NamespaceList E)"
  "wfDefinition (schema_k8sio_api_core_v1_NamespaceSpec E)"
  "wfDefinition (schema_k8sio_api_core_v1_NamespaceStatus E)"
  "wfDefinition (schema_k8sio_api_core_v1_Node E)"
  "wfDefinition (schema_k8sio_api_core_v1_NodeAddress E)"
  "wfDefinition (schema_k8sio_api_core_v1_NodeAffinity E)"
  "wfDefinition (schema_k8sio_api_core_v1_NodeCondition E)"
  "wfDefinition (schema_k8sio_api_core_v1_NodeConfigSource E)"
  "wfDefinition (schema_k8sio_api_core_v1_NodeConfigStatus E)"
  "wfDefinition (schema_k8sio_api_core_v1_NodeDaemonEndpoints E)"
  "wfDefinition (schema_k8sio_api_core_v1_NodeList E)"
  "wfDefinition (schema_k8sio_api_core_v1_NodeProxyOptions E)"
  "wfDefinition (schema_k8sio_api_core_v1_NodeResources E)"
  "wfDefinition (schema_k8sio_api_core_v1_NodeSelector E)"
  "wfDefinition (schema_k8sio_api_core_v1_NodeSelectorRequirement E)"
  "wfDefinition (schema_k8sio_api_core_v1_NodeSelectorTerm E)"
  "wfDefinition (schema_k8sio_api_core_v1_NodeSpec E)"
  "wfDefinition (schema_k8sio_api_core_v1_NodeStatus E)"
  "wfDefinition (schema_k8sio_api_core_v1_NodeSystemInfo E)"
  "wfDefinition (schema_k8sio_api_core_v1_ObjectFieldSelector E)"
  "wfDefinition (schema_k8sio_api_core_v1_ObjectReference E)"
  "wfDefinition (schema_k8sio_api_core_v1_PersistentVolume E)"
  "wfDefinition (schema_k8sio_api_core_v1_PersistentVolumeClaim E)"
  "wfDefinition (schema_k8sio_api_core_v1_PersistentVolumeClaimCondition E)"
  "wfDefinition (schema_k8sio_api_core_v1_PersistentVolumeClaimList E)"
  "wfDefinition (schema_k8sio_api_core_v1_PersistentVolumeClaimSpec E)"
  "wfDefinition (schema_k8sio_api_core_v1_PersistentVolumeClaimStatus E)"
  "wfDefinition (schema_k8sio_api_core_v1_PersistentVolumeClaimTemplate E)"
  "wfDefinition (schema_k8sio_api_core_v1_PersistentVolumeClaimVolumeSource E)"
  "wfDefinition (schema_k8sio_api_core_v1_PersistentVolumeList E)"
  "wfDefinition (schema_k8sio_api_core_v1_PersistentVolumeSource E)"
  "wfDefinition (schema_k8sio_api_core_v1_PersistentVolumeSpec E)"
  "wfDefinition (schema_k8sio_api_core_v1_PersistentVolumeStatus E)"
  "wfDefinition (schema_k8sio_api_core_v1_PhotonPersistentDiskVolumeSource E)"
  "wfDefinition (schema_k8sio_api_core_v1_Pod E)"
  "wfDefinition (schema_k8sio_api_core_v1_PodAffinity E)"
  "wfDefinition (schema_k8sio_api_core_v1_PodAffinityTerm E)"
  "wfDefinition (schema_k8sio_api_core_v1_PodAntiAffinity E)"
  "wfDefinition (schema_k8sio_api_core_v1_PodAttachOptions E)"
  "wfDefinition (schema_k8sio_api_core_v1_PodCondition E)"
  "wfDefinition (schema_k8sio_api_core_v1_PodDNSConfig E)"
  "wfDefinition (schema_k8sio_api_core_v1_PodDNSConfigOption E)"
  "wfDefinition (schema_k8sio_api_core_v1_PodExecOptions E)"
  "wfDefinition (schema_k8sio_api_core_v1_PodIP E)"
  "wfDefinition (schema_k8sio_api_core_v1_PodList E)"
  "wfDefinition (schema_k8sio_api_core_v1_PodLogOptions E)"
  "wfDefinition (schema_k8sio_api_core_v1_PodOS E)"
  "wfDefinition (schema_k8sio_api_core_v1_PodPortForwardOptions E)"
  "wfDefinition (schema_k8sio_api_core_v1_PodProxyOptions E)"
  "wfDefinition (schema_k8sio_api_core_v1_PodReadinessGate E)"
  "wfDefinition (schema_k8sio_api_core_v1_PodResourceClaim E)"
  "wfDefinition (schema_k8sio_api_core_v1_PodResourceClaimStatus E)"
  "wfDefinition (schema_k8sio_api_core_v1_PodSchedulingGate E)"
  "wfDefinition (schema_k8sio_api_core_v1_PodSecurityContext E)"
  "wfDefinition (schema_k8sio_api_core_v1_PodSignature E)"
  "wfDefinition (schema_k8sio_api_core_v1_PodSpec E)"
  "wfDefinition (schema_k8sio_api_core_v1_PodStatus E)"
  "wfDefinition (schema_k8sio_api_core_v1_PodStatusResult E)"
  "wfDefinition (schema_k8sio_api_core_v1_PodTemplate E)"
  "wfDefinition (schema_k8sio_api_core_v1_PodTemplateList E)"
  "wfDefinition (schema_k8sio_api_core_v1_PodTemplateSpec E)"
  "wfDefinition (schema_k8sio_api_core_v1_PortStatus E)"
  "wfDefinition (schema_k8sio_api_core_v1_PortworxVolumeSource E)"
  "wfDefinition (schema_k8sio_api_core_v1_PreferAvoidPodsEntry E)"
  "wfDefinition (schema_k8sio_api_core_v1_PreferredSchedulingTerm E)"
  "wfDefinition (schema_k8sio_api_core_v1_Probe E)"
  "wfDefinition (schema_k8sio_api_core_v1_ProbeHandler E)"
  "wfDefinition (schema_k8sio_api_core_v1_ProjectedVolumeSource E)"
  "wfDefinition (schema_k8sio_api_core_v1_QuobyteVolumeSource E)"
  "wfDefinition (schema_k8sio_api_core_v1_RBDPersistentVolumeSource E)"
  "wfDefinition (schema_k8sio_api_core_v1_RBDVolumeSource E)"
  "wfDefinition (schema_k8sio_api_core_v1_RangeAllocation E)"
  "wfDefinition (schema_k8sio_api_core_v1_ReplicationController E)"
  "wfDefinition (schema_k8sio_api_core_v1_ReplicationControllerCondition E)"
  "wfDefinition (schema_k8sio_api_core_v1_ReplicationControllerList E)"
  "wfDefinition (schema_k8sio_api_core_v1_ReplicationControllerSpec E)"
  "wfDefinition (schema_k8sio_api_core_v1_ReplicationControllerStatus E)"
  "wfDefinition (schema_k8sio_api_core_v1_ResourceClaim E)"
  "wfDefinition (schema_k8sio_api_core_v1_ResourceFieldSelector E)"
  "wfDefinition (schema_k8sio_api_core_v1_ResourceQuota E)"
  "wfDefinition (schema_k8sio_api_core_v1_ResourceQuotaList E)"
  "wfDefinition (schema_k8sio_api_core_v1_ResourceQuotaSpec E)"
  "wfDefinition (schema_k8sio_api_core_v1_ResourceQuotaStatus E)"
  "wfDefinition (schema_k8sio_api_core_v1_ResourceRequirements E)"
  "wfDefinition (schema_k8sio_api_core_v1_SELinuxOptions E)"
  "wfDefinition (schema_k8sio_api_core_v1_ScaleIOPersistentVolumeSource E)"
  "wfDefinition (schema_k8sio_api_core_v1_ScaleIOVolumeSource E)"
  "wfDefinition (schema_k8sio_api_core_v1_ScopeSelector E)"
  "wfDefinition (schema_k8sio_api_core_v1_ScopedResourceSelectorRequirement E)"
  "wfDefinition (schema_k8sio_api_core_v1_SeccompProfile E)"
  "wfDefinition (schema_k8sio_api_core_v1_Secret E)"
  "wfDefinition (schema_k8sio_api_core_v1_SecretEnvSource E)"
  "wfDefinition (schema_k8sio_api_core_v1_SecretKeySelector E)"
  "wfDefinition (schema_k8sio_api_core_v1_SecretList E)"
  "wfDefinition (schema_k8sio_api_core_v1_SecretProjection E)"
  "wfDefinition (schema_k8sio_api_core_v1_SecretReference E)"
  "wfDefinition (schema_k8sio_api_core_v1_SecretVolumeSource E)"
  "wfDefinition (schema_k8sio_api_core_v1_SecurityContext E)"
  "wfDefinition (schema_k8sio_api_core_v1_SerializedReference E)"
  "wfDefinition (schema_k8sio_api_core_v1_Service E)"
  "wfDefinition (schema_k8sio_api_core_v1_ServiceAccount E)"
  "wfDefinition (schema_k8sio_api_core_v1_ServiceAccountList E)"
  "wfDefinition (schema_k8sio_api_core_v1_ServiceAccountTokenProjection E)"
  "wfDefinition (schema_k8sio_api_core_v1_ServiceList E)"
  "wfDefinition (schema_k8sio_api_core_v1_ServicePort E)"
  "wfDefinition (schema_k8sio_api_core_v1_ServiceProxyOptions E)"
  "wfDefinition (schema_k8sio_api_core_v1_ServiceSpec E)"
  "wfDefinition (schema_k8sio_api_core_v1_ServiceStatus E)"
  "wfDefinition (schema_k8sio_api_core_v1_SessionAffinityConfig E)"
  "wfDefinition (schema_k8sio_api_core_v1_StorageOSPersistentVolumeSource E)"
  "wfDefinition (schema_k8sio_api_core_v1_StorageOSVolumeSource E)"
  "wfDefinition (schema_k8sio_api_core_v1_Sysctl E)"
  "wfDefinition (schema_k8sio_api_core_v1_TCPSocketAction E)"
  "wfDefinition (schema_k8sio_api_core_v1_Taint E)"
  "wfDefinition (schema_k8sio_api_core_v1_Toleration E)"
  "wfDefinition (schema_k8sio_api_core_v1_TopologySelectorLabelRequirement E)"
  "wfDefinition (schema_k8sio_api_core_v1_TopologySelectorTerm E)"
  "wfDefinition (schema_k8sio_api_core_v1_TopologySpreadConstraint E)"
  "wfDefinition (schema_k8sio_api_core_v1_TypedLocalObjectReference E)"
  "wfDefinition (schema_k8sio_api_core_v1_TypedObjectReference E)"
  "wfDefinition (schema_k8sio_api_core_v1_Volume E)"
  "wfDefinition (schema_k8sio_api_core_v1_VolumeDevice E)"
  "wfDefinition (schema_k8sio_api_core_v1_VolumeMount E)"
  "wfDefinition (schema_k8sio_api_core_v1_VolumeNodeAffinity E)"
  "wfDefinition (schema_k8sio_api_core_v1_VolumeProjection E)"
  "wfDefinition (schema_k8sio_api_core_v1_VolumeSource E)"
  "wfDefinition (schema_k8sio_api_core_v1_VsphereVirtualDiskVolumeSource E)"
  "wfDefinition (schema_k8sio_api_core_v1_WeightedPodAffinityTerm E)"
  "wfDefinition (schema_k8sio_api_core_v1_WindowsSecurityContextOptions E)"
  by (simp_all add: Core_B_defs schema_eval)

end
