(* ===== verification/OpenAPI_Meta.thy ===== *)
theory OpenAPI_Meta
  imports OpenAPI_Names
begin

text \<open>
  The models of \<open>k8s.io/apimachinery\<close>, quantities, object metadata, discovery and versions, and of the metrics API
  groups in \<open>k8s.io/metrics\<close>.
\<close>

definition schema_apimachinery_pkg_api_resource_Quantity :: "'r openapi \<Rightarrow> 'r openAPIDefinition" where
  "schema_apimachinery_pkg_api_resource_Quantity E = oa_embed E
     \<lparr>od_Schema = [OneOf (oa_oneOf E ''resource.Quantity''), Format (oa_format E ''resource.Quantity'')],
      od_Dependencies = []\<rparr>
     \<lparr>od_Schema = [Type (oa_type E ''resource.Quantity''), Format (oa_format E ''resource.Quantity'')],
      od_Dependencies = []\<rparr>"

definition schema_apimachinery_pkg_api_resource_int64Amount :: "'r openapi \<Rightarrow> 'r openAPIDefinition" where
  "schema_apimachinery_pkg_api_resource_int64Amount E = \<lparr>
     od_Schema = [
       Type [''object''],
       Properties [
         (''value'', [Default (JInt 0), Type [''integer''], Format ''int64'']),
         (''scale'', [Default (JInt 0), Type [''integer''], Format ''int32''])],
       Required [''value'', ''scale'']],
     od_Dependencies = []\<rparr>"

definition schema_pkg_apis_meta_v1_APIGroup :: "'r openapi \<Rightarrow> 'r openAPIDefinition" where
  "schema_pkg_apis_meta_v1_APIGroup E = \<lparr>
     od_Schema = [
       Type [''object''],
       Properties [
         (''kind'', [Type [''string''], Format '''']),
         (''apiVersion'', [Type [''string''], Format '''']),
         (''name'', [Default (JString ''''), Type [''string''], Format '''']),
         (''versions'', [
           Type [''array''],
           Items [Default (JObject []), Ref (oa_ref E pkg_apis_meta_v1_GroupVersionForDiscovery)]]),
         (''preferredVersion'', [
           Default (JObject []), Ref (oa_ref E pkg_apis_meta_v1_GroupVersionForDiscovery)]),
         (''serverAddressByClientCIDRs'', [
           Type [''array''],
           Items [Default (JObject []), Ref (oa_ref E pkg_apis_meta_v1_ServerAddressByClientCIDR)]])],
       Required [''name'', ''versions'']],
     od_Dependencies = [pkg_apis_meta_v1_GroupVersionForDiscovery,
       pkg_apis_meta_v1_ServerAddressByClientCIDR]\<rparr>"

definition schema_pkg_apis_meta_v1_APIGroupList :: "'r openapi \<Rightarrow> 'r openAPIDefinition" where
  "schema_pkg_apis_meta_v1_APIGroupList E = \<lparr>
     od_Schema = [
       Type [''object''],
       Properties [
         (''kind'', [Type [''string''], Format '''']),
         (''apiVersion'', [Type [''string''], Format '''']),
         (''groups'', [
           Type [''array''], Items [Default (JObject []), Ref (oa_ref E pkg_apis_meta_v1_APIGroup)]])],
       Required [''groups'']],
     od_Dependencies = [pkg_apis_meta_v1_APIGroup]\<rparr>"

definition schema_pkg_apis_meta_v1_APIResource :: "'r openapi \<Rightarrow> 'r openAPIDefinition" where
  "schema_pkg_apis_meta_v1_APIResource E = \<lparr>
     od_Schema = [
       Type [''object''],
       Properties [
         (''name'', [Default (JString ''''), Type [''string''], Format '''']),
         (''singularName'', [Default (JString ''''), Type [''string''], Format '''']),
         (''namespaced'', [Default (JBool False), Type [''boolean''], Format '''']),
         (''group'', [Type [''string''], Format '''']),
         (''version'', [Type [''string''], Format '''']),
         (''kind'', [Default (JString ''''), Type [''string''], Format '''']),
         (''verbs'', [
           Type [''array''], Items [Default (JString ''''), Type [''string''], Format '''']]),
         (''shortNames'', [
           Type [''array''], Items [Default (JString ''''), Type [''string''], Format '''']]),
         (''categories'', [
           Type [''array''], Items [Default (JString ''''), Type [''string''], Format '''']]),
         (''storageVersionHash'', [Type [''string''], Format ''''])],
       Required [''name'', ''singularName'', ''namespaced'', ''kind'', ''verbs'']],
     od_Dependencies = []\<rparr>"

definition schema_pkg_apis_meta_v1_APIResourceList :: "'r openapi \<Rightarrow> 'r openAPIDefinition" where
  "schema_pkg_apis_meta_v1_APIResourceList E = \<lparr>
     od_Schema = [
       Type [''object''],
       Properties [
         (''kind'', [Type [''string''], Format '''']),
         (''apiVersion'', [Type [''string''], Format '''']),
         (''groupVersion'', [Default (JString ''''), Type [''string''], Format '''']),
         (''resources'', [
           Type [''array''],
           Items [Default (JObject []), Ref (oa_ref E pkg_apis_meta_v1_APIResource)]])],
       Required [''groupVersion'', ''resources'']],
     od_Dependencies = [pkg_apis_meta_v1_APIResource]\<rparr>"

definition schema_pkg_apis_meta_v1_APIVersions :: "'r openapi \<Rightarrow> 'r openAPIDefinition" where
  "schema_pkg_apis_meta_v1_APIVersions E = \<lparr>
     od_Schema = [
       Type [''object''],
       Properties [
         (''kind'', [Type [''string''], Format '''']),
         (''apiVersion'', [Type [''string''], Format '''']),
         (''versions'', [
           Type [''array''], Items [Default (JString ''''), Type [''string''], Format '''']]),
         (''serverAddressByClientCIDRs'', [
           Type [''array''],
           Items [Default (JObject []), Ref (oa_ref E pkg_apis_meta_v1_ServerAddressByClientCIDR)]])],
       Required [''versions'', ''serverAddressByClientCIDRs'']],
     od_Dependencies = [pkg_apis_meta_v1_ServerAddressByClientCIDR]\<rparr>"

definition schema_pkg_apis_meta_v1_ApplyOptions :: "'r openapi \<Rightarrow> 'r openAPIDefinition" where
  "schema_pkg_apis_meta_v1_ApplyOptions E = \<lparr>
     od_Schema = [
       Type [''object''],
       Properties [
         (''kind'', [Type [''string''], Format '''']),
         (''apiVersion'', [Type [''string''], Format '''']),
         (''dryRun'', [
           Type [''array''], Items [Default (JString ''''), Type [''string''], Format '''']]),
         (''force'', [Default (JBool False), Type [''boolean''], Format '''']),
         (''fieldManager'', [Default (JString ''''), Type [''string''], Format ''''])],
       Required [''force'', ''fieldManager'']],
     od_Dependencies = []\<rparr>"

definition schema_pkg_apis_meta_v1_Condition :: "'r openapi \<Rightarrow> 'r openAPIDefinition" where
  "schema_pkg_apis_meta_v1_Condition E = \<lparr>
     od_Schema = [
       Type [''object''],
       Properties [
         (''type'', [Default (JString ''''), Type [''string''], Format '''']),
         (''status'', [Default (JString ''''), Type [''string''], Format '''']),
         (''observedGeneration'', [Type [''integer''], Format ''int64'']),
         (''lastTransitionTime'', [Default (JObject []), Ref (oa_ref E pkg_apis_meta_v1_Time)]),
         (''reason'', [Default (JString ''''), Type [''string''], Format '''']),
         (''message'', [Default (JString ''''), Type [''string''], Format ''''])],
       Required [''type'', ''status'', ''lastTransitionTime'', ''reason'', ''message'']],
     od_Dependencies = [pkg_apis_meta_v1_Time]\<rparr>"

definition schema_pkg_apis_meta_v1_CreateOptions :: "'r openapi \<Rightarrow> 'r openAPIDefinition" where
  "schema_pkg_apis_meta_v1_CreateOptions E = \<lparr>
     od_Schema = [
       Type [''object''],
       Properties [
         (''kind'', [Type [''string''], Format '''']),
         (''apiVersion'', [Type [''string''], Format '''']),
         (''dryRun'', [
           Type [''array''], Items [Default (JString ''''), Type [''string''], Format '''']]),
         (''fieldManager'', [Type [''string''], Format '''']),
         (''fieldValidation'', [Type [''string''], Format ''''])]],
     od_Dependencies = []\<rparr>"

definition schema_pkg_apis_meta_v1_DeleteOptions :: "'r openapi \<Rightarrow> 'r openAPIDefinition" where
  "schema_pkg_apis_meta_v1_DeleteOptions E = \<lparr>
     od_Schema = [
       Type [''object''],
       Properties [
         (''kind'', [Type [''string''], Format '''']),
         (''apiVersion'', [Type [''string''], Format '''']),
         (''gracePeriodSeconds'', [Type [''integer''], Format ''int64'']),
         (''preconditions'', [Ref (oa_ref E pkg_apis_meta_v1_Preconditions)]),
         (''orphanDependents'', [Type [''boolean''], Format '''']),
         (''propagationPolicy'', [Type [''string''], Format '''']),
         (''dryRun'', [
           Type [''array''], Items [Default (JString ''''), Type [''string''], Format '''']])]],
     od_Dependencies = [pkg_apis_meta_v1_Preconditions]\<rparr>"

definition schema_pkg_apis_meta_v1_Duration :: "'r openapi \<Rightarrow> 'r openAPIDefinition" where
  "schema_pkg_apis_meta_v1_Duration E = \<lparr>
     od_Schema = [
       Type (oa_type E ''v1.Duration''), Format (oa_format E ''v1.Duration'')],
     od_Dependencies = []\<rparr>"

definition schema_pkg_apis_meta_v1_FieldsV1 :: "'r openapi \<Rightarrow> 'r openAPIDefinition" where
  "schema_pkg_apis_meta_v1_FieldsV1 E = \<lparr>
     od_Schema = [
       Type [''object'']],
     od_Dependencies = []\<rparr>"

definition schema_pkg_apis_meta_v1_GetOptions :: "'r openapi \<Rightarrow> 'r openAPIDefinition" where
  "schema_pkg_apis_meta_v1_GetOptions E = \<lparr>
     od_Schema = [
       Type [''object''],
       Properties [
         (''kind'', [Type [''string''], Format '''']),
         (''apiVersion'', [Type [''string''], Format '''']),
         (''resourceVersion'', [Type [''string''], Format ''''])]],
     od_Dependencies = []\<rparr>"

definition schema_pkg_apis_meta_v1_GroupKind :: "'r openapi \<Rightarrow> 'r openAPIDefinition" where
  "schema_pkg_apis_meta_v1_GroupKind E = \<lparr>
     od_Schema = [
       Type [''object''],
       Properties [
         (''group'', [Default (JString ''''), Type [''string''], Format '''']),
         (''kind'', [Default (JString ''''), Type [''string''], Format ''''])],
       Required [''group'', ''kind'']],
     od_Dependencies = []\<rparr>"

definition schema_pkg_apis_meta_v1_GroupResource :: "'r openapi \<Rightarrow> 'r openAPIDefinition" where
  "schema_pkg_apis_meta_v1_GroupResource E = \<lparr>
     od_Schema = [
       Type [''object''],
       Properties [
         (''group'', [Default (JString ''''), Type [''string''], Format '''']),
         (''resource'', [Default (JString ''''), Type [''string''], Format ''''])],
       Required [''group'', ''resource'']],
     od_Dependencies = []\<rparr>"

definition schema_pkg_apis_meta_v1_GroupVersion :: "'r openapi \<Rightarrow> 'r openAPIDefinition" where
  "schema_pkg_apis_meta_v1_GroupVersion E = \<lparr>
     od_Schema = [
       Type [''object''],
       Properties [
         (''group'', [Default (JString ''''), Type [''string''], Format '''']),
         (''version'', [Default (JString ''''), Type [''string''], Format ''''])],
       Required [''group'', ''version'']],
     od_Dependencies = []\<rparr>"

definition schema_pkg_apis_meta_v1_GroupVersionForDiscovery :: "'r openapi \<Rightarrow> 'r openAPIDefinition" where
  "schema_pkg_apis_meta_v1_GroupVersionForDiscovery E = \<lparr>
     od_Schema = [
       Type [''object''],
       Properties [
         (''groupVersion'', [Default (JString ''''), Type [''string''], Format '''']),
         (''version'', [Default (JString ''''), Type [''string''], Format ''''])],
       Required [''groupVersion'', ''version'']],
     od_Dependencies = []\<rparr>"

definition schema_pkg_apis_meta_v1_GroupVersionKind :: "'r openapi \<Rightarrow> 'r openAPIDefinition" where
  "schema_pkg_apis_meta_v1_GroupVersionKind E = \<lparr>
     od_Schema = [
       Type [''object''],
       Properties [
         (''group'', [Default (JString ''''), Type [''string''], Format '''']),
         (''version'', [Default (JString ''''), Type [''string''], Format '''']),
         (''kind'', [Default (JString ''''), Type [''string''], Format ''''])],
       Required [''group'', ''version'', ''kind'']],
     od_Dependencies = []\<rparr>"

definition schema_pkg_apis_meta_v1_GroupVersionResource :: "'r openapi \<Rightarrow> 'r openAPIDefinition" where
  "schema_pkg_apis_meta_v1_GroupVersionResource E = \<lparr>
     od_Schema = [
       Type [''object''],
       Properties [
         (''group'', [Default (JString ''''), Type [''string''], Format '''']),
         (''version'', [Default (JString ''''), Type [''string''], Format '''']),
         (''resource'', [Default (JString ''''), Type [''string''], Format ''''])],
       Required [''group'', ''version'', ''resource'']],
     od_Dependencies = []\<rparr>"

definition schema_pkg_apis_meta_v1_InternalEvent :: "'r openapi \<Rightarrow> 'r openAPIDefinition" where
  "schema_pkg_apis_meta_v1_InternalEvent E = \<lparr>
     od_Schema = [
       Type [''object''],
       Properties [
         (''Type'', [Default (JString ''''), Type [''string''], Format '''']),
         (''Object'', [Ref (oa_ref E k8sio_apimachinery_pkg_runtime_Object)])],
       Required [''Type'', ''Object'']],
     od_Dependencies = [k8sio_apimachinery_pkg_runtime_Object]\<rparr>"

definition schema_pkg_apis_meta_v1_LabelSelector :: "'r openapi \<Rightarrow> 'r openAPIDefinition" where
  "schema_pkg_apis_meta_v1_LabelSelector E = \<lparr>
     od_Schema = [
       Type [''object''],
       Properties [
         (''matchLabels'', [
           Type [''object''],
           AdditionalProperties True [Default (JString ''''), Type [''string''], Format '''']]),
         (''matchExpressions'', [
           Type [''array''],
           Items [Default (JObject []), Ref (oa_ref E pkg_apis_meta_v1_LabelSelectorRequirement)]])],
       VendorExtensible [(''x-kubernetes-map-type'', JString ''atomic'')]],
     od_Dependencies = [pkg_apis_meta_v1_LabelSelectorRequirement]\<rparr>"

definition schema_pkg_apis_meta_v1_LabelSelectorRequirement :: "'r openapi \<Rightarrow> 'r openAPIDefinition" where
  "schema_pkg_apis_meta_v1_LabelSelectorRequirement E = \<lparr>
     od_Schema = [
       Type [''object''],
       Properties [
         (''key'', [Default (JString ''''), Type [''string''], Format '''']),
         (''operator'', [Default (JString ''''), Type [''string''], Format '''']),
         (''values'', [
           Type [''array''], Items [Default (JString ''''), Type [''string''], Format '''']])],
       Required [''key'', ''operator'']],
     od_Dependencies = []\<rparr>"

definition schema_pkg_apis_meta_v1_List :: "'r openapi \<Rightarrow> 'r openAPIDefinition" where
  "schema_pkg_apis_meta_v1_List E = \<lparr>
     od_Schema = [
       Type [''object''],
       Properties [
         (''kind'', [Type [''string''], Format '''']),
         (''apiVersion'', [Type [''string''], Format '''']),
         (''metadata'', [Default (JObject []), Ref (oa_ref E pkg_apis_meta_v1_ListMeta)]),
         (''items'', [
           Type [''array''],
           Items [Default (JObject []), Ref (oa_ref E k8sio_apimachinery_pkg_runtime_RawExtension)]])],
       Required [''items'']],
     od_Dependencies = [pkg_apis_meta_v1_ListMeta,
       k8sio_apimachinery_pkg_runtime_RawExtension]\<rparr>"

definition schema_pkg_apis_meta_v1_ListMeta :: "'r openapi \<Rightarrow> 'r openAPIDefinition" where
  "schema_pkg_apis_meta_v1_ListMeta E = \<lparr>
     od_Schema = [
       Type [''object''],
       Properties [
         (''selfLink'', [Type [''string''], Format '''']),
         (''resourceVersion'', [Type [''string''], Format '''']),
         (''continue'', [Type [''string''], Format '''']),
         (''remainingItemCount'', [Type [''integer''], Format ''int64''])]],
     od_Dependencies = []\<rparr>"

definition schema_pkg_apis_meta_v1_ListOptions :: "'r openapi \<Rightarrow> 'r openAPIDefinition" where
  "schema_pkg_apis_meta_v1_ListOptions E = \<lparr>
     od_Schema = [
       Type [''object''],
       Properties [
         (''kind'', [Type [''string''], Format '''']),
         (''apiVersion'', [Type [''string''], Format '''']),
         (''labelSelector'', [Type [''string''], Format '''']),
         (''fieldSelector'', [Type [''string''], Format '''']),
         (''watch'', [Type [''boolean''], Format '''']),
         (''allowWatchBookmarks'', [Type [''boolean''], Format '''']),
         (''resourceVersion'', [Type [''string''], Format '''']),
         (''resourceVersionMatch'', [Type [''string''], Format '''']),
         (''timeoutSeconds'', [Type [''integer''], Format ''int64'']),
         (''limit'', [Type [''integer''], Format ''int64'']),
         (''continue'', [Type [''string''], Format '''']),
         (''sendInitialEvents'', [Type [''boolean''], Format ''''])]],
     od_Dependencies = []\<rparr>"

definition schema_pkg_apis_meta_v1_ManagedFieldsEntry :: "'r openapi \<Rightarrow> 'r openAPIDefinition" where
  "schema_pkg_apis_meta_v1_ManagedFieldsEntry E = \<lparr>
     od_Schema = [
       Type [''object''],
       Properties [
         (''manager'', [Type [''string''], Format '''']),
         (''operation'', [Type [''string''], Format '''']),
         (''apiVersion'', [Type [''string''], Format '''']),
         (''time'', [Ref (oa_ref E pkg_apis_meta_v1_Time)]),
         (''fieldsType'', [Type [''string''], Format '''']),
         (''fieldsV1'', [Ref (oa_ref E pkg_apis_meta_v1_FieldsV1)]),
         (''subresource'', [Type [''string''], Format ''''])]],
     od_Dependencies = [pkg_apis_meta_v1_FieldsV1, pkg_apis_meta_v1_Time]\<rparr>"

definition schema_pkg_apis_meta_v1_MicroTime :: "'r openapi \<Rightarrow> 'r openAPIDefinition" where
  "schema_pkg_apis_meta_v1_MicroTime E = \<lparr>
     od_Schema = [
       Type (oa_type E ''v1.MicroTime''), Format (oa_format E ''v1.MicroTime'')],
     od_Dependencies = []\<rparr>"

definition schema_pkg_apis_meta_v1_ObjectMeta :: "'r openapi \<Rightarrow> 'r openAPIDefinition" where
  "schema_pkg_apis_meta_v1_ObjectMeta E = \<lparr>
     od_Schema = [
       Type [''object''],
       Properties [
         (''name'', [Type [''string''], Format '''']),
         (''generateName'', [Type [''string''], Format '''']),
         (''namespace'', [Type [''string''], Format '''']),
         (''selfLink'', [Type [''string''], Format '''']),
         (''uid'', [Type [''string''], Format '''']),
         (''resourceVersion'', [Type [''string''], Format '''']),
         (''generation'', [Type [''integer''], Format ''int64'']),
         (''creationTimestamp'', [Default (JObject []), Ref (oa_ref E pkg_apis_meta_v1_Time)]),
         (''deletionTimestamp'', [Ref (oa_ref E pkg_apis_meta_v1_Time)]),
         (''deletionGracePeriodSeconds'', [Type [''integer''], Format ''int64'']),
         (''labels'', [
           Type [''object''],
           AdditionalProperties True [Default (JString ''''), Type [''string''], Format '''']]),
         (''annotations'', [
           Type [''object''],
           AdditionalProperties True [Default (JString ''''), Type [''string''], Format '''']]),
         (''ownerReferences'', [
           VendorExtensible [(''x-kubernetes-patch-merge-key'', JString ''uid''),
             (''x-kubernetes-patch-strategy'', JString ''merge'')],
           Type [''array''],
           Items [Default (JObject []), Ref (oa_ref E pkg_apis_meta_v1_OwnerReference)]]),
         (''finalizers'', [
           VendorExtensible [(''x-kubernetes-patch-strategy'', JString ''merge'')],
           Type [''array''], Items [Default (JString ''''), Type [''string''], Format '''']]),
         (''managedFields'', [
           Type [''array''],
           Items [Default (JObject []), Ref (oa_ref E pkg_apis_meta_v1_ManagedFieldsEntry)]])]],
     od_Dependencies = [pkg_apis_meta_v1_ManagedFieldsEntry, pkg_apis_meta_v1_OwnerReference,
       pkg_apis_meta_v1_Time]\<rparr>"

definition schema_pkg_apis_meta_v1_OwnerReference :: "'r openapi \<Rightarrow> 'r openAPIDefinition" where
  "schema_pkg_apis_meta_v1_OwnerReference E = \<lparr>
     od_Schema = [
       Type [''object''],
       Properties [
         (''apiVersion'', [Default (JString ''''), Type [''string''], Format '''']),
         (''kind'', [Default (JString ''''), Type [''string''], Format '''']),
         (''name'', [Default (JString ''''), Type [''string''], Format '''']),
         (''uid'', [Default (JString ''''), Type [''string''], Format '''']),
         (''controller'', [Type [''boolean''], Format '''']),
         (''blockOwnerDeletion'', [Type [''boolean''], Format ''''])],
       Required [''apiVersion'', ''kind'', ''name'', ''uid''],
       VendorExtensible [(''x-kubernetes-map-type'', JString ''atomic'')]],
     od_Dependencies = []\<rparr>"

definition schema_pkg_apis_meta_v1_PartialObjectMetadata :: "'r openapi \<Rightarrow> 'r openAPIDefinition" where
  "schema_pkg_apis_meta_v1_PartialObjectMetadata E = \<lparr>
     od_Schema = [
       Type [''object''],
       Properties [
         (''kind'', [Type [''string''], Format '''']),
         (''apiVersion'', [Type [''string''], Format '''']),
         (''metadata'', [Default (JObject []), Ref (oa_ref E pkg_apis_meta_v1_ObjectMeta)])]],
     od_Dependencies = [pkg_apis_meta_v1_ObjectMeta]\<rparr>"

definition schema_pkg_apis_meta_v1_PartialObjectMetadataList :: "'r openapi \<Rightarrow> 'r openAPIDefinition" where
  "schema_pkg_apis_meta_v1_PartialObjectMetadataList E = \<lparr>
     od_Schema = [
       Type [''object''],
       Properties [
         (''kind'', [Type [''string''], Format '''']),
         (''apiVersion'', [Type [''string''], Format '''']),
         (''metadata'', [Default (JObject []), Ref (oa_ref E pkg_apis_meta_v1_ListMeta)]),
         (''items'', [
           Type [''array''],
           Items [Default (JObject []), Ref (oa_ref E pkg_apis_meta_v1_PartialObjectMetadata)]])],
       Required [''items'']],
     od_Dependencies = [pkg_apis_meta_v1_ListMeta, pkg_apis_meta_v1_PartialObjectMetadata]\<rparr>"

definition schema_pkg_apis_meta_v1_Patch :: "'r openapi \<Rightarrow> 'r openAPIDefinition" where
  "schema_pkg_apis_meta_v1_Patch E = \<lparr>
     od_Schema = [
       Type [''object'']],
     od_Dependencies = []\<rparr>"

definition schema_pkg_apis_meta_v1_PatchOptions :: "'r openapi \<Rightarrow> 'r openAPIDefinition" where
  "schema_pkg_apis_meta_v1_PatchOptions E = \<lparr>
     od_Schema = [
       Type [''object''],
       Properties [
         (''kind'', [Type [''string''], Format '''']),
         (''apiVersion'', [Type [''string''], Format '''']),
         (''dryRun'', [
           Type [''array''], Items [Default (JString ''''), Type [''string''], Format '''']]),
         (''force'', [Type [''boolean''], Format '''']),
         (''fieldManager'', [Type [''string''], Format '''']),
         (''fieldValidation'', [Type [''string''], Format ''''])]],
     od_Dependencies = []\<rparr>"

definition schema_pkg_apis_meta_v1_Preconditions :: "'r openapi \<Rightarrow> 'r openAPIDefinition" where
  "schema_pkg_apis_meta_v1_Preconditions E = \<lparr>
     od_Schema = [
       Type [''object''],
       Properties [
         (''uid'', [Type [''string''], Format '''']),
         (''resourceVersion'', [Type [''string''], Format ''''])]],
     od_Dependencies = []\<rparr>"

definition schema_pkg_apis_meta_v1_RootPaths :: "'r openapi \<Rightarrow> 'r openAPIDefinition" where
  "schema_pkg_apis_meta_v1_RootPaths E = \<lparr>
     od_Schema = [
       Type [''object''],
       Properties [
         (''paths'', [
           Type [''array''], Items [Default (JString ''''), Type [''string''], Format '''']])],
       Required [''paths'']],
     od_Dependencies = []\<rparr>"

definition schema_pkg_apis_meta_v1_ServerAddressByClientCIDR :: "'r openapi \<Rightarrow> 'r openAPIDefinition" where
  "schema_pkg_apis_meta_v1_ServerAddressByClientCIDR E = \<lparr>
     od_Schema = [
       Type [''object''],
       Properties [
         (''clientCIDR'', [Default (JString ''''), Type [''string''], Format '''']),
         (''serverAddress'', [Default (JString ''''), Type [''string''], Format ''''])],
       Required [''clientCIDR'', ''serverAddress'']],
     od_Dependencies = []\<rparr>"

definition schema_pkg_apis_meta_v1_Status :: "'r openapi \<Rightarrow> 'r openAPIDefinition" where
  "schema_pkg_apis_meta_v1_Status E = \<lparr>
     od_Schema = [
       Type [''object''],
       Properties [
         (''kind'', [Type [''string''], Format '''']),
         (''apiVersion'', [Type [''string''], Format '''']),
         (''metadata'', [Default (JObject []), Ref (oa_ref E pkg_apis_meta_v1_ListMeta)]),
         (''status'', [Type [''string''], Format '''']),
         (''message'', [Type [''string''], Format '''']),
         (''reason'', [Type [''string''], Format '''']),
         (''details'', [Ref (oa_ref E pkg_apis_meta_v1_StatusDetails)]),
         (''code'', [Type [''integer''], Format ''int32''])]],
     od_Dependencies = [pkg_apis_meta_v1_ListMeta, pkg_apis_meta_v1_StatusDetails]\<rparr>"

definition schema_pkg_apis_meta_v1_StatusCause :: "'r openapi \<Rightarrow> 'r openAPIDefinition" where
  "schema_pkg_apis_meta_v1_StatusCause E = \<lparr>
     od_Schema = [
       Type [''object''],
       Properties [
         (''reason'', [Type [''string''], Format '''']),
         (''message'', [Type [''string''], Format '''']),
         (''field'', [Type [''string''], Format ''''])]],
     od_Dependencies = []\<rparr>"

definition schema_pkg_apis_meta_v1_StatusDetails :: "'r openapi \<Rightarrow> 'r openAPIDefinition" where
  "schema_pkg_apis_meta_v1_StatusDetails E = \<lparr>
     od_Schema = [
       Type [''object''],
       Properties [
         (''name'', [Type [''string''], Format '''']),
         (''group'', [Type [''string''], Format '''']),
         (''kind'', [Type [''string''], Format '''']),
         (''uid'', [Type [''string''], Format '''']),
         (''causes'', [
           Type [''array''],
           Items [Default (JObject []), Ref (oa_ref E pkg_apis_meta_v1_StatusCause)]]),
         (''retryAfterSeconds'', [Type [''integer''], Format ''int32''])]],
     od_Dependencies = [pkg_apis_meta_v1_StatusCause]\<rparr>"

definition schema_pkg_apis_meta_v1_Table :: "'r openapi \<Rightarrow> 'r openAPIDefinition" where
  "schema_pkg_apis_meta_v1_Table E = \<lparr>
     od_Schema = [
       Type [''object''],
       Properties [
         (''kind'', [Type [''string''], Format '''']),
         (''apiVersion'', [Type [''string''], Format '''']),
         (''metadata'', [Default (JObject []), Ref (oa_ref E pkg_apis_meta_v1_ListMeta)]),
         (''columnDefinitions'', [
           Type [''array''],
           Items [Default (JObject []), Ref (oa_ref E pkg_apis_meta_v1_TableColumnDefinition)]]),
         (''rows'', [
           Type [''array''], Items [Default (JObject []), Ref (oa_ref E pkg_apis_meta_v1_TableRow)]])],
       Required [''columnDefinitions'', ''rows'']],
     od_Dependencies = [pkg_apis_meta_v1_ListMeta, pkg_apis_meta_v1_TableColumnDefinition,
       pkg_apis_meta_v1_TableRow]\<rparr>"

definition schema_pkg_apis_meta_v1_TableColumnDefinition :: "'r openapi \<Rightarrow> 'r openAPIDefinition" where
  "schema_pkg_apis_meta_v1_TableColumnDefinition E = \<lparr>
     od_Schema = [
       Type [''object''],
       Properties [
         (''name'', [Default (JString ''''), Type [''string''], Format '''']),
         (''type'', [Default (JString ''''), Type [''string''], Format '''']),
         (''format'', [Default (JString ''''), Type [''string''], Format '''']),
         (''description'', [Default (JString ''''), Type [''string''], Format '''']),
         (''priority'', [Default (JInt 0), Type [''integer''], Format ''int32''])],
       Required [''name'', ''type'', ''format'', ''description'', ''priority'']],
     od_Dependencies = []\<rparr>"

definition schema_pkg_apis_meta_v1_TableOptions :: "'r openapi \<Rightarrow> 'r openAPIDefinition" where
  "schema_pkg_apis_meta_v1_TableOptions E = \<lparr>
     od_Schema = [
       Type [''object''],
       Properties [
         (''kind'', [Type [''string''], Format '''']),
         (''apiVersion'', [Type [''string''], Format '''']),
         (''includeObject'', [Type [''string''], Format ''''])]],
     od_Dependencies = []\<rparr>"

definition schema_pkg_apis_meta_v1_TableRow :: "'r openapi \<Rightarrow> 'r openAPIDefinition" where
  "schema_pkg_apis_meta_v1_TableRow E = \<lparr>
     od_Schema = [
       Type [''object''],
       Properties [
         (''cells'', [Type [''array''], Items [Type [''object''], Format '''']]),
         (''conditions'', [
           Type [''array''],
           Items [Default (JObject []), Ref (oa_ref E pkg_apis_meta_v1_TableRowCondition)]]),
         (''object'', [
           Default (JObject []), Ref (oa_ref E k8sio_apimachinery_pkg_runtime_RawExtension)])],
       Required [''cells'']],
     od_Dependencies = [pkg_apis_meta_v1_TableRowCondition,
       k8sio_apimachinery_pkg_runtime_RawExtension]\<rparr>"

definition schema_pkg_apis_meta_v1_TableRowCondition :: "'r openapi \<Rightarrow> 'r openAPIDefinition" where
  "schema_pkg_apis_meta_v1_TableRowCondition E = \<lparr>
     od_Schema = [
       Type [''object''],
       Properties [
         (''type'', [Default (JString ''''), Type [''string''], Format '''']),
         (''status'', [Default (JString ''''), Type [''string''], Format '''']),
         (''reason'', [Type [''string''], Format '''']),
         (''message'', [Type [''string''], Format ''''])],
       Required [''type'', ''status'']],
     od_Dependencies = []\<rparr>"

definition schema_pkg_apis_meta_v1_Time :: "'r openapi \<Rightarrow> 'r openAPIDefinition" where
  "schema_pkg_apis_meta_v1_Time E = \<lparr>
     od_Schema = [
       Type (oa_type E ''v1.Time''), Format (oa_format E ''v1.Time'')],
     od_Dependencies = []\<rparr>"

definition schema_pkg_apis_meta_v1_Timestamp :: "'r openapi \<Rightarrow> 'r openAPIDefinition" where
  "schema_pkg_apis_meta_v1_Timestamp E = \<lparr>
     od_Schema = [
       Type [''object''],
       Properties [
         (''seconds'', [Default (JInt 0), Type [''integer''], Format ''int64'']),
         (''nanos'', [Default (JInt 0), Type [''integer''], Format ''int32''])],
       Required [''seconds'', ''nanos'']],
     od_Dependencies = []\<rparr>"

definition schema_pkg_apis_meta_v1_TypeMeta :: "'r openapi \<Rightarrow> 'r openAPIDefinition" where
  "schema_pkg_apis_meta_v1_TypeMeta E = \<lparr>
     od_Schema = [
       Type [''object''],
       Properties [
         (''kind'', [Type [''string''], Format '''']),
         (''apiVersion'', [Type [''string''], Format ''''])]],
     od_Dependencies = []\<rparr>"

definition schema_pkg_apis_meta_v1_UpdateOptions :: "'r openapi \<Rightarrow> 'r openAPIDefinition" where
  "schema_pkg_apis_meta_v1_UpdateOptions E = \<lparr>
     od_Schema = [
       Type [''object''],
       Properties [
         (''kind'', [Type [''string''], Format '''']),
         (''apiVersion'', [Type [''string''], Format '''']),
         (''dryRun'', [
           Type [''array''], Items [Default (JString ''''), Type [''string''], Format '''']]),
         (''fieldManager'', [Type [''string''], Format '''']),
         (''fieldValidation'', [Type [''string''], Format ''''])]],
     od_Dependencies = []\<rparr>"

definition schema_pkg_apis_meta_v1_WatchEvent :: "'r openapi \<Rightarrow> 'r openAPIDefinition" where
  "schema_pkg_apis_meta_v1_WatchEvent E = \<lparr>
     od_Schema = [
       Type [''object''],
       Properties [
         (''type'', [Default (JString ''''), Type [''string''], Format '''']),
         (''object'', [
           Default (JObject []), Ref (oa_ref E k8sio_apimachinery_pkg_runtime_RawExtension)])],
       Required [''type'', ''object'']],
     od_Dependencies = [k8sio_apimachinery_pkg_runtime_RawExtension]\<rparr>"

definition schema_k8sio_apimachinery_pkg_version_Info :: "'r openapi \<Rightarrow> 'r openAPIDefinition" where
  "schema_k8sio_apimachinery_pkg_version_Info E = \<lparr>
     od_Schema = [
       Type [''object''],
       Properties [
         (''major'', [Default (JString ''''), Type [''string''], Format '''']),
         (''minor'', [Default (JString ''''), Type [''string''], Format '''']),
         (''gitVersion'', [Default (JString ''''), Type [''string''], Format '''']),
         (''gitCommit'', [Default (JString ''''), Type [''string''], Format '''']),
         (''gitTreeState'', [Default (JString ''''), Type [''string''], Format '''']),
         (''buildDate'', [Default (JString ''''), Type [''string''], Format '''']),
         (''goVersion'', [Default (JString ''''), Type [''string''], Format '''']),
         (''compiler'', [Default (JString ''''), Type [''string''], Format '''']),
         (''platform'', [Default (JString ''''), Type [''string''], Format ''''])],
       Required [''major'', ''minor'', ''gitVersion'', ''gitCommit'', ''gitTreeState'',
         ''buildDate'', ''goVersion'', ''compiler'', ''platform'']],
     od_Dependencies = []\<rparr>"

definition schema_pkg_apis_custom_metrics_v1beta1_MetricListOptions :: "'r openapi \<Rightarrow> 'r openAPIDefinition" where
  "schema_pkg_apis_custom_metrics_v1beta1_MetricListOptions E = \<lparr>
     od_Schema = [
       Type [''object''],
       Properties [
         (''kind'', [Type [''string''], Format '''']),
         (''apiVersion'', [Type [''string''], Format '''']),
         (''labelSelector'', [Type [''string''], Format '''']),
         (''metricLabelSelector'', [Type [''string''], Format ''''])]],
     od_Dependencies = []\<rparr>"

definition schema_pkg_apis_custom_metrics_v1beta1_MetricValue :: "'r openapi \<Rightarrow> 'r openAPIDefinition" where
  "schema_pkg_apis_custom_metrics_v1beta1_MetricValue E = \<lparr>
     od_Schema = [
       Type [''object''],
       Properties [
         (''kind'', [Type [''string''], Format '''']),
         (''apiVersion'', [Type [''string''], Format '''']),
         (''describedObject'', [
           Default (JObject []), Ref (oa_ref E k8sio_api_core_v1_ObjectReference)]),
         (''metricName'', [Default (JString ''''), Type [''string''], Format '''']),
         (''timestamp'', [Default (JObject []), Ref (oa_ref E pkg_apis_meta_v1_Time)]),
         (''window'', [Type [''integer''], Format ''int64'']),
         (''value'', [Default (JObject []), Ref (oa_ref E apimachinery_pkg_api_resource_Quantity)]),
         (''selector'', [Ref (oa_ref E pkg_apis_meta_v1_LabelSelector)])],
       Required [''describedObject'', ''metricName'', ''timestamp'', ''value'']],
     od_Dependencies = [k8sio_api_core_v1_ObjectReference, apimachinery_pkg_api_resource_Quantity,
       pkg_apis_meta_v1_LabelSelector, pkg_apis_meta_v1_Time]\<rparr>"

definition schema_pkg_apis_custom_metrics_v1beta1_MetricValueList :: "'r openapi \<Rightarrow> 'r openAPIDefinition" where
  "schema_pkg_apis_custom_metrics_v1beta1_MetricValueList E = \<lparr>
     od_Schema = [
       Type [''object''],
       Properties [
         (''kind'', [Type [''string''], Format '''']),
         (''apiVersion'', [Type [''string''], Format '''']),
         (''metadata'', [Default (JObject []), Ref (oa_ref E pkg_apis_meta_v1_ListMeta)]),
         (''items'', [
           Type [''array''],
           Items [Default (JObject []), Ref (oa_ref E pkg_apis_custom_metrics_v1beta1_MetricValue)]])],
       Required [''items'']],
     od_Dependencies = [pkg_apis_meta_v1_ListMeta,
       pkg_apis_custom_metrics_v1beta1_MetricValue]\<rparr>"

definition schema_pkg_apis_custom_metrics_v1beta2_MetricIdentifier :: "'r openapi \<Rightarrow> 'r openAPIDefinition" where
  "schema_pkg_apis_custom_metrics_v1beta2_MetricIdentifier E = \<lparr>
     od_Schema = [
       Type [''object''],
       Properties [
         (''name'', [Default (JString ''''), Type [''string''], Format '''']),
         (''selector'', [Ref (oa_ref E pkg_apis_meta_v1_LabelSelector)])],
       Required [''name'']],
     od_Dependencies = [pkg_apis_meta_v1_LabelSelector]\<rparr>"

definition schema_pkg_apis_custom_metrics_v1beta2_MetricListOptions :: "'r openapi \<Rightarrow> 'r openAPIDefinition" where
  "schema_pkg_apis_custom_metrics_v1beta2_MetricListOptions E = \<lparr>
     od_Schema = [
       Type [''object''],
       Properties [
         (''kind'', [Type [''string''], Format '''']),
         (''apiVersion'', [Type [''string''], Format '''']),
         (''labelSelector'', [Type [''string''], Format '''']),
         (''metricLabelSelector'', [Type [''string''], Format ''''])]],
     od_Dependencies = []\<rparr>"

definition schema_pkg_apis_custom_metrics_v1beta2_MetricValue :: "'r openapi \<Rightarrow> 'r openAPIDefinition" where
  "schema_pkg_apis_custom_metrics_v1beta2_MetricValue E = \<lparr>
     od_Schema = [
       Type [''object''],
       Properties [
         (''kind'', [Type [''string''], Format '''']),
         (''apiVersion'', [Type [''string''], Format '''']),
         (''describedObject'', [
           Default (JObject []), Ref (oa_ref E k8sio_api_core_v1_ObjectReference)]),
         (''metric'', [
           Default (JObject []), Ref (oa_ref E pkg_apis_custom_metrics_v1beta2_MetricIdentifier)]),
         (''timestamp'', [Default (JObject []), Ref (oa_ref E pkg_apis_meta_v1_Time)]),
         (''windowSeconds'', [Type [''integer''], Format ''int64'']),
         (''value'', [Default (JObject []), Ref (oa_ref E apimachinery_pkg_api_resource_Quantity)])],
       Required [''describedObject'', ''metric'', ''timestamp'', ''value'']],
     od_Dependencies = [k8sio_api_core_v1_ObjectReference, apimachinery_pkg_api_resource_Quantity,
       pkg_apis_meta_v1_Time, pkg_apis_custom_metrics_v1beta2_MetricIdentifier]\<rparr>"

definition schema_pkg_apis_custom_metrics_v1beta2_MetricValueList :: "'r openapi \<Rightarrow> 'r openAPIDefinition" where
  "schema_pkg_apis_custom_metrics_v1beta2_MetricValueList E = \<lparr>
     od_Schema = [
       Type [''object''],
       Properties [
         (''kind'', [Type [''string''], Format '''']),
         (''apiVersion'', [Type [''string''], Format '''']),
         (''metadata'', [Default (JObject []), Ref (oa_ref E pkg_apis_meta_v1_ListMeta)]),
         (''items'', [
           Type [''array''],
           Items [Default (JObject []), Ref (oa_ref E pkg_apis_custom_metrics_v1beta2_MetricValue)]])],
       Required [''items'']],
     od_Dependencies = [pkg_apis_meta_v1_ListMeta,
       pkg_apis_custom_metrics_v1beta2_MetricValue]\<rparr>"

definition schema_pkg_apis_external_metrics_v1beta1_ExternalMetricValue :: "'r openapi \<Rightarrow> 'r openAPIDefinition" where
  "schema_pkg_apis_external_metrics_v1beta1_ExternalMetricValue E = \<lparr>
     od_Schema = [
       Type [''object''],
       Properties [
         (''kind'', [Type [''string''], Format '''']),
         (''apiVersion'', [Type [''string''], Format '''']),
         (''metricName'', [Default (JString ''''), Type [''string''], Format '''']),
         (''metricLabels'', [
           Type [''object''],
           AdditionalProperties True [Default (JString ''''), Type [''string''], Format '''']]),
         (''timestamp'', [Default (JObject []), Ref (oa_ref E pkg_apis_meta_v1_Time)]),
         (''window'', [Type [''integer''], Format ''int64'']),
         (''value'', [Default (JObject []), Ref (oa_ref E apimachinery_pkg_api_resource_Quantity)])],
       Required [''metricName'', ''metricLabels'', ''timestamp'', ''value'']],
     od_Dependencies = [apimachinery_pkg_api_resource_Quantity, pkg_apis_meta_v1_Time]\<rparr>"

definition schema_pkg_apis_external_metrics_v1beta1_ExternalMetricValueList :: "'r openapi \<Rightarrow> 'r openAPIDefinition" where
  "schema_pkg_apis_external_metrics_v1beta1_ExternalMetricValueList E = \<lparr>
     od_Schema = [
       Type [''object''],
       Properties [
         (''kind'', [Type [''string''], Format '''']),
         (''apiVersion'', [Type [''string''], Format '''']),
         (''metadata'', [Default (JObject []), Ref (oa_ref E pkg_apis_meta_v1_ListMeta)]),
         (''items'', [
           Type [''array''],
           Items [
             Default (JObject []),
             Ref (oa_ref E pkg_apis_external_metrics_v1beta1_ExternalMetricValue)]])],
       Required [''items'']],
     od_Dependencies = [pkg_apis_meta_v1_ListMeta,
       pkg_apis_external_metrics_v1beta1_ExternalMetricValue]\<rparr>"

definition schema_pkg_apis_metrics_v1beta1_ContainerMetrics :: "'r openapi \<Rightarrow> 'r openAPIDefinition" where
  "schema_pkg_apis_metrics_v1beta1_ContainerMetrics E = \<lparr>
     od_Schema = [
       Type [''object''],
       Properties [
         (''name'', [Default (JString ''''), Type [''string''], Format '''']),
         (''usage'', [
           Type [''object''],
           AdditionalProperties True [
             Default (JObject []), Ref (oa_ref E apimachinery_pkg_api_resource_Quantity)]])],
       Required [''name'', ''usage'']],
     od_Dependencies = [apimachinery_pkg_api_resource_Quantity]\<rparr>"

definition schema_pkg_apis_metrics_v1beta1_NodeMetrics :: "'r openapi \<Rightarrow> 'r openAPIDefinition" where
  "schema_pkg_apis_metrics_v1beta1_NodeMetrics E = \<lparr>
     od_Schema = [
       Type [''object''],
       Properties [
         (''kind'', [Type [''string''], Format '''']),
         (''apiVersion'', [Type [''string''], Format '''']),
         (''metadata'', [Default (JObject []), Ref (oa_ref E pkg_apis_meta_v1_ObjectMeta)]),
         (''timestamp'', [Default (JObject []), Ref (oa_ref E pkg_apis_meta_v1_Time)]),
         (''window'', [Default (JInt 0), Ref (oa_ref E pkg_apis_meta_v1_Duration)]),
         (''usage'', [
           Type [''object''],
           AdditionalProperties True [
             Default (JObject []), Ref (oa_ref E apimachinery_pkg_api_resource_Quantity)]])],
       Required [''timestamp'', ''window'', ''usage'']],
     od_Dependencies = [apimachinery_pkg_api_resource_Quantity, pkg_apis_meta_v1_Duration,
       pkg_apis_meta_v1_ObjectMeta, pkg_apis_meta_v1_Time]\<rparr>"

definition schema_pkg_apis_metrics_v1beta1_NodeMetricsList :: "'r openapi \<Rightarrow> 'r openAPIDefinition" where
  "schema_pkg_apis_metrics_v1beta1_NodeMetricsList E = \<lparr>
     od_Schema = [
       Type [''object''],
       Properties [
         (''kind'', [Type [''string''], Format '''']),
         (''apiVersion'', [Type [''string''], Format '''']),
         (''metadata'', [Default (JObject []), Ref (oa_ref E pkg_apis_meta_v1_ListMeta)]),
         (''items'', [
           Type [''array''],
           Items [Default (JObject []), Ref (oa_ref E pkg_apis_metrics_v1beta1_NodeMetrics)]])],
       Required [''items'']],
     od_Dependencies = [pkg_apis_meta_v1_ListMeta, pkg_apis_metrics_v1beta1_NodeMetrics]\<rparr>"

definition schema_pkg_apis_metrics_v1beta1_PodMetrics :: "'r openapi \<Rightarrow> 'r openAPIDefinition" where
  "schema_pkg_apis_metrics_v1beta1_PodMetrics E = \<lparr>
     od_Schema = [
       Type [''object''],
       Properties [
         (''kind'', [Type [''string''], Format '''']),
         (''apiVersion'', [Type [''string''], Format '''']),
         (''metadata'', [Default (JObject []), Ref (oa_ref E pkg_apis_meta_v1_ObjectMeta)]),
         (''timestamp'', [Default (JObject []), Ref (oa_ref E pkg_apis_meta_v1_Time)]),
         (''window'', [Default (JInt 0), Ref (oa_ref E pkg_apis_meta_v1_Duration)]),
         (''containers'', [
           Type [''array''],
           Items [Default (JObject []), Ref (oa_ref E pkg_apis_metrics_v1beta1_ContainerMetrics)]])],
       Required [''timestamp'', ''window'', ''containers'']],
     od_Dependencies = [pkg_apis_meta_v1_Duration, pkg_apis_meta_v1_ObjectMeta,
       pkg_apis_meta_v1_Time, pkg_apis_metrics_v1beta1_ContainerMetrics]\<rparr>"

definition schema_pkg_apis_metrics_v1beta1_PodMetricsList :: "'r openapi \<Rightarrow> 'r openAPIDefinition" where
  "schema_pkg_apis_metrics_v1beta1_PodMetricsList E = \<lparr>
     od_Schema = [
       Type [''object''],
       Properties [
         (''kind'', [Type [''string''], Format '''']),
         (''apiVersion'', [Type [''string''], Format '''']),
         (''metadata'', [Default (JObject []), Ref (oa_ref E pkg_apis_meta_v1_ListMeta)]),
         (''items'', [
           Type [''array''],
           Items [Default (JObject []), Ref (oa_ref E pkg_apis_metrics_v1beta1_PodMetrics)]])],
       Required [''items'']],
     od_Dependencies = [pkg_apis_meta_v1_ListMeta, pkg_apis_metrics_v1beta1_PodMetrics]\<rparr>"

section \<open>The checks\<close>

lemmas Meta_defs =
    schema_apimachinery_pkg_api_resource_int64Amount_def
    schema_pkg_apis_meta_v1_APIGroup_def
    schema_pkg_apis_meta_v1_APIGroupList_def
    schema_pkg_apis_meta_v1_APIResource_def
    schema_pkg_apis_meta_v1_APIResourceList_def
    schema_pkg_apis_meta_v1_APIVersions_def
    schema_pkg_apis_meta_v1_ApplyOptions_def
    schema_pkg_apis_meta_v1_Condition_def
    schema_pkg_apis_meta_v1_CreateOptions_def
    schema_pkg_apis_meta_v1_DeleteOptions_def
    schema_pkg_apis_meta_v1_Duration_def
    schema_pkg_apis_meta_v1_FieldsV1_def
    schema_pkg_apis_meta_v1_GetOptions_def
    schema_pkg_apis_meta_v1_GroupKind_def
    schema_pkg_apis_meta_v1_GroupResource_def
    schema_pkg_apis_meta_v1_GroupVersion_def
    schema_pkg_apis_meta_v1_GroupVersionForDiscovery_def
    schema_pkg_apis_meta_v1_GroupVersionKind_def
    schema_pkg_apis_meta_v1_GroupVersionResource_def
    schema_pkg_apis_meta_v1_InternalEvent_def
    schema_pkg_apis_meta_v1_LabelSelector_def
    schema_pkg_apis_meta_v1_LabelSelectorRequirement_def
    schema_pkg_apis_meta_v1_List_def
    schema_pkg_apis_meta_v1_ListMeta_def
    schema_pkg_apis_meta_v1_ListOptions_def
    schema_pkg_apis_meta_v1_ManagedFieldsEntry_def
    schema_pkg_apis_meta_v1_MicroTime_def
    schema_pkg_apis_meta_v1_ObjectMeta_def
    schema_pkg_apis_meta_v1_OwnerReference_def
    schema_pkg_apis_meta_v1_PartialObjectMetadata_def
    schema_pkg_apis_meta_v1_PartialObjectMetadataList_def
    schema_pkg_apis_meta_v1_Patch_def
    schema_pkg_apis_meta_v1_PatchOptions_def
    schema_pkg_apis_meta_v1_Preconditions_def
    schema_pkg_apis_meta_v1_RootPaths_def
    schema_pkg_apis_meta_v1_ServerAddressByClientCIDR_def
    schema_pkg_apis_meta_v1_Status_def
    schema_pkg_apis_meta_v1_StatusCause_def
    schema_pkg_apis_meta_v1_StatusDetails_def
    schema_pkg_apis_meta_v1_Table_def
    schema_pkg_apis_meta_v1_TableColumnDefinition_def
    schema_pkg_apis_meta_v1_TableOptions_def
    schema_pkg_apis_meta_v1_TableRow_def
    schema_pkg_apis_meta_v1_TableRowCondition_def
    schema_pkg_apis_meta_v1_Time_def
    schema_pkg_apis_meta_v1_Timestamp_def
    schema_pkg_apis_meta_v1_TypeMeta_def
    schema_pkg_apis_meta_v1_UpdateOptions_def
    schema_pkg_apis_meta_v1_WatchEvent_def
    schema_k8sio_apimachinery_pkg_version_Info_def
    schema_pkg_apis_custom_metrics_v1beta1_MetricListOptions_def
    schema_pkg_apis_custom_metrics_v1beta1_MetricValue_def
    schema_pkg_apis_custom_metrics_v1beta1_MetricValueList_def
    schema_pkg_apis_custom_metrics_v1beta2_MetricIdentifier_def
    schema_pkg_apis_custom_metrics_v1beta2_MetricListOptions_def
    schema_pkg_apis_custom_metrics_v1beta2_MetricValue_def
    schema_pkg_apis_custom_metrics_v1beta2_MetricValueList_def
    schema_pkg_apis_external_metrics_v1beta1_ExternalMetricValue_def
    schema_pkg_apis_external_metrics_v1beta1_ExternalMetricValueList_def
    schema_pkg_apis_metrics_v1beta1_ContainerMetrics_def
    schema_pkg_apis_metrics_v1beta1_NodeMetrics_def
    schema_pkg_apis_metrics_v1beta1_NodeMetricsList_def
    schema_pkg_apis_metrics_v1beta1_PodMetrics_def
    schema_pkg_apis_metrics_v1beta1_PodMetricsList_def

lemma Meta_dependencies [model_dependencies]:
  "od_Dependencies (schema_apimachinery_pkg_api_resource_int64Amount E) = []"
  "od_Dependencies (schema_pkg_apis_meta_v1_APIGroup E) =
     [pkg_apis_meta_v1_GroupVersionForDiscovery, pkg_apis_meta_v1_ServerAddressByClientCIDR]"
  "od_Dependencies (schema_pkg_apis_meta_v1_APIGroupList E) = [pkg_apis_meta_v1_APIGroup]"
  "od_Dependencies (schema_pkg_apis_meta_v1_APIResource E) = []"
  "od_Dependencies (schema_pkg_apis_meta_v1_APIResourceList E) = [pkg_apis_meta_v1_APIResource]"
  "od_Dependencies (schema_pkg_apis_meta_v1_APIVersions E) =
     [pkg_apis_meta_v1_ServerAddressByClientCIDR]"
  "od_Dependencies (schema_pkg_apis_meta_v1_ApplyOptions E) = []"
  "od_Dependencies (schema_pkg_apis_meta_v1_Condition E) = [pkg_apis_meta_v1_Time]"
  "od_Dependencies (schema_pkg_apis_meta_v1_CreateOptions E) = []"
  "od_Dependencies (schema_pkg_apis_meta_v1_DeleteOptions E) = [pkg_apis_meta_v1_Preconditions]"
  "od_Dependencies (schema_pkg_apis_meta_v1_Duration E) = []"
  "od_Dependencies (schema_pkg_apis_meta_v1_FieldsV1 E) = []"
  "od_Dependencies (schema_pkg_apis_meta_v1_GetOptions E) = []"
  "od_Dependencies (schema_pkg_apis_meta_v1_GroupKind E) = []"
  "od_Dependencies (schema_pkg_apis_meta_v1_GroupResource E) = []"
  "od_Dependencies (schema_pkg_apis_meta_v1_GroupVersion E) = []"
  "od_Dependencies (schema_pkg_apis_meta_v1_GroupVersionForDiscovery E) = []"
  "od_Dependencies (schema_pkg_apis_meta_v1_GroupVersionKind E) = []"
  "od_Dependencies (schema_pkg_apis_meta_v1_GroupVersionResource E) = []"
  "od_Dependencies (schema_pkg_apis_meta_v1_InternalEvent E) =
     [k8sio_apimachinery_pkg_runtime_Object]"
  "od_Dependencies (schema_pkg_apis_meta_v1_LabelSelector E) =
     [pkg_apis_meta_v1_LabelSelectorRequirement]"
  "od_Dependencies (schema_pkg_apis_meta_v1_LabelSelectorRequirement E) = []"
  "od_Dependencies (schema_pkg_apis_meta_v1_List E) = [pkg_apis_meta_v1_ListMeta,
     k8sio_apimachinery_pkg_runtime_RawExtension]"
  "od_Dependencies (schema_pkg_apis_meta_v1_ListMeta E) = []"
  "od_Dependencies (schema_pkg_apis_meta_v1_ListOptions E) = []"
  "od_Dependencies (schema_pkg_apis_meta_v1_ManagedFieldsEntry E) = [pkg_apis_meta_v1_FieldsV1,
     pkg_apis_meta_v1_Time]"
  "od_Dependencies (schema_pkg_apis_meta_v1_MicroTime E) = []"
  "od_Dependencies (schema_pkg_apis_meta_v1_ObjectMeta E) = [pkg_apis_meta_v1_ManagedFieldsEntry,
     pkg_apis_meta_v1_OwnerReference, pkg_apis_meta_v1_Time]"
  "od_Dependencies (schema_pkg_apis_meta_v1_OwnerReference E) = []"
  "od_Dependencies (schema_pkg_apis_meta_v1_PartialObjectMetadata E) =
     [pkg_apis_meta_v1_ObjectMeta]"
  "od_Dependencies (schema_pkg_apis_meta_v1_PartialObjectMetadataList E) =
     [pkg_apis_meta_v1_ListMeta, pkg_apis_meta_v1_PartialObjectMetadata]"
  "od_Dependencies (schema_pkg_apis_meta_v1_Patch E) = []"
  "od_Dependencies (schema_pkg_apis_meta_v1_PatchOptions E) = []"
  "od_Dependencies (schema_pkg_apis_meta_v1_Preconditions E) = []"
  "od_Dependencies (schema_pkg_apis_meta_v1_RootPaths E) = []"
  "od_Dependencies (schema_pkg_apis_meta_v1_ServerAddressByClientCIDR E) = []"
  "od_Dependencies (schema_pkg_apis_meta_v1_Status E) = [pkg_apis_meta_v1_ListMeta,
     pkg_apis_meta_v1_StatusDetails]"
  "od_Dependencies (schema_pkg_apis_meta_v1_StatusCause E) = []"
  "od_Dependencies (schema_pkg_apis_meta_v1_StatusDetails E) = [pkg_apis_meta_v1_StatusCause]"
  "od_Dependencies (schema_pkg_apis_meta_v1_Table E) = [pkg_apis_meta_v1_ListMeta,
     pkg_apis_meta_v1_TableColumnDefinition, pkg_apis_meta_v1_TableRow]"
  "od_Dependencies (schema_pkg_apis_meta_v1_TableColumnDefinition E) = []"
  "od_Dependencies (schema_pkg_apis_meta_v1_TableOptions E) = []"
  "od_Dependencies (schema_pkg_apis_meta_v1_TableRow E) = [pkg_apis_meta_v1_TableRowCondition,
     k8sio_apimachinery_pkg_runtime_RawExtension]"
  "od_Dependencies (schema_pkg_apis_meta_v1_TableRowCondition E) = []"
  "od_Dependencies (schema_pkg_apis_meta_v1_Time E) = []"
  "od_Dependencies (schema_pkg_apis_meta_v1_Timestamp E) = []"
  "od_Dependencies (schema_pkg_apis_meta_v1_TypeMeta E) = []"
  "od_Dependencies (schema_pkg_apis_meta_v1_UpdateOptions E) = []"
  "od_Dependencies (schema_pkg_apis_meta_v1_WatchEvent E) =
     [k8sio_apimachinery_pkg_runtime_RawExtension]"
  "od_Dependencies (schema_k8sio_apimachinery_pkg_version_Info E) = []"
  "od_Dependencies (schema_pkg_apis_custom_metrics_v1beta1_MetricListOptions E) = []"
  "od_Dependencies (schema_pkg_apis_custom_metrics_v1beta1_MetricValue E) =
     [k8sio_api_core_v1_ObjectReference, apimachinery_pkg_api_resource_Quantity,
     pkg_apis_meta_v1_LabelSelector, pkg_apis_meta_v1_Time]"
  "od_Dependencies (schema_pkg_apis_custom_metrics_v1beta1_MetricValueList E) =
     [pkg_apis_meta_v1_ListMeta, pkg_apis_custom_metrics_v1beta1_MetricValue]"
  "od_Dependencies (schema_pkg_apis_custom_metrics_v1beta2_MetricIdentifier E) =
     [pkg_apis_meta_v1_LabelSelector]"
  "od_Dependencies (schema_pkg_apis_custom_metrics_v1beta2_MetricListOptions E) = []"
  "od_Dependencies (schema_pkg_apis_custom_metrics_v1beta2_MetricValue E) =
     [k8sio_api_core_v1_ObjectReference, apimachinery_pkg_api_resource_Quantity,
     pkg_apis_meta_v1_Time, pkg_apis_custom_metrics_v1beta2_MetricIdentifier]"
  "od_Dependencies (schema_pkg_apis_custom_metrics_v1beta2_MetricValueList E) =
     [pkg_apis_meta_v1_ListMeta, pkg_apis_custom_metrics_v1beta2_MetricValue]"
  "od_Dependencies (schema_pkg_apis_external_metrics_v1beta1_ExternalMetricValue E) =
     [apimachinery_pkg_api_resource_Quantity, pkg_apis_meta_v1_Time]"
  "od_Dependencies (schema_pkg_apis_external_metrics_v1beta1_ExternalMetricValueList E) =
     [pkg_apis_meta_v1_ListMeta, pkg_apis_external_metrics_v1beta1_ExternalMetricValue]"
  "od_Dependencies (schema_pkg_apis_metrics_v1beta1_ContainerMetrics E) =
     [apimachinery_pkg_api_resource_Quantity]"
  "od_Dependencies (schema_pkg_apis_metrics_v1beta1_NodeMetrics E) =
     [apimachinery_pkg_api_resource_Quantity, pkg_apis_meta_v1_Duration,
     pkg_apis_meta_v1_ObjectMeta, pkg_apis_meta_v1_Time]"
  "od_Dependencies (schema_pkg_apis_metrics_v1beta1_NodeMetricsList E) =
     [pkg_apis_meta_v1_ListMeta, pkg_apis_metrics_v1beta1_NodeMetrics]"
  "od_Dependencies (schema_pkg_apis_metrics_v1beta1_PodMetrics E) = [pkg_apis_meta_v1_Duration,
     pkg_apis_meta_v1_ObjectMeta, pkg_apis_meta_v1_Time,
     pkg_apis_metrics_v1beta1_ContainerMetrics]"
  "od_Dependencies (schema_pkg_apis_metrics_v1beta1_PodMetricsList E) =
     [pkg_apis_meta_v1_ListMeta, pkg_apis_metrics_v1beta1_PodMetrics]"
  by (simp_all add: Meta_defs openapiOK_def)

lemma Meta_exact [model_exact]:
  "dependenciesExact E (schema_apimachinery_pkg_api_resource_int64Amount E)"
  "dependenciesExact E (schema_pkg_apis_meta_v1_APIGroup E)"
  "dependenciesExact E (schema_pkg_apis_meta_v1_APIGroupList E)"
  "dependenciesExact E (schema_pkg_apis_meta_v1_APIResource E)"
  "dependenciesExact E (schema_pkg_apis_meta_v1_APIResourceList E)"
  "dependenciesExact E (schema_pkg_apis_meta_v1_APIVersions E)"
  "dependenciesExact E (schema_pkg_apis_meta_v1_ApplyOptions E)"
  "dependenciesExact E (schema_pkg_apis_meta_v1_Condition E)"
  "dependenciesExact E (schema_pkg_apis_meta_v1_CreateOptions E)"
  "dependenciesExact E (schema_pkg_apis_meta_v1_DeleteOptions E)"
  "dependenciesExact E (schema_pkg_apis_meta_v1_Duration E)"
  "dependenciesExact E (schema_pkg_apis_meta_v1_FieldsV1 E)"
  "dependenciesExact E (schema_pkg_apis_meta_v1_GetOptions E)"
  "dependenciesExact E (schema_pkg_apis_meta_v1_GroupKind E)"
  "dependenciesExact E (schema_pkg_apis_meta_v1_GroupResource E)"
  "dependenciesExact E (schema_pkg_apis_meta_v1_GroupVersion E)"
  "dependenciesExact E (schema_pkg_apis_meta_v1_GroupVersionForDiscovery E)"
  "dependenciesExact E (schema_pkg_apis_meta_v1_GroupVersionKind E)"
  "dependenciesExact E (schema_pkg_apis_meta_v1_GroupVersionResource E)"
  "dependenciesExact E (schema_pkg_apis_meta_v1_InternalEvent E)"
  "dependenciesExact E (schema_pkg_apis_meta_v1_LabelSelector E)"
  "dependenciesExact E (schema_pkg_apis_meta_v1_LabelSelectorRequirement E)"
  "dependenciesExact E (schema_pkg_apis_meta_v1_List E)"
  "dependenciesExact E (schema_pkg_apis_meta_v1_ListMeta E)"
  "dependenciesExact E (schema_pkg_apis_meta_v1_ListOptions E)"
  "dependenciesExact E (schema_pkg_apis_meta_v1_ManagedFieldsEntry E)"
  "dependenciesExact E (schema_pkg_apis_meta_v1_MicroTime E)"
  "dependenciesExact E (schema_pkg_apis_meta_v1_ObjectMeta E)"
  "dependenciesExact E (schema_pkg_apis_meta_v1_OwnerReference E)"
  "dependenciesExact E (schema_pkg_apis_meta_v1_PartialObjectMetadata E)"
  "dependenciesExact E (schema_pkg_apis_meta_v1_PartialObjectMetadataList E)"
  "dependenciesExact E (schema_pkg_apis_meta_v1_Patch E)"
  "dependenciesExact E (schema_pkg_apis_meta_v1_PatchOptions E)"
  "dependenciesExact E (schema_pkg_apis_meta_v1_Preconditions E)"
  "dependenciesExact E (schema_pkg_apis_meta_v1_RootPaths E)"
  "dependenciesExact E (schema_pkg_apis_meta_v1_ServerAddressByClientCIDR E)"
  "dependenciesExact E (schema_pkg_apis_meta_v1_Status E)"
  "dependenciesExact E (schema_pkg_apis_meta_v1_StatusCause E)"
  "dependenciesExact E (schema_pkg_apis_meta_v1_StatusDetails E)"
  "dependenciesExact E (schema_pkg_apis_meta_v1_Table E)"
  "dependenciesExact E (schema_pkg_apis_meta_v1_TableColumnDefinition E)"
  "dependenciesExact E (schema_pkg_apis_meta_v1_TableOptions E)"
  "dependenciesExact E (schema_pkg_apis_meta_v1_TableRow E)"
  "dependenciesExact E (schema_pkg_apis_meta_v1_TableRowCondition E)"
  "dependenciesExact E (schema_pkg_apis_meta_v1_Time E)"
  "dependenciesExact E (schema_pkg_apis_meta_v1_Timestamp E)"
  "dependenciesExact E (schema_pkg_apis_meta_v1_TypeMeta E)"
  "dependenciesExact E (schema_pkg_apis_meta_v1_UpdateOptions E)"
  "dependenciesExact E (schema_pkg_apis_meta_v1_WatchEvent E)"
  "dependenciesExact E (schema_k8sio_apimachinery_pkg_version_Info E)"
  "dependenciesExact E (schema_pkg_apis_custom_metrics_v1beta1_MetricListOptions E)"
  "dependenciesExact E (schema_pkg_apis_custom_metrics_v1beta1_MetricValue E)"
  "dependenciesExact E (schema_pkg_apis_custom_metrics_v1beta1_MetricValueList E)"
  "dependenciesExact E (schema_pkg_apis_custom_metrics_v1beta2_MetricIdentifier E)"
  "dependenciesExact E (schema_pkg_apis_custom_metrics_v1beta2_MetricListOptions E)"
  "dependenciesExact E (schema_pkg_apis_custom_metrics_v1beta2_MetricValue E)"
  "dependenciesExact E (schema_pkg_apis_custom_metrics_v1beta2_MetricValueList E)"
  "dependenciesExact E (schema_pkg_apis_external_metrics_v1beta1_ExternalMetricValue E)"
  "dependenciesExact E (schema_pkg_apis_external_metrics_v1beta1_ExternalMetricValueList E)"
  "dependenciesExact E (schema_pkg_apis_metrics_v1beta1_ContainerMetrics E)"
  "dependenciesExact E (schema_pkg_apis_metrics_v1beta1_NodeMetrics E)"
  "dependenciesExact E (schema_pkg_apis_metrics_v1beta1_NodeMetricsList E)"
  "dependenciesExact E (schema_pkg_apis_metrics_v1beta1_PodMetrics E)"
  "dependenciesExact E (schema_pkg_apis_metrics_v1beta1_PodMetricsList E)"
  by (simp_all add: Meta_defs schema_eval)

lemma Meta_wf [model_wf]:
  "wfDefinition (schema_apimachinery_pkg_api_resource_int64Amount E)"
  "wfDefinition (schema_pkg_apis_meta_v1_APIGroup E)"
  "wfDefinition (schema_pkg_apis_meta_v1_APIGroupList E)"
  "wfDefinition (schema_pkg_apis_meta_v1_APIResource E)"
  "wfDefinition (schema_pkg_apis_meta_v1_APIResourceList E)"
  "wfDefinition (schema_pkg_apis_meta_v1_APIVersions E)"
  "wfDefinition (schema_pkg_apis_meta_v1_ApplyOptions E)"
  "wfDefinition (schema_pkg_apis_meta_v1_Condition E)"
  "wfDefinition (schema_pkg_apis_meta_v1_CreateOptions E)"
  "wfDefinition (schema_pkg_apis_meta_v1_DeleteOptions E)"
  "openapiOK E \<Longrightarrow> wfDefinition (schema_pkg_apis_meta_v1_Duration E)"
  "wfDefinition (schema_pkg_apis_meta_v1_FieldsV1 E)"
  "wfDefinition (schema_pkg_apis_meta_v1_GetOptions E)"
  "wfDefinition (schema_pkg_apis_meta_v1_GroupKind E)"
  "wfDefinition (schema_pkg_apis_meta_v1_GroupResource E)"
  "wfDefinition (schema_pkg_apis_meta_v1_GroupVersion E)"
  "wfDefinition (schema_pkg_apis_meta_v1_GroupVersionForDiscovery E)"
  "wfDefinition (schema_pkg_apis_meta_v1_GroupVersionKind E)"
  "wfDefinition (schema_pkg_apis_meta_v1_GroupVersionResource E)"
  "wfDefinition (schema_pkg_apis_meta_v1_InternalEvent E)"
  "wfDefinition (schema_pkg_apis_meta_v1_LabelSelector E)"
  "wfDefinition (schema_pkg_apis_meta_v1_LabelSelectorRequirement E)"
  "wfDefinition (schema_pkg_apis_meta_v1_List E)"
  "wfDefinition (schema_pkg_apis_meta_v1_ListMeta E)"
  "wfDefinition (schema_pkg_apis_meta_v1_ListOptions E)"
  "wfDefinition (schema_pkg_apis_meta_v1_ManagedFieldsEntry E)"
  "openapiOK E \<Longrightarrow> wfDefinition (schema_pkg_apis_meta_v1_MicroTime E)"
  "wfDefinition (schema_pkg_apis_meta_v1_ObjectMeta E)"
  "wfDefinition (schema_pkg_apis_meta_v1_OwnerReference E)"
  "wfDefinition (schema_pkg_apis_meta_v1_PartialObjectMetadata E)"
  "wfDefinition (schema_pkg_apis_meta_v1_PartialObjectMetadataList E)"
  "wfDefinition (schema_pkg_apis_meta_v1_Patch E)"
  "wfDefinition (schema_pkg_apis_meta_v1_PatchOptions E)"
  "wfDefinition (schema_pkg_apis_meta_v1_Preconditions E)"
  "wfDefinition (schema_pkg_apis_meta_v1_RootPaths E)"
  "wfDefinition (schema_pkg_apis_meta_v1_ServerAddressByClientCIDR E)"
  "wfDefinition (schema_pkg_apis_meta_v1_Status E)"
  "wfDefinition (schema_pkg_apis_meta_v1_StatusCause E)"
  "wfDefinition (schema_pkg_apis_meta_v1_StatusDetails E)"
  "wfDefinition (schema_pkg_apis_meta_v1_Table E)"
  "wfDefinition (schema_pkg_apis_meta_v1_TableColumnDefinition E)"
  "wfDefinition (schema_pkg_apis_meta_v1_TableOptions E)"
  "wfDefinition (schema_pkg_apis_meta_v1_TableRow E)"
  "wfDefinition (schema_pkg_apis_meta_v1_TableRowCondition E)"
  "openapiOK E \<Longrightarrow> wfDefinition (schema_pkg_apis_meta_v1_Time E)"
  "wfDefinition (schema_pkg_apis_meta_v1_Timestamp E)"
  "wfDefinition (schema_pkg_apis_meta_v1_TypeMeta E)"
  "wfDefinition (schema_pkg_apis_meta_v1_UpdateOptions E)"
  "wfDefinition (schema_pkg_apis_meta_v1_WatchEvent E)"
  "wfDefinition (schema_k8sio_apimachinery_pkg_version_Info E)"
  "wfDefinition (schema_pkg_apis_custom_metrics_v1beta1_MetricListOptions E)"
  "wfDefinition (schema_pkg_apis_custom_metrics_v1beta1_MetricValue E)"
  "wfDefinition (schema_pkg_apis_custom_metrics_v1beta1_MetricValueList E)"
  "wfDefinition (schema_pkg_apis_custom_metrics_v1beta2_MetricIdentifier E)"
  "wfDefinition (schema_pkg_apis_custom_metrics_v1beta2_MetricListOptions E)"
  "wfDefinition (schema_pkg_apis_custom_metrics_v1beta2_MetricValue E)"
  "wfDefinition (schema_pkg_apis_custom_metrics_v1beta2_MetricValueList E)"
  "wfDefinition (schema_pkg_apis_external_metrics_v1beta1_ExternalMetricValue E)"
  "wfDefinition (schema_pkg_apis_external_metrics_v1beta1_ExternalMetricValueList E)"
  "wfDefinition (schema_pkg_apis_metrics_v1beta1_ContainerMetrics E)"
  "wfDefinition (schema_pkg_apis_metrics_v1beta1_NodeMetrics E)"
  "wfDefinition (schema_pkg_apis_metrics_v1beta1_NodeMetricsList E)"
  "wfDefinition (schema_pkg_apis_metrics_v1beta1_PodMetrics E)"
  "wfDefinition (schema_pkg_apis_metrics_v1beta1_PodMetricsList E)"
  by (simp_all add: Meta_defs schema_eval openapi_types)

text \<open>The quantity, whose definition other modules complete.\<close>

lemma quantity_shape:
  assumes "openapiOK E"
  obtains x where "od_Schema (schema_apimachinery_pkg_api_resource_Quantity E) =
      [OneOf (oa_oneOf E ''resource.Quantity''), Format (oa_format E ''resource.Quantity''), VendorExtensible x]"
    and "od_Dependencies (schema_apimachinery_pkg_api_resource_Quantity E) = []"
proof -
  have embed: "od_Dependencies (oa_embed E d d') = od_Dependencies d \<and>
      (\<exists>x. od_Schema (oa_embed E d d') = od_Schema d @ [VendorExtensible x])" for d d'
    using assms by (simp add: openapiOK_def)
  let ?d = "\<lparr>od_Schema = [OneOf (oa_oneOf E ''resource.Quantity''), Format (oa_format E ''resource.Quantity'')],
      od_Dependencies = []\<rparr>"
  let ?d' = "\<lparr>od_Schema = [Type (oa_type E ''resource.Quantity''), Format (oa_format E ''resource.Quantity'')],
      od_Dependencies = []\<rparr>"
  obtain x where "od_Schema (oa_embed E ?d ?d') = od_Schema ?d @ [VendorExtensible x]"
    and "od_Dependencies (oa_embed E ?d ?d') = od_Dependencies ?d"
    using embed [of ?d ?d'] by (elim conjE exE) (rule that)
  then show thesis
    by (intro that [of x]) (simp_all add: schema_apimachinery_pkg_api_resource_Quantity_def)
qed

lemma quantity_parts:
  assumes "openapiOK E" and "s \<in> set (allSchemas (od_Schema (schema_apimachinery_pkg_api_resource_Quantity E)))"
  shows "list_all (\<lambda>f. fieldRefs f = []) s \<and> wfSchema s"
proof -
  obtain x where "od_Schema (schema_apimachinery_pkg_api_resource_Quantity E) =
      [OneOf (oa_oneOf E ''resource.Quantity''), Format (oa_format E ''resource.Quantity''), VendorExtensible x]"
    by (rule quantity_shape [OF assms(1)])
  moreover have "\<forall>u \<in> set (oa_oneOf E ''resource.Quantity''). u = [Type [''string'']] \<or> u = [Type [''number'']]"
    using assms(1) by (simp add: openapiOK_def list_all_iff)
  ultimately show ?thesis using assms(2) by (auto simp: schema_eval)
qed

lemma quantity_dependencies [model_dependencies]:
  "openapiOK E \<Longrightarrow> od_Dependencies (schema_apimachinery_pkg_api_resource_Quantity E) = []"
  by (rule quantity_shape)

lemma quantity_exact [model_exact]:
  "openapiOK E \<Longrightarrow> dependenciesExact E (schema_apimachinery_pkg_api_resource_Quantity E)"
  using quantity_parts [of E] quantity_dependencies [of E]
  by (fastforce simp: dependenciesExact_def schemaRefs_def list_all_iff)

lemma quantity_wf [model_wf]: "openapiOK E \<Longrightarrow> wfDefinition (schema_apimachinery_pkg_api_resource_Quantity E)"
  using quantity_parts [of E] by (simp add: wfDefinition_def list_all_iff)

end
