(* ===== verification/OpenAPI.thy ===== *)
theory OpenAPI
  imports OpenAPI_Core_A OpenAPI_Core_B OpenAPI_Meta
begin

text \<open>
  \<open>GetOpenAPIDefinitions\<close>, the map the adapter's \<open>main\<close> hands to the API server, and what holds of all of its 282
  models: the dependencies each lists are the models its schema refers to, there is no circle of
  dependencies, and each schema is well-formed in itself. Three names the models depend on have no
  definition in the map, so the document builder cannot resolve the models that lead to them; every other
  model, those of the metrics and discovery routes included, it can.
\<close>

definition GetOpenAPIDefinitions :: "'r openapi \<Rightarrow> 'r definitions" where
  "GetOpenAPIDefinitions E =
     [(k8sio_api_core_v1_AWSElasticBlockStoreVolumeSource, schema_k8sio_api_core_v1_AWSElasticBlockStoreVolumeSource E),
      (k8sio_api_core_v1_Affinity, schema_k8sio_api_core_v1_Affinity E),
      (k8sio_api_core_v1_AttachedVolume, schema_k8sio_api_core_v1_AttachedVolume E),
      (k8sio_api_core_v1_AvoidPods, schema_k8sio_api_core_v1_AvoidPods E),
      (k8sio_api_core_v1_AzureDiskVolumeSource, schema_k8sio_api_core_v1_AzureDiskVolumeSource E),
      (k8sio_api_core_v1_AzureFilePersistentVolumeSource, schema_k8sio_api_core_v1_AzureFilePersistentVolumeSource E),
      (k8sio_api_core_v1_AzureFileVolumeSource, schema_k8sio_api_core_v1_AzureFileVolumeSource E),
      (k8sio_api_core_v1_Binding, schema_k8sio_api_core_v1_Binding E),
      (k8sio_api_core_v1_CSIPersistentVolumeSource, schema_k8sio_api_core_v1_CSIPersistentVolumeSource E),
      (k8sio_api_core_v1_CSIVolumeSource, schema_k8sio_api_core_v1_CSIVolumeSource E),
      (k8sio_api_core_v1_Capabilities, schema_k8sio_api_core_v1_Capabilities E),
      (k8sio_api_core_v1_CephFSPersistentVolumeSource, schema_k8sio_api_core_v1_CephFSPersistentVolumeSource E),
      (k8sio_api_core_v1_CephFSVolumeSource, schema_k8sio_api_core_v1_CephFSVolumeSource E),
      (k8sio_api_core_v1_CinderPersistentVolumeSource, schema_k8sio_api_core_v1_CinderPersistentVolumeSource E),
      (k8sio_api_core_v1_CinderVolumeSource, schema_k8sio_api_core_v1_CinderVolumeSource E),
      (k8sio_api_core_v1_ClaimSource, schema_k8sio_api_core_v1_ClaimSource E),
      (k8sio_api_core_v1_ClientIPConfig, schema_k8sio_api_core_v1_ClientIPConfig E),
      (k8sio_api_core_v1_ComponentCondition, schema_k8sio_api_core_v1_ComponentCondition E),
      (k8sio_api_core_v1_ComponentStatus, schema_k8sio_api_core_v1_ComponentStatus E),
      (k8sio_api_core_v1_ComponentStatusList, schema_k8sio_api_core_v1_ComponentStatusList E),
      (k8sio_api_core_v1_ConfigMap, schema_k8sio_api_core_v1_ConfigMap E),
      (k8sio_api_core_v1_ConfigMapEnvSource, schema_k8sio_api_core_v1_ConfigMapEnvSource E),
      (k8sio_api_core_v1_ConfigMapKeySelector, schema_k8sio_api_core_v1_ConfigMapKeySelector E),
      (k8sio_api_core_v1_ConfigMapList, schema_k8sio_api_core_v1_ConfigMapList E),
      (k8sio_api_core_v1_ConfigMapNodeConfigSource, schema_k8sio_api_core_v1_ConfigMapNodeConfigSource E),
      (k8sio_api_core_v1_ConfigMapProjection, schema_k8sio_api_core_v1_ConfigMapProjection E),
      (k8sio_api_core_v1_ConfigMapVolumeSource, schema_k8sio_api_core_v1_ConfigMapVolumeSource E),
      (k8sio_api_core_v1_Container, schema_k8sio_api_core_v1_Container E),
      (k8sio_api_core_v1_ContainerImage, schema_k8sio_api_core_v1_ContainerImage E),
      (k8sio_api_core_v1_ContainerPort, schema_k8sio_api_core_v1_ContainerPort E),
      (k8sio_api_core_v1_ContainerResizePolicy, schema_k8sio_api_core_v1_ContainerResizePolicy E),
      (k8sio_api_core_v1_ContainerState, schema_k8sio_api_core_v1_ContainerState E),
      (k8sio_api_core_v1_ContainerStateRunning, schema_k8sio_api_core_v1_ContainerStateRunning E),
      (k8sio_api_core_v1_ContainerStateTerminated, schema_k8sio_api_core_v1_ContainerStateTerminated E),
      (k8sio_api_core_v1_ContainerStateWaiting, schema_k8sio_api_core_v1_ContainerStateWaiting E),
      (k8sio_api_core_v1_ContainerStatus, schema_k8sio_api_core_v1_ContainerStatus E),
      (k8sio_api_core_v1_DaemonEndpoint, schema_k8sio_api_core_v1_DaemonEndpoint E),
      (k8sio_api_core_v1_DownwardAPIProjection, schema_k8sio_api_core_v1_DownwardAPIProjection E),
      (k8sio_api_core_v1_DownwardAPIVolumeFile, schema_k8sio_api_core_v1_DownwardAPIVolumeFile E),
      (k8sio_api_core_v1_DownwardAPIVolumeSource, schema_k8sio_api_core_v1_DownwardAPIVolumeSource E),
      (k8sio_api_core_v1_EmptyDirVolumeSource, schema_k8sio_api_core_v1_EmptyDirVolumeSource E),
      (k8sio_api_core_v1_EndpointAddress, schema_k8sio_api_core_v1_EndpointAddress E),
      (k8sio_api_core_v1_EndpointPort, schema_k8sio_api_core_v1_EndpointPort E),
      (k8sio_api_core_v1_EndpointSubset, schema_k8sio_api_core_v1_EndpointSubset E),
      (k8sio_api_core_v1_Endpoints, schema_k8sio_api_core_v1_Endpoints E),
      (k8sio_api_core_v1_EndpointsList, schema_k8sio_api_core_v1_EndpointsList E),
      (k8sio_api_core_v1_EnvFromSource, schema_k8sio_api_core_v1_EnvFromSource E),
      (k8sio_api_core_v1_EnvVar, schema_k8sio_api_core_v1_EnvVar E),
      (k8sio_api_core_v1_EnvVarSource, schema_k8sio_api_core_v1_EnvVarSource E),
      (k8sio_api_core_v1_EphemeralContainer, schema_k8sio_api_core_v1_EphemeralContainer E),
      (k8sio_api_core_v1_EphemeralContainerCommon, schema_k8sio_api_core_v1_EphemeralContainerCommon E),
      (k8sio_api_core_v1_EphemeralVolumeSource, schema_k8sio_api_core_v1_EphemeralVolumeSource E),
      (k8sio_api_core_v1_Event, schema_k8sio_api_core_v1_Event E),
      (k8sio_api_core_v1_EventList, schema_k8sio_api_core_v1_EventList E),
      (k8sio_api_core_v1_EventSeries, schema_k8sio_api_core_v1_EventSeries E),
      (k8sio_api_core_v1_EventSource, schema_k8sio_api_core_v1_EventSource E),
      (k8sio_api_core_v1_ExecAction, schema_k8sio_api_core_v1_ExecAction E),
      (k8sio_api_core_v1_FCVolumeSource, schema_k8sio_api_core_v1_FCVolumeSource E),
      (k8sio_api_core_v1_FlexPersistentVolumeSource, schema_k8sio_api_core_v1_FlexPersistentVolumeSource E),
      (k8sio_api_core_v1_FlexVolumeSource, schema_k8sio_api_core_v1_FlexVolumeSource E),
      (k8sio_api_core_v1_FlockerVolumeSource, schema_k8sio_api_core_v1_FlockerVolumeSource E),
      (k8sio_api_core_v1_GCEPersistentDiskVolumeSource, schema_k8sio_api_core_v1_GCEPersistentDiskVolumeSource E),
      (k8sio_api_core_v1_GRPCAction, schema_k8sio_api_core_v1_GRPCAction E),
      (k8sio_api_core_v1_GitRepoVolumeSource, schema_k8sio_api_core_v1_GitRepoVolumeSource E),
      (k8sio_api_core_v1_GlusterfsPersistentVolumeSource, schema_k8sio_api_core_v1_GlusterfsPersistentVolumeSource E),
      (k8sio_api_core_v1_GlusterfsVolumeSource, schema_k8sio_api_core_v1_GlusterfsVolumeSource E),
      (k8sio_api_core_v1_HTTPGetAction, schema_k8sio_api_core_v1_HTTPGetAction E),
      (k8sio_api_core_v1_HTTPHeader, schema_k8sio_api_core_v1_HTTPHeader E),
      (k8sio_api_core_v1_HostAlias, schema_k8sio_api_core_v1_HostAlias E),
      (k8sio_api_core_v1_HostIP, schema_k8sio_api_core_v1_HostIP E),
      (k8sio_api_core_v1_HostPathVolumeSource, schema_k8sio_api_core_v1_HostPathVolumeSource E),
      (k8sio_api_core_v1_ISCSIPersistentVolumeSource, schema_k8sio_api_core_v1_ISCSIPersistentVolumeSource E),
      (k8sio_api_core_v1_ISCSIVolumeSource, schema_k8sio_api_core_v1_ISCSIVolumeSource E),
      (k8sio_api_core_v1_KeyToPath, schema_k8sio_api_core_v1_KeyToPath E),
      (k8sio_api_core_v1_Lifecycle, schema_k8sio_api_core_v1_Lifecycle E),
      (k8sio_api_core_v1_LifecycleHandler, schema_k8sio_api_core_v1_LifecycleHandler E),
      (k8sio_api_core_v1_LimitRange, schema_k8sio_api_core_v1_LimitRange E),
      (k8sio_api_core_v1_LimitRangeItem, schema_k8sio_api_core_v1_LimitRangeItem E),
      (k8sio_api_core_v1_LimitRangeList, schema_k8sio_api_core_v1_LimitRangeList E),
      (k8sio_api_core_v1_LimitRangeSpec, schema_k8sio_api_core_v1_LimitRangeSpec E),
      (k8sio_api_core_v1_List, schema_k8sio_api_core_v1_List E),
      (k8sio_api_core_v1_LoadBalancerIngress, schema_k8sio_api_core_v1_LoadBalancerIngress E),
      (k8sio_api_core_v1_LoadBalancerStatus, schema_k8sio_api_core_v1_LoadBalancerStatus E),
      (k8sio_api_core_v1_LocalObjectReference, schema_k8sio_api_core_v1_LocalObjectReference E),
      (k8sio_api_core_v1_LocalVolumeSource, schema_k8sio_api_core_v1_LocalVolumeSource E),
      (k8sio_api_core_v1_NFSVolumeSource, schema_k8sio_api_core_v1_NFSVolumeSource E),
      (k8sio_api_core_v1_Namespace, schema_k8sio_api_core_v1_Namespace E),
      (k8sio_api_core_v1_NamespaceCondition, schema_k8sio_api_core_v1_NamespaceCondition E),
      (k8sio_api_core_v1_NamespaceList, schema_k8sio_api_core_v1_NamespaceList E),
      (k8sio_api_core_v1_NamespaceSpec, schema_k8sio_api_core_v1_NamespaceSpec E),
      (k8sio_api_core_v1_NamespaceStatus, schema_k8sio_api_core_v1_NamespaceStatus E),
      (k8sio_api_core_v1_Node, schema_k8sio_api_core_v1_Node E),
      (k8sio_api_core_v1_NodeAddress, schema_k8sio_api_core_v1_NodeAddress E),
      (k8sio_api_core_v1_NodeAffinity, schema_k8sio_api_core_v1_NodeAffinity E),
      (k8sio_api_core_v1_NodeCondition, schema_k8sio_api_core_v1_NodeCondition E),
      (k8sio_api_core_v1_NodeConfigSource, schema_k8sio_api_core_v1_NodeConfigSource E),
      (k8sio_api_core_v1_NodeConfigStatus, schema_k8sio_api_core_v1_NodeConfigStatus E),
      (k8sio_api_core_v1_NodeDaemonEndpoints, schema_k8sio_api_core_v1_NodeDaemonEndpoints E),
      (k8sio_api_core_v1_NodeList, schema_k8sio_api_core_v1_NodeList E),
      (k8sio_api_core_v1_NodeProxyOptions, schema_k8sio_api_core_v1_NodeProxyOptions E),
      (k8sio_api_core_v1_NodeResources, schema_k8sio_api_core_v1_NodeResources E),
      (k8sio_api_core_v1_NodeSelector, schema_k8sio_api_core_v1_NodeSelector E),
      (k8sio_api_core_v1_NodeSelectorRequirement, schema_k8sio_api_core_v1_NodeSelectorRequirement E),
      (k8sio_api_core_v1_NodeSelectorTerm, schema_k8sio_api_core_v1_NodeSelectorTerm E),
      (k8sio_api_core_v1_NodeSpec, schema_k8sio_api_core_v1_NodeSpec E),
      (k8sio_api_core_v1_NodeStatus, schema_k8sio_api_core_v1_NodeStatus E),
      (k8sio_api_core_v1_NodeSystemInfo, schema_k8sio_api_core_v1_NodeSystemInfo E),
      (k8sio_api_core_v1_ObjectFieldSelector, schema_k8sio_api_core_v1_ObjectFieldSelector E),
      (k8sio_api_core_v1_ObjectReference, schema_k8sio_api_core_v1_ObjectReference E),
      (k8sio_api_core_v1_PersistentVolume, schema_k8sio_api_core_v1_PersistentVolume E),
      (k8sio_api_core_v1_PersistentVolumeClaim, schema_k8sio_api_core_v1_PersistentVolumeClaim E),
      (k8sio_api_core_v1_PersistentVolumeClaimCondition, schema_k8sio_api_core_v1_PersistentVolumeClaimCondition E),
      (k8sio_api_core_v1_PersistentVolumeClaimList, schema_k8sio_api_core_v1_PersistentVolumeClaimList E),
      (k8sio_api_core_v1_PersistentVolumeClaimSpec, schema_k8sio_api_core_v1_PersistentVolumeClaimSpec E),
      (k8sio_api_core_v1_PersistentVolumeClaimStatus, schema_k8sio_api_core_v1_PersistentVolumeClaimStatus E),
      (k8sio_api_core_v1_PersistentVolumeClaimTemplate, schema_k8sio_api_core_v1_PersistentVolumeClaimTemplate E),
      (k8sio_api_core_v1_PersistentVolumeClaimVolumeSource, schema_k8sio_api_core_v1_PersistentVolumeClaimVolumeSource E),
      (k8sio_api_core_v1_PersistentVolumeList, schema_k8sio_api_core_v1_PersistentVolumeList E),
      (k8sio_api_core_v1_PersistentVolumeSource, schema_k8sio_api_core_v1_PersistentVolumeSource E),
      (k8sio_api_core_v1_PersistentVolumeSpec, schema_k8sio_api_core_v1_PersistentVolumeSpec E),
      (k8sio_api_core_v1_PersistentVolumeStatus, schema_k8sio_api_core_v1_PersistentVolumeStatus E),
      (k8sio_api_core_v1_PhotonPersistentDiskVolumeSource, schema_k8sio_api_core_v1_PhotonPersistentDiskVolumeSource E),
      (k8sio_api_core_v1_Pod, schema_k8sio_api_core_v1_Pod E),
      (k8sio_api_core_v1_PodAffinity, schema_k8sio_api_core_v1_PodAffinity E),
      (k8sio_api_core_v1_PodAffinityTerm, schema_k8sio_api_core_v1_PodAffinityTerm E),
      (k8sio_api_core_v1_PodAntiAffinity, schema_k8sio_api_core_v1_PodAntiAffinity E),
      (k8sio_api_core_v1_PodAttachOptions, schema_k8sio_api_core_v1_PodAttachOptions E),
      (k8sio_api_core_v1_PodCondition, schema_k8sio_api_core_v1_PodCondition E),
      (k8sio_api_core_v1_PodDNSConfig, schema_k8sio_api_core_v1_PodDNSConfig E),
      (k8sio_api_core_v1_PodDNSConfigOption, schema_k8sio_api_core_v1_PodDNSConfigOption E),
      (k8sio_api_core_v1_PodExecOptions, schema_k8sio_api_core_v1_PodExecOptions E),
      (k8sio_api_core_v1_PodIP, schema_k8sio_api_core_v1_PodIP E),
      (k8sio_api_core_v1_PodList, schema_k8sio_api_core_v1_PodList E),
      (k8sio_api_core_v1_PodLogOptions, schema_k8sio_api_core_v1_PodLogOptions E),
      (k8sio_api_core_v1_PodOS, schema_k8sio_api_core_v1_PodOS E),
      (k8sio_api_core_v1_PodPortForwardOptions, schema_k8sio_api_core_v1_PodPortForwardOptions E),
      (k8sio_api_core_v1_PodProxyOptions, schema_k8sio_api_core_v1_PodProxyOptions E),
      (k8sio_api_core_v1_PodReadinessGate, schema_k8sio_api_core_v1_PodReadinessGate E),
      (k8sio_api_core_v1_PodResourceClaim, schema_k8sio_api_core_v1_PodResourceClaim E),
      (k8sio_api_core_v1_PodResourceClaimStatus, schema_k8sio_api_core_v1_PodResourceClaimStatus E),
      (k8sio_api_core_v1_PodSchedulingGate, schema_k8sio_api_core_v1_PodSchedulingGate E),
      (k8sio_api_core_v1_PodSecurityContext, schema_k8sio_api_core_v1_PodSecurityContext E),
      (k8sio_api_core_v1_PodSignature, schema_k8sio_api_core_v1_PodSignature E),
      (k8sio_api_core_v1_PodSpec, schema_k8sio_api_core_v1_PodSpec E),
      (k8sio_api_core_v1_PodStatus, schema_k8sio_api_core_v1_PodStatus E),
      (k8sio_api_core_v1_PodStatusResult, schema_k8sio_api_core_v1_PodStatusResult E),
      (k8sio_api_core_v1_PodTemplate, schema_k8sio_api_core_v1_PodTemplate E),
      (k8sio_api_core_v1_PodTemplateList, schema_k8sio_api_core_v1_PodTemplateList E),
      (k8sio_api_core_v1_PodTemplateSpec, schema_k8sio_api_core_v1_PodTemplateSpec E),
      (k8sio_api_core_v1_PortStatus, schema_k8sio_api_core_v1_PortStatus E),
      (k8sio_api_core_v1_PortworxVolumeSource, schema_k8sio_api_core_v1_PortworxVolumeSource E),
      (k8sio_api_core_v1_PreferAvoidPodsEntry, schema_k8sio_api_core_v1_PreferAvoidPodsEntry E),
      (k8sio_api_core_v1_PreferredSchedulingTerm, schema_k8sio_api_core_v1_PreferredSchedulingTerm E),
      (k8sio_api_core_v1_Probe, schema_k8sio_api_core_v1_Probe E),
      (k8sio_api_core_v1_ProbeHandler, schema_k8sio_api_core_v1_ProbeHandler E),
      (k8sio_api_core_v1_ProjectedVolumeSource, schema_k8sio_api_core_v1_ProjectedVolumeSource E),
      (k8sio_api_core_v1_QuobyteVolumeSource, schema_k8sio_api_core_v1_QuobyteVolumeSource E),
      (k8sio_api_core_v1_RBDPersistentVolumeSource, schema_k8sio_api_core_v1_RBDPersistentVolumeSource E),
      (k8sio_api_core_v1_RBDVolumeSource, schema_k8sio_api_core_v1_RBDVolumeSource E),
      (k8sio_api_core_v1_RangeAllocation, schema_k8sio_api_core_v1_RangeAllocation E),
      (k8sio_api_core_v1_ReplicationController, schema_k8sio_api_core_v1_ReplicationController E),
      (k8sio_api_core_v1_ReplicationControllerCondition, schema_k8sio_api_core_v1_ReplicationControllerCondition E),
      (k8sio_api_core_v1_ReplicationControllerList, schema_k8sio_api_core_v1_ReplicationControllerList E),
      (k8sio_api_core_v1_ReplicationControllerSpec, schema_k8sio_api_core_v1_ReplicationControllerSpec E),
      (k8sio_api_core_v1_ReplicationControllerStatus, schema_k8sio_api_core_v1_ReplicationControllerStatus E),
      (k8sio_api_core_v1_ResourceClaim, schema_k8sio_api_core_v1_ResourceClaim E),
      (k8sio_api_core_v1_ResourceFieldSelector, schema_k8sio_api_core_v1_ResourceFieldSelector E),
      (k8sio_api_core_v1_ResourceQuota, schema_k8sio_api_core_v1_ResourceQuota E),
      (k8sio_api_core_v1_ResourceQuotaList, schema_k8sio_api_core_v1_ResourceQuotaList E),
      (k8sio_api_core_v1_ResourceQuotaSpec, schema_k8sio_api_core_v1_ResourceQuotaSpec E),
      (k8sio_api_core_v1_ResourceQuotaStatus, schema_k8sio_api_core_v1_ResourceQuotaStatus E),
      (k8sio_api_core_v1_ResourceRequirements, schema_k8sio_api_core_v1_ResourceRequirements E),
      (k8sio_api_core_v1_SELinuxOptions, schema_k8sio_api_core_v1_SELinuxOptions E),
      (k8sio_api_core_v1_ScaleIOPersistentVolumeSource, schema_k8sio_api_core_v1_ScaleIOPersistentVolumeSource E),
      (k8sio_api_core_v1_ScaleIOVolumeSource, schema_k8sio_api_core_v1_ScaleIOVolumeSource E),
      (k8sio_api_core_v1_ScopeSelector, schema_k8sio_api_core_v1_ScopeSelector E),
      (k8sio_api_core_v1_ScopedResourceSelectorRequirement, schema_k8sio_api_core_v1_ScopedResourceSelectorRequirement E),
      (k8sio_api_core_v1_SeccompProfile, schema_k8sio_api_core_v1_SeccompProfile E),
      (k8sio_api_core_v1_Secret, schema_k8sio_api_core_v1_Secret E),
      (k8sio_api_core_v1_SecretEnvSource, schema_k8sio_api_core_v1_SecretEnvSource E),
      (k8sio_api_core_v1_SecretKeySelector, schema_k8sio_api_core_v1_SecretKeySelector E),
      (k8sio_api_core_v1_SecretList, schema_k8sio_api_core_v1_SecretList E),
      (k8sio_api_core_v1_SecretProjection, schema_k8sio_api_core_v1_SecretProjection E),
      (k8sio_api_core_v1_SecretReference, schema_k8sio_api_core_v1_SecretReference E),
      (k8sio_api_core_v1_SecretVolumeSource, schema_k8sio_api_core_v1_SecretVolumeSource E),
      (k8sio_api_core_v1_SecurityContext, schema_k8sio_api_core_v1_SecurityContext E),
      (k8sio_api_core_v1_SerializedReference, schema_k8sio_api_core_v1_SerializedReference E),
      (k8sio_api_core_v1_Service, schema_k8sio_api_core_v1_Service E),
      (k8sio_api_core_v1_ServiceAccount, schema_k8sio_api_core_v1_ServiceAccount E),
      (k8sio_api_core_v1_ServiceAccountList, schema_k8sio_api_core_v1_ServiceAccountList E),
      (k8sio_api_core_v1_ServiceAccountTokenProjection, schema_k8sio_api_core_v1_ServiceAccountTokenProjection E),
      (k8sio_api_core_v1_ServiceList, schema_k8sio_api_core_v1_ServiceList E),
      (k8sio_api_core_v1_ServicePort, schema_k8sio_api_core_v1_ServicePort E),
      (k8sio_api_core_v1_ServiceProxyOptions, schema_k8sio_api_core_v1_ServiceProxyOptions E),
      (k8sio_api_core_v1_ServiceSpec, schema_k8sio_api_core_v1_ServiceSpec E),
      (k8sio_api_core_v1_ServiceStatus, schema_k8sio_api_core_v1_ServiceStatus E),
      (k8sio_api_core_v1_SessionAffinityConfig, schema_k8sio_api_core_v1_SessionAffinityConfig E),
      (k8sio_api_core_v1_StorageOSPersistentVolumeSource, schema_k8sio_api_core_v1_StorageOSPersistentVolumeSource E),
      (k8sio_api_core_v1_StorageOSVolumeSource, schema_k8sio_api_core_v1_StorageOSVolumeSource E),
      (k8sio_api_core_v1_Sysctl, schema_k8sio_api_core_v1_Sysctl E),
      (k8sio_api_core_v1_TCPSocketAction, schema_k8sio_api_core_v1_TCPSocketAction E),
      (k8sio_api_core_v1_Taint, schema_k8sio_api_core_v1_Taint E),
      (k8sio_api_core_v1_Toleration, schema_k8sio_api_core_v1_Toleration E),
      (k8sio_api_core_v1_TopologySelectorLabelRequirement, schema_k8sio_api_core_v1_TopologySelectorLabelRequirement E),
      (k8sio_api_core_v1_TopologySelectorTerm, schema_k8sio_api_core_v1_TopologySelectorTerm E),
      (k8sio_api_core_v1_TopologySpreadConstraint, schema_k8sio_api_core_v1_TopologySpreadConstraint E),
      (k8sio_api_core_v1_TypedLocalObjectReference, schema_k8sio_api_core_v1_TypedLocalObjectReference E),
      (k8sio_api_core_v1_TypedObjectReference, schema_k8sio_api_core_v1_TypedObjectReference E),
      (k8sio_api_core_v1_Volume, schema_k8sio_api_core_v1_Volume E),
      (k8sio_api_core_v1_VolumeDevice, schema_k8sio_api_core_v1_VolumeDevice E),
      (k8sio_api_core_v1_VolumeMount, schema_k8sio_api_core_v1_VolumeMount E),
      (k8sio_api_core_v1_VolumeNodeAffinity, schema_k8sio_api_core_v1_VolumeNodeAffinity E),
      (k8sio_api_core_v1_VolumeProjection, schema_k8sio_api_core_v1_VolumeProjection E),
      (k8sio_api_core_v1_VolumeSource, schema_k8sio_api_core_v1_VolumeSource E),
      (k8sio_api_core_v1_VsphereVirtualDiskVolumeSource, schema_k8sio_api_core_v1_VsphereVirtualDiskVolumeSource E),
      (k8sio_api_core_v1_WeightedPodAffinityTerm, schema_k8sio_api_core_v1_WeightedPodAffinityTerm E),
      (k8sio_api_core_v1_WindowsSecurityContextOptions, schema_k8sio_api_core_v1_WindowsSecurityContextOptions E),
      (apimachinery_pkg_api_resource_Quantity, schema_apimachinery_pkg_api_resource_Quantity E),
      (apimachinery_pkg_api_resource_int64Amount, schema_apimachinery_pkg_api_resource_int64Amount E),
      (pkg_apis_meta_v1_APIGroup, schema_pkg_apis_meta_v1_APIGroup E),
      (pkg_apis_meta_v1_APIGroupList, schema_pkg_apis_meta_v1_APIGroupList E),
      (pkg_apis_meta_v1_APIResource, schema_pkg_apis_meta_v1_APIResource E),
      (pkg_apis_meta_v1_APIResourceList, schema_pkg_apis_meta_v1_APIResourceList E),
      (pkg_apis_meta_v1_APIVersions, schema_pkg_apis_meta_v1_APIVersions E),
      (pkg_apis_meta_v1_ApplyOptions, schema_pkg_apis_meta_v1_ApplyOptions E),
      (pkg_apis_meta_v1_Condition, schema_pkg_apis_meta_v1_Condition E),
      (pkg_apis_meta_v1_CreateOptions, schema_pkg_apis_meta_v1_CreateOptions E),
      (pkg_apis_meta_v1_DeleteOptions, schema_pkg_apis_meta_v1_DeleteOptions E),
      (pkg_apis_meta_v1_Duration, schema_pkg_apis_meta_v1_Duration E),
      (pkg_apis_meta_v1_FieldsV1, schema_pkg_apis_meta_v1_FieldsV1 E),
      (pkg_apis_meta_v1_GetOptions, schema_pkg_apis_meta_v1_GetOptions E),
      (pkg_apis_meta_v1_GroupKind, schema_pkg_apis_meta_v1_GroupKind E),
      (pkg_apis_meta_v1_GroupResource, schema_pkg_apis_meta_v1_GroupResource E),
      (pkg_apis_meta_v1_GroupVersion, schema_pkg_apis_meta_v1_GroupVersion E),
      (pkg_apis_meta_v1_GroupVersionForDiscovery, schema_pkg_apis_meta_v1_GroupVersionForDiscovery E),
      (pkg_apis_meta_v1_GroupVersionKind, schema_pkg_apis_meta_v1_GroupVersionKind E),
      (pkg_apis_meta_v1_GroupVersionResource, schema_pkg_apis_meta_v1_GroupVersionResource E),
      (pkg_apis_meta_v1_InternalEvent, schema_pkg_apis_meta_v1_InternalEvent E),
      (pkg_apis_meta_v1_LabelSelector, schema_pkg_apis_meta_v1_LabelSelector E),
      (pkg_apis_meta_v1_LabelSelectorRequirement, schema_pkg_apis_meta_v1_LabelSelectorRequirement E),
      (pkg_apis_meta_v1_List, schema_pkg_apis_meta_v1_List E),
      (pkg_apis_meta_v1_ListMeta, schema_pkg_apis_meta_v1_ListMeta E),
      (pkg_apis_meta_v1_ListOptions, schema_pkg_apis_meta_v1_ListOptions E),
      (pkg_apis_meta_v1_ManagedFieldsEntry, schema_pkg_apis_meta_v1_ManagedFieldsEntry E),
      (pkg_apis_meta_v1_MicroTime, schema_pkg_apis_meta_v1_MicroTime E),
      (pkg_apis_meta_v1_ObjectMeta, schema_pkg_apis_meta_v1_ObjectMeta E),
      (pkg_apis_meta_v1_OwnerReference, schema_pkg_apis_meta_v1_OwnerReference E),
      (pkg_apis_meta_v1_PartialObjectMetadata, schema_pkg_apis_meta_v1_PartialObjectMetadata E),
      (pkg_apis_meta_v1_PartialObjectMetadataList, schema_pkg_apis_meta_v1_PartialObjectMetadataList E),
      (pkg_apis_meta_v1_Patch, schema_pkg_apis_meta_v1_Patch E),
      (pkg_apis_meta_v1_PatchOptions, schema_pkg_apis_meta_v1_PatchOptions E),
      (pkg_apis_meta_v1_Preconditions, schema_pkg_apis_meta_v1_Preconditions E),
      (pkg_apis_meta_v1_RootPaths, schema_pkg_apis_meta_v1_RootPaths E),
      (pkg_apis_meta_v1_ServerAddressByClientCIDR, schema_pkg_apis_meta_v1_ServerAddressByClientCIDR E),
      (pkg_apis_meta_v1_Status, schema_pkg_apis_meta_v1_Status E),
      (pkg_apis_meta_v1_StatusCause, schema_pkg_apis_meta_v1_StatusCause E),
      (pkg_apis_meta_v1_StatusDetails, schema_pkg_apis_meta_v1_StatusDetails E),
      (pkg_apis_meta_v1_Table, schema_pkg_apis_meta_v1_Table E),
      (pkg_apis_meta_v1_TableColumnDefinition, schema_pkg_apis_meta_v1_TableColumnDefinition E),
      (pkg_apis_meta_v1_TableOptions, schema_pkg_apis_meta_v1_TableOptions E),
      (pkg_apis_meta_v1_TableRow, schema_pkg_apis_meta_v1_TableRow E),
      (pkg_apis_meta_v1_TableRowCondition, schema_pkg_apis_meta_v1_TableRowCondition E),
      (pkg_apis_meta_v1_Time, schema_pkg_apis_meta_v1_Time E),
      (pkg_apis_meta_v1_Timestamp, schema_pkg_apis_meta_v1_Timestamp E),
      (pkg_apis_meta_v1_TypeMeta, schema_pkg_apis_meta_v1_TypeMeta E),
      (pkg_apis_meta_v1_UpdateOptions, schema_pkg_apis_meta_v1_UpdateOptions E),
      (pkg_apis_meta_v1_WatchEvent, schema_pkg_apis_meta_v1_WatchEvent E),
      (k8sio_apimachinery_pkg_version_Info, schema_k8sio_apimachinery_pkg_version_Info E),
      (pkg_apis_custom_metrics_v1beta1_MetricListOptions, schema_pkg_apis_custom_metrics_v1beta1_MetricListOptions E),
      (pkg_apis_custom_metrics_v1beta1_MetricValue, schema_pkg_apis_custom_metrics_v1beta1_MetricValue E),
      (pkg_apis_custom_metrics_v1beta1_MetricValueList, schema_pkg_apis_custom_metrics_v1beta1_MetricValueList E),
      (pkg_apis_custom_metrics_v1beta2_MetricIdentifier, schema_pkg_apis_custom_metrics_v1beta2_MetricIdentifier E),
      (pkg_apis_custom_metrics_v1beta2_MetricListOptions, schema_pkg_apis_custom_metrics_v1beta2_MetricListOptions E),
      (pkg_apis_custom_metrics_v1beta2_MetricValue, schema_pkg_apis_custom_metrics_v1beta2_MetricValue E),
      (pkg_apis_custom_metrics_v1beta2_MetricValueList, schema_pkg_apis_custom_metrics_v1beta2_MetricValueList E),
      (pkg_apis_external_metrics_v1beta1_ExternalMetricValue, schema_pkg_apis_external_metrics_v1beta1_ExternalMetricValue E),
      (pkg_apis_external_metrics_v1beta1_ExternalMetricValueList, schema_pkg_apis_external_metrics_v1beta1_ExternalMetricValueList E),
      (pkg_apis_metrics_v1beta1_ContainerMetrics, schema_pkg_apis_metrics_v1beta1_ContainerMetrics E),
      (pkg_apis_metrics_v1beta1_NodeMetrics, schema_pkg_apis_metrics_v1beta1_NodeMetrics E),
      (pkg_apis_metrics_v1beta1_NodeMetricsList, schema_pkg_apis_metrics_v1beta1_NodeMetricsList E),
      (pkg_apis_metrics_v1beta1_PodMetrics, schema_pkg_apis_metrics_v1beta1_PodMetrics E),
      (pkg_apis_metrics_v1beta1_PodMetricsList, schema_pkg_apis_metrics_v1beta1_PodMetricsList E)]"

text \<open>The keys of the map.\<close>

definition modelNames :: "string list" where
  "modelNames =
     [k8sio_api_core_v1_AWSElasticBlockStoreVolumeSource, k8sio_api_core_v1_Affinity,
      k8sio_api_core_v1_AttachedVolume, k8sio_api_core_v1_AvoidPods,
      k8sio_api_core_v1_AzureDiskVolumeSource, k8sio_api_core_v1_AzureFilePersistentVolumeSource,
      k8sio_api_core_v1_AzureFileVolumeSource, k8sio_api_core_v1_Binding,
      k8sio_api_core_v1_CSIPersistentVolumeSource, k8sio_api_core_v1_CSIVolumeSource,
      k8sio_api_core_v1_Capabilities, k8sio_api_core_v1_CephFSPersistentVolumeSource,
      k8sio_api_core_v1_CephFSVolumeSource, k8sio_api_core_v1_CinderPersistentVolumeSource,
      k8sio_api_core_v1_CinderVolumeSource, k8sio_api_core_v1_ClaimSource,
      k8sio_api_core_v1_ClientIPConfig, k8sio_api_core_v1_ComponentCondition,
      k8sio_api_core_v1_ComponentStatus, k8sio_api_core_v1_ComponentStatusList,
      k8sio_api_core_v1_ConfigMap, k8sio_api_core_v1_ConfigMapEnvSource,
      k8sio_api_core_v1_ConfigMapKeySelector, k8sio_api_core_v1_ConfigMapList,
      k8sio_api_core_v1_ConfigMapNodeConfigSource, k8sio_api_core_v1_ConfigMapProjection,
      k8sio_api_core_v1_ConfigMapVolumeSource, k8sio_api_core_v1_Container,
      k8sio_api_core_v1_ContainerImage, k8sio_api_core_v1_ContainerPort,
      k8sio_api_core_v1_ContainerResizePolicy, k8sio_api_core_v1_ContainerState,
      k8sio_api_core_v1_ContainerStateRunning, k8sio_api_core_v1_ContainerStateTerminated,
      k8sio_api_core_v1_ContainerStateWaiting, k8sio_api_core_v1_ContainerStatus,
      k8sio_api_core_v1_DaemonEndpoint, k8sio_api_core_v1_DownwardAPIProjection,
      k8sio_api_core_v1_DownwardAPIVolumeFile, k8sio_api_core_v1_DownwardAPIVolumeSource,
      k8sio_api_core_v1_EmptyDirVolumeSource, k8sio_api_core_v1_EndpointAddress,
      k8sio_api_core_v1_EndpointPort, k8sio_api_core_v1_EndpointSubset,
      k8sio_api_core_v1_Endpoints, k8sio_api_core_v1_EndpointsList,
      k8sio_api_core_v1_EnvFromSource, k8sio_api_core_v1_EnvVar, k8sio_api_core_v1_EnvVarSource,
      k8sio_api_core_v1_EphemeralContainer, k8sio_api_core_v1_EphemeralContainerCommon,
      k8sio_api_core_v1_EphemeralVolumeSource, k8sio_api_core_v1_Event,
      k8sio_api_core_v1_EventList, k8sio_api_core_v1_EventSeries, k8sio_api_core_v1_EventSource,
      k8sio_api_core_v1_ExecAction, k8sio_api_core_v1_FCVolumeSource,
      k8sio_api_core_v1_FlexPersistentVolumeSource, k8sio_api_core_v1_FlexVolumeSource,
      k8sio_api_core_v1_FlockerVolumeSource, k8sio_api_core_v1_GCEPersistentDiskVolumeSource,
      k8sio_api_core_v1_GRPCAction, k8sio_api_core_v1_GitRepoVolumeSource,
      k8sio_api_core_v1_GlusterfsPersistentVolumeSource, k8sio_api_core_v1_GlusterfsVolumeSource,
      k8sio_api_core_v1_HTTPGetAction, k8sio_api_core_v1_HTTPHeader, k8sio_api_core_v1_HostAlias,
      k8sio_api_core_v1_HostIP, k8sio_api_core_v1_HostPathVolumeSource,
      k8sio_api_core_v1_ISCSIPersistentVolumeSource, k8sio_api_core_v1_ISCSIVolumeSource,
      k8sio_api_core_v1_KeyToPath, k8sio_api_core_v1_Lifecycle,
      k8sio_api_core_v1_LifecycleHandler, k8sio_api_core_v1_LimitRange,
      k8sio_api_core_v1_LimitRangeItem, k8sio_api_core_v1_LimitRangeList,
      k8sio_api_core_v1_LimitRangeSpec, k8sio_api_core_v1_List,
      k8sio_api_core_v1_LoadBalancerIngress, k8sio_api_core_v1_LoadBalancerStatus,
      k8sio_api_core_v1_LocalObjectReference, k8sio_api_core_v1_LocalVolumeSource,
      k8sio_api_core_v1_NFSVolumeSource, k8sio_api_core_v1_Namespace,
      k8sio_api_core_v1_NamespaceCondition, k8sio_api_core_v1_NamespaceList,
      k8sio_api_core_v1_NamespaceSpec, k8sio_api_core_v1_NamespaceStatus, k8sio_api_core_v1_Node,
      k8sio_api_core_v1_NodeAddress, k8sio_api_core_v1_NodeAffinity,
      k8sio_api_core_v1_NodeCondition, k8sio_api_core_v1_NodeConfigSource,
      k8sio_api_core_v1_NodeConfigStatus, k8sio_api_core_v1_NodeDaemonEndpoints,
      k8sio_api_core_v1_NodeList, k8sio_api_core_v1_NodeProxyOptions,
      k8sio_api_core_v1_NodeResources, k8sio_api_core_v1_NodeSelector,
      k8sio_api_core_v1_NodeSelectorRequirement, k8sio_api_core_v1_NodeSelectorTerm,
      k8sio_api_core_v1_NodeSpec, k8sio_api_core_v1_NodeStatus, k8sio_api_core_v1_NodeSystemInfo,
      k8sio_api_core_v1_ObjectFieldSelector, k8sio_api_core_v1_ObjectReference,
      k8sio_api_core_v1_PersistentVolume, k8sio_api_core_v1_PersistentVolumeClaim,
      k8sio_api_core_v1_PersistentVolumeClaimCondition,
      k8sio_api_core_v1_PersistentVolumeClaimList, k8sio_api_core_v1_PersistentVolumeClaimSpec,
      k8sio_api_core_v1_PersistentVolumeClaimStatus,
      k8sio_api_core_v1_PersistentVolumeClaimTemplate,
      k8sio_api_core_v1_PersistentVolumeClaimVolumeSource, k8sio_api_core_v1_PersistentVolumeList,
      k8sio_api_core_v1_PersistentVolumeSource, k8sio_api_core_v1_PersistentVolumeSpec,
      k8sio_api_core_v1_PersistentVolumeStatus,
      k8sio_api_core_v1_PhotonPersistentDiskVolumeSource, k8sio_api_core_v1_Pod,
      k8sio_api_core_v1_PodAffinity, k8sio_api_core_v1_PodAffinityTerm,
      k8sio_api_core_v1_PodAntiAffinity, k8sio_api_core_v1_PodAttachOptions,
      k8sio_api_core_v1_PodCondition, k8sio_api_core_v1_PodDNSConfig,
      k8sio_api_core_v1_PodDNSConfigOption, k8sio_api_core_v1_PodExecOptions,
      k8sio_api_core_v1_PodIP, k8sio_api_core_v1_PodList, k8sio_api_core_v1_PodLogOptions,
      k8sio_api_core_v1_PodOS, k8sio_api_core_v1_PodPortForwardOptions,
      k8sio_api_core_v1_PodProxyOptions, k8sio_api_core_v1_PodReadinessGate,
      k8sio_api_core_v1_PodResourceClaim, k8sio_api_core_v1_PodResourceClaimStatus,
      k8sio_api_core_v1_PodSchedulingGate, k8sio_api_core_v1_PodSecurityContext,
      k8sio_api_core_v1_PodSignature, k8sio_api_core_v1_PodSpec, k8sio_api_core_v1_PodStatus,
      k8sio_api_core_v1_PodStatusResult, k8sio_api_core_v1_PodTemplate,
      k8sio_api_core_v1_PodTemplateList, k8sio_api_core_v1_PodTemplateSpec,
      k8sio_api_core_v1_PortStatus, k8sio_api_core_v1_PortworxVolumeSource,
      k8sio_api_core_v1_PreferAvoidPodsEntry, k8sio_api_core_v1_PreferredSchedulingTerm,
      k8sio_api_core_v1_Probe, k8sio_api_core_v1_ProbeHandler,
      k8sio_api_core_v1_ProjectedVolumeSource, k8sio_api_core_v1_QuobyteVolumeSource,
      k8sio_api_core_v1_RBDPersistentVolumeSource, k8sio_api_core_v1_RBDVolumeSource,
      k8sio_api_core_v1_RangeAllocation, k8sio_api_core_v1_ReplicationController,
      k8sio_api_core_v1_ReplicationControllerCondition,
      k8sio_api_core_v1_ReplicationControllerList, k8sio_api_core_v1_ReplicationControllerSpec,
      k8sio_api_core_v1_ReplicationControllerStatus, k8sio_api_core_v1_ResourceClaim,
      k8sio_api_core_v1_ResourceFieldSelector, k8sio_api_core_v1_ResourceQuota,
      k8sio_api_core_v1_ResourceQuotaList, k8sio_api_core_v1_ResourceQuotaSpec,
      k8sio_api_core_v1_ResourceQuotaStatus, k8sio_api_core_v1_ResourceRequirements,
      k8sio_api_core_v1_SELinuxOptions, k8sio_api_core_v1_ScaleIOPersistentVolumeSource,
      k8sio_api_core_v1_ScaleIOVolumeSource, k8sio_api_core_v1_ScopeSelector,
      k8sio_api_core_v1_ScopedResourceSelectorRequirement, k8sio_api_core_v1_SeccompProfile,
      k8sio_api_core_v1_Secret, k8sio_api_core_v1_SecretEnvSource,
      k8sio_api_core_v1_SecretKeySelector, k8sio_api_core_v1_SecretList,
      k8sio_api_core_v1_SecretProjection, k8sio_api_core_v1_SecretReference,
      k8sio_api_core_v1_SecretVolumeSource, k8sio_api_core_v1_SecurityContext,
      k8sio_api_core_v1_SerializedReference, k8sio_api_core_v1_Service,
      k8sio_api_core_v1_ServiceAccount, k8sio_api_core_v1_ServiceAccountList,
      k8sio_api_core_v1_ServiceAccountTokenProjection, k8sio_api_core_v1_ServiceList,
      k8sio_api_core_v1_ServicePort, k8sio_api_core_v1_ServiceProxyOptions,
      k8sio_api_core_v1_ServiceSpec, k8sio_api_core_v1_ServiceStatus,
      k8sio_api_core_v1_SessionAffinityConfig, k8sio_api_core_v1_StorageOSPersistentVolumeSource,
      k8sio_api_core_v1_StorageOSVolumeSource, k8sio_api_core_v1_Sysctl,
      k8sio_api_core_v1_TCPSocketAction, k8sio_api_core_v1_Taint, k8sio_api_core_v1_Toleration,
      k8sio_api_core_v1_TopologySelectorLabelRequirement, k8sio_api_core_v1_TopologySelectorTerm,
      k8sio_api_core_v1_TopologySpreadConstraint, k8sio_api_core_v1_TypedLocalObjectReference,
      k8sio_api_core_v1_TypedObjectReference, k8sio_api_core_v1_Volume,
      k8sio_api_core_v1_VolumeDevice, k8sio_api_core_v1_VolumeMount,
      k8sio_api_core_v1_VolumeNodeAffinity, k8sio_api_core_v1_VolumeProjection,
      k8sio_api_core_v1_VolumeSource, k8sio_api_core_v1_VsphereVirtualDiskVolumeSource,
      k8sio_api_core_v1_WeightedPodAffinityTerm, k8sio_api_core_v1_WindowsSecurityContextOptions,
      apimachinery_pkg_api_resource_Quantity, apimachinery_pkg_api_resource_int64Amount,
      pkg_apis_meta_v1_APIGroup, pkg_apis_meta_v1_APIGroupList, pkg_apis_meta_v1_APIResource,
      pkg_apis_meta_v1_APIResourceList, pkg_apis_meta_v1_APIVersions,
      pkg_apis_meta_v1_ApplyOptions, pkg_apis_meta_v1_Condition, pkg_apis_meta_v1_CreateOptions,
      pkg_apis_meta_v1_DeleteOptions, pkg_apis_meta_v1_Duration, pkg_apis_meta_v1_FieldsV1,
      pkg_apis_meta_v1_GetOptions, pkg_apis_meta_v1_GroupKind, pkg_apis_meta_v1_GroupResource,
      pkg_apis_meta_v1_GroupVersion, pkg_apis_meta_v1_GroupVersionForDiscovery,
      pkg_apis_meta_v1_GroupVersionKind, pkg_apis_meta_v1_GroupVersionResource,
      pkg_apis_meta_v1_InternalEvent, pkg_apis_meta_v1_LabelSelector,
      pkg_apis_meta_v1_LabelSelectorRequirement, pkg_apis_meta_v1_List, pkg_apis_meta_v1_ListMeta,
      pkg_apis_meta_v1_ListOptions, pkg_apis_meta_v1_ManagedFieldsEntry,
      pkg_apis_meta_v1_MicroTime, pkg_apis_meta_v1_ObjectMeta, pkg_apis_meta_v1_OwnerReference,
      pkg_apis_meta_v1_PartialObjectMetadata, pkg_apis_meta_v1_PartialObjectMetadataList,
      pkg_apis_meta_v1_Patch, pkg_apis_meta_v1_PatchOptions, pkg_apis_meta_v1_Preconditions,
      pkg_apis_meta_v1_RootPaths, pkg_apis_meta_v1_ServerAddressByClientCIDR,
      pkg_apis_meta_v1_Status, pkg_apis_meta_v1_StatusCause, pkg_apis_meta_v1_StatusDetails,
      pkg_apis_meta_v1_Table, pkg_apis_meta_v1_TableColumnDefinition,
      pkg_apis_meta_v1_TableOptions, pkg_apis_meta_v1_TableRow,
      pkg_apis_meta_v1_TableRowCondition, pkg_apis_meta_v1_Time, pkg_apis_meta_v1_Timestamp,
      pkg_apis_meta_v1_TypeMeta, pkg_apis_meta_v1_UpdateOptions, pkg_apis_meta_v1_WatchEvent,
      k8sio_apimachinery_pkg_version_Info, pkg_apis_custom_metrics_v1beta1_MetricListOptions,
      pkg_apis_custom_metrics_v1beta1_MetricValue,
      pkg_apis_custom_metrics_v1beta1_MetricValueList,
      pkg_apis_custom_metrics_v1beta2_MetricIdentifier,
      pkg_apis_custom_metrics_v1beta2_MetricListOptions,
      pkg_apis_custom_metrics_v1beta2_MetricValue,
      pkg_apis_custom_metrics_v1beta2_MetricValueList,
      pkg_apis_external_metrics_v1beta1_ExternalMetricValue,
      pkg_apis_external_metrics_v1beta1_ExternalMetricValueList,
      pkg_apis_metrics_v1beta1_ContainerMetrics, pkg_apis_metrics_v1beta1_NodeMetrics,
      pkg_apis_metrics_v1beta1_NodeMetricsList, pkg_apis_metrics_v1beta1_PodMetrics,
      pkg_apis_metrics_v1beta1_PodMetricsList]"

text \<open>The models without a definition, and the models that depend on one of those, directly or not.\<close>

definition undefinedModels :: "string list" where
  "undefinedModels =
     [k8sio_apimachinery_pkg_runtime_RawExtension, k8sio_apimachinery_pkg_runtime_Object,
      k8sio_apimachinery_pkg_util_intstr_IntOrString]"

definition incompleteModels :: "string list" where
  "incompleteModels =
     [k8sio_api_core_v1_Container, k8sio_api_core_v1_EphemeralContainer,
      k8sio_api_core_v1_EphemeralContainerCommon, k8sio_api_core_v1_HTTPGetAction,
      k8sio_api_core_v1_Lifecycle, k8sio_api_core_v1_LifecycleHandler, k8sio_api_core_v1_List,
      k8sio_api_core_v1_Pod, k8sio_api_core_v1_PodList, k8sio_api_core_v1_PodSpec,
      k8sio_api_core_v1_PodTemplate, k8sio_api_core_v1_PodTemplateList,
      k8sio_api_core_v1_PodTemplateSpec, k8sio_api_core_v1_Probe, k8sio_api_core_v1_ProbeHandler,
      k8sio_api_core_v1_ReplicationController, k8sio_api_core_v1_ReplicationControllerList,
      k8sio_api_core_v1_ReplicationControllerSpec, k8sio_api_core_v1_Service,
      k8sio_api_core_v1_ServiceList, k8sio_api_core_v1_ServicePort, k8sio_api_core_v1_ServiceSpec,
      k8sio_api_core_v1_TCPSocketAction, pkg_apis_meta_v1_InternalEvent, pkg_apis_meta_v1_List,
      pkg_apis_meta_v1_Table, pkg_apis_meta_v1_TableRow, pkg_apis_meta_v1_WatchEvent]"

definition incompleteDefinitions :: "'r openapi \<Rightarrow> 'r definitions" where
  "incompleteDefinitions E =
     [(k8sio_api_core_v1_Container, schema_k8sio_api_core_v1_Container E),
      (k8sio_api_core_v1_EphemeralContainer, schema_k8sio_api_core_v1_EphemeralContainer E),
      (k8sio_api_core_v1_EphemeralContainerCommon, schema_k8sio_api_core_v1_EphemeralContainerCommon E),
      (k8sio_api_core_v1_HTTPGetAction, schema_k8sio_api_core_v1_HTTPGetAction E),
      (k8sio_api_core_v1_Lifecycle, schema_k8sio_api_core_v1_Lifecycle E),
      (k8sio_api_core_v1_LifecycleHandler, schema_k8sio_api_core_v1_LifecycleHandler E),
      (k8sio_api_core_v1_List, schema_k8sio_api_core_v1_List E),
      (k8sio_api_core_v1_Pod, schema_k8sio_api_core_v1_Pod E),
      (k8sio_api_core_v1_PodList, schema_k8sio_api_core_v1_PodList E),
      (k8sio_api_core_v1_PodSpec, schema_k8sio_api_core_v1_PodSpec E),
      (k8sio_api_core_v1_PodTemplate, schema_k8sio_api_core_v1_PodTemplate E),
      (k8sio_api_core_v1_PodTemplateList, schema_k8sio_api_core_v1_PodTemplateList E),
      (k8sio_api_core_v1_PodTemplateSpec, schema_k8sio_api_core_v1_PodTemplateSpec E),
      (k8sio_api_core_v1_Probe, schema_k8sio_api_core_v1_Probe E),
      (k8sio_api_core_v1_ProbeHandler, schema_k8sio_api_core_v1_ProbeHandler E),
      (k8sio_api_core_v1_ReplicationController, schema_k8sio_api_core_v1_ReplicationController E),
      (k8sio_api_core_v1_ReplicationControllerList, schema_k8sio_api_core_v1_ReplicationControllerList E),
      (k8sio_api_core_v1_ReplicationControllerSpec, schema_k8sio_api_core_v1_ReplicationControllerSpec E),
      (k8sio_api_core_v1_Service, schema_k8sio_api_core_v1_Service E),
      (k8sio_api_core_v1_ServiceList, schema_k8sio_api_core_v1_ServiceList E),
      (k8sio_api_core_v1_ServicePort, schema_k8sio_api_core_v1_ServicePort E),
      (k8sio_api_core_v1_ServiceSpec, schema_k8sio_api_core_v1_ServiceSpec E),
      (k8sio_api_core_v1_TCPSocketAction, schema_k8sio_api_core_v1_TCPSocketAction E),
      (pkg_apis_meta_v1_InternalEvent, schema_pkg_apis_meta_v1_InternalEvent E),
      (pkg_apis_meta_v1_List, schema_pkg_apis_meta_v1_List E),
      (pkg_apis_meta_v1_Table, schema_pkg_apis_meta_v1_Table E),
      (pkg_apis_meta_v1_TableRow, schema_pkg_apis_meta_v1_TableRow E),
      (pkg_apis_meta_v1_WatchEvent, schema_pkg_apis_meta_v1_WatchEvent E)]"

text \<open>What the routes of the adapter answer with: the lists of the metrics APIs, the discovery documents,
  the version and an error's status.\<close>

definition servedModels :: "string list" where
  "servedModels =
     [pkg_apis_external_metrics_v1beta1_ExternalMetricValueList,
      pkg_apis_custom_metrics_v1beta1_MetricValueList,
      pkg_apis_custom_metrics_v1beta2_MetricValueList, pkg_apis_meta_v1_APIGroup,
      pkg_apis_meta_v1_APIGroupList, pkg_apis_meta_v1_APIResourceList,
      pkg_apis_meta_v1_APIVersions, pkg_apis_meta_v1_Status, k8sio_apimachinery_pkg_version_Info]"

text \<open>An instance of the parameter, in which a reference is the name itself.\<close>

definition exampleOpenAPI :: "string openapi" where
  "exampleOpenAPI = \<lparr>oa_ref = (\<lambda>n. n), oa_type = (\<lambda>_. [''string'']), oa_format = (\<lambda>_. ''date-time''),
     oa_oneOf = (\<lambda>_. [[Type [''string'']], [Type [''number'']]]),
     oa_embed = (\<lambda>d d'. d\<lparr>od_Schema := od_Schema d @ [VendorExtensible [(''x-kubernetes-v2-schema'', JObject [])]]\<rparr>)\<rparr>"

fun strictlyIncreasing :: "string list \<Rightarrow> bool" where
  "strictlyIncreasing (x # y # xs) = (x < y \<and> strictlyIncreasing (y # xs))"
| "strictlyIncreasing xs = True"

lemmas model_names =
    k8sio_api_core_v1_AWSElasticBlockStoreVolumeSource_def
    k8sio_api_core_v1_Affinity_def
    k8sio_api_core_v1_AttachedVolume_def
    k8sio_api_core_v1_AvoidPods_def
    k8sio_api_core_v1_AzureDiskVolumeSource_def
    k8sio_api_core_v1_AzureFilePersistentVolumeSource_def
    k8sio_api_core_v1_AzureFileVolumeSource_def
    k8sio_api_core_v1_Binding_def
    k8sio_api_core_v1_CSIPersistentVolumeSource_def
    k8sio_api_core_v1_CSIVolumeSource_def
    k8sio_api_core_v1_Capabilities_def
    k8sio_api_core_v1_CephFSPersistentVolumeSource_def
    k8sio_api_core_v1_CephFSVolumeSource_def
    k8sio_api_core_v1_CinderPersistentVolumeSource_def
    k8sio_api_core_v1_CinderVolumeSource_def
    k8sio_api_core_v1_ClaimSource_def
    k8sio_api_core_v1_ClientIPConfig_def
    k8sio_api_core_v1_ComponentCondition_def
    k8sio_api_core_v1_ComponentStatus_def
    k8sio_api_core_v1_ComponentStatusList_def
    k8sio_api_core_v1_ConfigMap_def
    k8sio_api_core_v1_ConfigMapEnvSource_def
    k8sio_api_core_v1_ConfigMapKeySelector_def
    k8sio_api_core_v1_ConfigMapList_def
    k8sio_api_core_v1_ConfigMapNodeConfigSource_def
    k8sio_api_core_v1_ConfigMapProjection_def
    k8sio_api_core_v1_ConfigMapVolumeSource_def
    k8sio_api_core_v1_Container_def
    k8sio_api_core_v1_ContainerImage_def
    k8sio_api_core_v1_ContainerPort_def
    k8sio_api_core_v1_ContainerResizePolicy_def
    k8sio_api_core_v1_ContainerState_def
    k8sio_api_core_v1_ContainerStateRunning_def
    k8sio_api_core_v1_ContainerStateTerminated_def
    k8sio_api_core_v1_ContainerStateWaiting_def
    k8sio_api_core_v1_ContainerStatus_def
    k8sio_api_core_v1_DaemonEndpoint_def
    k8sio_api_core_v1_DownwardAPIProjection_def
    k8sio_api_core_v1_DownwardAPIVolumeFile_def
    k8sio_api_core_v1_DownwardAPIVolumeSource_def
    k8sio_api_core_v1_EmptyDirVolumeSource_def
    k8sio_api_core_v1_EndpointAddress_def
    k8sio_api_core_v1_EndpointPort_def
    k8sio_api_core_v1_EndpointSubset_def
    k8sio_api_core_v1_Endpoints_def
    k8sio_api_core_v1_EndpointsList_def
    k8sio_api_core_v1_EnvFromSource_def
    k8sio_api_core_v1_EnvVar_def
    k8sio_api_core_v1_EnvVarSource_def
    k8sio_api_core_v1_EphemeralContainer_def
    k8sio_api_core_v1_EphemeralContainerCommon_def
    k8sio_api_core_v1_EphemeralVolumeSource_def
    k8sio_api_core_v1_Event_def
    k8sio_api_core_v1_EventList_def
    k8sio_api_core_v1_EventSeries_def
    k8sio_api_core_v1_EventSource_def
    k8sio_api_core_v1_ExecAction_def
    k8sio_api_core_v1_FCVolumeSource_def
    k8sio_api_core_v1_FlexPersistentVolumeSource_def
    k8sio_api_core_v1_FlexVolumeSource_def
    k8sio_api_core_v1_FlockerVolumeSource_def
    k8sio_api_core_v1_GCEPersistentDiskVolumeSource_def
    k8sio_api_core_v1_GRPCAction_def
    k8sio_api_core_v1_GitRepoVolumeSource_def
    k8sio_api_core_v1_GlusterfsPersistentVolumeSource_def
    k8sio_api_core_v1_GlusterfsVolumeSource_def
    k8sio_api_core_v1_HTTPGetAction_def
    k8sio_api_core_v1_HTTPHeader_def
    k8sio_api_core_v1_HostAlias_def
    k8sio_api_core_v1_HostIP_def
    k8sio_api_core_v1_HostPathVolumeSource_def
    k8sio_api_core_v1_ISCSIPersistentVolumeSource_def
    k8sio_api_core_v1_ISCSIVolumeSource_def
    k8sio_api_core_v1_KeyToPath_def
    k8sio_api_core_v1_Lifecycle_def
    k8sio_api_core_v1_LifecycleHandler_def
    k8sio_api_core_v1_LimitRange_def
    k8sio_api_core_v1_LimitRangeItem_def
    k8sio_api_core_v1_LimitRangeList_def
    k8sio_api_core_v1_LimitRangeSpec_def
    k8sio_api_core_v1_List_def
    k8sio_api_core_v1_LoadBalancerIngress_def
    k8sio_api_core_v1_LoadBalancerStatus_def
    k8sio_api_core_v1_LocalObjectReference_def
    k8sio_api_core_v1_LocalVolumeSource_def
    k8sio_api_core_v1_NFSVolumeSource_def
    k8sio_api_core_v1_Namespace_def
    k8sio_api_core_v1_NamespaceCondition_def
    k8sio_api_core_v1_NamespaceList_def
    k8sio_api_core_v1_NamespaceSpec_def
    k8sio_api_core_v1_NamespaceStatus_def
    k8sio_api_core_v1_Node_def
    k8sio_api_core_v1_NodeAddress_def
    k8sio_api_core_v1_NodeAffinity_def
    k8sio_api_core_v1_NodeCondition_def
    k8sio_api_core_v1_NodeConfigSource_def
    k8sio_api_core_v1_NodeConfigStatus_def
    k8sio_api_core_v1_NodeDaemonEndpoints_def
    k8sio_api_core_v1_NodeList_def
    k8sio_api_core_v1_NodeProxyOptions_def
    k8sio_api_core_v1_NodeResources_def
    k8sio_api_core_v1_NodeSelector_def
    k8sio_api_core_v1_NodeSelectorRequirement_def
    k8sio_api_core_v1_NodeSelectorTerm_def
    k8sio_api_core_v1_NodeSpec_def
    k8sio_api_core_v1_NodeStatus_def
    k8sio_api_core_v1_NodeSystemInfo_def
    k8sio_api_core_v1_ObjectFieldSelector_def
    k8sio_api_core_v1_ObjectReference_def
    k8sio_api_core_v1_PersistentVolume_def
    k8sio_api_core_v1_PersistentVolumeClaim_def
    k8sio_api_core_v1_PersistentVolumeClaimCondition_def
    k8sio_api_core_v1_PersistentVolumeClaimList_def
    k8sio_api_core_v1_PersistentVolumeClaimSpec_def
    k8sio_api_core_v1_PersistentVolumeClaimStatus_def
    k8sio_api_core_v1_PersistentVolumeClaimTemplate_def
    k8sio_api_core_v1_PersistentVolumeClaimVolumeSource_def
    k8sio_api_core_v1_PersistentVolumeList_def
    k8sio_api_core_v1_PersistentVolumeSource_def
    k8sio_api_core_v1_PersistentVolumeSpec_def
    k8sio_api_core_v1_PersistentVolumeStatus_def
    k8sio_api_core_v1_PhotonPersistentDiskVolumeSource_def
    k8sio_api_core_v1_Pod_def
    k8sio_api_core_v1_PodAffinity_def
    k8sio_api_core_v1_PodAffinityTerm_def
    k8sio_api_core_v1_PodAntiAffinity_def
    k8sio_api_core_v1_PodAttachOptions_def
    k8sio_api_core_v1_PodCondition_def
    k8sio_api_core_v1_PodDNSConfig_def
    k8sio_api_core_v1_PodDNSConfigOption_def
    k8sio_api_core_v1_PodExecOptions_def
    k8sio_api_core_v1_PodIP_def
    k8sio_api_core_v1_PodList_def
    k8sio_api_core_v1_PodLogOptions_def
    k8sio_api_core_v1_PodOS_def
    k8sio_api_core_v1_PodPortForwardOptions_def
    k8sio_api_core_v1_PodProxyOptions_def
    k8sio_api_core_v1_PodReadinessGate_def
    k8sio_api_core_v1_PodResourceClaim_def
    k8sio_api_core_v1_PodResourceClaimStatus_def
    k8sio_api_core_v1_PodSchedulingGate_def
    k8sio_api_core_v1_PodSecurityContext_def
    k8sio_api_core_v1_PodSignature_def
    k8sio_api_core_v1_PodSpec_def
    k8sio_api_core_v1_PodStatus_def
    k8sio_api_core_v1_PodStatusResult_def
    k8sio_api_core_v1_PodTemplate_def
    k8sio_api_core_v1_PodTemplateList_def
    k8sio_api_core_v1_PodTemplateSpec_def
    k8sio_api_core_v1_PortStatus_def
    k8sio_api_core_v1_PortworxVolumeSource_def
    k8sio_api_core_v1_PreferAvoidPodsEntry_def
    k8sio_api_core_v1_PreferredSchedulingTerm_def
    k8sio_api_core_v1_Probe_def
    k8sio_api_core_v1_ProbeHandler_def
    k8sio_api_core_v1_ProjectedVolumeSource_def
    k8sio_api_core_v1_QuobyteVolumeSource_def
    k8sio_api_core_v1_RBDPersistentVolumeSource_def
    k8sio_api_core_v1_RBDVolumeSource_def
    k8sio_api_core_v1_RangeAllocation_def
    k8sio_api_core_v1_ReplicationController_def
    k8sio_api_core_v1_ReplicationControllerCondition_def
    k8sio_api_core_v1_ReplicationControllerList_def
    k8sio_api_core_v1_ReplicationControllerSpec_def
    k8sio_api_core_v1_ReplicationControllerStatus_def
    k8sio_api_core_v1_ResourceClaim_def
    k8sio_api_core_v1_ResourceFieldSelector_def
    k8sio_api_core_v1_ResourceQuota_def
    k8sio_api_core_v1_ResourceQuotaList_def
    k8sio_api_core_v1_ResourceQuotaSpec_def
    k8sio_api_core_v1_ResourceQuotaStatus_def
    k8sio_api_core_v1_ResourceRequirements_def
    k8sio_api_core_v1_SELinuxOptions_def
    k8sio_api_core_v1_ScaleIOPersistentVolumeSource_def
    k8sio_api_core_v1_ScaleIOVolumeSource_def
    k8sio_api_core_v1_ScopeSelector_def
    k8sio_api_core_v1_ScopedResourceSelectorRequirement_def
    k8sio_api_core_v1_SeccompProfile_def
    k8sio_api_core_v1_Secret_def
    k8sio_api_core_v1_SecretEnvSource_def
    k8sio_api_core_v1_SecretKeySelector_def
    k8sio_api_core_v1_SecretList_def
    k8sio_api_core_v1_SecretProjection_def
    k8sio_api_core_v1_SecretReference_def
    k8sio_api_core_v1_SecretVolumeSource_def
    k8sio_api_core_v1_SecurityContext_def
    k8sio_api_core_v1_SerializedReference_def
    k8sio_api_core_v1_Service_def
    k8sio_api_core_v1_ServiceAccount_def
    k8sio_api_core_v1_ServiceAccountList_def
    k8sio_api_core_v1_ServiceAccountTokenProjection_def
    k8sio_api_core_v1_ServiceList_def
    k8sio_api_core_v1_ServicePort_def
    k8sio_api_core_v1_ServiceProxyOptions_def
    k8sio_api_core_v1_ServiceSpec_def
    k8sio_api_core_v1_ServiceStatus_def
    k8sio_api_core_v1_SessionAffinityConfig_def
    k8sio_api_core_v1_StorageOSPersistentVolumeSource_def
    k8sio_api_core_v1_StorageOSVolumeSource_def
    k8sio_api_core_v1_Sysctl_def
    k8sio_api_core_v1_TCPSocketAction_def
    k8sio_api_core_v1_Taint_def
    k8sio_api_core_v1_Toleration_def
    k8sio_api_core_v1_TopologySelectorLabelRequirement_def
    k8sio_api_core_v1_TopologySelectorTerm_def
    k8sio_api_core_v1_TopologySpreadConstraint_def
    k8sio_api_core_v1_TypedLocalObjectReference_def
    k8sio_api_core_v1_TypedObjectReference_def
    k8sio_api_core_v1_Volume_def
    k8sio_api_core_v1_VolumeDevice_def
    k8sio_api_core_v1_VolumeMount_def
    k8sio_api_core_v1_VolumeNodeAffinity_def
    k8sio_api_core_v1_VolumeProjection_def
    k8sio_api_core_v1_VolumeSource_def
    k8sio_api_core_v1_VsphereVirtualDiskVolumeSource_def
    k8sio_api_core_v1_WeightedPodAffinityTerm_def
    k8sio_api_core_v1_WindowsSecurityContextOptions_def
    apimachinery_pkg_api_resource_Quantity_def
    apimachinery_pkg_api_resource_int64Amount_def
    pkg_apis_meta_v1_APIGroup_def
    pkg_apis_meta_v1_APIGroupList_def
    pkg_apis_meta_v1_APIResource_def
    pkg_apis_meta_v1_APIResourceList_def
    pkg_apis_meta_v1_APIVersions_def
    pkg_apis_meta_v1_ApplyOptions_def
    pkg_apis_meta_v1_Condition_def
    pkg_apis_meta_v1_CreateOptions_def
    pkg_apis_meta_v1_DeleteOptions_def
    pkg_apis_meta_v1_Duration_def
    pkg_apis_meta_v1_FieldsV1_def
    pkg_apis_meta_v1_GetOptions_def
    pkg_apis_meta_v1_GroupKind_def
    pkg_apis_meta_v1_GroupResource_def
    pkg_apis_meta_v1_GroupVersion_def
    pkg_apis_meta_v1_GroupVersionForDiscovery_def
    pkg_apis_meta_v1_GroupVersionKind_def
    pkg_apis_meta_v1_GroupVersionResource_def
    pkg_apis_meta_v1_InternalEvent_def
    pkg_apis_meta_v1_LabelSelector_def
    pkg_apis_meta_v1_LabelSelectorRequirement_def
    pkg_apis_meta_v1_List_def
    pkg_apis_meta_v1_ListMeta_def
    pkg_apis_meta_v1_ListOptions_def
    pkg_apis_meta_v1_ManagedFieldsEntry_def
    pkg_apis_meta_v1_MicroTime_def
    pkg_apis_meta_v1_ObjectMeta_def
    pkg_apis_meta_v1_OwnerReference_def
    pkg_apis_meta_v1_PartialObjectMetadata_def
    pkg_apis_meta_v1_PartialObjectMetadataList_def
    pkg_apis_meta_v1_Patch_def
    pkg_apis_meta_v1_PatchOptions_def
    pkg_apis_meta_v1_Preconditions_def
    pkg_apis_meta_v1_RootPaths_def
    pkg_apis_meta_v1_ServerAddressByClientCIDR_def
    pkg_apis_meta_v1_Status_def
    pkg_apis_meta_v1_StatusCause_def
    pkg_apis_meta_v1_StatusDetails_def
    pkg_apis_meta_v1_Table_def
    pkg_apis_meta_v1_TableColumnDefinition_def
    pkg_apis_meta_v1_TableOptions_def
    pkg_apis_meta_v1_TableRow_def
    pkg_apis_meta_v1_TableRowCondition_def
    pkg_apis_meta_v1_Time_def
    pkg_apis_meta_v1_Timestamp_def
    pkg_apis_meta_v1_TypeMeta_def
    pkg_apis_meta_v1_UpdateOptions_def
    pkg_apis_meta_v1_WatchEvent_def
    k8sio_apimachinery_pkg_version_Info_def
    pkg_apis_custom_metrics_v1beta1_MetricListOptions_def
    pkg_apis_custom_metrics_v1beta1_MetricValue_def
    pkg_apis_custom_metrics_v1beta1_MetricValueList_def
    pkg_apis_custom_metrics_v1beta2_MetricIdentifier_def
    pkg_apis_custom_metrics_v1beta2_MetricListOptions_def
    pkg_apis_custom_metrics_v1beta2_MetricValue_def
    pkg_apis_custom_metrics_v1beta2_MetricValueList_def
    pkg_apis_external_metrics_v1beta1_ExternalMetricValue_def
    pkg_apis_external_metrics_v1beta1_ExternalMetricValueList_def
    pkg_apis_metrics_v1beta1_ContainerMetrics_def
    pkg_apis_metrics_v1beta1_NodeMetrics_def
    pkg_apis_metrics_v1beta1_NodeMetricsList_def
    pkg_apis_metrics_v1beta1_PodMetrics_def
    pkg_apis_metrics_v1beta1_PodMetricsList_def
    k8sio_apimachinery_pkg_runtime_RawExtension_def
    k8sio_apimachinery_pkg_runtime_Object_def
    k8sio_apimachinery_pkg_util_intstr_IntOrString_def

section \<open>Names\<close>

lemma strictlyIncreasing_sorted: "strictlyIncreasing xs \<Longrightarrow> sorted_wrt (<) xs"
  by (induction xs rule: strictlyIncreasing.induct) (auto intro: less_trans)

lemma model_keys_distinct: "distinct (map fst (GetOpenAPIDefinitions E))"
proof -
  have "strictlyIncreasing (map fst (GetOpenAPIDefinitions E))"
    unfolding GetOpenAPIDefinitions_def list.map fst_conv by code_simp
  then show ?thesis using strictlyIncreasing_sorted strict_sorted_iff by blast
qed

lemma undefined_not_keys: "set undefinedModels \<inter> fst ` set (GetOpenAPIDefinitions E) = {}"
proof -
  have "list_all (\<lambda>n. \<not> List.member (map fst (GetOpenAPIDefinitions E)) n) undefinedModels"
    unfolding GetOpenAPIDefinitions_def list.map fst_conv undefinedModels_def
    by (simp add: model_names)
  then show ?thesis by (auto simp: list_all_iff)
qed

section \<open>Resolution\<close>

text \<open>One rule for each model, and the models taken for granted.\<close>

lemmas model_rules = resolve_all [OF GetOpenAPIDefinitions_def [symmetric], unfolded list.pred_inject fst_conv snd_conv]

lemma incomplete_names: "map fst (incompleteDefinitions E) = incompleteModels"
  by (simp add: incompleteDefinitions_def incompleteModels_def)

lemma model_keys: "map fst (GetOpenAPIDefinitions E) = modelNames"
  by (simp add: GetOpenAPIDefinitions_def modelNames_def)

lemmas incomplete_facts = member_all [OF incompleteModels_def [symmetric], unfolded list.pred_inject]
lemmas undefined_facts = member_all [OF undefinedModels_def [symmetric], unfolded list.pred_inject]

lemma models_split:
  "openapiOK E \<Longrightarrow>
     list_all (\<lambda>n. n \<in> set incompleteModels \<or> resolvable (GetOpenAPIDefinitions E) U n) modelNames"
  by (simp add: modelNames_def model_rules model_dependencies incomplete_facts)

lemma incomplete_from_undefined:
  "openapiOK E \<Longrightarrow> list_all (resolvable (GetOpenAPIDefinitions E) (set undefinedModels)) incompleteModels"
  by (simp add: incompleteModels_def model_rules model_dependencies undefined_facts given)

lemma incomplete_dependencies:
  "list_all (\<lambda>(n, d). (n, d) \<in> set (GetOpenAPIDefinitions E) \<and>
     list_ex (\<lambda>m. m \<in> set incompleteModels \<or> m \<in> set undefinedModels) (od_Dependencies d)) (incompleteDefinitions E)"
  unfolding incompleteDefinitions_def
  by (simp add: model_dependencies incomplete_facts undefined_facts) (simp add: GetOpenAPIDefinitions_def)

section \<open>Properties\<close>

lemma models_exact:
  "openapiOK E \<Longrightarrow> list_all (\<lambda>p. dependenciesExact E (snd p)) (GetOpenAPIDefinitions E)"
  by (simp add: GetOpenAPIDefinitions_def model_exact)

lemma models_wf: "openapiOK E \<Longrightarrow> list_all (\<lambda>p. wfDefinition (snd p)) (GetOpenAPIDefinitions E)"
  by (simp add: GetOpenAPIDefinitions_def model_wf)

lemma models_from_undefined:
  assumes "openapiOK E" and "n \<in> fst ` set (GetOpenAPIDefinitions E)"
  shows "resolvable (GetOpenAPIDefinitions E) (set undefinedModels) n"
proof -
  have "n \<in> set modelNames" using assms(2) by (simp flip: model_keys [of E])
  then show ?thesis
    using models_split [OF assms(1), of "set undefinedModels"] incomplete_from_undefined [OF assms(1)]
    by (auto simp: list_all_iff)
qed

lemma incomplete_unresolvable:
  assumes "n \<in> set incompleteModels"
  shows "\<not> resolvable (GetOpenAPIDefinitions E) {} n"
proof (rule unresolvable [OF model_keys_distinct, where N = "set incompleteModels \<union> set undefinedModels"])
  fix n d
  assume nd: "(n, d) \<in> set (GetOpenAPIDefinitions E)" and "n \<in> set incompleteModels \<union> set undefinedModels"
  moreover have "n \<in> fst ` set (GetOpenAPIDefinitions E)" using nd by (rule rev_image_eqI) simp
  then have "n \<notin> set undefinedModels" using undefined_not_keys [of E] by blast
  ultimately have "n \<in> set (map fst (incompleteDefinitions E))" by (simp add: incomplete_names)
  then obtain d' where d': "(n, d') \<in> set (incompleteDefinitions E)" by auto
  then have "d' = d"
    using unique_definition [OF model_keys_distinct _ nd] incomplete_dependencies [of E] by (auto simp: list_all_iff)
  then show "list_ex (\<lambda>m. m \<in> set incompleteModels \<union> set undefinedModels) (od_Dependencies d)"
    using d' incomplete_dependencies [of E] by (auto simp: list_all_iff)
qed (use assms in auto)

text \<open>C17. \<^bold>\<open>Which models the adapter's API document can show.\<close> Of the models in the map, exactly the 28 of
  \<open>incompleteModels\<close> cannot be resolved: from each of them the dependencies lead to \<open>runtime.RawExtension\<close>,
  \<open>runtime.Object\<close> or \<open>intstr.IntOrString\<close>, for which the map has no entry. Every other model resolves completely, and so
  do all models the adapter's routes answer with.\<close>

theorem openapi_models_resolve:
  assumes "openapiOK E"
  shows "(\<forall>n. n \<in> fst ` set (GetOpenAPIDefinitions E) \<longrightarrow>
      (resolvable (GetOpenAPIDefinitions E) {} n \<longleftrightarrow> n \<notin> set incompleteModels)) \<and>
    list_all (resolvable (GetOpenAPIDefinitions E) {}) servedModels"
proof (intro conjI allI impI)
  fix n assume "n \<in> fst ` set (GetOpenAPIDefinitions E)"
  then have "n \<in> set modelNames" by (simp flip: model_keys [of E])
  then show "resolvable (GetOpenAPIDefinitions E) {} n \<longleftrightarrow> n \<notin> set incompleteModels"
    using models_split [OF assms, of "{}"] incomplete_unresolvable [of n E] by (auto simp: list_all_iff)
next
  show "list_all (resolvable (GetOpenAPIDefinitions E) {}) servedModels"
    using assms by (simp add: servedModels_def model_rules model_dependencies)
qed

text \<open>C18. \<^bold>\<open>The dependencies of a model are the models its schema refers to\<close>, neither more nor fewer, whatever the callback
  makes of a name; each has an entry in the map or is one of the three names without one; and there is
  no circle of dependencies, so resolving a model always ends.\<close>

theorem openapi_dependencies_exact:
  assumes "openapiOK E"
  shows "wf (dependency (GetOpenAPIDefinitions E)) \<and>
    (\<forall>n d. (n, d) \<in> set (GetOpenAPIDefinitions E) \<longrightarrow>
       set (schemaRefs (od_Schema d)) = oa_ref E ` set (od_Dependencies d) \<and>
       set (od_Dependencies d) \<subseteq> fst ` set (GetOpenAPIDefinitions E) \<union> set undefinedModels)"
proof (intro conjI allI impI)
  show "wf (dependency (GetOpenAPIDefinitions E))"
    by (rule resolvable_wf [OF model_keys_distinct undefined_not_keys models_from_undefined [OF assms]])
next
  fix n d assume nd: "(n, d) \<in> set (GetOpenAPIDefinitions E)"
  have "dependenciesExact E d" using models_exact [OF assms] nd by (auto simp: list_all_iff)
  then show "set (schemaRefs (od_Schema d)) = oa_ref E ` set (od_Dependencies d)"
    by (auto simp: dependenciesExact_def list_all_iff)
  have "n \<in> fst ` set (GetOpenAPIDefinitions E)" using nd by (rule rev_image_eqI) simp
  then show "set (od_Dependencies d) \<subseteq> fst ` set (GetOpenAPIDefinitions E) \<union> set undefinedModels"
    using resolvable_dependencies [OF model_keys_distinct nd models_from_undefined [OF assms]] undefined_not_keys [of E]
    by blast
qed


text \<open>The property \<open>window\<close> of the pod and node metrics has the default \<open>0\<close> and refers to the model of a duration, which is a
  string: the default is not a value of the property.\<close>

theorem openapi_window_default:
  assumes "openapiOK E"
  shows "[Default (JInt 0), Ref (oa_ref E pkg_apis_meta_v1_Duration)] \<in>
      set (allSchemas (od_Schema (schema_pkg_apis_metrics_v1beta1_PodMetrics E))) \<inter>
      set (allSchemas (od_Schema (schema_pkg_apis_metrics_v1beta1_NodeMetrics E))) \<and>
    Type [''string''] \<in> set (od_Schema (schema_pkg_apis_meta_v1_Duration E))"
  using openapi_types [OF assms]
  by (simp add: schema_pkg_apis_metrics_v1beta1_PodMetrics_def schema_pkg_apis_metrics_v1beta1_NodeMetrics_def
    schema_pkg_apis_meta_v1_Duration_def allSchemas_def)

section \<open>An instance\<close>

lemma exampleOpenAPI_OK: "openapiOK exampleOpenAPI"
  by (simp add: openapiOK_def exampleOpenAPI_def)

theorem openapi_models_resolve_witness:
  "\<not> resolvable (GetOpenAPIDefinitions exampleOpenAPI) {} k8sio_api_core_v1_Pod \<and>
   resolvable (GetOpenAPIDefinitions exampleOpenAPI) {} k8sio_api_core_v1_PersistentVolume \<and>
   resolvable (GetOpenAPIDefinitions exampleOpenAPI) {} pkg_apis_external_metrics_v1beta1_ExternalMetricValueList"
proof -
  note R = openapi_models_resolve [OF exampleOpenAPI_OK]
  have key: "n \<in> set modelNames \<Longrightarrow> n \<in> fst ` set (GetOpenAPIDefinitions exampleOpenAPI)" for n
    by (simp flip: model_keys [of exampleOpenAPI])
  have "k8sio_api_core_v1_Pod \<in> set modelNames" "k8sio_api_core_v1_PersistentVolume \<in> set modelNames"
    by (simp_all add: modelNames_def)
  moreover have "k8sio_api_core_v1_PersistentVolume \<notin> set incompleteModels"
    by (simp add: incompleteModels_def model_names)
  moreover have "pkg_apis_external_metrics_v1beta1_ExternalMetricValueList \<in> set servedModels"
    by (simp add: servedModels_def)
  ultimately show ?thesis using R key incomplete_facts by (auto simp: list_all_iff)
qed

theorem openapi_dependencies_exact_witness:
  "set (schemaRefs (od_Schema (schema_k8sio_api_core_v1_Affinity exampleOpenAPI))) =
     {k8sio_api_core_v1_NodeAffinity, k8sio_api_core_v1_PodAffinity, k8sio_api_core_v1_PodAntiAffinity}"
proof -
  have "(k8sio_api_core_v1_Affinity, schema_k8sio_api_core_v1_Affinity exampleOpenAPI)
      \<in> set (GetOpenAPIDefinitions exampleOpenAPI)"
    by (simp add: GetOpenAPIDefinitions_def)
  then show ?thesis
    using openapi_dependencies_exact [OF exampleOpenAPI_OK]
    by (auto simp: model_dependencies exampleOpenAPI_def)
qed


end
