(* ===== verification/Spec2Isabelle.thy ===== *)
theory Spec2Isabelle
  imports Webhooks Pod_Lifecycle Storage_Controller OAPServer_Convergence EventExporter_Controller
    Sort_Interfaces Operator_Main Adapter_Main Deep_Copy OpenAPI
begin

text \<open>
  A verification of SkyWalking Cloud on Kubernetes (SWCK).

  \<^bold>\<open>The program.\<close> The operator (\<open>src/operator\<close>) is a Kubernetes controller manager. Users create custom
  resources (OAP server, user interface, storage, BanyanDB, satellite, fetcher, event exporter, Java
  agents, agent configurations and OAP configurations). An admission request first passes the
  defaulting and validating webhook of its kind; the reconciler of the kind then renders the kind's
  manifest templates, brings the resulting objects to the API server, and reports their state in the
  status of the resource. Independently, a webhook on pods injects the Java agent into labelled
  pods, guided by the pod's annotations and by \<open>SwAgent\<close> resources; the Java agent controller
  watches what was injected. The adapter (\<open>src/adapter\<close>) serves metrics of an OAP server to the
  Kubernetes autoscaler.

  \<^bold>\<open>The theories\<close>, in the order of import:
  \<^item> \<open>Prelude\<close>: Go strings, maps, errors and panics. A Go string is a list of bytes; a map is a partial
    function, and a loop over it takes the list of entries in the order it visits them, with \<open>ranges\<close>
    saying that the list is such an order. An error result is the left side of a sum or an option, a
    run-time panic a value of \<open>gopanic\<close>.
  \<^item> \<open>Kube_Types\<close>, \<open>Api_Types\<close>: the Kubernetes objects and the custom resources of
    \<open>operator/apis/operator/v1alpha1/*_types.go\<close> as records.
  \<^item> \<open>Webhooks\<close>: \<open>Default\<close>, \<open>ValidateCreate\<close>, \<open>ValidateUpdate\<close>, \<open>ValidateDelete\<close> of every kind
    (\<open>*_webhook.go\<close>). The locale \<open>admission_webhook\<close> states what defaulter and validator promise
    together and is interpreted for all eleven kinds.
  \<^item> \<open>Validate\<close>, \<open>Injector\<close>, \<open>Injection\<close>: the injector (\<open>operator/pkg/operator/injector\<close>): validators with
    address grammars, the annotation overlay and the methods of \<open>SidecarInjectField\<close>, the chain of
    injection steps and the admission handler.
  \<^item> \<open>Encoding\<close>, \<open>Kube_Object\<close>, \<open>Kube_Template\<close>, \<open>Kube_Apply\<close>: \<open>operator/pkg/kubernetes\<close>: content hashes as
    versions (FNV-1a over JSON text), template clean-up, error collection, and application of
    manifests to a server.
  \<^item> \<open>Controller_Common\<close>, \<open>Managed_Components\<close>, \<open>Controllers_Basic\<close>: what the reconcilers share, the
    locales \<open>reconciler\<close> (the contract with the controller manager) and \<open>managed_component\<close> (apply,
    then report), a sublocale of the former, and the reconcilers of OAP server, user interface,
    satellite, BanyanDB, fetcher and SwAgent, which interpret them.
  \<^item> \<open>Storage_Controller\<close>, \<open>JavaAgent_Controller\<close>, \<open>EventExporter_Controller\<close>, \<open>OAPConfig_Controllers\<close>: the
    other reconcilers, the last two on \<open>Config_Maps\<close> (config maps of the server) and \<open>Digest\<close> (MD5 on
    32 bit words).
  \<^item> \<open>Sort_Interfaces\<close>: the three implementations of \<open>sort.Interface\<close>, with the locale \<open>sort_interface\<close> for what
    they promise to \<open>sort.Sort\<close>.
  \<^item> \<open>Pod_Lifecycle\<close>: the life of a pod through webhook, users and the Java agent controller's event
    filter as a step relation.
  \<^item> \<open>Manifest_Repo\<close>: the embedded repository of manifests (\<open>repo.go\<close>) with the path functions it uses.
  \<^item> \<open>Operator_Config\<close>: the configuration file (\<open>config.go\<close>).
  \<^item> \<open>Operator_Main\<close>: the entry point of the operator (\<open>main.go\<close>, \<open>groupversion_info.go\<close>, the \<open>init\<close>,
    \<open>SetupWithManager\<close> and \<open>SetupWebhookWithManager\<close> functions): the scheme, the calls made of the
    controller manager in their order, and which admission requests reach them according to
    \<open>config/webhook/manifests.yaml\<close>.
  \<^item> \<open>Shipped_Manifests\<close>: the embedded tree of manifests and the identity of every object in it; which
    resources address the same objects.
  \<^item> \<open>Reconcile_System\<close>: several resources on one server; the locale \<open>interleaving\<close> for schedules of runs, to
    which every managed component is a sublocale.
  \<^item> \<open>OAPServer_Convergence\<close>: convergence of the reconciler that prepares its resource first.
  \<^item> \<open>Provider\<close>, \<open>Adapter_Main\<close>: the adapter's provider and registry, and its entry point.
  \<^item> \<open>Go_Heap\<close>, \<open>Deep_Copy\<close>: memory with aliasing, and the copy functions of every API type
    (\<open>zz_generated.deepcopy.go\<close>) on it.
  \<^item> \<open>OpenAPI_Schema\<close>, \<open>OpenAPI_Names\<close>, \<open>OpenAPI_Core_A\<close>, \<open>OpenAPI_Core_B\<close>, \<open>OpenAPI_Meta\<close>, \<open>OpenAPI\<close>: the 282 models of the
    adapter's API document (\<open>zz_generated.openapi.go\<close>), without their description texts.
  \<^item> this theory: properties that span controllers.

  \<^bold>\<open>State and effects.\<close> The API server is a type parameter \<open>'w\<close>; every client call is a function of a
  record (\<open>Client\<close>, \<open>Reads\<close>, \<open>StatusEnv\<close>, \<open>ConfigMaps\<close> and others) that returns the new server where
  the call can change it, and an operation threads the server through its calls in the order of the
  source. Laws of the server are named predicates (\<open>honestServer\<close>, \<open>steadyServer\<close>, \<open>keepsConfigMaps\<close>,
  \<open>retriesConflicts\<close>), each satisfied by an example server on which the witnesses run. Integers of
  32 bits are words where the program computes with them.

  \<^bold>\<open>What is shown.\<close> Injection: the webhook is all or nothing, injects exactly the fields resolved from
  annotations, agent configuration and defaults for every order of map iteration, changes nothing else,
  and over the whole life of a pod injects it at most once, which is when its controller sees it.
  Admission: per kind, the admitted requests are exactly the acceptable ones. Application: versions depend on content only, a run of \<open>ApplyAll\<close> refines an
  update of a map of versions, a second run changes nothing, the first error ends a run.
  Reconciliation: the contract on rescheduling, convergence of single resources and of user interfaces
  served in any order, the agreement of OAP server and storage on endpoint and credentials, and what
  each controller writes. The system: the operator starts only when everything is set up, knows
  every kind it works with, finds its manifests, and is asked for the admissions it serves; which resources
  share objects is characterised exactly. Adapter: label values survive being
  split into pieces, a query returns the one value the last but one point of the series gives, the
  registry follows the server, the flags decide what is served. Manifests: the listing always ends and is exact.
  Generated code: a deep copy of any API object has the content of the original and shares no memory with it; the
  models of the API document are well-formed, without circles, and all but 28 of them can be resolved. Several theorems state
  behaviour that is surely not intended (a status update that is never retried, a certificate that is
  never renewed, a condition that never changes, files that are never mounted, a role binding that two
  resources overwrite in turn, an ingress shared by accident, a validator that is never called, a status that is
  written in every run, models without a definition).

  \<^bold>\<open>Loops.\<close> Loops over slices and map entries are structural recursions. The listing of manifests
  descends by path, not by structure, and takes fuel; \<open>GetFilesRecursive\<close> supplies more than the size of
  the tree, and the theorem on it shows that this always suffices. Waiting for a signed certificate can
  go on forever in the program; it is a partial function whose result is \<open>None\<close> then, and when it
  ends is characterised.

  \<^bold>\<open>Parameters.\<close> Outside the repository, and therefore arguments of the definitions, are the API server
  and its client, the template engine, the YAML and JSON decoders, the JSON merge patch, the regular
  expression compiler, quantities and label selectors of Kubernetes, the retry helper, semantic
  comparison, certificate functions, the clock, the OAP client, the types of other modules with their copy functions
  and their OpenAPI declarations, and \<open>sort.Sort\<close>, which leaves the order of equal elements open.

  \<^bold>\<open>Not modelled.\<close> What the shipped templates render beyond the identity of their objects: the template
  engine is a parameter, and the theorems that need it assume that the header lines of a manifest come
  out as written. The description texts of the API document are prose. Logging
  has no effect on the state and is left out, except for the messages with which the entry points
  end. Runs of reconcilers are interleaved as a whole: the manager serves one request of a resource at a
  time, and calls of two runs that overlap are not interleaved.
\<close>

section \<open>Status updates\<close>

text \<open>C40. No status update is retried. Nine controllers wrap their update in \<open>RetryOnConflict\<close>, but what
  the wrapped function returns is the collected error, in which a conflict cannot be recognised. As
  long as the helper retries conflicts only, every update is made exactly once, and when the server
  answers with a conflict, it has failed.\<close>

theorem status_updates_not_retried:
  assumes "retriesConflicts E1" and "retriesConflicts E2" and "retriesConflicts E3" and "retriesConflicts E4"
    and "retriesConflicts E5" and "retriesConflicts E6" and "retriesConflicts E7" and "retriesConflicts E8"
    and "retriesConflicts E9"
  shows "OAPServer_updateStatus E1 o1 s1 = statusAttempt E1 ''OAPServer'' ''failed to get oapServer: '' ''failed to update status of OAPServer: '' o1 s1
    \<and> UI_updateStatus E2 o2 s2 = statusAttempt E2 ''UI'' ''failed to get ui: '' ''failed to update status of ui: '' o2 s2
    \<and> Satellite_updateStatus E3 o3 s3 = statusAttempt E3 ''Satellite'' ''failed to get satellite: '' ''failed to update status of satellite: '' o3 s3
    \<and> BanyanDB_updateStatus E4 o4 s4 = statusAttempt E4 ''BanyanDB'' ''failed to get banyanDB: '' ''failed to update status of banyandb: '' o4 s4
    \<and> Storage_updateStatus E5 o5 s5 = statusAttempt E5 ''Storage'' ''failed to get storage: '' ''failed to update status of storage: '' o5 s5
    \<and> EventExporter_updateStatus E6 o6 s6 = statusAttempt E6 ''EventExporter'' ''failed to get EventExporter: '' ''failed to update status of EventExporter: '' o6 s6
    \<and> OAPServerConfig_updateStatus E7 o7 s7 = statusAttempt E7 ''OAPServerConfig'' ''failed to get oapServerConfig: '' ''failed to update status: '' o7 s7
    \<and> OAPServerDynamicConfig_updateStatus E8 o8 s8 = statusAttempt E8 ''OAPServerDynamicConfig'' ''failed to get OAPServerDynamicConfig: '' ''failed to update status: '' o8 s8
    \<and> JavaAgent_updateStatus E9 o9 s9 = statusAttempt E9 ''JavaAgent'' ''failed to get javaagent: '' ''failed to update status of JavaAgent: '' o9 s9"
  using assms
  by (simp only: UI_updateStatus_def Satellite_updateStatus_def BanyanDB_updateStatus_def OAPServer_updateStatus_def
      Storage_updateStatus_def EventExporter_updateStatus_def OAPServerConfig_updateStatus_def
      OAPServerDynamicConfig_updateStatus_def JavaAgent_updateStatus_def
      retry_statusAttempt simp_thms)

theorem status_updates_not_retried_witness:
  "\<forall>z o' st. UI_updateStatus (plainStatusEnv z) o' st =
     statusAttempt (plainStatusEnv z) ''UI'' ''failed to get ui: '' ''failed to update status of ui: '' o' st"
  by (intro allI) (rule status_updates_not_retried [OF plainStatusEnv_retries plainStatusEnv_retries
    plainStatusEnv_retries plainStatusEnv_retries plainStatusEnv_retries plainStatusEnv_retries plainStatusEnv_retries
    plainStatusEnv_retries plainStatusEnv_retries, THEN conjunct2, THEN conjunct1])

section \<open>The contract of the reconcilers\<close>


section \<open>OAP server and storage agree\<close>

text \<open>What is relied on of the comparison \<open>DeepDerivative\<close> on strings: an empty string is covered by
  everything, any other only by itself.\<close>

definition derivesString :: "(string \<Rightarrow> string \<Rightarrow> bool) \<Rightarrow> bool" where
  "derivesString dd \<longleftrightarrow> (\<forall>a b. dd a b \<longleftrightarrow> a = [] \<or> a = b)"

text \<open>The user's secret as the two controllers read it, and what it has to hold.\<close>

definition userSecret :: "'w Reads \<Rightarrow> Storage \<Rightarrow> 'w \<Rightarrow> Secret" where
  "userSecret rd s w =
     (case rd_Secret rd (objectKey (cr_Namespace s) (us_SecretName (sec_User (sto_Security (cr_Spec s))))) w of
        Inl err \<Rightarrow> zeroSecret | Inr sec \<Rightarrow> sec)"

definition holdsUser :: "'w Reads \<Rightarrow> Storage \<Rightarrow> 'w \<Rightarrow> bool" where
  "holdsUser rd s w \<longleftrightarrow>
     us_SecretName (sec_User (sto_Security (cr_Spec s))) = ''default''
     \<or> (distinct (map fst (sec_Data (userSecret rd s w)))
        \<and> {''username'', ''password''} \<subseteq> fst ` set (sec_Data (userSecret rd s w)))"

lemma userLoop_keeps:
  "''username'' \<notin> fst ` set it \<Longrightarrow> fst (userLoop it up) = fst up"
  "''password'' \<notin> fst ` set it \<Longrightarrow> snd (userLoop it up) = snd up"
  by (induction it up rule: userLoop.induct) auto

lemma userLoop_finds:
  "distinct (map fst it) \<Longrightarrow> (''username'', u) \<in> set it \<Longrightarrow> fst (userLoop it up) = u"
  "distinct (map fst it) \<Longrightarrow> (''password'', p) \<in> set it \<Longrightarrow> snd (userLoop it up) = p"
  by (induction it up rule: userLoop.induct) (force simp: userLoop_keeps)+

lemma userEnvLoop_contains:
  "EnvVarOf n v \<in> set (userEnvLoop it config) \<longleftrightarrow> EnvVarOf n v \<in> set config
    \<or> (''username'', v) \<in> set it \<and> n \<in> {''SW_ES_USER'', ''ELASTIC_USER''}
    \<or> (''password'', v) \<in> set it \<and> n \<in> {''SW_ES_PASSWORD'', ''ELASTIC_PASSWORD''}"
  by (induction it config rule: userEnvLoop.induct) (auto simp: EnvVarOf_def)

lemma credentials:
  assumes "holdsUser rd s w" and "us_SecretName (sec_User (sto_Security (cr_Spec s))) \<noteq> []"
  shows "EnvVarOf ''ELASTIC_USER'' (fst (storageUser rd s w)) \<in> set (userEnv rd s w config)
    \<and> EnvVarOf ''ELASTIC_PASSWORD'' (snd (storageUser rd s w)) \<in> set (userEnv rd s w config)"
proof (cases "us_SecretName (sec_User (sto_Security (cr_Spec s))) = ''default''")
  case True
  then show ?thesis by (simp add: storageUser_def userEnv_def Let_def)
next
  case False
  let ?it = "sec_Data (userSecret rd s w)"
  obtain u p where d: "distinct (map fst ?it)" and up: "(''username'', u) \<in> set ?it" "(''password'', p) \<in> set ?it"
    using assms(1) False unfolding holdsUser_def by auto
  have "storageUser rd s w = userLoop ?it ([], [])" "userEnv rd s w config = userEnvLoop ?it config"
    using assms(2) False by (simp_all add: storageUser_def userEnv_def userSecret_def)
  then show ?thesis
    using userLoop_finds(1) [OF d up(1)] userLoop_finds(2) [OF d up(2)] up by (simp add: userEnvLoop_contains)
qed

text \<open>C31. An OAP server finds the storage it refers to. When a storage is managed by the operator, the
  OAP server is configured with exactly the protocol the storage's manifests are rendered with and
  the service name the storage controller chose, on port 9200; the user's own configuration stays in
  front; and when the storage is secured and its secret holds a user, both sides are given the same
  user and password.\<close>

theorem storage_endpoints_agree:
  assumes "derivesString dd" and "sto_ConnectType (cr_Spec s) \<notin> {[], ''external''}"
    and "oap_StorageConfig (cr_Spec o') = Some rs"
    and "checkSecurity rd s w = Inr s'"
  shows "\<exists>o'' extra. ConfigStorage rd parseURL dd s o' w = Inr o''
    \<and> oap_Config (cr_Spec o'') = oap_Config (cr_Spec o') @ extra
        @ [EnvVarOf ''SW_STORAGE_ES_HTTP_PROTOCOL'' (getProtocol (sec_TLS (sto_Security (cr_Spec s')))),
           EnvVarOf ''SW_STORAGE_ES_CLUSTER_NODES'' (sto_ServiceName (cr_Spec s') @ '':9200'')]
    \<and> (holdsUser rd s w \<and> us_SecretName (sec_User (sto_Security (cr_Spec s))) \<noteq> [] \<longrightarrow>
        (\<exists>user password. {EnvVarOf ''SW_ES_USER'' user, EnvVarOf ''SW_ES_PASSWORD'' password} \<subseteq> set (oap_Config (cr_Spec o''))
           \<and> {EnvVarOf ''ELASTIC_USER'' user, EnvVarOf ''ELASTIC_PASSWORD'' password} \<subseteq> set (sto_Config (cr_Spec s'))))"
proof -
  obtain user password where up: "storageUser rd s w = (user, password)" by force
  have dd: "\<not> dd (sto_ConnectType (cr_Spec s)) ''external''" using assms(1,2) by (simp add: derivesString_def)
  let ?extra = "[EnvVarOf ''SW_STORAGE'' (sto_Type (cr_Spec s))]
    @ (if us_SecretName (sec_User (sto_Security (cr_Spec s))) \<noteq> [] then [EnvVarOf ''SW_ES_USER'' user, EnvVarOf ''SW_ES_PASSWORD'' password] else [])
    @ (if sec_TLS (sto_Security (cr_Spec s)) then [EnvVarOf ''SW_STORAGE_ES_SSL_JKS_PATH'' ''/skywalking/p12/storage.p12'',
         EnvVarOf ''SW_STORAGE_ES_SSL_JKS_PASS'' ''skywalking''] else [])"
  obtain o'' where o'': "ConfigStorage rd parseURL dd s o' w = Inr o''"
    and cfg: "oap_Config (cr_Spec o'') = oap_Config (cr_Spec o') @ ?extra
        @ [EnvVarOf ''SW_STORAGE_ES_HTTP_PROTOCOL'' (getProtocol (sec_TLS (sto_Security (cr_Spec s)))),
           EnvVarOf ''SW_STORAGE_ES_CLUSTER_NODES'' ((if sec_TLS (sto_Security (cr_Spec s)) then ''skywalking-storage''
              else cr_Name s @ ''-'' @ sto_Type (cr_Spec s)) @ '':9200'')]"
    using dd by (simp add: ConfigStorage_def assms(3) up getProtocol_def Let_def)
  have svc: "sto_ServiceName (cr_Spec s') = (if sec_TLS (sto_Security (cr_Spec s)) then ''skywalking-storage''
              else cr_Name s @ ''-'' @ sto_Type (cr_Spec s))"
    and tls: "sec_TLS (sto_Security (cr_Spec s')) = sec_TLS (sto_Security (cr_Spec s))"
    and conf: "set (userEnv rd s w (sto_Config (cr_Spec s))) \<subseteq> set (sto_Config (cr_Spec s'))"
    using checkSecurity_result [OF assms(4)] by simp_all
  show ?thesis
    using o'' cfg credentials [of rd s w "sto_Config (cr_Spec s)"] conf unfolding svc tls up by auto
qed

definition securedStorage :: Storage where
  "securedStorage = demoStorage\<lparr>cr_Spec := (cr_Spec demoStorage)\<lparr>sto_Security := \<lparr>sec_TLS = True, sec_User = \<lparr>us_SecretName = ''default''\<rparr>\<rparr>\<rparr>\<rparr>"

theorem storage_endpoints_agree_witness:
  "\<exists>o'' s'. ConfigStorage (re_Reads demoReconciler) (\<lambda>u. None) (\<lambda>a b. a = [] \<or> a = b) securedStorage demoOAPServer (demoStorage, Map.empty) = Inr o''
    \<and> checkSecurity (re_Reads demoReconciler) securedStorage (demoStorage, Map.empty) = Inr s'
    \<and> EnvVarOf ''SW_STORAGE_ES_HTTP_PROTOCOL'' ''https'' \<in> set (oap_Config (cr_Spec o''))
    \<and> (\<exists>user. EnvVarOf ''SW_ES_USER'' user \<in> set (oap_Config (cr_Spec o''))
        \<and> EnvVarOf ''ELASTIC_USER'' user \<in> set (sto_Config (cr_Spec s')))"
proof -
  have sp: "sto_ConnectType (cr_Spec securedStorage) = ''internal''" "sec_TLS (sto_Security (cr_Spec securedStorage))"
    "us_SecretName (sec_User (sto_Security (cr_Spec securedStorage))) = ''default''" "sto_Instances (cr_Spec securedStorage) = 3"
    by (simp_all add: securedStorage_def demoStorage_def)
  obtain s' where s': "checkSecurity (re_Reads demoReconciler) securedStorage (demoStorage, Map.empty) = Inr s'"
    by (simp add: checkSecurity_def masterNodes_def Let_def security_steps sp)
  have "oap_StorageConfig (cr_Spec demoOAPServer) = Some \<lparr>rs_Name = ''es'', rs_Storage = None\<rparr>"
    by (simp add: demoOAPServer_def)
  from storage_endpoints_agree [OF _ _ this s', of "\<lambda>a b. a = [] \<or> a = b" "\<lambda>u. None"]
  show ?thesis using s' checkSecurity_result(2) [OF s']
    by (auto simp: derivesString_def sp holdsUser_def getProtocol_def)
qed

end
